(* ===== verification/Prelude.thy ===== *)
theory Prelude
  imports Main "HOL-Library.Word" "HOL-Library.List_Lexorder" "HOL-Library.Char_ord"
    "HOL-Library.AList" "HOL-Library.Multiset"
begin

text \<open>
  Shared vocabulary of the development: machine-integer and byte-string types, Rust's
  \<open>Result\<close> as a sum type with the \<open>?\<close> operator as \<open>rbind\<close>, big-endian integer encodings,
  and the two dictionaries the code uses. A \<open>HashMap\<close> is an association list with distinct
  keys whose order stands for the unspecified iteration order (theorems about an iteration
  therefore speak of the set of results only); a \<open>BTreeMap\<close> is an association list with
  strictly ascending keys, which is its iteration order. Both implement the interface
  \<open>dictionary\<close>.
\<close>

section \<open>Types and fact collections\<close>

named_theorems yutha_defs \<open>definitions that evaluation and case analysis unfold\<close>
named_theorems dict_simps \<open>look-up laws of the dictionaries\<close>

type_synonym byte = "8 word"
type_synonym u32 = "32 word"
type_synonym u64 = "64 word"
type_synonym bytes = "byte list"

text \<open>A Rust \<open>String\<close> is its UTF-8 bytes; \<open>char\<close> is an 8-bit character.\<close>

definition as_bytes :: "string \<Rightarrow> bytes" where
  "as_bytes s = map of_char s"

lemma length_as_bytes [simp]: "length (as_bytes s) = length s"
  by (simp add: as_bytes_def)

lemma unat_of_char_byte: "unat (of_char c :: byte) = of_char c"
proof -
  have "(of_char c :: nat) mod 256 = of_char c"
    by (rule of_char_mod_256)
  then have "(of_char c :: nat) < 256"
    by (metis mod_less_divisor zero_less_numeral)
  then have "unat (of_nat (of_char c) :: byte) = of_char c"
    by (simp add: unat_of_nat)
  then show ?thesis
    by (simp only: of_nat_of_char)
qed

lemma of_char_byte_inj: "(of_char c :: byte) = of_char d \<longleftrightarrow> c = d"
  by (metis of_char_eq_iff unat_of_char_byte)

lemma as_bytes_inj [simp]: "as_bytes s = as_bytes t \<longleftrightarrow> s = t"
  by (auto simp: as_bytes_def of_char_byte_inj inj_map_eq_map inj_def)

section \<open>Results\<close>

type_synonym ('e, 'a) result = "'e + 'a"

fun rbind :: "'e + 'a \<Rightarrow> ('a \<Rightarrow> 'e + 'b) \<Rightarrow> 'e + 'b" where
  "rbind (Inl e) f = Inl e"
| "rbind (Inr x) f = f x"

fun map_err :: "('e \<Rightarrow> 'f) \<Rightarrow> 'e + 'a \<Rightarrow> 'f + 'a" where
  "map_err g (Inl e) = Inl (g e)"
| "map_err g (Inr x) = Inr x"

definition ok_or :: "'a option \<Rightarrow> 'e \<Rightarrow> 'e + 'a" where
  "ok_or x e = (case x of None \<Rightarrow> Inl e | Some y \<Rightarrow> Inr y)"

lemma ok_or_simps [simp]: "ok_or None e = Inl e" "ok_or (Some y) e = Inr y"
  by (simp_all add: ok_or_def)

lemma rbind_eq_Inr: "rbind x f = Inr y \<longleftrightarrow> (\<exists>a. x = Inr a \<and> f a = Inr y)"
  by (cases x) auto

lemma rbind_eq_Inl: "rbind x f = Inl e \<longleftrightarrow> x = Inl e \<or> (\<exists>a. x = Inr a \<and> f a = Inl e)"
  by (cases x) auto

lemma map_err_eq_Inr [simp]: "map_err g x = Inr y \<longleftrightarrow> x = Inr y"
  by (cases x) auto

lemma ok_or_eq_Inr [simp]: "ok_or x e = Inr y \<longleftrightarrow> x = Some y"
  by (cases x) auto

fun is_ok :: "'e + 'a \<Rightarrow> bool" where
  "is_ok (Inl e) = False"
| "is_ok (Inr x) = True"

lemma is_ok_iff: "is_ok r \<longleftrightarrow> (\<exists>x. r = Inr x)"
  by (cases r) auto

text \<open>Collecting an iterator of results: the first error wins.\<close>

fun collect_results :: "('e + 'a) list \<Rightarrow> 'e + 'a list" where
  "collect_results [] = Inr []"
| "collect_results (Inl e # rs) = Inl e"
| "collect_results (Inr x # rs) = rbind (collect_results rs) (\<lambda>xs. Inr (x # xs))"

lemma collect_results_map_Inr [simp]: "collect_results (map (\<lambda>x. Inr (f x)) xs) = Inr (map f xs)"
  by (induction xs) auto

lemma collect_results_Inr_iff:
  "collect_results rs = Inr xs \<longleftrightarrow> rs = map Inr xs"
proof (induction rs arbitrary: xs)
  case Nil
  then show ?case by auto
next
  case (Cons r rs)
  then show ?case by (cases r) (auto simp: rbind_eq_Inr)
qed

text \<open>\<open>opt.map(f).transpose()\<close>: convert the value of an option, if there is one.\<close>

definition transpose_map :: "('p \<Rightarrow> 'e + 'a) \<Rightarrow> 'p option \<Rightarrow> 'e + 'a option" where
  "transpose_map f p = (case p of None \<Rightarrow> Inr None | Some q \<Rightarrow> rbind (f q) (\<lambda>a. Inr (Some a)))"

lemma transpose_map_simps [simp]:
  "transpose_map f None = Inr None"
  "transpose_map f (Some q) = rbind (f q) (\<lambda>a. Inr (Some a))"
  by (simp_all add: transpose_map_def)

section \<open>Big-endian encodings\<close>

fun be_bytes :: "nat \<Rightarrow> nat \<Rightarrow> bytes" where
  "be_bytes 0 v = []"
| "be_bytes (Suc n) v = be_bytes n (v div 256) @ [of_nat (v mod 256)]"

definition be_value :: "bytes \<Rightarrow> nat" where
  "be_value bs = foldl (\<lambda>a b. a * 256 + unat b) 0 bs"

definition u64_to_be_bytes :: "u64 \<Rightarrow> bytes" where
  "u64_to_be_bytes w = be_bytes 8 (unat w)"

definition u32_to_be_bytes :: "u32 \<Rightarrow> bytes" where
  "u32_to_be_bytes w = be_bytes 4 (unat w)"

lemma length_be_bytes [simp]: "length (be_bytes n v) = n"
  by (induction n arbitrary: v) auto

lemma be_value_snoc: "be_value (bs @ [b]) = be_value bs * 256 + unat b"
  by (simp add: be_value_def)

lemma be_value_be_bytes: "v < 256 ^ n \<Longrightarrow> be_value (be_bytes n v) = v"
proof (induction n arbitrary: v)
  case 0
  then show ?case by (simp add: be_value_def)
next
  case (Suc n)
  from Suc.prems have "v div 256 < 256 ^ n"
    by (simp add: less_mult_imp_div_less mult.commute)
  then have "be_value (be_bytes n (v div 256)) = v div 256"
    by (rule Suc.IH)
  moreover have "unat (of_nat (v mod 256) :: byte) = v mod 256"
    by (simp add: unat_of_nat)
  ultimately show ?case
    by (simp add: be_value_snoc)
qed

lemma be_bytes_be_value: "be_bytes (length bs) (be_value bs) = bs"
proof (induction bs rule: rev_induct)
  case Nil
  then show ?case by simp
next
  case (snoc b bs)
  have "unat b < 256"
    using unsigned_less [of b, where 'a = nat] by simp
  then have "(be_value bs * 256 + unat b) div 256 = be_value bs"
    and "(be_value bs * 256 + unat b) mod 256 = unat b"
    by simp_all
  with snoc show ?case
    by (simp add: be_value_snoc)
qed

lemma length_u64_to_be_bytes [simp]: "length (u64_to_be_bytes w) = 8"
  by (simp add: u64_to_be_bytes_def)

lemma length_u32_to_be_bytes [simp]: "length (u32_to_be_bytes w) = 4"
  by (simp add: u32_to_be_bytes_def)

lemma u64_to_be_bytes_inj [simp]: "u64_to_be_bytes a = u64_to_be_bytes b \<longleftrightarrow> a = b"
proof
  assume "u64_to_be_bytes a = u64_to_be_bytes b"
  moreover have "unat w < 256 ^ 8" for w :: u64
    using unsigned_less [of w, where 'a = nat] by simp
  ultimately have "unat a = unat b"
    by (metis be_value_be_bytes u64_to_be_bytes_def)
  then show "a = b" by (simp add: word_unat_eq_iff)
qed simp

lemma u32_to_be_bytes_inj [simp]: "u32_to_be_bytes a = u32_to_be_bytes b \<longleftrightarrow> a = b"
proof
  assume "u32_to_be_bytes a = u32_to_be_bytes b"
  moreover have "unat w < 256 ^ 4" for w :: u32
    using unsigned_less [of w, where 'a = nat] by simp
  ultimately have "unat a = unat b"
    by (metis be_value_be_bytes u32_to_be_bytes_def)
  then show "a = b" by (simp add: word_unat_eq_iff)
qed simp

section \<open>Machine arithmetic\<close>

lemma of_nat_word_inj:
  assumes "m < 2 ^ LENGTH('a)" and "n < 2 ^ LENGTH('a::len)"
  shows "(of_nat m :: 'a word) = of_nat n \<longleftrightarrow> m = n"
proof
  assume "(of_nat m :: 'a word) = of_nat n"
  then have "unat (of_nat m :: 'a word) = unat (of_nat n :: 'a word)"
    by (rule arg_cong)
  with assms show "m = n"
    by (simp add: unat_of_nat)
qed simp

definition checked_add :: "'a::len word \<Rightarrow> 'a word \<Rightarrow> 'a word option" where
  "checked_add a b = (if unat a + unat b < 2 ^ LENGTH('a) then Some (a + b) else None)"

definition saturating_add :: "'a::len word \<Rightarrow> 'a word \<Rightarrow> 'a word" where
  "saturating_add a b = (if unat a + unat b < 2 ^ LENGTH('a) then a + b else - 1)"

definition saturating_sub :: "'a::len word \<Rightarrow> 'a word \<Rightarrow> 'a word" where
  "saturating_sub a b = (if b \<le> a then a - b else 0)"

lemma checked_add_Some:
  "checked_add a b = Some c \<Longrightarrow> unat c = unat a + unat b"
  by (auto simp: checked_add_def unat_word_ariths split: if_splits)

lemma unat_saturating_add:
  fixes a b :: "'a::len word"
  shows "unat (saturating_add a b) = min (unat a + unat b) (2 ^ LENGTH('a) - 1)"
  by (auto simp: saturating_add_def unat_word_ariths unsigned_minus_1_eq_mask mask_eq_exp_minus_1)

lemma unat_saturating_sub: "unat (saturating_sub a b) = unat a - unat b"
  by (auto simp: saturating_sub_def unat_sub word_le_nat_alt not_le)

section \<open>Dictionaries\<close>

locale dictionary =
  fixes empty :: "'m"
    and get :: "'m \<Rightarrow> 'k \<Rightarrow> 'v option"
    and insert :: "'k \<Rightarrow> 'v \<Rightarrow> 'm \<Rightarrow> 'm"
    and remove :: "'k \<Rightarrow> 'm \<Rightarrow> 'm"
    and entries :: "'m \<Rightarrow> ('k \<times> 'v) list"
    and wf :: "'m \<Rightarrow> bool"
  assumes wf_empty: "wf empty"
    and wf_insert: "wf m \<Longrightarrow> wf (insert k v m)"
    and wf_remove: "wf m \<Longrightarrow> wf (remove k m)"
    and get_empty: "get empty k = None"
    and get_insert: "wf m \<Longrightarrow> get (insert k v m) = (get m)(k \<mapsto> v)"
    and get_remove: "wf m \<Longrightarrow> get (remove k m) = (get m)(k := None)"
    and entries_get: "wf m \<Longrightarrow> (k, v) \<in> set (entries m) \<longleftrightarrow> get m k = Some v"
    and entries_distinct: "wf m \<Longrightarrow> distinct (map fst (entries m))"
begin

lemma wf_insert_all: "wf m \<Longrightarrow> wf (fold (\<lambda>(k, v). insert k v) kvs m)"
  by (induction kvs arbitrary: m) (auto simp: wf_insert)

lemma get_insert_all:
  "wf m \<Longrightarrow> get (fold (\<lambda>(k, v). insert k v) kvs m) = get m ++ map_of (rev kvs)"
proof (induction kvs arbitrary: m)
  case Nil
  then show ?case by simp
next
  case (Cons kv kvs)
  obtain k v where kv: "kv = (k, v)" by (cases kv)
  show ?case
    using Cons.IH [OF wf_insert [OF Cons.prems, of k v]] Cons.prems
    by (auto simp: kv get_insert map_add_def fun_eq_iff split: option.splits)
qed

lemma dom_get: "wf m \<Longrightarrow> dom (get m) = fst ` set (entries m)"
  by (auto simp: dom_def image_iff simp flip: entries_get) force

lemma length_entries: "wf m \<Longrightarrow> length (entries m) = card (dom (get m))"
  using distinct_card [OF entries_distinct] by (simp add: dom_get)

lemma length_entries_insert_fresh:
  assumes "wf m" and "get m k = None"
  shows "length (entries (insert k v m)) = Suc (length (entries m))"
proof -
  have "dom (get (insert k v m)) = Set.insert k (dom (get m))"
    using assms(1) by (simp add: get_insert)
  moreover have "finite (dom (get m))" and "k \<notin> dom (get m)"
    using assms by (simp_all add: dom_get [OF assms(1), symmetric] domIff) (simp add: dom_get)
  ultimately show ?thesis
    using assms(1) by (simp add: length_entries wf_insert)
qed

end

subsection \<open>\<open>HashMap\<close>\<close>

type_synonym ('k, 'v) hash_map = "('k \<times> 'v) list"

definition hm_wf :: "('k, 'v) hash_map \<Rightarrow> bool" where
  "hm_wf m = distinct (map fst m)"

abbreviation hm_get :: "('k, 'v) hash_map \<Rightarrow> 'k \<Rightarrow> 'v option" where
  "hm_get \<equiv> map_of"

abbreviation hm_insert :: "'k \<Rightarrow> 'v \<Rightarrow> ('k, 'v) hash_map \<Rightarrow> ('k, 'v) hash_map" where
  "hm_insert \<equiv> AList.update"

abbreviation hm_remove :: "'k \<Rightarrow> ('k, 'v) hash_map \<Rightarrow> ('k, 'v) hash_map" where
  "hm_remove \<equiv> AList.delete"

interpretation hm: dictionary "[]" hm_get hm_insert hm_remove "\<lambda>m. m" hm_wf
  by unfold_locales
    (auto simp: hm_wf_def distinct_update distinct_delete update_conv' delete_conv' fun_eq_iff
      map_of_is_SomeI dest: map_of_SomeD)

lemma hm_get_insert [simp, dict_simps]: "hm_get (hm_insert k v m) = (hm_get m)(k \<mapsto> v)"
  by (simp add: update_conv')

lemma hm_get_remove [simp, dict_simps]: "hm_get (hm_remove k m) = (hm_get m)(k := None)"
  by (simp add: delete_conv')

subsection \<open>\<open>BTreeMap\<close>\<close>

type_synonym ('k, 'v) btree_map = "('k \<times> 'v) list"

definition bt_wf :: "('k::linorder, 'v) btree_map \<Rightarrow> bool" where
  "bt_wf m = sorted_wrt (<) (map fst m)"

abbreviation bt_get :: "('k, 'v) btree_map \<Rightarrow> 'k \<Rightarrow> 'v option" where
  "bt_get \<equiv> map_of"

fun bt_insert :: "'k::linorder \<Rightarrow> 'v \<Rightarrow> ('k, 'v) btree_map \<Rightarrow> ('k, 'v) btree_map" where
  "bt_insert k v [] = [(k, v)]"
| "bt_insert k v ((k', v') # m) =
     (if k < k' then (k, v) # (k', v') # m
      else if k = k' then (k, v) # m
      else (k', v') # bt_insert k v m)"

definition bt_remove :: "'k \<Rightarrow> ('k, 'v) btree_map \<Rightarrow> ('k, 'v) btree_map" where
  "bt_remove k m = filter (\<lambda>e. fst e \<noteq> k) m"

lemma keys_bt_insert: "fst ` set (bt_insert k v m) = insert k (fst ` set m)"
  by (induction k v m rule: bt_insert.induct) auto

lemma bt_get_insert [simp, dict_simps]: "bt_get (bt_insert k v m) = (bt_get m)(k \<mapsto> v)"
proof (induction k v m rule: bt_insert.induct)
  case (2 k v k' v' m)
  then show ?case by (auto simp: fun_eq_iff)
qed simp

lemma bt_wf_Cons: "bt_wf ((k, v) # m) \<longleftrightarrow> (\<forall>k' \<in> fst ` set m. k < k') \<and> bt_wf m"
  by (auto simp: bt_wf_def)

lemma bt_wf_insert: "bt_wf m \<Longrightarrow> bt_wf (bt_insert k v m)"
proof (induction k v m rule: bt_insert.induct)
  case (1 k v)
  then show ?case by (simp add: bt_wf_def)
next
  case (2 k v k' v' m)
  then show ?case
    by (auto simp: bt_wf_Cons keys_bt_insert)
qed

lemma bt_get_remove [simp, dict_simps]: "bt_get (bt_remove k m) = (bt_get m)(k := None)"
  by (induction m) (auto simp: bt_remove_def fun_eq_iff)

lemma bt_wf_remove: "bt_wf m \<Longrightarrow> bt_wf (bt_remove k m)"
  by (induction m) (auto simp: bt_remove_def bt_wf_def)

lemma bt_wf_distinct: "bt_wf m \<Longrightarrow> distinct (map fst m)"
  by (simp add: bt_wf_def strict_sorted_iff)

interpretation bt: dictionary "[]" bt_get bt_insert bt_remove "\<lambda>m. m" bt_wf
  by unfold_locales
    (auto simp: bt_wf_insert bt_wf_remove bt_wf_distinct fun_eq_iff dest: map_of_SomeD
      intro: map_of_is_SomeI bt_wf_distinct, simp add: bt_wf_def)

text \<open>Two B-tree maps with the same look-ups are equal: the entry list is canonical.\<close>

lemma bt_eqI:
  assumes "bt_wf m" and "bt_wf n" and "bt_get m = bt_get n"
  shows "m = n"
proof -
  have "set m = set n"
    using assms by (metis bt.entries_get subrelI subset_antisym)
  moreover have "inj_on fst (set m)"
    using bt_wf_distinct [OF assms(1)] by (simp add: distinct_map)
  ultimately show ?thesis
    using assms(1,2) by (intro map_sorted_distinct_set_unique [of fst])
      (simp_all add: bt_wf_def strict_sorted_iff)
qed

section \<open>Wire codecs\<close>

text \<open>
  The contract of a pair of conversions between a Rust type and its protobuf message. A
  \<open>wire_format\<close> gives every valid value back; a \<open>codec\<close> moreover decodes nothing but the
  encodings of valid values, so that its message form is unique.
\<close>

locale wire_format =
  fixes encode :: "'a \<Rightarrow> 'p"
    and decode :: "'p \<Rightarrow> 'e + 'a"
    and valid :: "'a \<Rightarrow> bool"
  assumes decode_encode: "valid a \<Longrightarrow> decode (encode a) = Inr a"
begin

lemma encode_inj_on: "inj_on encode {a. valid a}"
  by (rule inj_onI) (metis decode_encode mem_Collect_eq sum.inject(2))

lemma decode_encode_list:
  "list_all valid as \<Longrightarrow> collect_results (map decode (map encode as)) = Inr as"
  by (induction as) (auto simp: decode_encode)

lemma transpose_encode:
  "pred_option valid v \<Longrightarrow> transpose_map decode (map_option encode v) = Inr v"
  by (cases v) (auto simp: decode_encode)

lemma decode_encode_list_comp:
  "list_all valid as \<Longrightarrow> collect_results (map (decode \<circ> encode) as) = Inr as"
  using decode_encode_list by simp

end

locale codec = wire_format +
  assumes encode_decode: "decode p = Inr a \<Longrightarrow> valid a \<and> encode a = p"
begin

lemma decode_iff: "decode p = Inr a \<longleftrightarrow> valid a \<and> encode a = p"
  using decode_encode encode_decode by blast

lemma decode_encode_iff: "decode (encode a) = Inr a \<longleftrightarrow> valid a"
  by (simp add: decode_iff)

lemma decode_list_iff:
  "collect_results (map decode ps) = Inr as \<longleftrightarrow> list_all valid as \<and> map encode as = ps"
proof -
  have "map decode ps = map Inr as \<longleftrightarrow> list_all2 (\<lambda>p a. decode p = Inr a) ps as"
    by (auto simp: list_all2_conv_all_nth list_eq_iff_nth_eq)
  also have "\<dots> \<longleftrightarrow> list_all valid as \<and> map encode as = ps"
    by (auto simp: list_all2_conv_all_nth list_eq_iff_nth_eq list_all_length decode_iff)
  finally show ?thesis
    by (simp add: collect_results_Inr_iff)
qed

lemma decode_option_iff:
  "transpose_map decode p = Inr r \<longleftrightarrow> pred_option valid r \<and> map_option encode r = p"
  by (cases p; cases r) (auto simp: rbind_eq_Inr decode_iff)

lemma decode_required_iff:
  "rbind (ok_or p e) decode = Inr a \<longleftrightarrow> valid a \<and> p = Some (encode a)"
  by (cases p) (auto simp: decode_iff)

end

end
