(* ===== verification/Core_Types.thy ===== *)
theory Core_Types
  imports Prelude
begin

text \<open>
  The value types of \<open>crates/yutha-core\<close> and the hash and signature entry points of
  \<open>crates/yutha-crypto\<close>: algorithm-tagged hashes, signatures and public keys, UUID
  identifiers, the wall-clock and monotonic time pair, semver strings, causal references and
  cost annotations, with the conversions to and from their protobuf messages. The third-party
  code they call (SHA-256, Ed25519, the RFC 3339 parser of the \<open>time\<close> crate) is a record of
  functions, \<open>externals\<close>, that every definition using it takes as its first argument.
\<close>

section \<open>Third-party functions\<close>

text \<open>
  \<open>ext_sha256\<close> is the \<open>sha2\<close> digest; \<open>ext_key_ok\<close> tells whether 32 bytes decode to an Ed25519
  verifying key and \<open>ext_verify\<close> whether a signature over a message verifies under it;
  \<open>ext_rfc3339\<close> maps a string to its instant in nanoseconds since the Unix epoch, \<open>None\<close> when
  the \<open>time\<close> crate rejects it.
\<close>

record externals =
  ext_sha256 :: "bytes \<Rightarrow> bytes"
  ext_key_ok :: "bytes \<Rightarrow> bool"
  ext_verify :: "bytes \<Rightarrow> bytes \<Rightarrow> bytes \<Rightarrow> bool"
  ext_rfc3339 :: "string \<Rightarrow> int option"

section \<open>Errors\<close>

datatype CoreError =
    InvalidLength nat nat \<comment> \<open>expected, actual\<close>
  | UnknownEnumValue string
  | Validation string
  | TimestampError string
  | VersionError string
  | Internal string

section \<open>Hashes\<close>

datatype HashAlgorithm = Sha256 | Blake3

fun digest_len :: "HashAlgorithm \<Rightarrow> nat" where
  "digest_len Sha256 = 32"
| "digest_len Blake3 = 32"

definition hash_algorithm_from_wire :: "int \<Rightarrow> CoreError + HashAlgorithm" where
  "hash_algorithm_from_wire v =
     (if v = 1 then Inr Sha256 else if v = 2 then Inr Blake3
      else Inl (UnknownEnumValue ''HashAlgorithm''))"

fun hash_algorithm_to_wire :: "HashAlgorithm \<Rightarrow> int" where
  "hash_algorithm_to_wire Sha256 = 1"
| "hash_algorithm_to_wire Blake3 = 2"

record Hash =
  algorithm :: HashAlgorithm
  digest :: bytes

definition hash_new :: "HashAlgorithm \<Rightarrow> bytes \<Rightarrow> CoreError + Hash" where
  "hash_new alg d =
     (if length d \<noteq> digest_len alg then Inl (InvalidLength (digest_len alg) (length d))
      else Inr \<lparr>algorithm = alg, digest = d\<rparr>)"

definition hash_validate :: "Hash \<Rightarrow> CoreError + unit" where
  "hash_validate h =
     (if length (digest h) \<noteq> digest_len (algorithm h)
      then Inl (InvalidLength (digest_len (algorithm h)) (length (digest h)))
      else Inr ())"

text \<open>\<open>yutha_crypto::hash::sha256\<close>: the digest always has 32 bytes, so its \<open>expect\<close> never fires.\<close>

definition sha256 :: "externals \<Rightarrow> bytes \<Rightarrow> Hash" where
  "sha256 x bs = \<lparr>algorithm = Sha256, digest = ext_sha256 x bs\<rparr>"

definition fingerprint_public_key :: "externals \<Rightarrow> bytes \<Rightarrow> bytes" where
  "fingerprint_public_key x bs = ext_sha256 x bs"

section \<open>Identifiers\<close>

text \<open>
  \<open>AgentId\<close>, \<open>SwarmId\<close>: 16-byte UUIDs, compared as big-endian byte strings, which is the
  order of the 128-bit number.
\<close>

datatype AgentId = AgentId (agent_uuid: "128 word")
datatype SwarmId = SwarmId (swarm_uuid: "128 word")

definition agent_as_bytes :: "AgentId \<Rightarrow> bytes" where
  "agent_as_bytes a = be_bytes 16 (unat (agent_uuid a))"

definition swarm_as_bytes :: "SwarmId \<Rightarrow> bytes" where
  "swarm_as_bytes s = be_bytes 16 (unat (swarm_uuid s))"

definition agent_from_bytes :: "bytes \<Rightarrow> CoreError + AgentId" where
  "agent_from_bytes bs =
     (if length bs \<noteq> 16 then Inl (InvalidLength 16 (length bs))
      else Inr (AgentId (of_nat (be_value bs))))"

definition swarm_from_bytes :: "bytes \<Rightarrow> CoreError + SwarmId" where
  "swarm_from_bytes bs =
     (if length bs \<noteq> 16 then Inl (InvalidLength 16 (length bs))
      else Inr (SwarmId (of_nat (be_value bs))))"

instantiation AgentId :: linorder
begin

definition less_eq_AgentId :: "AgentId \<Rightarrow> AgentId \<Rightarrow> bool" where
  "less_eq_AgentId a b = (agent_uuid a \<le> agent_uuid b)"

definition less_AgentId :: "AgentId \<Rightarrow> AgentId \<Rightarrow> bool" where
  "less_AgentId a b = (agent_uuid a < agent_uuid b)"

instance
  by standard (auto simp: less_eq_AgentId_def less_AgentId_def AgentId.expand)

end

section \<open>Signatures and public keys\<close>

datatype SignatureAlgorithm = Ed25519 | ReservedPq

fun signature_len :: "SignatureAlgorithm \<Rightarrow> nat" where
  "signature_len Ed25519 = 64"
| "signature_len ReservedPq = 0"

fun public_key_len :: "SignatureAlgorithm \<Rightarrow> nat" where
  "public_key_len Ed25519 = 32"
| "public_key_len ReservedPq = 0"

definition signature_algorithm_from_wire :: "int \<Rightarrow> CoreError + SignatureAlgorithm" where
  "signature_algorithm_from_wire v =
     (if v = 1 then Inr Ed25519 else if v = 2 then Inr ReservedPq
      else Inl (UnknownEnumValue ''SignatureAlgorithm''))"

fun signature_algorithm_to_wire :: "SignatureAlgorithm \<Rightarrow> int" where
  "signature_algorithm_to_wire Ed25519 = 1"
| "signature_algorithm_to_wire ReservedPq = 2"

record Signature =
  sig_algorithm :: SignatureAlgorithm
  sig_value :: bytes
  key_fingerprint :: bytes

definition signature_new :: "SignatureAlgorithm \<Rightarrow> bytes \<Rightarrow> bytes \<Rightarrow> CoreError + Signature" where
  "signature_new alg v fp =
     (if alg = ReservedPq
      then Inl (Validation ''ReservedPq signature algorithm has no v1.0 binding'')
      else if length v \<noteq> signature_len alg then Inl (InvalidLength (signature_len alg) (length v))
      else if length fp \<noteq> 32 then Inl (InvalidLength 32 (length fp))
      else Inr \<lparr>sig_algorithm = alg, sig_value = v, key_fingerprint = fp\<rparr>)"

record PublicKey =
  pk_algorithm :: SignatureAlgorithm
  pk_value :: bytes

definition public_key_new :: "SignatureAlgorithm \<Rightarrow> bytes \<Rightarrow> CoreError + PublicKey" where
  "public_key_new alg v =
     (if alg = ReservedPq
      then Inl (Validation ''ReservedPq signature algorithm has no v1.0 binding'')
      else if length v \<noteq> public_key_len alg
      then Inl (InvalidLength (public_key_len alg) (length v))
      else Inr \<lparr>pk_algorithm = alg, pk_value = v\<rparr>)"

datatype CryptoError =
    InvalidKey string
  | InvalidSignature string
  | VerificationFailed

text \<open>\<open>VerifyingKey::from_public_key\<close>: the decoded key is represented by its 32 bytes.\<close>

definition verifying_key_from_public_key :: "externals \<Rightarrow> PublicKey \<Rightarrow> CryptoError + bytes" where
  "verifying_key_from_public_key x pk =
     (if pk_algorithm pk \<noteq> Ed25519 then Inl (InvalidKey ''expected Ed25519'')
      else if length (pk_value pk) \<noteq> 32
      then Inl (InvalidKey ''ed25519 public key must be 32 bytes'')
      else if \<not> ext_key_ok x (pk_value pk) then Inl (InvalidKey ''invalid ed25519 public key'')
      else Inr (pk_value pk))"

definition verify_message :: "externals \<Rightarrow> bytes \<Rightarrow> bytes \<Rightarrow> Signature \<Rightarrow> CryptoError + unit" where
  "verify_message x vk message sig =
     (if sig_algorithm sig \<noteq> Ed25519 then Inl (InvalidSignature ''expected Ed25519'')
      else if length (sig_value sig) \<noteq> 64
      then Inl (InvalidSignature ''ed25519 sig must be 64 bytes'')
      else if ext_verify x vk message (sig_value sig) then Inr () else Inl VerificationFailed)"

definition verify :: "externals \<Rightarrow> PublicKey \<Rightarrow> bytes \<Rightarrow> Signature \<Rightarrow> CryptoError + unit" where
  "verify x pk message sig =
     rbind (verifying_key_from_public_key x pk) (\<lambda>vk. verify_message x vk message sig)"

section \<open>Timestamps\<close>

record Timestamp =
  wall_clock :: string
  monotonic_ns :: u64

definition timestamp_new :: "externals \<Rightarrow> string \<Rightarrow> u64 \<Rightarrow> CoreError + Timestamp" where
  "timestamp_new x w m =
     (case ext_rfc3339 x w of
        None \<Rightarrow> Inl (TimestampError ''invalid RFC 3339'')
      | Some _ \<Rightarrow> Inr \<lparr>wall_clock = w, monotonic_ns = m\<rparr>)"

definition precedes :: "Timestamp \<Rightarrow> Timestamp \<Rightarrow> bool" where
  "precedes a b = (monotonic_ns a < monotonic_ns b)"

definition parsed_wall_clock :: "externals \<Rightarrow> Timestamp \<Rightarrow> int option" where
  "parsed_wall_clock x t = ext_rfc3339 x (wall_clock t)"

definition wall_at_or_after :: "externals \<Rightarrow> Timestamp \<Rightarrow> Timestamp \<Rightarrow> bool" where
  "wall_at_or_after x a b =
     (case (parsed_wall_clock x a, parsed_wall_clock x b) of
        (Some i, Some j) \<Rightarrow> i \<ge> j
      | _ \<Rightarrow> False)"

definition wall_after :: "externals \<Rightarrow> Timestamp \<Rightarrow> Timestamp \<Rightarrow> bool" where
  "wall_after x a b =
     (case (parsed_wall_clock x a, parsed_wall_clock x b) of
        (Some i, Some j) \<Rightarrow> i > j
      | _ \<Rightarrow> False)"

section \<open>Spec versions\<close>

fun split_on :: "(char \<Rightarrow> bool) \<Rightarrow> string \<Rightarrow> string list" where
  "split_on p [] = [[]]"
| "split_on p (c # cs) =
     (if p c then [] # split_on p cs
      else case split_on p cs of [] \<Rightarrow> [[c]] | w # ws \<Rightarrow> (c # w) # ws)"

definition is_digit :: "char \<Rightarrow> bool" where
  "is_digit c = (CHR ''0'' \<le> c \<and> c \<le> CHR ''9'')"

definition digits_value :: "string \<Rightarrow> nat" where
  "digits_value s = foldl (\<lambda>a c. a * 10 + (of_char c - 48)) 0 s"

text \<open>\<open>u32::from_str\<close>: an optional plus sign, at least one digit, no overflow.\<close>

definition parse_u32 :: "string \<Rightarrow> u32 option" where
  "parse_u32 s =
     (let d = (case s of c # cs \<Rightarrow> if c = CHR ''+'' then cs else s | [] \<Rightarrow> [])
      in if d = [] \<or> \<not> list_all is_digit d \<or> digits_value d \<ge> 2 ^ 32 then None
         else Some (of_nat (digits_value d)))"

datatype SpecVersion = SpecVersion (version_string: string)

definition numeric_prefix :: "string \<Rightarrow> string" where
  "numeric_prefix p = hd (split_on (\<lambda>c. c = CHR ''-'' \<or> c = CHR ''+'') p)"

definition spec_version_parse :: "string \<Rightarrow> CoreError + SpecVersion" where
  "spec_version_parse s =
     (let parts = split_on (\<lambda>c. c = CHR ''.'') s
      in if length parts < 3 then Inl (VersionError ''expected major.minor.patch'')
         else if list_all (\<lambda>p. parse_u32 (numeric_prefix p) \<noteq> None) (take 3 parts)
         then Inr (SpecVersion s)
         else Inl (VersionError ''non-numeric version part''))"

definition parse_part :: "string \<Rightarrow> CoreError + u32" where
  "parse_part p = ok_or (parse_u32 (numeric_prefix p)) (VersionError ''invalid version component'')"

definition major_minor_patch :: "SpecVersion \<Rightarrow> CoreError + u32 \<times> u32 \<times> u32" where
  "major_minor_patch v =
     (let parts = split_on (\<lambda>c. c = CHR ''.'') (version_string v);
          part = (\<lambda>i. if i < length parts then parts ! i else ''0'')
      in rbind (parse_part (parts ! 0)) (\<lambda>a.
         rbind (parse_part (part 1)) (\<lambda>b.
         rbind (parse_part (part 2)) (\<lambda>c. Inr (a, b, c)))))"

section \<open>Causal references and cost annotations\<close>

record CausalRef =
  predecessors :: "Hash list"

definition causal_empty :: CausalRef where
  "causal_empty = \<lparr>predecessors = []\<rparr>"

definition causal_is_empty :: "CausalRef \<Rightarrow> bool" where
  "causal_is_empty c = (predecessors c = [])"

record CostAnnotation =
  input_tokens :: u64
  output_tokens :: u64
  tool_call_count :: u64
  wall_time_ms :: u64
  usd_cents_estimate :: string
  model_provider :: string
  model_name :: string
  model_version :: string

definition cost_is_empty :: "CostAnnotation \<Rightarrow> bool" where
  "cost_is_empty c =
     (input_tokens c = 0 \<and> output_tokens c = 0 \<and> tool_call_count c = 0 \<and> wall_time_ms c = 0
      \<and> usd_cents_estimate c = [] \<and> model_provider c = [] \<and> model_name c = [] \<and> model_version c = [])"

section \<open>Protobuf messages of \<open>common.proto\<close> and the conversions\<close>

text \<open>
  The messages are the ones \<open>prost\<close> generates from \<open>spec/common.proto\<close>: enumerations travel
  as integers, nested messages as options, nothing is validated.
\<close>

datatype proto_AgentId = P_AgentId (p_agent: bytes)
datatype proto_SwarmId = P_SwarmId (p_swarm: bytes)
datatype proto_Hash = P_Hash (p_hash_algorithm: int) (p_digest: bytes)
datatype proto_Signature =
  P_Signature (p_sig_algorithm: int) (p_sig_value: bytes) (p_key_fingerprint: bytes)
datatype proto_PublicKey = P_PublicKey (p_pk_algorithm: int) (p_pk_value: bytes)
datatype proto_Timestamp = P_Timestamp (p_wall_clock: string) (p_monotonic_ns: u64)
datatype proto_CausalRef = P_CausalRef (p_predecessors: "proto_Hash list")
datatype proto_Version = P_Version (p_version: string)
type_synonym proto_CostAnnotation = CostAnnotation

definition proto_of_agent :: "AgentId \<Rightarrow> proto_AgentId" where
  "proto_of_agent a = P_AgentId (agent_as_bytes a)"

definition proto_of_swarm :: "SwarmId \<Rightarrow> proto_SwarmId" where
  "proto_of_swarm s = P_SwarmId (swarm_as_bytes s)"

definition proto_of_hash :: "Hash \<Rightarrow> proto_Hash" where
  "proto_of_hash h = P_Hash (hash_algorithm_to_wire (algorithm h)) (digest h)"

definition proto_of_signature :: "Signature \<Rightarrow> proto_Signature" where
  "proto_of_signature s =
     P_Signature (signature_algorithm_to_wire (sig_algorithm s)) (sig_value s) (key_fingerprint s)"

definition proto_of_public_key :: "PublicKey \<Rightarrow> proto_PublicKey" where
  "proto_of_public_key k =
     P_PublicKey (signature_algorithm_to_wire (pk_algorithm k)) (pk_value k)"

definition proto_of_timestamp :: "Timestamp \<Rightarrow> proto_Timestamp" where
  "proto_of_timestamp t = P_Timestamp (wall_clock t) (monotonic_ns t)"

definition proto_of_causal :: "CausalRef \<Rightarrow> proto_CausalRef" where
  "proto_of_causal c = P_CausalRef (map proto_of_hash (predecessors c))"

definition proto_of_version :: "SpecVersion \<Rightarrow> proto_Version" where
  "proto_of_version v = P_Version (version_string v)"

definition proto_of_cost :: "CostAnnotation \<Rightarrow> proto_CostAnnotation" where
  "proto_of_cost c =
     \<lparr>input_tokens = input_tokens c, output_tokens = output_tokens c,
      tool_call_count = tool_call_count c, wall_time_ms = wall_time_ms c,
      usd_cents_estimate = usd_cents_estimate c, model_provider = model_provider c,
      model_name = model_name c, model_version = model_version c\<rparr>"

definition agent_try_from :: "proto_AgentId \<Rightarrow> CoreError + AgentId" where
  "agent_try_from p = agent_from_bytes (p_agent p)"

definition swarm_try_from :: "proto_SwarmId \<Rightarrow> CoreError + SwarmId" where
  "swarm_try_from p = swarm_from_bytes (p_swarm p)"

definition hash_try_from :: "proto_Hash \<Rightarrow> CoreError + Hash" where
  "hash_try_from p =
     rbind (hash_algorithm_from_wire (p_hash_algorithm p)) (\<lambda>alg. hash_new alg (p_digest p))"

definition signature_try_from :: "proto_Signature \<Rightarrow> CoreError + Signature" where
  "signature_try_from p =
     rbind (signature_algorithm_from_wire (p_sig_algorithm p))
       (\<lambda>alg. signature_new alg (p_sig_value p) (p_key_fingerprint p))"

definition public_key_try_from :: "proto_PublicKey \<Rightarrow> CoreError + PublicKey" where
  "public_key_try_from p =
     rbind (signature_algorithm_from_wire (p_pk_algorithm p))
       (\<lambda>alg. public_key_new alg (p_pk_value p))"

definition timestamp_try_from :: "externals \<Rightarrow> proto_Timestamp \<Rightarrow> CoreError + Timestamp" where
  "timestamp_try_from x p = timestamp_new x (p_wall_clock p) (p_monotonic_ns p)"

definition causal_try_from :: "proto_CausalRef \<Rightarrow> CoreError + CausalRef" where
  "causal_try_from p =
     rbind (collect_results (map hash_try_from (p_predecessors p)))
       (\<lambda>hs. Inr \<lparr>predecessors = hs\<rparr>)"

definition version_try_from :: "proto_Version \<Rightarrow> CoreError + SpecVersion" where
  "version_try_from p = spec_version_parse (p_version p)"

definition cost_try_from :: "proto_CostAnnotation \<Rightarrow> CoreError + CostAnnotation" where
  "cost_try_from p =
     Inr \<lparr>input_tokens = input_tokens p, output_tokens = output_tokens p,
      tool_call_count = tool_call_count p, wall_time_ms = wall_time_ms p,
      usd_cents_estimate = usd_cents_estimate p, model_provider = model_provider p,
      model_name = model_name p, model_version = model_version p\<rparr>"

section \<open>Validity and wire round trips\<close>

definition hash_ok :: "Hash \<Rightarrow> bool" where
  "hash_ok h = (length (digest h) = digest_len (algorithm h))"

definition signature_ok :: "Signature \<Rightarrow> bool" where
  "signature_ok s =
     (sig_algorithm s = Ed25519 \<and> length (sig_value s) = 64 \<and> length (key_fingerprint s) = 32)"

definition public_key_ok :: "PublicKey \<Rightarrow> bool" where
  "public_key_ok k = (pk_algorithm k = Ed25519 \<and> length (pk_value k) = 32)"

definition timestamp_ok :: "externals \<Rightarrow> Timestamp \<Rightarrow> bool" where
  "timestamp_ok x t = (ext_rfc3339 x (wall_clock t) \<noteq> None)"

definition causal_ok :: "CausalRef \<Rightarrow> bool" where
  "causal_ok c = list_all hash_ok (predecessors c)"

definition version_ok :: "SpecVersion \<Rightarrow> bool" where
  "version_ok v = (spec_version_parse (version_string v) = Inr v)"

lemma hash_validate_iff: "hash_validate h = Inr () \<longleftrightarrow> hash_ok h"
  by (simp add: hash_validate_def hash_ok_def)

lemma digest_len_32: "digest_len a = 32"
  by (cases a) auto

lemma agent_bytes_16 [simp]: "length (agent_as_bytes a) = 16" "length (swarm_as_bytes s) = 16"
  by (simp_all add: agent_as_bytes_def swarm_as_bytes_def)

lemma be_value_less: "be_value bs < 256 ^ length bs"
proof (induction bs rule: rev_induct)
  case Nil
  then show ?case by (simp add: be_value_def)
next
  case (snoc b bs)
  have "unat b < 256"
    using unsigned_less [of b, where 'a = nat] by simp
  with snoc show ?case
    by (simp add: be_value_snoc)
qed

lemma uuid_of_bytes: "length bs = 16 \<Longrightarrow> be_bytes 16 (unat (of_nat (be_value bs) :: 128 word)) = bs"
proof -
  assume len: "length bs = 16"
  then have "be_value bs < 2 ^ 128"
    using be_value_less [of bs] by simp
  then show ?thesis
    using be_bytes_be_value [of bs] len by (simp add: unat_of_nat)
qed

lemma uuid_bytes_of: "(of_nat (be_value (be_bytes 16 (unat w))) :: 128 word) = w"
proof -
  have "unat w < 256 ^ 16"
    using unsigned_less [of w, where 'a = nat] by simp
  then show ?thesis
    by (simp add: be_value_be_bytes)
qed

interpretation agent_codec: codec proto_of_agent agent_try_from "\<lambda>_. True"
  by unfold_locales
    (auto simp: proto_of_agent_def agent_try_from_def agent_from_bytes_def agent_as_bytes_def
      uuid_bytes_of uuid_of_bytes split: if_splits)

interpretation swarm_codec: codec proto_of_swarm swarm_try_from "\<lambda>_. True"
  by unfold_locales
    (auto simp: proto_of_swarm_def swarm_try_from_def swarm_from_bytes_def swarm_as_bytes_def
      uuid_bytes_of uuid_of_bytes split: if_splits)

lemma agent_as_bytes_inj [simp]: "agent_as_bytes a = agent_as_bytes b \<longleftrightarrow> a = b"
  by (metis agent_as_bytes_def AgentId.exhaust_sel uuid_bytes_of)

lemma swarm_as_bytes_inj [simp]: "swarm_as_bytes a = swarm_as_bytes b \<longleftrightarrow> a = b"
  by (metis swarm_as_bytes_def SwarmId.exhaust_sel uuid_bytes_of)

lemma hash_algorithm_wire_iff [simp]:
  "hash_algorithm_from_wire v = Inr a \<longleftrightarrow> v = hash_algorithm_to_wire a"
  by (cases a) (auto simp: hash_algorithm_from_wire_def)

lemma signature_algorithm_wire_iff [simp]:
  "signature_algorithm_from_wire v = Inr a \<longleftrightarrow> v = signature_algorithm_to_wire a"
  by (cases a) (auto simp: signature_algorithm_from_wire_def)

lemma algorithm_wire_roundtrip [simp]:
  "hash_algorithm_from_wire (hash_algorithm_to_wire h) = Inr h"
  "signature_algorithm_from_wire (signature_algorithm_to_wire s) = Inr s"
  by simp_all

interpretation hash_codec: codec proto_of_hash hash_try_from hash_ok
proof
  show "hash_try_from (proto_of_hash h) = Inr h" if "hash_ok h" for h
    using that by (simp add: proto_of_hash_def hash_try_from_def hash_new_def hash_ok_def)
  show "hash_ok h \<and> proto_of_hash h = p" if "hash_try_from p = Inr h" for p h
    using that by (cases p)
      (auto simp: proto_of_hash_def hash_try_from_def rbind_eq_Inr hash_new_def hash_ok_def
        split: if_splits)
qed

lemma not_ReservedPq [simp]: "a \<noteq> ReservedPq \<longleftrightarrow> a = Ed25519"
  by (cases a) auto

interpretation signature_codec: codec proto_of_signature signature_try_from signature_ok
proof
  show "signature_try_from (proto_of_signature s) = Inr s" if "signature_ok s" for s
    using that
    by (simp add: proto_of_signature_def signature_try_from_def signature_algorithm_from_wire_def
        signature_new_def
        signature_ok_def)
  show "signature_ok s \<and> proto_of_signature s = p" if "signature_try_from p = Inr s" for p s
    using that by (cases p)
      (auto simp: proto_of_signature_def signature_try_from_def rbind_eq_Inr signature_new_def
        signature_ok_def split: if_splits)
qed

interpretation public_key_codec: codec proto_of_public_key public_key_try_from public_key_ok
proof
  show "public_key_try_from (proto_of_public_key k) = Inr k" if "public_key_ok k" for k
    using that
    by (simp add: proto_of_public_key_def public_key_try_from_def signature_algorithm_from_wire_def
        public_key_new_def
        public_key_ok_def)
  show "public_key_ok k \<and> proto_of_public_key k = p" if "public_key_try_from p = Inr k" for p k
    using that by (cases p)
      (auto simp: proto_of_public_key_def public_key_try_from_def rbind_eq_Inr public_key_new_def
        public_key_ok_def split: if_splits)
qed

interpretation timestamp_codec: codec proto_of_timestamp "timestamp_try_from x" "timestamp_ok x" for x
  by unfold_locales
    (auto simp: proto_of_timestamp_def timestamp_try_from_def timestamp_new_def timestamp_ok_def
      split: option.splits)

interpretation causal_codec: codec proto_of_causal causal_try_from causal_ok
proof
  show "causal_try_from (proto_of_causal c) = Inr c" if "causal_ok c" for c
    using that hash_codec.decode_list_iff [of "map proto_of_hash (predecessors c)" "predecessors c"]
    by (simp add: causal_try_from_def proto_of_causal_def causal_ok_def)
  show "causal_ok c \<and> proto_of_causal c = p" if "causal_try_from p = Inr c" for p c
    using that
    by (cases p) (auto simp: causal_try_from_def proto_of_causal_def causal_ok_def rbind_eq_Inr
      hash_codec.decode_list_iff)
qed

interpretation version_codec: codec proto_of_version version_try_from version_ok
  by unfold_locales
    (auto simp: proto_of_version_def version_try_from_def version_ok_def spec_version_parse_def Let_def
      split: if_splits)

interpretation cost_codec: codec proto_of_cost cost_try_from "\<lambda>_. True"
  by unfold_locales (auto simp: proto_of_cost_def cost_try_from_def)

section \<open>Wall-clock comparisons and versions\<close>

lemma wall_at_or_after_iff:
  "wall_at_or_after x a b \<longleftrightarrow>
     (\<exists>i j. parsed_wall_clock x a = Some i \<and> parsed_wall_clock x b = Some j \<and> j \<le> i)"
  by (auto simp: wall_at_or_after_def split: option.splits)

lemma wall_after_iff:
  "wall_after x a b \<longleftrightarrow>
     (\<exists>i j. parsed_wall_clock x a = Some i \<and> parsed_wall_clock x b = Some j \<and> j < i)"
  by (auto simp: wall_after_def split: option.splits)

lemma wall_at_or_after_trans:
  "wall_at_or_after x a b \<Longrightarrow> wall_at_or_after x b c \<Longrightarrow> wall_at_or_after x a c"
  by (auto simp: wall_at_or_after_iff)

lemma length_split_on: "split_on p s \<noteq> []"
  by (induction p s rule: split_on.induct) (auto split: list.splits)

end
