(* ===== verification/Receipt.thy ===== *)
theory Receipt
  imports Core_Types
begin

text \<open>
  Receipts (\<open>crates/yutha-receipt\<close>): the record and its builder, evidence, signature roles, seal
  status, the protobuf conversions, the canonical form that is hashed and signed, and signature
  verification (\<open>verify.rs\<close>). The protobuf byte encoder of \<open>prost\<close> is the field \<open>rc_encode\<close> of
  the record \<open>receipt_ctx\<close>.
\<close>

section \<open>Evidence, roles, seals\<close>

record Evidence =
  ev_key :: string
  ev_type_url :: string
  ev_value :: bytes
  ev_sensitive :: bool

definition evidence_new :: "string \<Rightarrow> string \<Rightarrow> bytes \<Rightarrow> Evidence" where
  "evidence_new k t v = \<lparr>ev_key = k, ev_type_url = t, ev_value = v, ev_sensitive = False\<rparr>"

definition evidence_sensitive :: "string \<Rightarrow> string \<Rightarrow> bytes \<Rightarrow> Evidence" where
  "evidence_sensitive k t v = \<lparr>ev_key = k, ev_type_url = t, ev_value = v, ev_sensitive = True\<rparr>"

datatype SignatureRole = Actor | ControlPlane | Supervisor | Attestation | BatchRoot

fun rank :: "SignatureRole \<Rightarrow> nat" where
  "rank Actor = 0"
| "rank ControlPlane = 1"
| "rank Supervisor = 2"
| "rank Attestation = 3"
| "rank BatchRoot = 4"

record SignedBy =
  sb_role :: SignatureRole
  sb_signature :: Signature
  sb_signed_at :: Timestamp

datatype SealState = Unsealed | Sealed

record SealStatus =
  seal_state :: SealState
  seal_batch_root :: "Hash option"
  seal_merkle_path :: "Hash list"
  seal_sealed_at :: "Timestamp option"
  seal_on_chain_tx_digest :: "bytes option"
  seal_swarm_anchor_object_id :: "bytes option"

definition unsealed :: SealStatus where
  "unsealed = \<lparr>seal_state = Unsealed, seal_batch_root = None, seal_merkle_path = [],
     seal_sealed_at = None, seal_on_chain_tx_digest = None, seal_swarm_anchor_object_id = None\<rparr>"

definition sealed :: "Hash \<Rightarrow> Hash list \<Rightarrow> Timestamp \<Rightarrow> SealStatus" where
  "sealed root path at = \<lparr>seal_state = Sealed, seal_batch_root = Some root, seal_merkle_path = path,
     seal_sealed_at = Some at, seal_on_chain_tx_digest = None, seal_swarm_anchor_object_id = None\<rparr>"

definition sealed_with_anchor ::
    "Hash \<Rightarrow> Hash list \<Rightarrow> Timestamp \<Rightarrow> bytes \<Rightarrow> bytes \<Rightarrow> SealStatus" where
  "sealed_with_anchor root path at tx anchor =
     \<lparr>seal_state = Sealed, seal_batch_root = Some root, seal_merkle_path = path,
      seal_sealed_at = Some at, seal_on_chain_tx_digest = Some tx,
      seal_swarm_anchor_object_id = Some anchor\<rparr>"

section \<open>Receipts and errors\<close>

record Receipt =
  r_spec_version :: SpecVersion
  r_swarm_id :: SwarmId
  r_actor :: AgentId
  r_action_kind :: string
  r_causal :: CausalRef
  r_evidence :: "Evidence list"
  r_constitution_version :: string
  r_cost :: "CostAnnotation option"
  r_occurred_at :: Timestamp
  r_seal :: SealStatus
  r_signatures :: "SignedBy list"

definition is_sealed :: "Receipt \<Rightarrow> bool" where
  "is_sealed r = (seal_state (r_seal r) = Sealed)"

datatype ReceiptError =
    ContentAddressMismatch Hash Hash
  | SignatureFailed string
  | MissingSignatureRole SignatureRole
  | SignatureOrderInvalid SignatureRole nat
  | AppendOnly
  | ReceiptNotFound Hash
  | ActorNotResolvable AgentId
  | PassportResolverError string
  | InvalidQuery string
  | ReceiptBackend string
  | BatchInvalid string
  | ReceiptCrypto CryptoError
  | ReceiptCore CoreError

text \<open>The builder: required fields are options until \<open>build\<close>.\<close>

record ReceiptBuilder =
  rb_spec_version :: "SpecVersion option"
  rb_swarm_id :: "SwarmId option"
  rb_actor :: "AgentId option"
  rb_action_kind :: "string option"
  rb_causal :: "CausalRef option"
  rb_evidence :: "Evidence list"
  rb_constitution_version :: "string option"
  rb_cost :: "CostAnnotation option"
  rb_occurred_at :: "Timestamp option"
  rb_seal :: "SealStatus option"
  rb_signatures :: "SignedBy list"

definition receipt_builder_new :: ReceiptBuilder where
  "receipt_builder_new =
     \<lparr>rb_spec_version = None, rb_swarm_id = None, rb_actor = None, rb_action_kind = None,
      rb_causal = None, rb_evidence = [], rb_constitution_version = None, rb_cost = None,
      rb_occurred_at = None, rb_seal = None, rb_signatures = []\<rparr>"

definition receipt_build :: "ReceiptBuilder \<Rightarrow> string + Receipt" where
  "receipt_build b =
     rbind (ok_or (rb_spec_version b) ''spec_version required'') (\<lambda>v.
     rbind (ok_or (rb_swarm_id b) ''swarm_id required'') (\<lambda>s.
     rbind (ok_or (rb_actor b) ''actor required'') (\<lambda>a.
     rbind (ok_or (rb_action_kind b) ''action_kind required'') (\<lambda>k.
     rbind (ok_or (rb_constitution_version b) ''constitution_version required'') (\<lambda>cv.
     rbind (ok_or (rb_occurred_at b) ''occurred_at required'') (\<lambda>t.
       Inr \<lparr>r_spec_version = v, r_swarm_id = s, r_actor = a, r_action_kind = k,
            r_causal = (case rb_causal b of None \<Rightarrow> causal_empty | Some c \<Rightarrow> c),
            r_evidence = rb_evidence b, r_constitution_version = cv, r_cost = rb_cost b,
            r_occurred_at = t,
            r_seal = (case rb_seal b of None \<Rightarrow> unsealed | Some s \<Rightarrow> s),
            r_signatures = rb_signatures b\<rparr>))))))"

section \<open>Protobuf messages and conversions\<close>

datatype proto_SignedBy =
  P_SignedBy (p_role: int) (p_signature: "proto_Signature option")
    (p_signed_at: "proto_Timestamp option")

type_synonym proto_Evidence = Evidence

record proto_SealStatus =
  p_state :: int
  p_batch_root :: "proto_Hash option"
  p_merkle_path :: "proto_Hash list"
  p_sealed_at :: "proto_Timestamp option"
  p_on_chain_tx_digest :: bytes
  p_swarm_anchor_object_id :: bytes

record proto_Receipt =
  pr_spec_version :: "proto_Version option"
  pr_swarm_id :: "proto_SwarmId option"
  pr_actor :: "proto_AgentId option"
  pr_action_kind :: string
  pr_causal :: "proto_CausalRef option"
  pr_evidence :: "proto_Evidence list"
  pr_constitution_version :: string
  pr_cost :: "proto_CostAnnotation option"
  pr_occurred_at :: "proto_Timestamp option"
  pr_seal :: "proto_SealStatus option"
  pr_extensions :: "bytes option"
  pr_signatures :: "proto_SignedBy list"

fun role_to_wire :: "SignatureRole \<Rightarrow> int" where
  "role_to_wire Actor = 1"
| "role_to_wire ControlPlane = 2"
| "role_to_wire Supervisor = 3"
| "role_to_wire Attestation = 4"
| "role_to_wire BatchRoot = 5"

definition proto_of_signed_by :: "SignedBy \<Rightarrow> proto_SignedBy" where
  "proto_of_signed_by s =
     P_SignedBy (role_to_wire (sb_role s)) (Some (proto_of_signature (sb_signature s)))
       (Some (proto_of_timestamp (sb_signed_at s)))"

definition proto_of_evidence :: "Evidence \<Rightarrow> proto_Evidence" where
  "proto_of_evidence e =
     \<lparr>ev_key = ev_key e, ev_type_url = ev_type_url e, ev_value = ev_value e,
      ev_sensitive = ev_sensitive e\<rparr>"

fun seal_state_to_wire :: "SealState \<Rightarrow> int" where
  "seal_state_to_wire Unsealed = 1"
| "seal_state_to_wire Sealed = 2"

definition unwrap_or_default_bytes :: "bytes option \<Rightarrow> bytes" where
  "unwrap_or_default_bytes b = (case b of None \<Rightarrow> [] | Some v \<Rightarrow> v)"

definition proto_of_seal :: "SealStatus \<Rightarrow> proto_SealStatus" where
  "proto_of_seal s =
     \<lparr>p_state = seal_state_to_wire (seal_state s),
      p_batch_root = map_option proto_of_hash (seal_batch_root s),
      p_merkle_path = map proto_of_hash (seal_merkle_path s),
      p_sealed_at = map_option proto_of_timestamp (seal_sealed_at s),
      p_on_chain_tx_digest = unwrap_or_default_bytes (seal_on_chain_tx_digest s),
      p_swarm_anchor_object_id = unwrap_or_default_bytes (seal_swarm_anchor_object_id s)\<rparr>"

definition proto_of_receipt :: "Receipt \<Rightarrow> proto_Receipt" where
  "proto_of_receipt r =
     \<lparr>pr_spec_version = Some (proto_of_version (r_spec_version r)),
      pr_swarm_id = Some (proto_of_swarm (r_swarm_id r)),
      pr_actor = Some (proto_of_agent (r_actor r)),
      pr_action_kind = r_action_kind r,
      pr_causal = Some (proto_of_causal (r_causal r)),
      pr_evidence = map proto_of_evidence (r_evidence r),
      pr_constitution_version = r_constitution_version r,
      pr_cost = map_option proto_of_cost (r_cost r),
      pr_occurred_at = Some (proto_of_timestamp (r_occurred_at r)),
      pr_seal = Some (proto_of_seal (r_seal r)),
      pr_extensions = None,
      pr_signatures = map proto_of_signed_by (r_signatures r)\<rparr>"

definition to_canonical_proto :: "Receipt \<Rightarrow> proto_Receipt" where
  "to_canonical_proto r =
     (proto_of_receipt r)\<lparr>pr_signatures := [], pr_seal := None, pr_extensions := None\<rparr>"

definition missing :: "string \<Rightarrow> ReceiptError" where
  "missing field = ReceiptCore (Validation (''required field missing: '' @ field))"

definition role_try_from :: "int \<Rightarrow> ReceiptError + SignatureRole" where
  "role_try_from v =
     (if v = 0 then Inl (SignatureFailed ''signature role unset (UNKNOWN)'')
      else if v = 1 then Inr Actor
      else if v = 2 then Inr ControlPlane
      else if v = 3 then Inr Supervisor
      else if v = 4 then Inr Attestation
      else if v = 5 then Inr BatchRoot
      else Inl (SignatureFailed ''unknown signature role''))"

definition signed_by_try_from :: "externals \<Rightarrow> proto_SignedBy \<Rightarrow> ReceiptError + SignedBy" where
  "signed_by_try_from x p =
     rbind (role_try_from (p_role p)) (\<lambda>role.
     rbind (ok_or (p_signature p) (missing ''signature'')) (\<lambda>ps.
     rbind (map_err ReceiptCore (signature_try_from ps)) (\<lambda>s.
     rbind (ok_or (p_signed_at p) (missing ''signed_at'')) (\<lambda>pt.
     rbind (map_err ReceiptCore (timestamp_try_from x pt)) (\<lambda>t.
       Inr \<lparr>sb_role = role, sb_signature = s, sb_signed_at = t\<rparr>)))))"

definition evidence_from :: "proto_Evidence \<Rightarrow> Evidence" where
  "evidence_from p =
     \<lparr>ev_key = ev_key p, ev_type_url = ev_type_url p, ev_value = ev_value p,
      ev_sensitive = ev_sensitive p\<rparr>"

definition seal_state_try_from :: "int \<Rightarrow> ReceiptError + SealState" where
  "seal_state_try_from v =
     (if v = 0 then Inr Unsealed
      else if v = 1 then Inr Unsealed
      else if v = 2 then Inr Sealed
      else Inl (InvalidQuery ''unknown seal state''))"

definition seal_try_from :: "externals \<Rightarrow> proto_SealStatus \<Rightarrow> ReceiptError + SealStatus" where
  "seal_try_from x p =
     rbind (seal_state_try_from (p_state p)) (\<lambda>st.
     rbind (map_err ReceiptCore (transpose_map hash_try_from (p_batch_root p))) (\<lambda>root.
     rbind (map_err ReceiptCore (collect_results (map hash_try_from (p_merkle_path p)))) (\<lambda>path.
     rbind (map_err ReceiptCore (transpose_map (timestamp_try_from x) (p_sealed_at p))) (\<lambda>at.
       Inr \<lparr>seal_state = st, seal_batch_root = root, seal_merkle_path = path, seal_sealed_at = at,
            seal_on_chain_tx_digest =
              (if p_on_chain_tx_digest p = [] then None else Some (p_on_chain_tx_digest p)),
            seal_swarm_anchor_object_id =
              (if p_swarm_anchor_object_id p = [] then None
               else Some (p_swarm_anchor_object_id p))\<rparr>))))"

definition receipt_try_from :: "externals \<Rightarrow> proto_Receipt \<Rightarrow> ReceiptError + Receipt" where
  "receipt_try_from x p =
     rbind (ok_or (pr_spec_version p) (missing ''spec_version'')) (\<lambda>pv.
     rbind (map_err ReceiptCore (version_try_from pv)) (\<lambda>v.
     rbind (ok_or (pr_swarm_id p) (missing ''swarm_id'')) (\<lambda>ps.
     rbind (map_err ReceiptCore (swarm_try_from ps)) (\<lambda>s.
     rbind (ok_or (pr_actor p) (missing ''actor'')) (\<lambda>pa.
     rbind (map_err ReceiptCore (agent_try_from pa)) (\<lambda>a.
     rbind (map_err ReceiptCore (transpose_map causal_try_from (pr_causal p))) (\<lambda>c.
     rbind (map_err ReceiptCore (transpose_map cost_try_from (pr_cost p))) (\<lambda>cost.
     rbind (ok_or (pr_occurred_at p) (missing ''occurred_at'')) (\<lambda>pt.
     rbind (map_err ReceiptCore (timestamp_try_from x pt)) (\<lambda>t.
     rbind (transpose_map (seal_try_from x) (pr_seal p)) (\<lambda>seal.
     rbind (collect_results (map (signed_by_try_from x) (pr_signatures p))) (\<lambda>sigs.
       Inr \<lparr>r_spec_version = v, r_swarm_id = s, r_actor = a, r_action_kind = pr_action_kind p,
            r_causal = (case c of None \<Rightarrow> causal_empty | Some c' \<Rightarrow> c'),
            r_evidence = map evidence_from (pr_evidence p),
            r_constitution_version = pr_constitution_version p, r_cost = cost, r_occurred_at = t,
            r_seal = (case seal of None \<Rightarrow> unsealed | Some s' \<Rightarrow> s'),
            r_signatures = sigs\<rparr>))))))))))))"

section \<open>Content addresses and signature verification\<close>

record receipt_ctx =
  rc_ext :: externals
  rc_encode :: "proto_Receipt \<Rightarrow> bytes"

definition canonical_bytes :: "receipt_ctx \<Rightarrow> Receipt \<Rightarrow> bytes" where
  "canonical_bytes cx r = rc_encode cx (to_canonical_proto r)"

definition content_address :: "receipt_ctx \<Rightarrow> Receipt \<Rightarrow> Hash" where
  "content_address cx r = sha256 (rc_ext cx) (canonical_bytes cx r)"

definition verify_address :: "receipt_ctx \<Rightarrow> Receipt \<Rightarrow> Hash \<Rightarrow> ReceiptError + unit" where
  "verify_address cx r claimed =
     (if content_address cx r = claimed then Inr ()
      else Inl (ContentAddressMismatch claimed (content_address cx r)))"

record VerificationOutcome =
  vo_content_address :: Hash
  vo_verified_roles :: "SignatureRole list"

fun order_check :: "nat option \<Rightarrow> SignedBy list \<Rightarrow> ReceiptError + unit" where
  "order_check lst [] = Inr ()"
| "order_check lst (s # ss) =
     (case lst of
        Some prev \<Rightarrow>
          if rank (sb_role s) < prev then Inl (SignatureOrderInvalid (sb_role s) prev)
          else order_check (Some (rank (sb_role s))) ss
      | None \<Rightarrow> order_check (Some (rank (sb_role s))) ss)"

definition enforce_canonical_order :: "SignedBy list \<Rightarrow> ReceiptError + unit" where
  "enforce_canonical_order sigs = order_check None sigs"

text \<open>
  The loop over the optional roles: a role whose key is unknown is skipped, one whose signature
  fails ends the verification.
\<close>

fun verify_optional ::
    "externals \<Rightarrow> bytes \<Rightarrow> (SignatureRole \<Rightarrow> bytes \<Rightarrow> PublicKey option) \<Rightarrow> SignedBy list
     \<Rightarrow> ReceiptError + SignatureRole list" where
  "verify_optional x msg keys [] = Inr []"
| "verify_optional x msg keys (s # ss) =
     (case keys (sb_role s) (key_fingerprint (sb_signature s)) of
        None \<Rightarrow> verify_optional x msg keys ss
      | Some pk \<Rightarrow>
          (case verify x pk msg (sb_signature s) of
             Inl e \<Rightarrow> Inl (SignatureFailed ''optional role'')
           | Inr _ \<Rightarrow> rbind (verify_optional x msg keys ss) (\<lambda>rs. Inr (sb_role s # rs))))"

definition verify_receipt_signatures ::
    "receipt_ctx \<Rightarrow> Receipt \<Rightarrow> PublicKey \<Rightarrow> (SignatureRole \<Rightarrow> bytes \<Rightarrow> PublicKey option)
     \<Rightarrow> ReceiptError + VerificationOutcome" where
  "verify_receipt_signatures cx r actor_pk keys =
     (let msg = canonical_bytes cx r in
      rbind (enforce_canonical_order (r_signatures r)) (\<lambda>_.
      rbind (ok_or (find (\<lambda>s. sb_role s = Actor) (r_signatures r)) (MissingSignatureRole Actor))
        (\<lambda>actor_sig.
      rbind (map_err (\<lambda>_. SignatureFailed ''actor'')
               (verify (rc_ext cx) actor_pk msg (sb_signature actor_sig))) (\<lambda>_.
      rbind (verify_optional (rc_ext cx) msg keys
               (filter (\<lambda>s. sb_role s \<noteq> Actor) (r_signatures r))) (\<lambda>roles.
        Inr \<lparr>vo_content_address = content_address cx r, vo_verified_roles = Actor # roles\<rparr>)))))"

section \<open>Round trips\<close>

lemma role_wire_iff [simp]: "role_try_from v = Inr r \<longleftrightarrow> v = role_to_wire r"
  by (cases r) (auto simp: role_try_from_def)

lemma role_wire_roundtrip [simp]: "role_try_from (role_to_wire r) = Inr r"
  by simp

lemma seal_state_roundtrip [simp]: "seal_state_try_from (seal_state_to_wire s) = Inr s"
  by (cases s) (auto simp: seal_state_try_from_def)

lemma evidence_roundtrip [simp]: "evidence_from (proto_of_evidence e) = e"
  by (simp add: evidence_from_def proto_of_evidence_def)

definition signed_by_ok :: "externals \<Rightarrow> SignedBy \<Rightarrow> bool" where
  "signed_by_ok x s = (signature_ok (sb_signature s) \<and> timestamp_ok x (sb_signed_at s))"

definition seal_ok :: "externals \<Rightarrow> SealStatus \<Rightarrow> bool" where
  "seal_ok x s =
     (pred_option hash_ok (seal_batch_root s) \<and> list_all hash_ok (seal_merkle_path s)
      \<and> pred_option (timestamp_ok x) (seal_sealed_at s)
      \<and> seal_on_chain_tx_digest s \<noteq> Some [] \<and> seal_swarm_anchor_object_id s \<noteq> Some [])"

definition receipt_ok :: "externals \<Rightarrow> Receipt \<Rightarrow> bool" where
  "receipt_ok x r =
     (version_ok (r_spec_version r) \<and> causal_ok (r_causal r) \<and> timestamp_ok x (r_occurred_at r)
      \<and> seal_ok x (r_seal r) \<and> list_all (signed_by_ok x) (r_signatures r))"

interpretation signed_by_codec: codec proto_of_signed_by "signed_by_try_from x" "signed_by_ok x" for x
proof
  show "signed_by_try_from x (proto_of_signed_by s) = Inr s" if "signed_by_ok x s" for s
    using that
    by (simp add: signed_by_try_from_def proto_of_signed_by_def signed_by_ok_def
        signature_codec.decode_encode timestamp_codec.decode_encode)
  show "signed_by_ok x s \<and> proto_of_signed_by s = p" if "signed_by_try_from x p = Inr s" for p s
    using that
    by (cases p) (auto simp: signed_by_try_from_def proto_of_signed_by_def signed_by_ok_def
        rbind_eq_Inr signature_codec.decode_iff timestamp_codec.decode_iff)
qed

interpretation seal_codec: wire_format proto_of_seal "seal_try_from x" "seal_ok x" for x
proof
  show "seal_try_from x (proto_of_seal s) = Inr s" if "seal_ok x s" for s
    using that
    by (cases "seal_on_chain_tx_digest s"; cases "seal_swarm_anchor_object_id s")
      (simp_all add: seal_try_from_def proto_of_seal_def seal_ok_def unwrap_or_default_bytes_def
        hash_codec.transpose_encode timestamp_codec.transpose_encode
        hash_codec.decode_encode_list_comp)
qed

interpretation receipt_codec: wire_format proto_of_receipt "receipt_try_from x" "receipt_ok x" for x
proof
  show "receipt_try_from x (proto_of_receipt r) = Inr r" if "receipt_ok x r" for r
    using that
    by (simp add: receipt_try_from_def proto_of_receipt_def receipt_ok_def comp_def
        version_codec.decode_encode swarm_codec.decode_encode agent_codec.decode_encode
        causal_codec.decode_encode timestamp_codec.decode_encode seal_codec.decode_encode
        cost_codec.transpose_encode option.pred_True
        signed_by_codec.decode_encode_list_comp [unfolded comp_def])
qed

section \<open>Canonical form and verification\<close>

lemma to_canonical_proto_frame [simp]:
  "to_canonical_proto (r\<lparr>r_signatures := sigs\<rparr>) = to_canonical_proto r"
  "to_canonical_proto (r\<lparr>r_seal := seal\<rparr>) = to_canonical_proto r"
  by (simp_all add: to_canonical_proto_def proto_of_receipt_def)

lemma content_address_frame [simp]:
  "content_address cx (r\<lparr>r_signatures := sigs\<rparr>) = content_address cx r"
  "content_address cx (r\<lparr>r_seal := seal\<rparr>) = content_address cx r"
  by (simp_all add: content_address_def canonical_bytes_def)

lemma canonical_bytes_frame [simp]:
  "canonical_bytes cx (r\<lparr>r_signatures := sigs\<rparr>) = canonical_bytes cx r"
  "canonical_bytes cx (r\<lparr>r_seal := seal\<rparr>) = canonical_bytes cx r"
  by (simp_all add: canonical_bytes_def)

lemma order_check_iff:
  "order_check lst sigs = Inr () \<longleftrightarrow>
     sorted (map (rank \<circ> sb_role) sigs) \<and> (\<forall>p s. lst = Some p \<and> s \<in> set sigs \<longrightarrow> p \<le> rank (sb_role s))"
proof (induction lst sigs rule: order_check.induct)
  case (1 lst)
  then show ?case by simp
next
  case (2 lst s ss)
  then show ?case
    by (cases lst) (auto simp: not_less intro: order.trans)
qed

lemma enforce_canonical_order_iff:
  "enforce_canonical_order sigs = Inr () \<longleftrightarrow> sorted (map (rank \<circ> sb_role) sigs)"
  by (simp add: enforce_canonical_order_def order_check_iff)

lemma verify_optional_Inr_iff:
  "verify_optional x msg keys sigs = Inr roles \<longleftrightarrow>
     roles = map sb_role (filter (\<lambda>s. keys (sb_role s) (key_fingerprint (sb_signature s)) \<noteq> None) sigs)
     \<and> (\<forall>s \<in> set sigs. \<forall>pk. keys (sb_role s) (key_fingerprint (sb_signature s)) = Some pk
          \<longrightarrow> verify x pk msg (sb_signature s) = Inr ())"
proof (induction sigs arbitrary: roles)
  case Nil
  then show ?case by auto
next
  case (Cons s ss)
  then show ?case
    by (auto simp: rbind_eq_Inr split: option.splits sum.splits)
qed

lemma verify_Inr_iff:
  "verify x pk msg s = Inr () \<longleftrightarrow>
     pk_algorithm pk = Ed25519 \<and> length (pk_value pk) = 32 \<and> ext_key_ok x (pk_value pk)
     \<and> sig_algorithm s = Ed25519 \<and> length (sig_value s) = 64
     \<and> ext_verify x (pk_value pk) msg (sig_value s)"
  by (auto simp: verify_def verifying_key_from_public_key_def verify_message_def)

lemma verify_receipt_signatures_Inr_iff:
  "verify_receipt_signatures cx r pk keys = Inr out \<longleftrightarrow>
     sorted (map (rank \<circ> sb_role) (r_signatures r))
     \<and> (\<exists>s. find (\<lambda>s. sb_role s = Actor) (r_signatures r) = Some s
          \<and> verify (rc_ext cx) pk (canonical_bytes cx r) (sb_signature s) = Inr ())
     \<and> (\<exists>roles. verify_optional (rc_ext cx) (canonical_bytes cx r) keys
            (filter (\<lambda>s. sb_role s \<noteq> Actor) (r_signatures r)) = Inr roles
          \<and> out = \<lparr>vo_content_address = content_address cx r, vo_verified_roles = Actor # roles\<rparr>)"
  by (auto simp: verify_receipt_signatures_def Let_def rbind_eq_Inr enforce_canonical_order_iff)

end
