(* ===== verification/Merkle.thy ===== *)
theory Merkle
  imports Receipt "HOL-Library.Product_Lexorder"
begin

text \<open>
  The sorted-pair Merkle tree over a batch of receipts (\<open>crates/yutha-receipt/src/merkle.rs\<close>):
  the canonical sort, the duplicate check, the level-by-level construction with the running
  sibling paths, and the path check of an external verifier. The inner loop over the pairs of a
  level is \<open>merkle_pass\<close>, the outer loop \<open>merkle_levels\<close>; its termination is the shrinking of the
  level.
\<close>

section \<open>Definitions\<close>

record LeafProof =
  lp_leaf :: Hash
  lp_path :: "Hash list"

record MerkleBatch =
  mb_root :: Hash
  mb_leaves :: "LeafProof list"

definition sorted_pair_hash :: "externals \<Rightarrow> Hash \<Rightarrow> Hash \<Rightarrow> Hash" where
  "sorted_pair_hash x a b =
     (if digest a \<le> digest b then sha256 x (digest a @ digest b)
      else sha256 x (digest b @ digest a))"

definition verify_path :: "externals \<Rightarrow> Hash \<Rightarrow> Hash list \<Rightarrow> Hash \<Rightarrow> bool" where
  "verify_path x leaf path expected_root = (foldl (sorted_pair_hash x) leaf path = expected_root)"

definition merkle_entries :: "receipt_ctx \<Rightarrow> Receipt list \<Rightarrow> (u64 \<times> Hash) list" where
  "merkle_entries cx rs =
     sort_key (\<lambda>e. (fst e, digest (snd e)))
       (map (\<lambda>r. (monotonic_ns (r_occurred_at r), content_address cx r)) rs)"

fun adjacent_duplicate :: "(u64 \<times> Hash) list \<Rightarrow> Hash option" where
  "adjacent_duplicate (a # b # es) =
     (if snd a = snd b then Some (snd a) else adjacent_duplicate (b # es))"
| "adjacent_duplicate _ = None"

definition record_siblings ::
    "nat \<Rightarrow> Hash \<Rightarrow> Hash \<Rightarrow> nat list \<Rightarrow> Hash list list \<Rightarrow> Hash list list" where
  "record_siblings chunk_start left right positions paths =
     map2 (\<lambda>pos path. if pos = chunk_start then path @ [right]
                      else if pos = chunk_start + 1 then path @ [left] else path)
       positions paths"

fun merkle_pass ::
    "externals \<Rightarrow> nat \<Rightarrow> Hash list \<Rightarrow> nat list \<Rightarrow> Hash list list \<Rightarrow> Hash list \<times> Hash list list" where
  "merkle_pass x chunk_start [] positions paths = ([], paths)"
| "merkle_pass x chunk_start [left] positions paths =
     ([sorted_pair_hash x left left], record_siblings chunk_start left left positions paths)"
| "merkle_pass x chunk_start (left # right # rest) positions paths =
     (let (next_level, paths') =
            merkle_pass x (chunk_start + 2) rest positions
              (record_siblings chunk_start left right positions paths)
      in (sorted_pair_hash x left right # next_level, paths'))"

lemma length_merkle_pass [simp]:
  "length (fst (merkle_pass x cs level positions paths)) = (length level + 1) div 2"
  by (induction x cs level positions paths rule: merkle_pass.induct)
    (auto simp: Let_def split: prod.splits)

function merkle_levels ::
    "externals \<Rightarrow> Hash list \<Rightarrow> nat list \<Rightarrow> Hash list list \<Rightarrow> Hash list \<times> Hash list list" where
  "merkle_levels x level positions paths =
     (if length level > 1 then
        merkle_levels x (fst (merkle_pass x 0 level positions paths))
          (map (\<lambda>p. p div 2) positions) (snd (merkle_pass x 0 level positions paths))
      else (level, paths))"
  by pat_completeness auto
termination
  by (relation "measure (\<lambda>(x, level, positions, paths). length level)") auto

declare merkle_levels.simps [simp del]

definition build_merkle :: "receipt_ctx \<Rightarrow> Receipt list \<Rightarrow> ReceiptError + MerkleBatch" where
  "build_merkle cx receipts =
     (if receipts = [] then Inl (BatchInvalid ''merkle batch must be non-empty'')
      else
        let entries = merkle_entries cx receipts in
        case adjacent_duplicate entries of
          Some h \<Rightarrow> Inl (BatchInvalid ''duplicate receipt_id in batch'')
        | None \<Rightarrow>
            let leaves = map snd entries; n = length leaves in
            if n = 1
            then Inr \<lparr>mb_root = hd leaves, mb_leaves = [\<lparr>lp_leaf = hd leaves, lp_path = []\<rparr>]\<rparr>
            else
              let (level, paths) =
                    merkle_levels (rc_ext cx) leaves [0..<n] (replicate n [])
              in Inr \<lparr>mb_root = hd level,
                      mb_leaves = map2 (\<lambda>l p. \<lparr>lp_leaf = l, lp_path = p\<rparr>) leaves paths\<rparr>)"

section \<open>One level\<close>

lemma sorted_pair_hash_comm: "sorted_pair_hash x a b = sorted_pair_hash x b a"
  by (auto simp: sorted_pair_hash_def)

text \<open>The siblings that a pass starting at \<open>cs\<close> records for position \<open>p\<close>.\<close>

fun siblings :: "nat \<Rightarrow> Hash list \<Rightarrow> nat \<Rightarrow> Hash list" where
  "siblings cs [] p = []"
| "siblings cs [l] p = (if p = cs then [l] else if p = cs + 1 then [l] else [])"
| "siblings cs (l # r # rest) p =
     (if p = cs then [r] else if p = cs + 1 then [l] else siblings (cs + 2) rest p)"

lemma siblings_below: "p < cs \<Longrightarrow> siblings cs level p = []"
  by (induction cs level p rule: siblings.induct) auto

lemma length_record_siblings [simp]:
  "length positions = length paths \<Longrightarrow> length (record_siblings cs l r positions paths) = length paths"
  by (simp add: record_siblings_def)

lemma nth_record_siblings:
  "length positions = length paths \<Longrightarrow> i < length paths \<Longrightarrow>
   record_siblings cs l r positions paths ! i =
     paths ! i @ (if positions ! i = cs then [r] else if positions ! i = cs + 1 then [l] else [])"
  by (simp add: record_siblings_def)

lemma merkle_pass_paths:
  assumes "length positions = length paths"
  shows "length (snd (merkle_pass x cs level positions paths)) = length paths"
    and "i < length paths \<Longrightarrow>
      snd (merkle_pass x cs level positions paths) ! i = paths ! i @ siblings cs level (positions ! i)"
  using assms
proof (induction x cs level positions paths rule: merkle_pass.induct)
  case (3 x cs l r rest positions paths)
  {
    case 1
    then show ?case using "3.IH" by (simp add: Let_def case_prod_beta)
  next
    case 2
    then show ?case
      using "3.IH"
      by (auto simp: Let_def nth_record_siblings siblings_below case_prod_beta)
  }
qed (auto simp: nth_record_siblings)

lemma merkle_pass_level:
  "cs \<le> p \<Longrightarrow> p < cs + length level \<Longrightarrow>
   foldl (sorted_pair_hash x) (level ! (p - cs)) (siblings cs level p) =
     fst (merkle_pass x cs level positions paths) ! ((p - cs) div 2)"
proof (induction x cs level positions paths arbitrary: p rule: merkle_pass.induct)
  case (1 x cs positions paths)
  then show ?case by simp
next
  case (2 x cs l positions paths)
  then show ?case by simp
next
  case (3 x cs l r rest positions paths)
  consider "p = cs" | "p = cs + 1" | "cs + 2 \<le> p"
    using "3.prems"(1) by linarith
  then show ?case
  proof cases
    case 1
    then show ?thesis by (simp add: Let_def case_prod_beta)
  next
    case 2
    then show ?thesis by (simp add: Let_def sorted_pair_hash_comm case_prod_beta)
  next
    case 3
    then have "(p - cs) div 2 = Suc ((p - (cs + 2)) div 2)" and "p - cs = Suc (Suc (p - (cs + 2)))"
      by auto
    with 3 "3.IH" [of p] "3.prems" show ?thesis
      by (auto simp: Let_def case_prod_beta)
  qed
qed

section \<open>The whole construction\<close>

text \<open>
  The invariant of the outer loop: folding a leaf's recorded path from the leaf reaches the node
  of the current level that its position names.
\<close>

definition merkle_inv ::
    "externals \<Rightarrow> Hash list \<Rightarrow> Hash list \<Rightarrow> nat list \<Rightarrow> Hash list list \<Rightarrow> bool" where
  "merkle_inv x leaves level positions paths \<longleftrightarrow>
     length positions = length leaves \<and> length paths = length leaves \<and>
     (\<forall>i < length leaves. positions ! i < length level \<and>
        foldl (sorted_pair_hash x) (leaves ! i) (paths ! i) = level ! (positions ! i))"

lemma merkle_inv_pass:
  assumes "merkle_inv x leaves level positions paths"
  shows "merkle_inv x leaves (fst (merkle_pass x 0 level positions paths))
    (map (\<lambda>p. p div 2) positions) (snd (merkle_pass x 0 level positions paths))"
proof -
  have len: "length positions = length paths" "length paths = length leaves"
    using assms by (simp_all add: merkle_inv_def)
  {
    fix i assume i: "i < length leaves"
    let ?p = "positions ! i"
    have p: "?p < length level" and fold: "foldl (sorted_pair_hash x) (leaves ! i) (paths ! i) = level ! ?p"
      using assms i by (simp_all add: merkle_inv_def)
    have "?p div 2 < (length level + 1) div 2"
      using p by linarith
    moreover have "foldl (sorted_pair_hash x) (leaves ! i)
        (snd (merkle_pass x 0 level positions paths) ! i)
        = fst (merkle_pass x 0 level positions paths) ! (?p div 2)"
      using merkle_pass_level [of 0 ?p level x positions paths] p fold i len
      by (simp add: merkle_pass_paths(2) [OF len(1)])
    ultimately have "?p div 2 < (length level + 1) div 2 \<and>
        foldl (sorted_pair_hash x) (leaves ! i) (snd (merkle_pass x 0 level positions paths) ! i)
        = fst (merkle_pass x 0 level positions paths) ! (?p div 2)" ..
  }
  then show ?thesis
    using len merkle_pass_paths(1) [OF len(1)] by (simp add: merkle_inv_def)
qed

lemma merkle_levels_inv:
  assumes "merkle_inv x leaves level positions paths" and "level \<noteq> []"
  shows "\<exists>root. fst (merkle_levels x level positions paths) = [root] \<and>
    merkle_inv x leaves [root] (replicate (length leaves) 0)
      (snd (merkle_levels x level positions paths))"
  using assms
proof (induction x level positions paths rule: merkle_levels.induct)
  case (1 x level positions paths)
  show ?case
  proof (cases "length level > 1")
    case True
    then have "length (fst (merkle_pass x 0 level positions paths)) \<noteq> 0"
      by simp
    then have "fst (merkle_pass x 0 level positions paths) \<noteq> []"
      by (metis list.size(3))
    then show ?thesis
      using "1.IH" [OF True merkle_inv_pass [OF "1.prems"(1)]] True
      by (simp add: merkle_levels.simps [of x level])
  next
    case False
    with "1.prems"(2) obtain root where "level = [root]"
      by (cases level) auto
    moreover from this "1.prems"(1) have "positions = replicate (length leaves) 0"
      by (auto simp: merkle_inv_def list_eq_iff_nth_eq)
    ultimately show ?thesis
      using "1.prems"(1) by (simp add: merkle_levels.simps [of x "[root]"])
  qed
qed

lemma merkle_levels_paths:
  assumes "leaves \<noteq> []"
  shows "\<exists>root paths. merkle_levels x leaves [0..<length leaves] (replicate (length leaves) []) = ([root], paths)
    \<and> length paths = length leaves
    \<and> (\<forall>i < length leaves. foldl (sorted_pair_hash x) (leaves ! i) (paths ! i) = root)"
proof -
  let ?l = "merkle_levels x leaves [0..<length leaves] (replicate (length leaves) [])"
  have "merkle_inv x leaves leaves [0..<length leaves] (replicate (length leaves) [])"
    by (simp add: merkle_inv_def)
  from merkle_levels_inv [OF this assms] obtain root where
    "fst ?l = [root]" and "merkle_inv x leaves [root] (replicate (length leaves) 0) (snd ?l)"
    by blast
  then show ?thesis
    by (intro exI [of _ root] exI [of _ "snd ?l"]) (auto simp: merkle_inv_def prod_eq_iff)
qed

section \<open>Sorting and duplicates\<close>

lemma adjacent_duplicate_None_distinct:
  assumes "sorted (map (\<lambda>e. (fst e, digest (snd e))) es)"
    and "adjacent_duplicate es = None"
    and "\<And>a b. a \<in> set es \<Longrightarrow> b \<in> set es \<Longrightarrow> snd a = snd b \<Longrightarrow> fst a = fst b"
    and "\<And>a. a \<in> set es \<Longrightarrow> algorithm (snd a) = Sha256"
  shows "distinct (map snd es)"
  using assms
proof (induction es rule: adjacent_duplicate.induct)
  case (1 a b es)
  have neq: "snd a \<noteq> snd b" and rest: "distinct (map snd (b # es))"
    using 1 by (auto split: if_splits)
  have "snd a \<noteq> snd c" if c: "c \<in> set es" for c
  proof
    assume eq: "snd a = snd c"
    then have "fst a = fst c"
      using "1.prems"(3) c by auto
    moreover have "(fst a, digest (snd a)) \<le> (fst b, digest (snd b))"
      and "(fst b, digest (snd b)) \<le> (fst c, digest (snd c))"
      using "1.prems"(1) c by auto
    ultimately have "(fst b, digest (snd b)) = (fst a, digest (snd a))"
      using eq by (metis order_antisym)
    then have "snd a = snd b"
      using "1.prems"(4) by (intro Hash.equality) auto
    with neq show False ..
  qed
  with neq rest show ?case by auto
next
  case "2_1"
  show ?case by simp
next
  case "2_2"
  show ?case by simp
qed

lemma merkle_entries_sorted:
  "sorted (map (\<lambda>e. (fst e, digest (snd e))) (merkle_entries cx rs))"
  by (simp add: merkle_entries_def)

lemma mset_merkle_entries:
  "mset (merkle_entries cx rs) =
     mset (map (\<lambda>r. (monotonic_ns (r_occurred_at r), content_address cx r)) rs)"
  by (simp add: merkle_entries_def)

lemma set_merkle_entries:
  "set (merkle_entries cx rs) =
     (\<lambda>r. (monotonic_ns (r_occurred_at r), content_address cx r)) ` set rs"
  by (simp add: merkle_entries_def)

lemma length_merkle_entries [simp]: "length (merkle_entries cx rs) = length rs"
  by (simp add: merkle_entries_def)

lemma merkle_entries_eq_Nil [simp]: "merkle_entries cx rs = [] \<longleftrightarrow> rs = []"
  by (metis length_merkle_entries length_0_conv)

lemma content_address_Sha256 [simp]: "algorithm (content_address cx r) = Sha256"
  by (simp add: content_address_def sha256_def)

lemma merkle_entries_perm:
  assumes "mset rs = mset rs'"
  shows "merkle_entries cx rs = merkle_entries cx rs'"
proof -
  let ?f = "\<lambda>r. (monotonic_ns (r_occurred_at r), content_address cx r)"
  let ?k = "\<lambda>e. (fst e, digest (snd e))"
  have "mset (map ?f rs) = mset (map ?f rs')"
    using assms by (metis mset_map)
  moreover have "inj_on ?k (set (map ?f rs))"
    by (auto intro!: inj_onI Hash.equality)
  ultimately show ?thesis
    unfolding merkle_entries_def by (rule sort_key_eq_sort_key)
qed

section \<open>Correctness of batches\<close>

lemma adjacent_duplicate_Some: "adjacent_duplicate es = Some h \<Longrightarrow> \<not> distinct (map snd es)"
  by (induction es rule: adjacent_duplicate.induct) (auto split: if_splits)

lemma distinct_merkle_entries:
  "distinct (map snd (merkle_entries cx rs)) \<longleftrightarrow> distinct (map (content_address cx) rs)"
proof -
  have "mset (map snd (merkle_entries cx rs)) = image_mset snd (mset (merkle_entries cx rs))"
    by simp
  also have "\<dots> = mset (map (content_address cx) rs)"
    by (simp add: mset_merkle_entries image_mset.compositionality comp_def)
  finally show ?thesis
    by (metis mset_eq_imp_distinct_iff)
qed

lemma build_merkle_Inr_iff:
  assumes "rs \<noteq> []"
  shows "build_merkle cx rs = Inr b \<longleftrightarrow>
    adjacent_duplicate (merkle_entries cx rs) = None \<and>
    (\<exists>paths. merkle_levels (rc_ext cx) (map snd (merkle_entries cx rs)) [0..<length rs]
        (replicate (length rs) []) = ([mb_root b], paths)
      \<and> length paths = length rs
      \<and> mb_leaves b = map2 (\<lambda>l p. \<lparr>lp_leaf = l, lp_path = p\<rparr>) (map snd (merkle_entries cx rs)) paths)"
proof -
  let ?leaves = "map snd (merkle_entries cx rs)"
  have ne: "?leaves \<noteq> []" and len: "length ?leaves = length rs"
    using assms by simp_all
  obtain root paths where l: "merkle_levels (rc_ext cx) ?leaves [0..<length rs]
      (replicate (length rs) []) = ([root], paths)" "length paths = length rs"
    using merkle_levels_paths [OF ne, of "rc_ext cx"] len by auto
  have one: "?leaves = [root] \<and> paths = [[]]" if "length rs = 1"
  proof -
    have "length (merkle_entries cx rs) = Suc 0"
      using that by simp
    then obtain e where "merkle_entries cx rs = [e]"
      by (metis length_0_conv length_Suc_conv)
    with l that show ?thesis
      by (auto simp: merkle_levels.simps [of _ "[_]"])
  qed
  show ?thesis
  proof (cases "adjacent_duplicate (merkle_entries cx rs)")
    case None
    then show ?thesis
      using assms l one by (cases "length rs = 1")
        (auto simp: build_merkle_def Let_def intro!: MerkleBatch.equality)
  next
    case (Some h)
    then show ?thesis
      using assms by (simp add: build_merkle_def)
  qed
qed

lemma build_merkle_leaves:
  assumes "build_merkle cx rs = Inr b"
  shows "map lp_leaf (mb_leaves b) = map snd (merkle_entries cx rs)"
    and "\<forall>p \<in> set (mb_leaves b). verify_path (rc_ext cx) (lp_leaf p) (lp_path p) (mb_root b)"
proof -
  have ne: "rs \<noteq> []"
    using assms by (auto simp: build_merkle_def)
  let ?leaves = "map snd (merkle_entries cx rs)"
  from assms obtain paths where l: "merkle_levels (rc_ext cx) ?leaves [0..<length rs]
      (replicate (length rs) []) = ([mb_root b], paths)" "length paths = length rs"
    and b: "mb_leaves b = map2 (\<lambda>l p. \<lparr>lp_leaf = l, lp_path = p\<rparr>) ?leaves paths"
    by (auto simp: build_merkle_Inr_iff [OF ne])
  show "map lp_leaf (mb_leaves b) = ?leaves"
    using l(2) by (simp add: b case_prod_beta comp_def)
  have "\<forall>i < length rs. foldl (sorted_pair_hash (rc_ext cx)) (?leaves ! i) (paths ! i) = mb_root b"
    using merkle_levels_paths [of ?leaves "rc_ext cx"] l ne by auto
  then show "\<forall>p \<in> set (mb_leaves b). verify_path (rc_ext cx) (lp_leaf p) (lp_path p) (mb_root b)"
    using l(2) by (auto simp: b verify_path_def in_set_conv_nth)
qed

text \<open>
  Two receipts of a batch with the same identifier carry the same time. It fails only when
  SHA-256 collides on two receipts of the batch: the time is part of the canonical bytes.
\<close>

definition address_determines_time :: "receipt_ctx \<Rightarrow> Receipt list \<Rightarrow> bool" where
  "address_determines_time cx rs =
     (\<forall>r \<in> set rs. \<forall>r' \<in> set rs. content_address cx r = content_address cx r' \<longrightarrow>
        monotonic_ns (r_occurred_at r) = monotonic_ns (r_occurred_at r'))"

lemma build_merkle_ok_if:
  assumes "rs \<noteq> []" and "distinct (map (content_address cx) rs)"
  shows "\<exists>b. build_merkle cx rs = Inr b"
proof -
  have "adjacent_duplicate (merkle_entries cx rs) = None"
    using assms(2) adjacent_duplicate_Some distinct_merkle_entries by (metis option.exhaust)
  moreover have "map snd (merkle_entries cx rs) \<noteq> []"
    using assms(1) by simp
  from merkle_levels_paths [OF this, of "rc_ext cx"] obtain root paths where
    "merkle_levels (rc_ext cx) (map snd (merkle_entries cx rs)) [0..<length rs]
      (replicate (length rs) []) = ([root], paths)" "length paths = length rs"
    by auto
  ultimately show ?thesis
    by (intro exI [of _ "\<lparr>mb_root = root, mb_leaves = map2 (\<lambda>l p. \<lparr>lp_leaf = l, lp_path = p\<rparr>)
        (map snd (merkle_entries cx rs)) paths\<rparr>"])
      (simp add: build_merkle_Inr_iff [OF assms(1)])
qed

lemma build_merkle_distinct:
  assumes "build_merkle cx rs = Inr b" and "address_determines_time cx rs"
  shows "distinct (map (content_address cx) rs)"
proof -
  have "adjacent_duplicate (merkle_entries cx rs) = None"
    using assms(1) build_merkle_Inr_iff [of rs cx b] by (cases "rs = []") (simp_all add: build_merkle_def)
  then have "distinct (map snd (merkle_entries cx rs))"
  proof (rule adjacent_duplicate_None_distinct [OF merkle_entries_sorted])
    fix a b assume "a \<in> set (merkle_entries cx rs)" "b \<in> set (merkle_entries cx rs)" "snd a = snd b"
    then obtain r r' where "r \<in> set rs" "r' \<in> set rs" "content_address cx r = content_address cx r'"
      "fst a = monotonic_ns (r_occurred_at r)" "fst b = monotonic_ns (r_occurred_at r')"
      by (auto simp: set_merkle_entries)
    then show "fst a = fst b"
      using assms(2) unfolding address_determines_time_def by metis
  next
    fix a assume "a \<in> set (merkle_entries cx rs)"
    then show "algorithm (snd a) = Sha256"
      by (auto simp: set_merkle_entries)
  qed
  then show ?thesis
    by (simp add: distinct_merkle_entries)
qed

end
