(* ===== verification/Sealing.thy ===== *)
theory Sealing
  imports Merkle
begin

text \<open>
  Sealing batches of receipts (\<open>crates/yutha-receipt/src/sealer.rs\<close>, \<open>preimage.rs\<close>): the action
  histogram, the time range, the local sealer, and the canonical preimage that an anchoring
  backend signs and the on-chain contract rebuilds.
\<close>

section \<open>Histogram and time range\<close>

definition histogram_add :: "string \<Rightarrow> (string, u64) btree_map \<Rightarrow> (string, u64) btree_map" where
  "histogram_add k m = bt_insert k ((case bt_get m k of None \<Rightarrow> 0 | Some c \<Rightarrow> c) + 1) m"

definition compute_histogram :: "Receipt list \<Rightarrow> (string, u64) btree_map" where
  "compute_histogram rs = fold (\<lambda>r. histogram_add (r_action_kind r)) rs []"

text \<open>The minimum and maximum over the batch; an empty batch panics, here \<open>None\<close>.\<close>

definition compute_ns_range :: "Receipt list \<Rightarrow> (u64 \<times> u64) option" where
  "compute_ns_range rs =
     (case map (\<lambda>r. monotonic_ns (r_occurred_at r)) rs of
        [] \<Rightarrow> None
      | first # rest \<Rightarrow> Some (foldl (\<lambda>(lo, hi) v. (min lo v, max hi v)) (first, first) rest))"

section \<open>Local sealer\<close>

record SealedBatch =
  sb_batch_root :: Hash
  sb_leaves :: "LeafProof list"
  sb_sealed_at :: Timestamp
  sb_action_kind_histogram :: "(string, u64) btree_map"
  sb_ns_range :: "u64 \<times> u64"
  sb_commitment_id :: bytes

datatype SealError =
    EmptyBatch
  | MerkleError string
  | PreimageError string
  | Transient string
  | Permanent string
  | Signing string

fun seal_error_from :: "ReceiptError \<Rightarrow> SealError" where
  "seal_error_from (BatchInvalid msg) = MerkleError msg"
| "seal_error_from e = Permanent ''receipt error''"

definition local_seal_batch ::
    "receipt_ctx \<Rightarrow> Timestamp \<Rightarrow> Receipt list \<Rightarrow> SealError + SealedBatch" where
  "local_seal_batch cx now rs =
     (if rs = [] then Inl EmptyBatch
      else
        rbind (map_err seal_error_from (build_merkle cx rs)) (\<lambda>b.
          case compute_ns_range rs of
            None \<Rightarrow> Inl EmptyBatch \<comment> \<open>unreachable: the batch is not empty\<close>
          | Some rng \<Rightarrow>
              Inr \<lparr>sb_batch_root = mb_root b, sb_leaves = mb_leaves b, sb_sealed_at = now,
                   sb_action_kind_histogram = compute_histogram rs, sb_ns_range = rng,
                   sb_commitment_id = []\<rparr>))"

section \<open>Canonical preimage\<close>

definition MAX_ACTION_KIND_LEN :: nat where
  "MAX_ACTION_KIND_LEN = 255"

text \<open>The validating loop over the histogram, with the running sum.\<close>

fun histogram_check :: "(string \<times> u64) list \<Rightarrow> u64 \<Rightarrow> ReceiptError + u64" where
  "histogram_check [] acc = Inr acc"
| "histogram_check ((kind, k_count) # es) acc =
     (if kind = [] then Inl (BatchInvalid ''action_kind keys must be non-empty'')
      else if length kind > MAX_ACTION_KIND_LEN
      then Inl (BatchInvalid ''action_kind exceeds 255-byte limit'')
      else if k_count = 0 then Inl (BatchInvalid ''histogram value is zero'')
      else case checked_add acc k_count of
             None \<Rightarrow> Inl (BatchInvalid ''histogram sum overflows u64'')
           | Some acc' \<Rightarrow> histogram_check es acc')"

definition encode_entry :: "string \<times> u64 \<Rightarrow> bytes" where
  "encode_entry e =
     of_nat (length (fst e)) # as_bytes (fst e) @ u64_to_be_bytes (snd e)"

definition canonical_preimage ::
    "SwarmId \<Rightarrow> Hash \<Rightarrow> u64 \<Rightarrow> u64 \<Rightarrow> u64 \<Rightarrow> (string, u64) btree_map \<Rightarrow> ReceiptError + bytes" where
  "canonical_preimage swarm_id batch_root cnt ns_start ns_end histogram =
     rbind (map_err ReceiptCore (hash_validate batch_root)) (\<lambda>_.
       if ns_start > ns_end then Inl (BatchInvalid ''ns_range_start > ns_range_end'')
       else if histogram = [] then Inl (BatchInvalid ''histogram must be non-empty'')
       else
         rbind (histogram_check histogram 0) (\<lambda>total.
           if total \<noteq> cnt then Inl (BatchInvalid ''histogram values do not sum to count'')
           else if length histogram \<ge> 2 ^ 32
           then Inl (BatchInvalid ''histogram has more than u32::MAX entries'')
           else
             Inr (swarm_as_bytes swarm_id @ digest batch_root @ u64_to_be_bytes cnt
                  @ u64_to_be_bytes ns_start @ u64_to_be_bytes ns_end
                  @ u32_to_be_bytes (of_nat (length histogram))
                  @ concat (map encode_entry histogram))))"

section \<open>The histogram counts\<close>

lemma compute_histogram_wf: "bt_wf (compute_histogram rs)"
proof -
  have "bt_wf m \<Longrightarrow> bt_wf (fold (\<lambda>r. histogram_add (r_action_kind r)) rs m)" for m
    by (induction rs arbitrary: m) (auto simp: histogram_add_def bt_wf_insert)
  then show ?thesis
    by (simp add: compute_histogram_def bt_wf_def)
qed

lemma compute_histogram_get:
  "bt_get (compute_histogram rs) k =
     (let n = length (filter (\<lambda>r. r_action_kind r = k) rs)
      in if n = 0 then None else Some (of_nat n))"
proof -
  have "bt_get (fold (\<lambda>r. histogram_add (r_action_kind r)) rs m) k =
     (let n = length (filter (\<lambda>r. r_action_kind r = k) rs)
      in if n = 0 then bt_get m k
         else Some ((case bt_get m k of None \<Rightarrow> 0 | Some c \<Rightarrow> c) + of_nat n))" for m
  proof (induction rs arbitrary: m)
    case Nil
    then show ?case by simp
  next
    case (Cons r rs)
    show ?case
      unfolding fold.simps comp_def Cons.IH
      by (auto simp: histogram_add_def Let_def algebra_simps split: option.splits)
  qed
  from this [of "[]"] show ?thesis
    by (simp add: compute_histogram_def Let_def)
qed

text \<open>The sum of the values, as a number; the histogram of a batch sums to its length.\<close>

definition value_total :: "(string \<times> u64) list \<Rightarrow> nat" where
  "value_total es = sum_list (map (unat \<circ> snd) es)"

lemma value_total_simps [simp]:
  "value_total [] = 0" "value_total (e # es) = unat (snd e) + value_total es"
  by (simp_all add: value_total_def)

lemma value_total_ge: "bt_get m k = Some c \<Longrightarrow> unat c \<le> value_total m"
  by (induction m) (auto split: if_splits)

lemma histogram_check_sum:
  "histogram_check es s = Inr t \<Longrightarrow> unat t = unat s + value_total es"
  by (induction es s rule: histogram_check.induct)
    (auto split: if_splits option.splits dest: checked_add_Some)

lemma histogram_check_ok:
  "\<forall>e \<in> set es. fst e \<noteq> [] \<and> length (fst e) \<le> 255 \<and> snd e \<noteq> 0 \<Longrightarrow>
   unat s + value_total es < 2 ^ 64 \<Longrightarrow> \<exists>t. histogram_check es s = Inr t"
proof (induction es s rule: histogram_check.induct)
  case (1 s)
  then show ?case by simp
next
  case (2 kind k_count es s)
  then have "checked_add s k_count = Some (s + k_count)"
    by (simp add: checked_add_def)
  moreover from this have "unat (s + k_count) = unat s + unat k_count"
    by (rule checked_add_Some)
  ultimately show ?case
    using 2 by (simp add: MAX_ACTION_KIND_LEN_def not_less)
qed

lemma value_total_insert:
  assumes "bt_wf m"
  shows "value_total (bt_insert k v m) + (case bt_get m k of None \<Rightarrow> 0 | Some w \<Rightarrow> unat w)
    = value_total m + unat v"
  using assms
proof (induction k v m rule: bt_insert.induct)
  case (1 k v)
  then show ?case by simp
next
  case (2 k v k' v' m)
  have "bt_get m k = None" if "k < k'"
    using that "2.prems" by (force simp: map_of_eq_None_iff bt_wf_Cons)
  with 2 show ?case
    by (auto simp: bt_wf_Cons split: option.splits)
qed

lemma value_total_histogram_add:
  assumes "bt_wf m" and "value_total m + 1 < 2 ^ 64"
  shows "value_total (histogram_add k m) = value_total m + 1"
proof -
  let ?c = "case bt_get m k of None \<Rightarrow> 0 | Some c \<Rightarrow> c"
  have le: "unat ?c \<le> value_total m"
    using value_total_ge by (auto split: option.splits)
  then have "unat (?c + 1) = unat ?c + 1"
    using assms(2) by (simp add: unat_word_ariths)
  then show ?thesis
    using value_total_insert [OF assms(1), of k "?c + 1"] le
    by (auto simp: histogram_add_def split: option.splits)
qed

lemma compute_histogram_sum:
  assumes "length rs < 2 ^ 64"
  shows "value_total (compute_histogram rs) = length rs"
proof -
  have "bt_wf m \<Longrightarrow> value_total m + length rs < 2 ^ 64 \<Longrightarrow>
     value_total (fold (\<lambda>r. histogram_add (r_action_kind r)) rs m) = value_total m + length rs" for m
  proof (induction rs arbitrary: m)
    case Nil
    then show ?case by simp
  next
    case (Cons r rs)
    then show ?case
      using value_total_histogram_add [of m "r_action_kind r"]
      by (simp add: histogram_add_def bt_wf_insert)
  qed
  from this [of "[]"] show ?thesis
    using assms by (simp add: compute_histogram_def bt_wf_def)
qed

section \<open>The time range brackets the batch\<close>

lemma foldl_min_max:
  "foldl (\<lambda>(lo, hi) v. (min lo v, max hi v)) (lo, hi) vs =
     (Min (insert lo (set vs)), Max (insert hi (set vs)))" for lo hi :: "'a::linorder"
proof (induction vs arbitrary: lo hi)
  case Nil
  then show ?case by simp
next
  case (Cons v vs)
  then show ?case
    by (cases "vs = []") (simp_all add: insert_commute min.commute max.commute min.left_commute max.left_commute)
qed

lemma compute_ns_range_eq:
  assumes "rs \<noteq> []"
  shows "compute_ns_range rs =
    Some (Min ((\<lambda>r. monotonic_ns (r_occurred_at r)) ` set rs),
          Max ((\<lambda>r. monotonic_ns (r_occurred_at r)) ` set rs))"
  using assms by (cases rs) (simp_all add: compute_ns_range_def foldl_min_max)

section \<open>The preimage determines its inputs\<close>

lemma histogram_check_lengths:
  "histogram_check es s = Inr t \<Longrightarrow> \<forall>e \<in> set es. length (fst e) \<le> 255"
  by (induction es s rule: histogram_check.induct)
    (auto simp: MAX_ACTION_KIND_LEN_def split: if_splits option.splits)

lemma of_nat_byte_eq: "m \<le> 255 \<Longrightarrow> n \<le> 255 \<Longrightarrow> (of_nat m :: byte) = of_nat n \<longleftrightarrow> m = n"
  by (rule of_nat_word_inj) simp_all

lemma encode_entries_inj:
  assumes "length es = length fs"
    and "concat (map encode_entry es) = concat (map encode_entry fs)"
    and "\<forall>e \<in> set es. length (fst e) \<le> 255" and "\<forall>e \<in> set fs. length (fst e) \<le> 255"
  shows "es = fs"
  using assms
proof (induction es fs rule: list_induct2)
  case Nil
  then show ?case by simp
next
  case (Cons e es f fs)
  have eq: "encode_entry e @ concat (map encode_entry es) = encode_entry f @ concat (map encode_entry fs)"
    using Cons.prems(1) by simp
  then have len: "length (fst e) = length (fst f)"
    using Cons.prems(2,3) by (simp add: encode_entry_def [of e] encode_entry_def [of f] of_nat_byte_eq)
  then have "as_bytes (fst e) = as_bytes (fst f)" "u64_to_be_bytes (snd e) = u64_to_be_bytes (snd f)"
    "concat (map encode_entry es) = concat (map encode_entry fs)"
    using eq by (simp_all add: encode_entry_def [of e] encode_entry_def [of f])
  then show ?case
    using Cons.IH Cons.prems by (simp add: prod_eq_iff)
qed

lemma canonical_preimage_Inr:
  assumes "canonical_preimage s r c lo hi h = Inr bs"
  shows "hash_ok r" "lo \<le> hi" "h \<noteq> []" "histogram_check h 0 = Inr c" "length h < 2 ^ 32"
    "bs = swarm_as_bytes s @ digest r @ u64_to_be_bytes c @ u64_to_be_bytes lo @ u64_to_be_bytes hi
       @ u32_to_be_bytes (of_nat (length h)) @ concat (map encode_entry h)"
  using assms
  by (auto simp: canonical_preimage_def rbind_eq_Inr hash_validate_iff not_less not_le split: if_splits)

lemma of_nat_u32_eq: "m < 2 ^ 32 \<Longrightarrow> n < 2 ^ 32 \<Longrightarrow> (of_nat m :: u32) = of_nat n \<longleftrightarrow> m = n"
  by (rule of_nat_word_inj) simp_all

end
