(* ===== verification/Receipt_Store.thy ===== *)
theory Receipt_Store
  imports Sealing
begin

text \<open>
  The in-memory receipt store (\<open>crates/yutha-receipt/src/memory.rs\<close>): verified, idempotent,
  append-only storage with a predecessor index and the seal records of the verifiability tier.
  An operation takes the store and returns its result with the store after it. The interface the
  other components rely on is the locale \<open>receipt_log\<close>.
\<close>

section \<open>State and operations\<close>

record MemoryStore =
  ms_by_id :: "(Hash, Receipt) hash_map"
  ms_by_predecessor :: "(Hash, Hash list) hash_map"
  ms_seals :: "(Hash, SealStatus) hash_map"

definition memory_store_new :: MemoryStore where
  "memory_store_new = \<lparr>ms_by_id = [], ms_by_predecessor = [], ms_seals = []\<rparr>"

text \<open>The \<open>PassportResolver\<close> trait object handed to \<open>append\<close>.\<close>

record PassportResolver =
  resolve_actor :: "AgentId \<Rightarrow> ReceiptError + PublicKey option"
  resolve_role :: "SignatureRole \<Rightarrow> bytes \<Rightarrow> ReceiptError + PublicKey option"

datatype AppendKind = Inserted | AlreadyPresent

record AppendOutcome =
  ao_receipt_id :: Hash
  ao_kind :: AppendKind
  ao_seal :: SealStatus

fun resolve_role_keys ::
    "PassportResolver \<Rightarrow> SignedBy list \<Rightarrow> (SignatureRole \<times> bytes, PublicKey) hash_map
     \<Rightarrow> ReceiptError + (SignatureRole \<times> bytes, PublicKey) hash_map" where
  "resolve_role_keys rs [] keys = Inr keys"
| "resolve_role_keys rs (s # ss) keys =
     (if sb_role s = Actor then resolve_role_keys rs ss keys
      else
        rbind (resolve_role rs (sb_role s) (key_fingerprint (sb_signature s))) (\<lambda>k.
          case k of
            None \<Rightarrow> resolve_role_keys rs ss keys
          | Some pk \<Rightarrow>
              resolve_role_keys rs ss
                (hm_insert (sb_role s, key_fingerprint (sb_signature s)) pk keys)))"

definition index_predecessor ::
    "Hash \<Rightarrow> (Hash, Hash list) hash_map \<Rightarrow> Hash \<Rightarrow> (Hash, Hash list) hash_map" where
  "index_predecessor rid m p =
     hm_insert p ((case hm_get m p of None \<Rightarrow> [] | Some ids \<Rightarrow> ids) @ [rid]) m"

text \<open>Everything \<open>append\<close> does before it takes the write lock.\<close>

definition append_admission ::
    "receipt_ctx \<Rightarrow> PassportResolver \<Rightarrow> Receipt \<Rightarrow> ReceiptError + VerificationOutcome" where
  "append_admission cx rs r =
     rbind (resolve_actor rs (r_actor r)) (\<lambda>k.
     rbind (ok_or k (ActorNotResolvable (r_actor r))) (\<lambda>actor_pk.
     rbind (resolve_role_keys rs (r_signatures r) []) (\<lambda>role_keys.
       verify_receipt_signatures cx r actor_pk (\<lambda>role fp. hm_get role_keys (role, fp)))))"

definition append_receipt ::
    "receipt_ctx \<Rightarrow> PassportResolver \<Rightarrow> Receipt \<Rightarrow> MemoryStore
     \<Rightarrow> (ReceiptError + AppendOutcome) \<times> MemoryStore" where
  "append_receipt cx rs r ms =
     (case append_admission cx rs r of
        Inl e \<Rightarrow> (Inl e, ms)
      | Inr _ \<Rightarrow>
          let rid = content_address cx r in
          if hm_get (ms_by_id ms) rid \<noteq> None
          then (Inr \<lparr>ao_receipt_id = rid, ao_kind = AlreadyPresent, ao_seal = unsealed\<rparr>, ms)
          else
            (Inr \<lparr>ao_receipt_id = rid, ao_kind = Inserted, ao_seal = unsealed\<rparr>,
             ms\<lparr>ms_by_predecessor :=
                  foldl (index_predecessor rid) (ms_by_predecessor ms) (predecessors (r_causal r)),
                ms_by_id := hm_insert rid r (ms_by_id ms)\<rparr>))"

definition get_receipt :: "MemoryStore \<Rightarrow> Hash \<Rightarrow> Receipt option" where
  "get_receipt ms rid = hm_get (ms_by_id ms) rid"

datatype Query =
    ByReceiptId Hash
  | ByPredecessor Hash
  | ByAgent AgentId
  | ByActionKind string
  | ByTimeRange Timestamp Timestamp

record Page =
  page_receipts :: "Receipt list"
  page_next_token :: "bytes option"

fun query_receipts :: "MemoryStore \<Rightarrow> Query \<Rightarrow> Receipt list" where
  "query_receipts ms (ByReceiptId rid) =
     (case hm_get (ms_by_id ms) rid of None \<Rightarrow> [] | Some r \<Rightarrow> [r])"
| "query_receipts ms (ByPredecessor p) =
     (case hm_get (ms_by_predecessor ms) p of
        None \<Rightarrow> []
      | Some ids \<Rightarrow> List.map_filter (hm_get (ms_by_id ms)) ids)"
| "query_receipts ms (ByAgent a) = filter (\<lambda>r. r_actor r = a) (map snd (ms_by_id ms))"
| "query_receipts ms (ByActionKind k) = filter (\<lambda>r. r_action_kind r = k) (map snd (ms_by_id ms))"
| "query_receipts ms (ByTimeRange from to) =
     filter (\<lambda>r. monotonic_ns (r_occurred_at r) \<ge> monotonic_ns from
               \<and> monotonic_ns (r_occurred_at r) \<le> monotonic_ns to) (map snd (ms_by_id ms))"

definition query :: "MemoryStore \<Rightarrow> Query \<Rightarrow> ReceiptError + Page" where
  "query ms q = Inr \<lparr>page_receipts = query_receipts ms q, page_next_token = None\<rparr>"

definition count_receipts :: "MemoryStore \<Rightarrow> u64" where
  "count_receipts ms = of_nat (length (ms_by_id ms))"

text \<open>First pass of \<open>record_sealed_batch\<close>: a leaf sealed under another root is a conflict.\<close>

definition seal_conflict :: "MemoryStore \<Rightarrow> SealedBatch \<Rightarrow> LeafProof \<Rightarrow> bool" where
  "seal_conflict ms batch leaf =
     (case hm_get (ms_seals ms) (lp_leaf leaf) of
        None \<Rightarrow> False
      | Some existing \<Rightarrow> seal_batch_root existing \<noteq> Some (sb_batch_root batch))"

definition leaf_seal_status :: "SealedBatch \<Rightarrow> LeafProof \<Rightarrow> SealStatus" where
  "leaf_seal_status batch leaf =
     (if sb_commitment_id batch = []
      then sealed (sb_batch_root batch) (lp_path leaf) (sb_sealed_at batch)
      else sealed_with_anchor (sb_batch_root batch) (lp_path leaf) (sb_sealed_at batch)
             (sb_commitment_id batch) [])"

definition record_sealed_batch ::
    "SealedBatch \<Rightarrow> MemoryStore \<Rightarrow> (ReceiptError + unit) \<times> MemoryStore" where
  "record_sealed_batch batch ms =
     (if sb_leaves batch = []
      then (Inl (BatchInvalid ''sealed batch must contain at least one leaf''), ms)
      else if list_ex (seal_conflict ms batch) (sb_leaves batch)
      then (Inl (BatchInvalid ''receipt already sealed in a different batch''), ms)
      else (Inr (), ms\<lparr>ms_seals :=
              foldl (\<lambda>m leaf. hm_insert (lp_leaf leaf) (leaf_seal_status batch leaf) m)
                (ms_seals ms) (sb_leaves batch)\<rparr>))"

definition seal_status :: "MemoryStore \<Rightarrow> Hash \<Rightarrow> SealStatus" where
  "seal_status ms rid = (case hm_get (ms_seals ms) rid of None \<Rightarrow> unsealed | Some s \<Rightarrow> s)"

section \<open>Invariant\<close>

text \<open>
  Every stored receipt is filed under its own content-address, and the predecessor index lists
  exactly the receipts that name the predecessor.
\<close>

definition store_inv :: "receipt_ctx \<Rightarrow> MemoryStore \<Rightarrow> bool" where
  "store_inv cx ms \<longleftrightarrow>
     hm_wf (ms_by_id ms) \<and>
     (\<forall>rid r. hm_get (ms_by_id ms) rid = Some r \<longrightarrow> content_address cx r = rid) \<and>
     (\<forall>p. set (case hm_get (ms_by_predecessor ms) p of None \<Rightarrow> [] | Some ids \<Rightarrow> ids) =
        {rid. \<exists>r. hm_get (ms_by_id ms) rid = Some r \<and> p \<in> set (predecessors (r_causal r))})"

lemma store_inv_new: "store_inv cx memory_store_new"
  by (simp add: store_inv_def memory_store_new_def hm_wf_def)

abbreviation ids_of :: "(Hash, Hash list) hash_map \<Rightarrow> Hash \<Rightarrow> Hash list" where
  "ids_of m p \<equiv> (case hm_get m p of None \<Rightarrow> [] | Some ids \<Rightarrow> ids)"

lemma ids_of_index:
  "set (ids_of (foldl (index_predecessor rid) m ps) p) =
     set (ids_of m p) \<union> (if p \<in> set ps then {rid} else {})"
  by (induction ps arbitrary: m) (auto simp: index_predecessor_def split: option.splits if_splits)

lemma append_receipt_cases:
  obtains
    (error) e where "append_admission cx rs r = Inl e" "append_receipt cx rs r ms = (Inl e, ms)"
  | (present) v where "append_admission cx rs r = Inr v"
      "hm_get (ms_by_id ms) (content_address cx r) \<noteq> None"
      "append_receipt cx rs r ms =
         (Inr \<lparr>ao_receipt_id = content_address cx r, ao_kind = AlreadyPresent, ao_seal = unsealed\<rparr>, ms)"
  | (fresh) v ms' where "append_admission cx rs r = Inr v"
      "hm_get (ms_by_id ms) (content_address cx r) = None"
      "append_receipt cx rs r ms =
         (Inr \<lparr>ao_receipt_id = content_address cx r, ao_kind = Inserted, ao_seal = unsealed\<rparr>, ms')"
      "ms_by_id ms' = hm_insert (content_address cx r) r (ms_by_id ms)"
      "ms_by_predecessor ms' = foldl (index_predecessor (content_address cx r))
         (ms_by_predecessor ms) (predecessors (r_causal r))"
      "ms_seals ms' = ms_seals ms"
proof (cases "append_admission cx rs r")
  case (Inl e)
  then show ?thesis using error by (simp add: append_receipt_def)
next
  case (Inr v)
  show ?thesis
  proof (cases "hm_get (ms_by_id ms) (content_address cx r)")
    case None
    let ?rid = "content_address cx r"
    let ?ms' = "ms\<lparr>ms_by_predecessor := foldl (index_predecessor ?rid) (ms_by_predecessor ms)
        (predecessors (r_causal r)), ms_by_id := hm_insert ?rid r (ms_by_id ms)\<rparr>"
    show ?thesis
      by (rule fresh [of v ?ms']) (simp_all add: append_receipt_def Inr None Let_def)
  next
    case (Some q)
    with Inr show ?thesis using present by (simp add: append_receipt_def)
  qed
qed

lemma store_inv_append:
  assumes "store_inv cx ms"
  shows "store_inv cx (snd (append_receipt cx rs r ms))"
proof (cases rule: append_receipt_cases [of cx rs r ms])
  case (fresh v ms')
  have "set (ids_of (ms_by_predecessor ms') p) =
    {rid. \<exists>q. hm_get (ms_by_id ms') rid = Some q \<and> p \<in> set (predecessors (r_causal q))}" for p
    using assms fresh(2) by (auto simp: fresh(4,5) ids_of_index store_inv_def)
  then show ?thesis
    using assms fresh by (simp add: store_inv_def hm.wf_insert)
qed (use assms in simp_all)

lemma store_inv_seal: "store_inv cx ms \<Longrightarrow> store_inv cx (snd (record_sealed_batch batch ms))"
  by (simp add: record_sealed_batch_def store_inv_def)

section \<open>The log interface\<close>

text \<open>
  What the rest of the system relies on: appending never loses or replaces a receipt, a
  successful append leaves a receipt with the returned identifier, an error changes nothing.
\<close>

locale receipt_log =
  fixes append :: "Receipt \<Rightarrow> 's \<Rightarrow> (ReceiptError + AppendOutcome) \<times> 's"
    and get :: "'s \<Rightarrow> Hash \<Rightarrow> Receipt option"
    and address :: "Receipt \<Rightarrow> Hash"
  assumes append_keeps: "get s h = Some q \<Longrightarrow> get (snd (append r s)) h = Some q"
    and append_error: "fst (append r s) = Inl e \<Longrightarrow> snd (append r s) = s"
    and append_stored: "fst (append r s) = Inr out \<Longrightarrow>
      ao_receipt_id out = address r \<and> get (snd (append r s)) (address r) \<noteq> None"
    and append_only_new: "get (snd (append r s)) h = Some q \<Longrightarrow>
      get s h = Some q \<or> (q = r \<and> h = address r)"
begin

lemma appends_keep: "get s h = Some q \<Longrightarrow> get (fold (\<lambda>r s. snd (append r s)) rs s) h = Some q"
  by (induction rs arbitrary: s) (auto simp: append_keeps)

lemma appends_origin:
  "get (fold (\<lambda>r s. snd (append r s)) rs s) h = Some q \<Longrightarrow>
   get s h = Some q \<or> (q \<in> set rs \<and> h = address q)"
proof (induction rs arbitrary: s)
  case Nil
  then show ?case by simp
next
  case (Cons r rs)
  then show ?case using append_only_new [of r s h q] by auto
qed

lemma append_idempotent:
  assumes "fst (append r s) = Inr out" and "fst (append r (snd (append r s))) = Inr out'"
  shows "get (snd (append r (snd (append r s)))) = get (snd (append r s))"
proof
  fix h
  show "get (snd (append r (snd (append r s)))) h = get (snd (append r s)) h"
  proof (cases "get (snd (append r s)) h")
    case (Some q)
    then show ?thesis by (simp add: append_keeps)
  next
    case None
    then show ?thesis
      using append_only_new [of r "snd (append r s)" h] append_stored [OF assms(1)]
      by (metis not_Some_eq)
  qed
qed

end

interpretation memory_log: receipt_log "append_receipt cx rs" get_receipt "content_address cx" for cx rs
proof
  show "get_receipt (snd (append_receipt cx rs r s)) h = Some q"
    if "get_receipt s h = Some q" for s h q r
    using that by (cases rule: append_receipt_cases [of cx rs r s]) (auto simp: get_receipt_def)
  show "snd (append_receipt cx rs r s) = s" if "fst (append_receipt cx rs r s) = Inl e" for r s e
    using that by (cases rule: append_receipt_cases [of cx rs r s]) auto
  show "ao_receipt_id out = content_address cx r \<and>
      get_receipt (snd (append_receipt cx rs r s)) (content_address cx r) \<noteq> None"
    if "fst (append_receipt cx rs r s) = Inr out" for r s out
    using that by (cases rule: append_receipt_cases [of cx rs r s]) (auto simp: get_receipt_def)
  show "get_receipt s h = Some q \<or> (q = r \<and> h = content_address cx r)"
    if "get_receipt (snd (append_receipt cx rs r s)) h = Some q" for r s h q
    using that by (cases rule: append_receipt_cases [of cx rs r s])
      (auto simp: get_receipt_def split: if_splits)
qed

section \<open>Queries and seals\<close>

lemma set_values: "store_inv cx ms \<Longrightarrow> set (map snd (ms_by_id ms)) = {r. \<exists>rid. get_receipt ms rid = Some r}"
proof -
  assume "store_inv cx ms"
  then have "(rid, r) \<in> set (ms_by_id ms) \<longleftrightarrow> get_receipt ms rid = Some r" for rid r
    using hm.entries_get [of "ms_by_id ms"] by (simp add: store_inv_def get_receipt_def)
  then show ?thesis
    by force
qed

lemma set_map_filter: "set (List.map_filter f xs) = {y. \<exists>x \<in> set xs. f x = Some y}"
  by (auto simp: map_filter_def image_iff) force+

lemma seals_after_batch:
  "hm_get (foldl (\<lambda>m leaf. hm_insert (lp_leaf leaf) (g leaf) m) m leaves) h =
     (case find (\<lambda>l. lp_leaf l = h) (rev leaves) of None \<Rightarrow> hm_get m h | Some l \<Rightarrow> Some (g l))"
proof (induction leaves rule: rev_induct)
  case (snoc l ls)
  then show ?case by auto
qed simp

lemma leaf_seal_status_root [simp]:
  "seal_batch_root (leaf_seal_status batch l) = Some (sb_batch_root batch)"
  "seal_merkle_path (leaf_seal_status batch l) = lp_path l"
  "seal_state (leaf_seal_status batch l) = Sealed"
  by (simp_all add: leaf_seal_status_def sealed_def sealed_with_anchor_def)

end
