(* ===== verification/Passport.thy ===== *)
theory Passport
  imports Receipt_Store
begin

text \<open>
  Passports (\<open>crates/yutha-passport\<close>): the identity manifest with its builder and self-signature
  (\<open>passport.rs\<close>, \<open>tier.rs\<close>, \<open>declarations.rs\<close>), the protobuf conversions (\<open>proto_conv.rs\<close>), the
  in-memory store (\<open>memory.rs\<close>), the control plane's identity (\<open>control_plane.rs\<close>), and the adapter that resolves an agent's key for the receipt store
  (\<open>resolver.rs\<close>).
\<close>

section \<open>Data\<close>

datatype PassportTier = Minimal | Standard | Verifiable

fun tier_rank :: "PassportTier \<Rightarrow> nat" where
  "tier_rank Minimal = 0"
| "tier_rank Standard = 1"
| "tier_rank Verifiable = 2"

text \<open>The derived order of the enum: the order of its constructors.\<close>

instantiation PassportTier :: linorder
begin

definition less_eq_PassportTier :: "PassportTier \<Rightarrow> PassportTier \<Rightarrow> bool" where
  "less_eq_PassportTier a b = (tier_rank a \<le> tier_rank b)"

definition less_PassportTier :: "PassportTier \<Rightarrow> PassportTier \<Rightarrow> bool" where
  "less_PassportTier a b = (tier_rank a < tier_rank b)"

instance
proof
  fix a b c :: PassportTier
  show "a < b \<longleftrightarrow> a \<le> b \<and> \<not> b \<le> a"
    by (auto simp: less_eq_PassportTier_def less_PassportTier_def)
  show "a \<le> a" "a \<le> b \<Longrightarrow> b \<le> c \<Longrightarrow> a \<le> c" "a \<le> b \<or> b \<le> a"
    by (auto simp: less_eq_PassportTier_def)
  show "a \<le> b \<Longrightarrow> b \<le> a \<Longrightarrow> a = b"
    by (cases a; cases b) (auto simp: less_eq_PassportTier_def)
qed

end

record CapabilityDeclaration =
  cd_kind :: string
  cd_resource_tags :: "string list"
  cd_bounds :: "(string, string) btree_map"
  cd_description :: string

record ResourceDeclaration =
  rd_max_concurrent_actions :: u64
  rd_max_messages_per_minute :: u64
  rd_max_tool_calls_per_hour :: u64
  rd_max_usd_per_day_cents :: string
  rd_max_memory_bytes :: u64

definition resource_default :: ResourceDeclaration where
  "resource_default = \<lparr>rd_max_concurrent_actions = 0, rd_max_messages_per_minute = 0,
     rd_max_tool_calls_per_hour = 0, rd_max_usd_per_day_cents = [], rd_max_memory_bytes = 0\<rparr>"

datatype PassportError =
    SelfSignatureInvalid
  | PassportMissingField string
  | PassportExpired
  | AlreadyRegistered AgentId
  | PassportNotFound AgentId
  | RotationContinuityMissing
  | PassportBackend string
  | PassportCrypto CryptoError
  | PassportCore CoreError
  | PassportSigner string

record Passport =
  pp_spec_version :: SpecVersion
  pp_agent_id :: AgentId
  pp_swarm_id :: SwarmId
  pp_agent_public_key :: PublicKey
  pp_owner :: string
  pp_framework :: string
  pp_framework_version :: string
  pp_capabilities :: "CapabilityDeclaration list"
  pp_accepted_constitution_version :: string
  pp_tier :: PassportTier
  pp_resources :: ResourceDeclaration
  pp_issued_at :: Timestamp
  pp_expires_at :: "Timestamp option"
  pp_default_model_provider :: string
  pp_default_model_name :: string
  pp_agent_signature :: "Signature option"

definition passport_is_expired_at :: "externals \<Rightarrow> Passport \<Rightarrow> Timestamp \<Rightarrow> bool" where
  "passport_is_expired_at x p now =
     (case pp_expires_at p of
        None \<Rightarrow> False
      | Some exp \<Rightarrow>
          if wall_at_or_after x now exp then True
          else parsed_wall_clock x now = None \<or> parsed_wall_clock x exp = None)"

record PassportBuilder =
  pb_spec_version :: "SpecVersion option"
  pb_agent_id :: "AgentId option"
  pb_swarm_id :: "SwarmId option"
  pb_agent_public_key :: "PublicKey option"
  pb_owner :: string
  pb_framework :: string
  pb_framework_version :: string
  pb_capabilities :: "CapabilityDeclaration list"
  pb_accepted_constitution_version :: string
  pb_tier :: PassportTier
  pb_resources :: ResourceDeclaration
  pb_issued_at :: "Timestamp option"
  pb_expires_at :: "Timestamp option"
  pb_default_model_provider :: string
  pb_default_model_name :: string

definition build_unsigned :: "PassportBuilder \<Rightarrow> PassportError + Passport" where
  "build_unsigned b =
     rbind (ok_or (pb_spec_version b) (PassportMissingField ''spec_version'')) (\<lambda>v.
     rbind (ok_or (pb_agent_id b) (PassportMissingField ''agent_id'')) (\<lambda>a.
     rbind (ok_or (pb_swarm_id b) (PassportMissingField ''swarm_id'')) (\<lambda>s.
     rbind (ok_or (pb_agent_public_key b) (PassportMissingField ''agent_public_key'')) (\<lambda>pk.
     rbind (ok_or (pb_issued_at b) (PassportMissingField ''issued_at'')) (\<lambda>t.
       Inr \<lparr>pp_spec_version = v, pp_agent_id = a, pp_swarm_id = s, pp_agent_public_key = pk,
            pp_owner = pb_owner b, pp_framework = pb_framework b,
            pp_framework_version = pb_framework_version b, pp_capabilities = pb_capabilities b,
            pp_accepted_constitution_version = pb_accepted_constitution_version b,
            pp_tier = pb_tier b, pp_resources = pb_resources b, pp_issued_at = t,
            pp_expires_at = pb_expires_at b,
            pp_default_model_provider = pb_default_model_provider b,
            pp_default_model_name = pb_default_model_name b, pp_agent_signature = None\<rparr>)))))"

section \<open>Protobuf messages and conversions\<close>

record proto_Passport =
  ppr_spec_version :: "proto_Version option"
  ppr_agent_id :: "proto_AgentId option"
  ppr_swarm_id :: "proto_SwarmId option"
  ppr_agent_public_key :: "proto_PublicKey option"
  ppr_owner :: string
  ppr_framework :: string
  ppr_framework_version :: string
  ppr_capabilities :: "CapabilityDeclaration list"
  ppr_accepted_constitution_version :: string
  ppr_tier :: int
  ppr_resources :: "ResourceDeclaration option"
  ppr_issued_at :: "proto_Timestamp option"
  ppr_expires_at :: "proto_Timestamp option"
  ppr_default_model_provider :: string
  ppr_default_model_name :: string
  ppr_extensions :: "bytes option"
  ppr_agent_signature :: "proto_Signature option"

fun tier_to_wire :: "PassportTier \<Rightarrow> int" where
  "tier_to_wire Minimal = 1"
| "tier_to_wire Standard = 2"
| "tier_to_wire Verifiable = 3"

definition proto_of_capability_declaration :: "CapabilityDeclaration \<Rightarrow> CapabilityDeclaration" where
  "proto_of_capability_declaration d =
     \<lparr>cd_kind = cd_kind d, cd_resource_tags = cd_resource_tags d, cd_bounds = cd_bounds d,
      cd_description = cd_description d\<rparr>"

definition proto_of_resource_declaration :: "ResourceDeclaration \<Rightarrow> ResourceDeclaration" where
  "proto_of_resource_declaration r =
     \<lparr>rd_max_concurrent_actions = rd_max_concurrent_actions r,
      rd_max_messages_per_minute = rd_max_messages_per_minute r,
      rd_max_tool_calls_per_hour = rd_max_tool_calls_per_hour r,
      rd_max_usd_per_day_cents = rd_max_usd_per_day_cents r,
      rd_max_memory_bytes = rd_max_memory_bytes r\<rparr>"

definition proto_of_passport :: "Passport \<Rightarrow> proto_Passport" where
  "proto_of_passport p =
     \<lparr>ppr_spec_version = Some (proto_of_version (pp_spec_version p)),
      ppr_agent_id = Some (proto_of_agent (pp_agent_id p)),
      ppr_swarm_id = Some (proto_of_swarm (pp_swarm_id p)),
      ppr_agent_public_key = Some (proto_of_public_key (pp_agent_public_key p)),
      ppr_owner = pp_owner p, ppr_framework = pp_framework p,
      ppr_framework_version = pp_framework_version p,
      ppr_capabilities = map proto_of_capability_declaration (pp_capabilities p),
      ppr_accepted_constitution_version = pp_accepted_constitution_version p,
      ppr_tier = tier_to_wire (pp_tier p),
      ppr_resources = Some (proto_of_resource_declaration (pp_resources p)),
      ppr_issued_at = Some (proto_of_timestamp (pp_issued_at p)),
      ppr_expires_at = map_option proto_of_timestamp (pp_expires_at p),
      ppr_default_model_provider = pp_default_model_provider p,
      ppr_default_model_name = pp_default_model_name p,
      ppr_extensions = None,
      ppr_agent_signature = map_option proto_of_signature (pp_agent_signature p)\<rparr>"

definition passport_to_canonical_proto :: "Passport \<Rightarrow> proto_Passport" where
  "passport_to_canonical_proto p =
     (proto_of_passport p)\<lparr>ppr_agent_signature := None, ppr_extensions := None\<rparr>"

definition passport_missing :: "string \<Rightarrow> PassportError" where
  "passport_missing field = PassportCore (Validation (''required field missing: '' @ field))"

definition tier_try_from :: "int \<Rightarrow> PassportError + PassportTier" where
  "tier_try_from v =
     (if v = 0 then Inl (PassportCore (Validation ''passport tier unset (UNKNOWN)''))
      else if v = 1 then Inr Minimal
      else if v = 2 then Inr Standard
      else if v = 3 then Inr Verifiable
      else Inl (PassportCore (Validation ''unknown passport tier'')))"

definition capability_declaration_from :: "CapabilityDeclaration \<Rightarrow> CapabilityDeclaration" where
  "capability_declaration_from p =
     \<lparr>cd_kind = cd_kind p, cd_resource_tags = cd_resource_tags p, cd_bounds = cd_bounds p,
      cd_description = cd_description p\<rparr>"

definition resource_declaration_from :: "ResourceDeclaration \<Rightarrow> ResourceDeclaration" where
  "resource_declaration_from p =
     \<lparr>rd_max_concurrent_actions = rd_max_concurrent_actions p,
      rd_max_messages_per_minute = rd_max_messages_per_minute p,
      rd_max_tool_calls_per_hour = rd_max_tool_calls_per_hour p,
      rd_max_usd_per_day_cents = rd_max_usd_per_day_cents p,
      rd_max_memory_bytes = rd_max_memory_bytes p\<rparr>"

definition passport_try_from :: "externals \<Rightarrow> proto_Passport \<Rightarrow> PassportError + Passport" where
  "passport_try_from x p =
     rbind (ok_or (ppr_spec_version p) (passport_missing ''spec_version'')) (\<lambda>pv.
     rbind (map_err PassportCore (version_try_from pv)) (\<lambda>v.
     rbind (ok_or (ppr_agent_id p) (passport_missing ''agent_id'')) (\<lambda>pa.
     rbind (map_err PassportCore (agent_try_from pa)) (\<lambda>a.
     rbind (ok_or (ppr_swarm_id p) (passport_missing ''swarm_id'')) (\<lambda>ps.
     rbind (map_err PassportCore (swarm_try_from ps)) (\<lambda>s.
     rbind (ok_or (ppr_agent_public_key p) (passport_missing ''agent_public_key'')) (\<lambda>pk.
     rbind (map_err PassportCore (public_key_try_from pk)) (\<lambda>key.
     rbind (ok_or (ppr_issued_at p) (passport_missing ''issued_at'')) (\<lambda>pt.
     rbind (map_err PassportCore (timestamp_try_from x pt)) (\<lambda>issued.
     rbind (map_err PassportCore (transpose_map (timestamp_try_from x) (ppr_expires_at p))) (\<lambda>exp.
     rbind (tier_try_from (ppr_tier p)) (\<lambda>tier.
     rbind (map_err PassportCore (transpose_map signature_try_from (ppr_agent_signature p))) (\<lambda>sig.
       Inr \<lparr>pp_spec_version = v, pp_agent_id = a, pp_swarm_id = s, pp_agent_public_key = key,
            pp_owner = ppr_owner p, pp_framework = ppr_framework p,
            pp_framework_version = ppr_framework_version p,
            pp_capabilities = map capability_declaration_from (ppr_capabilities p),
            pp_accepted_constitution_version = ppr_accepted_constitution_version p,
            pp_tier = tier,
            pp_resources = (case ppr_resources p of
               None \<Rightarrow> resource_default | Some r \<Rightarrow> resource_declaration_from r),
            pp_issued_at = issued, pp_expires_at = exp,
            pp_default_model_provider = ppr_default_model_provider p,
            pp_default_model_name = ppr_default_model_name p,
            pp_agent_signature = sig\<rparr>)))))))))))))"

section \<open>Self-signature\<close>

record passport_ctx =
  pcx_ext :: externals
  pcx_encode :: "proto_Passport \<Rightarrow> bytes"

definition passport_bytes :: "passport_ctx \<Rightarrow> Passport \<Rightarrow> bytes" where
  "passport_bytes cx p = pcx_encode cx (passport_to_canonical_proto p)"

definition passport_address :: "passport_ctx \<Rightarrow> Passport \<Rightarrow> Hash" where
  "passport_address cx p = sha256 (pcx_ext cx) (passport_bytes cx p)"

definition verify_self_signature :: "passport_ctx \<Rightarrow> Passport \<Rightarrow> PassportError + unit" where
  "verify_self_signature cx p =
     rbind (ok_or (pp_agent_signature p) SelfSignatureInvalid) (\<lambda>sig.
       map_err (\<lambda>_. SelfSignatureInvalid)
         (verify (pcx_ext cx) (pp_agent_public_key p) (passport_bytes cx p) sig))"

definition passport_sign ::
    "passport_ctx \<Rightarrow> PublicKey \<Rightarrow> (bytes \<Rightarrow> string + Signature) \<Rightarrow> PassportBuilder
     \<Rightarrow> PassportError + Passport" where
  "passport_sign cx signer_key sign b =
     rbind (build_unsigned b) (\<lambda>p.
       if pp_agent_public_key p \<noteq> signer_key then Inl SelfSignatureInvalid
       else
         rbind (map_err PassportSigner (sign (passport_bytes cx p))) (\<lambda>sig.
           Inr (p\<lparr>pp_agent_signature := Some sig\<rparr>)))"

section \<open>The control plane's own identity\<close>

text \<open>The signer is a trait object: in-process key, cloud KMS or Vault.\<close>

record ControlPlaneIdentity =
  cp_agent_id :: AgentId
  cp_sign :: "bytes \<Rightarrow> string + Signature"
  cp_public_key :: PublicKey

section \<open>The store\<close>

record MemoryPassportStore =
  ps_live :: "(AgentId, Passport) hash_map"
  ps_revoked :: "(AgentId, string) hash_map"

definition passport_store_new :: MemoryPassportStore where
  "passport_store_new = \<lparr>ps_live = [], ps_revoked = []\<rparr>"

datatype RegistrationStatus = Accepted | Rejected | PendingReview

record RegistrationOutcome =
  ro_status :: RegistrationStatus
  ro_agent_id :: AgentId
  ro_registration_receipt :: "Hash option"
  ro_rejection_reason :: string

definition accepted_outcome :: "AgentId \<Rightarrow> RegistrationOutcome" where
  "accepted_outcome a = \<lparr>ro_status = Accepted, ro_agent_id = a, ro_registration_receipt = None,
     ro_rejection_reason = []\<rparr>"

definition store_register ::
    "passport_ctx \<Rightarrow> Passport \<Rightarrow> MemoryPassportStore
     \<Rightarrow> (PassportError + RegistrationOutcome) \<times> MemoryPassportStore" where
  "store_register cx p ps =
     (case verify_self_signature cx p of
        Inl e \<Rightarrow> (Inl e, ps)
      | Inr _ \<Rightarrow>
          if hm_get (ps_live ps) (pp_agent_id p) \<noteq> None
          then (Inl (AlreadyRegistered (pp_agent_id p)), ps)
          else (Inr (accepted_outcome (pp_agent_id p)),
                ps\<lparr>ps_live := hm_insert (pp_agent_id p) p (ps_live ps)\<rparr>))"

definition store_lookup :: "MemoryPassportStore \<Rightarrow> AgentId \<Rightarrow> PassportError + Passport option" where
  "store_lookup ps a =
     (if hm_get (ps_revoked ps) a \<noteq> None \<and> hm_get (ps_live ps) a = None then Inr None
      else Inr (hm_get (ps_live ps) a))"

definition store_revoke ::
    "AgentId \<Rightarrow> string \<Rightarrow> MemoryPassportStore \<Rightarrow> (PassportError + unit) \<times> MemoryPassportStore" where
  "store_revoke a reason ps =
     (if hm_get (ps_live ps) a = None then (Inl (PassportNotFound a), ps)
      else (Inr (), ps\<lparr>ps_live := hm_remove a (ps_live ps),
                      ps_revoked := hm_insert a reason (ps_revoked ps)\<rparr>))"

definition store_rotate_key ::
    "passport_ctx \<Rightarrow> Passport \<Rightarrow> MemoryPassportStore
     \<Rightarrow> (PassportError + RegistrationOutcome) \<times> MemoryPassportStore" where
  "store_rotate_key cx p ps =
     (case verify_self_signature cx p of
        Inl e \<Rightarrow> (Inl e, ps)
      | Inr _ \<Rightarrow>
          if hm_get (ps_live ps) (pp_agent_id p) = None
          then (Inl (PassportNotFound (pp_agent_id p)), ps)
          else (Inr (accepted_outcome (pp_agent_id p)),
                ps\<lparr>ps_live := hm_insert (pp_agent_id p) p (ps_live ps)\<rparr>))"

definition store_count :: "MemoryPassportStore \<Rightarrow> u64" where
  "store_count ps = of_nat (length (ps_live ps))"

section \<open>Resolving keys\<close>

definition passport_err_to_receipt_err :: "PassportError \<Rightarrow> ReceiptError" where
  "passport_err_to_receipt_err e = PassportResolverError ''passport''"

definition resolver_adapter :: "MemoryPassportStore \<Rightarrow> PassportResolver" where
  "resolver_adapter ps =
     \<lparr>resolve_actor = (\<lambda>a. map_err passport_err_to_receipt_err
        (rbind (store_lookup ps a) (\<lambda>p. Inr (map_option pp_agent_public_key p)))),
      resolve_role = (\<lambda>role fp. Inr None)\<rparr>"

lemma resolve_actor_adapter [simp]:
  "resolve_actor (resolver_adapter ps) a = Inr (map_option pp_agent_public_key (hm_get (ps_live ps) a))"
  by (simp add: resolver_adapter_def store_lookup_def)

lemma verify_self_signature_Inr:
  "verify_self_signature cx p = Inr () \<longleftrightarrow>
     (\<exists>sig. pp_agent_signature p = Some sig
        \<and> verify (pcx_ext cx) (pp_agent_public_key p) (passport_bytes cx p) sig = Inr ())"
  by (auto simp: verify_self_signature_def rbind_eq_Inr)

text \<open>A key that resolves belongs to a passport signed by that very key.\<close>

definition passports_self_signed :: "passport_ctx \<Rightarrow> MemoryPassportStore \<Rightarrow> bool" where
  "passports_self_signed cx ps \<longleftrightarrow>
     (\<forall>a p. hm_get (ps_live ps) a = Some p \<longrightarrow> pp_agent_id p = a \<and> verify_self_signature cx p = Inr ())"

lemma self_signed_ops:
  assumes "passports_self_signed cx ps"
  shows "passports_self_signed cx (snd (store_register cx p ps))"
    and "passports_self_signed cx (snd (store_revoke a reason ps))"
    and "passports_self_signed cx (snd (store_rotate_key cx p ps))"
  using assms
  by (auto simp: passports_self_signed_def store_register_def store_revoke_def store_rotate_key_def
      delete_conv' split: sum.splits if_splits)

section \<open>Round trip\<close>

lemma tier_wire_iff [simp]: "tier_try_from v = Inr t \<longleftrightarrow> v = tier_to_wire t"
  by (cases t) (auto simp: tier_try_from_def)

lemma tier_wire_roundtrip [simp]: "tier_try_from (tier_to_wire t) = Inr t"
  by simp

lemma declaration_roundtrips [simp]:
  "capability_declaration_from (proto_of_capability_declaration d) = d"
  "resource_declaration_from (proto_of_resource_declaration r) = r"
  by (simp_all add: capability_declaration_from_def proto_of_capability_declaration_def
      resource_declaration_from_def proto_of_resource_declaration_def)

definition passport_ok :: "externals \<Rightarrow> Passport \<Rightarrow> bool" where
  "passport_ok x p =
     (version_ok (pp_spec_version p) \<and> public_key_ok (pp_agent_public_key p)
      \<and> timestamp_ok x (pp_issued_at p) \<and> pred_option (timestamp_ok x) (pp_expires_at p)
      \<and> pred_option signature_ok (pp_agent_signature p))"

interpretation passport_codec: wire_format proto_of_passport "passport_try_from x" "passport_ok x" for x
proof
  show "passport_try_from x (proto_of_passport p) = Inr p" if "passport_ok x p" for p
    using that
    by (simp add: passport_try_from_def proto_of_passport_def passport_ok_def comp_def
        version_codec.decode_encode agent_codec.decode_encode swarm_codec.decode_encode
        public_key_codec.decode_encode timestamp_codec.decode_encode
        timestamp_codec.transpose_encode signature_codec.transpose_encode)
qed

end
