(* ===== verification/Registry.thy ===== *)
theory Registry
  imports Passport
begin

text \<open>
  Membership (\<open>crates/yutha-registry\<close>, \<open>crates/yutha-attestor\<close>): the swarm topology, admission
  policies and sybil requirements, the attestor interface with the native attestor, and the
  in-memory registry, whose operations change the passport store and append receipts signed by the
  control plane. As the binary wires them, the resolver that verifies those receipts is the adapter
  over the same passport store.
\<close>

section \<open>Topology and admission\<close>

datatype HardwareAttestationKind = Nautilus | IntelSgx | AmdSev | Tpm

datatype SybilResistanceRequirement =
    ProofOfWork u32 bytes
  | HardwareAttestation "HardwareAttestationKind list"
  | IdpAttestation "string list" "string list"
  | Stake string string string
  | Invite "AgentId list" u32 u64

record ClosedPolicy =
  allowlisted_agents :: "AgentId list"
  allowlisted_owner_key_fingerprints :: "bytes list"
  pending_review_on_unknown :: bool

record OpenPolicy =
  requirements :: "SybilResistanceRequirement list"
  min_passport_tier :: PassportTier
  max_passport_lifetime_seconds :: u64

record HybridPolicy =
  core :: ClosedPolicy
  periphery :: OpenPolicy
  periphery_may_delegate :: bool

datatype AdmissionPolicy = ClosedAdmission ClosedPolicy | OpenAdmission OpenPolicy | HybridAdmission HybridPolicy

datatype TopologyMode = Closed | Open | Hybrid

record Topology =
  top_spec_version :: SpecVersion
  top_swarm_id :: SwarmId
  top_mode :: TopologyMode
  top_admission :: AdmissionPolicy
  top_max_capability_lifetime_seconds :: u64
  top_max_capability_chain_depth :: u32
  top_default_envelope_ttl_seconds :: u64
  top_max_epoch_skew :: u32
  top_external_sends_permitted :: bool
  top_require_capability_for_send :: bool
  top_initial_constitution_version :: string
  top_operator_key_fingerprint :: bytes
  top_operator_signature :: "Signature option"

definition is_consistent :: "Topology \<Rightarrow> bool" where
  "is_consistent t =
     (case (top_mode t, top_admission t) of
        (Closed, ClosedAdmission _) \<Rightarrow> True
      | (Open, OpenAdmission _) \<Rightarrow> True
      | (Hybrid, HybridAdmission _) \<Rightarrow> True
      | _ \<Rightarrow> False)"

datatype RegistryError =
    TopologyInconsistent
  | AdmissionDenied string
  | SybilCheckFailed string
  | SwarmMismatch SwarmId SwarmId
  | TopologyImmutable
  | AttestationDenied string string
  | AttestationUnavailable string string
  | RegistryPassport PassportError
  | RegistryReceipt ReceiptError
  | RegistryCore CoreError
  | RegistryBackend string

fun sybil_check :: "SybilResistanceRequirement \<Rightarrow> Passport \<Rightarrow> RegistryError + unit" where
  "sybil_check (ProofOfWork _ _) p = Inr ()"
| "sybil_check (HardwareAttestation _) p = Inr ()"
| "sybil_check (IdpAttestation _ _) p = Inr ()"
| "sybil_check (Stake _ _ _) p = Inr ()"
| "sybil_check (Invite _ _ _) p = Inr ()"

fun sybil_err :: "RegistryError \<Rightarrow> RegistryError" where
  "sybil_err (SybilCheckFailed m) = SybilCheckFailed m"
| "sybil_err other = SybilCheckFailed ''requirement''"

fun check_all :: "SybilResistanceRequirement list \<Rightarrow> Passport \<Rightarrow> RegistryError + unit" where
  "check_all [] p = Inr ()"
| "check_all (r # rs) p = rbind (map_err sybil_err (sybil_check r p)) (\<lambda>_. check_all rs p)"

definition check_closed :: "ClosedPolicy \<Rightarrow> Passport \<Rightarrow> RegistryError + unit" where
  "check_closed policy p =
     (let by_agent_id = pp_agent_id p \<in> set (allowlisted_agents policy);
          by_owner = allowlisted_owner_key_fingerprints policy \<noteq> []
      in if by_agent_id \<or> by_owner then Inr ()
         else if pending_review_on_unknown policy
         then Inl (AdmissionDenied ''pending operator review (scaffolding: not queued)'')
         else Inl (AdmissionDenied ''agent not in closed allowlist''))"

definition check_open :: "OpenPolicy \<Rightarrow> Passport \<Rightarrow> RegistryError + unit" where
  "check_open policy p =
     (if pp_tier p < min_passport_tier policy then Inl (AdmissionDenied ''min tier required'')
      else if pp_expires_at p = None then Inl (AdmissionDenied ''open swarm requires expires_at'')
      else check_all (requirements policy) p)"

definition check_hybrid :: "HybridPolicy \<Rightarrow> Passport \<Rightarrow> RegistryError + unit" where
  "check_hybrid policy p =
     (if is_ok (check_closed (core policy) p) then Inr () else check_open (periphery policy) p)"

fun check_admission :: "AdmissionPolicy \<Rightarrow> Passport \<Rightarrow> RegistryError + unit" where
  "check_admission (ClosedAdmission policy) p = check_closed policy p"
| "check_admission (OpenAdmission policy) p = check_open policy p"
| "check_admission (HybridAdmission policy) p = check_hybrid policy p"

section \<open>Attestors\<close>

record AttestationContext =
  ac_swarm_id :: SwarmId
  ac_claimed_agent_id :: AgentId
  ac_agent_public_key :: PublicKey

record AttestedIdentity =
  ai_external_identity :: string
  ai_credential_expires_at :: "Timestamp option"
  ai_attributes :: "(string, string) btree_map"

datatype AttestorError =
    Malformed string
  | AttestorRejected string
  | TrustRootUnavailable string
  | AttestorInternal string

fun attestor_error_to_string :: "AttestorError \<Rightarrow> string" where
  "attestor_error_to_string (Malformed m) = ''credential malformed: '' @ m"
| "attestor_error_to_string (AttestorRejected m) = ''credential rejected: '' @ m"
| "attestor_error_to_string (TrustRootUnavailable m) = ''trust root unavailable: '' @ m"
| "attestor_error_to_string (AttestorInternal m) = ''internal attestor error: '' @ m"

text \<open>The \<open>Attestor\<close> trait object.\<close>

record Attestor =
  attestor_id :: string
  attestor_verify :: "AttestationContext \<Rightarrow> bytes \<Rightarrow> AttestorError + AttestedIdentity"

definition hex_digit :: "nat \<Rightarrow> char" where
  "hex_digit n = ''0123456789abcdef'' ! n"

definition hex_encode :: "bytes \<Rightarrow> string" where
  "hex_encode bs = concat (map (\<lambda>b. [hex_digit (unat b div 16), hex_digit (unat b mod 16)]) bs)"

definition native_attestor :: Attestor where
  "native_attestor =
     \<lparr>attestor_id = ''native'',
      attestor_verify = (\<lambda>context credential.
        if credential \<noteq> []
        then Inl (AttestorRejected ''NativeAttestor configured but external_credential was provided; reconfigure the control plane with a non-native Attestor or omit the credential'')
        else Inr \<lparr>ai_external_identity = ''yutha:native:'' @ hex_encode (agent_as_bytes (ac_claimed_agent_id context)),
                  ai_credential_expires_at = None, ai_attributes = []\<rparr>)\<rparr>"

section \<open>The registry\<close>

record RegistryState =
  rg_passports :: MemoryPassportStore
  rg_receipts :: MemoryStore

record reg_deps =
  rgd_topology :: Topology
  rgd_receipt_ctx :: receipt_ctx
  rgd_passport_ctx :: passport_ctx
  rgd_control_plane :: ControlPlaneIdentity
  rgd_attestor :: Attestor

record event_clock =
  occurred_now :: Timestamp
  signed_now :: Timestamp

definition registry_new :: "reg_deps \<Rightarrow> MemoryPassportStore \<Rightarrow> MemoryStore \<Rightarrow> RegistryError + RegistryState" where
  "registry_new dp ps ms =
     (if \<not> is_consistent (rgd_topology dp) then Inl TopologyInconsistent
      else Inr \<lparr>rg_passports = ps, rg_receipts = ms\<rparr>)"

definition build_signed_receipt ::
    "reg_deps \<Rightarrow> event_clock \<Rightarrow> string \<Rightarrow> Evidence list \<Rightarrow> RegistryError + Receipt" where
  "build_signed_receipt dp ck action_kind evidence =
     (if evidence = []
      then Inl (RegistryBackend ''registry receipts require at least one evidence entry'')
      else
        rbind (map_err (\<lambda>_. RegistryBackend ''spec version'') (spec_version_parse ''1.0.0'')) (\<lambda>v.
        rbind (map_err (\<lambda>_. RegistryBackend ''build receipt'')
          (receipt_build (receipt_builder_new
             \<lparr>rb_spec_version := Some v, rb_swarm_id := Some (top_swarm_id (rgd_topology dp)),
              rb_actor := Some (cp_agent_id (rgd_control_plane dp)),
              rb_action_kind := Some action_kind,
              rb_constitution_version := Some (top_initial_constitution_version (rgd_topology dp)),
              rb_occurred_at := Some (occurred_now ck), rb_evidence := evidence\<rparr>))) (\<lambda>r.
        rbind (map_err (\<lambda>_. RegistryBackend ''signer'')
          (cp_sign (rgd_control_plane dp) (canonical_bytes (rgd_receipt_ctx dp) r))) (\<lambda>sig.
          Inr (r\<lparr>r_signatures := r_signatures r @
                   [\<lparr>sb_role = Actor, sb_signature = sig, sb_signed_at = signed_now ck\<rparr>]\<rparr>)))))"

definition registration_evidence ::
    "reg_deps \<Rightarrow> Passport \<Rightarrow> AttestedIdentity \<Rightarrow> string \<Rightarrow> Evidence list" where
  "registration_evidence dp p identity aid =
     [evidence_new ''passport_agent_id'' ''type.yutha.dev/v1/AgentId'' (agent_as_bytes (pp_agent_id p)),
      evidence_new ''passport_hash'' ''type.yutha.dev/v1/Hash''
        (digest (passport_address (rgd_passport_ctx dp) p)),
      evidence_new ''attested_external_identity'' ''type.yutha.dev/v1/String''
        (as_bytes (ai_external_identity identity)),
      evidence_new ''attestor_id'' ''type.yutha.dev/v1/String'' (as_bytes aid)]
     @ map (\<lambda>(k, v). evidence_new (''attributes.'' @ k) ''type.yutha.dev/v1/String'' (as_bytes v))
         (ai_attributes identity)"

definition build_registration_receipt ::
    "reg_deps \<Rightarrow> event_clock \<Rightarrow> Passport \<Rightarrow> AttestedIdentity \<Rightarrow> string \<Rightarrow> RegistryError + Receipt" where
  "build_registration_receipt dp ck p identity aid =
     build_signed_receipt dp ck ''agent.register'' (registration_evidence dp p identity aid)"

definition build_register_deny_receipt ::
    "reg_deps \<Rightarrow> event_clock \<Rightarrow> AgentId \<Rightarrow> string \<Rightarrow> string \<Rightarrow> RegistryError + Receipt" where
  "build_register_deny_receipt dp ck claimed aid deny_reason =
     build_signed_receipt dp ck ''agent.register.deny''
       [evidence_new ''claimed_agent_id'' ''type.yutha.dev/v1/AgentId'' (agent_as_bytes claimed),
        evidence_new ''attestor_id'' ''type.yutha.dev/v1/String'' (as_bytes aid),
        evidence_new ''deny_reason'' ''type.yutha.dev/v1/String'' (as_bytes deny_reason)]"

text \<open>Append through the resolver over the current passports.\<close>

definition registry_append ::
    "reg_deps \<Rightarrow> Receipt \<Rightarrow> RegistryState \<Rightarrow> (RegistryError + Hash) \<times> RegistryState" where
  "registry_append dp r rg =
     (let (res, ms) = append_receipt (rgd_receipt_ctx dp) (resolver_adapter (rg_passports rg)) r (rg_receipts rg)
      in (rbind (map_err RegistryReceipt res) (\<lambda>out. Inr (ao_receipt_id out)), rg\<lparr>rg_receipts := ms\<rparr>))"

text \<open>Build a receipt and append it: the tail of \<open>revoke\<close>, \<open>operator_revoke\<close>, \<open>register\<close>.\<close>

definition registry_record ::
    "reg_deps \<Rightarrow> RegistryError + Receipt \<Rightarrow> RegistryState \<Rightarrow> (RegistryError + Hash) \<times> RegistryState" where
  "registry_record dp built rg =
     (case built of Inl e \<Rightarrow> (Inl e, rg) | Inr r \<Rightarrow> registry_append dp r rg)"

definition with_receipt ::
    "RegistrationOutcome \<Rightarrow> (RegistryError + Hash) \<times> RegistryState
     \<Rightarrow> (RegistryError + RegistrationOutcome) \<times> RegistryState" where
  "with_receipt outcome res =
     (rbind (fst res) (\<lambda>h. Inr (outcome\<lparr>ro_registration_receipt := Some h\<rparr>)), snd res)"

definition registry_register ::
    "reg_deps \<Rightarrow> event_clock \<Rightarrow> Passport \<Rightarrow> bytes \<Rightarrow> RegistryState
     \<Rightarrow> (RegistryError + RegistrationOutcome) \<times> RegistryState" where
  "registry_register dp ck p external_credential rg =
     (case verify_self_signature (rgd_passport_ctx dp) p of
        Inl e \<Rightarrow> (Inl (RegistryPassport e), rg)
      | Inr _ \<Rightarrow>
          if pp_swarm_id p \<noteq> top_swarm_id (rgd_topology dp)
          then (Inl (SwarmMismatch (top_swarm_id (rgd_topology dp)) (pp_swarm_id p)), rg)
          else case check_admission (top_admission (rgd_topology dp)) p of
            Inl e \<Rightarrow> (Inl e, rg)
          | Inr _ \<Rightarrow>
              let aid = attestor_id (rgd_attestor dp);
                  context = \<lparr>ac_swarm_id = pp_swarm_id p, ac_claimed_agent_id = pp_agent_id p,
                             ac_agent_public_key = pp_agent_public_key p\<rparr>
              in case attestor_verify (rgd_attestor dp) context external_credential of
                   Inl (TrustRootUnavailable reason) \<Rightarrow> (Inl (AttestationUnavailable aid reason), rg)
                 | Inl err \<Rightarrow>
                     let reason = attestor_error_to_string err in
                     (Inl (AttestationDenied aid reason),
                      snd (registry_record dp
                        (build_register_deny_receipt dp ck (pp_agent_id p) aid reason) rg))
                 | Inr identity \<Rightarrow>
                     (case store_register (rgd_passport_ctx dp) p (rg_passports rg) of
                        (Inl e, ps) \<Rightarrow> (Inl (RegistryPassport e), rg\<lparr>rg_passports := ps\<rparr>)
                      | (Inr outcome, ps) \<Rightarrow>
                          with_receipt outcome
                            (registry_record dp (build_registration_receipt dp ck p identity aid)
                               (rg\<lparr>rg_passports := ps\<rparr>))))"

definition registry_revoke ::
    "reg_deps \<Rightarrow> event_clock \<Rightarrow> AgentId \<Rightarrow> string \<Rightarrow> RegistryState \<Rightarrow> (RegistryError + Hash) \<times> RegistryState" where
  "registry_revoke dp ck a reason rg =
     (case store_revoke a reason (rg_passports rg) of
        (Inl e, ps) \<Rightarrow> (Inl (RegistryPassport e), rg\<lparr>rg_passports := ps\<rparr>)
      | (Inr _, ps) \<Rightarrow>
          registry_record dp
            (build_signed_receipt dp ck ''agent.revoke''
               [evidence_new ''agent_id'' ''type.yutha.dev/v1/AgentId'' (agent_as_bytes a),
                evidence_new ''reason'' ''type.yutha.dev/v1/String'' (as_bytes reason)])
            (rg\<lparr>rg_passports := ps\<rparr>))"

definition registry_operator_revoke ::
    "reg_deps \<Rightarrow> event_clock \<Rightarrow> AgentId \<Rightarrow> string \<Rightarrow> string \<Rightarrow> RegistryState
     \<Rightarrow> (RegistryError + Hash) \<times> RegistryState" where
  "registry_operator_revoke dp ck target operator_id reason rg =
     (case store_revoke target reason (rg_passports rg) of
        (Inl e, ps) \<Rightarrow> (Inl (RegistryPassport e), rg\<lparr>rg_passports := ps\<rparr>)
      | (Inr _, ps) \<Rightarrow>
          registry_record dp
            (build_signed_receipt dp ck ''agent.operator_revoke''
               [evidence_new ''target_agent_id'' ''type.yutha.dev/v1/AgentId'' (agent_as_bytes target),
                evidence_new ''operator_id'' ''type.yutha.dev/v1/String'' (as_bytes operator_id),
                evidence_new ''reason'' ''type.yutha.dev/v1/String'' (as_bytes reason)])
            (rg\<lparr>rg_passports := ps\<rparr>))"

definition registry_rotate_key ::
    "reg_deps \<Rightarrow> event_clock \<Rightarrow> Passport \<Rightarrow> RegistryState
     \<Rightarrow> (RegistryError + RegistrationOutcome) \<times> RegistryState" where
  "registry_rotate_key dp ck p rg =
     (case verify_self_signature (rgd_passport_ctx dp) p of
        Inl e \<Rightarrow> (Inl (RegistryPassport e), rg)
      | Inr _ \<Rightarrow>
          if pp_swarm_id p \<noteq> top_swarm_id (rgd_topology dp)
          then (Inl (SwarmMismatch (top_swarm_id (rgd_topology dp)) (pp_swarm_id p)), rg)
          else case store_lookup (rg_passports rg) (pp_agent_id p) of
            Inl e \<Rightarrow> (Inl (RegistryPassport e), rg)
          | Inr None \<Rightarrow> (Inl (RegistryPassport (PassportNotFound (pp_agent_id p))), rg)
          | Inr (Some existing) \<Rightarrow>
              let x = pcx_ext (rgd_passport_ctx dp);
                  old_fp = fingerprint_public_key x (pk_value (pp_agent_public_key existing));
                  new_fp = fingerprint_public_key x (pk_value (pp_agent_public_key p))
              in (case store_rotate_key (rgd_passport_ctx dp) p (rg_passports rg) of
                    (Inl e, ps) \<Rightarrow> (Inl (RegistryPassport e), rg\<lparr>rg_passports := ps\<rparr>)
                  | (Inr outcome, ps) \<Rightarrow>
                      with_receipt outcome
                        (registry_record dp
                           (build_signed_receipt dp ck ''agent.rotate_key''
                              [evidence_new ''agent_id'' ''type.yutha.dev/v1/AgentId'' (agent_as_bytes (pp_agent_id p)),
                               evidence_new ''old_key_fingerprint'' ''type.yutha.dev/v1/Hash'' old_fp,
                               evidence_new ''new_key_fingerprint'' ''type.yutha.dev/v1/Hash'' new_fp])
                           (rg\<lparr>rg_passports := ps\<rparr>))))"

section \<open>Facts about the operations\<close>

lemma registry_record_frame [simp]: "rg_passports (snd (registry_record dp built rg)) = rg_passports rg"
  by (auto simp: registry_record_def registry_append_def split: sum.splits prod.splits)

lemma registry_revoke_passports [simp]:
  "rg_passports (snd (registry_revoke dp ck a reason rg)) = snd (store_revoke a reason (rg_passports rg))"
  "rg_passports (snd (registry_operator_revoke dp ck a op reason rg)) = snd (store_revoke a reason (rg_passports rg))"
  by (auto simp: registry_revoke_def registry_operator_revoke_def split: sum.splits prod.splits)

lemma registry_revoke_Inr:
  "fst (registry_revoke dp ck a reason rg) = Inr h \<Longrightarrow> hm_get (ps_live (rg_passports rg)) a \<noteq> None"
  "fst (registry_operator_revoke dp ck a op reason rg) = Inr h \<Longrightarrow> hm_get (ps_live (rg_passports rg)) a \<noteq> None"
  by (auto simp: registry_revoke_def registry_operator_revoke_def store_revoke_def split: if_splits)

lemma registry_record_keeps:
  "get_receipt (rg_receipts rg) h = Some r \<Longrightarrow>
   get_receipt (rg_receipts (snd (registry_record dp built rg))) h = Some r"
  by (auto simp: registry_record_def registry_append_def case_prod_beta Let_def
      memory_log.append_keeps split: sum.splits)

lemma registry_record_Inr:
  assumes "registry_record dp built rg = (Inr h, rg')"
  obtains r where "built = Inr r" "h = content_address (rgd_receipt_ctx dp) r"
    "get_receipt (rg_receipts rg') h \<noteq> None"
proof -
  from assms obtain r where r: "built = Inr r" "registry_append dp r rg = (Inr h, rg')"
    by (auto simp: registry_record_def split: sum.splits)
  let ?a = "append_receipt (rgd_receipt_ctx dp) (resolver_adapter (rg_passports rg)) r (rg_receipts rg)"
  from r(2) obtain out where out: "fst ?a = Inr out" "h = ao_receipt_id out" "rg_receipts rg' = snd ?a"
    by (auto simp: registry_append_def case_prod_beta Let_def rbind_eq_Inr)
  from memory_log.append_stored [OF out(1)] out that [OF r(1)] show ?thesis
    by simp
qed

lemma registry_record_recorded:
  assumes "fst (registry_record dp built rg) = Inr h"
  shows "get_receipt (rg_receipts (snd (registry_record dp built rg))) h \<noteq> None"
proof -
  have "registry_record dp built rg = (Inr h, snd (registry_record dp built rg))"
    using assms by (simp add: prod_eq_iff)
  then show ?thesis
    by (rule registry_record_Inr)
qed

lemma registry_revoke_recorded:
  "fst (registry_revoke dp ck a reason rg) = Inr h \<Longrightarrow>
   get_receipt (rg_receipts (snd (registry_revoke dp ck a reason rg))) h \<noteq> None"
  "fst (registry_operator_revoke dp ck a op reason rg) = Inr h \<Longrightarrow>
   get_receipt (rg_receipts (snd (registry_operator_revoke dp ck a op reason rg))) h \<noteq> None"
  unfolding registry_revoke_def registry_operator_revoke_def store_revoke_def
  using registry_record_recorded by (auto split: if_splits)

lemma build_signed_receipt_fields:
  assumes "build_signed_receipt dp ck k ev = Inr r"
  shows "r_action_kind r = k" "r_evidence r = ev" "r_actor r = cp_agent_id (rgd_control_plane dp)"
  using assms
  by (auto simp: build_signed_receipt_def receipt_build_def receipt_builder_new_def rbind_eq_Inr split: if_splits)

lemma check_all_ok [simp]: "check_all rs p = Inr ()"
proof (induction rs)
  case (Cons r rs)
  then show ?case by (cases r) simp_all
qed simp

text \<open>What a successful registration went through.\<close>

lemma registry_register_Inr:
  assumes "registry_register dp ck p cred rg = (Inr out, rg')"
  obtains identity h r where
    "verify_self_signature (rgd_passport_ctx dp) p = Inr ()"
    "pp_swarm_id p = top_swarm_id (rgd_topology dp)"
    "check_admission (top_admission (rgd_topology dp)) p = Inr ()"
    "attestor_verify (rgd_attestor dp)
       \<lparr>ac_swarm_id = pp_swarm_id p, ac_claimed_agent_id = pp_agent_id p,
        ac_agent_public_key = pp_agent_public_key p\<rparr> cred = Inr identity"
    "hm_get (ps_live (rg_passports rg)) (pp_agent_id p) = None"
    "rg_passports rg' = (rg_passports rg)\<lparr>ps_live := hm_insert (pp_agent_id p) p (ps_live (rg_passports rg))\<rparr>"
    "out = (accepted_outcome (pp_agent_id p))\<lparr>ro_registration_receipt := Some h\<rparr>"
    "build_registration_receipt dp ck p identity (attestor_id (rgd_attestor dp)) = Inr r"
    "h = content_address (rgd_receipt_ctx dp) r" "get_receipt (rg_receipts rg') h \<noteq> None"
proof -
  let ?ps = "(rg_passports rg)\<lparr>ps_live := hm_insert (pp_agent_id p) p (ps_live (rg_passports rg))\<rparr>"
  from assms obtain identity where
    guards: "verify_self_signature (rgd_passport_ctx dp) p = Inr ()"
    "pp_swarm_id p = top_swarm_id (rgd_topology dp)"
    "check_admission (top_admission (rgd_topology dp)) p = Inr ()"
    "attestor_verify (rgd_attestor dp)
       \<lparr>ac_swarm_id = pp_swarm_id p, ac_claimed_agent_id = pp_agent_id p,
        ac_agent_public_key = pp_agent_public_key p\<rparr> cred = Inr identity"
    "hm_get (ps_live (rg_passports rg)) (pp_agent_id p) = None"
    and rest: "with_receipt (accepted_outcome (pp_agent_id p))
        (registry_record dp (build_registration_receipt dp ck p identity (attestor_id (rgd_attestor dp)))
           (rg\<lparr>rg_passports := ?ps\<rparr>)) = (Inr out, rg')"
    by (auto simp: registry_register_def Let_def store_register_def
        split: sum.splits if_splits AttestorError.splits)
  from rest obtain h where h: "registry_record dp (build_registration_receipt dp ck p identity (attestor_id (rgd_attestor dp)))
           (rg\<lparr>rg_passports := ?ps\<rparr>) = (Inr h, rg')"
    "out = (accepted_outcome (pp_agent_id p))\<lparr>ro_registration_receipt := Some h\<rparr>"
    by (auto simp: with_receipt_def rbind_eq_Inr prod_eq_iff)
  have "rg_passports rg' = ?ps"
    using h(1) registry_record_frame [of dp _ "rg\<lparr>rg_passports := ?ps\<rparr>"] by (metis RegistryState.select_convs(1) RegistryState.surjective RegistryState.update_convs(1) snd_conv)
  moreover from h(1) obtain r where "build_registration_receipt dp ck p identity (attestor_id (rgd_attestor dp)) = Inr r"
    "h = content_address (rgd_receipt_ctx dp) r" "get_receipt (rg_receipts rg') h \<noteq> None"
    by (rule registry_record_Inr)
  ultimately show ?thesis
    using that guards h(2) by blast
qed

end
