(* ===== verification/Decimal_F64.thy ===== *)
theory Decimal_F64
  imports Core_Types
begin

text \<open>
  The comparison of decimal strings that capability bounds rest on (\<open>decimal_le\<close> in
  \<open>crates/yutha-capability/src/scope.rs\<close>), with the parts of Rust's \<open>f64\<close> it uses:
  \<open>f64::from_str\<close> (grammar, correct rounding to nearest even, overflow to infinity) and the
  IEEE comparison. A finite double is an integral multiple of the least subnormal, so it is the
  integer \<open>k\<close> that stands for \<open>k * 2\<^sup>-\<^sup>1\<^sup>0\<^sup>7\<^sup>4\<close>.
\<close>

section \<open>Doubles\<close>

datatype f64 = F_NaN | F_NegInf | F_Fin int | F_PosInf

fun f64_le :: "f64 \<Rightarrow> f64 \<Rightarrow> bool" where
  "f64_le F_NaN b = False"
| "f64_le a F_NaN = False"
| "f64_le F_NegInf b = True"
| "f64_le (F_Fin i) (F_Fin j) = (i \<le> j)"
| "f64_le (F_Fin i) F_PosInf = True"
| "f64_le (F_Fin i) F_NegInf = False"
| "f64_le F_PosInf F_PosInf = True"
| "f64_le F_PosInf b = False"

lemma f64_le_trans: "f64_le a b \<Longrightarrow> f64_le b c \<Longrightarrow> f64_le a c"
  by (cases a; cases b; cases c) auto

lemma f64_le_total: "a \<noteq> F_NaN \<Longrightarrow> b \<noteq> F_NaN \<Longrightarrow> f64_le a b \<or> f64_le b a"
  by (cases a; cases b) auto

lemma f64_le_refl [simp]: "f64_le a a \<longleftrightarrow> a \<noteq> F_NaN"
  by (cases a) auto

lemma f64_le_NegInf [simp]: "f64_le F_NegInf b \<longleftrightarrow> b \<noteq> F_NaN" "f64_le a F_NegInf \<longleftrightarrow> a = F_NegInf"
  by (cases b; simp) (cases a; simp)

lemma f64_le_PosInf [simp]: "f64_le a F_PosInf \<longleftrightarrow> a \<noteq> F_NaN" "f64_le F_PosInf b \<longleftrightarrow> b = F_PosInf"
  by (cases a; simp) (cases b; simp)

lemma f64_le_not_NaN: "f64_le a b \<Longrightarrow> a \<noteq> F_NaN \<and> b \<noteq> F_NaN"
  by (cases a; cases b) auto

section \<open>\<open>f64::from_str\<close>\<close>

fun bit_length :: "nat \<Rightarrow> nat" where
  "bit_length n = (if n = 0 then 0 else Suc (bit_length (n div 2)))"

declare bit_length.simps [simp del]

lemma bit_length_numeral [simp]:
  "bit_length 0 = 0" "bit_length (Suc 0) = 1" "bit_length (numeral Num.One) = 1"
  "bit_length (numeral (Num.Bit0 k)) = Suc (bit_length (numeral k))"
  "bit_length (numeral (Num.Bit1 k)) = Suc (bit_length (numeral k))"
  by (simp_all add: bit_length.simps [of 0] bit_length.simps [of 1] bit_length.simps [of "Suc 0"]
    bit_length.simps [of "numeral (Num.Bit0 k)"] bit_length.simps [of "numeral (Num.Bit1 k)"])

text \<open>
  Round \<open>n / d\<close> to the nearest double, ties to even. In units of the least subnormal the value
  is \<open>n * 2\<^sup>1\<^sup>0\<^sup>7\<^sup>4 / d\<close>; keeping 53 significant bits drops \<open>s\<close> low bits. The largest finite double
  is below \<open>2\<^sup>1\<^sup>0\<^sup>2\<^sup>4\<close>, i.e. \<open>2\<^sup>2\<^sup>0\<^sup>9\<^sup>8\<close> units; what rounds to that or more is infinite.
\<close>

definition round_f64 :: "nat \<Rightarrow> nat \<Rightarrow> f64" where
  "round_f64 n d =
     (let u = n * 2 ^ 1074;
          s = bit_length (u div d) - 53;
          g = d * 2 ^ s;
          q = u div g;
          r = u mod g;
          m = (if 2 * r > g \<or> (2 * r = g \<and> odd q) then q + 1 else q) * 2 ^ s
      in if m \<ge> 2 ^ 2098 then F_PosInf else F_Fin (int m))"

fun f64_neg :: "f64 \<Rightarrow> f64" where
  "f64_neg F_NaN = F_NaN"
| "f64_neg F_NegInf = F_PosInf"
| "f64_neg F_PosInf = F_NegInf"
| "f64_neg (F_Fin i) = F_Fin (- i)"

text \<open>The exponent part: empty, or \<open>e\<close>, an optional sign and at least one digit.\<close>

definition parse_exponent :: "string \<Rightarrow> int option" where
  "parse_exponent s =
     (case s of
        [] \<Rightarrow> Some 0
      | c # cs \<Rightarrow>
          if c \<noteq> CHR ''e'' \<and> c \<noteq> CHR ''E'' then None
          else
            let neg = (cs \<noteq> [] \<and> hd cs = CHR ''-'');
                ds = (if cs \<noteq> [] \<and> (hd cs = CHR ''-'' \<or> hd cs = CHR ''+'') then tl cs else cs)
            in if ds = [] \<or> \<not> list_all is_digit ds then None
               else Some (if neg then - int (digits_value ds) else int (digits_value ds)))"

definition parse_number :: "string \<Rightarrow> f64 option" where
  "parse_number s =
     (let ip = takeWhile is_digit s;
          r1 = dropWhile is_digit s;
          fp = (if r1 \<noteq> [] \<and> hd r1 = CHR ''.'' then takeWhile is_digit (tl r1) else []);
          r2 = (if r1 \<noteq> [] \<and> hd r1 = CHR ''.'' then dropWhile is_digit (tl r1) else r1)
      in if ip = [] \<and> fp = [] then None
         else case parse_exponent r2 of
                None \<Rightarrow> None
              | Some e \<Rightarrow>
                  let e' = e - int (length fp); m = digits_value (ip @ fp)
                  in if m = 0 then Some (F_Fin 0)
                     else Some (if e' \<ge> 0 then round_f64 (m * 10 ^ nat e') 1
                                else round_f64 m (10 ^ nat (- e'))))"

definition to_lower :: "char \<Rightarrow> char" where
  "to_lower c = (if CHR ''A'' \<le> c \<and> c \<le> CHR ''Z'' then char_of (of_char c + 32 :: nat) else c)"

definition parse_inf_nan :: "string \<Rightarrow> f64 option" where
  "parse_inf_nan s =
     (let l = map to_lower s
      in if l = ''nan'' then Some F_NaN
         else if l = ''inf'' \<or> l = ''infinity'' then Some F_PosInf else None)"

definition parse_f64 :: "string \<Rightarrow> f64 option" where
  "parse_f64 s =
     (case s of
        [] \<Rightarrow> None
      | c # cs \<Rightarrow>
          let neg = (c = CHR ''-'');
              body = (if c = CHR ''-'' \<or> c = CHR ''+'' then cs else s);
              v = (case parse_number body of Some v \<Rightarrow> Some v | None \<Rightarrow> parse_inf_nan body)
          in map_option (\<lambda>v. if neg then f64_neg v else v) v)"

section \<open>\<open>decimal_le\<close>\<close>

definition unwrap_or :: "'a option \<Rightarrow> 'a \<Rightarrow> 'a" where
  "unwrap_or x d = (case x of None \<Rightarrow> d | Some y \<Rightarrow> y)"

lemma unwrap_or_simps [simp]: "unwrap_or None d = d" "unwrap_or (Some y) d = y"
  by (simp_all add: unwrap_or_def)

definition decimal_le :: "string \<Rightarrow> string \<Rightarrow> bool" where
  "decimal_le a b =
     f64_le (unwrap_or (parse_f64 a) F_PosInf) (unwrap_or (parse_f64 b) F_NegInf)"

text \<open>A bound is usable when it parses to a number: malformed bounds and \<open>NaN\<close> admit nothing.\<close>

definition decimal_ok :: "string \<Rightarrow> bool" where
  "decimal_ok a = (case parse_f64 a of None \<Rightarrow> False | Some v \<Rightarrow> v \<noteq> F_NaN)"

lemma decimal_le_trans:
  assumes "decimal_le a b" and "decimal_le b c"
  shows "decimal_le a c"
proof (cases "parse_f64 b")
  case None
  with assms(1) have "unwrap_or (parse_f64 a) F_PosInf = F_NegInf"
    by (simp add: decimal_le_def)
  moreover from None assms(2) have "unwrap_or (parse_f64 c) F_NegInf = F_PosInf"
    by (simp add: decimal_le_def)
  ultimately show ?thesis
    by (simp add: decimal_le_def)
next
  case (Some v)
  with assms show ?thesis
    by (auto simp: decimal_le_def intro: f64_le_trans)
qed

lemma decimal_le_linear:
  assumes "decimal_ok b" and "\<not> decimal_le b a" and "decimal_le v a"
  shows "decimal_le v b"
proof -
  obtain w where w: "parse_f64 b = Some w" "w \<noteq> F_NaN"
    using assms(1) by (auto simp: decimal_ok_def split: option.splits)
  have "unwrap_or (parse_f64 a) F_NegInf \<noteq> F_NaN"
    using assms(3) f64_le_not_NaN by (auto simp: decimal_le_def)
  then have "f64_le (unwrap_or (parse_f64 a) F_NegInf) w"
    using assms(2) w f64_le_total by (auto simp: decimal_le_def)
  then show ?thesis
    using assms(3) w f64_le_trans by (auto simp: decimal_le_def)
qed

end
