(* ===== verification/Capability.thy ===== *)
theory Capability
  imports Receipt_Store Decimal_F64
begin

text \<open>
  Capabilities (\<open>crates/yutha-capability\<close>): scopes and their intersection (\<open>scope.rs\<close>), caveats
  (\<open>caveat.rs\<close>), action descriptors and check outcomes (\<open>check.rs\<close>), the capability itself with
  its builder (\<open>capability.rs\<close>), and the protobuf conversions (\<open>proto_conv.rs\<close>). On every list
  dimension of a scope the empty list means all.
\<close>

section \<open>Scopes\<close>

record Scope =
  permitted_actions :: "string list"
  resource_tags :: "string list"
  bounds :: "(string, string) btree_map"
  permitted_recipients :: "string list"
  memory_scopes :: "string list"

definition scope_empty :: Scope where
  "scope_empty = \<lparr>permitted_actions = [], resource_tags = [], bounds = [],
     permitted_recipients = [], memory_scopes = []\<rparr>"

definition for_action :: "string \<Rightarrow> Scope" where
  "for_action kind = scope_empty\<lparr>permitted_actions := [kind]\<rparr>"

definition with_tag :: "string \<Rightarrow> Scope \<Rightarrow> Scope" where
  "with_tag tag s = s\<lparr>resource_tags := resource_tags s @ [tag]\<rparr>"

definition with_bound :: "string \<Rightarrow> string \<Rightarrow> Scope \<Rightarrow> Scope" where
  "with_bound k v s = s\<lparr>bounds := bt_insert k v (bounds s)\<rparr>"

definition with_recipient :: "string \<Rightarrow> Scope \<Rightarrow> Scope" where
  "with_recipient r s = s\<lparr>permitted_recipients := permitted_recipients s @ [r]\<rparr>"

record ActionDescriptor =
  ad_action_kind :: string
  ad_resource_tags :: "string list"
  ad_numeric_values :: "(string, string) btree_map"
  ad_recipient :: "string option"
  ad_memory_scope :: "string option"

definition intersect_or_take_one :: "string list \<Rightarrow> string list \<Rightarrow> string list" where
  "intersect_or_take_one lhs rhs =
     (if lhs = [] then rhs else if rhs = [] then lhs else filter (\<lambda>x. x \<in> set rhs) lhs)"

definition empty_or_contains :: "string list \<Rightarrow> string \<Rightarrow> bool" where
  "empty_or_contains scope_dim needle = (scope_dim = [] \<or> needle \<in> set scope_dim)"

text \<open>The two loops of \<open>intersect_bounds\<close>: over \<open>lhs\<close>, then over \<open>rhs\<close> with \<open>or_insert\<close>.\<close>

definition smaller_bound :: "(string, string) btree_map \<Rightarrow> string \<Rightarrow> string \<Rightarrow> string" where
  "smaller_bound rhs k v =
     (case bt_get rhs k of Some rhs_v \<Rightarrow> if decimal_le rhs_v v then rhs_v else v | None \<Rightarrow> v)"

definition intersect_bounds ::
    "(string, string) btree_map \<Rightarrow> (string, string) btree_map \<Rightarrow> (string, string) btree_map" where
  "intersect_bounds lhs rhs =
     fold (\<lambda>(k, v) out. if bt_get out k = None then bt_insert k v out else out) rhs
       (fold (\<lambda>(k, v) out. bt_insert k (smaller_bound rhs k v) out) lhs [])"

definition scope_intersect :: "Scope \<Rightarrow> Scope \<Rightarrow> Scope" where
  "scope_intersect s t =
     \<lparr>permitted_actions = intersect_or_take_one (permitted_actions s) (permitted_actions t),
      resource_tags = intersect_or_take_one (resource_tags s) (resource_tags t),
      bounds = intersect_bounds (bounds s) (bounds t),
      permitted_recipients = intersect_or_take_one (permitted_recipients s) (permitted_recipients t),
      memory_scopes = intersect_or_take_one (memory_scopes s) (memory_scopes t)\<rparr>"

definition scope_permits :: "Scope \<Rightarrow> ActionDescriptor \<Rightarrow> bool" where
  "scope_permits s d =
     (if \<not> empty_or_contains (permitted_actions s) (ad_action_kind d) then False
      else if resource_tags s \<noteq> [] \<and> \<not> list_all (\<lambda>tag. tag \<in> set (resource_tags s)) (ad_resource_tags d)
      then False
      else if \<not> list_all (\<lambda>(k, v). case bt_get (bounds s) k of
                   Some scope_bound \<Rightarrow> decimal_le v scope_bound | None \<Rightarrow> True) (ad_numeric_values d)
      then False
      else if (case ad_recipient d of
                 Some r \<Rightarrow> \<not> empty_or_contains (permitted_recipients s) r | None \<Rightarrow> False)
      then False
      else if (case ad_memory_scope d of
                 Some m \<Rightarrow> \<not> empty_or_contains (memory_scopes s) m | None \<Rightarrow> False)
      then False
      else True)"

section \<open>Caveats and check outcomes\<close>

record TimeOfDay =
  from_utc :: string
  to_utc :: string

record RateLimit =
  max_actions :: u32
  window_seconds :: u64

datatype Caveat =
    TimeOfDay_caveat TimeOfDay
  | ConstitutionVersion string "string option"
  | SupervisorRequired string
  | RateLimit_caveat RateLimit
  | OnlyIfTagged "string list"
  | NeverIfTagged "string list"

fun caveat_permits :: "Caveat \<Rightarrow> ActionDescriptor \<Rightarrow> bool" where
  "caveat_permits (OnlyIfTagged tags) d = list_all (\<lambda>t. t \<in> set (ad_resource_tags d)) tags"
| "caveat_permits (NeverIfTagged tags) d = (\<not> list_ex (\<lambda>t. t \<in> set (ad_resource_tags d)) tags)"
| "caveat_permits (TimeOfDay_caveat _) d = True"
| "caveat_permits (RateLimit_caveat _) d = True"
| "caveat_permits (ConstitutionVersion _ _) d = True"
| "caveat_permits (SupervisorRequired _) d = True"

fun caveat_label :: "Caveat \<Rightarrow> string" where
  "caveat_label (TimeOfDay_caveat _) = ''time_of_day''"
| "caveat_label (ConstitutionVersion _ _) = ''constitution_version''"
| "caveat_label (SupervisorRequired _) = ''supervisor_required''"
| "caveat_label (RateLimit_caveat _) = ''rate_limit''"
| "caveat_label (OnlyIfTagged _) = ''only_if_tagged''"
| "caveat_label (NeverIfTagged _) = ''never_if_tagged''"

record CheckOutcome =
  co_permitted :: bool
  co_deny_reason :: string
  co_matched_caveats :: "string list"
  co_unmet_caveats :: "string list"
  co_capability :: "Hash option"

definition outcome_permit :: "Hash option \<Rightarrow> string list \<Rightarrow> CheckOutcome" where
  "outcome_permit cap matched = \<lparr>co_permitted = True, co_deny_reason = [],
     co_matched_caveats = matched, co_unmet_caveats = [], co_capability = cap\<rparr>"

definition outcome_deny :: "Hash option \<Rightarrow> string \<Rightarrow> string list \<Rightarrow> CheckOutcome" where
  "outcome_deny cap reason unmet = \<lparr>co_permitted = False, co_deny_reason = reason,
     co_matched_caveats = [], co_unmet_caveats = unmet, co_capability = cap\<rparr>"

text \<open>The loop that sorts the labels of the caveats into matched and unmet ones.\<close>

fun eval_caveats ::
    "ActionDescriptor \<Rightarrow> Caveat list \<Rightarrow> string list \<times> string list \<Rightarrow> string list \<times> string list" where
  "eval_caveats d [] (matched, unmet) = (matched, unmet)"
| "eval_caveats d (c # cs) (matched, unmet) =
     (if caveat_permits c d then eval_caveats d cs (matched @ [caveat_label c], unmet)
      else eval_caveats d cs (matched, unmet @ [caveat_label c]))"

section \<open>Capabilities\<close>

record ControlPlaneIssuer =
  control_plane_key_fingerprint :: bytes
  instance_id :: string

datatype Issuer = Agent AgentId | Operator bytes | ControlPlaneIssuer ControlPlaneIssuer

datatype CapabilityError =
    IssuerSignatureInvalid
  | MissingField string
  | OutOfValidityWindow
  | ChainTooDeep nat nat
  | AttenuationBroadens string
  | ParentNotFound Hash
  | CapabilityRevoked
  | SubjectQuarantined AgentId
  | CapabilityBackend string
  | CapabilityCrypto CryptoError
  | CapabilityCore CoreError
  | SignerFailed string

record Capability =
  c_spec_version :: SpecVersion
  c_capability_id :: bytes
  c_swarm_id :: SwarmId
  c_issuer :: Issuer
  c_subject :: AgentId
  c_scope :: Scope
  c_parent :: "Hash option"
  c_valid_from :: Timestamp
  c_valid_until :: Timestamp
  c_caveats :: "Caveat list"
  c_revocation_endpoint :: string
  c_issuer_signature :: "Signature option"

definition is_within_window :: "externals \<Rightarrow> Capability \<Rightarrow> Timestamp \<Rightarrow> bool" where
  "is_within_window x c now =
     (wall_at_or_after x now (c_valid_from c) \<and> wall_at_or_after x (c_valid_until c) now)"

record CapabilityBuilder =
  cb_spec_version :: "SpecVersion option"
  cb_capability_id :: "bytes option"
  cb_swarm_id :: "SwarmId option"
  cb_issuer :: "Issuer option"
  cb_subject :: "AgentId option"
  cb_scope :: Scope
  cb_parent :: "Hash option"
  cb_valid_from :: "Timestamp option"
  cb_valid_until :: "Timestamp option"
  cb_caveats :: "Caveat list"
  cb_revocation_endpoint :: string

definition capability_builder_new :: CapabilityBuilder where
  "capability_builder_new =
     \<lparr>cb_spec_version = None, cb_capability_id = None, cb_swarm_id = None, cb_issuer = None,
      cb_subject = None, cb_scope = scope_empty, cb_parent = None, cb_valid_from = None,
      cb_valid_until = None, cb_caveats = [], cb_revocation_endpoint = []\<rparr>"

definition capability_build :: "CapabilityBuilder \<Rightarrow> CapabilityError + Capability" where
  "capability_build b =
     rbind (ok_or (cb_spec_version b) (MissingField ''spec_version'')) (\<lambda>v.
     rbind (ok_or (cb_capability_id b) (MissingField ''capability_id'')) (\<lambda>cid.
     rbind (ok_or (cb_swarm_id b) (MissingField ''swarm_id'')) (\<lambda>swarm.
     rbind (ok_or (cb_issuer b) (MissingField ''issuer'')) (\<lambda>issuer.
     rbind (ok_or (cb_subject b) (MissingField ''subject'')) (\<lambda>subject.
     rbind (ok_or (cb_valid_from b) (MissingField ''valid_from'')) (\<lambda>from.
     rbind (ok_or (cb_valid_until b) (MissingField ''valid_until'')) (\<lambda>until.
       Inr \<lparr>c_spec_version = v, c_capability_id = cid, c_swarm_id = swarm, c_issuer = issuer,
            c_subject = subject, c_scope = cb_scope b, c_parent = cb_parent b,
            c_valid_from = from, c_valid_until = until, c_caveats = cb_caveats b,
            c_revocation_endpoint = cb_revocation_endpoint b, c_issuer_signature = None\<rparr>)))))))"

section \<open>Protobuf messages and conversions\<close>

datatype proto_IssuerKind =
    P_Agent proto_AgentId
  | P_OperatorKeyFingerprint bytes
  | P_ControlPlane ControlPlaneIssuer

datatype proto_Issuer = P_Issuer (p_issuer_kind: "proto_IssuerKind option")

type_synonym proto_Scope = Scope

datatype proto_CaveatKind =
    P_TimeOfDay TimeOfDay
  | P_ConstitutionVersion string string
  | P_SupervisorRequired string
  | P_RateLimit RateLimit
  | P_OnlyIfTagged "string list"
  | P_NeverIfTagged "string list"

datatype proto_Caveat = P_Caveat (p_caveat_kind: "proto_CaveatKind option")

record proto_CapabilitySignature =
  pcs_role :: int
  pcs_signature :: "proto_Signature option"
  pcs_signed_at :: "proto_Timestamp option"

record proto_Capability =
  pc_spec_version :: "proto_Version option"
  pc_capability_id :: bytes
  pc_swarm_id :: "proto_SwarmId option"
  pc_issuer :: "proto_Issuer option"
  pc_subject :: "proto_AgentId option"
  pc_scope :: "proto_Scope option"
  pc_parent :: "proto_Hash option"
  pc_valid_from :: "proto_Timestamp option"
  pc_valid_until :: "proto_Timestamp option"
  pc_caveats :: "proto_Caveat list"
  pc_revocation_endpoint :: string
  pc_extensions :: "bytes option"
  pc_signatures :: "proto_CapabilitySignature list"

definition proto_of_issuer :: "Issuer \<Rightarrow> proto_Issuer" where
  "proto_of_issuer i =
     P_Issuer (Some (case i of
        Agent a \<Rightarrow> P_Agent (proto_of_agent a)
      | Operator fp \<Rightarrow> P_OperatorKeyFingerprint fp
      | ControlPlaneIssuer cp \<Rightarrow> P_ControlPlane cp))"

definition proto_of_scope :: "Scope \<Rightarrow> proto_Scope" where
  "proto_of_scope s =
     \<lparr>permitted_actions = permitted_actions s, resource_tags = resource_tags s, bounds = bounds s,
      permitted_recipients = permitted_recipients s, memory_scopes = memory_scopes s\<rparr>"

definition proto_of_caveat :: "Caveat \<Rightarrow> proto_Caveat" where
  "proto_of_caveat c =
     P_Caveat (Some (case c of
        TimeOfDay_caveat t \<Rightarrow> P_TimeOfDay t
      | ConstitutionVersion lo hi \<Rightarrow>
          P_ConstitutionVersion lo (case hi of None \<Rightarrow> [] | Some v \<Rightarrow> v)
      | SupervisorRequired r \<Rightarrow> P_SupervisorRequired r
      | RateLimit_caveat r \<Rightarrow> P_RateLimit r
      | OnlyIfTagged ts \<Rightarrow> P_OnlyIfTagged ts
      | NeverIfTagged ts \<Rightarrow> P_NeverIfTagged ts))"

definition ROLE_ISSUER :: int where
  "ROLE_ISSUER = 1"

definition proto_of_capability :: "Capability \<Rightarrow> proto_Capability" where
  "proto_of_capability c =
     \<lparr>pc_spec_version = Some (proto_of_version (c_spec_version c)),
      pc_capability_id = c_capability_id c,
      pc_swarm_id = Some (proto_of_swarm (c_swarm_id c)),
      pc_issuer = Some (proto_of_issuer (c_issuer c)),
      pc_subject = Some (proto_of_agent (c_subject c)),
      pc_scope = Some (proto_of_scope (c_scope c)),
      pc_parent = map_option proto_of_hash (c_parent c),
      pc_valid_from = Some (proto_of_timestamp (c_valid_from c)),
      pc_valid_until = Some (proto_of_timestamp (c_valid_until c)),
      pc_caveats = map proto_of_caveat (c_caveats c),
      pc_revocation_endpoint = c_revocation_endpoint c,
      pc_extensions = None,
      pc_signatures =
        (case c_issuer_signature c of
           None \<Rightarrow> []
         | Some s \<Rightarrow>
             [\<lparr>pcs_role = ROLE_ISSUER, pcs_signature = Some (proto_of_signature s),
               pcs_signed_at = Some (P_Timestamp [] 0)\<rparr>])\<rparr>"

definition capability_to_canonical_proto :: "Capability \<Rightarrow> proto_Capability" where
  "capability_to_canonical_proto c = (proto_of_capability c)\<lparr>pc_signatures := [], pc_extensions := None\<rparr>"

definition cap_missing :: "string \<Rightarrow> CapabilityError" where
  "cap_missing field = CapabilityCore (Validation (''required field missing: '' @ field))"

definition issuer_try_from :: "proto_Issuer \<Rightarrow> CapabilityError + Issuer" where
  "issuer_try_from p =
     rbind (ok_or (p_issuer_kind p) (cap_missing ''issuer.kind'')) (\<lambda>kind.
       case kind of
         P_Agent a \<Rightarrow> rbind (map_err CapabilityCore (agent_try_from a)) (\<lambda>i. Inr (Agent i))
       | P_OperatorKeyFingerprint fp \<Rightarrow> Inr (Operator fp)
       | P_ControlPlane cp \<Rightarrow> Inr (ControlPlaneIssuer cp))"

definition scope_from :: "proto_Scope \<Rightarrow> Scope" where
  "scope_from p =
     \<lparr>permitted_actions = permitted_actions p, resource_tags = resource_tags p, bounds = bounds p,
      permitted_recipients = permitted_recipients p, memory_scopes = memory_scopes p\<rparr>"

definition caveat_try_from :: "proto_Caveat \<Rightarrow> CapabilityError + Caveat" where
  "caveat_try_from p =
     rbind (ok_or (p_caveat_kind p) (cap_missing ''caveat.kind'')) (\<lambda>kind.
       Inr (case kind of
              P_TimeOfDay t \<Rightarrow> TimeOfDay_caveat t
            | P_ConstitutionVersion lo hi \<Rightarrow>
                ConstitutionVersion lo (if hi = [] then None else Some hi)
            | P_SupervisorRequired r \<Rightarrow> SupervisorRequired r
            | P_RateLimit r \<Rightarrow> RateLimit_caveat r
            | P_OnlyIfTagged ts \<Rightarrow> OnlyIfTagged ts
            | P_NeverIfTagged ts \<Rightarrow> NeverIfTagged ts))"

definition capability_try_from :: "externals \<Rightarrow> proto_Capability \<Rightarrow> CapabilityError + Capability" where
  "capability_try_from x p =
     rbind (ok_or (pc_spec_version p) (cap_missing ''spec_version'')) (\<lambda>pv.
     rbind (map_err CapabilityCore (version_try_from pv)) (\<lambda>v.
     rbind (ok_or (pc_swarm_id p) (cap_missing ''swarm_id'')) (\<lambda>ps.
     rbind (map_err CapabilityCore (swarm_try_from ps)) (\<lambda>swarm.
     rbind (ok_or (pc_issuer p) (cap_missing ''issuer'')) (\<lambda>pi.
     rbind (issuer_try_from pi) (\<lambda>issuer.
     rbind (ok_or (pc_subject p) (cap_missing ''subject'')) (\<lambda>pa.
     rbind (map_err CapabilityCore (agent_try_from pa)) (\<lambda>subject.
     rbind (map_err CapabilityCore (transpose_map hash_try_from (pc_parent p))) (\<lambda>parent.
     rbind (ok_or (pc_valid_from p) (cap_missing ''valid_from'')) (\<lambda>pf.
     rbind (map_err CapabilityCore (timestamp_try_from x pf)) (\<lambda>from.
     rbind (ok_or (pc_valid_until p) (cap_missing ''valid_until'')) (\<lambda>pu.
     rbind (map_err CapabilityCore (timestamp_try_from x pu)) (\<lambda>until.
     rbind (collect_results (map caveat_try_from (pc_caveats p))) (\<lambda>caveats.
     rbind (map_err CapabilityCore (transpose_map signature_try_from
              (Option.bind (find (\<lambda>s. pcs_role s = ROLE_ISSUER) (pc_signatures p)) pcs_signature)))
       (\<lambda>sig.
       Inr \<lparr>c_spec_version = v, c_capability_id = pc_capability_id p, c_swarm_id = swarm,
            c_issuer = issuer, c_subject = subject,
            c_scope = (case pc_scope p of None \<Rightarrow> scope_empty | Some s \<Rightarrow> scope_from s),
            c_parent = parent, c_valid_from = from, c_valid_until = until, c_caveats = caveats,
            c_revocation_endpoint = pc_revocation_endpoint p,
            c_issuer_signature = sig\<rparr>)))))))))))))))"

record proto_ActionDescriptor =
  pad_action_kind :: string
  pad_resource_tags :: "string list"
  pad_numeric_values :: "(string, string) btree_map"
  pad_recipient :: string
  pad_memory_scope :: string

definition action_descriptor_from :: "proto_ActionDescriptor \<Rightarrow> ActionDescriptor" where
  "action_descriptor_from p =
     \<lparr>ad_action_kind = pad_action_kind p, ad_resource_tags = pad_resource_tags p,
      ad_numeric_values = pad_numeric_values p,
      ad_recipient = (if pad_recipient p = [] then None else Some (pad_recipient p)),
      ad_memory_scope = (if pad_memory_scope p = [] then None else Some (pad_memory_scope p))\<rparr>"

definition proto_of_action_descriptor :: "ActionDescriptor \<Rightarrow> proto_ActionDescriptor" where
  "proto_of_action_descriptor d =
     \<lparr>pad_action_kind = ad_action_kind d, pad_resource_tags = ad_resource_tags d,
      pad_numeric_values = ad_numeric_values d,
      pad_recipient = (case ad_recipient d of None \<Rightarrow> [] | Some r \<Rightarrow> r),
      pad_memory_scope = (case ad_memory_scope d of None \<Rightarrow> [] | Some m \<Rightarrow> m)\<rparr>"

record proto_CheckResponse =
  pcr_permitted :: bool
  pcr_deny_reason :: string
  pcr_matched_caveats :: "string list"
  pcr_unmet_caveats :: "string list"
  pcr_check_receipt :: "proto_Hash option"

definition to_proto_with_receipt :: "CheckOutcome \<Rightarrow> Hash option \<Rightarrow> proto_CheckResponse" where
  "to_proto_with_receipt out receipt =
     \<lparr>pcr_permitted = co_permitted out, pcr_deny_reason = co_deny_reason out,
      pcr_matched_caveats = co_matched_caveats out, pcr_unmet_caveats = co_unmet_caveats out,
      pcr_check_receipt = map_option proto_of_hash receipt\<rparr>"

section \<open>Content-address and the stateless check\<close>

record capability_ctx =
  cc_ext :: externals
  cc_encode :: "proto_Capability \<Rightarrow> bytes"

definition capability_bytes :: "capability_ctx \<Rightarrow> Capability \<Rightarrow> bytes" where
  "capability_bytes cx c = cc_encode cx (capability_to_canonical_proto c)"

definition capability_address :: "capability_ctx \<Rightarrow> Capability \<Rightarrow> Hash" where
  "capability_address cx c = sha256 (cc_ext cx) (capability_bytes cx c)"

definition capability_sign ::
    "capability_ctx \<Rightarrow> (bytes \<Rightarrow> string + Signature) \<Rightarrow> CapabilityBuilder \<Rightarrow> CapabilityError + Capability" where
  "capability_sign cx sign b =
     rbind (capability_build b) (\<lambda>c.
     rbind (map_err SignerFailed (sign (capability_bytes cx c))) (\<lambda>sig.
       Inr (c\<lparr>c_issuer_signature := Some sig\<rparr>)))"

definition capability_check :: "capability_ctx \<Rightarrow> Capability \<Rightarrow> ActionDescriptor \<Rightarrow> CheckOutcome" where
  "capability_check cx c d =
     (let cap_id = Some (capability_address cx c) in
      if \<not> scope_permits (c_scope c) d
      then outcome_deny cap_id ''scope does not permit action'' []
      else
        let (matched, unmet) = eval_caveats d (c_caveats c) ([], []) in
        if unmet \<noteq> [] then outcome_deny cap_id ''caveat(s) not met'' unmet
        else outcome_permit cap_id matched)"

section \<open>The algebra of scopes\<close>

definition scope_wf :: "Scope \<Rightarrow> bool" where
  "scope_wf s = bt_wf (bounds s)"

definition bound_ok :: "(string, string) btree_map \<Rightarrow> string \<Rightarrow> string \<Rightarrow> bool" where
  "bound_ok m k v = (case bt_get m k of Some b \<Rightarrow> decimal_le v b | None \<Rightarrow> True)"

lemma scope_permits_iff:
  "scope_permits s d \<longleftrightarrow>
     empty_or_contains (permitted_actions s) (ad_action_kind d)
     \<and> (\<forall>t \<in> set (ad_resource_tags d). empty_or_contains (resource_tags s) t)
     \<and> (\<forall>(k, v) \<in> set (ad_numeric_values d). bound_ok (bounds s) k v)
     \<and> (\<forall>r. ad_recipient d = Some r \<longrightarrow> empty_or_contains (permitted_recipients s) r)
     \<and> (\<forall>m. ad_memory_scope d = Some m \<longrightarrow> empty_or_contains (memory_scopes s) m)"
  by (auto simp: scope_permits_def empty_or_contains_def bound_ok_def list_all_iff split: option.splits)

lemma lhs_loop_get:
  "distinct (map fst l) \<Longrightarrow>
   bt_get (fold (\<lambda>(k, v) out. bt_insert k (f k v) out) l m) k =
     (case bt_get l k of Some v \<Rightarrow> Some (f k v) | None \<Rightarrow> bt_get m k)"
proof (induction l arbitrary: m)
  case (Cons kv l)
  then show ?case
    by (cases kv) (force simp: map_of_eq_None_iff split: option.splits)
qed simp

lemma rhs_loop_get:
  "bt_get (fold (\<lambda>(k, v) out. if bt_get out k = None then bt_insert k v out else out) r m) k =
     (case bt_get m k of Some v \<Rightarrow> Some v | None \<Rightarrow> bt_get r k)"
  by (induction r arbitrary: m) (auto split: option.splits if_splits)

lemma fold_bt_wf:
  "(\<And>k v out. bt_wf out \<Longrightarrow> bt_wf (f k v out)) \<Longrightarrow> bt_wf m \<Longrightarrow> bt_wf (fold (\<lambda>(k, v). f k v) l m)"
  by (induction l arbitrary: m) auto

lemma intersect_bounds_wf [simp]: "bt_wf (intersect_bounds l r)"
  unfolding intersect_bounds_def
  by (intro fold_bt_wf) (auto simp: bt_wf_insert bt.wf_empty)

lemma intersect_bounds_get:
  assumes "bt_wf l"
  shows "bt_get (intersect_bounds l r) k =
    (case bt_get l k of Some v \<Rightarrow> Some (smaller_bound r k v) | None \<Rightarrow> bt_get r k)"
  unfolding intersect_bounds_def rhs_loop_get lhs_loop_get [OF bt_wf_distinct [OF assms]]
  by (simp split: option.splits)

lemma scope_intersect_wf [simp]: "scope_wf (scope_intersect s t)"
  by (simp add: scope_wf_def scope_intersect_def)

text \<open>A child scope that equals its intersection with the parent permits nothing more.\<close>

lemma dimension_narrows:
  "intersect_or_take_one p c = c \<Longrightarrow> empty_or_contains c n \<Longrightarrow> empty_or_contains p n"
  by (auto simp: intersect_or_take_one_def empty_or_contains_def split: if_splits)
    (metis mem_Collect_eq set_filter)

lemma bounds_narrow:
  assumes "bt_wf p" and "intersect_bounds p c = c" and "bound_ok c k v"
  shows "bound_ok p k v"
proof (cases "bt_get p k")
  case (Some b)
  then have "bt_get c k = Some (smaller_bound c k b)"
    using intersect_bounds_get [OF assms(1), of c k] assms(2) by simp
  moreover have "smaller_bound c k b = b \<or> decimal_le (smaller_bound c k b) b"
    by (simp add: smaller_bound_def split: option.split)
  ultimately have "decimal_le v b"
    using assms(3) decimal_le_trans unfolding bound_ok_def by fastforce
  with Some show ?thesis
    by (simp add: bound_ok_def)
qed (simp add: bound_ok_def)

lemma intersect_fixed_narrows:
  assumes "scope_wf p" and "scope_intersect p c = c" and "scope_permits c d"
  shows "scope_permits p d"
proof -
  have dims: "intersect_or_take_one (permitted_actions p) (permitted_actions c) = permitted_actions c"
    "intersect_or_take_one (resource_tags p) (resource_tags c) = resource_tags c"
    "intersect_bounds (bounds p) (bounds c) = bounds c"
    "intersect_or_take_one (permitted_recipients p) (permitted_recipients c) = permitted_recipients c"
    "intersect_or_take_one (memory_scopes p) (memory_scopes c) = memory_scopes c"
    using arg_cong [OF assms(2), of permitted_actions] arg_cong [OF assms(2), of resource_tags]
      arg_cong [OF assms(2), of bounds] arg_cong [OF assms(2), of permitted_recipients]
      arg_cong [OF assms(2), of memory_scopes]
    by (simp_all add: scope_intersect_def)
  show ?thesis
    using assms(3) bounds_narrow [OF assms(1) [unfolded scope_wf_def] dims(3)]
      dimension_narrows [OF dims(1)] dimension_narrows [OF dims(2)]
      dimension_narrows [OF dims(4)] dimension_narrows [OF dims(5)]
    unfolding scope_permits_iff by blast
qed

text \<open>Two dimensions overlap unless both are constrained and share nothing.\<close>

definition overlap :: "string list \<Rightarrow> string list \<Rightarrow> bool" where
  "overlap a b = (a = [] \<or> b = [] \<or> list_ex (\<lambda>x. x \<in> set b) a)"

definition scopes_overlap :: "Scope \<Rightarrow> Scope \<Rightarrow> bool" where
  "scopes_overlap s t =
     (overlap (permitted_actions s) (permitted_actions t)
      \<and> overlap (resource_tags s) (resource_tags t)
      \<and> overlap (permitted_recipients s) (permitted_recipients t)
      \<and> overlap (memory_scopes s) (memory_scopes t))"

definition bounds_numeric :: "Scope \<Rightarrow> bool" where
  "bounds_numeric s = list_all (\<lambda>e. decimal_ok (snd e)) (bounds s)"

lemma intersect_eq_Nil: "overlap a b \<Longrightarrow> intersect_or_take_one a b = [] \<longleftrightarrow> a = [] \<and> b = []"
  by (auto simp: overlap_def intersect_or_take_one_def list_ex_iff filter_empty_conv)

lemma dimension_exact:
  "overlap a b \<Longrightarrow>
   empty_or_contains (intersect_or_take_one a b) n \<longleftrightarrow> empty_or_contains a n \<and> empty_or_contains b n"
  unfolding empty_or_contains_def intersect_eq_Nil by (auto simp: intersect_or_take_one_def)

lemma bounds_exact:
  assumes "bt_wf l" and "\<forall>e \<in> set r. decimal_ok (snd e)"
  shows "bound_ok (intersect_bounds l r) k v \<longleftrightarrow> bound_ok l k v \<and> bound_ok r k v"
proof (cases "bt_get l k"; cases "bt_get r k")
  fix a b assume ab: "bt_get l k = Some a" "bt_get r k = Some b"
  then have "decimal_ok b"
    using assms(2) by (force dest: map_of_SomeD)
  then show ?thesis
    using ab decimal_le_trans [of v b a] decimal_le_linear [of b a v]
    by (auto simp: bound_ok_def intersect_bounds_get [OF assms(1)] smaller_bound_def)
qed (auto simp: bound_ok_def intersect_bounds_get [OF assms(1)] smaller_bound_def)

text \<open>Narrowing by an intersection is stable exactly when no dimension is disjoint.\<close>

lemma intersect_again:
  "intersect_or_take_one a (intersect_or_take_one a b) = intersect_or_take_one a b \<longleftrightarrow> overlap a b"
  by (auto simp: intersect_or_take_one_def overlap_def list_ex_iff filter_empty_conv filter_id_conv
      cong: filter_cong)

lemma intersect_bounds_again:
  assumes "bt_wf l"
  shows "intersect_bounds l (intersect_bounds l r) = intersect_bounds l r"
proof (rule bt_eqI)
  show "bt_get (intersect_bounds l (intersect_bounds l r)) = bt_get (intersect_bounds l r)"
    by (auto simp: intersect_bounds_get [OF assms] smaller_bound_def fun_eq_iff split: option.splits)
qed simp_all

lemma scope_intersect_again:
  assumes "scope_wf s"
  shows "scope_intersect s (scope_intersect s t) = scope_intersect s t \<longleftrightarrow> scopes_overlap s t"
  using intersect_bounds_again [of "bounds s" "bounds t"] assms
  by (simp add: scope_intersect_def scopes_overlap_def intersect_again scope_wf_def)

section \<open>Caveats\<close>

lemma eval_caveats_eq:
  "eval_caveats d cs (m, u) =
     (m @ map caveat_label (filter (\<lambda>c. caveat_permits c d) cs),
      u @ map caveat_label (filter (\<lambda>c. \<not> caveat_permits c d) cs))"
  by (induction d cs "(m, u)" arbitrary: m u rule: eval_caveats.induct) auto

lemma eval_caveats_unmet: "snd (eval_caveats d cs ([], [])) = [] \<longleftrightarrow> (\<forall>c \<in> set cs. caveat_permits c d)"
  by (auto simp: eval_caveats_eq filter_empty_conv)

lemma capability_check_permits:
  "co_permitted (capability_check cx c d) \<longleftrightarrow>
     scope_permits (c_scope c) d \<and> (\<forall>v \<in> set (c_caveats c). caveat_permits v d)"
  by (auto simp: capability_check_def Let_def outcome_deny_def outcome_permit_def eval_caveats_eq
      filter_empty_conv)

section \<open>Round trips\<close>

definition caveat_ok :: "Caveat \<Rightarrow> bool" where
  "caveat_ok c = (case c of ConstitutionVersion lo hi \<Rightarrow> hi \<noteq> Some [] | _ \<Rightarrow> True)"

interpretation issuer_codec: codec proto_of_issuer issuer_try_from "\<lambda>_. True"
proof
  show "issuer_try_from (proto_of_issuer i) = Inr i" for i
    by (cases i) (simp_all add: issuer_try_from_def proto_of_issuer_def agent_codec.decode_encode)
  show "True \<and> proto_of_issuer i = p" if dec: "issuer_try_from p = Inr i" for p i
  proof -
    obtain k where p: "p = P_Issuer (Some k)"
      using dec by (cases p) (auto simp: issuer_try_from_def rbind_eq_Inr)
    show ?thesis
      using dec by (cases k)
        (auto simp: p issuer_try_from_def proto_of_issuer_def rbind_eq_Inr agent_codec.decode_iff)
  qed
qed

interpretation caveat_codec: codec proto_of_caveat caveat_try_from caveat_ok
proof
  show "caveat_try_from (proto_of_caveat c) = Inr c" if "caveat_ok c" for c
    using that by (cases c)
      (auto simp: caveat_try_from_def proto_of_caveat_def caveat_ok_def split: option.splits)
  show "caveat_ok c \<and> proto_of_caveat c = p" if dec: "caveat_try_from p = Inr c" for p c
  proof -
    obtain k where p: "p = P_Caveat (Some k)"
      using dec by (cases p) (auto simp: caveat_try_from_def rbind_eq_Inr)
    show ?thesis
      using dec by (cases k)
        (auto simp: p caveat_try_from_def proto_of_caveat_def caveat_ok_def split: if_splits)
  qed
qed

lemma scope_roundtrip [simp]: "scope_from (proto_of_scope s) = s"
  by (simp add: scope_from_def proto_of_scope_def)

definition capability_ok :: "externals \<Rightarrow> Capability \<Rightarrow> bool" where
  "capability_ok x c =
     (version_ok (c_spec_version c) \<and> pred_option hash_ok (c_parent c)
      \<and> timestamp_ok x (c_valid_from c) \<and> timestamp_ok x (c_valid_until c)
      \<and> list_all caveat_ok (c_caveats c) \<and> pred_option signature_ok (c_issuer_signature c))"

interpretation capability_codec:
  wire_format proto_of_capability "capability_try_from x" "capability_ok x" for x
proof
  show "capability_try_from x (proto_of_capability c) = Inr c" if "capability_ok x c" for c
    using that
    by (cases "c_issuer_signature c")
      (simp_all add: capability_try_from_def proto_of_capability_def capability_ok_def
        version_codec.decode_encode swarm_codec.decode_encode agent_codec.decode_encode
        issuer_codec.decode_encode hash_codec.transpose_encode timestamp_codec.decode_encode
        caveat_codec.decode_encode_list_comp signature_codec.decode_encode)
qed

lemma capability_address_unsigned [simp]:
  "capability_address cx (c\<lparr>c_issuer_signature := s\<rparr>) = capability_address cx c"
  by (simp add: capability_address_def capability_bytes_def capability_to_canonical_proto_def
      proto_of_capability_def)

end
