(* ===== verification/Auth.thy ===== *)
theory Auth
  imports Registry Capability
begin

text \<open>
  The gRPC status codes that errors map to (\<open>crates/yutha-control-plane/src/grpc/error.rs\<close>) and
  bearer-token authentication (\<open>auth.rs\<close>): the \<open>authorization\<close> header, agent tokens checked
  against the registered passport, operator tokens checked against the configured key. The hex
  decoder and the protobuf codec of the tokens are third-party code, the record \<open>auth_ctx\<close>.
\<close>

section \<open>Status codes\<close>

datatype Code =
    InvalidArgument
  | Unauthenticated
  | PermissionDenied
  | NotFound
  | AlreadyExists
  | FailedPrecondition
  | InternalError
  | Unavailable
  | Unimplemented
  | DeadlineExceeded
  | ResourceExhausted

text \<open>A status carries its code and the literal part of its message.\<close>

record Status =
  st_code :: Code
  st_message :: string

definition status :: "Code \<Rightarrow> string \<Rightarrow> Status" where
  "status c m = \<lparr>st_code = c, st_message = m\<rparr>"

definition missing_field :: "string \<Rightarrow> Status" where
  "missing_field name = status InvalidArgument (''required field missing: '' @ name)"

definition core_to_status :: "CoreError \<Rightarrow> Status" where
  "core_to_status e = status InvalidArgument ''core''"

fun receipt_to_status :: "ReceiptError \<Rightarrow> Status" where
  "receipt_to_status (ContentAddressMismatch _ _) = status FailedPrecondition ''receipt''"
| "receipt_to_status (SignatureFailed _) = status FailedPrecondition ''receipt''"
| "receipt_to_status (SignatureOrderInvalid _ _) = status FailedPrecondition ''receipt''"
| "receipt_to_status (MissingSignatureRole _) = status FailedPrecondition ''receipt''"
| "receipt_to_status AppendOnly = status FailedPrecondition ''receipt''"
| "receipt_to_status (ReceiptNotFound _) = status NotFound ''receipt''"
| "receipt_to_status (ActorNotResolvable _) = status Unauthenticated ''receipt''"
| "receipt_to_status (PassportResolverError _) = status InternalError ''receipt''"
| "receipt_to_status (InvalidQuery _) = status InvalidArgument ''receipt''"
| "receipt_to_status (ReceiptBackend _) = status InternalError ''receipt''"
| "receipt_to_status (ReceiptCrypto _) = status InternalError ''receipt''"
| "receipt_to_status (BatchInvalid _) = status InvalidArgument ''receipt''"
| "receipt_to_status (ReceiptCore c) = core_to_status c"

fun passport_to_status :: "PassportError \<Rightarrow> Status" where
  "passport_to_status SelfSignatureInvalid = status Unauthenticated ''passport''"
| "passport_to_status (PassportMissingField _) = status InvalidArgument ''passport''"
| "passport_to_status PassportExpired = status FailedPrecondition ''passport''"
| "passport_to_status (AlreadyRegistered _) = status AlreadyExists ''passport''"
| "passport_to_status (PassportNotFound _) = status NotFound ''passport''"
| "passport_to_status RotationContinuityMissing = status Unauthenticated ''passport''"
| "passport_to_status (PassportBackend _) = status InternalError ''passport''"
| "passport_to_status (PassportCrypto _) = status InternalError ''passport''"
| "passport_to_status (PassportSigner _) = status InternalError ''passport''"
| "passport_to_status (PassportCore c) = core_to_status c"

fun capability_to_status :: "CapabilityError \<Rightarrow> Status" where
  "capability_to_status IssuerSignatureInvalid = status Unauthenticated ''capability''"
| "capability_to_status (MissingField _) = status InvalidArgument ''capability''"
| "capability_to_status OutOfValidityWindow = status FailedPrecondition ''capability''"
| "capability_to_status (ChainTooDeep _ _) = status FailedPrecondition ''capability''"
| "capability_to_status (AttenuationBroadens _) = status PermissionDenied ''capability''"
| "capability_to_status (ParentNotFound _) = status NotFound ''capability''"
| "capability_to_status CapabilityRevoked = status PermissionDenied ''capability''"
| "capability_to_status (SubjectQuarantined _) = status PermissionDenied ''capability''"
| "capability_to_status (CapabilityBackend _) = status InternalError ''capability''"
| "capability_to_status (CapabilityCrypto _) = status InternalError ''capability''"
| "capability_to_status (SignerFailed _) = status InternalError ''capability''"
| "capability_to_status (CapabilityCore c) = core_to_status c"

fun registry_to_status :: "RegistryError \<Rightarrow> Status" where
  "registry_to_status TopologyInconsistent = status InternalError ''registry''"
| "registry_to_status (AdmissionDenied _) = status PermissionDenied ''registry''"
| "registry_to_status (SybilCheckFailed _) = status FailedPrecondition ''registry''"
| "registry_to_status (SwarmMismatch _ _) = status FailedPrecondition ''registry''"
| "registry_to_status TopologyImmutable = status FailedPrecondition ''registry''"
| "registry_to_status (AttestationDenied _ _) = status PermissionDenied ''registry''"
| "registry_to_status (AttestationUnavailable _ _) = status Unavailable ''registry''"
| "registry_to_status (RegistryPassport p) = passport_to_status p"
| "registry_to_status (RegistryReceipt r) = receipt_to_status r"
| "registry_to_status (RegistryCore c) = core_to_status c"
| "registry_to_status (RegistryBackend _) = status InternalError ''registry''"

section \<open>The authorization header\<close>

datatype BearerVariant = AgentBearer | OperatorBearer

definition strip_prefix :: "string \<Rightarrow> string \<Rightarrow> string option" where
  "strip_prefix pre s = (if take (length pre) s = pre then Some (drop (length pre) s) else None)"

text \<open>Header values are visible ASCII, in which the white space that \<open>trim\<close> removes is blank and tab.\<close>

definition is_blank :: "char \<Rightarrow> bool" where
  "is_blank c = (c = CHR '' '' \<or> c = CHR 0x09)"

definition trim :: "string \<Rightarrow> string" where
  "trim s = rev (dropWhile is_blank (rev (dropWhile is_blank s)))"

definition is_visible_ascii :: "string \<Rightarrow> bool" where
  "is_visible_ascii s =
     list_all (\<lambda>c. (32 \<le> (of_char c :: nat) \<and> (of_char c :: nat) < 127) \<or> c = CHR 0x09) s"

definition parse_bearer_header :: "string \<Rightarrow> Status + BearerVariant \<times> string" where
  "parse_bearer_header header =
     rbind (ok_or (case strip_prefix ''bearer '' header of
                     Some r \<Rightarrow> Some r | None \<Rightarrow> strip_prefix ''Bearer '' header)
              (status Unauthenticated ''authorization must start with bearer'')) (\<lambda>r.
       let rest = trim r in
       case strip_prefix ''agent '' rest of
         Some hex \<Rightarrow> Inr (AgentBearer, trim hex)
       | None \<Rightarrow>
           (case strip_prefix ''operator '' rest of
              Some hex \<Rightarrow> Inr (OperatorBearer, trim hex)
            | None \<Rightarrow> Inl (status Unauthenticated ''authorization must specify variant'')))"

section \<open>Tokens\<close>

record proto_AgentBearerToken =
  abt_agent_id :: "proto_AgentId option"
  abt_swarm_id :: "proto_SwarmId option"
  abt_issued_at :: "proto_Timestamp option"
  abt_expires_at :: "proto_Timestamp option"
  abt_nonce :: bytes
  abt_extensions :: "bytes option"
  abt_signature :: "proto_Signature option"

record proto_OperatorBearerToken =
  obt_operator_id :: string
  obt_swarm_id :: "proto_SwarmId option"
  obt_issued_at :: "proto_Timestamp option"
  obt_expires_at :: "proto_Timestamp option"
  obt_nonce :: bytes
  obt_extensions :: "bytes option"
  obt_signature :: "proto_Signature option"

record auth_ctx =
  ax_ext :: externals
  ax_hex_decode :: "string \<Rightarrow> bytes option"
  ax_decode_agent :: "bytes \<Rightarrow> proto_AgentBearerToken option"
  ax_encode_agent :: "proto_AgentBearerToken \<Rightarrow> bytes"
  ax_decode_operator :: "bytes \<Rightarrow> proto_OperatorBearerToken option"
  ax_encode_operator :: "proto_OperatorBearerToken \<Rightarrow> bytes"

record AuthContext =
  auth_agent_id :: AgentId
  auth_swarm_id :: SwarmId
  auth_expires_at :: Timestamp

record OperatorAuthContext =
  op_operator_id :: string
  op_swarm_id :: SwarmId
  op_expires_at :: Timestamp

definition unauth :: "string \<Rightarrow> Status" where
  "unauth m = status Unauthenticated m"

text \<open>Reading the header of a request: present, visible ASCII, well formed, of the given variant.\<close>

definition bearer_body :: "BearerVariant \<Rightarrow> string option \<Rightarrow> Status + string" where
  "bearer_body expected authorization =
     rbind (ok_or authorization (unauth ''missing authorization metadata'')) (\<lambda>h.
       if \<not> is_visible_ascii h then Inl (unauth ''authorization metadata is not valid ASCII'')
       else rbind (parse_bearer_header h) (\<lambda>(variant, hex).
         if variant \<noteq> expected then Inl (unauth ''this RPC requires the other bearer variant'')
         else Inr hex))"

definition token_expired :: "externals \<Rightarrow> Timestamp \<Rightarrow> Timestamp \<Rightarrow> bool" where
  "token_expired x now exp =
     (wall_at_or_after x now exp \<or> parsed_wall_clock x now = None \<or> parsed_wall_clock x exp = None)"

definition agent_token_bytes :: "auth_ctx \<Rightarrow> proto_AgentBearerToken \<Rightarrow> bytes" where
  "agent_token_bytes ax token = ax_encode_agent ax (token\<lparr>abt_signature := None, abt_extensions := None\<rparr>)"

definition operator_token_bytes :: "auth_ctx \<Rightarrow> proto_OperatorBearerToken \<Rightarrow> bytes" where
  "operator_token_bytes ax token = ax_encode_operator ax (token\<lparr>obt_signature := None, obt_extensions := None\<rparr>)"

definition require_bearer_auth ::
    "auth_ctx \<Rightarrow> Timestamp \<Rightarrow> string option \<Rightarrow> PassportResolver \<Rightarrow> SwarmId \<Rightarrow> Status + AuthContext" where
  "require_bearer_auth ax now authorization resolver expected_swarm =
     rbind (bearer_body AgentBearer authorization) (\<lambda>hex.
     rbind (ok_or (ax_hex_decode ax hex) (unauth ''authorization hex decode failed'')) (\<lambda>bs.
     rbind (ok_or (ax_decode_agent ax bs) (unauth ''bearer token decode failed'')) (\<lambda>token.
     rbind (ok_or (abt_agent_id token) (unauth ''bearer token missing agent_id'')) (\<lambda>pa.
     rbind (map_err (\<lambda>_. unauth ''bearer token agent_id invalid'') (agent_try_from pa)) (\<lambda>agent.
     rbind (ok_or (abt_swarm_id token) (unauth ''bearer token missing swarm_id'')) (\<lambda>ps.
     rbind (map_err (\<lambda>_. unauth ''bearer token swarm_id invalid'') (swarm_try_from ps)) (\<lambda>swarm.
     rbind (ok_or (abt_expires_at token) (unauth ''bearer token missing expires_at'')) (\<lambda>pe.
     rbind (map_err (\<lambda>_. unauth ''bearer token expires_at invalid'') (timestamp_try_from (ax_ext ax) pe)) (\<lambda>exp.
     rbind (ok_or (abt_signature token) (unauth ''bearer token missing signature'')) (\<lambda>pg.
     rbind (map_err (\<lambda>_. unauth ''bearer token signature invalid'') (signature_try_from pg)) (\<lambda>sig.
       if swarm \<noteq> expected_swarm
       then Inl (unauth ''bearer token swarm_id does not match this control plane'')
       else if token_expired (ax_ext ax) now exp then Inl (unauth ''bearer token expired'')
       else
         rbind (map_err (\<lambda>_. status InternalError ''passport resolver error'') (resolve_actor resolver agent)) (\<lambda>k.
         rbind (ok_or k (unauth ''agent is not registered'')) (\<lambda>pk.
         rbind (map_err (\<lambda>_. unauth ''bearer token signature verification failed'')
           (verify (ax_ext ax) pk (agent_token_bytes ax token) sig)) (\<lambda>_.
           Inr \<lparr>auth_agent_id = agent, auth_swarm_id = swarm, auth_expires_at = exp\<rparr>))))))))))))))"

definition peek_agent_bearer_agent_id :: "auth_ctx \<Rightarrow> string option \<Rightarrow> AgentId option" where
  "peek_agent_bearer_agent_id ax authorization =
     (case bearer_body AgentBearer authorization of
        Inl _ \<Rightarrow> None
      | Inr hex \<Rightarrow>
          Option.bind (ax_hex_decode ax hex) (\<lambda>bs.
          Option.bind (ax_decode_agent ax bs) (\<lambda>token.
          Option.bind (abt_agent_id token) (\<lambda>pa.
            case agent_try_from pa of Inl _ \<Rightarrow> None | Inr a \<Rightarrow> Some a))))"

definition require_operator_bearer_auth ::
    "auth_ctx \<Rightarrow> Timestamp \<Rightarrow> string option \<Rightarrow> PublicKey option \<Rightarrow> SwarmId
     \<Rightarrow> Status + OperatorAuthContext" where
  "require_operator_bearer_auth ax now authorization operator_key expected_swarm =
     rbind (ok_or operator_key (status FailedPrecondition ''operator credentials not enabled'')) (\<lambda>pk.
     rbind (bearer_body OperatorBearer authorization) (\<lambda>hex.
     rbind (ok_or (ax_hex_decode ax hex) (unauth ''authorization hex decode failed'')) (\<lambda>bs.
     rbind (ok_or (ax_decode_operator ax bs) (unauth ''operator token decode failed'')) (\<lambda>token.
     rbind (ok_or (obt_swarm_id token) (unauth ''operator token missing swarm_id'')) (\<lambda>ps.
     rbind (map_err (\<lambda>_. unauth ''operator token swarm_id invalid'') (swarm_try_from ps)) (\<lambda>swarm.
     rbind (ok_or (obt_expires_at token) (unauth ''operator token missing expires_at'')) (\<lambda>pe.
     rbind (map_err (\<lambda>_. unauth ''operator token expires_at invalid'') (timestamp_try_from (ax_ext ax) pe)) (\<lambda>exp.
     rbind (ok_or (obt_signature token) (unauth ''operator token missing signature'')) (\<lambda>pg.
     rbind (map_err (\<lambda>_. unauth ''operator token signature invalid'') (signature_try_from pg)) (\<lambda>sig.
       if swarm \<noteq> expected_swarm
       then Inl (unauth ''operator token swarm_id does not match this control plane'')
       else if token_expired (ax_ext ax) now exp then Inl (unauth ''operator token expired'')
       else
         rbind (map_err (\<lambda>_. unauth ''operator token signature verification failed'')
           (verify (ax_ext ax) pk (operator_token_bytes ax token) sig)) (\<lambda>_.
           Inr \<lparr>op_operator_id = obt_operator_id token, op_swarm_id = swarm, op_expires_at = exp\<rparr>)))))))))))"

section \<open>What an accepted token proves\<close>

definition agent_token_valid ::
    "auth_ctx \<Rightarrow> Timestamp \<Rightarrow> string option \<Rightarrow> SwarmId \<Rightarrow> AgentId \<Rightarrow> PublicKey \<Rightarrow> bool" where
  "agent_token_valid ax now authorization swarm agent pk \<longleftrightarrow>
     (\<exists>hex bs token pe exp pg sig.
        bearer_body AgentBearer authorization = Inr hex \<and> ax_hex_decode ax hex = Some bs
        \<and> ax_decode_agent ax bs = Some token
        \<and> abt_agent_id token = Some (proto_of_agent agent)
        \<and> abt_swarm_id token = Some (proto_of_swarm swarm)
        \<and> abt_expires_at token = Some pe \<and> timestamp_try_from (ax_ext ax) pe = Inr exp
        \<and> wall_after (ax_ext ax) exp now
        \<and> abt_signature token = Some pg \<and> signature_try_from pg = Inr sig
        \<and> verify (ax_ext ax) pk (agent_token_bytes ax token) sig = Inr ())"

lemma not_token_expired: "\<not> token_expired x now exp \<longleftrightarrow> wall_after x exp now"
  by (auto simp: token_expired_def wall_at_or_after_def wall_after_def split: option.splits)

lemma require_bearer_auth_Inr:
  assumes "require_bearer_auth ax now authorization resolver swarm = Inr auth"
  shows "\<exists>pk. resolve_actor resolver (auth_agent_id auth) = Inr (Some pk)
    \<and> agent_token_valid ax now authorization swarm (auth_agent_id auth) pk
    \<and> auth_swarm_id auth = swarm
    \<and> peek_agent_bearer_agent_id ax authorization = Some (auth_agent_id auth)"
proof -
  from assms obtain hex bs token pa agent ps sw pe exp pg sig k pk where
    parts: "bearer_body AgentBearer authorization = Inr hex" "ax_hex_decode ax hex = Some bs"
    "ax_decode_agent ax bs = Some token" "abt_agent_id token = Some pa" "agent_try_from pa = Inr agent"
    "abt_swarm_id token = Some ps" "swarm_try_from ps = Inr sw"
    "abt_expires_at token = Some pe" "timestamp_try_from (ax_ext ax) pe = Inr exp"
    "abt_signature token = Some pg" "signature_try_from pg = Inr sig"
    and sw: "sw = swarm" and fresh: "\<not> token_expired (ax_ext ax) now exp"
    and res: "resolve_actor resolver agent = Inr k" "k = Some pk"
    and ver: "verify (ax_ext ax) pk (agent_token_bytes ax token) sig = Inr ()"
    and auth: "auth = \<lparr>auth_agent_id = agent, auth_swarm_id = sw, auth_expires_at = exp\<rparr>"
    unfolding require_bearer_auth_def rbind_eq_Inr map_err_eq_Inr ok_or_eq_Inr
    by (auto simp: rbind_eq_Inr split: if_splits)
  have "pa = proto_of_agent agent" "ps = proto_of_swarm sw"
    using parts(5,7) agent_codec.decode_iff swarm_codec.decode_iff by auto
  moreover have "peek_agent_bearer_agent_id ax authorization = Some agent"
    using parts by (simp add: peek_agent_bearer_agent_id_def)
  ultimately show ?thesis
    using parts res ver sw fresh unfolding agent_token_valid_def auth not_token_expired by auto
qed

lemma require_operator_bearer_auth_Inr:
  assumes "require_operator_bearer_auth ax now authorization key swarm = Inr auth"
  shows "\<exists>pk token sig. key = Some pk
    \<and> verify (ax_ext ax) pk (operator_token_bytes ax token) sig = Inr ()
    \<and> op_operator_id auth = obt_operator_id token \<and> op_swarm_id auth = swarm
    \<and> wall_after (ax_ext ax) (op_expires_at auth) now"
  using assms unfolding require_operator_bearer_auth_def rbind_eq_Inr map_err_eq_Inr ok_or_eq_Inr
  by (auto simp: rbind_eq_Inr not_token_expired split: if_splits)

end
