(* ===== verification/Capability_Store.thy ===== *)
theory Capability_Store
  imports Capability Passport
begin

text \<open>
  The in-memory capability store (\<open>crates/yutha-capability/src/memory.rs\<close>) and the capability
  requests of the control plane (\<open>crates/yutha-control-plane/src/grpc/capability.rs\<close>). The store
  keeps capabilities and revocations by content-address and records every decision as a receipt
  signed by the control plane. The state is the record \<open>CapabilityStore\<close>, which includes the
  receipt store; the collaborators that do not change (the resolver, the signer, the quarantine
  source) are the record \<open>cap_deps\<close>; clock readings and fresh identifiers are the record
  \<open>cap_inputs\<close>. The chain depth is a number: with a limit below \<open>u32::MAX\<close> the counter of the code
  cannot wrap.
\<close>

section \<open>State\<close>

record CapabilityStore =
  cs_by_id :: "(Hash, Capability) hash_map"
  cs_revoked :: "(Hash, string) hash_map"
  cs_max_depth :: u32
  cs_receipts :: MemoryStore

record cap_deps =
  cd_receipt_ctx :: receipt_ctx
  cd_capability_ctx :: capability_ctx
  cd_resolver :: PassportResolver
  cd_control_plane :: ControlPlaneIdentity
  cd_quarantined :: "AgentId \<Rightarrow> bool"

record cap_inputs =
  in_now :: Timestamp
  in_occurred_at :: Timestamp
  in_signed_at :: Timestamp
  in_fresh_swarm :: SwarmId
  in_fresh_id :: AgentId

definition DEFAULT_MAX_CHAIN_DEPTH :: u32 where
  "DEFAULT_MAX_CHAIN_DEPTH = 8"

definition with_max_depth :: "u32 \<Rightarrow> MemoryStore \<Rightarrow> CapabilityStore" where
  "with_max_depth d ms = \<lparr>cs_by_id = [], cs_revoked = [], cs_max_depth = d, cs_receipts = ms\<rparr>"

definition capability_store_new :: "MemoryStore \<Rightarrow> CapabilityStore" where
  "capability_store_new ms = with_max_depth DEFAULT_MAX_CHAIN_DEPTH ms"

record IssuanceOutcome =
  io_capability_id :: Hash
  io_issuance_receipt :: Hash

record CheckEvaluation =
  ce_outcome :: CheckOutcome
  ce_check_receipt :: Hash

section \<open>Receipts of the store\<close>

text \<open>
  \<open>record_event\<close> builds a receipt whose actor is the control plane, signs its canonical bytes
  and appends it.
\<close>

definition event_receipt ::
    "cap_deps \<Rightarrow> cap_inputs \<Rightarrow> string \<Rightarrow> SwarmId \<Rightarrow> Evidence list \<Rightarrow> CapabilityError + Receipt" where
  "event_receipt dp io action_kind swarm evidence =
     (if evidence = []
      then Inl (CapabilityBackend ''capability receipts require at least one evidence entry'')
      else
        rbind (map_err (\<lambda>_. CapabilityBackend ''spec version'') (spec_version_parse ''1.0.0'')) (\<lambda>v.
        rbind (map_err (\<lambda>_. CapabilityBackend ''build receipt'')
          (receipt_build (receipt_builder_new
             \<lparr>rb_spec_version := Some v, rb_swarm_id := Some swarm,
              rb_actor := Some (cp_agent_id (cd_control_plane dp)),
              rb_action_kind := Some action_kind, rb_constitution_version := Some [],
              rb_occurred_at := Some (in_occurred_at io), rb_evidence := evidence\<rparr>))) (\<lambda>r.
        rbind (map_err SignerFailed
          (cp_sign (cd_control_plane dp) (canonical_bytes (cd_receipt_ctx dp) r))) (\<lambda>sig.
          Inr (r\<lparr>r_signatures := r_signatures r @
                   [\<lparr>sb_role = Actor, sb_signature = sig, sb_signed_at = in_signed_at io\<rparr>]\<rparr>)))))"

definition record_event ::
    "cap_deps \<Rightarrow> cap_inputs \<Rightarrow> string \<Rightarrow> SwarmId \<Rightarrow> Evidence list \<Rightarrow> CapabilityStore
     \<Rightarrow> (CapabilityError + Hash) \<times> CapabilityStore" where
  "record_event dp io action_kind swarm evidence cs =
     (case event_receipt dp io action_kind swarm evidence of
        Inl e \<Rightarrow> (Inl e, cs)
      | Inr r \<Rightarrow>
          (let (res, ms) = append_receipt (cd_receipt_ctx dp) (cd_resolver dp) r (cs_receipts cs)
           in (case res of
                 Inl e \<Rightarrow> (Inl (CapabilityBackend ''append''), cs\<lparr>cs_receipts := ms\<rparr>)
               | Inr out \<Rightarrow> (Inr (ao_receipt_id out), cs\<lparr>cs_receipts := ms\<rparr>))))"

definition TYPE_STRING :: string where
  "TYPE_STRING = ''type.yutha.dev/v1/String''"

definition TYPE_HASH :: string where
  "TYPE_HASH = ''type.yutha.dev/v1/Hash''"

definition TYPE_AGENT_ID :: string where
  "TYPE_AGENT_ID = ''type.yutha.dev/v1/AgentId''"

definition check_action_kind :: "CheckOutcome \<Rightarrow> string" where
  "check_action_kind out =
     (if co_permitted out then ''capability.check.pass'' else ''capability.check.deny'')"

definition check_evidence :: "CheckOutcome \<Rightarrow> ActionDescriptor \<Rightarrow> Evidence list" where
  "check_evidence out d =
     [evidence_new ''action_kind_checked'' TYPE_STRING (as_bytes (ad_action_kind d))]
     @ (case co_capability out of
          None \<Rightarrow> [] | Some h \<Rightarrow> [evidence_new ''capability_hash'' TYPE_HASH (digest h)])
     @ (if co_permitted out then []
        else evidence_new ''deny_reason'' TYPE_STRING (as_bytes (co_deny_reason out))
          # map (\<lambda>c. evidence_new ''unmet_caveat'' TYPE_STRING (as_bytes c)) (co_unmet_caveats out))"

definition record_check ::
    "cap_deps \<Rightarrow> cap_inputs \<Rightarrow> CheckOutcome \<Rightarrow> ActionDescriptor \<Rightarrow> SwarmId \<Rightarrow> CapabilityStore
     \<Rightarrow> (CapabilityError + Hash) \<times> CapabilityStore" where
  "record_check dp io out d swarm cs =
     record_event dp io (check_action_kind out) swarm (check_evidence out d) cs"

definition record_issue ::
    "cap_deps \<Rightarrow> cap_inputs \<Rightarrow> Hash \<Rightarrow> Capability \<Rightarrow> CapabilityStore
     \<Rightarrow> (CapabilityError + Hash) \<times> CapabilityStore" where
  "record_issue dp io cap_id c cs =
     record_event dp io ''capability.issue'' (c_swarm_id c)
       [evidence_new ''capability_hash'' TYPE_HASH (digest cap_id),
        evidence_new ''subject'' TYPE_AGENT_ID (agent_as_bytes (c_subject c))] cs"

definition record_attenuate ::
    "cap_deps \<Rightarrow> cap_inputs \<Rightarrow> Hash \<Rightarrow> Hash \<Rightarrow> Capability \<Rightarrow> CapabilityStore
     \<Rightarrow> (CapabilityError + Hash) \<times> CapabilityStore" where
  "record_attenuate dp io child_id parent_id child cs =
     record_event dp io ''capability.attenuate'' (c_swarm_id child)
       [evidence_new ''child_capability_hash'' TYPE_HASH (digest child_id),
        evidence_new ''parent_capability_hash'' TYPE_HASH (digest parent_id),
        evidence_new ''subject'' TYPE_AGENT_ID (agent_as_bytes (c_subject child))] cs"

definition record_revoke ::
    "cap_deps \<Rightarrow> cap_inputs \<Rightarrow> Hash \<Rightarrow> SwarmId \<Rightarrow> string \<Rightarrow> CapabilityStore
     \<Rightarrow> (CapabilityError + Hash) \<times> CapabilityStore" where
  "record_revoke dp io cap_id swarm reason cs =
     record_event dp io ''capability.revoke'' swarm
       [evidence_new ''capability_hash'' TYPE_HASH (digest cap_id),
        evidence_new ''reason'' TYPE_STRING (as_bytes reason)] cs"

section \<open>Operations\<close>

text \<open>The tail shared by \<open>issue\<close> and \<open>attenuate\<close>: the outcome of a recorded issuance.\<close>

definition issuance_outcome ::
    "Hash \<Rightarrow> (CapabilityError + Hash) \<times> CapabilityStore
     \<Rightarrow> (CapabilityError + IssuanceOutcome) \<times> CapabilityStore" where
  "issuance_outcome cap_id res =
     (rbind (fst res) (\<lambda>h. Inr \<lparr>io_capability_id = cap_id, io_issuance_receipt = h\<rparr>), snd res)"

definition issue ::
    "cap_deps \<Rightarrow> cap_inputs \<Rightarrow> Capability \<Rightarrow> CapabilityStore
     \<Rightarrow> (CapabilityError + IssuanceOutcome) \<times> CapabilityStore" where
  "issue dp io c cs =
     (if cd_quarantined dp (c_subject c) then (Inl (SubjectQuarantined (c_subject c)), cs)
      else
        let cap_id = capability_address (cd_capability_ctx dp) c in
        issuance_outcome cap_id
          (record_issue dp io cap_id c (cs\<lparr>cs_by_id := hm_insert cap_id c (cs_by_id cs)\<rparr>)))"

definition attenuate ::
    "cap_deps \<Rightarrow> cap_inputs \<Rightarrow> Capability \<Rightarrow> CapabilityStore
     \<Rightarrow> (CapabilityError + IssuanceOutcome) \<times> CapabilityStore" where
  "attenuate dp io child cs =
     (if cd_quarantined dp (c_subject child) then (Inl (SubjectQuarantined (c_subject child)), cs)
      else case c_parent child of
        None \<Rightarrow> (Inl (MissingField ''parent''), cs)
      | Some parent_hash \<Rightarrow>
          (case hm_get (cs_by_id cs) parent_hash of
             None \<Rightarrow> (Inl (ParentNotFound parent_hash), cs)
           | Some parent \<Rightarrow>
               if scope_intersect (c_scope parent) (c_scope child) \<noteq> c_scope child
               then (Inl (AttenuationBroadens ''child scope is not a subset of parent''), cs)
               else
                 let cap_id = capability_address (cd_capability_ctx dp) child in
                 issuance_outcome cap_id
                   (record_attenuate dp io cap_id parent_hash child
                      (cs\<lparr>cs_by_id := hm_insert cap_id child (cs_by_id cs)\<rparr>))))"

definition revoke ::
    "cap_deps \<Rightarrow> cap_inputs \<Rightarrow> Hash \<Rightarrow> string \<Rightarrow> CapabilityStore
     \<Rightarrow> (CapabilityError + Hash) \<times> CapabilityStore" where
  "revoke dp io cap_id reason cs =
     (case hm_get (cs_by_id cs) cap_id of
        None \<Rightarrow> (Inl (CapabilityBackend ''capability not found''), cs)
      | Some c \<Rightarrow>
          record_revoke dp io cap_id (c_swarm_id c) reason
            (cs\<lparr>cs_revoked := hm_insert cap_id reason (cs_revoked cs)\<rparr>))"

definition lookup_capability :: "CapabilityStore \<Rightarrow> Hash \<Rightarrow> Capability option" where
  "lookup_capability cs cap_id =
     (if hm_get (cs_revoked cs) cap_id \<noteq> None then None else hm_get (cs_by_id cs) cap_id)"

definition list_for_subject :: "CapabilityStore \<Rightarrow> AgentId \<Rightarrow> Hash list" where
  "list_for_subject cs a =
     map fst (filter (\<lambda>(i, c). c_subject c = a \<and> hm_get (cs_revoked cs) i = None) (cs_by_id cs))"

text \<open>
  The chain walk: an error, an early denial with the swarm to record it on, or the whole chain
  from the leaf to its root.
\<close>

function walk_chain ::
    "externals \<Rightarrow> CapabilityStore \<Rightarrow> cap_inputs \<Rightarrow> Hash \<Rightarrow> Hash option \<Rightarrow> nat \<Rightarrow> Capability list
     \<Rightarrow> CapabilityError + ((CheckOutcome \<times> SwarmId) + Capability list)" where
  "walk_chain x cs io cap_id None depth chain = Inr (Inr chain)"
| "walk_chain x cs io cap_id (Some i) depth chain =
     (if depth + 1 > unat (cs_max_depth cs)
      then Inl (ChainTooDeep (depth + 1) (unat (cs_max_depth cs)))
      else if hm_get (cs_revoked cs) i \<noteq> None
      then Inr (Inl (outcome_deny (Some cap_id) ''capability revoked in chain'' [],
             (case chain of
                leaf # _ \<Rightarrow> c_swarm_id leaf
              | [] \<Rightarrow> (case hm_get (cs_by_id cs) i of
                         Some c \<Rightarrow> c_swarm_id c | None \<Rightarrow> in_fresh_swarm io))))
      else case hm_get (cs_by_id cs) i of
        None \<Rightarrow> Inl (CapabilityBackend ''missing chain link'')
      | Some c \<Rightarrow>
          if \<not> is_within_window x c (in_now io)
          then Inr (Inl (outcome_deny (Some cap_id) ''capability outside validity window'' [],
                 (case chain of leaf # _ \<Rightarrow> c_swarm_id leaf | [] \<Rightarrow> c_swarm_id c)))
          else walk_chain x cs io cap_id (c_parent c) (depth + 1) (chain @ [c]))"
  by pat_completeness auto
termination
  by (relation "measure (\<lambda>(x, cs, io, cap_id, cursor, depth, chain). unat (cs_max_depth cs) - depth)")
    auto

fun effective_scope :: "Capability list \<Rightarrow> Scope" where
  "effective_scope [] = scope_empty"
| "effective_scope (root # rest) = foldl (\<lambda>s c. scope_intersect s (c_scope c)) (c_scope root) rest"

definition check_chain ::
    "cap_inputs \<Rightarrow> Hash \<Rightarrow> ActionDescriptor \<Rightarrow> Capability list \<Rightarrow> CheckOutcome \<times> SwarmId" where
  "check_chain io cap_id d chain =
     (let swarm = (case chain of leaf # _ \<Rightarrow> c_swarm_id leaf | [] \<Rightarrow> in_fresh_swarm io);
          from_root = rev chain
      in if \<not> scope_permits (effective_scope from_root) d
         then (outcome_deny (Some cap_id)
                 ''effective scope (after chain intersection) does not permit action'' [], swarm)
         else
           let (matched, unmet) = eval_caveats d (concat (map c_caveats from_root)) ([], []) in
           if unmet \<noteq> [] then (outcome_deny (Some cap_id) ''caveat(s) in chain not met'' unmet, swarm)
           else (outcome_permit (Some cap_id) matched, swarm))"

definition check_inner ::
    "cap_deps \<Rightarrow> cap_inputs \<Rightarrow> Hash \<Rightarrow> ActionDescriptor \<Rightarrow> CapabilityStore
     \<Rightarrow> CapabilityError + CheckOutcome \<times> SwarmId" where
  "check_inner dp io cap_id d cs =
     (let quarantined_leaf =
            (case hm_get (cs_by_id cs) cap_id of
               Some leaf \<Rightarrow>
                 if hm_get (cs_revoked cs) cap_id = None \<and> cd_quarantined dp (c_subject leaf)
                 then Some (c_swarm_id leaf) else None
             | None \<Rightarrow> None)
      in case quarantined_leaf of
           Some swarm \<Rightarrow> Inr (outcome_deny (Some cap_id) ''subject_quarantined'' [], swarm)
         | None \<Rightarrow>
             rbind (walk_chain (cc_ext (cd_capability_ctx dp)) cs io cap_id (Some cap_id) 0 [])
               (\<lambda>w. case w of
                      Inl early \<Rightarrow> Inr early
                    | Inr chain \<Rightarrow> Inr (check_chain io cap_id d chain)))"

definition check_capability ::
    "cap_deps \<Rightarrow> cap_inputs \<Rightarrow> Hash \<Rightarrow> ActionDescriptor \<Rightarrow> CapabilityStore
     \<Rightarrow> (CapabilityError + CheckEvaluation) \<times> CapabilityStore" where
  "check_capability dp io cap_id d cs =
     (case check_inner dp io cap_id d cs of
        Inl e \<Rightarrow> (Inl e, cs)
      | Inr (out, swarm) \<Rightarrow>
          (let (res, cs') = record_check dp io out d swarm cs
           in (rbind res (\<lambda>h. Inr \<lparr>ce_outcome = out, ce_check_receipt = h\<rparr>), cs')))"

section \<open>What the operations leave alone\<close>

lemma record_event_frame [simp]:
  "cs_by_id (snd (record_event dp io k s ev cs)) = cs_by_id cs"
  "cs_revoked (snd (record_event dp io k s ev cs)) = cs_revoked cs"
  "cs_max_depth (snd (record_event dp io k s ev cs)) = cs_max_depth cs"
  by (auto simp: record_event_def split: sum.splits prod.splits)

lemma record_event_Inr:
  assumes "record_event dp io k s ev cs = (Inr h, cs')"
  obtains r where "event_receipt dp io k s ev = Inr r"
    "h = content_address (cd_receipt_ctx dp) r"
    "cs_receipts cs' = snd (append_receipt (cd_receipt_ctx dp) (cd_resolver dp) r (cs_receipts cs))"
    "get_receipt (cs_receipts cs') h \<noteq> None"
proof -
  from assms obtain r out ms where r: "event_receipt dp io k s ev = Inr r"
    and app: "append_receipt (cd_receipt_ctx dp) (cd_resolver dp) r (cs_receipts cs) = (Inr out, ms)"
    and h: "h = ao_receipt_id out" "cs' = cs\<lparr>cs_receipts := ms\<rparr>"
    by (auto simp: record_event_def split: sum.splits prod.splits)
  from memory_log.append_stored [of "cd_receipt_ctx dp" "cd_resolver dp" r "cs_receipts cs" out] app h
  show ?thesis
    by (intro that [of r]) (auto simp: r)
qed

lemma record_event_Inl:
  assumes "record_event dp io k s ev cs = (Inl e, cs')"
  shows "cs' = cs"
proof (cases "event_receipt dp io k s ev")
  case (Inl e')
  then show ?thesis using assms by (simp add: record_event_def)
next
  case (Inr r)
  let ?a = "append_receipt (cd_receipt_ctx dp) (cd_resolver dp) r (cs_receipts cs)"
  from assms Inr obtain e' where e': "fst ?a = Inl e'" "cs' = cs\<lparr>cs_receipts := snd ?a\<rparr>"
    by (auto simp: record_event_def case_prod_beta Let_def split: sum.splits)
  then show ?thesis
    by (simp add: memory_log.append_error [OF e'(1)])
qed

lemma event_receipt_fields:
  assumes "event_receipt dp io k s ev = Inr r"
  shows "r_action_kind r = k" "r_evidence r = ev" "r_swarm_id r = s"
    "r_actor r = cp_agent_id (cd_control_plane dp)" "r_occurred_at r = in_occurred_at io"
  using assms
  by (auto simp: event_receipt_def receipt_build_def receipt_builder_new_def rbind_eq_Inr split: if_splits)

lemma check_capability_frame [simp]:
  "cs_by_id (snd (check_capability dp io i d cs)) = cs_by_id cs"
  "cs_revoked (snd (check_capability dp io i d cs)) = cs_revoked cs"
  "cs_max_depth (snd (check_capability dp io i d cs)) = cs_max_depth cs"
  by (auto simp: check_capability_def record_check_def split: sum.splits prod.splits)
    (metis record_event_frame snd_conv)+

lemma revoke_frame [simp]:
  "cs_by_id (snd (revoke dp io i reason cs)) = cs_by_id cs"
  "cs_max_depth (snd (revoke dp io i reason cs)) = cs_max_depth cs"
  by (auto simp: revoke_def record_revoke_def split: option.splits)

lemma revoke_revoked:
  "cs_revoked (snd (revoke dp io i reason cs)) =
     (if hm_get (cs_by_id cs) i = None then cs_revoked cs else hm_insert i reason (cs_revoked cs))"
  by (auto simp: revoke_def record_revoke_def split: option.splits)

lemma issue_frame [simp]:
  "cs_revoked (snd (issue dp io c cs)) = cs_revoked cs"
  "cs_max_depth (snd (issue dp io c cs)) = cs_max_depth cs"
  by (auto simp: issue_def record_issue_def issuance_outcome_def Let_def)

lemma issue_by_id:
  "cs_by_id (snd (issue dp io c cs)) =
     (if cd_quarantined dp (c_subject c) then cs_by_id cs
      else hm_insert (capability_address (cd_capability_ctx dp) c) c (cs_by_id cs))"
  by (auto simp: issue_def record_issue_def issuance_outcome_def Let_def)

lemma attenuate_frame [simp]:
  "cs_revoked (snd (attenuate dp io c cs)) = cs_revoked cs"
  "cs_max_depth (snd (attenuate dp io c cs)) = cs_max_depth cs"
  by (auto simp: attenuate_def record_attenuate_def issuance_outcome_def Let_def split: option.splits)

text \<open>When \<open>attenuate\<close> gets past its guards, and what it then stores.\<close>

definition attenuation_accepted :: "cap_deps \<Rightarrow> Capability \<Rightarrow> CapabilityStore \<Rightarrow> bool" where
  "attenuation_accepted dp child cs \<longleftrightarrow>
     \<not> cd_quarantined dp (c_subject child) \<and>
     (\<exists>h parent. c_parent child = Some h \<and> hm_get (cs_by_id cs) h = Some parent
        \<and> scope_intersect (c_scope parent) (c_scope child) = c_scope child)"

lemma attenuate_by_id:
  "cs_by_id (snd (attenuate dp io child cs)) =
     (if attenuation_accepted dp child cs
      then hm_insert (capability_address (cd_capability_ctx dp) child) child (cs_by_id cs)
      else cs_by_id cs)"
  by (auto simp: attenuate_def attenuation_accepted_def record_attenuate_def issuance_outcome_def
      Let_def split: option.splits)

lemma attenuate_Inr_accepted: "fst (attenuate dp io child cs) = Inr out \<Longrightarrow> attenuation_accepted dp child cs"
  by (auto simp: attenuate_def attenuation_accepted_def split: option.splits if_splits)

end
