(* ===== verification/Control_Plane.thy ===== *)
theory Control_Plane
  imports Auth Capability_Store
begin

text \<open>
  The admission and capability services of the control plane
  (\<open>crates/yutha-control-plane/src/grpc/mod.rs\<close>, \<open>admission.rs\<close>, \<open>capability.rs\<close>, \<open>auth.rs\<close>). The
  state shared by the handlers is \<open>ControlPlaneState\<close>: the passports, the capability store with the
  receipt store inside it, and the agents revoked in this process. A handler takes a request with
  its \<open>authorization\<close> header and returns a response or a status, with the state after it. The
  wake-up of open subscriptions on revocation is not part of this state.
\<close>

section \<open>State\<close>

record ControlPlaneState =
  st_passports :: MemoryPassportStore
  st_capabilities :: CapabilityStore
  st_revoked_agents :: "AgentId set"

record cp_deps =
  cpd_auth :: auth_ctx
  cpd_registry :: reg_deps
  cpd_capability_ctx :: capability_ctx
  cpd_operator_public_key :: "PublicKey option"
  cpd_quarantined :: "AgentId \<Rightarrow> bool"

definition registry_of :: "ControlPlaneState \<Rightarrow> RegistryState" where
  "registry_of st = \<lparr>rg_passports = st_passports st, rg_receipts = cs_receipts (st_capabilities st)\<rparr>"

definition set_registry :: "RegistryState \<Rightarrow> ControlPlaneState \<Rightarrow> ControlPlaneState" where
  "set_registry rg st =
     st\<lparr>st_passports := rg_passports rg,
        st_capabilities := (st_capabilities st)\<lparr>cs_receipts := rg_receipts rg\<rparr>\<rparr>"

definition cap_deps_of :: "cp_deps \<Rightarrow> ControlPlaneState \<Rightarrow> cap_deps" where
  "cap_deps_of dp st =
     \<lparr>cd_receipt_ctx = rgd_receipt_ctx (cpd_registry dp), cd_capability_ctx = cpd_capability_ctx dp,
      cd_resolver = resolver_adapter (st_passports st),
      cd_control_plane = rgd_control_plane (cpd_registry dp), cd_quarantined = cpd_quarantined dp\<rparr>"

definition is_revoked :: "ControlPlaneState \<Rightarrow> AgentId \<Rightarrow> bool" where
  "is_revoked st a = (a \<in> st_revoked_agents st)"

definition mark_revoked :: "AgentId \<Rightarrow> ControlPlaneState \<Rightarrow> ControlPlaneState" where
  "mark_revoked a st = st\<lparr>st_revoked_agents := insert a (st_revoked_agents st)\<rparr>"

definition require_active_bearer_auth ::
    "cp_deps \<Rightarrow> Timestamp \<Rightarrow> string option \<Rightarrow> ControlPlaneState \<Rightarrow> Status + AuthContext" where
  "require_active_bearer_auth dp now authorization st =
     (if (case peek_agent_bearer_agent_id (cpd_auth dp) authorization of
            Some claimed \<Rightarrow> is_revoked st claimed | None \<Rightarrow> False)
      then Inl (unauth ''agent revoked'')
      else
        rbind (require_bearer_auth (cpd_auth dp) now authorization
                 (resolver_adapter (st_passports st)) (top_swarm_id (rgd_topology (cpd_registry dp))))
          (\<lambda>auth. if is_revoked st (auth_agent_id auth) then Inl (unauth ''agent revoked'')
                  else Inr auth))"

section \<open>Admission service\<close>

definition handle_register ::
    "cp_deps \<Rightarrow> event_clock \<Rightarrow> proto_Passport option \<Rightarrow> bytes \<Rightarrow> ControlPlaneState
     \<Rightarrow> (Status + RegistrationOutcome) \<times> ControlPlaneState" where
  "handle_register dp ck passport credential st =
     (case rbind (ok_or passport (missing_field ''passport'')) (\<lambda>pp.
             map_err passport_to_status (passport_try_from (ax_ext (cpd_auth dp)) pp)) of
        Inl s \<Rightarrow> (Inl s, st)
      | Inr p \<Rightarrow>
          let (res, rg) = registry_register (cpd_registry dp) ck p credential (registry_of st)
          in (map_err registry_to_status res, set_registry rg st))"

text \<open>An authenticated request: the caller from the header, then the body of the handler.\<close>

definition with_auth ::
    "cp_deps \<Rightarrow> Timestamp \<Rightarrow> string option \<Rightarrow> ControlPlaneState
     \<Rightarrow> (AuthContext \<Rightarrow> (Status + 'a) \<times> ControlPlaneState) \<Rightarrow> (Status + 'a) \<times> ControlPlaneState" where
  "with_auth dp now authorization st body =
     (case require_active_bearer_auth dp now authorization st of
        Inl s \<Rightarrow> (Inl s, st) | Inr auth \<Rightarrow> body auth)"

text \<open>Decoding a required identifier of a request.\<close>

definition required :: "string \<Rightarrow> ('p \<Rightarrow> CoreError + 'a) \<Rightarrow> 'p option \<Rightarrow> Status + 'a" where
  "required name dec p = rbind (ok_or p (missing_field name)) (\<lambda>v. map_err core_to_status (dec v))"

definition handle_revoke ::
    "cp_deps \<Rightarrow> Timestamp \<Rightarrow> event_clock \<Rightarrow> string option \<Rightarrow> proto_AgentId option \<Rightarrow> string \<Rightarrow> ControlPlaneState
     \<Rightarrow> (Status + Hash) \<times> ControlPlaneState" where
  "handle_revoke dp now ck authorization agent_id reason st =
     with_auth dp now authorization st (\<lambda>auth.
       case required ''agent_id'' agent_try_from agent_id of
         Inl s \<Rightarrow> (Inl s, st)
       | Inr target \<Rightarrow>
           if auth_agent_id auth \<noteq> target
           then (Inl (status PermissionDenied ''cross-agent revoke uses OperatorRevoke''), st)
           else
             let (res, rg) = registry_revoke (cpd_registry dp) ck target reason (registry_of st);
                 st' = set_registry rg st
             in (case res of
                   Inl e \<Rightarrow> (Inl (registry_to_status e), st')
                 | Inr h \<Rightarrow> (Inr h, mark_revoked target st')))"

fun cascade_revoke ::
    "cap_deps \<Rightarrow> (nat \<Rightarrow> cap_inputs) \<Rightarrow> nat \<Rightarrow> string \<Rightarrow> Hash list \<Rightarrow> Hash list \<Rightarrow> CapabilityStore
     \<Rightarrow> (CapabilityError + Hash list) \<times> CapabilityStore" where
  "cascade_revoke dp io n reason [] out cs = (Inr out, cs)"
| "cascade_revoke dp io n reason (i # is) out cs =
     (case revoke dp (io n) i reason cs of
        (Inl e, cs') \<Rightarrow> (Inl e, cs')
      | (Inr h, cs') \<Rightarrow> cascade_revoke dp io (n + 1) reason is (out @ [h]) cs')"

definition uuid_to_string :: "AgentId \<Rightarrow> string" where
  "uuid_to_string a =
     (let h = hex_encode (agent_as_bytes a)
      in take 8 h @ ''-'' @ take 4 (drop 8 h) @ ''-'' @ take 4 (drop 12 h) @ ''-''
         @ take 4 (drop 16 h) @ ''-'' @ drop 20 h)"

definition cascade_reason :: "AgentId \<Rightarrow> string" where
  "cascade_reason target = ''cascade from operator-revoke of '' @ uuid_to_string target"

record OperatorRevokeResponse =
  orr_revocation_receipt :: Hash
  orr_cascade_receipts :: "Hash list"

definition handle_operator_revoke ::
    "cp_deps \<Rightarrow> Timestamp \<Rightarrow> event_clock \<Rightarrow> (nat \<Rightarrow> cap_inputs) \<Rightarrow> string option \<Rightarrow> proto_AgentId option
     \<Rightarrow> string \<Rightarrow> bool \<Rightarrow> ControlPlaneState \<Rightarrow> (Status + OperatorRevokeResponse) \<times> ControlPlaneState" where
  "handle_operator_revoke dp now ck io authorization target_proto reason cascade_capabilities st =
     (case require_operator_bearer_auth (cpd_auth dp) now authorization (cpd_operator_public_key dp)
             (top_swarm_id (rgd_topology (cpd_registry dp))) of
        Inl s \<Rightarrow> (Inl s, st)
      | Inr op_auth \<Rightarrow>
          (case required ''target'' agent_try_from target_proto of
             Inl s \<Rightarrow> (Inl s, st)
           | Inr target \<Rightarrow>
               let (res, rg) = registry_operator_revoke (cpd_registry dp) ck target
                                 (op_operator_id op_auth) reason (registry_of st);
                   st1 = set_registry rg st
               in (case res of
                     Inl e \<Rightarrow> (Inl (registry_to_status e), st1)
                   | Inr receipt_id \<Rightarrow>
                       let (cres, cs) =
                             (if cascade_capabilities
                              then cascade_revoke (cap_deps_of dp st1) io 0
                                     (cascade_reason target)
                                     (list_for_subject (st_capabilities st1) target) [] (st_capabilities st1)
                              else (Inr [], st_capabilities st1));
                           st2 = st1\<lparr>st_capabilities := cs\<rparr>
                       in (case cres of
                             Inl e \<Rightarrow> (Inl (capability_to_status e), st2)
                           | Inr hs \<Rightarrow>
                               (Inr \<lparr>orr_revocation_receipt = receipt_id, orr_cascade_receipts = hs\<rparr>,
                                mark_revoked target st2)))))"

definition handle_rotate_key ::
    "cp_deps \<Rightarrow> Timestamp \<Rightarrow> string option \<Rightarrow> ControlPlaneState \<Rightarrow> (Status + unit) \<times> ControlPlaneState" where
  "handle_rotate_key dp now authorization st =
     with_auth dp now authorization st (\<lambda>auth. (Inl (status Unimplemented ''rotate_key''), st))"

definition handle_get_topology ::
    "cp_deps \<Rightarrow> Timestamp \<Rightarrow> string option \<Rightarrow> ControlPlaneState \<Rightarrow> (Status + Topology) \<times> ControlPlaneState" where
  "handle_get_topology dp now authorization st =
     with_auth dp now authorization st (\<lambda>auth. (Inr (rgd_topology (cpd_registry dp)), st))"

section \<open>Capability service\<close>

definition sign_with_cp :: "cp_deps \<Rightarrow> Capability \<Rightarrow> Status + Capability" where
  "sign_with_cp dp cap =
     (if c_issuer_signature cap \<noteq> None then Inr cap
      else
        rbind (map_err (\<lambda>_. status InternalError ''signer'')
          (cp_sign (rgd_control_plane (cpd_registry dp)) (capability_bytes (cpd_capability_ctx dp) cap)))
          (\<lambda>sig. Inr (cap\<lparr>c_issuer_signature := Some sig\<rparr>)))"

text \<open>Running an operation of the capability store on the shared state.\<close>

definition run_capability ::
    "(CapabilityStore \<Rightarrow> (CapabilityError + 'a) \<times> CapabilityStore) \<Rightarrow> ControlPlaneState
     \<Rightarrow> (Status + 'a) \<times> ControlPlaneState" where
  "run_capability f st =
     (let (res, cs) = f (st_capabilities st)
      in (map_err capability_to_status res, st\<lparr>st_capabilities := cs\<rparr>))"

definition handle_issue ::
    "cp_deps \<Rightarrow> Timestamp \<Rightarrow> cap_inputs \<Rightarrow> string option \<Rightarrow> proto_Capability option \<Rightarrow> ControlPlaneState
     \<Rightarrow> (Status + IssuanceOutcome) \<times> ControlPlaneState" where
  "handle_issue dp now io authorization cap_proto st =
     with_auth dp now authorization st (\<lambda>auth.
       case rbind (ok_or cap_proto (missing_field ''capability'')) (\<lambda>p.
            rbind (map_err capability_to_status (capability_try_from (ax_ext (cpd_auth dp)) p)) (\<lambda>cap.
              sign_with_cp dp cap)) of
         Inl s \<Rightarrow> (Inl s, st)
       | Inr cap \<Rightarrow> run_capability (issue (cap_deps_of dp st) io cap) st)"

record AttenuateRequest =
  ar_parent :: "proto_Hash option"
  ar_additional_constraints :: "proto_Scope option"
  ar_additional_caveats :: "proto_Caveat list"
  ar_valid_until :: "proto_Timestamp option"

text \<open>
  The child that \<open>attenuate\<close> builds: the intersected scope, the parent's caveats followed by the
  additional ones, the parent's subject, issuer and swarm, signed by the control plane.
\<close>

definition build_child ::
    "cp_deps \<Rightarrow> cap_inputs \<Rightarrow> Hash \<Rightarrow> Capability \<Rightarrow> Scope \<Rightarrow> Caveat list \<Rightarrow> Timestamp \<Rightarrow> Status + Capability" where
  "build_child dp io parent_hash parent additional_scope additional_caveats valid_until =
     rbind (map_err (\<lambda>_. status InternalError ''build child capability'')
       (capability_build (capability_builder_new
          \<lparr>cb_spec_version := Some (c_spec_version parent),
           cb_capability_id := Some (agent_as_bytes (in_fresh_id io)),
           cb_swarm_id := Some (c_swarm_id parent),
           cb_issuer := Some (c_issuer parent),
           cb_subject := Some (c_subject parent),
           cb_scope := scope_intersect (c_scope parent) additional_scope,
           cb_parent := Some parent_hash,
           cb_valid_from := Some (in_now io),
           cb_valid_until := Some valid_until,
           cb_caveats := c_caveats parent @ additional_caveats\<rparr>)))
       (\<lambda>child. sign_with_cp dp child)"

definition handle_attenuate ::
    "cp_deps \<Rightarrow> Timestamp \<Rightarrow> cap_inputs \<Rightarrow> string option \<Rightarrow> AttenuateRequest option \<Rightarrow> ControlPlaneState
     \<Rightarrow> (Status + Capability \<times> Hash) \<times> ControlPlaneState" where
  "handle_attenuate dp now io authorization request st =
     with_auth dp now authorization st (\<lambda>auth.
       case rbind (ok_or request (missing_field ''request'')) (\<lambda>inner.
            rbind (required ''parent'' hash_try_from (ar_parent inner)) (\<lambda>parent_hash.
            rbind (map_err capability_to_status
              (collect_results (map caveat_try_from (ar_additional_caveats inner)))) (\<lambda>caveats.
            rbind (required ''valid_until'' (timestamp_try_from (ax_ext (cpd_auth dp))) (ar_valid_until inner)) (\<lambda>until.
            rbind (ok_or (lookup_capability (st_capabilities st) parent_hash)
              (status NotFound ''parent capability not found'')) (\<lambda>parent.
              if monotonic_ns until > monotonic_ns (c_valid_until parent)
              then Inl (status FailedPrecondition ''attenuated valid_until exceeds that of the parent'')
              else build_child dp io parent_hash parent
                     (case ar_additional_constraints inner of None \<Rightarrow> scope_empty | Some s \<Rightarrow> scope_from s)
                     caveats until))))) of
         Inl s \<Rightarrow> (Inl s, st)
       | Inr child \<Rightarrow>
           let (res, st') = run_capability (attenuate (cap_deps_of dp st) io child) st
           in (rbind res (\<lambda>out. Inr (child, io_issuance_receipt out)), st'))"

definition handle_revoke_capability ::
    "cp_deps \<Rightarrow> Timestamp \<Rightarrow> cap_inputs \<Rightarrow> string option \<Rightarrow> (proto_Hash option \<times> string) option \<Rightarrow> ControlPlaneState
     \<Rightarrow> (Status + Hash) \<times> ControlPlaneState" where
  "handle_revoke_capability dp now io authorization request st =
     with_auth dp now authorization st (\<lambda>auth.
       case rbind (ok_or request (missing_field ''request'')) (\<lambda>inner.
            rbind (required ''capability'' hash_try_from (fst inner)) (\<lambda>cap_id. Inr (cap_id, snd inner))) of
         Inl s \<Rightarrow> (Inl s, st)
       | Inr (cap_id, reason) \<Rightarrow> run_capability (revoke (cap_deps_of dp st) io cap_id reason) st)"

definition handle_check ::
    "cp_deps \<Rightarrow> Timestamp \<Rightarrow> cap_inputs \<Rightarrow> string option
     \<Rightarrow> (proto_Capability option \<times> proto_ActionDescriptor option) option \<Rightarrow> ControlPlaneState
     \<Rightarrow> (Status + proto_CheckResponse) \<times> ControlPlaneState" where
  "handle_check dp now io authorization request st =
     with_auth dp now authorization st (\<lambda>auth.
       case rbind (ok_or request (missing_field ''request'')) (\<lambda>inner.
            rbind (ok_or (fst inner) (missing_field ''capability'')) (\<lambda>cap_proto.
            rbind (ok_or (snd inner) (missing_field ''action'')) (\<lambda>action_proto.
            rbind (map_err capability_to_status (capability_try_from (ax_ext (cpd_auth dp)) cap_proto)) (\<lambda>cap.
              Inr (cap, action_descriptor_from action_proto))))) of
         Inl s \<Rightarrow> (Inl s, st)
       | Inr (cap, descriptor) \<Rightarrow>
           let (res, st') = run_capability
                 (check_capability (cap_deps_of dp st) io
                    (capability_address (cpd_capability_ctx dp) cap) descriptor) st
           in (rbind res (\<lambda>ev. Inr (to_proto_with_receipt (ce_outcome ev) (Some (ce_check_receipt ev)))), st'))"

section \<open>Facts about the handlers\<close>

lemma set_registry_simps [simp]:
  "st_passports (set_registry rg st) = rg_passports rg"
  "cs_receipts (st_capabilities (set_registry rg st)) = rg_receipts rg"
  "cs_by_id (st_capabilities (set_registry rg st)) = cs_by_id (st_capabilities st)"
  "cs_revoked (st_capabilities (set_registry rg st)) = cs_revoked (st_capabilities st)"
  "cs_max_depth (st_capabilities (set_registry rg st)) = cs_max_depth (st_capabilities st)"
  "st_revoked_agents (set_registry rg st) = st_revoked_agents st"
  by (simp_all add: set_registry_def)

lemma mark_revoked_simps [simp]:
  "st_passports (mark_revoked a st) = st_passports st"
  "st_capabilities (mark_revoked a st) = st_capabilities st"
  "st_revoked_agents (mark_revoked a st) = insert a (st_revoked_agents st)"
  by (simp_all add: mark_revoked_def)

lemma registry_of_simps [simp]:
  "rg_passports (registry_of st) = st_passports st"
  "rg_receipts (registry_of st) = cs_receipts (st_capabilities st)"
  by (simp_all add: registry_of_def)

lemma cap_deps_of_simps [simp]:
  "cd_capability_ctx (cap_deps_of dp st) = cpd_capability_ctx dp"
  "cd_receipt_ctx (cap_deps_of dp st) = rgd_receipt_ctx (cpd_registry dp)"
  "cd_quarantined (cap_deps_of dp st) = cpd_quarantined dp"
  "cd_resolver (cap_deps_of dp st) = resolver_adapter (st_passports st)"
  by (simp_all add: cap_deps_of_def)

lemma require_active_Inr:
  assumes "require_active_bearer_auth dp now h st = Inr auth"
  shows "auth_agent_id auth \<notin> st_revoked_agents st"
    and "\<exists>p. hm_get (ps_live (st_passports st)) (auth_agent_id auth) = Some p
      \<and> agent_token_valid (cpd_auth dp) now h (top_swarm_id (rgd_topology (cpd_registry dp)))
          (auth_agent_id auth) (pp_agent_public_key p)"
proof -
  have auth: "require_bearer_auth (cpd_auth dp) now h (resolver_adapter (st_passports st))
      (top_swarm_id (rgd_topology (cpd_registry dp))) = Inr auth"
    and nr: "\<not> is_revoked st (auth_agent_id auth)"
    using assms by (auto simp: require_active_bearer_auth_def rbind_eq_Inr split: if_splits)
  show "auth_agent_id auth \<notin> st_revoked_agents st"
    using nr by (simp add: is_revoked_def)
  show "\<exists>p. hm_get (ps_live (st_passports st)) (auth_agent_id auth) = Some p
      \<and> agent_token_valid (cpd_auth dp) now h (top_swarm_id (rgd_topology (cpd_registry dp)))
          (auth_agent_id auth) (pp_agent_public_key p)"
    using require_bearer_auth_Inr [OF auth] by auto
qed

lemma with_auth_Inr:
  "with_auth dp now h st body = (Inr r, st') \<longleftrightarrow>
     (\<exists>auth. require_active_bearer_auth dp now h st = Inr auth \<and> body auth = (Inr r, st'))"
  by (auto simp: with_auth_def split: sum.splits)

lemma run_capability_Inr:
  "run_capability f st = (Inr r, st') \<longleftrightarrow>
     (\<exists>cs. f (st_capabilities st) = (Inr r, cs) \<and> st' = st\<lparr>st_capabilities := cs\<rparr>)"
  by (auto simp: run_capability_def case_prod_beta Let_def prod_eq_iff)

lemma run_capability_frame [simp]:
  "st_passports (snd (run_capability f st)) = st_passports st"
  "st_revoked_agents (snd (run_capability f st)) = st_revoked_agents st"
  "st_capabilities (snd (run_capability f st)) = snd (f (st_capabilities st))"
  by (simp_all add: run_capability_def case_prod_beta Let_def)

lemma cascade_revoke_frame:
  "cs_by_id (snd (cascade_revoke dp io n reason is out cs)) = cs_by_id cs"
  by (induction dp io n reason "is" out cs rule: cascade_revoke.induct)
    (auto split: prod.splits sum.splits, (metis revoke_frame(1) snd_conv)+)

lemma cascade_revoke_keeps:
  "hm_get (cs_revoked cs) i \<noteq> None \<Longrightarrow>
   hm_get (cs_revoked (snd (cascade_revoke dp io n reason is out cs))) i \<noteq> None"
proof (induction dp io n reason "is" out cs rule: cascade_revoke.induct)
  case (2 dp io n reason j js out cs)
  have "hm_get (cs_revoked (snd (revoke dp (io n) j reason cs))) i \<noteq> None"
    using "2.prems" by (auto simp: revoke_revoked)
  then show ?case
    using "2.IH" by (cases "revoke dp (io n) j reason cs"; cases "fst (revoke dp (io n) j reason cs)") auto
qed simp

text \<open>A cascade that completes has revoked every capability in its list.\<close>

lemma cascade_revoke_all:
  "cascade_revoke dp io n reason is out cs = (Inr hs, cs') \<Longrightarrow> i \<in> set is \<Longrightarrow>
   hm_get (cs_revoked cs') i \<noteq> None"
proof (induction dp io n reason "is" out cs rule: cascade_revoke.induct)
  case (2 dp io n reason j js out cs)
  then obtain h cs1 where r: "revoke dp (io n) j reason cs = (Inr h, cs1)"
    and rest: "cascade_revoke dp io (n + 1) reason js (out @ [h]) cs1 = (Inr hs, cs')"
    by (auto split: prod.splits sum.splits)
  show ?case
  proof (cases "i = j")
    case True
    have "hm_get (cs_by_id cs) j \<noteq> None"
      using r by (auto simp: revoke_def split: option.splits)
    then have "hm_get (cs_revoked cs1) j \<noteq> None"
      using revoke_revoked [of dp "io n" j reason cs] r by auto
    then show ?thesis
      using cascade_revoke_keeps rest True by (metis snd_conv)
  next
    case False
    then show ?thesis using "2.IH" r rest "2.prems"(2) by auto
  qed
qed simp

end
