(* ===== verification/Service_Runs.thy ===== *)
theory Service_Runs
  imports Control_Plane
begin

text \<open>
  Executions of the admission and capability services as sequences of handled requests, and what
  every handler keeps. The locale \<open>kept_by_operations\<close> is the contract between the handlers and a
  relation on states: the operations of the registry and of the capability store keep it, hence
  every handler and every execution does. It is interpreted for revocations, for the receipt log
  and for the keys that resolve.
\<close>

section \<open>Executions of the services\<close>

text \<open>
  One request handled by a control plane whose collaborators satisfy \<open>ok\<close>; the collaborators may
  differ between requests, as the quarantine source does.
\<close>

inductive cp_step :: "(cp_deps \<Rightarrow> bool) \<Rightarrow> ControlPlaneState \<Rightarrow> ControlPlaneState \<Rightarrow> bool" for ok where
  cp_register: "ok dp \<Longrightarrow> cp_step ok st (snd (handle_register dp ck p cred st))"
| cp_revoke: "ok dp \<Longrightarrow> cp_step ok st (snd (handle_revoke dp now ck h a reason st))"
| cp_operator_revoke: "ok dp \<Longrightarrow> cp_step ok st (snd (handle_operator_revoke dp now ck io h a reason c st))"
| cp_rotate: "ok dp \<Longrightarrow> cp_step ok st (snd (handle_rotate_key dp now h st))"
| cp_topology: "ok dp \<Longrightarrow> cp_step ok st (snd (handle_get_topology dp now h st))"
| cp_issue: "ok dp \<Longrightarrow> cp_step ok st (snd (handle_issue dp now io1 h cap st))"
| cp_attenuate: "ok dp \<Longrightarrow> cp_step ok st (snd (handle_attenuate dp now io1 h req st))"
| cp_revoke_capability: "ok dp \<Longrightarrow> cp_step ok st (snd (handle_revoke_capability dp now io1 h rq st))"
| cp_check: "ok dp \<Longrightarrow> cp_step ok st (snd (handle_check dp now io1 h ck_rq st))"

inductive cp_run :: "(cp_deps \<Rightarrow> bool) \<Rightarrow> ControlPlaneState \<Rightarrow> ControlPlaneState \<Rightarrow> bool" for ok where
  cp_refl: "cp_run ok st st"
| cp_more: "cp_run ok st st' \<Longrightarrow> cp_step ok st' st'' \<Longrightarrow> cp_run ok st st''"

section \<open>What every handler keeps\<close>

definition with_capabilities :: "CapabilityStore \<Rightarrow> ControlPlaneState \<Rightarrow> ControlPlaneState" where
  "with_capabilities cs st = st\<lparr>st_capabilities := cs\<rparr>"

lemma with_capabilities_simps [simp]:
  "st_passports (with_capabilities cs st) = st_passports st"
  "st_capabilities (with_capabilities cs st) = cs"
  "st_revoked_agents (with_capabilities cs st) = st_revoked_agents st"
  "with_capabilities cs (with_capabilities cs' st) = with_capabilities cs st"
  "with_capabilities (st_capabilities st) st = st"
  "cap_deps_of dp (with_capabilities cs st) = cap_deps_of dp st"
  by (simp_all add: with_capabilities_def cap_deps_of_def)

lemma snd_run_capability: "snd (run_capability f st) = with_capabilities (snd (f (st_capabilities st))) st"
  by (simp add: run_capability_def case_prod_beta Let_def with_capabilities_def)

locale kept_but_registration =
  fixes ok :: "cp_deps \<Rightarrow> bool" and R :: "ControlPlaneState \<Rightarrow> ControlPlaneState \<Rightarrow> bool"
  assumes refl: "R st st"
    and trans: "R st st' \<Longrightarrow> R st' st'' \<Longrightarrow> R st st''"
    and mark: "R st (mark_revoked a st)"
    and agent_revoke: "ok dp \<Longrightarrow>
      R st (set_registry (snd (registry_revoke (cpd_registry dp) ck a reason (registry_of st))) st)"
    and agent_operator_revoke: "ok dp \<Longrightarrow>
      R st (set_registry (snd (registry_operator_revoke (cpd_registry dp) ck a op reason (registry_of st))) st)"
    and cap_issue: "ok dp \<Longrightarrow>
      R st (with_capabilities (snd (issue (cap_deps_of dp st) io c (st_capabilities st))) st)"
    and cap_attenuate: "ok dp \<Longrightarrow>
      R st (with_capabilities (snd (attenuate (cap_deps_of dp st) io c (st_capabilities st))) st)"
    and cap_revoke: "ok dp \<Longrightarrow>
      R st (with_capabilities (snd (revoke (cap_deps_of dp st) io i reason (st_capabilities st))) st)"
    and cap_check: "ok dp \<Longrightarrow>
      R st (with_capabilities (snd (check_capability (cap_deps_of dp st) io i d (st_capabilities st))) st)"
begin

lemma kept_with_auth:
  "(\<And>auth. R st (snd (body auth))) \<Longrightarrow> R st (snd (with_auth dp now h st body))"
  by (simp add: with_auth_def refl split: sum.splits)

lemma kept_cascade:
  "ok dp \<Longrightarrow> R st (with_capabilities
     (snd (cascade_revoke (cap_deps_of dp st) io n reason is out (st_capabilities st))) st)"
proof (induction "is" arbitrary: n out st)
  case Nil
  show ?case by (simp add: refl)
next
  case (Cons i js)
  let ?r = "revoke (cap_deps_of dp st) (io n) i reason (st_capabilities st)"
  have one: "R st (with_capabilities (snd ?r) st)"
    by (rule cap_revoke [OF Cons.prems])
  show ?case
  proof (cases "fst ?r")
    case (Inl e)
    then have "snd (cascade_revoke (cap_deps_of dp st) io n reason (i # js) out (st_capabilities st)) = snd ?r"
      by (auto split: prod.splits)
    then show ?thesis using one by simp
  next
    case (Inr h)
    then have "snd (cascade_revoke (cap_deps_of dp st) io n reason (i # js) out (st_capabilities st)) =
        snd (cascade_revoke (cap_deps_of dp st) io (n + 1) reason js (out @ [h]) (snd ?r))"
      by (auto split: prod.splits)
    then show ?thesis
      using trans [OF one] Cons.IH [OF Cons.prems, of "with_capabilities (snd ?r) st" "n + 1" "out @ [h]"]
      by simp
  qed
qed

lemma kept_operator_revoke:
  assumes "ok dp"
  shows "R st (snd (handle_operator_revoke dp now ck io h a reason c st))"
proof -
  have cascade: "R st1 (st1\<lparr>st_capabilities := snd (cascade_revoke (cap_deps_of dp st1) io 0 m
      (list_for_subject (st_capabilities st1) t) [] (st_capabilities st1))\<rparr>)" for st1 m t
    using kept_cascade [OF assms] by (simp flip: with_capabilities_def)
  note first = agent_operator_revoke [OF assms]
  show ?thesis
    unfolding handle_operator_revoke_def Let_def case_prod_beta
    by (auto split: sum.splits intro: refl first trans [OF first cascade] trans [OF first mark]
        trans [OF trans [OF first cascade] mark])
qed

lemma kept_or_registered:
  "cp_step ok st st' \<Longrightarrow> R st st' \<or> (\<exists>dp ck p cred. ok dp \<and> st' = snd (handle_register dp ck p cred st))"
proof (induction rule: cp_step.induct)
  case (cp_register dp st ck p cred)
  then show ?case by blast
next
  case (cp_revoke dp st now ck h a reason)
  note first = agent_revoke [OF cp_revoke]
  show ?case
    unfolding handle_revoke_def Let_def case_prod_beta
    by (intro disjI1 kept_with_auth) (auto split: sum.splits intro: refl first trans [OF first mark])
next
  case (cp_operator_revoke dp st now ck io h a reason c)
  then show ?case by (intro disjI1 kept_operator_revoke)
next
  case (cp_rotate dp st now h)
  show ?case by (simp add: handle_rotate_key_def kept_with_auth refl)
next
  case (cp_topology dp st now h)
  show ?case by (simp add: handle_get_topology_def kept_with_auth refl)
next
  case (cp_issue dp st now io1 h cap)
  then show ?case
    unfolding handle_issue_def
    by (intro disjI1 kept_with_auth) (auto simp: snd_run_capability split: sum.splits intro: refl cap_issue)
next
  case (cp_attenuate dp st now io1 h req)
  then show ?case
    unfolding handle_attenuate_def Let_def case_prod_beta
    by (intro disjI1 kept_with_auth) (auto simp: snd_run_capability split: sum.splits intro: refl cap_attenuate)
next
  case (cp_revoke_capability dp st now io1 h rq)
  then show ?case
    unfolding handle_revoke_capability_def
    by (intro disjI1 kept_with_auth) (auto simp: snd_run_capability split: sum.splits intro: refl cap_revoke)
next
  case (cp_check dp st now io1 h ck_rq)
  then show ?case
    unfolding handle_check_def Let_def case_prod_beta
    by (intro disjI1 kept_with_auth) (auto simp: snd_run_capability split: sum.splits intro: refl cap_check)
qed

end

locale kept_by_operations = kept_but_registration +
  assumes register: "ok dp \<Longrightarrow>
      R st (set_registry (snd (registry_register (cpd_registry dp) ck p cred (registry_of st))) st)"
begin

lemma kept_register: "ok dp \<Longrightarrow> R st (snd (handle_register dp ck p cred st))"
  by (simp add: handle_register_def case_prod_beta Let_def refl register split: sum.splits)

lemma kept_step: "cp_step ok st st' \<Longrightarrow> R st st'"
  using kept_or_registered kept_register by blast

lemma kept_run: "cp_run ok st st' \<Longrightarrow> R st st'"
  by (induction rule: cp_run.induct) (auto intro: refl trans kept_step)

end

text \<open>Only a registration brings a passport back.\<close>

definition passports_leave :: "ControlPlaneState \<Rightarrow> ControlPlaneState \<Rightarrow> bool" where
  "passports_leave st st' \<longleftrightarrow>
     (\<forall>a. hm_get (ps_live (st_passports st)) a = None \<longrightarrow> hm_get (ps_live (st_passports st')) a = None)"

interpretation departures: kept_but_registration ok passports_leave for ok
  by unfold_locales (auto simp: passports_leave_def store_revoke_def)

text \<open>Revoked agents and revoked capabilities stay revoked.\<close>

definition revoked_grows :: "ControlPlaneState \<Rightarrow> ControlPlaneState \<Rightarrow> bool" where
  "revoked_grows st st' \<longleftrightarrow>
     st_revoked_agents st \<subseteq> st_revoked_agents st' \<and>
     (\<forall>i. hm_get (cs_revoked (st_capabilities st)) i \<noteq> None \<longrightarrow>
          hm_get (cs_revoked (st_capabilities st')) i \<noteq> None)"

interpretation revocations: kept_by_operations ok revoked_grows for ok
  by unfold_locales (auto simp: revoked_grows_def revoke_revoked)

text \<open>Receipts stay in the log, unchanged.\<close>

definition log_kept :: "ControlPlaneState \<Rightarrow> ControlPlaneState \<Rightarrow> bool" where
  "log_kept st st' \<longleftrightarrow>
     (\<forall>h r. get_receipt (cs_receipts (st_capabilities st)) h = Some r \<longrightarrow>
            get_receipt (cs_receipts (st_capabilities st')) h = Some r)"

lemma record_event_keeps:
  "get_receipt (cs_receipts cs) h = Some r \<Longrightarrow>
   get_receipt (cs_receipts (snd (record_event dp io k s ev cs))) h = Some r"
  by (auto simp: record_event_def case_prod_beta Let_def memory_log.append_keeps split: sum.splits)

lemma capability_store_keeps:
  assumes "get_receipt (cs_receipts cs) h = Some r"
  shows "get_receipt (cs_receipts (snd (issue dp io c cs))) h = Some r"
    and "get_receipt (cs_receipts (snd (attenuate dp io c cs))) h = Some r"
    and "get_receipt (cs_receipts (snd (revoke dp io i reason cs))) h = Some r"
    and "get_receipt (cs_receipts (snd (check_capability dp io i d cs))) h = Some r"
  using assms
  by (auto simp: issue_def record_issue_def attenuate_def record_attenuate_def revoke_def
      record_revoke_def check_capability_def record_check_def issuance_outcome_def Let_def
      case_prod_beta record_event_keeps split: option.splits sum.splits)

text \<open>The receipt whose identifier an operation returns is in the log.\<close>

lemma record_event_recorded:
  assumes "fst (record_event dp io k s ev cs) = Inr h"
  shows "get_receipt (cs_receipts (snd (record_event dp io k s ev cs))) h \<noteq> None"
proof -
  have "record_event dp io k s ev cs = (Inr h, snd (record_event dp io k s ev cs))"
    using assms by (simp add: prod_eq_iff)
  then show ?thesis
    by (rule record_event_Inr)
qed

lemma capability_store_recorded:
  "fst (issue dp io c cs) = Inr out \<Longrightarrow>
   get_receipt (cs_receipts (snd (issue dp io c cs))) (io_issuance_receipt out) \<noteq> None"
  "fst (attenuate dp io c cs) = Inr out \<Longrightarrow>
   get_receipt (cs_receipts (snd (attenuate dp io c cs))) (io_issuance_receipt out) \<noteq> None"
  "fst (revoke dp io i reason cs) = Inr h \<Longrightarrow>
   get_receipt (cs_receipts (snd (revoke dp io i reason cs))) h \<noteq> None"
  "fst (check_capability dp io i d cs) = Inr ev \<Longrightarrow>
   get_receipt (cs_receipts (snd (check_capability dp io i d cs))) (ce_check_receipt ev) \<noteq> None"
  unfolding issue_def record_issue_def attenuate_def record_attenuate_def revoke_def record_revoke_def
    check_capability_def record_check_def issuance_outcome_def Let_def case_prod_beta
  using record_event_recorded
  by (auto simp: rbind_eq_Inr split: option.splits sum.splits if_splits)

lemma registry_keeps:
  assumes "get_receipt (rg_receipts rg) h = Some r"
  shows "get_receipt (rg_receipts (snd (registry_register dp ck p cred rg))) h = Some r"
    and "get_receipt (rg_receipts (snd (registry_revoke dp ck a reason rg))) h = Some r"
    and "get_receipt (rg_receipts (snd (registry_operator_revoke dp ck a op reason rg))) h = Some r"
  using assms
  by (auto simp: registry_register_def registry_revoke_def registry_operator_revoke_def with_receipt_def
      Let_def registry_record_keeps split: sum.splits prod.splits AttestorError.splits)

interpretation receipt_history: kept_by_operations ok log_kept for ok
  by unfold_locales (auto simp: log_kept_def registry_keeps capability_store_keeps)

text \<open>Every key that resolves belongs to a passport signed by that very key.\<close>

definition same_passport_ctx :: "passport_ctx \<Rightarrow> cp_deps \<Rightarrow> bool" where
  "same_passport_ctx cx dp \<longleftrightarrow> rgd_passport_ctx (cpd_registry dp) = cx"

definition self_signed_kept :: "passport_ctx \<Rightarrow> ControlPlaneState \<Rightarrow> ControlPlaneState \<Rightarrow> bool" where
  "self_signed_kept cx st st' \<longleftrightarrow>
     (passports_self_signed cx (st_passports st) \<longrightarrow> passports_self_signed cx (st_passports st'))"

lemma registry_self_signed:
  assumes "passports_self_signed (rgd_passport_ctx dp) (rg_passports rg)"
  shows "passports_self_signed (rgd_passport_ctx dp) (rg_passports (snd (registry_register dp ck p cred rg)))"
  using assms self_signed_ops [OF assms]
  by (auto simp: registry_register_def with_receipt_def Let_def
      split: sum.splits prod.splits AttestorError.splits) (metis snd_conv)+

interpretation resolved_keys: kept_by_operations "same_passport_ctx cx" "self_signed_kept cx" for cx
  by unfold_locales (auto simp: self_signed_kept_def same_passport_ctx_def registry_self_signed
      self_signed_ops)

end
