(* ===== verification/Samples.thy ===== *)
theory Samples
  imports Receipt_Store
begin

text \<open>
  Concrete inputs at which the properties are applied: a toy digest (the first 32 bytes of the
  message, padded), a toy signature scheme (key and message, cut to 64 bytes), decimal digit
  strings as timestamps, and small receipts built on them.
\<close>

definition demo_sign :: "bytes \<Rightarrow> bytes \<Rightarrow> bytes" where
  "demo_sign key msg = take 64 (key @ msg @ replicate 64 0)"

definition demo_ext :: externals where
  "demo_ext =
     \<lparr>ext_sha256 = (\<lambda>bs. take 32 (bs @ replicate 32 0)),
      ext_key_ok = (\<lambda>k. True),
      ext_verify = (\<lambda>k m s. s = demo_sign k m),
      ext_rfc3339 = (\<lambda>s. if s \<noteq> [] \<and> list_all is_digit s then Some (int (digits_value s)) else None)\<rparr>"

definition demo_ctx :: receipt_ctx where
  "demo_ctx =
     \<lparr>rc_ext = demo_ext,
      rc_encode = (\<lambda>p. as_bytes (pr_action_kind p)
        @ (case pr_occurred_at p of None \<Rightarrow> [] | Some t \<Rightarrow> u64_to_be_bytes (p_monotonic_ns t)))\<rparr>"

definition demo_key :: bytes where
  "demo_key = replicate 32 7"

definition demo_public_key :: PublicKey where
  "demo_public_key = \<lparr>pk_algorithm = Ed25519, pk_value = demo_key\<rparr>"

definition demo_signature :: "bytes \<Rightarrow> Signature" where
  "demo_signature msg =
     \<lparr>sig_algorithm = Ed25519, sig_value = demo_sign demo_key msg, key_fingerprint = replicate 32 0\<rparr>"

definition demo_time :: "u64 \<Rightarrow> Timestamp" where
  "demo_time ns = \<lparr>wall_clock = ''1'', monotonic_ns = ns\<rparr>"

definition demo_resolver :: PassportResolver where
  "demo_resolver =
     \<lparr>resolve_actor = (\<lambda>a. Inr (Some demo_public_key)), resolve_role = (\<lambda>r fp. Inr None)\<rparr>"

definition demo_unsigned :: "string \<Rightarrow> u64 \<Rightarrow> Receipt" where
  "demo_unsigned kind ns =
     \<lparr>r_spec_version = SpecVersion ''1.0.0'', r_swarm_id = SwarmId 1, r_actor = AgentId 1,
      r_action_kind = kind, r_causal = causal_empty, r_evidence = [], r_constitution_version = [],
      r_cost = None, r_occurred_at = demo_time ns, r_seal = unsealed, r_signatures = []\<rparr>"

definition demo_receipt :: "string \<Rightarrow> u64 \<Rightarrow> Receipt" where
  "demo_receipt kind ns =
     (demo_unsigned kind ns)\<lparr>r_signatures :=
        [\<lparr>sb_role = Actor, sb_signature = demo_signature (canonical_bytes demo_ctx (demo_unsigned kind ns)),
          sb_signed_at = demo_time ns\<rparr>]\<rparr>"

lemmas demo_defs = demo_ext_def demo_ctx_def demo_public_key_def demo_signature_def demo_time_def
  demo_resolver_def demo_unsigned_def demo_receipt_def

lemma rc_ext_demo: "rc_ext demo_ctx = demo_ext"
  by (simp add: demo_ctx_def)

lemma demo_canonical:
  "canonical_bytes demo_ctx (demo_receipt kind ns) = as_bytes kind @ u64_to_be_bytes ns"
  by (simp add: demo_defs canonical_bytes_def to_canonical_proto_def proto_of_receipt_def
      proto_of_timestamp_def)

lemma demo_address:
  "content_address demo_ctx (demo_receipt kind ns) =
     \<lparr>algorithm = Sha256, digest = take 32 (as_bytes kind @ u64_to_be_bytes ns @ replicate 32 0)\<rparr>"
  unfolding content_address_def demo_canonical by (simp add: demo_ctx_def demo_ext_def sha256_def)

lemma length_demo_sign [simp]: "length (demo_sign k m) = 64"
  by (simp add: demo_sign_def)

lemma length_demo_key [simp]: "length demo_key = 32"
  by (simp add: demo_key_def)

lemma demo_canonical_unsigned:
  "canonical_bytes demo_ctx (demo_receipt kind ns) = canonical_bytes demo_ctx (demo_unsigned kind ns)"
  by (simp add: demo_receipt_def)

lemma demo_verifies: "verify demo_ext demo_public_key msg (demo_signature msg) = Inr ()"
  by (simp add: verify_Inr_iff demo_ext_def demo_public_key_def demo_signature_def)

lemma demo_signatures:
  "r_signatures (demo_receipt kind ns) =
     [\<lparr>sb_role = Actor, sb_signature = demo_signature (canonical_bytes demo_ctx (demo_receipt kind ns)),
       sb_signed_at = demo_time ns\<rparr>]"
  unfolding demo_canonical_unsigned by (simp add: demo_receipt_def)

lemma demo_verify_receipt:
  "verify_receipt_signatures demo_ctx (demo_receipt kind ns) demo_public_key keys =
     Inr \<lparr>vo_content_address = content_address demo_ctx (demo_receipt kind ns),
          vo_verified_roles = [Actor]\<rparr>"
  by (simp add: verify_receipt_signatures_def Let_def enforce_canonical_order_def demo_signatures
      demo_verifies demo_ctx_def [THEN arg_cong [of _ _ rc_ext]])

lemma demo_admission:
  "append_admission demo_ctx demo_resolver (demo_receipt kind ns) =
     Inr \<lparr>vo_content_address = content_address demo_ctx (demo_receipt kind ns),
          vo_verified_roles = [Actor]\<rparr>"
  by (simp add: append_admission_def demo_resolver_def demo_signatures demo_verify_receipt)

lemma demo_append_signed:
  assumes "resolve_actor rs (r_actor u) = Inr (Some demo_public_key)"
  shows "\<exists>out ms'. append_receipt demo_ctx rs (u\<lparr>r_signatures := [\<lparr>sb_role = Actor,
      sb_signature = demo_signature (canonical_bytes demo_ctx u), sb_signed_at = t\<rparr>]\<rparr>) ms = (Inr out, ms')"
    (is "\<exists>out ms'. append_receipt demo_ctx rs ?r ms = _")
proof -
  have "\<exists>out. append_admission demo_ctx rs ?r = Inr out"
    using assms by (simp add: append_admission_def verify_receipt_signatures_def Let_def
        enforce_canonical_order_def demo_verifies rc_ext_demo)
  then show ?thesis
    by (cases rule: append_receipt_cases [of demo_ctx rs ?r ms]) auto
qed

lemma demo_predecessors [simp]: "predecessors (r_causal (demo_receipt kind ns)) = []"
  by (simp add: demo_receipt_def demo_unsigned_def causal_empty_def)

lemma demo_append_new:
  "append_receipt demo_ctx demo_resolver (demo_receipt kind ns) memory_store_new =
     (Inr \<lparr>ao_receipt_id = content_address demo_ctx (demo_receipt kind ns), ao_kind = Inserted,
           ao_seal = unsealed\<rparr>,
      memory_store_new\<lparr>ms_by_id :=
        [(content_address demo_ctx (demo_receipt kind ns), demo_receipt kind ns)]\<rparr>)"
  by (simp add: append_receipt_def demo_admission Let_def memory_store_new_def)

end
