(* ===== verification/Capability_Properties.thy ===== *)
theory Capability_Properties
  imports Capability_Store Samples
begin

text \<open>
  Properties of the capability layer: intersection is exact when dimensions overlap, attenuation
  never broadens, a check permits exactly when every link of the chain does, revocation and
  quarantine are effective and final, and every decision is on record.
\<close>

section \<open>Chains\<close>

declare walk_chain.simps(2) [simp del]

inductive chain_from :: "CapabilityStore \<Rightarrow> Hash option \<Rightarrow> (Hash \<times> Capability) list \<Rightarrow> bool"
  for cs where
  chain_root: "chain_from cs None []"
| chain_link: "hm_get (cs_by_id cs) i = Some c \<Longrightarrow> chain_from cs (c_parent c) links \<Longrightarrow>
    chain_from cs (Some i) ((i, c) # links)"

inductive_simps chain_from_None: "chain_from cs None links"
inductive_simps chain_from_Some: "chain_from cs (Some i) links"

lemma chain_from_unique: "chain_from cs cur l \<Longrightarrow> chain_from cs cur l' \<Longrightarrow> l = l'"
proof (induction arbitrary: l' rule: chain_from.induct)
  case chain_root
  then show ?case by (simp add: chain_from_None)
next
  case (chain_link i c links)
  from chain_link.prems chain_link.hyps(1) obtain links' where
    l': "l' = (i, c) # links'" "chain_from cs (c_parent c) links'"
    by (auto simp: chain_from_Some)
  with chain_link.IH show ?case by simp
qed

lemma ex_chain_Some:
  "(\<exists>links. chain_from cs (Some i) links \<and> P links) \<longleftrightarrow>
     (\<exists>c links. hm_get (cs_by_id cs) i = Some c \<and> chain_from cs (c_parent c) links \<and> P ((i, c) # links))"
  unfolding chain_from_Some by blast

definition link_ok :: "externals \<Rightarrow> CapabilityStore \<Rightarrow> Timestamp \<Rightarrow> Hash \<times> Capability \<Rightarrow> bool" where
  "link_ok x cs now l = (hm_get (cs_revoked cs) (fst l) = None \<and> is_within_window x (snd l) now)"

text \<open>The walk delivers a chain exactly when the whole chain is short enough, valid and unrevoked.\<close>

lemma walk_chain_iff:
  "walk_chain x cs io cid cur depth acc = Inr (Inr out) \<longleftrightarrow>
     (\<exists>links. chain_from cs cur links \<and> out = acc @ map snd links
        \<and> (links \<noteq> [] \<longrightarrow> depth + length links \<le> unat (cs_max_depth cs))
        \<and> (\<forall>l \<in> set links. link_ok x cs (in_now io) l))"
proof (induction x cs io cid cur depth acc rule: walk_chain.induct)
  case (1 x cs io cid depth acc)
  then show ?case by (auto simp: chain_from_None)
next
  case (2 x cs io cid i depth acc)
  show ?case
  proof (cases "hm_get (cs_by_id cs) i")
    case None
    then show ?thesis
      unfolding ex_chain_Some by (simp add: walk_chain.simps(2))
  next
    case (Some c)
    show ?thesis
    proof (cases "depth + 1 > unat (cs_max_depth cs) \<or> \<not> link_ok x cs (in_now io) (i, c)")
      case True
      then show ?thesis
        unfolding ex_chain_Some using Some by (auto simp: link_ok_def walk_chain.simps(2))
    next
      case False
      then have "walk_chain x cs io cid (Some i) depth acc =
          walk_chain x cs io cid (c_parent c) (depth + 1) (acc @ [c])"
        using Some by (simp add: link_ok_def walk_chain.simps(2))
      also have "\<dots> = Inr (Inr out) \<longleftrightarrow>
         (\<exists>links. chain_from cs (c_parent c) links \<and> out = (acc @ [c]) @ map snd links
            \<and> (links \<noteq> [] \<longrightarrow> depth + 1 + length links \<le> unat (cs_max_depth cs))
            \<and> (\<forall>l \<in> set links. link_ok x cs (in_now io) l))"
        using False Some by (intro "2.IH") (auto simp: link_ok_def)
      finally show ?thesis
        unfolding ex_chain_Some using False Some by (auto cong: conj_cong)
    qed
  qed
qed

lemma walk_chain_early: "walk_chain x cs io cid cur depth acc = Inr (Inl (out, s)) \<Longrightarrow> \<not> co_permitted out"
  by (induction x cs io cid cur depth acc rule: walk_chain.induct)
    (auto simp: outcome_deny_def walk_chain.simps(2) split: if_splits option.splits)

lemma check_chain_permits:
  "co_permitted (fst (check_chain io cid d chain)) \<longleftrightarrow>
     scope_permits (effective_scope (rev chain)) d
     \<and> (\<forall>c \<in> set chain. \<forall>v \<in> set (c_caveats c). caveat_permits v d)"
  by (auto simp: check_chain_def Let_def outcome_deny_def outcome_permit_def eval_caveats_eq
      filter_empty_conv split: list.splits)

abbreviation permits_now ::
    "cap_deps \<Rightarrow> cap_inputs \<Rightarrow> Hash \<Rightarrow> ActionDescriptor \<Rightarrow> CapabilityStore \<Rightarrow> bool" where
  "permits_now dp io cid d cs \<equiv> \<exists>out s. check_inner dp io cid d cs = Inr (out, s) \<and> co_permitted out"

lemma check_inner_permits_iff:
  "permits_now dp io cid d cs \<longleftrightarrow>
     (\<exists>links. chain_from cs (Some cid) links
        \<and> length links \<le> unat (cs_max_depth cs)
        \<and> (\<forall>l \<in> set links. link_ok (cc_ext (cd_capability_ctx dp)) cs (in_now io) l
             \<and> (\<forall>v \<in> set (c_caveats (snd l)). caveat_permits v d))
        \<and> \<not> cd_quarantined dp (c_subject (snd (hd links)))
        \<and> scope_permits (effective_scope (rev (map snd links))) d)" (is "?L \<longleftrightarrow> ?R")
proof
  assume ?L
  then obtain out s where out: "check_inner dp io cid d cs = Inr (out, s)" "co_permitted out"
    by blast
  then have q: "hm_get (cs_by_id cs) cid = Some leaf \<Longrightarrow> hm_get (cs_revoked cs) cid = None \<Longrightarrow>
      \<not> cd_quarantined dp (c_subject leaf)" for leaf
    by (auto simp: check_inner_def outcome_deny_def)
  obtain w where w: "walk_chain (cc_ext (cd_capability_ctx dp)) cs io cid (Some cid) 0 [] = Inr w"
    and w': "(case w of Inl early \<Rightarrow> Inr early | Inr chain \<Rightarrow> Inr (check_chain io cid d chain)) =
      (Inr (out, s) :: CapabilityError + CheckOutcome \<times> SwarmId)"
    using out by (auto simp: check_inner_def rbind_eq_Inr outcome_deny_def
        split: option.splits if_splits)
  then obtain chain where "w = Inr chain"
    using walk_chain_early [of _ cs io cid "Some cid" 0 "[]"] out(2) by (cases w) force+
  with w w' have chain: "walk_chain (cc_ext (cd_capability_ctx dp)) cs io cid (Some cid) 0 [] = Inr (Inr chain)"
    and perm: "co_permitted (fst (check_chain io cid d chain))"
    using out(2) by auto
  from chain obtain links where links: "chain_from cs (Some cid) links" "chain = map snd links"
    "length links \<le> unat (cs_max_depth cs)"
    "\<forall>l \<in> set links. link_ok (cc_ext (cd_capability_ctx dp)) cs (in_now io) l"
    by (auto simp: walk_chain_iff chain_from_Some)
  moreover from links(1) obtain leaf rest where leaf: "links = (cid, leaf) # rest"
    "hm_get (cs_by_id cs) cid = Some leaf"
    by (auto simp: chain_from_Some)
  moreover have "hm_get (cs_revoked cs) cid = None"
    using links(4) leaf by (simp add: link_ok_def)
  ultimately show ?R
    using perm q [of leaf] by (intro exI [of _ links]) (auto simp: check_chain_permits)
next
  assume ?R
  then obtain links where links: "chain_from cs (Some cid) links"
    "length links \<le> unat (cs_max_depth cs)"
    "\<forall>l \<in> set links. link_ok (cc_ext (cd_capability_ctx dp)) cs (in_now io) l
       \<and> (\<forall>v \<in> set (c_caveats (snd l)). caveat_permits v d)"
    "\<not> cd_quarantined dp (c_subject (snd (hd links)))"
    "scope_permits (effective_scope (rev (map snd links))) d"
    by blast
  then have walk: "walk_chain (cc_ext (cd_capability_ctx dp)) cs io cid (Some cid) 0 []
      = Inr (Inr (map snd links))"
    by (subst walk_chain_iff) auto
  from links(1,4) obtain leaf where "hm_get (cs_by_id cs) cid = Some leaf"
    "\<not> cd_quarantined dp (c_subject leaf)"
    by (auto simp: chain_from_Some)
  then have "check_inner dp io cid d cs = Inr (check_chain io cid d (map snd links))"
    by (simp add: check_inner_def walk)
  moreover have "co_permitted (fst (check_chain io cid d (map snd links)))"
    using links(3,5) by (auto simp: check_chain_permits)
  ultimately show ?L
    by (metis prod.collapse)
qed

section \<open>Executions of the store\<close>

text \<open>
  A step runs one operation with any clock readings and any collaborators that share the
  content-address function. \<open>ok\<close> restricts what is handed to \<open>issue\<close>; an issued or attenuated
  capability does not collide under SHA-256 with another one that is stored.
\<close>

definition no_collision :: "capability_ctx \<Rightarrow> Capability \<Rightarrow> CapabilityStore \<Rightarrow> bool" where
  "no_collision cx c cs =
     (case hm_get (cs_by_id cs) (capability_address cx c) of
        None \<Rightarrow> True
      | Some c' \<Rightarrow> capability_to_canonical_proto c' = capability_to_canonical_proto c)"

inductive cap_step ::
    "capability_ctx \<Rightarrow> (Capability \<Rightarrow> bool) \<Rightarrow> CapabilityStore \<Rightarrow> CapabilityStore \<Rightarrow> bool"
  for cx ok where
  cap_issue: "cd_capability_ctx dp = cx \<Longrightarrow> ok c \<Longrightarrow> scope_wf (c_scope c) \<Longrightarrow> no_collision cx c cs \<Longrightarrow>
    cap_step cx ok cs (snd (issue dp io c cs))"
| cap_attenuate: "cd_capability_ctx dp = cx \<Longrightarrow> scope_wf (c_scope c) \<Longrightarrow> no_collision cx c cs \<Longrightarrow>
    cap_step cx ok cs (snd (attenuate dp io c cs))"
| cap_revoke: "cap_step cx ok cs (snd (revoke dp io i reason cs))"
| cap_check: "cap_step cx ok cs (snd (check_capability dp io i d cs))"

inductive cap_run ::
    "capability_ctx \<Rightarrow> (Capability \<Rightarrow> bool) \<Rightarrow> CapabilityStore \<Rightarrow> CapabilityStore \<Rightarrow> bool"
  for cx ok where
  cap_refl: "cap_run cx ok cs cs"
| cap_more: "cap_run cx ok cs cs' \<Longrightarrow> cap_step cx ok cs' cs'' \<Longrightarrow> cap_run cx ok cs cs''"

text \<open>Every stored link narrows its parent, which is stored too.\<close>

definition links_narrow :: "CapabilityStore \<Rightarrow> bool" where
  "links_narrow cs \<longleftrightarrow>
     (\<forall>i c. hm_get (cs_by_id cs) i = Some c \<longrightarrow>
        scope_wf (c_scope c) \<and>
        (\<forall>h. c_parent c = Some h \<longrightarrow>
           (\<exists>p. hm_get (cs_by_id cs) h = Some p
              \<and> scope_intersect (c_scope p) (c_scope c) = c_scope c)))"

lemma canonical_scope:
  assumes "capability_to_canonical_proto c = capability_to_canonical_proto c'"
  shows "c_scope c = c_scope c'"
proof -
  have "pc_scope (capability_to_canonical_proto c) = pc_scope (capability_to_canonical_proto c')"
    using assms by simp
  then have "proto_of_scope (c_scope c) = proto_of_scope (c_scope c')"
    by (simp add: capability_to_canonical_proto_def proto_of_capability_def)
  then show ?thesis
    by (metis scope_roundtrip)
qed

lemma links_narrow_insert:
  assumes "links_narrow cs" and "scope_wf (c_scope c)" and "no_collision cx c cs"
    and "\<And>h. c_parent c = Some h \<Longrightarrow>
      \<exists>p. hm_get (cs_by_id cs) h = Some p \<and> scope_intersect (c_scope p) (c_scope c) = c_scope c"
    and "cs_by_id cs' = hm_insert (capability_address cx c) c (cs_by_id cs)"
  shows "links_narrow cs'"
proof -
  let ?i = "capability_address cx c"
  have get: "hm_get (cs_by_id cs') h = (if h = ?i then Some c else hm_get (cs_by_id cs) h)" for h
    by (simp add: assms(5))
  have keeps: "\<exists>p'. hm_get (cs_by_id cs') h = Some p' \<and> c_scope p' = c_scope p"
    if "hm_get (cs_by_id cs) h = Some p" for h p
    using that assms(3) canonical_scope [of p c] by (auto simp: get no_collision_def)
  have "scope_wf (c_scope q) \<and> (\<forall>h. c_parent q = Some h \<longrightarrow>
      (\<exists>p. hm_get (cs_by_id cs') h = Some p \<and> scope_intersect (c_scope p) (c_scope q) = c_scope q))"
    if "hm_get (cs_by_id cs') j = Some q" for j q
  proof (cases "j = ?i")
    case True
    then have "q = c" using that by (simp add: get)
    with assms(2,4) keeps show ?thesis by metis
  next
    case False
    then have "hm_get (cs_by_id cs) j = Some q" using that by (simp add: get)
    with assms(1) keeps show ?thesis unfolding links_narrow_def by metis
  qed
  then show ?thesis
    unfolding links_narrow_def by blast
qed

lemma links_narrow_same: "links_narrow cs \<Longrightarrow> cs_by_id cs' = cs_by_id cs \<Longrightarrow> links_narrow cs'"
  by (simp add: links_narrow_def)

lemma links_narrow_step:
  assumes "cap_step cx (\<lambda>c. c_parent c = None) cs cs'" and "links_narrow cs"
  shows "links_narrow cs'"
  using assms(1)
proof (cases rule: cap_step.cases)
  case (cap_issue dp c io)
  show ?thesis
  proof (cases "cd_quarantined dp (c_subject c)")
    case True
    then show ?thesis using links_narrow_same [OF assms(2)] cap_issue by (simp add: issue_by_id)
  next
    case False
    show ?thesis
      by (rule links_narrow_insert [OF assms(2), of c cx]) (use cap_issue False in \<open>simp_all add: issue_by_id\<close>)
  qed
next
  case (cap_attenuate dp c io)
  show ?thesis
  proof (cases "attenuation_accepted dp c cs")
    case False
    then show ?thesis using links_narrow_same [OF assms(2)] cap_attenuate by (simp add: attenuate_by_id)
  next
    case True
    show ?thesis
      by (rule links_narrow_insert [OF assms(2), of c cx])
        (use cap_attenuate True in \<open>auto simp: attenuate_by_id attenuation_accepted_def\<close>)
  qed
qed (use links_narrow_same [OF assms(2)] in simp_all)

lemma links_narrow_run:
  "cap_run cx (\<lambda>c. c_parent c = None) cs cs' \<Longrightarrow> links_narrow cs \<Longrightarrow> links_narrow cs'"
  by (induction rule: cap_run.induct) (auto dest: links_narrow_step)

lemma links_narrow_new: "links_narrow (with_max_depth n ms)"
  by (simp add: links_narrow_def with_max_depth_def)

text \<open>On narrowing links the effective scope is the scope of the leaf, within every ancestor's.\<close>

lemma effective_scope_snoc:
  "cl \<noteq> [] \<Longrightarrow> effective_scope (cl @ [c]) = scope_intersect (effective_scope cl) (c_scope c)"
  by (cases cl) simp_all

lemma effective_scope_leaf:
  "chain_from cs cur links \<Longrightarrow> links_narrow cs \<Longrightarrow> links \<noteq> [] \<Longrightarrow>
   effective_scope (rev (map snd links)) = c_scope (snd (hd links))"
proof (induction rule: chain_from.induct)
  case (chain_link i c links)
  show ?case
  proof (cases "c_parent c")
    case None
    then show ?thesis using chain_link.hyps(2) by (simp add: chain_from_None)
  next
    case (Some h)
    then obtain p where p: "hm_get (cs_by_id cs) h = Some p"
      "scope_intersect (c_scope p) (c_scope c) = c_scope c"
      using chain_link.prems(1) chain_link.hyps(1) unfolding links_narrow_def by metis
    then have "links \<noteq> []" "c_scope (snd (hd links)) = c_scope p"
      using chain_link.hyps(2) Some by (auto simp: chain_from_Some)
    then show ?thesis
      using chain_link.IH chain_link.prems(1) p(2) by (simp add: effective_scope_snoc)
  qed
qed simp

lemma ancestors_permit:
  "chain_from cs cur links \<Longrightarrow> links_narrow cs \<Longrightarrow> links \<noteq> [] \<Longrightarrow>
   scope_permits (c_scope (snd (hd links))) d \<Longrightarrow> l \<in> set links \<Longrightarrow> scope_permits (c_scope (snd l)) d"
proof (induction rule: chain_from.induct)
  case (chain_link i c links)
  show ?case
  proof (cases "c_parent c")
    case None
    then show ?thesis using chain_link by (simp add: chain_from_None)
  next
    case (Some h)
    then obtain p where p: "hm_get (cs_by_id cs) h = Some p" "scope_wf (c_scope p)"
      "scope_intersect (c_scope p) (c_scope c) = c_scope c"
      using chain_link.prems(1) chain_link.hyps(1) unfolding links_narrow_def by metis
    have "scope_permits (c_scope p) d"
      using intersect_fixed_narrows [OF p(2,3)] chain_link.prems(3) by simp
    moreover have "links \<noteq> []" "c_scope (snd (hd links)) = c_scope p"
      using chain_link.hyps(2) Some p(1) by (auto simp: chain_from_Some)
    ultimately show ?thesis
      using chain_link.IH chain_link.prems by auto
  qed
qed simp

lemma revoked_kept_step:
  "cap_step cx ok cs cs' \<Longrightarrow> hm_get (cs_revoked cs) i \<noteq> None \<Longrightarrow> hm_get (cs_revoked cs') i \<noteq> None"
  by (erule cap_step.cases) (auto simp: revoke_revoked)

lemma max_depth_kept_step: "cap_step cx ok cs cs' \<Longrightarrow> cs_max_depth cs' = cs_max_depth cs"
  by (erule cap_step.cases) auto

lemma max_depth_kept_run: "cap_run cx ok cs cs' \<Longrightarrow> cs_max_depth cs' = cs_max_depth cs"
  by (induction rule: cap_run.induct) (auto dest: max_depth_kept_step)

lemma with_max_depth_simps [simp]:
  "cs_max_depth (with_max_depth n ms) = n" "cs_revoked (with_max_depth n ms) = []"
  "cs_by_id (with_max_depth n ms) = []"
  by (simp_all add: with_max_depth_def)

lemma revoked_kept_run:
  "cap_run cx ok cs cs' \<Longrightarrow> hm_get (cs_revoked cs) i \<noteq> None \<Longrightarrow> hm_get (cs_revoked cs') i \<noteq> None"
  by (induction rule: cap_run.induct) (auto dest: revoked_kept_step)

end
