(* ===== verification/Authority_Properties.thy ===== *)
theory Authority_Properties
  imports Capability_Properties
begin

text \<open>
  The properties of the capability layer, with the concrete capabilities at which they are applied.
\<close>

section \<open>Concrete capabilities\<close>

definition demo_cap_ctx :: capability_ctx where
  "demo_cap_ctx = \<lparr>cc_ext = demo_ext, cc_encode = pc_capability_id\<rparr>"

definition demo_identity :: ControlPlaneIdentity where
  "demo_identity = \<lparr>cp_agent_id = AgentId 9, cp_sign = (\<lambda>m. Inr (demo_signature m)),
     cp_public_key = demo_public_key\<rparr>"

definition demo_deps :: cap_deps where
  "demo_deps = \<lparr>cd_receipt_ctx = demo_ctx, cd_capability_ctx = demo_cap_ctx,
     cd_resolver = demo_resolver, cd_control_plane = demo_identity, cd_quarantined = (\<lambda>a. a = AgentId 13)\<rparr>"

definition demo_inputs :: cap_inputs where
  "demo_inputs = \<lparr>in_now = \<lparr>wall_clock = ''5'', monotonic_ns = 5\<rparr>, in_occurred_at = demo_time 6,
     in_signed_at = demo_time 7, in_fresh_swarm = SwarmId 77, in_fresh_id = AgentId 78\<rparr>"

definition demo_cap :: "byte \<Rightarrow> AgentId \<Rightarrow> string \<Rightarrow> Hash option \<Rightarrow> Capability" where
  "demo_cap n subject kind parent =
     \<lparr>c_spec_version = SpecVersion ''1.0.0'', c_capability_id = [n], c_swarm_id = SwarmId 1,
      c_issuer = Agent (AgentId 1), c_subject = subject, c_scope = for_action kind,
      c_parent = parent, c_valid_from = \<lparr>wall_clock = ''1'', monotonic_ns = 1\<rparr>,
      c_valid_until = \<lparr>wall_clock = ''9'', monotonic_ns = 9\<rparr>,
      c_caveats = [NeverIfTagged [''pii'']], c_revocation_endpoint = [], c_issuer_signature = None\<rparr>"

definition demo_action :: "string \<Rightarrow> ActionDescriptor" where
  "demo_action kind = \<lparr>ad_action_kind = kind, ad_resource_tags = [], ad_numeric_values = [],
     ad_recipient = None, ad_memory_scope = None\<rparr>"

definition demo_id :: "byte \<Rightarrow> Hash" where
  "demo_id n = \<lparr>algorithm = Sha256, digest = take 32 ([n] @ replicate 32 0)\<rparr>"

lemma demo_cap_address [simp]: "capability_address demo_cap_ctx (demo_cap n s k p) = demo_id n"
  by (simp add: capability_address_def capability_bytes_def demo_cap_ctx_def sha256_def demo_ext_def
      capability_to_canonical_proto_def proto_of_capability_def demo_cap_def demo_id_def)

lemma demo_id_eq [simp]: "demo_id a = demo_id b \<longleftrightarrow> a = b"
  by (simp add: demo_id_def)

lemma demo_cap_simps [simp]:
  "c_scope (demo_cap n s k p) = for_action k" "c_parent (demo_cap n s k p) = p"
  "c_subject (demo_cap n s k p) = s" "c_swarm_id (demo_cap n s k p) = SwarmId 1"
  "c_caveats (demo_cap n s k p) = [NeverIfTagged [''pii'']]"
  by (simp_all add: demo_cap_def)

lemma demo_window [simp]: "is_within_window demo_ext (demo_cap n s k p) (in_now demo_inputs)"
  by (simp add: is_within_window_def wall_at_or_after_def parsed_wall_clock_def demo_inputs_def
      demo_cap_def demo_ext_def is_digit_def digits_value_def)

lemma demo_deps_simps [simp]:
  "cd_capability_ctx demo_deps = demo_cap_ctx" "cd_quarantined demo_deps a \<longleftrightarrow> a = AgentId 13"
  "cc_ext demo_cap_ctx = demo_ext" "cd_receipt_ctx demo_deps = demo_ctx"
  by (simp_all add: demo_deps_def demo_cap_ctx_def)

lemma for_action_wf [simp]: "scope_wf (for_action k)"
  by (simp add: scope_wf_def for_action_def scope_empty_def bt_wf_def)

lemma for_action_permits [simp]: "scope_permits (for_action k) (demo_action k') \<longleftrightarrow> k' = k"
  by (auto simp: scope_permits_iff for_action_def scope_empty_def demo_action_def empty_or_contains_def)

lemma for_action_intersect [simp]: "scope_intersect (for_action k) (for_action k) = for_action k"
  by (simp add: scope_intersect_def for_action_def scope_empty_def intersect_or_take_one_def
      intersect_bounds_def)

definition demo_store :: CapabilityStore where
  "demo_store = \<lparr>cs_by_id = [(demo_id 1, demo_cap 1 (AgentId 2) ''read'' None),
       (demo_id 2, demo_cap 2 (AgentId 2) ''read'' (Some (demo_id 1)))],
     cs_revoked = [], cs_max_depth = 8, cs_receipts = memory_store_new\<rparr>"

lemma demo_store_simps [simp]: "cs_revoked demo_store = []" "cs_max_depth demo_store = 8"
  by (simp_all add: demo_store_def)

lemma demo_chain: "chain_from demo_store (Some (demo_id 2))
    [(demo_id 2, demo_cap 2 (AgentId 2) ''read'' (Some (demo_id 1))),
     (demo_id 1, demo_cap 1 (AgentId 2) ''read'' None)]"
  by (intro chain_from.intros) (simp_all add: demo_store_def chain_from_None chain_from_Some)

section \<open>Scopes and attenuation\<close>

text \<open>
  (C25) Intersection is exact: when no list dimension of the two scopes is disjoint and the bounds
  of the second parse as numbers, the intersection permits an action exactly when both scopes do.
\<close>

theorem scope_intersect_exact:
  assumes "scope_wf s" and "scopes_overlap s t" and "bounds_numeric t"
  shows "scope_permits (scope_intersect s t) d \<longleftrightarrow> scope_permits s d \<and> scope_permits t d"
proof -
  have b: "bound_ok (bounds (scope_intersect s t)) k v \<longleftrightarrow> bound_ok (bounds s) k v \<and> bound_ok (bounds t) k v"
    for k v
    using assms(1,3) bounds_exact [of "bounds s" "bounds t"]
    by (simp add: scope_intersect_def scope_wf_def bounds_numeric_def list_all_iff)
  have dims: "overlap (permitted_actions s) (permitted_actions t)"
    "overlap (resource_tags s) (resource_tags t)"
    "overlap (permitted_recipients s) (permitted_recipients t)"
    "overlap (memory_scopes s) (memory_scopes t)"
    using assms(2) by (simp_all add: scopes_overlap_def)
  show ?thesis
    unfolding scope_permits_iff b
    by (auto simp: scope_intersect_def dimension_exact [OF dims(1)] dimension_exact [OF dims(2)]
        dimension_exact [OF dims(3)] dimension_exact [OF dims(4)])
qed

theorem scope_intersect_exact_witness:
  "\<not> scope_permits (scope_intersect (scope_empty\<lparr>permitted_actions := [''a'', ''b'']\<rparr>) (for_action ''b''))
      (demo_action ''a'')"
proof -
  let ?s = "scope_empty\<lparr>permitted_actions := [''a'', ''b'']\<rparr>"
  have "scope_wf ?s" "scopes_overlap ?s (for_action ''b'')" "bounds_numeric (for_action ''b'')"
    by (simp_all add: scope_wf_def scope_empty_def bt_wf_def scopes_overlap_def overlap_def
        for_action_def bounds_numeric_def)
  from scope_intersect_exact [OF this] show ?thesis
    by simp
qed

text \<open>
  An accepted attenuation never broadens: the parent is stored, and every action that the
  child's scope permits is permitted by the parent's scope.
\<close>

theorem attenuate_never_broadens:
  assumes "fst (attenuate dp io child cs) = Inr out"
    and "\<forall>i c. hm_get (cs_by_id cs) i = Some c \<longrightarrow> scope_wf (c_scope c)"
  shows "\<exists>h parent. c_parent child = Some h \<and> hm_get (cs_by_id cs) h = Some parent
    \<and> (\<forall>d. scope_permits (c_scope child) d \<longrightarrow> scope_permits (c_scope parent) d)"
proof -
  obtain h parent where p: "c_parent child = Some h" "hm_get (cs_by_id cs) h = Some parent"
    "scope_intersect (c_scope parent) (c_scope child) = c_scope child"
    using attenuate_Inr_accepted [OF assms(1)] by (auto simp: attenuation_accepted_def)
  with assms(2) intersect_fixed_narrows show ?thesis
    by blast
qed

lemma demo_event_recorded:
  assumes "ev \<noteq> []" and "resolve_actor rs (AgentId 9) = Inr (Some demo_public_key)"
  shows "\<exists>h cs'. record_event (demo_deps\<lparr>cd_resolver := rs, cd_quarantined := q\<rparr>) demo_inputs k s ev cs = (Inr h, cs')"
proof -
  let ?dp = "demo_deps\<lparr>cd_resolver := rs, cd_quarantined := q\<rparr>"
  have v: "spec_version_parse ''1.0.0'' = Inr (SpecVersion ''1.0.0'')"
    by (simp add: spec_version_parse_def numeric_prefix_def parse_u32_def digits_value_def is_digit_def)
  define u where "u = \<lparr>r_spec_version = SpecVersion ''1.0.0'', r_swarm_id = s, r_actor = AgentId 9,
      r_action_kind = k, r_causal = causal_empty, r_evidence = ev, r_constitution_version = [],
      r_cost = None, r_occurred_at = in_occurred_at demo_inputs, r_seal = unsealed, r_signatures = []\<rparr>"
  let ?r = "u\<lparr>r_signatures := [\<lparr>sb_role = Actor,
      sb_signature = demo_signature (canonical_bytes demo_ctx u), sb_signed_at = in_signed_at demo_inputs\<rparr>]\<rparr>"
  have r: "event_receipt ?dp demo_inputs k s ev = Inr ?r"
    using assms by (simp add: event_receipt_def v receipt_build_def receipt_builder_new_def
        demo_deps_def demo_identity_def u_def)
  have "resolve_actor rs (r_actor u) = Inr (Some demo_public_key)"
    using assms(2) by (simp add: u_def)
  from demo_append_signed [OF this, of "in_signed_at demo_inputs" "cs_receipts cs"]
  show ?thesis
    using r by (auto simp: record_event_def)
qed

lemma demo_event_ok: "ev \<noteq> [] \<Longrightarrow> \<exists>h cs'. record_event demo_deps demo_inputs k s ev cs = (Inr h, cs')"
  using demo_event_recorded [of ev demo_resolver "cd_quarantined demo_deps"]
  by (simp add: demo_resolver_def demo_deps_def)

theorem attenuate_never_broadens_witness:
  "\<exists>parent. hm_get (cs_by_id demo_store) (demo_id 1) = Some parent
     \<and> (\<forall>d. scope_permits (for_action ''read'') d \<longrightarrow> scope_permits (c_scope parent) d)"
proof -
  let ?c = "demo_cap 3 (AgentId 2) ''read'' (Some (demo_id 1))"
  have "\<exists>out. fst (attenuate demo_deps demo_inputs ?c demo_store) = Inr out"
    using demo_event_ok [of "[evidence_new ''child_capability_hash'' TYPE_HASH (digest (demo_id 3)),
        evidence_new ''parent_capability_hash'' TYPE_HASH (digest (demo_id 1)),
        evidence_new ''subject'' TYPE_AGENT_ID (agent_as_bytes (AgentId 2))]"
      "''capability.attenuate''" "SwarmId 1"
      "demo_store\<lparr>cs_by_id := hm_insert (demo_id 3) ?c (cs_by_id demo_store)\<rparr>"]
    by (auto simp: attenuate_def record_attenuate_def issuance_outcome_def demo_store_def Let_def)
  then obtain out where "fst (attenuate demo_deps demo_inputs ?c demo_store) = Inr out"
    by blast
  from attenuate_never_broadens [OF this] show ?thesis
    by (auto simp: demo_store_def split: if_splits)
qed

section \<open>Checks\<close>

text \<open>
  (C13) A check permits exactly when the chain from the capability to its root is complete and no
  longer than the limit, no link of it is revoked, every link is within its validity window,
  every caveat of every link is met, the holder is not quarantined, and the intersection of the
  scopes along the chain permits the action.
\<close>

theorem check_permits_iff:
  "(\<exists>out s. check_inner dp io cid d cs = Inr (out, s) \<and> co_permitted out) \<longleftrightarrow>
     (\<exists>links. chain_from cs (Some cid) links
        \<and> length links \<le> unat (cs_max_depth cs)
        \<and> (\<forall>(i, c) \<in> set links. hm_get (cs_revoked cs) i = None
             \<and> is_within_window (cc_ext (cd_capability_ctx dp)) c (in_now io)
             \<and> (\<forall>v \<in> set (c_caveats c). caveat_permits v d))
        \<and> \<not> cd_quarantined dp (c_subject (snd (hd links)))
        \<and> scope_permits (effective_scope (rev (map snd links))) d)"
  unfolding check_inner_permits_iff by (simp add: link_ok_def case_prod_beta conj_assoc)

lemma demo_permits: "permits_now demo_deps demo_inputs (demo_id 2) (demo_action ''read'') demo_store"
  unfolding check_inner_permits_iff
  by (intro exI [of _ "[(demo_id 2, demo_cap 2 (AgentId 2) ''read'' (Some (demo_id 1))),
     (demo_id 1, demo_cap 1 (AgentId 2) ''read'' None)]"])
    (simp add: demo_chain, simp add: demo_store_def link_ok_def demo_action_def [THEN arg_cong [of _ _ ad_resource_tags]])

theorem check_permits_iff_witness:
  "\<exists>links. chain_from demo_store (Some (demo_id 2)) links
     \<and> (\<forall>(i, c) \<in> set links. hm_get (cs_revoked demo_store) i = None)"
proof -
  from check_permits_iff [THEN iffD1, OF demo_permits] show ?thesis
    by fastforce
qed

text \<open>
  (C1) Authority never grows along a chain: in every store reached from an empty one by issuing
  root capabilities, attenuating, revoking and checking, an action that a check permits is
  permitted by the scope of each link, from the presented capability up to its root.
\<close>

theorem authority_within_every_link:
  assumes "cap_run cx (\<lambda>c. c_parent c = None) (with_max_depth n ms) cs"
    and "check_inner dp io cid d cs = Inr (out, s)" and "co_permitted out"
  shows "\<exists>links. chain_from cs (Some cid) links \<and> length links \<le> unat n
    \<and> (\<forall>(i, c) \<in> set links. scope_permits (c_scope c) d \<and> (\<forall>v \<in> set (c_caveats c). caveat_permits v d))"
proof -
  have narrow: "links_narrow cs"
    using links_narrow_run [OF assms(1) links_narrow_new] .
  have "cs_max_depth cs = n"
    using max_depth_kept_run [OF assms(1)] by simp
  moreover from assms(2,3) obtain links where links: "chain_from cs (Some cid) links"
    "length links \<le> unat (cs_max_depth cs)"
    "\<forall>l \<in> set links. \<forall>v \<in> set (c_caveats (snd l)). caveat_permits v d"
    "scope_permits (effective_scope (rev (map snd links))) d"
    using check_inner_permits_iff by blast
  moreover from links(1) have "links \<noteq> []"
    by (auto simp: chain_from_Some)
  ultimately show ?thesis
    using ancestors_permit [OF links(1) narrow] effective_scope_leaf [OF links(1) narrow]
    by (intro exI [of _ links]) auto
qed

lemma demo_run:
  "cap_run demo_cap_ctx (\<lambda>c. c_parent c = None) (with_max_depth 8 memory_store_new)
     (snd (issue demo_deps demo_inputs (demo_cap 1 (AgentId 2) ''read'' None) (with_max_depth 8 memory_store_new)))"
  by (rule cap_more [OF cap_refl cap_issue]) (simp_all add: no_collision_def with_max_depth_def)

theorem authority_within_every_link_witness:
  "let cs = snd (issue demo_deps demo_inputs (demo_cap 1 (AgentId 2) ''read'' None)
        (with_max_depth 8 memory_store_new))
   in \<exists>links. chain_from cs (Some (demo_id 1)) links
        \<and> (\<forall>(i, c) \<in> set links. scope_permits (c_scope c) (demo_action ''read''))"
proof -
  let ?c = "demo_cap 1 (AgentId 2) ''read'' None"
  let ?cs = "snd (issue demo_deps demo_inputs ?c (with_max_depth 8 memory_store_new))"
  have store: "cs_by_id ?cs = [(demo_id 1, ?c)]" "cs_revoked ?cs = []" "cs_max_depth ?cs = 8"
    by (simp_all add: issue_by_id with_max_depth_def)
  have "chain_from ?cs (Some (demo_id 1)) [(demo_id 1, ?c)]"
    by (simp add: chain_from_Some chain_from_None store)
  then have "permits_now demo_deps demo_inputs (demo_id 1) (demo_action ''read'') ?cs"
    unfolding check_inner_permits_iff
    by (intro exI [of _ "[(demo_id 1, ?c)]"])
      (simp add: store link_ok_def demo_action_def [THEN arg_cong [of _ _ ad_resource_tags]])
  then obtain out s where "check_inner demo_deps demo_inputs (demo_id 1) (demo_action ''read'') ?cs = Inr (out, s)"
    "co_permitted out"
    by blast
  from authority_within_every_link [OF demo_run this] show ?thesis
    unfolding Let_def by (auto simp: case_prod_beta)
qed

section \<open>Revocation and quarantine\<close>

text \<open>
  (C24) Revocation is final: once a capability has been revoked, whatever is issued, attenuated,
  revoked or checked afterwards, no check of it or of any capability whose chain passes through
  it permits anything, at any time and under any quarantine state.
\<close>

theorem revocation_final:
  assumes "hm_get (cs_by_id cs) i \<noteq> None"
    and "cap_run cx ok (snd (revoke dp io i reason cs)) cs'"
    and "chain_from cs' (Some cid) links" and "i \<in> fst ` set links"
  shows "\<not> (\<exists>out s. check_inner dp' io' cid d cs' = Inr (out, s) \<and> co_permitted out)"
proof -
  have "hm_get (cs_revoked (snd (revoke dp io i reason cs))) i \<noteq> None"
    using assms(1) by (auto simp: revoke_revoked)
  then have "hm_get (cs_revoked cs') i \<noteq> None"
    using revoked_kept_run [OF assms(2)] by blast
  moreover have "links' = links" if "chain_from cs' (Some cid) links'" for links'
    using chain_from_unique that assms(3) by blast
  ultimately show ?thesis
    using assms(4) unfolding check_inner_permits_iff by (auto simp: link_ok_def)
qed

theorem revocation_final_witness:
  "\<not> (\<exists>out s. check_inner demo_deps demo_inputs (demo_id 2) (demo_action ''read'')
        (snd (revoke demo_deps demo_inputs (demo_id 1) ''compromised'' demo_store)) = Inr (out, s)
        \<and> co_permitted out)"
proof -
  let ?cs = "snd (revoke demo_deps demo_inputs (demo_id 1) ''compromised'' demo_store)"
  have "chain_from ?cs (Some (demo_id 2))
    [(demo_id 2, demo_cap 2 (AgentId 2) ''read'' (Some (demo_id 1))),
     (demo_id 1, demo_cap 1 (AgentId 2) ''read'' None)]"
    by (intro chain_from.intros) (simp_all add: demo_store_def chain_from_None chain_from_Some)
  from revocation_final [OF _ cap_refl this] show ?thesis
    by (simp add: demo_store_def)
qed

text \<open>
  Quarantine is categorical: for a quarantined agent a fresh or narrowed capability is
  refused with the store unchanged, and a check of a stored, unrevoked capability that it holds
  is denied whatever the capability permits.
\<close>

theorem quarantined_agent_gets_nothing:
  assumes "cd_quarantined dp a"
  shows "(c_subject c = a \<longrightarrow> issue dp io c cs = (Inl (SubjectQuarantined a), cs)
           \<and> attenuate dp io c cs = (Inl (SubjectQuarantined a), cs))
    \<and> (hm_get (cs_by_id cs) cid = Some leaf \<and> hm_get (cs_revoked cs) cid = None \<and> c_subject leaf = a \<longrightarrow>
         check_inner dp io cid d cs =
           Inr (outcome_deny (Some cid) ''subject_quarantined'' [], c_swarm_id leaf))"
  using assms by (auto simp: issue_def attenuate_def check_inner_def)

theorem quarantined_agent_gets_nothing_witness:
  "issue demo_deps demo_inputs (demo_cap 1 (AgentId 13) ''read'' None) demo_store =
     (Inl (SubjectQuarantined (AgentId 13)), demo_store)"
proof -
  have q: "cd_quarantined demo_deps (AgentId 13)"
    by simp
  show ?thesis
    using quarantined_agent_gets_nothing [OF q, of "demo_cap 1 (AgentId 13) ''read'' None" demo_inputs demo_store]
    by simp
qed

section \<open>The record of decisions\<close>

text \<open>
  Every decision is on record: when a check returns an evaluation, the receipt store holds,
  under the returned identifier, the address of a receipt made by the control plane whose action
  kind is pass or deny as decided, whose evidence names the action, the capability and, on a
  denial, the reason; the tables of capabilities and revocations are unchanged and no earlier
  receipt is lost.
\<close>

theorem check_is_recorded:
  assumes "check_capability dp io cid d cs = (Inr ev, cs')"
  shows "(\<exists>r. ce_check_receipt ev = content_address (cd_receipt_ctx dp) r
      \<and> r_actor r = cp_agent_id (cd_control_plane dp)
      \<and> r_action_kind r = (if co_permitted (ce_outcome ev) then ''capability.check.pass''
                            else ''capability.check.deny'')
      \<and> r_evidence r = check_evidence (ce_outcome ev) d)
    \<and> get_receipt (cs_receipts cs') (ce_check_receipt ev) \<noteq> None
    \<and> (\<forall>h r. get_receipt (cs_receipts cs) h = Some r \<longrightarrow> get_receipt (cs_receipts cs') h = Some r)
    \<and> cs_by_id cs' = cs_by_id cs \<and> cs_revoked cs' = cs_revoked cs"
proof -
  obtain out s h where ev: "ev = \<lparr>ce_outcome = out, ce_check_receipt = h\<rparr>"
    and rec: "record_event dp io (check_action_kind out) s (check_evidence out d) cs = (Inr h, cs')"
    using assms by (auto simp: check_capability_def record_check_def rbind_eq_Inr split: sum.splits prod.splits)
  from rec obtain r where r: "event_receipt dp io (check_action_kind out) s (check_evidence out d) = Inr r"
    "h = content_address (cd_receipt_ctx dp) r"
    "cs_receipts cs' = snd (append_receipt (cd_receipt_ctx dp) (cd_resolver dp) r (cs_receipts cs))"
    "get_receipt (cs_receipts cs') h \<noteq> None"
    by (rule record_event_Inr)
  note f = event_receipt_fields [OF r(1)]
  have frame: "cs_by_id cs' = cs_by_id cs" "cs_revoked cs' = cs_revoked cs"
    using record_event_frame [of dp io "check_action_kind out" s "check_evidence out d" cs] rec by simp_all
  have "\<exists>r. h = content_address (cd_receipt_ctx dp) r \<and> r_actor r = cp_agent_id (cd_control_plane dp)
      \<and> r_action_kind r = check_action_kind out \<and> r_evidence r = check_evidence out d"
    using f r(2) by blast
  then show ?thesis
    using r(3,4) frame memory_log.append_keeps by (simp add: ev check_action_kind_def)
qed

lemma check_evidence_not_Nil: "check_evidence out d \<noteq> []"
  by (simp add: check_evidence_def)

theorem check_is_recorded_witness:
  "\<exists>ev cs'. check_capability demo_deps demo_inputs (demo_id 2) (demo_action ''read'') demo_store = (Inr ev, cs')
     \<and> get_receipt (cs_receipts cs') (ce_check_receipt ev) \<noteq> None"
proof -
  obtain out s where out: "check_inner demo_deps demo_inputs (demo_id 2) (demo_action ''read'') demo_store = Inr (out, s)"
    using demo_permits by blast
  obtain h cs' where "record_event demo_deps demo_inputs (check_action_kind out) s
      (check_evidence out (demo_action ''read'')) demo_store = (Inr h, cs')"
    using demo_event_ok [of "check_evidence out (demo_action ''read'')"] check_evidence_not_Nil by blast
  then have ok: "check_capability demo_deps demo_inputs (demo_id 2) (demo_action ''read'') demo_store
      = (Inr \<lparr>ce_outcome = out, ce_check_receipt = h\<rparr>, cs')"
    by (simp add: check_capability_def out record_check_def)
  with check_is_recorded [OF this] show ?thesis
    by blast
qed

text \<open>
  Issuing stores first and records second: for a subject that is not quarantined the
  capability is in the store afterwards even when recording the issuance fails, and it is then
  live although the caller sees an error and no receipt was added.
\<close>

theorem issue_failure_leaves_capability:
  assumes "issue dp io c cs = (Inl e, cs')" and "\<not> cd_quarantined dp (c_subject c)"
  shows "hm_get (cs_by_id cs') (capability_address (cd_capability_ctx dp) c) = Some c
    \<and> cs_receipts cs' = cs_receipts cs"
proof -
  let ?cs = "cs\<lparr>cs_by_id := hm_insert (capability_address (cd_capability_ctx dp) c) c (cs_by_id cs)\<rparr>"
  have e: "record_event dp io ''capability.issue'' (c_swarm_id c)
      [evidence_new ''capability_hash'' TYPE_HASH (digest (capability_address (cd_capability_ctx dp) c)),
       evidence_new ''subject'' TYPE_AGENT_ID (agent_as_bytes (c_subject c))] ?cs = (Inl e, cs')"
    using assms by (auto simp: issue_def Let_def issuance_outcome_def record_issue_def rbind_eq_Inl prod_eq_iff)
  from record_event_Inl [OF this] show ?thesis
    by simp
qed

theorem issue_failure_leaves_capability_witness:
  "let dp = demo_deps\<lparr>cd_control_plane := demo_identity\<lparr>cp_sign := \<lambda>m. Inl ''kms down''\<rparr>\<rparr>;
       c = demo_cap 5 (AgentId 2) ''read'' None
   in hm_get (cs_by_id (snd (issue dp demo_inputs c demo_store))) (demo_id 5) = Some c"
proof -
  let ?dp = "demo_deps\<lparr>cd_control_plane := demo_identity\<lparr>cp_sign := \<lambda>m. Inl ''kms down''\<rparr>\<rparr>"
  let ?c = "demo_cap 5 (AgentId 2) ''read'' None"
  have "\<exists>e. fst (issue ?dp demo_inputs ?c demo_store) = Inl e"
    by (simp add: issue_def Let_def issuance_outcome_def record_issue_def record_event_def event_receipt_def
        receipt_build_def receipt_builder_new_def spec_version_parse_def numeric_prefix_def parse_u32_def
        digits_value_def is_digit_def)
  then obtain e where "issue ?dp demo_inputs ?c demo_store = (Inl e, snd (issue ?dp demo_inputs ?c demo_store))"
    by (metis prod.collapse)
  from issue_failure_leaves_capability [OF this] show ?thesis
    by simp
qed

section \<open>A gap: disjoint scopes\<close>

lemma dimension_met:
  "empty_or_contains a n \<Longrightarrow> empty_or_contains b n \<Longrightarrow> empty_or_contains (intersect_or_take_one a b) n"
  by (auto simp: empty_or_contains_def intersect_or_take_one_def)

lemma disjoint_dimension_free: "\<not> overlap a b \<Longrightarrow> intersect_or_take_one a b = []"
  by (auto simp: overlap_def intersect_or_take_one_def list_ex_iff filter_empty_conv)

lemma bounds_met:
  assumes "bt_wf l" and "bound_ok l k v" and "bound_ok r k v"
  shows "bound_ok (intersect_bounds l r) k v"
  using assms(2,3)
  by (auto simp: bound_ok_def intersect_bounds_get [OF assms(1)] smaller_bound_def split: option.splits)

text \<open>A scope that no longer constrains the kind of action.\<close>

abbreviation any_action :: "Scope \<Rightarrow> Scope" where
  "any_action s \<equiv> s\<lparr>permitted_actions := []\<rparr>"

lemma disjoint_intersection_permits:
  assumes "scope_wf s" and "\<not> overlap (permitted_actions s) (permitted_actions t)"
    and "scope_permits (any_action s) d" and "scope_permits (any_action t) d"
  shows "scope_permits (scope_intersect s t) d"
proof -
  have "bound_ok (bounds (scope_intersect s t)) k v" if "(k, v) \<in> set (ad_numeric_values d)" for k v
    using that assms(3,4) bounds_met [OF assms(1) [unfolded scope_wf_def]]
    by (fastforce simp: scope_permits_iff scope_intersect_def)
  then show ?thesis
    using assms(3,4) by (auto simp: scope_permits_iff scope_intersect_def disjoint_dimension_free [OF assms(2)]
        dimension_met empty_or_contains_def [of "[]"])
qed

lemma chain_from_insert:
  assumes "chain_from cs p links" and "i \<notin> fst ` set links" and "cs_by_id cs' = hm_insert i c (cs_by_id cs)"
  shows "chain_from cs' p links"
  using assms(1,2) by (induction rule: chain_from.induct) (auto simp: assms(3) chain_from_Some chain_from_None)

lemma issue_Inr:
  assumes "issue dp io c cs = (Inr out, cs1)"
  shows "\<not> cd_quarantined dp (c_subject c)" "io_capability_id out = capability_address (cd_capability_ctx dp) c"
    "cs_by_id cs1 = hm_insert (io_capability_id out) c (cs_by_id cs)" "cs_revoked cs1 = cs_revoked cs"
    "cs_max_depth cs1 = cs_max_depth cs"
proof -
  have cs1: "cs1 = snd (issue dp io c cs)"
    by (simp add: assms)
  show q: "\<not> cd_quarantined dp (c_subject c)" and i: "io_capability_id out = capability_address (cd_capability_ctx dp) c"
    using assms by (auto simp: issue_def issuance_outcome_def Let_def rbind_eq_Inr split: if_splits)
  show "cs_by_id cs1 = hm_insert (io_capability_id out) c (cs_by_id cs)" "cs_revoked cs1 = cs_revoked cs"
    "cs_max_depth cs1 = cs_max_depth cs"
    by (simp_all add: cs1 issue_by_id q i)
qed

text \<open>
  (C27) The rule that an empty dimension means all makes the intersection of disjoint scopes
  unconstrained. \<open>issue\<close> does not compare a capability with its parent: whenever a capability is issued
  under a valid chain whose effective scope and its own name action kinds that have none in common, a check
  of it permits actions of every kind that neither of the two names (as long as the other dimensions and the
  caveats admit them), although neither scope permits any of them.
\<close>

theorem disjoint_chain_permits_anything:
  assumes parent: "chain_from cs (Some pid) links" "length links < unat (cs_max_depth cs)"
      "\<forall>(i, c) \<in> set links. hm_get (cs_revoked cs) i = None \<and> is_within_window (cc_ext (cd_capability_ctx dp)) c (in_now io)
         \<and> (\<forall>v \<in> set (c_caveats c). caveat_permits v d)"
    and child: "c_parent child = Some pid" "is_within_window (cc_ext (cd_capability_ctx dp)) child (in_now io)"
      "\<forall>v \<in> set (c_caveats child). caveat_permits v d"
    and issued: "issue dp io child cs = (Inr out, cs1)" "hm_get (cs_revoked cs) (io_capability_id out) = None"
      "io_capability_id out \<notin> fst ` set links"
    and scopes: "held = effective_scope (rev (map snd links))" "scope_wf held"
      "\<not> overlap (permitted_actions held) (permitted_actions (c_scope child))"
    and action: "ad_action_kind d \<notin> set (permitted_actions held) \<union> set (permitted_actions (c_scope child))"
      "scope_permits (any_action held) d" "scope_permits (any_action (c_scope child)) d"
  shows "permits_now dp io (io_capability_id out) d cs1 \<and> \<not> scope_permits held d \<and> \<not> scope_permits (c_scope child) d"
proof
  note store = issue_Inr [OF issued(1)]
  let ?chain = "(io_capability_id out, child) # links"
  have "links \<noteq> []"
    using parent(1) by (auto elim: chain_from.cases)
  then have "effective_scope (rev (map snd ?chain)) = scope_intersect held (c_scope child)"
    by (simp add: effective_scope_snoc scopes(1))
  then have "scope_permits (effective_scope (rev (map snd ?chain))) d"
    using disjoint_intersection_permits [OF scopes(2,3) action(2,3)] by simp
  moreover have "chain_from cs1 (Some (io_capability_id out)) ?chain"
    using chain_from_insert [OF parent(1) issued(3) store(3)] child(1) by (intro chain_from.intros) (simp_all add: store(3))
  ultimately show "permits_now dp io (io_capability_id out) d cs1"
    unfolding check_inner_permits_iff
    using parent(2,3) child issued(2) store(1) by (intro exI [of _ ?chain]) (auto simp: store link_ok_def)
  show "\<not> scope_permits held d \<and> \<not> scope_permits (c_scope child) d"
    using scopes(3) action(1) by (auto simp: scope_permits_iff empty_or_contains_def overlap_def)
qed

theorem disjoint_chain_permits_anything_witness:
  "\<exists>out cs1. issue demo_deps demo_inputs (demo_cap 3 (AgentId 2) ''write'' (Some (demo_id 1))) demo_store = (Inr out, cs1)
     \<and> permits_now demo_deps demo_inputs (io_capability_id out) (demo_action ''delete'') cs1
     \<and> \<not> scope_permits (for_action ''read'') (demo_action ''delete'') \<and> \<not> scope_permits (for_action ''write'') (demo_action ''delete'')"
proof -
  let ?child = "demo_cap 3 (AgentId 2) ''write'' (Some (demo_id 1))" and ?root = "demo_cap 1 (AgentId 2) ''read'' None"
  have chain: "chain_from demo_store (Some (demo_id 1)) [(demo_id 1, ?root)]"
    by (intro chain_from.intros) (simp_all add: demo_store_def chain_from_None)
  obtain h cs2 where "record_issue demo_deps demo_inputs (demo_id 3) ?child
      (demo_store\<lparr>cs_by_id := hm_insert (demo_id 3) ?child (cs_by_id demo_store)\<rparr>) = (Inr h, cs2)"
    unfolding record_issue_def using demo_event_ok by (metis list.distinct(1))
  then have run: "issue demo_deps demo_inputs ?child demo_store = (Inr \<lparr>io_capability_id = demo_id 3, io_issuance_receipt = h\<rparr>, cs2)"
    by (simp add: issue_def issuance_outcome_def Let_def)
  have "\<not> overlap (permitted_actions (for_action ''read'')) (permitted_actions (for_action ''write''))"
    "ad_action_kind (demo_action ''delete'') \<notin> set (permitted_actions (for_action ''read'')) \<union> set (permitted_actions (for_action ''write''))"
    "scope_permits (any_action (for_action k)) (demo_action ''delete'')" for k
    by (simp_all add: overlap_def for_action_def scope_empty_def demo_action_def scope_permits_iff empty_or_contains_def)
  with run disjoint_chain_permits_anything [OF chain _ _ _ _ _ run, where held = "for_action ''read''" and d = "demo_action ''delete''"]
  show ?thesis by (simp add: demo_action_def [THEN arg_cong [of _ _ ad_resource_tags]])
qed
end
