(* ===== verification/Service_Properties.thy ===== *)
theory Service_Properties
  imports Service_Runs Authority_Properties
begin

text \<open>
  Properties of the registry, of authentication and of the admission and capability services.
\<close>

section \<open>Concrete services\<close>

definition demo_passport :: "AgentId \<Rightarrow> Passport" where
  "demo_passport a =
     \<lparr>pp_spec_version = SpecVersion ''1.0.0'', pp_agent_id = a, pp_swarm_id = SwarmId 1,
      pp_agent_public_key = demo_public_key, pp_owner = [], pp_framework = [], pp_framework_version = [],
      pp_capabilities = [], pp_accepted_constitution_version = [], pp_tier = Minimal,
      pp_resources = resource_default, pp_issued_at = demo_time 1, pp_expires_at = None,
      pp_default_model_provider = [], pp_default_model_name = [],
      pp_agent_signature = Some (demo_signature [3])\<rparr>"

definition demo_closed :: ClosedPolicy where
  "demo_closed = \<lparr>allowlisted_agents = [AgentId 2, AgentId 4, AgentId 9],
     allowlisted_owner_key_fingerprints = [], pending_review_on_unknown = False\<rparr>"

definition demo_topology :: Topology where
  "demo_topology =
     \<lparr>top_spec_version = SpecVersion ''1.0.0'', top_swarm_id = SwarmId 1, top_mode = Closed,
      top_admission = ClosedAdmission demo_closed, top_max_capability_lifetime_seconds = 60,
      top_max_capability_chain_depth = 8, top_default_envelope_ttl_seconds = 60, top_max_epoch_skew = 1,
      top_external_sends_permitted = False, top_require_capability_for_send = True,
      top_initial_constitution_version = [], top_operator_key_fingerprint = [], top_operator_signature = None\<rparr>"

definition demo_registry_deps :: reg_deps where
  "demo_registry_deps =
     \<lparr>rgd_topology = demo_topology, rgd_receipt_ctx = demo_ctx,
      rgd_passport_ctx = \<lparr>pcx_ext = demo_ext, pcx_encode = (\<lambda>p. [3])\<rparr>,
      rgd_control_plane = demo_identity, rgd_attestor = native_attestor\<rparr>"

definition demo_clock :: event_clock where
  "demo_clock = \<lparr>occurred_now = demo_time 6, signed_now = demo_time 7\<rparr>"

definition demo_passports :: MemoryPassportStore where
  "demo_passports = \<lparr>ps_live = [(AgentId 9, demo_passport (AgentId 9)), (AgentId 2, demo_passport (AgentId 2))],
     ps_revoked = []\<rparr>"

definition demo_registry :: RegistryState where
  "demo_registry = \<lparr>rg_passports = demo_passports, rg_receipts = memory_store_new\<rparr>"

lemma demo_passport_signed:
  "verify_self_signature (rgd_passport_ctx demo_registry_deps) (demo_passport a) = Inr ()"
  by (simp add: verify_self_signature_Inr passport_bytes_def demo_registry_deps_def demo_passport_def
      demo_verifies)

lemma demo_register_facts:
  "pp_swarm_id (demo_passport a) = SwarmId 1" "pp_agent_id (demo_passport a) = a"
  "pp_agent_public_key (demo_passport a) = demo_public_key"
  "top_swarm_id (rgd_topology demo_registry_deps) = SwarmId 1"
  "check_admission (top_admission (rgd_topology demo_registry_deps)) (demo_passport (AgentId 4)) = Inr ()"
  "attestor_id (rgd_attestor demo_registry_deps) = ''native''"
  "attestor_verify (rgd_attestor demo_registry_deps) ac [] =
     Inr \<lparr>ai_external_identity = ''yutha:native:'' @ hex_encode (agent_as_bytes (ac_claimed_agent_id ac)),
       ai_credential_expires_at = None, ai_attributes = []\<rparr>"
  "rg_passports demo_registry = demo_passports" "hm_get (ps_live demo_passports) (AgentId 4) = None"
  "rg_receipts demo_registry = memory_store_new"
  by (simp_all add: demo_registry_deps_def demo_topology_def demo_passport_def check_closed_def
      demo_closed_def native_attestor_def demo_registry_def demo_passports_def)

text \<open>With the control plane live, every receipt it builds is appended.\<close>

lemma demo_registry_record:
  assumes "ev \<noteq> []" and "hm_get (ps_live (rg_passports rg)) (AgentId 9) = Some (demo_passport (AgentId 9))"
  shows "\<exists>h rg'. registry_record demo_registry_deps (build_signed_receipt demo_registry_deps demo_clock k ev) rg
      = (Inr h, rg')"
proof -
  have v: "spec_version_parse ''1.0.0'' = Inr (SpecVersion ''1.0.0'')"
    by (simp add: spec_version_parse_def numeric_prefix_def parse_u32_def digits_value_def is_digit_def)
  define u where "u = \<lparr>r_spec_version = SpecVersion ''1.0.0'', r_swarm_id = SwarmId 1, r_actor = AgentId 9,
      r_action_kind = k, r_causal = causal_empty, r_evidence = ev, r_constitution_version = [],
      r_cost = None, r_occurred_at = demo_time 6, r_seal = unsealed, r_signatures = []\<rparr>"
  let ?r = "u\<lparr>r_signatures := [\<lparr>sb_role = Actor,
      sb_signature = demo_signature (canonical_bytes demo_ctx u), sb_signed_at = demo_time 7\<rparr>]\<rparr>"
  have r: "build_signed_receipt demo_registry_deps demo_clock k ev = Inr ?r"
    using assms(1) by (simp add: build_signed_receipt_def v receipt_build_def receipt_builder_new_def
        demo_registry_deps_def demo_topology_def demo_identity_def demo_clock_def u_def)
  have "resolve_actor (resolver_adapter (rg_passports rg)) (r_actor u) = Inr (Some demo_public_key)"
    using assms(2) by (simp add: u_def demo_passport_def)
  from demo_append_signed [OF this, of "demo_time 7" "rg_receipts rg"] show ?thesis
    using r by (auto simp: registry_record_def registry_append_def demo_registry_deps_def)
qed

lemma demo_register_ok:
  "\<exists>out rg'. registry_register demo_registry_deps demo_clock (demo_passport (AgentId 4)) [] demo_registry = (Inr out, rg')
     \<and> ro_agent_id out = AgentId 4"
proof -
  let ?p = "demo_passport (AgentId 4)"
  let ?ps = "demo_passports\<lparr>ps_live := hm_insert (AgentId 4) ?p (ps_live demo_passports)\<rparr>"
  define identity where "identity = \<lparr>ai_external_identity = ''yutha:native:'' @ hex_encode (agent_as_bytes (AgentId 4)),
      ai_credential_expires_at = None, ai_attributes = []\<rparr>"
  have rec: "\<exists>h rg'. registry_record demo_registry_deps
      (build_registration_receipt demo_registry_deps demo_clock ?p identity ''native'')
      (demo_registry\<lparr>rg_passports := ?ps\<rparr>) = (Inr h, rg')"
    unfolding build_registration_receipt_def
    by (rule demo_registry_record) (simp_all add: registration_evidence_def demo_passports_def)
  have reg: "registry_register demo_registry_deps demo_clock ?p [] demo_registry =
      with_receipt (accepted_outcome (AgentId 4)) (registry_record demo_registry_deps
        (build_registration_receipt demo_registry_deps demo_clock ?p identity ''native'')
        (demo_registry\<lparr>rg_passports := ?ps\<rparr>))"
    using demo_passport_signed [of "AgentId 4"]
    by (simp add: registry_register_def store_register_def Let_def demo_register_facts identity_def)
  show ?thesis
    using rec reg by (auto simp: with_receipt_def accepted_outcome_def)
qed

section \<open>Registration\<close>

text \<open>
  (C28) Admission is sound: when a registration succeeds, the passport is signed by the key it
  carries, belongs to this swarm, passes the admission policy and was attested, the agent was not
  registered before, its key now resolves for receipts, and the registration receipt by the
  control plane with the passport's identity is on record.
\<close>

theorem registration_sound:
  assumes "registry_register dp ck p cred rg = (Inr out, rg')"
  shows "verify_self_signature (rgd_passport_ctx dp) p = Inr ()
    \<and> pp_swarm_id p = top_swarm_id (rgd_topology dp)
    \<and> check_admission (top_admission (rgd_topology dp)) p = Inr ()
    \<and> hm_get (ps_live (rg_passports rg)) (pp_agent_id p) = None
    \<and> resolve_actor (resolver_adapter (rg_passports rg')) (pp_agent_id p) = Inr (Some (pp_agent_public_key p))
    \<and> (\<exists>h identity r. ro_registration_receipt out = Some h
         \<and> attestor_verify (rgd_attestor dp)
             \<lparr>ac_swarm_id = pp_swarm_id p, ac_claimed_agent_id = pp_agent_id p,
              ac_agent_public_key = pp_agent_public_key p\<rparr> cred = Inr identity
         \<and> h = content_address (rgd_receipt_ctx dp) r \<and> r_action_kind r = ''agent.register''
         \<and> r_actor r = cp_agent_id (rgd_control_plane dp)
         \<and> r_evidence r = registration_evidence dp p identity (attestor_id (rgd_attestor dp))
         \<and> get_receipt (rg_receipts rg') h \<noteq> None)"
  using assms
proof (cases rule: registry_register_Inr)
  case (1 identity h r)
  note f = build_signed_receipt_fields [OF 1(8) [unfolded build_registration_receipt_def]]
  have "\<exists>h identity r. ro_registration_receipt out = Some h
         \<and> attestor_verify (rgd_attestor dp)
             \<lparr>ac_swarm_id = pp_swarm_id p, ac_claimed_agent_id = pp_agent_id p,
              ac_agent_public_key = pp_agent_public_key p\<rparr> cred = Inr identity
         \<and> h = content_address (rgd_receipt_ctx dp) r \<and> r_action_kind r = ''agent.register''
         \<and> r_actor r = cp_agent_id (rgd_control_plane dp)
         \<and> r_evidence r = registration_evidence dp p identity (attestor_id (rgd_attestor dp))
         \<and> get_receipt (rg_receipts rg') h \<noteq> None"
    using 1(4,7,9,10) f by (intro exI [of _ h] exI [of _ identity] exI [of _ r]) simp
  with 1(1,2,3,5,6) show ?thesis
    by simp
qed

theorem registration_sound_witness:
  "\<exists>out rg'. registry_register demo_registry_deps demo_clock (demo_passport (AgentId 4)) [] demo_registry = (Inr out, rg')
     \<and> resolve_actor (resolver_adapter (rg_passports rg')) (AgentId 4) = Inr (Some demo_public_key)"
proof -
  obtain out rg' where ok: "registry_register demo_registry_deps demo_clock (demo_passport (AgentId 4)) [] demo_registry = (Inr out, rg')"
    using demo_register_ok by blast
  from registration_sound [OF ok] ok show ?thesis
    by (auto simp: demo_passport_def)
qed

text \<open>
  Revocation in the registry is effective at once: after a self-revocation or an operator
  revocation of a registered agent, even when recording it failed, the agent's key no longer
  resolves and every receipt naming it as actor is refused, with the receipt store unchanged.
\<close>

theorem revoked_agent_cannot_sign:
  assumes "hm_get (ps_live (rg_passports rg)) a \<noteq> None"
    and "rg' = snd (registry_revoke dp ck a reason rg) \<or> rg' = snd (registry_operator_revoke dp ck a op reason rg)"
    and "r_actor r = a"
  shows "append_receipt cx (resolver_adapter (rg_passports rg')) r ms = (Inl (ActorNotResolvable a), ms)"
proof -
  have "hm_get (ps_live (rg_passports rg')) a = None"
    using assms(1,2)
    by (auto simp: registry_revoke_def registry_operator_revoke_def store_revoke_def delete_conv')
  then show ?thesis
    using assms(3) by (simp add: append_receipt_def append_admission_def)
qed

theorem revoked_agent_cannot_sign_witness:
  "append_receipt demo_ctx (resolver_adapter (rg_passports
       (snd (registry_revoke demo_registry_deps demo_clock (AgentId 2) ''bye'' demo_registry))))
     ((demo_receipt ''a'' 1)\<lparr>r_actor := AgentId 2\<rparr>) memory_store_new
   = (Inl (ActorNotResolvable (AgentId 2)), memory_store_new)"
  by (rule revoked_agent_cannot_sign [where rg = demo_registry])
    (auto simp: demo_registry_def demo_passports_def)

text \<open>
  A closed policy that lists any owner-key fingerprint admits every passport, whoever its
  owner is: the fingerprints are not compared with the passport.
\<close>

theorem owner_allowlist_admits_everyone:
  assumes "allowlisted_owner_key_fingerprints policy \<noteq> []"
  shows "check_closed policy p = Inr ()"
  using assms by (simp add: check_closed_def)

theorem owner_allowlist_admits_everyone_witness:
  "check_closed (demo_closed\<lparr>allowlisted_agents := [], allowlisted_owner_key_fingerprints := [replicate 32 1]\<rparr>)
     (demo_passport (AgentId 66)) = Inr ()"
  by (rule owner_allowlist_admits_everyone) simp

end
