(* ===== verification/Access_Properties.thy ===== *)
theory Access_Properties
  imports Service_Properties
begin

text \<open>
  Who may do what at the services, and what is left of an agent after its eviction: properties of
  whole requests and of executions, over the handlers of \<open>Control_Plane\<close>.
\<close>

section \<open>Concrete requests\<close>

definition demo_now :: Timestamp where
  "demo_now = \<lparr>wall_clock = ''5'', monotonic_ns = 5\<rparr>"

definition demo_expiry :: Timestamp where
  "demo_expiry = \<lparr>wall_clock = ''9'', monotonic_ns = 9\<rparr>"

definition demo_agent_token :: proto_AgentBearerToken where
  "demo_agent_token =
     \<lparr>abt_agent_id = Some (proto_of_agent (AgentId 2)), abt_swarm_id = Some (proto_of_swarm (SwarmId 1)),
      abt_issued_at = None, abt_expires_at = Some (proto_of_timestamp demo_expiry), abt_nonce = [],
      abt_extensions = None, abt_signature = Some (proto_of_signature (demo_signature [4]))\<rparr>"

definition demo_operator_token :: proto_OperatorBearerToken where
  "demo_operator_token =
     \<lparr>obt_operator_id = ''ops'', obt_swarm_id = Some (proto_of_swarm (SwarmId 1)),
      obt_issued_at = None, obt_expires_at = Some (proto_of_timestamp demo_expiry), obt_nonce = [],
      obt_extensions = None, obt_signature = Some (proto_of_signature (demo_signature [5]))\<rparr>"

definition demo_auth :: auth_ctx where
  "demo_auth =
     \<lparr>ax_ext = demo_ext, ax_hex_decode = (\<lambda>s. Some []),
      ax_decode_agent = (\<lambda>bs. Some demo_agent_token), ax_encode_agent = (\<lambda>t. [4]),
      ax_decode_operator = (\<lambda>bs. Some demo_operator_token), ax_encode_operator = (\<lambda>t. [5])\<rparr>"

definition demo_cp :: cp_deps where
  "demo_cp = \<lparr>cpd_auth = demo_auth, cpd_registry = demo_registry_deps, cpd_capability_ctx = demo_cap_ctx,
     cpd_operator_public_key = Some demo_public_key, cpd_quarantined = (\<lambda>a. False)\<rparr>"

definition demo_state :: ControlPlaneState where
  "demo_state = \<lparr>st_passports = demo_passports, st_capabilities = demo_store, st_revoked_agents = {}\<rparr>"

definition agent_header :: string where
  "agent_header = ''bearer agent 00''"

definition operator_header :: string where
  "operator_header = ''bearer operator 00''"

lemma demo_headers:
  "bearer_body AgentBearer (Some agent_header) = Inr ''00''"
  "bearer_body OperatorBearer (Some operator_header) = Inr ''00''"
  by (simp_all add: bearer_body_def agent_header_def operator_header_def parse_bearer_header_def
      strip_prefix_def trim_def is_blank_def is_visible_ascii_def Let_def)

lemma demo_expiry_ok: "timestamp_try_from demo_ext (proto_of_timestamp demo_expiry) = Inr demo_expiry"
  by (rule timestamp_codec.decode_encode)
    (simp add: timestamp_ok_def demo_expiry_def demo_ext_def is_digit_def)

lemma demo_signature_ok: "signature_try_from (proto_of_signature (demo_signature m)) = Inr (demo_signature m)"
  by (rule signature_codec.decode_encode) (simp add: signature_ok_def demo_signature_def)

lemma demo_not_expired: "\<not> token_expired demo_ext demo_now demo_expiry"
  by (simp add: not_token_expired wall_after_def parsed_wall_clock_def demo_now_def demo_expiry_def
      demo_ext_def is_digit_def digits_value_def)

lemma demo_operator_auth:
  "require_operator_bearer_auth (cpd_auth demo_cp) demo_now (Some operator_header)
     (cpd_operator_public_key demo_cp) (top_swarm_id (rgd_topology (cpd_registry demo_cp)))
   = Inr \<lparr>op_operator_id = ''ops'', op_swarm_id = SwarmId 1, op_expires_at = demo_expiry\<rparr>"
  using demo_verifies [of "[5]"] demo_not_expired
  by (simp add: require_operator_bearer_auth_def demo_headers demo_cp_def demo_auth_def
      demo_operator_token_def demo_registry_deps_def demo_topology_def demo_expiry_ok demo_signature_ok
      operator_token_bytes_def swarm_codec.decode_encode)

lemma demo_agent_auth:
  assumes "hm_get (ps_live (st_passports st)) (AgentId 2) = Some (demo_passport (AgentId 2))"
    and "AgentId 2 \<notin> st_revoked_agents st"
  shows "require_active_bearer_auth demo_cp demo_now (Some agent_header) st
    = Inr \<lparr>auth_agent_id = AgentId 2, auth_swarm_id = SwarmId 1, auth_expires_at = demo_expiry\<rparr>"
  using assms demo_verifies [of "[4]"] demo_not_expired
  by (simp add: require_active_bearer_auth_def peek_agent_bearer_agent_id_def require_bearer_auth_def
      demo_headers demo_cp_def demo_auth_def demo_agent_token_def demo_registry_deps_def demo_topology_def
      demo_expiry_ok demo_signature_ok agent_token_bytes_def swarm_codec.decode_encode
      agent_codec.decode_encode is_revoked_def demo_passport_def)

lemma demo_passport_ok: "passport_ok demo_ext (demo_passport a)"
  by (simp add: passport_ok_def demo_passport_def demo_time_def timestamp_ok_def signature_ok_def
      demo_signature_def public_key_ok_def demo_public_key_def demo_ext_def is_digit_def version_ok_def
      spec_version_parse_def numeric_prefix_def parse_u32_def digits_value_def)

lemma demo_passport_decodes:
  "passport_try_from (ax_ext (cpd_auth demo_cp)) (proto_of_passport (demo_passport a)) = Inr (demo_passport a)"
  using passport_codec.decode_encode [OF demo_passport_ok] by (simp add: demo_cp_def demo_auth_def)

lemma demo_cap_deps:
  "cap_deps_of demo_cp st = demo_deps\<lparr>cd_resolver := resolver_adapter (st_passports st), cd_quarantined := (\<lambda>a. False)\<rparr>"
  by (simp add: cap_deps_of_def demo_cp_def demo_deps_def demo_registry_deps_def)

lemma demo_cascade_ok:
  assumes "hm_get (ps_live (st_passports st)) (AgentId 9) = Some (demo_passport (AgentId 9))"
    and "\<forall>i \<in> set is. hm_get (cs_by_id cs) i \<noteq> None"
  shows "\<exists>hs cs'. cascade_revoke (cap_deps_of demo_cp st) (\<lambda>n. demo_inputs) n m is out cs = (Inr hs, cs')"
  using assms(2)
proof (induction "is" arbitrary: n out cs)
  case (Cons i js)
  have "resolve_actor (resolver_adapter (st_passports st)) (AgentId 9) = Inr (Some demo_public_key)"
    using assms(1) by (simp add: demo_passport_def)
  then have "\<exists>h cs1. revoke (cap_deps_of demo_cp st) demo_inputs i m cs = (Inr h, cs1)"
    using Cons.prems by (auto simp: revoke_def record_revoke_def demo_cap_deps intro!: demo_event_recorded)
  then obtain h cs1 where r: "revoke (cap_deps_of demo_cp st) demo_inputs i m cs = (Inr h, cs1)"
    by blast
  have "cs_by_id cs1 = cs_by_id cs"
    using revoke_frame(1) [of "cap_deps_of demo_cp st" demo_inputs i m cs] r by simp
  then show ?case
    using r Cons.IH [of cs1] Cons.prems by simp
qed simp

section \<open>Authentication\<close>

lemma require_bearer_auth_complete:
  assumes "agent_token_valid ax now h swarm a pk" and "resolve_actor rs a = Inr (Some pk)"
  shows "\<exists>auth. require_bearer_auth ax now h rs swarm = Inr auth \<and> auth_agent_id auth = a
    \<and> peek_agent_bearer_agent_id ax h = Some a"
proof -
  from assms(1) obtain hex bs token pe exp pg sig where
    t: "bearer_body AgentBearer h = Inr hex" "ax_hex_decode ax hex = Some bs"
    "ax_decode_agent ax bs = Some token" "abt_agent_id token = Some (proto_of_agent a)"
    "abt_swarm_id token = Some (proto_of_swarm swarm)" "abt_expires_at token = Some pe"
    "timestamp_try_from (ax_ext ax) pe = Inr exp" "wall_after (ax_ext ax) exp now"
    "abt_signature token = Some pg" "signature_try_from pg = Inr sig"
    "verify (ax_ext ax) pk (agent_token_bytes ax token) sig = Inr ()"
    unfolding agent_token_valid_def by blast
  have "\<not> token_expired (ax_ext ax) now exp"
    using t(8) by (simp add: not_token_expired)
  with t assms(2) show ?thesis
    by (simp add: require_bearer_auth_def peek_agent_bearer_agent_id_def
        agent_codec.decode_encode swarm_codec.decode_encode)
qed

text \<open>
  (C16) A request is authenticated as an agent exactly when the agent has not been revoked in this
  process, has a live passport, and the header carries an agent token naming it and this swarm,
  not yet expired on the wall clock, signed with the key of that passport.
\<close>

theorem authenticated_iff:
  "(\<exists>auth. require_active_bearer_auth dp now h st = Inr auth \<and> auth_agent_id auth = a) \<longleftrightarrow>
     a \<notin> st_revoked_agents st \<and>
     (\<exists>p. hm_get (ps_live (st_passports st)) a = Some p
        \<and> agent_token_valid (cpd_auth dp) now h (top_swarm_id (rgd_topology (cpd_registry dp)))
            a (pp_agent_public_key p))"
proof
  assume "\<exists>auth. require_active_bearer_auth dp now h st = Inr auth \<and> auth_agent_id auth = a"
  then show "a \<notin> st_revoked_agents st \<and>
     (\<exists>p. hm_get (ps_live (st_passports st)) a = Some p
        \<and> agent_token_valid (cpd_auth dp) now h (top_swarm_id (rgd_topology (cpd_registry dp)))
            a (pp_agent_public_key p))"
    using require_active_Inr by blast
next
  assume a: "a \<notin> st_revoked_agents st \<and>
     (\<exists>p. hm_get (ps_live (st_passports st)) a = Some p
        \<and> agent_token_valid (cpd_auth dp) now h (top_swarm_id (rgd_topology (cpd_registry dp)))
            a (pp_agent_public_key p))"
  then obtain p where live: "hm_get (ps_live (st_passports st)) a = Some p"
    and valid: "agent_token_valid (cpd_auth dp) now h (top_swarm_id (rgd_topology (cpd_registry dp)))
      a (pp_agent_public_key p)"
    by blast
  from live have "resolve_actor (resolver_adapter (st_passports st)) a = Inr (Some (pp_agent_public_key p))"
    by simp
  then obtain auth where "require_bearer_auth (cpd_auth dp) now h (resolver_adapter (st_passports st))
      (top_swarm_id (rgd_topology (cpd_registry dp))) = Inr auth" "auth_agent_id auth = a"
    "peek_agent_bearer_agent_id (cpd_auth dp) h = Some a"
    using require_bearer_auth_complete [OF valid] by blast
  with a show "\<exists>auth. require_active_bearer_auth dp now h st = Inr auth \<and> auth_agent_id auth = a"
    by (simp add: require_active_bearer_auth_def is_revoked_def)
qed

text \<open>
  Without credentials nothing happens: when the agent token is refused, every request of the
  admission and capability services that needs one is answered with that refusal and leaves the
  state as it was, and the same holds of an operator revocation and the operator token.
\<close>

theorem unauthenticated_changes_nothing:
  "(require_active_bearer_auth dp now h st = Inl s \<longrightarrow>
      handle_revoke dp now ck h a reason st = (Inl s, st)
      \<and> handle_rotate_key dp now h st = (Inl s, st)
      \<and> handle_get_topology dp now h st = (Inl s, st)
      \<and> handle_issue dp now io h cap st = (Inl s, st)
      \<and> handle_attenuate dp now io h req st = (Inl s, st)
      \<and> handle_revoke_capability dp now io h rq st = (Inl s, st)
      \<and> handle_check dp now io h ckr st = (Inl s, st))
   \<and> (require_operator_bearer_auth (cpd_auth dp) now h (cpd_operator_public_key dp)
        (top_swarm_id (rgd_topology (cpd_registry dp))) = Inl s \<longrightarrow>
      handle_operator_revoke dp now ck ios h a reason c st = (Inl s, st))"
  by (simp add: handle_revoke_def handle_rotate_key_def handle_get_topology_def handle_issue_def
      handle_attenuate_def handle_revoke_capability_def handle_check_def handle_operator_revoke_def
      with_auth_def)

theorem unauthenticated_changes_nothing_witness:
  "handle_check demo_cp demo_now demo_inputs None None demo_state
     = (Inl (unauth ''missing authorization metadata''), demo_state)"
proof -
  have "require_active_bearer_auth demo_cp demo_now None demo_state = Inl (unauth ''missing authorization metadata'')"
    by (simp add: require_active_bearer_auth_def peek_agent_bearer_agent_id_def require_bearer_auth_def
        bearer_body_def)
  with unauthenticated_changes_nothing show ?thesis
    by blast
qed

text \<open>Recording an event does not depend on the capabilities that are stored.\<close>

lemma record_event_other_fields:
  "fst (record_event dp io k sw ev (cs\<lparr>cs_by_id := m\<rparr>)) = fst (record_event dp io k sw ev cs)"
  "cs_receipts (snd (record_event dp io k sw ev (cs\<lparr>cs_by_id := m\<rparr>))) = cs_receipts (snd (record_event dp io k sw ev cs))"
  by (auto simp: record_event_def case_prod_beta Let_def split: sum.splits)

text \<open>
  The issuer's signature carries no weight at issuance: for any two signatures, or none, the
  store gives the same answer, records the same receipt and revokes nothing; no branch of the
  issuance verifies the signature that the caller supplied.
\<close>

theorem issuer_signature_never_checked:
  "fst (issue dp io (c\<lparr>c_issuer_signature := s\<rparr>) cs) = fst (issue dp io c cs)
   \<and> cs_receipts (snd (issue dp io (c\<lparr>c_issuer_signature := s\<rparr>) cs)) = cs_receipts (snd (issue dp io c cs))
   \<and> (sign_with_cp cdp (c\<lparr>c_issuer_signature := Some g\<rparr>) = Inr (c\<lparr>c_issuer_signature := Some g\<rparr>))"
proof (cases "cd_quarantined dp (c_subject c)")
  case False
  then show ?thesis
    by (simp add: issue_def record_issue_def issuance_outcome_def Let_def sign_with_cp_def
        record_event_other_fields)
qed (simp add: issue_def sign_with_cp_def)

section \<open>Eviction\<close>

text \<open>What a successful operator revocation with a cascade has done.\<close>

lemma operator_revoke_Inr:
  assumes "handle_operator_revoke dp now ck io h (Some (proto_of_agent a)) reason True st = (Inr resp, st1)"
  shows "a \<in> st_revoked_agents st1"
    and "hm_get (ps_live (st_passports st1)) a = None"
    and "hm_get (cs_by_id (st_capabilities st)) i = Some c \<Longrightarrow> c_subject c = a \<Longrightarrow>
      hm_get (cs_revoked (st_capabilities st1)) i \<noteq> None"
proof -
  obtain oa where oa: "require_operator_bearer_auth (cpd_auth dp) now h (cpd_operator_public_key dp)
      (top_swarm_id (rgd_topology (cpd_registry dp))) = Inr oa"
    using assms by (auto simp: handle_operator_revoke_def split: sum.splits)
  define op where "op = registry_operator_revoke (cpd_registry dp) ck a (op_operator_id oa) reason (registry_of st)"
  define mid where "mid = set_registry (snd op) st"
  define cas where "cas = cascade_revoke (cap_deps_of dp mid) io 0 (cascade_reason a)
      (list_for_subject (st_capabilities mid) a) [] (st_capabilities mid)"
  have run: "handle_operator_revoke dp now ck io h (Some (proto_of_agent a)) reason True st =
      (case fst op of
         Inl e \<Rightarrow> (Inl (registry_to_status e), mid)
       | Inr rid \<Rightarrow> (case fst cas of
            Inl e \<Rightarrow> (Inl (capability_to_status e), mid\<lparr>st_capabilities := snd cas\<rparr>)
          | Inr hs \<Rightarrow> (Inr \<lparr>orr_revocation_receipt = rid, orr_cascade_receipts = hs\<rparr>,
                        mark_revoked a (mid\<lparr>st_capabilities := snd cas\<rparr>))))"
    unfolding cas_def mid_def op_def
    by (simp add: handle_operator_revoke_def required_def agent_codec.decode_encode oa case_prod_beta
        Let_def split: sum.split)
  with assms obtain rid hs where reg: "fst op = Inr rid" and hs: "fst cas = Inr hs"
    and st1: "st1 = mark_revoked a (mid\<lparr>st_capabilities := snd cas\<rparr>)"
    by (auto split: sum.splits)
  show "a \<in> st_revoked_agents st1"
    by (simp add: st1)
  show "hm_get (ps_live (st_passports st1)) a = None"
    using registry_revoke_Inr(2) [OF reg [unfolded op_def]]
    by (auto simp: st1 mid_def op_def store_revoke_def)
  have caps: "cs_by_id (st_capabilities mid) = cs_by_id (st_capabilities st)"
    "cs_revoked (st_capabilities mid) = cs_revoked (st_capabilities st)"
    by (simp_all add: mid_def)
  show "hm_get (cs_revoked (st_capabilities st1)) i \<noteq> None"
    if c: "hm_get (cs_by_id (st_capabilities st)) i = Some c" "c_subject c = a"
  proof (cases "hm_get (cs_revoked (st_capabilities st)) i = None")
    case True
    with c have "i \<in> set (list_for_subject (st_capabilities mid) a)"
      by (force simp: list_for_subject_def caps dest: map_of_SomeD)
    moreover have "cas = (Inr hs, snd cas)"
      using hs by (simp add: prod_eq_iff)
    ultimately show ?thesis
      using cascade_revoke_all [of "cap_deps_of dp mid" io 0 "cascade_reason a"] cas_def st1 by fastforce
  next
    case False
    then have "hm_get (cs_revoked (snd cas)) i \<noteq> None"
      unfolding cas_def by (intro cascade_revoke_keeps) (simp add: caps)
    then show ?thesis
      by (simp add: st1)
  qed
qed

lemma revoked_link_denies:
  assumes "chain_from cs (Some cid) links" and "i \<in> fst ` set links"
    and "hm_get (cs_revoked cs) i \<noteq> None" and "check_inner dp io cid d cs = Inr (out, s)"
  shows "\<not> co_permitted out"
proof
  assume "co_permitted out"
  with assms(4) obtain links' where l: "chain_from cs (Some cid) links'"
    "\<forall>l \<in> set links'. link_ok (cc_ext (cd_capability_ctx dp)) cs (in_now io) l"
    using check_inner_permits_iff [of dp io cid d cs] by blast
  then have "\<forall>l \<in> set links. link_ok (cc_ext (cd_capability_ctx dp)) cs (in_now io) l"
    using chain_from_unique [OF l(1) assms(1)] by simp
  with assms(2,3) show False
    by (auto simp: link_ok_def)
qed

lemma demo_operator_revoke:
  "\<exists>resp st1. handle_operator_revoke demo_cp demo_now demo_clock (\<lambda>n. demo_inputs) (Some operator_header)
     (Some (proto_of_agent (AgentId 2))) ''bad'' c demo_state = (Inr resp, st1)"
proof -
  define ps where "ps = demo_passports\<lparr>ps_live := hm_remove (AgentId 2) (ps_live demo_passports),
      ps_revoked := hm_insert (AgentId 2) ''bad'' (ps_revoked demo_passports)\<rparr>"
  have live: "hm_get (ps_live ps) (AgentId 9) = Some (demo_passport (AgentId 9))"
    by (simp add: ps_def demo_passports_def)
  define op where "op = registry_operator_revoke demo_registry_deps demo_clock (AgentId 2) ''ops'' ''bad''
      (registry_of demo_state)"
  have revoked: "store_revoke (AgentId 2) ''bad'' demo_passports = (Inr (), ps)"
    by (simp add: store_revoke_def ps_def demo_passports_def)
  have "\<exists>h rg. op = (Inr h, rg)"
    unfolding op_def registry_operator_revoke_def
    using demo_registry_record live by (simp add: demo_state_def revoked)
  then obtain h rg where op: "op = (Inr h, rg)"
    by blast
  have "rg_passports (snd op) = ps"
    by (simp add: op_def revoked demo_state_def)
  with op have "\<exists>hs cs'. cascade_revoke (cap_deps_of demo_cp (set_registry rg demo_state)) (\<lambda>n. demo_inputs) 0 m
      (list_for_subject (st_capabilities (set_registry rg demo_state)) (AgentId 2)) []
      (st_capabilities (set_registry rg demo_state)) = (Inr hs, cs')" for m
    using live by (intro demo_cascade_ok) (auto simp: list_for_subject_def map_of_eq_None_iff)
  then obtain hs cs' where cas: "cascade_revoke (cap_deps_of demo_cp (set_registry rg demo_state)) (\<lambda>n. demo_inputs) 0
      (cascade_reason (AgentId 2)) (list_for_subject (st_capabilities (set_registry rg demo_state)) (AgentId 2)) []
      (st_capabilities (set_registry rg demo_state)) = (Inr hs, cs')"
    by blast
  have dp: "cpd_registry demo_cp = demo_registry_deps"
    by (simp add: demo_cp_def)
  show ?thesis
    using op [unfolded op_def] demo_operator_auth [unfolded dp] cas
    by (cases c) (simp_all add: handle_operator_revoke_def required_def agent_codec.decode_encode Let_def dp)
qed

lemma passport_returns:
  assumes "cp_run ok st1 st2" and "hm_get (ps_live (st_passports st1)) a = None"
    and "hm_get (ps_live (st_passports st2)) a \<noteq> None"
  obtains dp ck pp cred st where "ok dp" "cp_run ok st1 st" "hm_get (ps_live (st_passports st)) a = None"
    "hm_get (ps_live (st_passports (snd (handle_register dp ck pp cred st)))) a \<noteq> None"
    "cp_run ok (snd (handle_register dp ck pp cred st)) st2"
  using assms
proof (induction arbitrary: thesis rule: cp_run.induct)
  case (cp_more st st' st'')
  show ?case
  proof (cases "hm_get (ps_live (st_passports st')) a")
    case None
    with departures.kept_or_registered [OF cp_more.hyps(2)] cp_more.prems(3) obtain dp ck p cred where
      "ok dp" "st'' = snd (handle_register dp ck p cred st')"
      by (auto simp: passports_leave_def)
    with cp_more None show ?thesis by (metis cp_refl)
  next
    case (Some p)
    with cp_more show ?thesis by (metis cp_run.cp_more option.distinct(1))
  qed
qed simp

text \<open>
  (C6) Eviction is complete and final. After an operator revocation with a cascade has succeeded,
  then however the services go on (the agent may even be registered again), no request is ever
  authenticated as that agent, and no check permits anything on a capability that has one of the
  agent's capabilities in its chain. The revocation takes the agent's passport away; as long as there is
  none, every receipt in the agent's name is refused, and there is one again only if a registration
  after the revocation brought it.
\<close>

theorem eviction_locks_out:
  assumes "handle_operator_revoke dp now ck io h (Some (proto_of_agent a)) reason True st = (Inr resp, st1)"
    and "cp_run ok st1 st2"
  shows "(\<forall>dp' now' h' auth. require_active_bearer_auth dp' now' h' st2 = Inr auth \<longrightarrow> auth_agent_id auth \<noteq> a)
    \<and> (\<forall>i c. hm_get (cs_by_id (st_capabilities st)) i = Some c \<longrightarrow> c_subject c = a \<longrightarrow>
         (\<forall>cid links. chain_from (st_capabilities st2) (Some cid) links \<longrightarrow> i \<in> fst ` set links \<longrightarrow>
            (\<forall>dp' io' d out s. check_inner dp' io' cid d (st_capabilities st2) = Inr (out, s) \<longrightarrow>
               \<not> co_permitted out)))
    \<and> hm_get (ps_live (st_passports st1)) a = None
    \<and> (case hm_get (ps_live (st_passports st2)) a of
         None \<Rightarrow> \<forall>cx r ms. r_actor r = a \<longrightarrow>
           append_receipt cx (resolver_adapter (st_passports st2)) r ms = (Inl (ActorNotResolvable a), ms)
       | Some _ \<Rightarrow> \<exists>dp' ck' pp cred st'. ok dp' \<and> cp_run ok st1 st' \<and> hm_get (ps_live (st_passports st')) a = None
           \<and> hm_get (ps_live (st_passports (snd (handle_register dp' ck' pp cred st')))) a \<noteq> None
           \<and> cp_run ok (snd (handle_register dp' ck' pp cred st')) st2)"
proof (intro conjI)
  note first = operator_revoke_Inr [OF assms(1)]
  have grows: "revoked_grows st1 st2"
    by (rule revocations.kept_run [OF assms(2)])
  show "\<forall>dp' now' h' auth. require_active_bearer_auth dp' now' h' st2 = Inr auth \<longrightarrow> auth_agent_id auth \<noteq> a"
    using require_active_Inr(1) first(1) grows by (fastforce simp: revoked_grows_def)
  show "\<forall>i c. hm_get (cs_by_id (st_capabilities st)) i = Some c \<longrightarrow> c_subject c = a \<longrightarrow>
      (\<forall>cid links. chain_from (st_capabilities st2) (Some cid) links \<longrightarrow> i \<in> fst ` set links \<longrightarrow>
         (\<forall>dp' io' d out s. check_inner dp' io' cid d (st_capabilities st2) = Inr (out, s) \<longrightarrow> \<not> co_permitted out))"
    using revoked_link_denies first(3) grows by (metis revoked_grows_def)
  show "hm_get (ps_live (st_passports st1)) a = None"
    by (rule first(2))
  show "case hm_get (ps_live (st_passports st2)) a of
         None \<Rightarrow> \<forall>cx r ms. r_actor r = a \<longrightarrow>
           append_receipt cx (resolver_adapter (st_passports st2)) r ms = (Inl (ActorNotResolvable a), ms)
       | Some _ \<Rightarrow> \<exists>dp' ck' pp cred st'. ok dp' \<and> cp_run ok st1 st' \<and> hm_get (ps_live (st_passports st')) a = None
           \<and> hm_get (ps_live (st_passports (snd (handle_register dp' ck' pp cred st')))) a \<noteq> None
           \<and> cp_run ok (snd (handle_register dp' ck' pp cred st')) st2"
  proof (cases "hm_get (ps_live (st_passports st2)) a")
    case None
    then show ?thesis
      by (simp add: append_receipt_def append_admission_def)
  next
    case (Some p)
    then have "hm_get (ps_live (st_passports st2)) a \<noteq> None"
      by simp
    from passport_returns [OF assms(2) first(2) this] obtain dp' ck' pp cred st' where
      "ok dp'" "cp_run ok st1 st'" "hm_get (ps_live (st_passports st')) a = None"
      "hm_get (ps_live (st_passports (snd (handle_register dp' ck' pp cred st')))) a \<noteq> None"
      "cp_run ok (snd (handle_register dp' ck' pp cred st')) st2" .
    then show ?thesis
      unfolding Some option.case by (intro exI conjI)
  qed
qed

theorem eviction_locks_out_witness:
  "\<exists>resp st1. handle_operator_revoke demo_cp demo_now demo_clock (\<lambda>n. demo_inputs) (Some operator_header)
       (Some (proto_of_agent (AgentId 2))) ''bad'' True demo_state = (Inr resp, st1)
     \<and> (\<forall>dp now h auth. require_active_bearer_auth dp now h st1 = Inr auth \<longrightarrow> auth_agent_id auth \<noteq> AgentId 2)"
proof -
  obtain resp st1 where ok: "handle_operator_revoke demo_cp demo_now demo_clock (\<lambda>n. demo_inputs)
      (Some operator_header) (Some (proto_of_agent (AgentId 2))) ''bad'' True demo_state = (Inr resp, st1)"
    using demo_operator_revoke by blast
  show ?thesis
    by (rule exI, rule exI, rule conjI, rule ok, rule eviction_locks_out [OF ok cp_refl, THEN conjunct1])
qed

text \<open>
  An evicted agent is not readmitted by registering again. A passport naming a revoked agent
  may be accepted, and its key then resolves for receipts, but the set of revoked agents is never
  cleared: no header authenticates as that agent, neither after the registration nor later.
\<close>

theorem reissued_agent_locked_out:
  assumes "a \<in> st_revoked_agents st" and "handle_register dp ck (Some pp) cred st = (Inr out, st1)"
    and "ro_agent_id out = a" and "cp_run ok st1 st2"
  shows "(\<exists>p. hm_get (ps_live (st_passports st1)) a = Some p)
    \<and> (\<forall>dp' now h auth. require_active_bearer_auth dp' now h st2 = Inr auth \<longrightarrow> auth_agent_id auth \<noteq> a)"
proof -
  from assms(2) obtain p rg where p: "registry_register (cpd_registry dp) ck p cred (registry_of st) = (Inr out, rg)"
    and st1: "st1 = set_registry rg st"
    by (auto simp: handle_register_def Let_def split: sum.splits prod.splits)
  have "hm_get (ps_live (rg_passports rg)) a = Some p"
    using p assms(3) by (cases rule: registry_register_Inr) (auto simp: accepted_outcome_def)
  moreover have "revoked_grows st1 st2"
    by (rule revocations.kept_run [OF assms(4)])
  then have "a \<in> st_revoked_agents st2"
    using assms(1) st1 by (auto simp: revoked_grows_def)
  ultimately show ?thesis
    using st1 require_active_Inr(1) by auto
qed

theorem reissued_agent_locked_out_witness:
  "\<exists>out st1. handle_register demo_cp demo_clock (Some (proto_of_passport (demo_passport (AgentId 4)))) []
       (demo_state\<lparr>st_revoked_agents := {AgentId 4}\<rparr>) = (Inr out, st1)
     \<and> (\<forall>dp now h auth. require_active_bearer_auth dp now h st1 = Inr auth \<longrightarrow> auth_agent_id auth \<noteq> AgentId 4)"
proof -
  let ?st = "demo_state\<lparr>st_revoked_agents := {AgentId 4}\<rparr>"
  note dec = demo_passport_decodes [of "AgentId 4"]
  have rg: "registry_of ?st = demo_registry"
    by (simp add: registry_of_def demo_state_def demo_registry_def demo_store_def)
  obtain out rg' where reg: "registry_register demo_registry_deps demo_clock (demo_passport (AgentId 4)) [] demo_registry
      = (Inr out, rg')" "ro_agent_id out = AgentId 4"
    using demo_register_ok by blast
  have dp: "cpd_registry demo_cp = demo_registry_deps"
    by (simp add: demo_cp_def)
  have run: "handle_register demo_cp demo_clock (Some (proto_of_passport (demo_passport (AgentId 4)))) [] ?st
      = (Inr out, set_registry rg' ?st)"
    by (simp add: handle_register_def dec rg reg dp)
  have "AgentId 4 \<in> st_revoked_agents ?st"
    by simp
  from reissued_agent_locked_out [OF this run reg(2) cp_refl, THEN conjunct2] show ?thesis
    by (intro exI [of _ out] exI [of _ "set_registry rg' ?st"] conjI run)
qed

text \<open>
  An operator revocation cannot be repeated or resumed. Once the registry has dropped the
  passport, whether the first call succeeded or failed later (in its receipt or in the cascade), a
  second call for the same agent is answered NOT_FOUND and changes nothing, so capabilities that
  the first call left unrevoked stay so and the agent is not marked as revoked by it.
\<close>

theorem operator_revoke_not_repeatable:
  assumes "require_operator_bearer_auth (cpd_auth dp) now h (cpd_operator_public_key dp)
      (top_swarm_id (rgd_topology (cpd_registry dp))) = Inr oa"
    and "st1 = snd (handle_operator_revoke dp now ck io h (Some (proto_of_agent a)) reason c st)"
    and "require_operator_bearer_auth (cpd_auth dp) now' h' (cpd_operator_public_key dp)
      (top_swarm_id (rgd_topology (cpd_registry dp))) = Inr oa'"
  shows "handle_operator_revoke dp now' ck' io' h' (Some (proto_of_agent a)) reason' c' st1
    = (Inl (status NotFound ''passport''), st1)"
proof -
  have gone: "hm_get (ps_live (st_passports st1)) a = None"
    unfolding assms(2)
    by (simp add: handle_operator_revoke_def required_def agent_codec.decode_encode assms(1)
        case_prod_beta Let_def store_revoke_def split: sum.split)
  then have "registry_operator_revoke (cpd_registry dp) ck' a (op_operator_id oa') reason' (registry_of st1)
      = (Inl (RegistryPassport (PassportNotFound a)), registry_of st1)"
    by (simp add: registry_operator_revoke_def store_revoke_def registry_of_def)
  moreover have "set_registry (registry_of st1) st1 = st1"
    by (simp add: set_registry_def)
  ultimately show ?thesis
    by (simp add: handle_operator_revoke_def required_def agent_codec.decode_encode assms(3))
qed

theorem operator_revoke_not_repeatable_witness:
  "handle_operator_revoke demo_cp demo_now demo_clock (\<lambda>n. demo_inputs) (Some operator_header)
     (Some (proto_of_agent (AgentId 2))) ''bad'' True
     (snd (handle_operator_revoke demo_cp demo_now demo_clock (\<lambda>n. demo_inputs) (Some operator_header)
        (Some (proto_of_agent (AgentId 2))) ''bad'' True demo_state))
   = (Inl (status NotFound ''passport''),
      snd (handle_operator_revoke demo_cp demo_now demo_clock (\<lambda>n. demo_inputs) (Some operator_header)
        (Some (proto_of_agent (AgentId 2))) ''bad'' True demo_state))"
  by (rule operator_revoke_not_repeatable [OF demo_operator_auth HOL.refl demo_operator_auth])

section \<open>Self-revocation\<close>

text \<open>
  An agent revokes nobody but itself. A revocation that succeeds named the authenticated
  caller, whose passport is gone and who is marked as revoked afterwards; and whatever the outcome,
  the passport of every agent other than the caller, every capability and every revocation of a
  capability is left as it was.
\<close>

theorem self_revoke_only:
  "(handle_revoke dp now ck h target reason st = (Inr r, st') \<longrightarrow>
      (\<exists>auth. require_active_bearer_auth dp now h st = Inr auth
         \<and> target = Some (proto_of_agent (auth_agent_id auth))
         \<and> hm_get (ps_live (st_passports st')) (auth_agent_id auth) = None
         \<and> st_revoked_agents st' = insert (auth_agent_id auth) (st_revoked_agents st)
         \<and> get_receipt (cs_receipts (st_capabilities st')) r \<noteq> None))
   \<and> (handle_revoke dp now ck h target reason st = (res, st') \<longrightarrow>
      cs_by_id (st_capabilities st') = cs_by_id (st_capabilities st)
      \<and> cs_revoked (st_capabilities st') = cs_revoked (st_capabilities st)
      \<and> (\<forall>b. (\<forall>auth. require_active_bearer_auth dp now h st = Inr auth \<longrightarrow> auth_agent_id auth \<noteq> b) \<longrightarrow>
            hm_get (ps_live (st_passports st')) b = hm_get (ps_live (st_passports st)) b))"
proof (cases "require_active_bearer_auth dp now h st")
  case (Inl s)
  then show ?thesis
    by (auto simp: handle_revoke_def with_auth_def)
next
  case (Inr auth)
  let ?a = "auth_agent_id auth"
  let ?op = "registry_revoke (cpd_registry dp) ck ?a reason (registry_of st)"
  show ?thesis
  proof (cases "target = Some (proto_of_agent ?a)")
    case False
    then have "\<exists>s. handle_revoke dp now ck h target reason st = (Inl s, st)"
      by (cases target) (auto simp: handle_revoke_def with_auth_def Inr required_def
          agent_codec.decode_iff split: sum.splits)
    then show ?thesis by auto
  next
    case True
    then have run: "handle_revoke dp now ck h target reason st =
        (case fst ?op of
           Inl e \<Rightarrow> (Inl (registry_to_status e), set_registry (snd ?op) st)
         | Inr x \<Rightarrow> (Inr x, mark_revoked ?a (set_registry (snd ?op) st)))"
      by (simp add: handle_revoke_def with_auth_def Inr required_def agent_codec.decode_encode
          case_prod_beta Let_def)
    have gone: "hm_get (ps_live (snd (store_revoke ?a reason ps))) b =
        (if b = ?a then None else hm_get (ps_live ps) b)" for b ps
      by (auto simp: store_revoke_def)
    have "get_receipt (rg_receipts (snd ?op)) x \<noteq> None" if "fst ?op = Inr x" for x
      using registry_revoke_recorded(1) [OF that] .
    then show ?thesis
      unfolding run using True Inr by (auto simp: gone split: sum.split)
  qed
qed

theorem self_revoke_only_witness:
  "\<exists>r st'. handle_revoke demo_cp demo_now demo_clock (Some agent_header) (Some (proto_of_agent (AgentId 2)))
       ''bye'' demo_state = (r, st') \<and> hm_get (ps_live (st_passports st')) (AgentId 9) \<noteq> None"
proof -
  obtain r st' where run: "handle_revoke demo_cp demo_now demo_clock (Some agent_header)
      (Some (proto_of_agent (AgentId 2))) ''bye'' demo_state = (r, st')"
    by fastforce
  have "require_active_bearer_auth demo_cp demo_now (Some agent_header) demo_state
      = Inr \<lparr>auth_agent_id = AgentId 2, auth_swarm_id = SwarmId 1, auth_expires_at = demo_expiry\<rparr>"
    by (rule demo_agent_auth) (simp_all add: demo_state_def demo_passports_def)
  then have "hm_get (ps_live (st_passports st')) (AgentId 9) = hm_get (ps_live (st_passports demo_state)) (AgentId 9)"
    using self_revoke_only [THEN conjunct2, rule_format, OF run] by simp
  then show ?thesis
    using run by (auto simp: demo_state_def demo_passports_def)
qed

section \<open>Attenuation requests\<close>

lemma build_child_fields:
  assumes "build_child dp io i parent add extra until = Inr child"
  shows "c_parent child = Some i" "c_caveats child = c_caveats parent @ extra"
    "c_subject child = c_subject parent" "c_issuer child = c_issuer parent"
    "c_swarm_id child = c_swarm_id parent" "c_valid_until child = until"
    "c_scope child = scope_intersect (c_scope parent) add"
  using assms
  by (auto simp: build_child_def capability_build_def capability_builder_new_def sign_with_cp_def rbind_eq_Inr)

lemma attenuate_outcome:
  "fst (attenuate dp io c cs) = Inr out \<Longrightarrow> io_capability_id out = capability_address (cd_capability_ctx dp) c"
  by (auto simp: attenuate_def issuance_outcome_def Let_def rbind_eq_Inr split: option.splits if_splits)

lemma handle_attenuate_Inr:
  assumes "handle_attenuate dp now io h (Some req) st = (Inr (child, rid), st')"
  obtains i extra until parent where
    "ar_parent req = Some (proto_of_hash i)" "lookup_capability (st_capabilities st) i = Some parent"
    "monotonic_ns until \<le> monotonic_ns (c_valid_until parent)"
    "build_child dp io i parent (case ar_additional_constraints req of None \<Rightarrow> scope_empty | Some s \<Rightarrow> scope_from s)
       extra until = Inr child"
    "run_capability (attenuate (cap_deps_of dp st) io child) st =
       (Inr \<lparr>io_capability_id = capability_address (cpd_capability_ctx dp) child, io_issuance_receipt = rid\<rparr>, st')"
proof -
  from assms obtain ph i extra until parent out where
    req: "ar_parent req = Some ph" "hash_try_from ph = Inr i" "lookup_capability (st_capabilities st) i = Some parent"
    and until: "monotonic_ns until \<le> monotonic_ns (c_valid_until parent)"
    and child: "build_child dp io i parent
        (case ar_additional_constraints req of None \<Rightarrow> scope_empty | Some s \<Rightarrow> scope_from s) extra until = Inr child"
    and res: "run_capability (attenuate (cap_deps_of dp st) io child) st = (Inr out, st')"
    and rid: "rid = io_issuance_receipt out"
    unfolding handle_attenuate_def with_auth_Inr
    by (auto simp: required_def rbind_eq_Inr Let_def not_less split: sum.splits prod.splits if_splits)
  have "out = \<lparr>io_capability_id = capability_address (cpd_capability_ctx dp) child, io_issuance_receipt = rid\<rparr>"
    using res attenuate_outcome [of "cap_deps_of dp st" io child "st_capabilities st" out] rid
    by (cases out) (auto simp: run_capability_Inr)
  with req until child res show thesis
    using that hash_codec.decode_iff by auto
qed

text \<open>
  What an attenuation request can obtain: the child returned is stored, extends the caveats of
  an unrevoked stored parent by those of the request, keeps its subject, issuer and swarm, does not
  outlast it on the monotonic clock, and its scope permits only what the parent's scope permits.
  Its issuance is on record.
\<close>

theorem attenuate_request_narrows:
  assumes "handle_attenuate dp now io h (Some req) st = (Inr (child, rid), st')"
    and "\<forall>i c. hm_get (cs_by_id (st_capabilities st)) i = Some c \<longrightarrow> scope_wf (c_scope c)"
  shows "\<exists>i parent extra. ar_parent req = Some (proto_of_hash i)
    \<and> lookup_capability (st_capabilities st) i = Some parent \<and> c_parent child = Some i
    \<and> c_caveats child = c_caveats parent @ extra
    \<and> c_subject child = c_subject parent \<and> c_issuer child = c_issuer parent
    \<and> c_swarm_id child = c_swarm_id parent
    \<and> monotonic_ns (c_valid_until child) \<le> monotonic_ns (c_valid_until parent)
    \<and> (\<forall>d. scope_permits (c_scope child) d \<longrightarrow> scope_permits (c_scope parent) d)
    \<and> hm_get (cs_by_id (st_capabilities st')) (capability_address (cpd_capability_ctx dp) child) = Some child
    \<and> get_receipt (cs_receipts (st_capabilities st')) rid \<noteq> None"
proof -
  from assms(1) obtain i extra until parent where
    req: "ar_parent req = Some (proto_of_hash i)" "lookup_capability (st_capabilities st) i = Some parent"
    and until: "monotonic_ns until \<le> monotonic_ns (c_valid_until parent)"
    and child: "build_child dp io i parent (case ar_additional_constraints req of None \<Rightarrow> scope_empty | Some s \<Rightarrow> scope_from s)
        extra until = Inr child"
    and res: "run_capability (attenuate (cap_deps_of dp st) io child) st =
        (Inr \<lparr>io_capability_id = capability_address (cpd_capability_ctx dp) child, io_issuance_receipt = rid\<rparr>, st')"
    by (rule handle_attenuate_Inr)
  have fields: "c_parent child = Some i" "c_caveats child = c_caveats parent @ extra"
    "c_subject child = c_subject parent" "c_issuer child = c_issuer parent"
    "c_swarm_id child = c_swarm_id parent" "c_valid_until child = until"
    using build_child_fields [OF child] by simp_all
  have acc: "fst (attenuate (cap_deps_of dp st) io child (st_capabilities st)) = Inr
      \<lparr>io_capability_id = capability_address (cpd_capability_ctx dp) child, io_issuance_receipt = rid\<rparr>"
    and st': "st_capabilities st' = snd (attenuate (cap_deps_of dp st) io child (st_capabilities st))"
    using res by (auto simp: run_capability_Inr)
  have stored: "hm_get (cs_by_id (st_capabilities st)) i = Some parent"
    using req(2) by (simp add: lookup_capability_def split: if_splits)
  have "scope_intersect (c_scope parent) (c_scope child) = c_scope child"
    using attenuate_Inr_accepted [OF acc] fields(1) stored by (auto simp: attenuation_accepted_def)
  then have "\<forall>d. scope_permits (c_scope child) d \<longrightarrow> scope_permits (c_scope parent) d"
    using intersect_fixed_narrows assms(2) stored by blast
  moreover have "hm_get (cs_by_id (st_capabilities st')) (capability_address (cpd_capability_ctx dp) child) = Some child"
    using attenuate_Inr_accepted [OF acc] by (simp add: st' attenuate_by_id)
  moreover have "get_receipt (cs_receipts (st_capabilities st')) rid \<noteq> None"
    using capability_store_recorded(2) [OF acc] by (simp add: st')
  ultimately show ?thesis
    using req fields until by blast
qed

theorem attenuate_request_narrows_witness:
  "\<exists>child rid st'. handle_attenuate demo_cp demo_now demo_inputs (Some agent_header)
       (Some \<lparr>ar_parent = Some (proto_of_hash (demo_id 1)), ar_additional_constraints = None,
              ar_additional_caveats = [], ar_valid_until = Some (proto_of_timestamp demo_expiry)\<rparr>) demo_state
       = (Inr (child, rid), st')
     \<and> (\<forall>d. scope_permits (c_scope child) d \<longrightarrow> scope_permits (for_action ''read'') d)"
proof -
  let ?req = "\<lparr>ar_parent = Some (proto_of_hash (demo_id 1)), ar_additional_constraints = None,
      ar_additional_caveats = [], ar_valid_until = Some (proto_of_timestamp demo_expiry)\<rparr>"
  let ?parent = "demo_cap 1 (AgentId 2) ''read'' None"
  have auth: "require_active_bearer_auth demo_cp demo_now (Some agent_header) demo_state
      = Inr \<lparr>auth_agent_id = AgentId 2, auth_swarm_id = SwarmId 1, auth_expires_at = demo_expiry\<rparr>"
    by (rule demo_agent_auth) (simp_all add: demo_state_def demo_passports_def)
  have id: "hash_try_from (proto_of_hash (demo_id 1)) = Inr (demo_id 1)"
    by (rule hash_codec.decode_encode) (simp add: hash_ok_def demo_id_def)
  have look: "lookup_capability (st_capabilities demo_state) (demo_id 1) = Some ?parent"
    by (simp add: lookup_capability_def demo_state_def demo_store_def)
  have until: "\<not> monotonic_ns demo_expiry > monotonic_ns (c_valid_until ?parent)"
    by (simp add: demo_expiry_def demo_cap_def)
  have ext: "ax_ext (cpd_auth demo_cp) = demo_ext"
    by (simp add: demo_cp_def demo_auth_def)
  obtain child where child: "build_child demo_cp demo_inputs (demo_id 1) ?parent scope_empty [] demo_expiry = Inr child"
    by (auto simp: build_child_def capability_build_def capability_builder_new_def sign_with_cp_def
        demo_cp_def demo_registry_deps_def demo_identity_def)
  have scope: "c_scope child = for_action ''read''"
    using build_child_fields(7) [OF child]
    by (simp add: scope_intersect_def for_action_def scope_empty_def intersect_or_take_one_def intersect_bounds_def)
  have resolve: "resolve_actor (resolver_adapter (st_passports demo_state)) (AgentId 9) = Inr (Some demo_public_key)"
    by (simp add: demo_state_def demo_passports_def demo_passport_def)
  have "\<exists>out cs. attenuate (cap_deps_of demo_cp demo_state) demo_inputs child (st_capabilities demo_state) = (Inr out, cs)"
  proof -
    let ?i = "capability_address (cd_capability_ctx (cap_deps_of demo_cp demo_state)) child"
    obtain h' cs' where "record_attenuate (cap_deps_of demo_cp demo_state) demo_inputs ?i (demo_id 1) child
        ((st_capabilities demo_state)\<lparr>cs_by_id := hm_insert ?i child (cs_by_id (st_capabilities demo_state))\<rparr>) = (Inr h', cs')"
      using demo_event_recorded resolve unfolding record_attenuate_def demo_cap_deps by blast
    moreover have "hm_get (cs_by_id (st_capabilities demo_state)) (demo_id 1) = Some ?parent"
      by (simp add: demo_state_def demo_store_def)
    moreover have "cd_quarantined (cap_deps_of demo_cp demo_state) = (\<lambda>a. False)"
      by (simp add: demo_cp_def)
    ultimately show ?thesis
      using build_child_fields [OF child] scope by (simp add: attenuate_def issuance_outcome_def Let_def)
  qed
  then obtain out cs where att: "attenuate (cap_deps_of demo_cp demo_state) demo_inputs child (st_capabilities demo_state) = (Inr out, cs)"
    by blast
  have run: "handle_attenuate demo_cp demo_now demo_inputs (Some agent_header) (Some ?req) demo_state
      = (Inr (child, io_issuance_receipt out), demo_state\<lparr>st_capabilities := cs\<rparr>)"
    using until by (simp add: handle_attenuate_def with_auth_def auth required_def id look demo_expiry_ok child ext
        run_capability_def att)
  have "\<forall>i c. hm_get (cs_by_id (st_capabilities demo_state)) i = Some c \<longrightarrow> scope_wf (c_scope c)"
    by (auto simp: demo_state_def demo_store_def split: if_splits)
  from attenuate_request_narrows [OF run this] scope
  have "\<forall>d. scope_permits (c_scope child) d \<longrightarrow> scope_permits (for_action ''read'') d"
    by auto
  with run show ?thesis
    by (intro exI conjI)
qed

section \<open>The audit trail\<close>

abbreviation logged :: "ControlPlaneState \<Rightarrow> Hash \<Rightarrow> bool" where
  "logged st h \<equiv> get_receipt (cs_receipts (st_capabilities st)) h \<noteq> None"

lemma cascade_recorded:
  "cascade_revoke dp io n reason is out cs = (Inr hs, cs') \<Longrightarrow>
   \<forall>h \<in> set out. get_receipt (cs_receipts cs) h \<noteq> None \<Longrightarrow>
   \<forall>h \<in> set hs. get_receipt (cs_receipts cs') h \<noteq> None"
proof (induction dp io n reason "is" out cs rule: cascade_revoke.induct)
  case (2 dp io n reason i "is" out cs)
  then obtain h cs1 where r: "revoke dp (io n) i reason cs = (Inr h, cs1)"
    and rest: "cascade_revoke dp io (n + 1) reason is (out @ [h]) cs1 = (Inr hs, cs')"
    by (auto split: prod.splits sum.splits)
  have "\<forall>g \<in> set (out @ [h]). get_receipt (cs_receipts cs1) g \<noteq> None"
    using "2.prems"(2) capability_store_keeps(3) [of cs _ _ dp "io n" i reason]
      capability_store_recorded(3) [of dp "io n" i reason cs h] r by auto
  then show ?case
    using "2.IH" r rest by auto
qed simp

lemma cascade_keeps_log:
  "get_receipt (cs_receipts cs) h \<noteq> None \<Longrightarrow>
   get_receipt (cs_receipts (snd (cascade_revoke dp io n reason is out cs))) h \<noteq> None"
proof (induction dp io n reason "is" out cs rule: cascade_revoke.induct)
  case (2 dp io n reason j js out cs)
  have "get_receipt (cs_receipts (snd (revoke dp (io n) j reason cs))) h \<noteq> None"
    using "2.prems" capability_store_keeps(3) by fastforce
  then show ?case
    using "2.IH" by (cases "revoke dp (io n) j reason cs"; cases "fst (revoke dp (io n) j reason cs)") auto
qed simp

lemma operator_revoke_logged:
  assumes "handle_operator_revoke dp now ck ios h a reason c st = (Inr resp, st')"
  shows "logged st' (orr_revocation_receipt resp) \<and> (\<forall>x \<in> set (orr_cascade_receipts resp). logged st' x)"
proof -
  from assms obtain oa target where
    "require_operator_bearer_auth (cpd_auth dp) now h (cpd_operator_public_key dp)
       (top_swarm_id (rgd_topology (cpd_registry dp))) = Inr oa"
    "required ''target'' agent_try_from a = Inr target"
    by (auto simp: handle_operator_revoke_def split: sum.splits)
  note guards = this
  define op where "op = registry_operator_revoke (cpd_registry dp) ck target (op_operator_id oa) reason (registry_of st)"
  define mid where "mid = set_registry (snd op) st"
  define cas where "cas = (if c then cascade_revoke (cap_deps_of dp mid) ios 0 (cascade_reason target)
      (list_for_subject (st_capabilities mid) target) [] (st_capabilities mid) else (Inr [], st_capabilities mid))"
  from assms guards obtain rid hs where r: "fst op = Inr rid" "fst cas = Inr hs"
    and out: "resp = \<lparr>orr_revocation_receipt = rid, orr_cascade_receipts = hs\<rparr>"
      "st' = mark_revoked target (mid\<lparr>st_capabilities := snd cas\<rparr>)"
    unfolding cas_def mid_def op_def
    by (simp add: handle_operator_revoke_def case_prod_beta Let_def split: sum.splits)
  have "get_receipt (cs_receipts (st_capabilities mid)) rid \<noteq> None"
    using registry_revoke_recorded(2) r(1) by (simp add: op_def mid_def)
  then have "get_receipt (cs_receipts (snd cas)) rid \<noteq> None"
    unfolding cas_def using cascade_keeps_log by (cases c) simp_all
  moreover have "\<forall>x \<in> set hs. get_receipt (cs_receipts (snd cas)) x \<noteq> None"
  proof (cases c)
    case True
    have "cascade_revoke (cap_deps_of dp mid) ios 0 (cascade_reason target)
      (list_for_subject (st_capabilities mid) target) [] (st_capabilities mid) = (Inr hs, snd cas)"
      using r(2) True by (simp add: cas_def prod_eq_iff)
    from cascade_recorded [OF this] show ?thesis by simp
  qed (use r(2) in \<open>simp add: cas_def\<close>)
  ultimately show ?thesis
    by (simp add: out)
qed

lemma run_capability_parts:
  assumes "run_capability f st = (Inr r, st')"
  shows "fst (f (st_capabilities st)) = Inr r" "st_capabilities st' = snd (f (st_capabilities st))"
  using assms by (auto simp: run_capability_Inr)

lemma issue_handler_logged:
  assumes "handle_issue dp now io h cap st = (Inr out, st')"
  shows "logged st' (io_issuance_receipt out)"
proof -
  from assms obtain c where run: "run_capability (issue (cap_deps_of dp st) io c) st = (Inr out, st')"
    unfolding handle_issue_def with_auth_Inr by (auto split: sum.splits)
  show ?thesis
    using capability_store_recorded(1) [OF run_capability_parts(1) [OF run]]
    by (simp add: run_capability_parts(2) [OF run])
qed

lemma revoke_capability_handler_logged:
  assumes "handle_revoke_capability dp now io h rq st = (Inr r, st')"
  shows "logged st' r"
proof -
  from assms obtain i reason where run: "run_capability (revoke (cap_deps_of dp st) io i reason) st = (Inr r, st')"
    unfolding handle_revoke_capability_def with_auth_Inr by (auto split: sum.splits)
  show ?thesis
    using capability_store_recorded(3) [OF run_capability_parts(1) [OF run]]
    by (simp add: run_capability_parts(2) [OF run])
qed

lemma check_handler_logged:
  assumes "handle_check dp now io h ckr st = (Inr resp, st')"
  shows "\<exists>out r. resp = to_proto_with_receipt out (Some r) \<and> logged st' r"
proof -
  from assms obtain cap d ev where
    run: "run_capability (check_capability (cap_deps_of dp st) io
        (capability_address (cpd_capability_ctx dp) cap) d) st = (Inr ev, st')"
    and resp: "resp = to_proto_with_receipt (ce_outcome ev) (Some (ce_check_receipt ev))"
    unfolding handle_check_def with_auth_Inr
    by (auto simp: rbind_eq_Inr Let_def split: sum.splits prod.splits)
  have "logged st' (ce_check_receipt ev)"
    using capability_store_recorded(4) [OF run_capability_parts(1) [OF run]]
    by (simp add: run_capability_parts(2) [OF run])
  then show ?thesis
    using resp by blast
qed

lemma attenuate_handler_logged:
  assumes "handle_attenuate dp now io h req st = (Inr (child, rid), st')"
  shows "logged st' rid"
proof -
  from assms obtain out where run: "run_capability (attenuate (cap_deps_of dp st) io child) st = (Inr out, st')"
    and rid: "rid = io_issuance_receipt out"
    unfolding handle_attenuate_def with_auth_Inr by (auto simp: Let_def rbind_eq_Inr split: sum.splits prod.splits)
  show ?thesis
    using capability_store_recorded(2) [OF run_capability_parts(1) [OF run]]
    by (simp add: run_capability_parts(2) [OF run] rid)
qed
text \<open>
  (C29) Every decision is audited for good: the receipt that a successful registration, revocation,
  operator revocation (with one receipt per capability of the cascade), issuance, attenuation, revocation
  of a capability or check answers with is in the receipt log, and stays readable however the services
  go on.
\<close>

theorem decisions_audited:
  assumes "cp_run ok st' st''"
  shows "(handle_register dp ck pp cred st = (Inr ro, st') \<longrightarrow>
      (\<exists>x. ro_registration_receipt ro = Some x \<and> logged st'' x))
    \<and> (handle_revoke dp now ck h a reason st = (Inr r1, st') \<longrightarrow> logged st'' r1)
    \<and> (handle_operator_revoke dp now ck ios h a reason c st = (Inr resp, st') \<longrightarrow>
        logged st'' (orr_revocation_receipt resp) \<and> (\<forall>x \<in> set (orr_cascade_receipts resp). logged st'' x))
    \<and> (handle_issue dp now io h cap st = (Inr out, st') \<longrightarrow> logged st'' (io_issuance_receipt out))
    \<and> (handle_attenuate dp now io h areq st = (Inr (child, r3), st') \<longrightarrow> logged st'' r3)
    \<and> (handle_revoke_capability dp now io h rq st = (Inr r2, st') \<longrightarrow> logged st'' r2)
    \<and> (handle_check dp now io h ckr st = (Inr cr, st') \<longrightarrow>
        (\<exists>co x. cr = to_proto_with_receipt co (Some x) \<and> logged st'' x))"
proof -
  have kept: "logged st' x \<Longrightarrow> logged st'' x" for x
    using receipt_history.kept_run [OF assms] by (fastforce simp: log_kept_def)
  have reg: "\<exists>x. ro_registration_receipt ro = Some x \<and> logged st' x"
    if "handle_register dp ck pp cred st = (Inr ro, st')"
  proof -
    from that obtain p rg where p: "registry_register (cpd_registry dp) ck p cred (registry_of st) = (Inr ro, rg)"
      and st1: "st' = set_registry rg st"
      by (auto simp: handle_register_def Let_def split: sum.splits prod.splits)
    then show ?thesis
      by (cases rule: registry_register_Inr [OF p]) auto
  qed
  have rev: "logged st' r1" if "handle_revoke dp now ck h a reason st = (Inr r1, st')"
  proof -
    from that obtain t where t: "fst (registry_revoke (cpd_registry dp) ck t reason (registry_of st)) = Inr r1"
      "st' = mark_revoked t (set_registry (snd (registry_revoke (cpd_registry dp) ck t reason (registry_of st))) st)"
      unfolding handle_revoke_def with_auth_Inr
      by (cases "required ''agent_id'' agent_try_from a")
        (auto simp: Let_def case_prod_beta split: sum.split_asm if_split_asm)
    then show ?thesis
      using registry_revoke_recorded(1) by simp
  qed
  show ?thesis
    using reg rev operator_revoke_logged [of dp now ck ios h a reason c st resp st']
      issue_handler_logged [of dp now io h cap st out st']
      attenuate_handler_logged [of dp now io h areq st child r3 st']
      revoke_capability_handler_logged [of dp now io h rq st r2 st']
      check_handler_logged [of dp now io h ckr st cr st'] kept
    by (intro conjI impI) (metis (no_types))+
qed

theorem decisions_audited_witness:
  "\<exists>resp st'. handle_operator_revoke demo_cp demo_now demo_clock (\<lambda>n. demo_inputs) (Some operator_header)
       (Some (proto_of_agent (AgentId 2))) ''bad'' True demo_state = (Inr resp, st')
     \<and> logged st' (orr_revocation_receipt resp)"
proof -
  obtain resp st' where ok: "handle_operator_revoke demo_cp demo_now demo_clock (\<lambda>n. demo_inputs)
      (Some operator_header) (Some (proto_of_agent (AgentId 2))) ''bad'' True demo_state = (Inr resp, st')"
    using demo_operator_revoke by blast
  have "cp_run (\<lambda>dp. True) st' st'"
    by (rule cp_refl)
  note audited = decisions_audited [OF this, THEN conjunct2, THEN conjunct2, THEN conjunct1, rule_format, OF ok]
  show ?thesis
    by (rule exI, rule exI, rule conjI, rule ok, rule audited [THEN conjunct1])
qed

section \<open>Keys\<close>

text \<open>
  Starting from empty stores, in every state the services reach under one canonical encoding,
  a key that resolves for an agent belongs to a live passport that names this agent and is signed
  with this very key.
\<close>

theorem resolved_keys_self_signed:
  assumes "cp_run (same_passport_ctx cx) st st'" and "st_passports st = passport_store_new"
    and "resolve_actor (resolver_adapter (st_passports st')) a = Inr (Some pk)"
  shows "\<exists>p. hm_get (ps_live (st_passports st')) a = Some p \<and> pp_agent_id p = a
    \<and> pp_agent_public_key p = pk \<and> verify_self_signature cx p = Inr ()"
proof -
  have "passports_self_signed cx (st_passports st)"
    by (simp add: assms(2) passports_self_signed_def passport_store_new_def)
  then have "passports_self_signed cx (st_passports st')"
    using resolved_keys.kept_run [OF assms(1)] by (simp add: self_signed_kept_def)
  then show ?thesis
    using assms(3) by (auto simp: passports_self_signed_def)
qed

theorem resolved_keys_self_signed_witness:
  "\<exists>p. hm_get (ps_live (st_passports (snd (handle_register demo_cp demo_clock
       (Some (proto_of_passport (demo_passport (AgentId 4)))) [] (demo_state\<lparr>st_passports := passport_store_new\<rparr>)))))
       (AgentId 4) = Some p
     \<and> pp_agent_id p = AgentId 4 \<and> pp_agent_public_key p = demo_public_key
     \<and> verify_self_signature (rgd_passport_ctx demo_registry_deps) p = Inr ()"
proof -
  let ?st = "demo_state\<lparr>st_passports := passport_store_new\<rparr>"
  let ?st' = "snd (handle_register demo_cp demo_clock (Some (proto_of_passport (demo_passport (AgentId 4)))) [] ?st)"
  have dp: "cpd_registry demo_cp = demo_registry_deps"
    by (simp add: demo_cp_def)
  have "cp_step (same_passport_ctx (rgd_passport_ctx demo_registry_deps)) ?st ?st'"
    by (rule cp_step.cp_register) (simp add: same_passport_ctx_def dp)
  then have run: "cp_run (same_passport_ctx (rgd_passport_ctx demo_registry_deps)) ?st ?st'"
    by (rule cp_run.cp_more [OF cp_run.cp_refl])
  have "hm_get (ps_live (st_passports ?st')) (AgentId 4) = Some (demo_passport (AgentId 4))"
    using demo_passport_signed [of "AgentId 4"]
    by (simp add: handle_register_def demo_passport_decodes registry_register_def store_register_def Let_def
        demo_register_facts dp with_receipt_def case_prod_beta passport_store_new_def)
  then have key: "resolve_actor (resolver_adapter (st_passports ?st')) (AgentId 4) = Inr (Some demo_public_key)"
    by (simp add: demo_register_facts)
  have "st_passports ?st = passport_store_new"
    by simp
  from resolved_keys_self_signed [OF run this key] show ?thesis .
qed

text \<open>
  Capabilities and passports survive the wire: decoding the message of a well-formed one gives
  it back, so its content-address and its signature are those of the sender.
\<close>

theorem credentials_wire_roundtrip:
  "(capability_ok x c \<longrightarrow> capability_try_from x (proto_of_capability c) = Inr c)
   \<and> (passport_ok x p \<longrightarrow> passport_try_from x (proto_of_passport p) = Inr p)"
  by (simp add: capability_codec.decode_encode passport_codec.decode_encode)

theorem credentials_wire_roundtrip_witness:
  "capability_try_from demo_ext (proto_of_capability (demo_cap 1 (AgentId 2) ''read'' None))
     = Inr (demo_cap 1 (AgentId 2) ''read'' None)"
proof -
  have "capability_ok demo_ext (demo_cap 1 (AgentId 2) ''read'' None)"
    by (simp add: capability_ok_def demo_cap_def caveat_ok_def timestamp_ok_def demo_ext_def is_digit_def version_ok_def
        spec_version_parse_def numeric_prefix_def parse_u32_def digits_value_def)
  with credentials_wire_roundtrip show ?thesis
    by blast
qed

end
