(* ===== verification/Receipt_Properties.thy ===== *)
theory Receipt_Properties
  imports Samples
begin

text \<open>
  The properties of the receipt layer: what the store admits, that it only grows, that its
  queries are exact, that Merkle proofs verify, that sealing is atomic and permanent, and that
  the wire and preimage encodings lose nothing.
\<close>

section \<open>Executions of the store\<close>

inductive store_step :: "receipt_ctx \<Rightarrow> PassportResolver \<Rightarrow> MemoryStore \<Rightarrow> MemoryStore \<Rightarrow> bool"
  for cx rs where
  step_append: "store_step cx rs ms (snd (append_receipt cx rs r ms))"
| step_seal: "store_step cx rs ms (snd (record_sealed_batch batch ms))"

inductive_cases store_stepE: "store_step cx rs ms ms'"

inductive store_run :: "receipt_ctx \<Rightarrow> PassportResolver \<Rightarrow> MemoryStore \<Rightarrow> MemoryStore \<Rightarrow> bool"
  for cx rs where
  run_refl: "store_run cx rs ms ms"
| run_step: "store_run cx rs ms ms' \<Longrightarrow> store_step cx rs ms' ms'' \<Longrightarrow> store_run cx rs ms ms''"

lemma record_sealed_batch_frame [simp]:
  "ms_by_id (snd (record_sealed_batch batch ms)) = ms_by_id ms"
  "ms_by_predecessor (snd (record_sealed_batch batch ms)) = ms_by_predecessor ms"
  by (simp_all add: record_sealed_batch_def)

lemma append_receipt_seals [simp]: "ms_seals (snd (append_receipt cx rs r ms)) = ms_seals ms"
  by (cases rule: append_receipt_cases [of cx rs r ms]) auto

lemma store_step_inv: "store_step cx rs ms ms' \<Longrightarrow> store_inv cx ms \<Longrightarrow> store_inv cx ms'"
  by (erule store_stepE) (simp_all add: store_inv_append store_inv_seal)

lemma store_run_inv: "store_run cx rs ms ms' \<Longrightarrow> store_inv cx ms \<Longrightarrow> store_inv cx ms'"
  by (induction rule: store_run.induct) (auto dest: store_step_inv)

lemma store_step_keeps: "store_step cx rs ms ms' \<Longrightarrow> get_receipt ms h = Some r \<Longrightarrow> get_receipt ms' h = Some r"
  by (erule store_stepE) (auto simp: memory_log.append_keeps get_receipt_def [of "snd (record_sealed_batch _ _)"] simp flip: get_receipt_def)

lemma seal_root_kept_batch:
  assumes "hm_get (ms_seals ms) h = Some st"
  shows "\<exists>st'. hm_get (ms_seals (snd (record_sealed_batch batch ms))) h = Some st'
    \<and> seal_batch_root st' = seal_batch_root st"
proof (cases "find (\<lambda>l. lp_leaf l = h) (rev (sb_leaves batch))")
  case None
  then show ?thesis
    using assms by (simp add: record_sealed_batch_def seals_after_batch)
next
  case (Some l)
  then have l: "l \<in> set (sb_leaves batch)" "lp_leaf l = h"
    by (auto simp: find_Some_iff) (metis nth_mem set_rev length_rev)
  show ?thesis
  proof (cases "list_ex (seal_conflict ms batch) (sb_leaves batch)")
    case True
    then show ?thesis using assms l by (auto simp: record_sealed_batch_def)
  next
    case False
    then have "\<not> seal_conflict ms batch l"
      using l by (auto simp: list_ex_iff)
    then have "seal_batch_root st = Some (sb_batch_root batch)"
      using assms l by (simp add: seal_conflict_def)
    then show ?thesis
      using Some False l by (auto simp: record_sealed_batch_def seals_after_batch)
  qed
qed

lemma seal_root_kept_step:
  "store_step cx rs ms ms' \<Longrightarrow> hm_get (ms_seals ms) h = Some st \<Longrightarrow>
   \<exists>st'. hm_get (ms_seals ms') h = Some st' \<and> seal_batch_root st' = seal_batch_root st"
  by (erule store_stepE) (auto dest: seal_root_kept_batch)

section \<open>Admission and storage\<close>

definition keys_agree ::
    "PassportResolver \<Rightarrow> (SignatureRole \<times> bytes, PublicKey) hash_map \<Rightarrow> bool" where
  "keys_agree rs keys =
     (\<forall>role fp k. hm_get keys (role, fp) = Some k \<longrightarrow> resolve_role rs role fp = Inr (Some k))"

lemma resolve_role_keys_Cons:
  assumes "resolve_role_keys rs (s # ss) keys = Inr keys'"
  obtains (actor) "sb_role s = Actor" "resolve_role_keys rs ss keys = Inr keys'"
  | (unknown) "resolve_role rs (sb_role s) (key_fingerprint (sb_signature s)) = Inr None"
      "resolve_role_keys rs ss keys = Inr keys'"
  | (known) k where "resolve_role rs (sb_role s) (key_fingerprint (sb_signature s)) = Inr (Some k)"
      "resolve_role_keys rs ss (hm_insert (sb_role s, key_fingerprint (sb_signature s)) k keys) = Inr keys'"
proof (cases "sb_role s = Actor")
  case True
  then show ?thesis using assms actor by simp
next
  case False
  then obtain a where "resolve_role rs (sb_role s) (key_fingerprint (sb_signature s)) = Inr a"
    using assms by (auto simp: rbind_eq_Inr)
  then show ?thesis using assms False unknown known by (cases a) auto
qed

lemma resolve_role_keys_mono:
  "resolve_role_keys rs sigs keys = Inr keys' \<Longrightarrow> hm_get keys kf \<noteq> None \<Longrightarrow> hm_get keys' kf \<noteq> None"
proof (induction sigs arbitrary: keys)
  case (Cons s ss)
  from Cons.prems(1) show ?case
    by (cases rule: resolve_role_keys_Cons) (use Cons in auto)
qed simp

lemma resolve_role_keys_agree:
  "resolve_role_keys rs sigs keys = Inr keys' \<Longrightarrow> keys_agree rs keys \<Longrightarrow> keys_agree rs keys'"
proof (induction sigs arbitrary: keys)
  case (Cons s ss)
  from Cons.prems(1) show ?case
  proof (cases rule: resolve_role_keys_Cons)
    case (known k)
    moreover from this(1) Cons.prems(2)
    have "keys_agree rs (hm_insert (sb_role s, key_fingerprint (sb_signature s)) k keys)"
      by (simp add: keys_agree_def)
    ultimately show ?thesis using Cons.IH by blast
  qed (use Cons in auto)
qed simp

lemma resolve_role_keys_complete:
  "resolve_role_keys rs sigs keys = Inr keys' \<Longrightarrow> s \<in> set sigs \<Longrightarrow> sb_role s \<noteq> Actor \<Longrightarrow>
   resolve_role rs (sb_role s) (key_fingerprint (sb_signature s)) = Inr (Some k) \<Longrightarrow>
   hm_get keys' (sb_role s, key_fingerprint (sb_signature s)) \<noteq> None"
proof (induction sigs arbitrary: keys)
  case (Cons q qs)
  from Cons.prems(1) show ?case
  proof (cases rule: resolve_role_keys_Cons)
    case (known k')
    from resolve_role_keys_mono [OF known(2), of "(sb_role q, key_fingerprint (sb_signature q))"]
    have "hm_get keys' (sb_role q, key_fingerprint (sb_signature q)) \<noteq> None"
      by simp
    with known Cons show ?thesis by (cases "s = q") auto
  qed (use Cons in auto)
qed simp

lemma resolve_role_keys_sound:
  assumes "resolve_role_keys rs sigs [] = Inr keys'" and "s \<in> set sigs" and "sb_role s \<noteq> Actor"
    and "resolve_role rs (sb_role s) (key_fingerprint (sb_signature s)) = Inr (Some k)"
  shows "hm_get keys' (sb_role s, key_fingerprint (sb_signature s)) = Some k"
proof -
  have "keys_agree rs keys'"
    using resolve_role_keys_agree [OF assms(1)] by (simp add: keys_agree_def)
  moreover obtain k' where "hm_get keys' (sb_role s, key_fingerprint (sb_signature s)) = Some k'"
    using resolve_role_keys_complete [OF assms] by blast
  ultimately show ?thesis
    using assms(4) by (simp add: keys_agree_def)
qed

text \<open>
  (C3) A receipt enters the store only when the resolver knows its actor's key, its signatures
  are in canonical role order, the first of its actor signatures verifies over the canonical bytes under
  that key, and every signature of another role whose key the resolver knows verifies too; the identifier
  returned is the receipt's content-address, under which a receipt is then stored. Further actor
  signatures and those of roles with unknown keys are not examined.
\<close>

theorem append_admits_only_verified:
  assumes "append_receipt cx rs r ms = (Inr out, ms')"
  shows "(\<exists>pk s. resolve_actor rs (r_actor r) = Inr (Some pk)
      \<and> find (\<lambda>s. sb_role s = Actor) (r_signatures r) = Some s
      \<and> verify (rc_ext cx) pk (canonical_bytes cx r) (sb_signature s) = Inr ())
    \<and> sorted (map (rank \<circ> sb_role) (r_signatures r))
    \<and> (\<forall>s \<in> set (r_signatures r). \<forall>k. sb_role s \<noteq> Actor \<longrightarrow>
         resolve_role rs (sb_role s) (key_fingerprint (sb_signature s)) = Inr (Some k) \<longrightarrow>
         verify (rc_ext cx) k (canonical_bytes cx r) (sb_signature s) = Inr ())
    \<and> ao_receipt_id out = content_address cx r \<and> get_receipt ms' (content_address cx r) \<noteq> None"
proof -
  obtain v where "append_admission cx rs r = Inr v"
    using assms by (cases rule: append_receipt_cases [of cx rs r ms]) auto
  then obtain pk keys where pk: "resolve_actor rs (r_actor r) = Inr (Some pk)"
    and keys: "resolve_role_keys rs (r_signatures r) [] = Inr keys"
    and ver: "verify_receipt_signatures cx r pk (\<lambda>role fp. hm_get keys (role, fp)) = Inr v"
    by (auto simp: append_admission_def rbind_eq_Inr)
  from resolve_role_keys_sound [OF keys] ver
  have "\<forall>s \<in> set (r_signatures r). \<forall>k. sb_role s \<noteq> Actor \<longrightarrow>
      resolve_role rs (sb_role s) (key_fingerprint (sb_signature s)) = Inr (Some k) \<longrightarrow>
      verify (rc_ext cx) k (canonical_bytes cx r) (sb_signature s) = Inr ()"
    by (auto simp: verify_receipt_signatures_Inr_iff verify_optional_Inr_iff)
  with pk ver show ?thesis
    using memory_log.append_stored [of cx rs r ms out] assms
    by (auto simp: verify_receipt_signatures_Inr_iff)
qed

theorem append_admits_only_verified_witness:
  "get_receipt (snd (append_receipt demo_ctx demo_resolver (demo_receipt ''a'' 1) memory_store_new))
     (content_address demo_ctx (demo_receipt ''a'' 1)) \<noteq> None"
proof -
  let ?r = "demo_receipt ''a'' 1"
  from append_admits_only_verified [OF demo_append_new [of "''a''" 1]] show ?thesis
    by (simp add: demo_append_new)
qed

lemma find_append_Some: "find P xs = Some y \<Longrightarrow> find P (xs @ ys) = Some y"
  by (induction xs) auto

lemma resolve_role_keys_actor:
  "sb_role s = Actor \<Longrightarrow> resolve_role_keys rs (pre @ s # post) keys = resolve_role_keys rs (pre @ post) keys"
  by (induction pre arbitrary: keys) (auto intro!: arg_cong2 [where f = rbind] split: option.split)

lemma order_check_role:
  "sb_role s = sb_role s' \<Longrightarrow> order_check l (pre @ s # post) = order_check l (pre @ s' # post)"
  by (induction l pre rule: order_check.induct) (auto split: option.split)

text \<open>
  Of several actor signatures only the first is examined: whatever stands in the place of a later one,
  the receipt is admitted or refused alike.
\<close>

theorem later_actor_signatures_unread:
  assumes "find (\<lambda>s. sb_role s = Actor) pre \<noteq> None" and "sb_role s = Actor" and "sb_role s' = Actor"
  shows "append_admission cx rs (r\<lparr>r_signatures := pre @ s # post\<rparr>)
    = append_admission cx rs (r\<lparr>r_signatures := pre @ s' # post\<rparr>)"
proof -
  obtain s0 where "find (\<lambda>s. sb_role s = Actor) pre = Some s0"
    using assms(1) by blast
  then have "find (\<lambda>s. sb_role s = Actor) (pre @ x # post) = Some s0" for x
    by (rule find_append_Some)
  then show ?thesis
    using assms(2,3) order_check_role [of s s' None pre post]
    by (simp add: append_admission_def verify_receipt_signatures_def resolve_role_keys_actor enforce_canonical_order_def
        content_address_def Let_def)
qed

text \<open>
  (C18) The log is append-only and tamper-evident: along any sequence of appends (accepted or
  refused) and batch seals, starting from the empty store, every receipt once readable stays
  readable unchanged under its identifier, and every stored receipt passes \<open>verify_address\<close>
  against the identifier it is filed under.
\<close>

theorem log_append_only:
  assumes "store_run cx rs memory_store_new ms" and "store_run cx rs ms ms'"
  shows "(\<forall>h r. get_receipt ms h = Some r \<longrightarrow> get_receipt ms' h = Some r)
    \<and> (\<forall>h r. get_receipt ms' h = Some r \<longrightarrow> verify_address cx r h = Inr ())"
proof -
  have "get_receipt ms h = Some r \<Longrightarrow> get_receipt ms' h = Some r" for h r
    using assms(2) by (induction rule: store_run.induct) (auto dest: store_step_keeps)
  moreover have "store_inv cx ms'"
    using assms store_run_inv store_inv_new by blast
  ultimately show ?thesis
    by (simp add: store_inv_def get_receipt_def verify_address_def)
qed

theorem log_append_only_witness:
  "\<exists>ms. get_receipt ms (content_address demo_ctx (demo_receipt ''a'' 1)) = Some (demo_receipt ''a'' 1)
     \<and> verify_address demo_ctx (demo_receipt ''a'' 1) (content_address demo_ctx (demo_receipt ''a'' 1)) = Inr ()"
proof -
  let ?r = "demo_receipt ''a'' 1"
  let ?ms = "snd (append_receipt demo_ctx demo_resolver ?r memory_store_new)"
  have "store_run demo_ctx demo_resolver memory_store_new ?ms"
    by (rule run_step [OF run_refl step_append])
  from log_append_only [OF this run_refl]
  have "get_receipt ?ms (content_address demo_ctx ?r) = Some ?r \<longrightarrow>
      verify_address demo_ctx ?r (content_address demo_ctx ?r) = Inr ()"
    by blast
  moreover have "get_receipt ?ms (content_address demo_ctx ?r) = Some ?r"
    by (simp add: demo_append_new get_receipt_def)
  ultimately show ?thesis
    by blast
qed

text \<open>
  Queries are exact on every reachable store: by predecessor, by actor, by action kind and
  by time range each returns exactly the stored receipts that satisfy the criterion.
\<close>

theorem queries_exact:
  assumes "store_run cx rs memory_store_new ms"
  shows "set (query_receipts ms (ByPredecessor p)) =
      {r. (\<exists>h. get_receipt ms h = Some r) \<and> p \<in> set (predecessors (r_causal r))}
    \<and> set (query_receipts ms (ByAgent a)) = {r. (\<exists>h. get_receipt ms h = Some r) \<and> r_actor r = a}
    \<and> set (query_receipts ms (ByActionKind k)) =
      {r. (\<exists>h. get_receipt ms h = Some r) \<and> r_action_kind r = k}
    \<and> set (query_receipts ms (ByTimeRange t u)) =
      {r. (\<exists>h. get_receipt ms h = Some r) \<and> monotonic_ns t \<le> monotonic_ns (r_occurred_at r)
          \<and> monotonic_ns (r_occurred_at r) \<le> monotonic_ns u}"
proof -
  have inv: "store_inv cx ms"
    using assms store_run_inv store_inv_new by blast
  then have "set (ids_of (ms_by_predecessor ms) p) =
      {rid. \<exists>r. get_receipt ms rid = Some r \<and> p \<in> set (predecessors (r_causal r))}"
    by (simp add: store_inv_def get_receipt_def)
  moreover have "query_receipts ms (ByPredecessor p) =
      List.map_filter (get_receipt ms) (ids_of (ms_by_predecessor ms) p)"
    by (auto simp: get_receipt_def [abs_def] map_filter_def split: option.splits)
  ultimately have "set (query_receipts ms (ByPredecessor p)) =
      {r. (\<exists>h. get_receipt ms h = Some r) \<and> p \<in> set (predecessors (r_causal r))}"
    by (auto simp: set_map_filter)
  with set_values [OF inv] show ?thesis
    by auto
qed

theorem queries_exact_witness:
  "set (query_receipts (memory_store_new\<lparr>ms_by_id :=
        [(content_address demo_ctx (demo_receipt ''a'' 1), demo_receipt ''a'' 1)]\<rparr>) (ByActionKind ''a''))
     = {demo_receipt ''a'' 1}"
proof -
  let ?ms = "snd (append_receipt demo_ctx demo_resolver (demo_receipt ''a'' 1) memory_store_new)"
  have "store_run demo_ctx demo_resolver memory_store_new ?ms"
    by (rule run_step [OF run_refl step_append])
  from queries_exact [OF this, where k = "''a''"] show ?thesis
    by (auto simp: demo_append_new get_receipt_def memory_store_new_def demo_receipt_def demo_unsigned_def)
qed

section \<open>Merkle batches and seals\<close>

text \<open>
  (C10) Inclusion proofs are complete: when a batch is built, its leaves are the content-addresses
  of exactly the receipts given, and every leaf's path reconstructs the root for an external
  verifier.
\<close>

theorem merkle_proofs_verify:
  assumes "build_merkle cx rs = Inr b"
  shows "mset (map lp_leaf (mb_leaves b)) = mset (map (content_address cx) rs)
    \<and> (\<forall>p \<in> set (mb_leaves b). verify_path (rc_ext cx) (lp_leaf p) (lp_path p) (mb_root b))"
proof -
  have "mset (map lp_leaf (mb_leaves b)) = image_mset snd (mset (merkle_entries cx rs))"
    by (simp add: build_merkle_leaves(1) [OF assms] flip: mset_map)
  also have "\<dots> = mset (map (content_address cx) rs)"
    by (simp add: mset_merkle_entries image_mset.compositionality comp_def)
  finally show ?thesis
    using build_merkle_leaves(2) [OF assms] by simp
qed

definition demo_batch :: "Receipt list" where
  "demo_batch = [demo_receipt ''c'' 5, demo_receipt ''a'' 3, demo_receipt ''b'' 4]"

lemma demo_batch_distinct: "distinct (map (content_address demo_ctx) demo_batch)"
  by (simp add: demo_batch_def demo_address as_bytes_def)

theorem merkle_proofs_verify_witness:
  "\<exists>b. build_merkle demo_ctx demo_batch = Inr b \<and> length (mb_leaves b) = 3
     \<and> (\<forall>p \<in> set (mb_leaves b). verify_path demo_ext (lp_leaf p) (lp_path p) (mb_root b))"
proof -
  obtain b where b: "build_merkle demo_ctx demo_batch = Inr b"
    using build_merkle_ok_if [OF _ demo_batch_distinct] by (auto simp: demo_batch_def)
  have "size (mset (map lp_leaf (mb_leaves b))) = size (mset (map (content_address demo_ctx) demo_batch))"
    using merkle_proofs_verify [OF b] by metis
  then have "length (mb_leaves b) = 3"
    unfolding size_mset length_map by (simp add: demo_batch_def)
  with b merkle_proofs_verify [OF b] show ?thesis
    unfolding rc_ext_demo by blast
qed

text \<open>
  A batch is accepted exactly when it is non-empty and its receipts have pairwise different
  identifiers; the hypothesis excludes only a SHA-256 collision between two receipts of the batch.
\<close>

theorem merkle_accepts_iff:
  assumes "address_determines_time cx rs"
  shows "is_ok (build_merkle cx rs) \<longleftrightarrow> rs \<noteq> [] \<and> distinct (map (content_address cx) rs)"
proof
  assume "is_ok (build_merkle cx rs)"
  then obtain b where "build_merkle cx rs = Inr b"
    by (auto simp: is_ok_iff)
  then show "rs \<noteq> [] \<and> distinct (map (content_address cx) rs)"
    using build_merkle_distinct assms by (auto simp: build_merkle_def)
next
  assume "rs \<noteq> [] \<and> distinct (map (content_address cx) rs)"
  then show "is_ok (build_merkle cx rs)"
    using build_merkle_ok_if by (auto simp: is_ok_iff)
qed

theorem merkle_accepts_iff_witness:
  "\<not> is_ok (build_merkle demo_ctx [demo_receipt ''a'' 1, demo_receipt ''a'' 1])"
proof -
  have "address_determines_time demo_ctx [demo_receipt ''a'' 1, demo_receipt ''a'' 1]"
    by (simp add: address_determines_time_def)
  from merkle_accepts_iff [OF this] show ?thesis
    by simp
qed

text \<open>
  The root, the proofs and the acceptance of a batch do not depend on the order in which its
  receipts are given.
\<close>

theorem merkle_order_independent:
  assumes "mset rs = mset rs'"
  shows "build_merkle cx rs = build_merkle cx rs'"
proof -
  have "rs = [] \<longleftrightarrow> rs' = []"
    using assms by auto
  then show ?thesis
    by (simp add: build_merkle_def merkle_entries_perm [OF assms] Let_def)
qed

theorem merkle_order_independent_witness:
  "build_merkle demo_ctx demo_batch = build_merkle demo_ctx (rev demo_batch)"
  using merkle_order_independent [of demo_batch "rev demo_batch" demo_ctx] by simp

end
