(* ===== verification/Seal_Properties.thy ===== *)
theory Seal_Properties
  imports Receipt_Properties
begin

text \<open>
  Properties of sealing and of the encodings: seals are atomic and permanent, a recorded batch
  makes every one of its receipts provable, the preimage an anchor signs exists and binds its
  inputs, and the wire form of receipts loses nothing.
\<close>

section \<open>Seals\<close>

lemma seal_status_root:
  "seal_batch_root (seal_status ms h) = Some root \<longleftrightarrow>
     (\<exists>st. hm_get (ms_seals ms) h = Some st \<and> seal_batch_root st = Some root)"
  by (auto simp: seal_status_def unsealed_def split: option.splits)

lemma seal_root_kept_run:
  "store_run cx rs ms ms' \<Longrightarrow> seal_batch_root (seal_status ms h) = Some root \<Longrightarrow>
   seal_batch_root (seal_status ms' h) = Some root"
proof (induction rule: store_run.induct)
  case (run_step ms ms' ms'')
  then show ?case
    by (force simp: seal_status_root dest: seal_root_kept_step)
qed

text \<open>
  Seals are permanent and batches atomic: whatever is appended or sealed later, a receipt
  sealed under a root stays sealed under that root, and a batch that is refused (it is empty, or
  one of its leaves is already sealed elsewhere) leaves the whole store as it was.
\<close>

theorem seal_permanent_atomic:
  assumes "store_run cx rs ms ms'" and "seal_batch_root (seal_status ms h) = Some root"
  shows "seal_batch_root (seal_status ms' h) = Some root
    \<and> (\<forall>batch e. fst (record_sealed_batch batch ms') = Inl e \<longrightarrow>
         snd (record_sealed_batch batch ms') = ms')"
  using seal_root_kept_run [OF assms] by (auto simp: record_sealed_batch_def)

definition demo_sealed_batch :: "Hash \<Rightarrow> SealedBatch" where
  "demo_sealed_batch root =
     \<lparr>sb_batch_root = root, sb_leaves = [\<lparr>lp_leaf = root, lp_path = []\<rparr>],
      sb_sealed_at = demo_time 9, sb_action_kind_histogram = [(''a'', 1)], sb_ns_range = (1, 1),
      sb_commitment_id = []\<rparr>"

theorem seal_permanent_atomic_witness:
  "let h = content_address demo_ctx (demo_receipt ''a'' 1);
       ms = snd (record_sealed_batch (demo_sealed_batch h) memory_store_new);
       ms' = snd (append_receipt demo_ctx demo_resolver (demo_receipt ''b'' 2) ms)
   in seal_batch_root (seal_status ms' h) = Some h"
proof -
  let ?h = "content_address demo_ctx (demo_receipt ''a'' 1)"
  let ?ms = "snd (record_sealed_batch (demo_sealed_batch ?h) memory_store_new)"
  have "seal_batch_root (seal_status ?ms ?h) = Some ?h"
    by (simp add: record_sealed_batch_def demo_sealed_batch_def seal_conflict_def memory_store_new_def
        seal_status_def leaf_seal_status_def sealed_def)
  from seal_permanent_atomic [OF run_step [OF run_refl step_append] this] show ?thesis
    unfolding Let_def by blast
qed

lemma local_seal_batch_Inr:
  assumes "local_seal_batch cx now rs = Inr b"
  obtains mb where "rs \<noteq> []" "build_merkle cx rs = Inr mb"
    "b = \<lparr>sb_batch_root = mb_root mb, sb_leaves = mb_leaves mb, sb_sealed_at = now,
          sb_action_kind_histogram = compute_histogram rs,
          sb_ns_range = (Min ((\<lambda>r. monotonic_ns (r_occurred_at r)) ` set rs),
                         Max ((\<lambda>r. monotonic_ns (r_occurred_at r)) ` set rs)),
          sb_commitment_id = []\<rparr>"
  using assms
  by (auto simp: local_seal_batch_def rbind_eq_Inr map_err_eq_Inr compute_ns_range_eq split: if_splits)

lemma record_sealed_batch_leaf:
  assumes "record_sealed_batch batch ms = (Inr (), ms')" and "l \<in> set (sb_leaves batch)"
  shows "\<exists>l' \<in> set (sb_leaves batch). lp_leaf l' = lp_leaf l
    \<and> seal_status ms' (lp_leaf l) = leaf_seal_status batch l'"
proof (cases "find (\<lambda>k. lp_leaf k = lp_leaf l) (rev (sb_leaves batch))")
  case None
  then show ?thesis using assms(2) by (auto simp: find_None_iff)
next
  case (Some l')
  then have "l' \<in> set (sb_leaves batch)" "lp_leaf l' = lp_leaf l"
    by (auto simp: find_Some_iff) (metis nth_mem set_rev length_rev)
  moreover have "ms' = ms\<lparr>ms_seals :=
      foldl (\<lambda>m leaf. hm_insert (lp_leaf leaf) (leaf_seal_status batch leaf) m)
        (ms_seals ms) (sb_leaves batch)\<rparr>"
    using assms(1) by (auto simp: record_sealed_batch_def split: if_splits)
  ultimately show ?thesis
    using Some by (auto simp: seal_status_def seals_after_batch)
qed

text \<open>
  Sealing end to end: once the local sealer has produced a batch and the store has recorded
  it, every receipt of the batch is reported as sealed under the batch root at the sealing time,
  with a path that an external verifier accepts for its content-address.
\<close>

theorem sealed_receipts_provable:
  assumes "local_seal_batch cx now rs = Inr b" and "record_sealed_batch b ms = (Inr (), ms')"
    and "r \<in> set rs"
  shows "\<exists>path. seal_status ms' (content_address cx r) = sealed (sb_batch_root b) path now
    \<and> verify_path (rc_ext cx) (content_address cx r) path (sb_batch_root b)"
proof -
  obtain mb where mb: "build_merkle cx rs = Inr mb" and b: "sb_batch_root b = mb_root mb"
    "sb_leaves b = mb_leaves mb" "sb_sealed_at b = now" "sb_commitment_id b = []"
    using assms(1) by (cases rule: local_seal_batch_Inr) auto
  have "content_address cx r \<in> set (map lp_leaf (mb_leaves mb))"
    using assms(3) by (force simp: build_merkle_leaves(1) [OF mb] set_merkle_entries)
  then obtain l where "l \<in> set (sb_leaves b)" "lp_leaf l = content_address cx r"
    by (auto simp: b)
  with record_sealed_batch_leaf [OF assms(2)] obtain l' where
    "l' \<in> set (mb_leaves mb)" "lp_leaf l' = content_address cx r"
    "seal_status ms' (content_address cx r) = leaf_seal_status b l'"
    by (metis b(2))
  with build_merkle_leaves(2) [OF mb] b show ?thesis
    by (intro exI [of _ "lp_path l'"]) (auto simp: leaf_seal_status_def)
qed

theorem sealed_receipts_provable_witness:
  "\<exists>b ms path. local_seal_batch demo_ctx (demo_time 9) demo_batch = Inr b
     \<and> record_sealed_batch b memory_store_new = (Inr (), ms)
     \<and> verify_path demo_ext (content_address demo_ctx (demo_receipt ''a'' 3)) path (sb_batch_root b)
     \<and> seal_state (seal_status ms (content_address demo_ctx (demo_receipt ''a'' 3))) = Sealed"
proof -
  have ne: "demo_batch \<noteq> []" and mem: "demo_receipt ''a'' 3 \<in> set demo_batch"
    by (simp_all add: demo_batch_def)
  obtain mb where mb: "build_merkle demo_ctx demo_batch = Inr mb"
    using build_merkle_ok_if [OF ne demo_batch_distinct] by blast
  then obtain b where b: "local_seal_batch demo_ctx (demo_time 9) demo_batch = Inr b"
    and leaves: "sb_leaves b = mb_leaves mb"
    by (auto simp: local_seal_batch_def ne compute_ns_range_eq)
  have "mb_leaves mb \<noteq> []"
    using build_merkle_leaves(1) [OF mb] ne by auto
  then obtain ms where ms: "record_sealed_batch b memory_store_new = (Inr (), ms)"
    by (auto simp: record_sealed_batch_def leaves memory_store_new_def seal_conflict_def list_ex_iff)
  from sealed_receipts_provable [OF b ms mem] b ms show ?thesis
    unfolding rc_ext_demo by (auto simp: sealed_def)
qed

section \<open>The anchoring preimage\<close>

lemma verify_path_sha256:
  assumes "verify_path x (sha256 x bs) path root"
  shows "\<exists>bs'. root = sha256 x bs'"
proof -
  have "\<exists>bs'. foldl (sorted_pair_hash x) (sha256 x bs) path = sha256 x bs'"
    by (induction path rule: rev_induct) (auto simp: sorted_pair_hash_def)
  then show ?thesis
    using assms by (auto simp: verify_path_def)
qed

lemma build_merkle_root_sha256:
  assumes "build_merkle cx rs = Inr mb"
  shows "\<exists>bs. mb_root mb = sha256 (rc_ext cx) bs"
proof -
  have "rs \<noteq> []"
    using assms by (auto simp: build_merkle_def)
  then have "map lp_leaf (mb_leaves mb) \<noteq> []"
    unfolding build_merkle_leaves(1) [OF assms] by simp
  then obtain l where l: "l \<in> set (mb_leaves mb)"
    by (cases "mb_leaves mb") auto
  then have "lp_leaf l \<in> snd ` set (merkle_entries cx rs)"
    using build_merkle_leaves(1) [OF assms] by (metis image_eqI list.set_map)
  then obtain r where "lp_leaf l = content_address cx r"
    by (auto simp: set_merkle_entries)
  with build_merkle_leaves(2) [OF assms] l show ?thesis
    using verify_path_sha256 by (metis content_address_def)
qed

lemma bt_get_entry: "bt_wf m \<Longrightarrow> (k, v) \<in> set m \<longleftrightarrow> bt_get m k = Some v"
  using bt.entries_get [of m k v] by simp

lemma compute_histogram_entries:
  assumes "e \<in> set (compute_histogram rs)" and "length rs < 2 ^ 32"
  shows "\<exists>r \<in> set rs. fst e = r_action_kind r" and "snd e \<noteq> 0"
proof -
  let ?n = "length (filter (\<lambda>r. r_action_kind r = fst e) rs)"
  have "bt_get (compute_histogram rs) (fst e) = Some (snd e)"
    using assms(1) by (simp flip: bt_get_entry [OF compute_histogram_wf])
  then have n: "?n \<noteq> 0" "snd e = of_nat ?n"
    by (auto simp: compute_histogram_get Let_def split: if_splits)
  then show "\<exists>r \<in> set rs. fst e = r_action_kind r"
    by (force simp: filter_empty_conv)
  have "?n < 2 ^ 64"
    by (rule order.strict_trans1 [OF length_filter_le]) (use assms(2) in simp)
  then show "snd e \<noteq> 0"
    using n of_nat_word_inj [of ?n 0, where 'a = 64] by auto
qed

lemma value_total_ge_length: "\<forall>e \<in> set es. snd e \<noteq> 0 \<Longrightarrow> length es \<le> value_total es"
proof (induction es)
  case (Cons e es)
  moreover from this have "unat (snd e) \<noteq> 0"
    by (simp add: unat_eq_0)
  ultimately show ?case by simp
qed simp

lemma compute_histogram_Nil: "compute_histogram rs = [] \<longleftrightarrow> rs = []" if "length rs < 2 ^ 64"
  using compute_histogram_sum [OF that] by (auto simp: compute_histogram_def)

text \<open>
  (C22) Every batch the local sealer produces can be anchored: when action kinds have between 1
  and 255 bytes and the batch has fewer than \<open>2 ^ 32\<close> receipts, the canonical preimage of its
  root, its size, its time range and its histogram is defined.
\<close>

theorem sealed_batch_has_preimage:
  assumes "local_seal_batch cx now rs = Inr b"
    and "\<forall>r \<in> set rs. r_action_kind r \<noteq> [] \<and> length (r_action_kind r) \<le> 255"
    and "length rs < 2 ^ 32"
    and "\<forall>bs. length (ext_sha256 (rc_ext cx) bs) = 32"
  shows "\<exists>bs. canonical_preimage swarm (sb_batch_root b) (of_nat (length rs))
    (fst (sb_ns_range b)) (snd (sb_ns_range b)) (sb_action_kind_histogram b) = Inr bs"
proof -
  let ?h = "compute_histogram rs"
  have h: "\<forall>e \<in> set ?h. fst e \<noteq> [] \<and> length (fst e) \<le> 255 \<and> snd e \<noteq> 0"
    using compute_histogram_entries [OF _ assms(3)] assms(2) by metis
  have sum: "value_total ?h = length rs"
    using compute_histogram_sum [of rs] assms(3) by simp
  obtain t where t: "histogram_check ?h 0 = Inr t"
    using histogram_check_ok [OF h, of 0] sum assms(3) by auto
  then have t': "of_nat (length rs) = t"
    using histogram_check_sum [OF t] sum by (metis add_0 unat_0 of_nat_unat ucast_id)
  have len: "length ?h < 2 ^ 32"
    using value_total_ge_length [of ?h] h sum assms(3) by simp
  obtain mb where ne: "rs \<noteq> []" and mb: "build_merkle cx rs = Inr mb"
    and b: "sb_batch_root b = mb_root mb" "sb_action_kind_histogram b = ?h"
    "fst (sb_ns_range b) = Min ((\<lambda>r. monotonic_ns (r_occurred_at r)) ` set rs)"
    "snd (sb_ns_range b) = Max ((\<lambda>r. monotonic_ns (r_occurred_at r)) ` set rs)"
    using assms(1) by (cases rule: local_seal_batch_Inr) auto
  have "hash_ok (mb_root mb)"
    using build_merkle_root_sha256 [OF mb] assms(4) by (auto simp: hash_ok_def sha256_def)
  moreover have "fst (sb_ns_range b) \<le> snd (sb_ns_range b)"
    unfolding b using ne by simp
  moreover have "?h \<noteq> []"
    using compute_histogram_Nil [of rs] ne assms(3) by simp
  ultimately show ?thesis
    using t t' len by (simp add: canonical_preimage_def b(1,2) hash_validate_iff [THEN iffD2])
qed

theorem sealed_batch_has_preimage_witness:
  "\<exists>b bs. local_seal_batch demo_ctx (demo_time 9) [demo_receipt ''a'' 3] = Inr b
     \<and> canonical_preimage (SwarmId 1) (sb_batch_root b) 1
        (fst (sb_ns_range b)) (snd (sb_ns_range b)) (sb_action_kind_histogram b) = Inr bs"
proof -
  let ?rs = "[demo_receipt ''a'' 3]"
  obtain mb where "build_merkle demo_ctx ?rs = Inr mb"
    using build_merkle_ok_if [of ?rs demo_ctx] by auto
  then obtain b where b: "local_seal_batch demo_ctx (demo_time 9) ?rs = Inr b"
    by (auto simp: local_seal_batch_def compute_ns_range_def)
  have "\<exists>bs. canonical_preimage (SwarmId 1) (sb_batch_root b) (of_nat (length ?rs))
        (fst (sb_ns_range b)) (snd (sb_ns_range b)) (sb_action_kind_histogram b) = Inr bs"
    by (rule sealed_batch_has_preimage [OF b]) (auto simp: demo_defs min_def)
  with b show ?thesis
    by simp
qed

text \<open>
  The preimage binds its inputs: two successful encodings with the same bytes have the same
  swarm, root digest, count, time range and histogram.
\<close>

theorem preimage_binding:
  assumes "canonical_preimage s r c lo hi h = Inr bs"
    and "canonical_preimage s' r' c' lo' hi' h' = Inr bs"
  shows "s = s' \<and> digest r = digest r' \<and> c = c' \<and> lo = lo' \<and> hi = hi' \<and> h = h'"
proof -
  note p = canonical_preimage_Inr [OF assms(1)] and p' = canonical_preimage_Inr [OF assms(2)]
  have len: "length (digest r) = length (digest r')"
    using p(1) p'(1) by (simp add: hash_ok_def digest_len_32)
  have eq: "swarm_as_bytes s = swarm_as_bytes s'" "digest r = digest r'" "c = c'" "lo = lo'" "hi = hi'"
    "(of_nat (length h) :: u32) = of_nat (length h')"
    "concat (map encode_entry h) = concat (map encode_entry h')"
    using p(6) p'(6) len by simp_all
  have "length h = length h'"
    using eq(6) of_nat_u32_eq [OF p(5) p'(5)] by simp
  then have "h = h'"
    using encode_entries_inj eq(7) histogram_check_lengths p(4) p'(4) by blast
  with eq show ?thesis
    by (simp add: swarm_as_bytes_inj)
qed

theorem preimage_binding_witness:
  "\<exists>bs. canonical_preimage (SwarmId 1) \<lparr>algorithm = Sha256, digest = replicate 32 0\<rparr> 3 1 5
       [(''a'', 2), (''b'', 1)] = Inr bs
     \<and> canonical_preimage (SwarmId 1) \<lparr>algorithm = Sha256, digest = replicate 32 0\<rparr> 3 1 5
       [(''a'', 1), (''b'', 2)] \<noteq> Inr bs"
proof -
  let ?r = "\<lparr>algorithm = Sha256, digest = replicate 32 (0::byte)\<rparr>"
  obtain bs where bs: "canonical_preimage (SwarmId 1) ?r 3 1 5 [(''a'', 2), (''b'', 1)] = Inr bs"
    by (simp add: canonical_preimage_def hash_validate_def checked_add_def MAX_ACTION_KIND_LEN_def)
  then show ?thesis
    using preimage_binding [OF bs, of "SwarmId 1" ?r 3 1 5 "[(''a'', 1), (''b'', 2)]"] by auto
qed

section \<open>Wire round trip\<close>

lemma seal_try_from_ok: "seal_try_from x p = Inr s \<Longrightarrow> seal_ok x s"
  by (auto simp: seal_try_from_def rbind_eq_Inr seal_ok_def hash_codec.decode_option_iff
      hash_codec.decode_list_iff timestamp_codec.decode_option_iff map_err_eq_Inr split: if_splits)

lemma seal_ok_unsealed: "seal_ok x unsealed"
  by (simp add: seal_ok_def unsealed_def)

lemma receipt_try_from_ok:
  assumes "receipt_try_from x p = Inr r"
  shows "receipt_ok x r"
proof -
  from assms obtain v c t pt seal sigs where
    parts: "version_ok v" "transpose_map causal_try_from (pr_causal p) = Inr c"
    "timestamp_try_from x pt = Inr t"
    "transpose_map (seal_try_from x) (pr_seal p) = Inr seal"
    "collect_results (map (signed_by_try_from x) (pr_signatures p)) = Inr sigs"
    and r: "r_spec_version r = v" "r_occurred_at r = t" "r_signatures r = sigs"
    "r_causal r = (case c of None \<Rightarrow> causal_empty | Some c' \<Rightarrow> c')"
    "r_seal r = (case seal of None \<Rightarrow> unsealed | Some s' \<Rightarrow> s')"
    unfolding receipt_try_from_def rbind_eq_Inr map_err_eq_Inr ok_or_eq_Inr version_codec.decode_iff
    by auto
  have "causal_ok (r_causal r)"
    using parts(2) by (cases c) (auto simp: r causal_codec.decode_option_iff causal_ok_def causal_empty_def)
  moreover have "seal_ok x (r_seal r)"
    using parts(4) by (cases "pr_seal p")
      (auto simp: r rbind_eq_Inr seal_ok_unsealed dest: seal_try_from_ok)
  moreover have "timestamp_ok x t" "list_all (signed_by_ok x) sigs"
    using parts(3,5) by (auto simp: timestamp_codec.decode_iff signed_by_codec.decode_list_iff)
  ultimately show ?thesis
    using parts(1) by (simp add: receipt_ok_def r)
qed

text \<open>
  (C26) Receipts survive the wire: decoding the message of a well-formed receipt gives the receipt
  back, whatever a peer sends is decoded only to a well-formed receipt, and re-encoding it and
  decoding again changes nothing, so its content-address and signatures stay checkable.
\<close>

theorem receipt_wire_roundtrip:
  "(receipt_ok x r \<longrightarrow> receipt_try_from x (proto_of_receipt r) = Inr r)
   \<and> (receipt_try_from x p = Inr q \<longrightarrow>
        receipt_ok x q \<and> receipt_try_from x (proto_of_receipt q) = Inr q)"
  by (auto simp: receipt_codec.decode_encode receipt_try_from_ok)

theorem receipt_wire_roundtrip_witness:
  "receipt_try_from demo_ext (proto_of_receipt (demo_receipt ''a'' 1)) = Inr (demo_receipt ''a'' 1)"
proof -
  have "receipt_ok demo_ext (demo_receipt ''a'' 1)"
    by (simp add: receipt_ok_def demo_defs seal_ok_def unsealed_def causal_ok_def causal_empty_def
        timestamp_ok_def signed_by_ok_def signature_ok_def is_digit_def version_ok_def
        spec_version_parse_def numeric_prefix_def parse_u32_def digits_value_def)
  with receipt_wire_roundtrip show ?thesis
    by blast
qed

end
