(* ===== verification/Scores.thy ===== *)
theory Scores
  imports Core_Types
begin

text \<open>
  Numbers in configuration text: trimming, integer parsing, durations
  (\<open>parse_window_ns\<close> of \<open>crates/yutha-cedar-plus/src/enforcement.rs\<close>, \<open>parse_duration\<close> of \<open>validate.rs\<close>)
  and fixed-precision scores (\<open>parse_score_scaled\<close>, \<open>render_score_scaled\<close> of \<open>layer_b.rs\<close>). An \<open>i64\<close> is
  an integer, its wrap-around written out with \<open>wrap_i64\<close>.
\<close>

section \<open>White space and integers\<close>

text \<open>The UTF-8 encodings of the characters with the Unicode property \<open>White_Space\<close>.\<close>

definition white_space :: "string list" where
  "white_space =
     map (\<lambda>n. [char_of n]) [9, 10, 11, 12, 13, 32::nat]
     @ map (\<lambda>n. map char_of [194, n]) [133, 160::nat]
     @ [map char_of [225, 154, 128::nat]]
     @ map (\<lambda>n. map char_of [226, 128, n]) ([128..<139] @ [168, 169, 175::nat])
     @ [map char_of [226, 129, 159::nat], map char_of [227, 128, 128::nat]]"

lemma white_space_not_Nil: "[] \<notin> set white_space"
  by (simp add: white_space_def image_iff)

function strip_any :: "string list \<Rightarrow> string \<Rightarrow> string" where
  "strip_any ws s =
     (case find (\<lambda>w. w \<noteq> [] \<and> take (length w) s = w) ws of
        None \<Rightarrow> s
      | Some w \<Rightarrow> strip_any ws (drop (length w) s))"
  by pat_completeness auto
termination
proof (relation "measure (\<lambda>(ws, s). length s)")
  fix ws s w
  assume "find (\<lambda>w. w \<noteq> [] \<and> take (length w) s = w) ws = Some w"
  then have "w \<noteq> []" and "take (length w) s = w" by (auto simp: find_Some_iff)
  then have "0 < length w" and "s \<noteq> []" by auto
  then show "((ws, drop (length w) s), ws, s) \<in> measure (\<lambda>(ws, s). length s)" by simp
qed simp

declare strip_any.simps [simp del]

definition trim_ws :: "string \<Rightarrow> string" where
  "trim_ws s = rev (strip_any (map rev white_space) (rev (strip_any white_space s)))"

definition in_i64 :: "int \<Rightarrow> bool" where
  "in_i64 i = (- (2 ^ 63) \<le> i \<and> i < 2 ^ 63)"

definition wrap_i64 :: "int \<Rightarrow> int" where
  "wrap_i64 i = (i + 2 ^ 63) mod 2 ^ 64 - 2 ^ 63"

definition saturating_add_i64 :: "int \<Rightarrow> int \<Rightarrow> int" where
  "saturating_add_i64 a b = max (- (2 ^ 63)) (min (2 ^ 63 - 1) (a + b))"

text \<open>\<open>i64::from_str\<close> and \<open>u64::from_str\<close>: a sign, at least one digit, no overflow.\<close>

definition parse_i64 :: "string \<Rightarrow> int option" where
  "parse_i64 s =
     (let (sign, d) = (case s of
           c # cs \<Rightarrow> if c = CHR ''-'' then (- 1, cs) else if c = CHR ''+'' then (1, cs) else (1, s)
         | [] \<Rightarrow> (1, []));
          v = sign * int (digits_value d)
      in if d = [] \<or> \<not> list_all is_digit d \<or> \<not> in_i64 v then None else Some v)"

definition parse_u64 :: "string \<Rightarrow> u64 option" where
  "parse_u64 s =
     (let d = (case s of c # cs \<Rightarrow> if c = CHR ''+'' then cs else s | [] \<Rightarrow> [])
      in if d = [] \<or> \<not> list_all is_digit d \<or> digits_value d \<ge> 2 ^ 64 then None
         else Some (of_nat (digits_value d)))"

definition checked_mul :: "u64 \<Rightarrow> nat \<Rightarrow> u64 option" where
  "checked_mul a n = (if unat a * n < 2 ^ 64 then Some (a * of_nat n) else None)"

section \<open>Durations\<close>

text \<open>Number and unit: the text up to the last digit, and what follows it.\<close>

definition split_suffix :: "string \<Rightarrow> (string \<times> string) option" where
  "split_suffix s =
     (let unit = rev (takeWhile (\<lambda>c. \<not> is_digit c) (rev s))
      in if length unit = length s \<or> unit = [] then None
         else Some (take (length s - length unit) s, unit))"

definition parse_window_ns :: "string \<Rightarrow> u64 option" where
  "parse_window_ns s =
     (case split_suffix (trim_ws s) of
        None \<Rightarrow> None
      | Some (num, unit) \<Rightarrow>
          Option.bind (parse_u64 num) (\<lambda>n.
            if unit = ''ms'' then checked_mul n 1000000
            else
              Option.bind
                (if unit = ''s'' then Some n
                 else if unit = ''m'' then checked_mul n 60
                 else if unit = ''h'' then checked_mul n (60 * 60)
                 else if unit = ''d'' then checked_mul n (60 * 60 * 24)
                 else None)
                (\<lambda>secs. checked_mul secs 1000000000)))"

text \<open>
  The parser of the load-time validator. A \<open>Duration\<close> of milliseconds \<open>n\<close> or seconds \<open>n\<close> is the pair
  of its unit in milliseconds and \<open>n\<close>; the products wrap.
\<close>

definition parse_duration :: "string \<Rightarrow> (nat \<times> u64) option" where
  "parse_duration s =
     (let t = trim_ws s in
      if t = [] then None
      else case split_suffix t of
        None \<Rightarrow> None
      | Some (num, unit) \<Rightarrow>
          Option.bind (parse_u64 num) (\<lambda>n.
            if unit = ''ms'' then Some (1, n)
            else if unit = ''s'' then Some (1000, n)
            else if unit = ''m'' then Some (1000, n * 60)
            else if unit = ''h'' then Some (1000, n * 60 * 60)
            else if unit = ''d'' then Some (1000, n * 60 * 60 * 24)
            else None))"

section \<open>Scores\<close>

type_synonym Score = string

definition split_point :: "string \<Rightarrow> string \<times> string" where
  "split_point s =
     (let i = takeWhile (\<lambda>c. c \<noteq> CHR ''.'') s in (i, drop (length i + 1) s))"

definition frac_padded :: "string \<Rightarrow> string option" where
  "frac_padded f =
     (let d = take 4 f
      in if list_all is_digit d then Some (d @ replicate (4 - length d) (CHR ''0'')) else None)"

definition parse_score_scaled :: "Score \<Rightarrow> string + int" where
  "parse_score_scaled score =
     (let s = trim_ws score in
      if s = [] then Inl ''empty score string''
      else
        let (sign, rest) = (if hd s = CHR ''-'' then (- 1, tl s) else (1, s));
            (int_part, frac_part) = split_point rest
        in rbind (ok_or (parse_i64 int_part) ''integer part not parseable'') (\<lambda>int_val.
           rbind (ok_or (frac_padded frac_part) ''fractional part contains non-digit'') (\<lambda>frac.
           rbind (ok_or (parse_i64 frac) ''fractional part not parseable'') (\<lambda>frac_val.
             Inr (wrap_i64 (sign * wrap_i64 (wrap_i64 (int_val * 10000) + frac_val)))))))"

text \<open>Decimal rendering, and the trailing zeros dropped while more than one digit is left.\<close>

definition digit_char :: "nat \<Rightarrow> char" where
  "digit_char d = char_of (48 + d)"

fun to_decimal :: "nat \<Rightarrow> string" where
  "to_decimal n = (if n < 10 then [digit_char n] else to_decimal (n div 10) @ [digit_char (n mod 10)])"

declare to_decimal.simps [simp del]

definition pad4 :: "nat \<Rightarrow> string" where
  "pad4 n = (let d = to_decimal n in replicate (4 - length d) (CHR ''0'') @ d)"

fun trim_zeros :: "string \<Rightarrow> string" where
  "trim_zeros (c # d # cs) = (if c = CHR ''0'' then trim_zeros (d # cs) else c # d # cs)"
| "trim_zeros s = s"

definition render_score_scaled :: "int \<Rightarrow> Score" where
  "render_score_scaled scaled =
     (let sign = (if scaled < 0 then ''-'' else '''');
          a = nat \<bar>scaled\<bar>;
          int_part = a div 10000;
          frac_part = a mod 10000
      in if frac_part = 0 then sign @ to_decimal int_part @ ''.0''
         else sign @ to_decimal int_part @ ''.'' @ rev (trim_zeros (rev (pad4 frac_part))))"

section \<open>Rendering and parsing back\<close>

lemma is_digit_char [simp]: "n < 10 \<Longrightarrow> is_digit (digit_char n)"
  by (simp add: is_digit_def digit_char_def less_eq_char_def)

lemma of_digit_char: "n < 10 \<Longrightarrow> of_char (digit_char n) = (48 + n :: nat)"
  by (simp add: digit_char_def)

lemma digits_value_snoc: "digits_value (s @ [c]) = digits_value s * 10 + (of_char c - 48)"
  by (simp add: digits_value_def)

lemma to_decimal_digits: "list_all is_digit (to_decimal n)"
  by (induction n rule: to_decimal.induct) (simp add: to_decimal.simps)

lemma to_decimal_value [simp]: "digits_value (to_decimal n) = n"
proof (induction n rule: to_decimal.induct)
  case (1 n)
  then show ?case
    by (subst to_decimal.simps) (auto simp: digits_value_snoc of_digit_char digits_value_def)
qed

lemma to_decimal_not_Nil [simp]: "to_decimal n \<noteq> []"
  by (subst to_decimal.simps) simp

lemma length_to_decimal: "n < 10 ^ k \<Longrightarrow> 0 < k \<Longrightarrow> length (to_decimal n) \<le> k"
proof (induction k arbitrary: n)
  case (Suc k)
  show ?case
  proof (cases "n < 10")
    case True
    then show ?thesis by (simp add: to_decimal.simps)
  next
    case False
    with Suc.prems have "0 < k" by (cases k) auto
    moreover from Suc.prems have "n div 10 < 10 ^ k" by (simp add: less_mult_imp_div_less mult.commute)
    ultimately have "length (to_decimal (n div 10)) \<le> k" using Suc.IH by blast
    with False show ?thesis by (subst to_decimal.simps) simp
  qed
qed simp

lemma parse_i64_digits:
  assumes "d \<noteq> []" and "list_all is_digit d" and "digits_value d < 2 ^ 63"
  shows "parse_i64 d = Some (int (digits_value d))"
proof -
  from assms obtain c cs where d: "d = c # cs" by (cases d) auto
  with assms(2) have "c \<noteq> CHR ''-''" "c \<noteq> CHR ''+''"
    by (auto simp: is_digit_def less_eq_char_def)
  with assms d show ?thesis by (simp add: parse_i64_def in_i64_def)
qed

lemma digits_value_zeros: "digits_value (replicate k (CHR ''0'') @ d) = digits_value d"
proof (induction k)
  case (Suc k)
  then show ?case by (simp add: digits_value_def)
qed simp

lemma trim_zeros_spec:
  "s \<noteq> [] \<Longrightarrow> trim_zeros s \<noteq> [] \<and> (\<exists>k. s = replicate k (CHR ''0'') @ trim_zeros s)"
proof (induction s rule: trim_zeros.induct)
  case (1 c d cs)
  show ?case
  proof (cases "c = CHR ''0''")
    case True
    with 1 obtain k where "trim_zeros (d # cs) \<noteq> []"
      "d # cs = replicate k (CHR ''0'') @ trim_zeros (d # cs)" by auto
    with True show ?thesis by (auto intro: exI [of _ "Suc k"])
  qed (auto intro: exI [of _ 0])
qed (auto intro: exI [of _ 0])

lemma pad4_props:
  assumes "n < 10000"
  shows "length (pad4 n) = 4" "list_all is_digit (pad4 n)" "digits_value (pad4 n) = n"
proof -
  have "length (to_decimal n) \<le> 4"
    using assms by (intro length_to_decimal) simp_all
  then show "length (pad4 n) = 4" by (simp add: pad4_def Let_def)
  have "is_digit (CHR ''0'')" by (simp add: is_digit_def less_eq_char_def)
  then show "list_all is_digit (pad4 n)"
    using to_decimal_digits [of n] by (auto simp: pad4_def Let_def list_all_iff)
  show "digits_value (pad4 n) = n"
    by (simp add: pad4_def Let_def digits_value_zeros)
qed

lemma frac_padded_render:
  assumes "0 < n" and "n < 10000"
  defines "t \<equiv> rev (trim_zeros (rev (pad4 n)))"
  shows "frac_padded t = Some (pad4 n)" and "t \<noteq> []" and "list_all is_digit t"
proof -
  have ne: "rev (pad4 n) \<noteq> []" using pad4_props(1) [OF assms(2)] by auto
  have rt: "rev t = trim_zeros (rev (pad4 n))" by (simp add: t_def)
  from trim_zeros_spec [OF ne] obtain k where
    k: "rev t \<noteq> []" "rev (pad4 n) = replicate k (CHR ''0'') @ rev t"
    unfolding rt by blast
  then have p: "pad4 n = t @ replicate k (CHR ''0'')"
    by (metis rev_append rev_replicate rev_rev_ident)
  with pad4_props(1) [OF assms(2)] have "length t + k = 4" by simp
  moreover from p pad4_props(2) [OF assms(2)] show digits: "list_all is_digit t" by simp
  moreover from calculation(1) have "take 4 t = t" "4 - length t = k" by simp_all
  ultimately show "frac_padded t = Some (pad4 n)"
    by (simp add: frac_padded_def p)
  show "t \<noteq> []" using k(1) by simp
qed

lemma strip_any_id:
  assumes "\<And>w. w \<in> set ws \<Longrightarrow> w \<noteq> [] \<Longrightarrow> hd w \<noteq> c"
  shows "strip_any ws (c # s) = c # s"
proof -
  have "find (\<lambda>w. w \<noteq> [] \<and> take (length w) (c # s) = w) ws = None"
    using assms by (fastforce simp: find_None_iff neq_Nil_conv take_Cons')
  then show ?thesis by (subst strip_any.simps) simp
qed

definition plain_end :: "char \<Rightarrow> bool" where
  "plain_end c = (is_digit c \<or> c = CHR ''-'' \<or> CHR ''a'' \<le> c \<and> c \<le> CHR ''z'')"

lemma white_space_plain: "list_all (\<lambda>w. \<not> plain_end (hd w) \<and> \<not> plain_end (hd (rev w))) white_space"
  by code_simp

lemma white_space_ends:
  assumes "w \<in> set white_space" and "plain_end c"
  shows "hd w \<noteq> c" and "hd (rev w) \<noteq> c"
  using assms white_space_plain by (auto simp: list_all_iff)

lemma trim_ws_id:
  assumes "s \<noteq> []" and "plain_end (hd s)" and "plain_end (last s)"
  shows "trim_ws s = s"
proof -
  from assms obtain c t where s: "s = c # t" by (cases s) auto
  obtain d u where r: "rev s = d # u" using assms(1) by (cases "rev s") auto
  then have d: "d = last s" by (metis last_rev list.sel(1) rev_rev_ident hd_rev)
  have "strip_any white_space s = s"
    unfolding s using assms(2) s white_space_ends by (intro strip_any_id) auto
  moreover have "strip_any (map rev white_space) (rev s) = rev s"
    unfolding r using assms(3) d white_space_ends by (intro strip_any_id) auto
  ultimately show ?thesis by (simp add: trim_ws_def)
qed

lemma takeWhile_digits: "list_all is_digit d \<Longrightarrow> takeWhile (\<lambda>c. c \<noteq> CHR ''.'') (d @ CHR ''.'' # f) = d"
  by (induction d) (auto simp: is_digit_def less_eq_char_def)

lemma split_point_digits: "list_all is_digit d \<Longrightarrow> split_point (d @ CHR ''.'' # f) = (d, f)"
  by (simp add: split_point_def Let_def takeWhile_digits)

lemma wrap_i64_id: "in_i64 i \<Longrightarrow> wrap_i64 i = i"
  by (simp add: wrap_i64_def in_i64_def)

lemma wrap_i64_mult: "wrap_i64 (s * wrap_i64 x) = wrap_i64 (s * x)"
proof -
  let ?N = "2 ^ 64 :: int" and ?M = "2 ^ 63 :: int"
  define k where "k = (x + ?M) div ?N"
  have "(x + ?M) mod ?N = x + ?M - k * ?N"
    unfolding k_def by (simp only: minus_div_mult_eq_mod)
  then have w: "wrap_i64 x = x - k * ?N"
    unfolding wrap_i64_def by simp
  have "s * wrap_i64 x + ?M = (s * x + ?M) + (- (s * k)) * ?N"
    unfolding w by (simp add: algebra_simps)
  then show ?thesis
    unfolding wrap_i64_def by (metis mod_mult_self1)
qed

text \<open>Parsing the text of a number with an integer part and a fraction.\<close>

lemma parse_score_text:
  assumes "f \<noteq> []" and "list_all is_digit f" and "frac_padded f = Some p" and "parse_i64 p = Some q"
    and "n < 2 ^ 63"
  shows "parse_score_scaled ((if neg then ''-'' else '''') @ to_decimal n @ CHR ''.'' # f) =
    Inr (wrap_i64 ((if neg then - 1 else 1) * wrap_i64 (wrap_i64 (int n * 10000) + q)))"
proof -
  let ?s = "(if neg then ''-'' else '''') @ to_decimal n @ CHR ''.'' # f"
  have digits: "list_all is_digit (to_decimal n)" by (rule to_decimal_digits)
  have first: "is_digit (hd (to_decimal n))"
    using digits hd_in_set [OF to_decimal_not_Nil] by (auto simp: list_all_iff)
  have "is_digit (last f)" using assms(1,2) by (auto simp: list_all_iff)
  then have trimmed: "trim_ws ?s = ?s"
    using assms(1) first by (intro trim_ws_id) (auto simp: plain_end_def hd_append)
  have minus: "hd (to_decimal n) \<noteq> CHR ''-''"
    using first by (auto simp: is_digit_def less_eq_char_def)
  have int_part: "parse_i64 (to_decimal n) = Some (int n)"
    using parse_i64_digits [OF to_decimal_not_Nil digits] assms(5) by simp
  show ?thesis
    unfolding parse_score_scaled_def trimmed Let_def
    using minus by (simp add: split_point_digits [OF digits] int_part assms(3,4) hd_append)
qed

lemma score_roundtrip:
  assumes "in_i64 i"
  shows "parse_score_scaled (render_score_scaled i) = Inr i"
proof -
  let ?a = "nat \<bar>i\<bar>"
  let ?n = "?a div 10000" and ?f = "?a mod 10000"
  have a: "?a \<le> 2 ^ 63" "i = (if i < 0 then - 1 else 1) * int ?a"
    using assms by (auto simp: in_i64_def)
  then have n: "?n < 2 ^ 63" by simp
  have parts: "int ?n * 10000 + int ?f = int ?a"
    using div_mult_mod_eq [of ?a 10000] by (metis of_nat_add of_nat_mult of_nat_numeral)
  have wraps: "wrap_i64 ((if i < 0 then - 1 else 1) * wrap_i64 (wrap_i64 (int ?n * 10000) + int ?f)) = i"
  proof -
    have "?n \<le> 2 ^ 63 div 10000" using a(1) by (rule div_le_mono)
    then have "wrap_i64 (int ?n * 10000) = int ?n * 10000"
      by (intro wrap_i64_id) (simp add: in_i64_def)
    then show ?thesis
      using a(2) assms by (simp add: parts wrap_i64_mult wrap_i64_id)
  qed
  show ?thesis
  proof (cases "?f = 0")
    case True
    have "frac_padded ''0'' = Some ''0000''" "parse_i64 ''0000'' = Some 0" "list_all is_digit ''0''"
      by code_simp+
    then show ?thesis
      using parse_score_text [of "''0''" "''0000''" 0 ?n "i < 0"] n wraps True
      by (simp add: render_score_scaled_def Let_def)
  next
    case False
    then have f: "0 < ?f" "?f < 10000" by simp_all
    note t = frac_padded_render [OF f]
    have "pad4 ?f \<noteq> []" using pad4_props(1) [OF f(2)] by auto
    then have "parse_i64 (pad4 ?f) = Some (int ?f)"
      using parse_i64_digits [of "pad4 ?f"] pad4_props [OF f(2)] f(2) by simp
    from parse_score_text [OF t(2,3,1) this n, of "i < 0"] wraps False show ?thesis
      by (simp add: render_score_scaled_def Let_def)
  qed
qed

end
