(* ===== verification/Engine_Config.thy ===== *)
theory Engine_Config
  imports Scores
begin

text \<open>
  The engine configuration of a constitution: named predicates, scoring rules, procedures and
  enforcement rules (\<open>crates/yutha-cedar-plus/src/engine_config.rs\<close>), the constitution artifact
  (\<open>constitution.rs\<close>), the sandbox bounds (\<open>sandbox.rs\<close>) and the errors (\<open>error.rs\<close>).
\<close>

section \<open>Configuration\<close>

record NamedPredicate =
  np_name :: string
  np_expr :: string

record ScoringHead =
  sh_principal :: "string option"
  sh_action :: "string option"
  sh_resource :: "string option"

record ScoringRule =
  sr_name :: string
  sr_score :: Score
  sr_head :: ScoringHead
  sr_when :: string

record ProcedureTrigger =
  pt_action :: string
  pt_when :: "string option"

record ProcedureTransition =
  t_from :: string
  t_to :: string
  t_action :: "string option"
  t_actor_when :: "string option"
  t_on_timeout :: "string option"

record Procedure =
  pc_name :: string
  pc_initial_state :: string
  pc_states :: "string list"
  pc_terminal_states :: "string list"
  pc_trigger :: ProcedureTrigger
  pc_transitions :: "ProcedureTransition list"
  pc_on_timeout_escalate :: "(string, string) hash_map"

record DetectTrigger =
  dt_receipt_kind :: string
  dt_deny_reason :: "string option"
  dt_forbid_rule_id :: "string option"

record DetectConfig =
  dc_trigger :: DetectTrigger
  dc_count_threshold :: u32
  dc_time_window :: string
  dc_group_by :: string
  dc_historical :: bool

record CoachConfig =
  co_cooldown :: string
  co_guidance_template :: string

record ComplianceCheck =
  cc_no_more_of :: string
  cc_for_duration :: string

record QuarantineConfig =
  qc_escalate_after :: string
  qc_expires_after :: "string option"
  qc_compliance_check :: "ComplianceCheck option"

record EvictConfig =
  ev_escalate_after :: string
  ev_require_countersign :: bool

record ReverseConfig =
  rv_auto_when :: "string list"

record EnforcementRule =
  er_name :: string
  er_detect :: DetectConfig
  er_coach :: "CoachConfig option"
  er_quarantine :: "QuarantineConfig option"
  er_evict :: "EvictConfig option"
  er_reputation_delta :: "(string, Score) hash_map"
  er_reverse :: ReverseConfig
  er_severity :: "string option"

record EngineConfig =
  ec_schema_version :: string
  ec_predicates :: "NamedPredicate list"
  ec_scoring_rules :: "ScoringRule list"
  ec_procedures :: "Procedure list"
  ec_enforcement_rules :: "EnforcementRule list"

record Constitution =
  k_constitution_hash :: Hash
  k_spec_version :: SpecVersion
  k_schema_version :: string
  k_constitution_version :: string
  k_parent_version :: "Hash option"
  k_swarm_id :: SwarmId
  k_cedar_source :: string
  k_engine_config :: EngineConfig
  k_issued_at :: Timestamp

section \<open>Bounds and errors\<close>

text \<open>The bounds on counts; the two time limits of \<open>SandboxConfig\<close> are not read by the evaluator.\<close>

record SandboxConfig =
  max_entity_count :: nat
  max_scoring_rules :: nat
  max_procedures :: nat
  max_open_procedure_instances_examined :: nat
  max_cedar_policies :: nat
  max_policy_depth_at_load :: u32

definition sandbox_default :: SandboxConfig where
  "sandbox_default =
     \<lparr>max_entity_count = 1000, max_scoring_rules = 1000, max_procedures = 100,
      max_open_procedure_instances_examined = 100, max_cedar_policies = 1000,
      max_policy_depth_at_load = 16\<rparr>"

datatype LoadBoundReason = ScoringRuleCount | ProcedureCount | PolicyCount | PolicyDepth

datatype EvalBoundReason = EvaluationTime | EntityStoreSize | OpenProcedureInstanceCount | EvaluationDepth

datatype CedarPlusError =
    CedarParse string
  | SchemaVersionUnsupported string
  | InvalidScoringRule string string
  | InvalidProcedure string string
  | InvalidEnforcementRule string string
  | LoadBoundExceeded LoadBoundReason
  | RequestShapeInvalid string
  | EntityUnresolved string
  | ConstitutionUnresolved string
  | EvaluatorInternalError string
  | EvaluationBoundExceeded EvalBoundReason
  | ProcedureTransitionAmbiguous string "string list"
  | Infrastructure string

section \<open>JSON\<close>

text \<open>
  The JSON values (\<open>serde_json::Value\<close>) the engine and the control plane build: strings, integers, arrays
  and objects, an object being a B-tree map.
\<close>

datatype json_value =
    JString string
  | JNumber int
  | JArray "json_value list"
  | JObject "(string \<times> json_value) list"

definition json_object :: "(string \<times> json_value) list \<Rightarrow> json_value" where
  "json_object kvs = JObject (fold (\<lambda>(k, v). bt_insert k v) kvs [])"

end
