(* ===== verification/Enforcement.thy ===== *)
theory Enforcement
  imports Engine_Config
begin

text \<open>
  The enforcement engine (\<open>crates/yutha-cedar-plus/src/enforcement.rs\<close>): sliding-window counters per
  rule and group, per-agent reputation and quarantine, and scheduled stage transitions. The engine
  reads of the active constitution its enforcement rules only. Arithmetic on wall-clock texts is the
  work of the \<open>time\<close> crate: the parameter \<open>clock_add t ns\<close> parses the RFC 3339 text \<open>t\<close>, adds \<open>ns\<close>
  nanoseconds and formats the sum, or fails.
\<close>

section \<open>Types\<close>

record ReceiptView =
  rv_action_kind :: string
  rv_principal_id :: "string option"
  rv_deny_reason :: "string option"
  rv_forbid_rule_id :: "string option"
  rv_occurred_at_unix_ns :: u64
  rv_occurred_at_wall_clock :: string
  rv_reputation_delta :: "Score option"

record EnforcementEffect =
  ef_action_kind :: string
  ef_target_agent_id :: string
  ef_enforcement_rule_id :: string
  ef_reputation_delta :: Score
  ef_additional_evidence :: "(string, json_value) btree_map"

definition INITIAL_REPUTATION_SCALED :: int where
  "INITIAL_REPUTATION_SCALED = 10000"

definition MIN_REPUTATION_SCALED :: int where
  "MIN_REPUTATION_SCALED = 0"

definition MAX_REPUTATION_SCALED :: int where
  "MAX_REPUTATION_SCALED = 10000"

datatype Stage = Detect | Coach | Quarantine | Evict | Reverse

fun stage_action_kind :: "Stage \<Rightarrow> string" where
  "stage_action_kind Detect = ''enforcement.detect''"
| "stage_action_kind Coach = ''enforcement.coach''"
| "stage_action_kind Quarantine = ''enforcement.quarantine''"
| "stage_action_kind Evict = ''enforcement.evict''"
| "stage_action_kind Reverse = ''enforcement.reverse''"

record AgentState =
  reputation_scaled :: int
  current_stage :: "Stage option"
  quarantined :: bool

definition agent_state_initial :: AgentState where
  "agent_state_initial =
     \<lparr>reputation_scaled = INITIAL_REPUTATION_SCALED, current_stage = None, quarantined = False\<rparr>"

text \<open>
  The observable state of an agent; the public mirror of the stages is the stage type itself, and
  the budgets are never filled in.
\<close>

record AgentSnapshot =
  as_agent_id :: string
  as_reputation :: Score
  as_quarantined :: bool
  as_current_stage :: "Stage option"

record CounterBucket =
  timestamps_ns :: "u64 list"

definition prune :: "u64 \<Rightarrow> u64 \<Rightarrow> CounterBucket \<Rightarrow> CounterBucket" where
  "prune now_ns window_ns b =
     (if now_ns < window_ns then b
      else b\<lparr>timestamps_ns := filter (\<lambda>t. now_ns - window_ns \<le> t) (timestamps_ns b)\<rparr>)"

record ScheduledAction =
  sa_fire_at_wall_clock :: string
  sa_target_agent_id :: string
  sa_enforcement_rule_id :: string
  sa_stage :: Stage

record EngineState =
  es_active :: "EnforcementRule list option"
  es_agents :: "(string, AgentState) hash_map"
  es_counters :: "(string \<times> string, CounterBucket) hash_map"
  es_scheduled :: "ScheduledAction list"

definition engine_fresh :: EngineState where
  "engine_fresh = \<lparr>es_active = None, es_agents = [], es_counters = [], es_scheduled = []\<rparr>"

section \<open>Reputation and quarantine\<close>

definition agent_entry :: "EngineState \<Rightarrow> string \<Rightarrow> AgentState" where
  "agent_entry st a = (case hm_get (es_agents st) a of None \<Rightarrow> agent_state_initial | Some s \<Rightarrow> s)"

definition put_agent :: "string \<Rightarrow> AgentState \<Rightarrow> EngineState \<Rightarrow> EngineState" where
  "put_agent a s st = st\<lparr>es_agents := hm_insert a s (es_agents st)\<rparr>"

definition apply_reputation_delta :: "string \<Rightarrow> Score \<Rightarrow> EngineState \<Rightarrow> EngineState" where
  "apply_reputation_delta a delta st =
     (let s = agent_entry st a in
      put_agent a
        (case parse_score_scaled delta of
           Inl _ \<Rightarrow> s
         | Inr d \<Rightarrow> s\<lparr>reputation_scaled :=
             max MIN_REPUTATION_SCALED
               (min MAX_REPUTATION_SCALED (saturating_add_i64 (reputation_scaled s) d))\<rparr>) st)"

definition set_quarantine :: "string \<Rightarrow> bool \<Rightarrow> EngineState \<Rightarrow> EngineState" where
  "set_quarantine a q st = put_agent a ((agent_entry st a)\<lparr>quarantined := q\<rparr>) st"

definition is_agent_quarantined :: "EngineState \<Rightarrow> string \<Rightarrow> bool" where
  "is_agent_quarantined st a = (case hm_get (es_agents st) a of None \<Rightarrow> False | Some s \<Rightarrow> quarantined s)"

definition agent_reputation :: "EngineState \<Rightarrow> string \<Rightarrow> Score" where
  "agent_reputation st a =
     render_score_scaled (case hm_get (es_agents st) a of
        None \<Rightarrow> INITIAL_REPUTATION_SCALED | Some s \<Rightarrow> reputation_scaled s)"

definition get_agent_state :: "EngineState \<Rightarrow> string \<Rightarrow> AgentSnapshot" where
  "get_agent_state st a =
     (case hm_get (es_agents st) a of
        None \<Rightarrow> \<lparr>as_agent_id = a, as_reputation = render_score_scaled INITIAL_REPUTATION_SCALED,
                 as_quarantined = False, as_current_stage = None\<rparr>
      | Some s \<Rightarrow> \<lparr>as_agent_id = a, as_reputation = render_score_scaled (reputation_scaled s),
                   as_quarantined = quarantined s, as_current_stage = current_stage s\<rparr>)"

section \<open>Detection\<close>

type_synonym clock_add = "string \<Rightarrow> int \<Rightarrow> string option"

text \<open>The duration is cast to a signed number of nanoseconds.\<close>

definition compute_fire_at :: "clock_add \<Rightarrow> string \<Rightarrow> string \<Rightarrow> string option" where
  "compute_fire_at add now duration =
     Option.bind (parse_window_ns duration) (\<lambda>ns. add now (sint ns))"

definition trigger_matches :: "EnforcementRule \<Rightarrow> ReceiptView \<Rightarrow> bool" where
  "trigger_matches rule r =
     (let t = dc_trigger (er_detect rule) in
      rv_action_kind r = dt_receipt_kind t
      \<and> (case dt_deny_reason t of None \<Rightarrow> True | Some want \<Rightarrow> rv_deny_reason r = Some want)
      \<and> (case dt_forbid_rule_id t of None \<Rightarrow> True | Some want \<Rightarrow> rv_forbid_rule_id r = Some want))"

definition group_key :: "EnforcementRule \<Rightarrow> ReceiptView \<Rightarrow> string" where
  "group_key rule r =
     (if dc_group_by (er_detect rule) = ''none'' then []
      else case rv_principal_id r of None \<Rightarrow> [] | Some p \<Rightarrow> p)"

definition window_of :: "EnforcementRule \<Rightarrow> u64" where
  "window_of rule =
     (case parse_window_ns (dc_time_window (er_detect rule)) of None \<Rightarrow> 60000000000 | Some w \<Rightarrow> w)"

definition bumped_counter :: "EnforcementRule \<Rightarrow> ReceiptView \<Rightarrow> EngineState \<Rightarrow> CounterBucket" where
  "bumped_counter rule r st =
     (let b = (case hm_get (es_counters st) (er_name rule, group_key rule r) of
                 None \<Rightarrow> \<lparr>timestamps_ns = []\<rparr> | Some b \<Rightarrow> b);
          b' = prune (rv_occurred_at_unix_ns r) (window_of rule) b
      in b'\<lparr>timestamps_ns := timestamps_ns b' @ [rv_occurred_at_unix_ns r]\<rparr>)"

definition put_counter :: "EnforcementRule \<Rightarrow> ReceiptView \<Rightarrow> CounterBucket \<Rightarrow> EngineState \<Rightarrow> EngineState" where
  "put_counter rule r b st =
     st\<lparr>es_counters := hm_insert (er_name rule, group_key rule r) b (es_counters st)\<rparr>"

definition detect_evidence :: "EnforcementRule \<Rightarrow> ReceiptView \<Rightarrow> CounterBucket \<Rightarrow> (string, json_value) btree_map" where
  "detect_evidence rule r b =
     fold (\<lambda>(k, v). bt_insert k v)
       [(''matched_timestamps_ns'', JArray (map (\<lambda>t. JString (to_decimal (unat t))) (timestamps_ns b))),
        (''group_key'', JString (group_key rule r)),
        (''pattern_summary'',
         JString (to_decimal (unat (dc_count_threshold (er_detect rule))) @ ''+ matches of ''
           @ dt_receipt_kind (dc_trigger (er_detect rule)) @ '' in '' @ dc_time_window (er_detect rule)))] []"

definition mark_detected :: "string \<Rightarrow> EngineState \<Rightarrow> EngineState" where
  "mark_detected target st =
     (if target = [] then st
      else put_agent target ((agent_entry st target)\<lparr>current_stage := Some Detect\<rparr>) st)"

definition schedule_coach :: "clock_add \<Rightarrow> EnforcementRule \<Rightarrow> ReceiptView \<Rightarrow> EngineState \<Rightarrow> EngineState" where
  "schedule_coach add rule r st =
     (case er_coach rule of
        None \<Rightarrow> st
      | Some coach \<Rightarrow>
          (case compute_fire_at add (rv_occurred_at_wall_clock r) (co_cooldown coach) of
             None \<Rightarrow> st
           | Some fire_at \<Rightarrow>
               st\<lparr>es_scheduled := es_scheduled st @
                    [\<lparr>sa_fire_at_wall_clock = fire_at, sa_target_agent_id = group_key rule r,
                      sa_enforcement_rule_id = er_name rule, sa_stage = Coach\<rparr>]\<rparr>))"

definition detect_effect :: "EnforcementRule \<Rightarrow> ReceiptView \<Rightarrow> CounterBucket \<Rightarrow> EnforcementEffect" where
  "detect_effect rule r b =
     \<lparr>ef_action_kind = stage_action_kind Detect, ef_target_agent_id = group_key rule r,
      ef_enforcement_rule_id = er_name rule,
      ef_reputation_delta = (case hm_get (er_reputation_delta rule) ''detect'' of
                               None \<Rightarrow> ''-0.05'' | Some d \<Rightarrow> d),
      ef_additional_evidence = detect_evidence rule r b\<rparr>"

definition check_detect ::
    "clock_add \<Rightarrow> EnforcementRule \<Rightarrow> ReceiptView \<Rightarrow> EngineState \<Rightarrow> EnforcementEffect option \<times> EngineState" where
  "check_detect add rule r st =
     (if \<not> trigger_matches rule r then (None, st)
      else
        let b = bumped_counter rule r st in
        if (of_nat (length (timestamps_ns b)) :: u32) < dc_count_threshold (er_detect rule)
        then (None, put_counter rule r b st)
        else (Some (detect_effect rule r b),
              schedule_coach add rule r
                (mark_detected (group_key rule r) (put_counter rule r \<lparr>timestamps_ns = []\<rparr> st))))"

section \<open>The operations of the engine\<close>

definition activate :: "EnforcementRule list \<Rightarrow> EngineState \<Rightarrow> EngineState" where
  "activate rules st = st\<lparr>es_active := Some rules, es_counters := []\<rparr>"

definition starts_with :: "string \<Rightarrow> string \<Rightarrow> bool" where
  "starts_with pre s = (take (length pre) s = pre)"

definition accumulate :: "ReceiptView \<Rightarrow> string \<Rightarrow> EngineState \<Rightarrow> EngineState" where
  "accumulate r p st =
     (let st1 = (case rv_reputation_delta r of
                   None \<Rightarrow> st | Some delta \<Rightarrow> apply_reputation_delta p delta st)
      in if rv_action_kind r = ''enforcement.quarantine'' then set_quarantine p True st1
         else if rv_action_kind r = ''enforcement.reverse'' \<or> rv_action_kind r = ''enforcement.evict''
         then set_quarantine p False st1
         else st1)"

fun check_rules ::
    "clock_add \<Rightarrow> EnforcementRule list \<Rightarrow> ReceiptView \<Rightarrow> EngineState \<Rightarrow> EnforcementEffect list \<times> EngineState" where
  "check_rules add [] r st = ([], st)"
| "check_rules add (rule # rules) r st =
     (let (eff, st') = check_detect add rule r st;
          (effs, st'') = check_rules add rules r st'
      in ((case eff of None \<Rightarrow> effs | Some e \<Rightarrow> e # effs), st''))"

definition on_receipt :: "clock_add \<Rightarrow> ReceiptView \<Rightarrow> EngineState \<Rightarrow> EnforcementEffect list \<times> EngineState" where
  "on_receipt add r st =
     (if starts_with ''enforcement.'' (rv_action_kind r)
      then ([], case rv_principal_id r of None \<Rightarrow> st | Some p \<Rightarrow> accumulate r p st)
      else case es_active st of
             None \<Rightarrow> ([], st)
           | Some rules \<Rightarrow> check_rules add rules r st)"

definition default_delta :: "Stage \<Rightarrow> Score" where
  "default_delta s =
     (case s of Detect \<Rightarrow> ''-0.05'' | Coach \<Rightarrow> ''0.0'' | Quarantine \<Rightarrow> ''-0.25'' | Evict \<Rightarrow> ''-1.0''
      | Reverse \<Rightarrow> ''0.15'')"

definition build_stage_effect :: "ScheduledAction \<Rightarrow> EnforcementEffect" where
  "build_stage_effect a =
     \<lparr>ef_action_kind = stage_action_kind (sa_stage a), ef_target_agent_id = sa_target_agent_id a,
      ef_enforcement_rule_id = sa_enforcement_rule_id a,
      ef_reputation_delta = default_delta (sa_stage a), ef_additional_evidence = []\<rparr>"

definition follow_on :: "ScheduledAction \<Rightarrow> Stage \<Rightarrow> string option \<Rightarrow> ScheduledAction list" where
  "follow_on fired stage fire_at =
     (case fire_at of None \<Rightarrow> [] | Some t \<Rightarrow> [fired\<lparr>sa_fire_at_wall_clock := t, sa_stage := stage\<rparr>])"

definition next_stage_schedule ::
    "clock_add \<Rightarrow> EnforcementRule \<Rightarrow> ScheduledAction \<Rightarrow> string \<Rightarrow> ScheduledAction list" where
  "next_stage_schedule add rule fired now =
     (case sa_stage fired of
        Coach \<Rightarrow>
          (case er_quarantine rule of
             None \<Rightarrow> []
           | Some q \<Rightarrow> follow_on fired Quarantine (compute_fire_at add now (qc_escalate_after q)))
      | Quarantine \<Rightarrow>
          (case er_evict rule of
             None \<Rightarrow> []
           | Some e \<Rightarrow> follow_on fired Evict (compute_fire_at add now (ev_escalate_after e)))
          @ (case er_quarantine rule of
               None \<Rightarrow> []
             | Some q \<Rightarrow>
                 (case qc_expires_after q of
                    None \<Rightarrow> []
                  | Some exp \<Rightarrow> follow_on fired Reverse (compute_fire_at add now exp)))
      | _ \<Rightarrow> [])"

definition follow_ons :: "clock_add \<Rightarrow> EngineState \<Rightarrow> string \<Rightarrow> ScheduledAction \<Rightarrow> ScheduledAction list" where
  "follow_ons add st now a =
     (case es_active st of
        None \<Rightarrow> []
      | Some rules \<Rightarrow>
          (case find (\<lambda>r. er_name r = sa_enforcement_rule_id a) rules of
             None \<Rightarrow> []
           | Some rule \<Rightarrow> next_stage_schedule add rule a now))"

definition due :: "string \<Rightarrow> ScheduledAction \<Rightarrow> bool" where
  "due now a = (sa_fire_at_wall_clock a \<le> now)"

definition poll_scheduled :: "clock_add \<Rightarrow> string \<Rightarrow> EngineState \<Rightarrow> EnforcementEffect list \<times> EngineState" where
  "poll_scheduled add now st =
     (let fired = filter (due now) (es_scheduled st)
      in (map build_stage_effect fired,
          st\<lparr>es_scheduled := filter (\<lambda>a. \<not> due now a) (es_scheduled st)
               @ concat (map (follow_ons add st now) fired)\<rparr>))"

end
