(* ===== verification/Observation.thy ===== *)
theory Observation
  imports Receipt_Store Passport
begin

text \<open>
  The receipts by which the control plane records what it observed: built with the control plane as
  actor, signed over their canonical bytes and appended to the receipt store. The transport, the
  constitution service and the enforcement loop all record through this sequence
  (\<open>MemoryTransport::record\<close>, \<open>emit_constitution_eval_receipt\<close>, \<open>emit_enforcement_receipt\<close>), which
  differ in the evidence and in how they report the error.
\<close>

record observer =
  ob_receipt_ctx :: receipt_ctx
  ob_resolver :: PassportResolver
  ob_control_plane :: ControlPlaneIdentity

datatype ObserveError =
    BuildFailed string
  | AppendFailed ReceiptError

text \<open>Clock readings: of the observation and of its signature.\<close>

record observe_clock =
  oc_occurred :: Timestamp
  oc_signed :: Timestamp

definition observation ::
    "observer \<Rightarrow> observe_clock \<Rightarrow> string \<Rightarrow> SwarmId \<Rightarrow> string \<Rightarrow> Evidence list \<Rightarrow> ObserveError + Receipt" where
  "observation ob ck action_kind swarm constitution_version evidence =
     rbind (map_err (\<lambda>_. BuildFailed ''spec version'') (spec_version_parse ''1.0.0'')) (\<lambda>v.
     rbind (map_err (\<lambda>_. BuildFailed ''build receipt'')
       (receipt_build (receipt_builder_new
          \<lparr>rb_spec_version := Some v, rb_swarm_id := Some swarm,
           rb_actor := Some (cp_agent_id (ob_control_plane ob)),
           rb_action_kind := Some action_kind,
           rb_constitution_version := Some constitution_version,
           rb_occurred_at := Some (oc_occurred ck), rb_evidence := evidence\<rparr>))) (\<lambda>r.
     rbind (map_err (\<lambda>_. BuildFailed ''signer'')
       (cp_sign (ob_control_plane ob) (canonical_bytes (ob_receipt_ctx ob) r))) (\<lambda>sig.
       Inr (r\<lparr>r_signatures := r_signatures r @
                [\<lparr>sb_role = Actor, sb_signature = sig, sb_signed_at = oc_signed ck\<rparr>]\<rparr>))))"

definition observe ::
    "observer \<Rightarrow> observe_clock \<Rightarrow> string \<Rightarrow> SwarmId \<Rightarrow> string \<Rightarrow> Evidence list \<Rightarrow> MemoryStore
     \<Rightarrow> (ObserveError + Hash) \<times> MemoryStore" where
  "observe ob ck action_kind swarm constitution_version evidence ms =
     (case observation ob ck action_kind swarm constitution_version evidence of
        Inl e \<Rightarrow> (Inl e, ms)
      | Inr r \<Rightarrow>
          (let (res, ms') = append_receipt (ob_receipt_ctx ob) (ob_resolver ob) r ms
           in (rbind (map_err AppendFailed res) (\<lambda>out. Inr (ao_receipt_id out)), ms')))"

section \<open>What an observation leaves in the log\<close>

lemma observation_fields:
  assumes "observation ob ck k s v ev = Inr r"
  shows "r_action_kind r = k" "r_evidence r = ev" "r_swarm_id r = s" "r_constitution_version r = v"
    "r_actor r = cp_agent_id (ob_control_plane ob)" "r_occurred_at r = oc_occurred ck"
  using assms
  by (auto simp: observation_def receipt_build_def receipt_builder_new_def rbind_eq_Inr split: if_splits)

lemma observe_Inr:
  assumes "observe ob ck k s v ev ms = (Inr h, ms')"
  obtains r where "observation ob ck k s v ev = Inr r" "h = content_address (ob_receipt_ctx ob) r"
    "get_receipt ms' h \<noteq> None"
proof -
  from assms obtain r where r: "observation ob ck k s v ev = Inr r"
    by (auto simp: observe_def split: sum.splits)
  let ?a = "append_receipt (ob_receipt_ctx ob) (ob_resolver ob) r ms"
  from assms r obtain out where out: "fst ?a = Inr out" "h = ao_receipt_id out" "ms' = snd ?a"
    by (auto simp: observe_def case_prod_beta Let_def rbind_eq_Inr)
  from memory_log.append_stored [OF out(1)] out that [OF r] show ?thesis
    by simp
qed

lemma observe_Inl:
  assumes "observe ob ck k s v ev ms = (Inl e, ms')"
  shows "ms' = ms"
proof (cases "observation ob ck k s v ev")
  case (Inl e')
  then show ?thesis using assms by (simp add: observe_def)
next
  case (Inr r)
  let ?a = "append_receipt (ob_receipt_ctx ob) (ob_resolver ob) r ms"
  from assms Inr obtain e' where "fst ?a = Inl e'" "ms' = snd ?a"
    by (auto simp: observe_def case_prod_beta Let_def rbind_eq_Inl elim!: map_err.elims)
  then show ?thesis
    by (simp add: memory_log.append_error)
qed

lemma observe_keeps:
  "get_receipt ms h = Some r \<Longrightarrow> get_receipt (snd (observe ob ck k s v ev ms)) h = Some r"
  by (auto simp: observe_def case_prod_beta Let_def memory_log.append_keeps split: sum.splits)

lemma observe_recorded:
  assumes "fst (observe ob ck k s v ev ms) = Inr h"
  shows "get_receipt (snd (observe ob ck k s v ev ms)) h \<noteq> None"
proof -
  have "observe ob ck k s v ev ms = (Inr h, snd (observe ob ck k s v ev ms))"
    using assms by (simp add: prod_eq_iff)
  then show ?thesis
    by (rule observe_Inr)
qed

end
