(* ===== verification/Enforcement_Loop.thy ===== *)
theory Enforcement_Loop
  imports Enforcement Observation
begin

text \<open>
  The closed loop between the receipt log and the enforcement engine: the publishing receipt store
  and the emission of enforcement receipts (\<open>crates/yutha-control-plane/src/receipt_publisher.rs\<close>), the
  forwarder and scheduler tasks (\<open>main.rs\<close>) and the quarantine adapter of the capability layer
  (\<open>quarantine_adapter.rs\<close>). The display form of agent ids (\<open>uuid\<close>) and the JSON encoder
  (\<open>serde_json\<close>) are parameters; clock readings are numbered by the receipts emitted.
\<close>

section \<open>UTF-8\<close>

abbreviation cont_byte :: "byte \<Rightarrow> bool" where
  "cont_byte b \<equiv> 0x80 \<le> b \<and> b \<le> 0xBF"

text \<open>The well-formed byte sequences, with the lead byte fixing the range of the second byte.\<close>

definition second_byte_ok :: "byte \<Rightarrow> byte \<Rightarrow> bool" where
  "second_byte_ok b c =
     (cont_byte c \<and> (b = 0xE0 \<longrightarrow> 0xA0 \<le> c) \<and> (b = 0xED \<longrightarrow> c \<le> 0x9F) \<and> (b = 0xF0 \<longrightarrow> 0x90 \<le> c)
      \<and> (b = 0xF4 \<longrightarrow> c \<le> 0x8F))"

fun utf8_valid :: "bytes \<Rightarrow> bool" where
  "utf8_valid [] = True"
| "utf8_valid (b # bs) =
     (if b < 0x80 then utf8_valid bs
      else if 0xC2 \<le> b \<and> b \<le> 0xDF
      then (case bs of c # r \<Rightarrow> second_byte_ok b c \<and> utf8_valid r | _ \<Rightarrow> False)
      else if 0xE0 \<le> b \<and> b \<le> 0xEF
      then (case bs of c # d # r \<Rightarrow> second_byte_ok b c \<and> cont_byte d \<and> utf8_valid r | _ \<Rightarrow> False)
      else if 0xF0 \<le> b \<and> b \<le> 0xF4
      then (case bs of c # d # e # r \<Rightarrow> second_byte_ok b c \<and> cont_byte d \<and> cont_byte e \<and> utf8_valid r
                     | _ \<Rightarrow> False)
      else False)"

definition from_utf8 :: "bytes \<Rightarrow> string option" where
  "from_utf8 bs = (if utf8_valid bs then Some (map (\<lambda>b. char_of (unat b)) bs) else None)"

section \<open>The view of a receipt\<close>

record view_scan =
  vs_principal :: "string option"
  vs_deny_reason :: "string option"
  vs_forbid_rule_id :: "string option"
  vs_reputation_delta :: "Score option"

definition scan_evidence :: "Evidence \<Rightarrow> view_scan \<Rightarrow> view_scan" where
  "scan_evidence ev v =
     (if (ev_key ev = ''subject_agent_id'' \<or> ev_key ev = ''target_agent_id'') \<and> vs_principal v = None
      then v\<lparr>vs_principal := from_utf8 (ev_value ev)\<rparr>
      else if ev_key ev = ''deny_reason'' then v\<lparr>vs_deny_reason := from_utf8 (ev_value ev)\<rparr>
      else if ev_key ev = ''forbid_rule_id'' then v\<lparr>vs_forbid_rule_id := from_utf8 (ev_value ev)\<rparr>
      else if ev_key ev = ''reputation_delta''
      then (case from_utf8 (ev_value ev) of None \<Rightarrow> v | Some s \<Rightarrow> v\<lparr>vs_reputation_delta := Some s\<rparr>)
      else v)"

definition build_view :: "(AgentId \<Rightarrow> string) \<Rightarrow> Receipt \<Rightarrow> ReceiptView" where
  "build_view show_agent r =
     (let v = fold scan_evidence (r_evidence r)
                \<lparr>vs_principal = None, vs_deny_reason = None, vs_forbid_rule_id = None,
                 vs_reputation_delta = None\<rparr>
      in \<lparr>rv_action_kind = r_action_kind r,
          rv_principal_id = (case vs_principal v of None \<Rightarrow> Some (show_agent (r_actor r)) | p \<Rightarrow> p),
          rv_deny_reason = vs_deny_reason v, rv_forbid_rule_id = vs_forbid_rule_id v,
          rv_occurred_at_unix_ns = monotonic_ns (r_occurred_at r),
          rv_occurred_at_wall_clock = wall_clock (r_occurred_at r),
          rv_reputation_delta = vs_reputation_delta v\<rparr>)"

section \<open>State of the loop\<close>

record loop_deps =
  ld_observer :: observer
  ld_show_agent :: "AgentId \<Rightarrow> string"
  ld_json_to_vec :: "json_value \<Rightarrow> string + bytes"
  ld_clock_add :: clock_add
  ld_clock :: "nat \<Rightarrow> observe_clock"

record loop_state =
  ls_constitution :: "Constitution option"
  ls_engine :: EngineState
  ls_receipts :: MemoryStore
  ls_channel :: "ReceiptView list"
  ls_readings :: nat

definition PUBLISH_CHANNEL_CAPACITY :: nat where
  "PUBLISH_CHANNEL_CAPACITY = 4096"

definition publish_append :: "loop_deps \<Rightarrow> Receipt \<Rightarrow> loop_state \<Rightarrow> (ReceiptError + Hash) \<times> loop_state" where
  "publish_append dp r st =
     (let (res, ms) = append_receipt (ob_receipt_ctx (ld_observer dp)) (ob_resolver (ld_observer dp)) r
                        (ls_receipts st)
      in case res of
           Inl e \<Rightarrow> (Inl e, st\<lparr>ls_receipts := ms\<rparr>)
         | Inr out \<Rightarrow>
             (Inr (ao_receipt_id out),
              st\<lparr>ls_receipts := ms,
                 ls_channel := (if length (ls_channel st) < PUBLISH_CHANNEL_CAPACITY
                                then ls_channel st @ [build_view (ld_show_agent dp) r]
                                else ls_channel st)\<rparr>))"

section \<open>Emitting enforcement receipts\<close>

definition effect_evidence :: "loop_deps \<Rightarrow> EnforcementEffect \<Rightarrow> Hash \<Rightarrow> string + Evidence list" where
  "effect_evidence dp eff constitution_hash =
     rbind (collect_results (map (\<lambda>(k, v). rbind (ld_json_to_vec dp v)
              (\<lambda>b. Inr (evidence_new k ''type.yutha.dev/v1/Json'' b))) (ef_additional_evidence eff)))
       (\<lambda>extra. Inr (
         [evidence_new ''target_agent_id'' ''type.yutha.dev/v1/AgentId'' (as_bytes (ef_target_agent_id eff)),
          evidence_new ''enforcement_rule_id'' ''type.yutha.dev/v1/String'' (as_bytes (ef_enforcement_rule_id eff)),
          evidence_new ''reputation_delta'' ''type.yutha.dev/v1/String'' (as_bytes (ef_reputation_delta eff)),
          evidence_new ''constitution_hash'' ''type.yutha.dev/v1/Hash'' (digest constitution_hash)] @ extra))"

definition emit_enforcement_receipt ::
    "loop_deps \<Rightarrow> EnforcementEffect \<Rightarrow> SwarmId \<Rightarrow> Hash \<Rightarrow> string \<Rightarrow> loop_state \<Rightarrow> (string + Hash) \<times> loop_state" where
  "emit_enforcement_receipt dp eff swarm constitution_hash constitution_version st =
     (case effect_evidence dp eff constitution_hash of
        Inl e \<Rightarrow> (Inl ''encode additional_evidence'', st)
      | Inr evidence \<Rightarrow>
          (case observation (ld_observer dp) (ld_clock dp (ls_readings st)) (ef_action_kind eff) swarm
                  constitution_version evidence of
             Inl e \<Rightarrow> (Inl ''build or sign receipt'', st)
           | Inr r \<Rightarrow>
               (let (res, st') = publish_append dp r (st\<lparr>ls_readings := Suc (ls_readings st)\<rparr>)
                in (map_err (\<lambda>_. ''append receipt'') res, st'))))"

fun emit_each :: "loop_deps \<Rightarrow> Constitution \<Rightarrow> EnforcementEffect list \<Rightarrow> loop_state \<Rightarrow> loop_state" where
  "emit_each dp k [] st = st"
| "emit_each dp k (eff # effs) st =
     emit_each dp k effs
       (snd (emit_enforcement_receipt dp eff (k_swarm_id k) (k_constitution_hash k)
               (k_constitution_version k) st))"

definition emit_effects :: "loop_deps \<Rightarrow> EnforcementEffect list \<Rightarrow> loop_state \<Rightarrow> loop_state" where
  "emit_effects dp effs st =
     (case ls_constitution st of None \<Rightarrow> st | Some k \<Rightarrow> emit_each dp k effs st)"

section \<open>The tasks\<close>

definition forward :: "loop_deps \<Rightarrow> ReceiptView \<Rightarrow> loop_state \<Rightarrow> loop_state" where
  "forward dp v st =
     (if starts_with ''constitution.evaluate.shadow.'' (rv_action_kind v) then st
      else let (effs, eng) = on_receipt (ld_clock_add dp) v (ls_engine st)
           in emit_effects dp effs (st\<lparr>ls_engine := eng\<rparr>))"

definition scheduler_tick :: "loop_deps \<Rightarrow> string \<Rightarrow> loop_state \<Rightarrow> loop_state" where
  "scheduler_tick dp now st =
     (let (effs, eng) = poll_scheduled (ld_clock_add dp) now (ls_engine st)
      in emit_effects dp effs (st\<lparr>ls_engine := eng\<rparr>))"

section \<open>The adapter for the capability layer\<close>

definition quarantine_source :: "(AgentId \<Rightarrow> string) \<Rightarrow> EngineState \<Rightarrow> AgentId \<Rightarrow> bool" where
  "quarantine_source show_agent eng a = is_agent_quarantined eng (show_agent a)"

section \<open>What an emission adds to the channel\<close>

lemma from_utf8_as_bytes: "utf8_valid (as_bytes s) \<Longrightarrow> from_utf8 (as_bytes s) = Some s"
  by (simp add: from_utf8_def as_bytes_def unat_of_char_byte comp_def)

definition view_about :: "EnforcementEffect \<Rightarrow> ReceiptView \<Rightarrow> bool" where
  "view_about eff v =
     (rv_action_kind v = ef_action_kind eff
      \<and> (utf8_valid (as_bytes (ef_target_agent_id eff)) \<longrightarrow> rv_principal_id v = Some (ef_target_agent_id eff)))"

lemma scan_keeps_principal:
  "vs_principal v = Some p \<Longrightarrow> vs_principal (fold scan_evidence evs v) = Some p"
proof (induction evs arbitrary: v)
  case (Cons ev evs)
  have "vs_principal (scan_evidence ev v) = Some p"
    using Cons.prems by (auto simp: scan_evidence_def split: option.split)
  with Cons.IH show ?case by simp
qed simp

lemma build_view_effect:
  assumes "r_action_kind r = ef_action_kind eff" and "effect_evidence dp eff h = Inr (r_evidence r)"
  shows "view_about eff (build_view show_agent r)"
proof -
  from assms(2) obtain evs where
    "evidence_new ''target_agent_id'' ''type.yutha.dev/v1/AgentId''
      (as_bytes (ef_target_agent_id eff)) # evs = r_evidence r"
    by (auto simp: effect_evidence_def rbind_eq_Inr)
  note evs = this [symmetric]
  show ?thesis
    using assms(1)
    by (auto simp: view_about_def build_view_def Let_def evs scan_evidence_def evidence_new_def
        from_utf8_as_bytes scan_keeps_principal)
qed

text \<open>Emission changes the log, the clock and the end of the channel only.\<close>

lemma publish_append_frame:
  "ls_engine (snd (publish_append dp r st)) = ls_engine st"
  "ls_constitution (snd (publish_append dp r st)) = ls_constitution st"
  "ls_channel (snd (publish_append dp r st)) =
     ls_channel st @ (if is_ok (fst (publish_append dp r st)) \<and> length (ls_channel st) < PUBLISH_CHANNEL_CAPACITY
                      then [build_view (ld_show_agent dp) r] else [])"
  by (auto simp: publish_append_def case_prod_beta Let_def split: sum.split)

lemma emit_receipt_frame:
  "ls_engine (snd (emit_enforcement_receipt dp eff s h v st)) = ls_engine st"
  "ls_constitution (snd (emit_enforcement_receipt dp eff s h v st)) = ls_constitution st"
  by (auto simp: emit_enforcement_receipt_def case_prod_beta Let_def publish_append_frame split: sum.split)

lemma emit_receipt_channel:
  "\<exists>vs. ls_channel (snd (emit_enforcement_receipt dp eff s h v st)) = ls_channel st @ vs
     \<and> list_all (view_about eff) vs \<and> length vs \<le> 1
     \<and> (is_ok (fst (emit_enforcement_receipt dp eff s h v st))
         \<and> length (ls_channel st) < PUBLISH_CHANNEL_CAPACITY \<longrightarrow> vs \<noteq> [])"
proof (cases "effect_evidence dp eff h")
  case (Inl e)
  then show ?thesis by (simp add: emit_enforcement_receipt_def)
next
  case (Inr evs)
  show ?thesis
  proof (cases "observation (ld_observer dp) (ld_clock dp (ls_readings st)) (ef_action_kind eff) s v evs")
    case (Inl e)
    with Inr show ?thesis by (simp add: emit_enforcement_receipt_def)
  next
    case obs: (Inr r)
    have "view_about eff (build_view (ld_show_agent dp) r)"
      using build_view_effect [of r eff dp h] observation_fields [OF obs] Inr by simp
    moreover have "is_ok (map_err f x) = is_ok x" for f :: "ReceiptError \<Rightarrow> string" and x :: "ReceiptError + Hash"
      by (cases x) simp_all
    ultimately show ?thesis
      by (simp add: emit_enforcement_receipt_def Inr obs case_prod_beta Let_def publish_append_frame)
  qed
qed

lemma emit_each_frame [simp]:
  "ls_engine (emit_each dp k effs st) = ls_engine st"
  "ls_constitution (emit_each dp k effs st) = ls_constitution st"
  by (induction effs arbitrary: st) (simp_all add: emit_receipt_frame)

lemma emit_each_channel:
  "\<exists>vs. ls_channel (emit_each dp k effs st) = ls_channel st @ vs \<and> length vs \<le> length effs
     \<and> list_all (\<lambda>v. list_ex (\<lambda>eff. view_about eff v) effs) vs"
proof (induction effs arbitrary: st)
  case (Cons eff effs)
  let ?st = "snd (emit_enforcement_receipt dp eff (k_swarm_id k) (k_constitution_hash k)
               (k_constitution_version k) st)"
  from emit_receipt_channel [of dp eff "k_swarm_id k" "k_constitution_hash k" "k_constitution_version k" st]
  obtain vs where vs: "ls_channel ?st = ls_channel st @ vs" "list_all (view_about eff) vs" "length vs \<le> 1"
    by blast
  from Cons.IH [of ?st] obtain ws where ws: "ls_channel (emit_each dp k effs ?st) = ls_channel ?st @ ws"
    "length ws \<le> length effs" "list_all (\<lambda>v. list_ex (\<lambda>eff. view_about eff v) effs) ws"
    by blast
  from vs ws have "ls_channel (emit_each dp k (eff # effs) st) = ls_channel st @ (vs @ ws)
      \<and> length (vs @ ws) \<le> length (eff # effs)
      \<and> list_all (\<lambda>v. list_ex (\<lambda>eff. view_about eff v) (eff # effs)) (vs @ ws)"
    by (auto simp: list_all_iff)
  then show ?case by blast
qed simp

lemma emit_effects_frame [simp]:
  "ls_engine (emit_effects dp effs st) = ls_engine st"
  "ls_constitution (emit_effects dp effs st) = ls_constitution st"
  by (simp_all add: emit_effects_def split: option.split)

lemma emit_effects_channel:
  obtains vs where "ls_channel (emit_effects dp effs st) = ls_channel st @ vs" "length vs \<le> length effs"
    "list_all (\<lambda>v. list_ex (\<lambda>eff. view_about eff v) effs) vs"
proof (cases "ls_constitution st")
  case None
  then show ?thesis using that [of "[]"] by (simp add: emit_effects_def)
next
  case (Some k)
  then show ?thesis using that emit_each_channel [of dp k effs st] by (auto simp: emit_effects_def)
qed

section \<open>Draining the channel ends\<close>

lemma check_detect_effect:
  "fst (check_detect add rule r st) = Some eff \<Longrightarrow> ef_action_kind eff = ''enforcement.detect''"
  by (auto simp: check_detect_def Let_def detect_effect_def split: if_splits)

lemma check_detect_active [simp]: "es_active (snd (check_detect add rule r st)) = es_active st"
  by (auto simp: check_detect_def Let_def put_counter_def schedule_coach_def mark_detected_def put_agent_def
      split: option.split)

lemma check_rules_effects:
  "length (fst (check_rules add rules r st)) \<le> length rules
   \<and> list_all (\<lambda>eff. ef_action_kind eff = ''enforcement.detect'') (fst (check_rules add rules r st))
   \<and> es_active (snd (check_rules add rules r st)) = es_active st"
proof (induction rules arbitrary: st)
  case (Cons rule rules)
  from Cons.IH [of "snd (check_detect add rule r st)"] show ?case
    using check_detect_effect [of add rule r st]
    by (auto simp: case_prod_beta Let_def split: option.split)
qed simp

definition rule_count :: "EngineState \<Rightarrow> nat" where
  "rule_count eng = (case es_active eng of None \<Rightarrow> 0 | Some rules \<Rightarrow> length rules)"

lemma put_agent_active [simp]: "es_active (put_agent a s st) = es_active st"
  by (simp add: put_agent_def)

lemma accumulate_active [simp]: "es_active (accumulate r p st) = es_active st"
  by (auto simp: accumulate_def Let_def apply_reputation_delta_def set_quarantine_def split: option.split)

lemma on_receipt_effects:
  "length (fst (on_receipt add r eng)) \<le> (if starts_with ''enforcement.'' (rv_action_kind r) then 0 else rule_count eng)
   \<and> list_all (\<lambda>eff. ef_action_kind eff = ''enforcement.detect'') (fst (on_receipt add r eng))
   \<and> es_active (snd (on_receipt add r eng)) = es_active eng"
  using check_rules_effects by (auto simp: on_receipt_def rule_count_def split: option.split)

definition view_weight :: "EngineState \<Rightarrow> ReceiptView \<Rightarrow> nat" where
  "view_weight eng v = (if starts_with ''enforcement.'' (rv_action_kind v) then 1 else Suc (rule_count eng))"

definition loop_weight :: "loop_state \<Rightarrow> nat" where
  "loop_weight st = sum_list (map (view_weight (ls_engine st)) (ls_channel st))"

lemma forward_spec:
  obtains vs where "ls_channel (forward dp v st) = ls_channel st @ vs"
    "list_all (\<lambda>w. rv_action_kind w = ''enforcement.detect'') vs"
    "length vs < view_weight (ls_engine st) v"
    "es_active (ls_engine (forward dp v st)) = es_active (ls_engine st)"
proof (cases "starts_with ''constitution.evaluate.shadow.'' (rv_action_kind v)")
  case True
  then show ?thesis using that [of "[]"] by (simp add: forward_def view_weight_def)
next
  case False
  let ?o = "on_receipt (ld_clock_add dp) v (ls_engine st)"
  obtain vs where vs: "ls_channel (emit_effects dp (fst ?o) (st\<lparr>ls_engine := snd ?o\<rparr>)) = ls_channel st @ vs"
    "length vs \<le> length (fst ?o)" "list_all (\<lambda>v. list_ex (\<lambda>eff. view_about eff v) (fst ?o)) vs"
    by (rule emit_effects_channel [of dp "fst ?o" "st\<lparr>ls_engine := snd ?o\<rparr>"]) simp
  have "list_all (\<lambda>w. rv_action_kind w = ''enforcement.detect'') vs"
    using vs(3) on_receipt_effects [of "ld_clock_add dp" v "ls_engine st"]
    by (auto simp: list_all_iff list_ex_iff view_about_def)
  moreover have "length vs < view_weight (ls_engine st) v"
    using vs(2) on_receipt_effects [of "ld_clock_add dp" v "ls_engine st"]
    by (auto simp: view_weight_def split: if_splits)
  ultimately show ?thesis
    using that [of vs] vs(1) False on_receipt_effects [of "ld_clock_add dp" v "ls_engine st"]
    by (simp add: forward_def case_prod_beta Let_def)
qed

lemma view_weight_cong: "es_active eng = es_active eng' \<Longrightarrow> view_weight eng = view_weight eng'"
  by (simp add: view_weight_def rule_count_def fun_eq_iff)

lemma forward_decreases:
  assumes "ls_channel st = v # vs"
  shows "loop_weight (forward dp v (st\<lparr>ls_channel := vs\<rparr>)) < loop_weight st"
proof -
  let ?st = "st\<lparr>ls_channel := vs\<rparr>"
  obtain ws where ws: "ls_channel (forward dp v ?st) = ls_channel ?st @ ws"
    "list_all (\<lambda>w. rv_action_kind w = ''enforcement.detect'') ws"
    "length ws < view_weight (ls_engine ?st) v"
    "es_active (ls_engine (forward dp v ?st)) = es_active (ls_engine ?st)"
    by (rule forward_spec)
  have "map (view_weight (ls_engine st)) ws = replicate (length ws) 1"
    using ws(2) by (auto simp: list_all_iff view_weight_def starts_with_def map_replicate_const [symmetric]
        simp del: map_replicate_const)
  moreover have "view_weight (ls_engine (forward dp v ?st)) = view_weight (ls_engine st)"
    using ws(4) by (intro view_weight_cong) simp
  ultimately show ?thesis
    using ws(1,3) assms by (simp add: loop_weight_def sum_list_replicate)
qed

text \<open>The forwarder task until the channel is empty.\<close>

function drain :: "loop_deps \<Rightarrow> loop_state \<Rightarrow> loop_state" where
  "drain dp st =
     (case ls_channel st of
        [] \<Rightarrow> st
      | v # vs \<Rightarrow> drain dp (forward dp v (st\<lparr>ls_channel := vs\<rparr>)))"
  by pat_completeness auto
termination
  by (relation "measure (\<lambda>(dp, st). loop_weight st)") (simp_all add: forward_decreases)

declare drain.simps [simp del]

lemma drain_channel: "ls_channel (drain dp st) = []"
  by (induction dp st rule: drain.induct) (subst drain.simps, simp split: list.split)

end
