(* ===== verification/Enforcement_Properties.thy ===== *)
theory Enforcement_Properties
  imports Enforcement
begin

text \<open>
  Properties of the enforcement engine over sequences of its operations: reputation stays in its
  range, detection counts the receipts of the window, escalation ends, and an agent is quarantined
  exactly between a quarantine receipt and the next reversing or evicting one.
\<close>

section \<open>Runs of the engine\<close>

datatype engine_op =
    E_Activate "EnforcementRule list"
  | E_Receipt ReceiptView
  | E_Poll string

fun engine_step :: "clock_add \<Rightarrow> engine_op \<Rightarrow> EngineState \<Rightarrow> EngineState" where
  "engine_step add (E_Activate rules) st = activate rules st"
| "engine_step add (E_Receipt r) st = snd (on_receipt add r st)"
| "engine_step add (E_Poll now) st = snd (poll_scheduled add now st)"

abbreviation engine_run :: "clock_add \<Rightarrow> engine_op list \<Rightarrow> EngineState \<Rightarrow> EngineState" where
  "engine_run add ops st \<equiv> fold (engine_step add) ops st"

text \<open>
  Every operation changes the agents only by putting entries that are derived from the old entry
  of the same agent; a property of entries that the four derivations keep is an invariant.
\<close>

locale agent_invariant =
  fixes P :: "string \<Rightarrow> AgentState \<Rightarrow> bool"
  assumes initial: "P a agent_state_initial"
    and staged: "P a s \<Longrightarrow> P a (s\<lparr>current_stage := x\<rparr>)"
    and flagged: "P a s \<Longrightarrow> P a (s\<lparr>quarantined := q\<rparr>)"
    and scored: "P a s \<Longrightarrow> P a (s\<lparr>reputation_scaled :=
      max MIN_REPUTATION_SCALED (min MAX_REPUTATION_SCALED (saturating_add_i64 (reputation_scaled s) d))\<rparr>)"
begin

definition holds :: "EngineState \<Rightarrow> bool" where
  "holds st = (\<forall>a s. hm_get (es_agents st) a = Some s \<longrightarrow> P a s)"

lemma entry: "holds st \<Longrightarrow> P a (agent_entry st a)"
  by (auto simp: holds_def agent_entry_def initial split: option.splits)

lemma put: "holds st \<Longrightarrow> P a s \<Longrightarrow> holds (put_agent a s st)"
  by (simp add: holds_def put_agent_def)

lemma other_fields [simp]:
  "holds (st\<lparr>es_scheduled := q\<rparr>) = holds st" "holds (st\<lparr>es_counters := c\<rparr>) = holds st"
  "holds (st\<lparr>es_active := ac\<rparr>) = holds st"
  by (simp_all add: holds_def)

lemma delta: "holds st \<Longrightarrow> holds (apply_reputation_delta a d st)"
  by (auto simp: apply_reputation_delta_def Let_def entry scored split: sum.split intro!: put)

lemma quarantine: "holds st \<Longrightarrow> holds (set_quarantine a q st)"
  by (simp add: set_quarantine_def put entry flagged)

lemma detect: "holds st \<Longrightarrow> holds (snd (check_detect add rule r st))"
  by (auto simp: check_detect_def Let_def put_counter_def schedule_coach_def mark_detected_def
      agent_entry_def holds_def put_agent_def initial staged split: option.splits)

lemma rules: "holds st \<Longrightarrow> holds (snd (check_rules add rs r st))"
proof (induction rs arbitrary: st)
  case (Cons rule rs)
  from Cons.IH [OF detect [OF Cons.prems, of add rule r]] show ?case
    by (simp add: case_prod_beta Let_def)
qed simp

lemma step: "holds st \<Longrightarrow> holds (engine_step add op st)"
proof (cases op)
  case (E_Receipt r)
  have "holds (accumulate r p st)" if "holds st" for p
    using that by (auto simp: accumulate_def Let_def delta quarantine split: option.split)
  with E_Receipt show "holds st \<Longrightarrow> ?thesis"
    by (auto simp: on_receipt_def rules split: option.splits)
qed (simp_all add: activate_def poll_scheduled_def Let_def)

lemma run: "holds (engine_run add ops engine_fresh)"
proof -
  have "holds engine_fresh" by (simp add: holds_def engine_fresh_def)
  then show ?thesis by (induction ops rule: rev_induct) (simp_all add: step)
qed

end

interpretation reputation: agent_invariant "\<lambda>a s. 0 \<le> reputation_scaled s \<and> reputation_scaled s \<le> 10000"
  by unfold_locales
    (auto simp: agent_state_initial_def INITIAL_REPUTATION_SCALED_def MIN_REPUTATION_SCALED_def
      MAX_REPUTATION_SCALED_def)

text \<open>
  In every state the engine reaches, the reputation of every agent, rendered as a decimal text,
  parses back to a value between 0 and 10000, that is from 0.0 to 1.0, whatever deltas the receipts
  carry.
\<close>

theorem reputation_in_range:
  "\<exists>i. parse_score_scaled (agent_reputation (engine_run add ops engine_fresh) a) = Inr i
       \<and> 0 \<le> i \<and> i \<le> 10000"
proof -
  let ?st = "engine_run add ops engine_fresh"
  define i where "i = (case hm_get (es_agents ?st) a of
      None \<Rightarrow> INITIAL_REPUTATION_SCALED | Some s \<Rightarrow> reputation_scaled s)"
  have "0 \<le> i \<and> i \<le> 10000"
    using reputation.run [of add ops, unfolded reputation.holds_def]
    by (auto simp: i_def INITIAL_REPUTATION_SCALED_def split: option.split)
  moreover from this have "parse_score_scaled (render_score_scaled i) = Inr i"
    by (intro score_roundtrip) (simp add: in_i64_def)
  ultimately show ?thesis
    by (auto simp: agent_reputation_def i_def)
qed

section \<open>Escalation ends\<close>

text \<open>The number of effects a scheduled action can still lead to, and the polls it needs.\<close>

fun stage_weight :: "Stage \<Rightarrow> nat" where
  "stage_weight Coach = 4"
| "stage_weight Quarantine = 3"
| "stage_weight s = 1"

fun stage_rank :: "Stage \<Rightarrow> nat" where
  "stage_rank Coach = 3"
| "stage_rank Quarantine = 2"
| "stage_rank s = 1"

definition schedule_weight :: "ScheduledAction list \<Rightarrow> nat" where
  "schedule_weight as = sum_list (map (stage_weight \<circ> sa_stage) as)"

lemma schedule_weight_simps [simp]:
  "schedule_weight [] = 0"
  "schedule_weight (a # as) = stage_weight (sa_stage a) + schedule_weight as"
  "schedule_weight (as @ bs) = schedule_weight as + schedule_weight bs"
  by (simp_all add: schedule_weight_def)

lemma follow_on_weight: "schedule_weight (follow_on a s t) \<le> stage_weight s"
  by (simp add: follow_on_def split: option.split)

lemma next_stage_weight: "schedule_weight (next_stage_schedule add rule a now) < stage_weight (sa_stage a)"
proof (cases "sa_stage a")
  case Coach
  then show ?thesis
    using follow_on_weight [of a Quarantine] by (auto simp: next_stage_schedule_def le_imp_less_Suc numeral_eq_Suc split: option.split)
next
  case Quarantine
  have "schedule_weight (follow_on a Evict t) + schedule_weight (follow_on a Reverse u) \<le> 2" for t u
    using follow_on_weight [of a Evict t] follow_on_weight [of a Reverse u] by simp
  with Quarantine show ?thesis
    using follow_on_weight [of a Evict] follow_on_weight [of a Reverse]
    by (auto simp: next_stage_schedule_def le_imp_less_Suc numeral_eq_Suc le_SucI split: option.split)
qed (simp_all add: next_stage_schedule_def)

lemma follow_ons_weight: "schedule_weight (follow_ons add st now a) < stage_weight (sa_stage a)"
  using next_stage_weight [of add _ a now]
  by (cases "sa_stage a") (auto simp: follow_ons_def split: option.split)

lemma poll_weight:
  "length (fst (poll_scheduled add now st)) + schedule_weight (es_scheduled (snd (poll_scheduled add now st)))
   \<le> schedule_weight (es_scheduled st)"
proof -
  have "length (filter (due now) q) + schedule_weight (filter (\<lambda>a. \<not> due now a) q)
      + schedule_weight (concat (map (follow_ons add st now) (filter (due now) q))) \<le> schedule_weight q" for q
  proof (induction q)
    case (Cons a q)
    then show ?case using follow_ons_weight [of add st now a] by auto
  qed simp
  from this [of "es_scheduled st"] show ?thesis
    by (simp add: poll_scheduled_def Let_def)
qed

fun polls :: "clock_add \<Rightarrow> string list \<Rightarrow> EngineState \<Rightarrow> EnforcementEffect list \<times> EngineState" where
  "polls add [] st = ([], st)"
| "polls add (now # nows) st =
     (let (effs, st') = poll_scheduled add now st; (effs', st'') = polls add nows st' in (effs @ effs', st''))"

lemma polls_weight:
  "length (fst (polls add nows st)) + schedule_weight (es_scheduled (snd (polls add nows st)))
   \<le> schedule_weight (es_scheduled st)"
proof (induction nows arbitrary: st)
  case (Cons now nows)
  from Cons.IH [of "snd (poll_scheduled add now st)"] poll_weight [of add now st] show ?case
    by (simp add: case_prod_beta Let_def)
qed simp

text \<open>At every poll the clock has passed the due times of everything scheduled.\<close>

fun all_due :: "clock_add \<Rightarrow> string list \<Rightarrow> EngineState \<Rightarrow> bool" where
  "all_due add [] st = True"
| "all_due add (now # nows) st =
     (list_all (due now) (es_scheduled st) \<and> all_due add nows (snd (poll_scheduled add now st)))"

lemma follow_ons_rank:
  "b \<in> set (follow_ons add st now a) \<Longrightarrow> stage_rank (sa_stage b) < stage_rank (sa_stage a)"
  by (auto simp: follow_ons_def next_stage_schedule_def follow_on_def
      split: option.splits Stage.splits)

lemma poll_rank:
  assumes "list_all (due now) (es_scheduled st)"
    and "\<forall>a\<in>set (es_scheduled st). stage_rank (sa_stage a) \<le> Suc n"
  shows "\<forall>a\<in>set (es_scheduled (snd (poll_scheduled add now st))). stage_rank (sa_stage a) \<le> n"
proof -
  have "filter (\<lambda>a. \<not> due now a) (es_scheduled st) = []"
    using assms(1) by (simp add: list_all_iff filter_empty_conv)
  with assms(2) show ?thesis
    by (fastforce simp: poll_scheduled_def Let_def dest!: follow_ons_rank)
qed

lemma stage_rank_pos: "0 < stage_rank s"
  by (cases s) simp_all

lemma polls_drain:
  "\<lbrakk>all_due add nows st; \<forall>a\<in>set (es_scheduled st). stage_rank (sa_stage a) \<le> length nows\<rbrakk>
   \<Longrightarrow> es_scheduled (snd (polls add nows st)) = []"
proof (induction nows arbitrary: st)
  case Nil
  have "a \<notin> set (es_scheduled st)" for a
    using Nil.prems(2) stage_rank_pos [of "sa_stage a"] by auto
  then have "es_scheduled st = []" by (metis hd_in_set)
  then show ?case by simp
next
  case (Cons now nows)
  from Cons.IH [of "snd (poll_scheduled add now st)"] Cons.prems poll_rank [of now st "length nows" add]
  show ?case by (simp add: case_prod_beta Let_def)
qed

text \<open>
  (C14) Escalation ends. However often and whenever the schedule is polled, the effects produced and
  those still possible never exceed the weight of what was scheduled (four for a pending coaching,
  three for a pending quarantine, one for an eviction or reversal); and after three polls at times
  when everything scheduled was due, nothing is scheduled any more.
\<close>

theorem escalation_ends:
  "length (fst (polls add nows st)) + schedule_weight (es_scheduled (snd (polls add nows st)))
     \<le> schedule_weight (es_scheduled st)
   \<and> (all_due add nows st \<and> 3 \<le> length nows \<longrightarrow> es_scheduled (snd (polls add nows st)) = [])"
proof -
  have "stage_rank (sa_stage a) \<le> 3" for a by (cases "sa_stage a") simp_all
  then have "\<forall>a\<in>set (es_scheduled st). stage_rank (sa_stage a) \<le> length nows" if "3 \<le> length nows"
    using that order_trans by blast
  then show ?thesis using polls_weight polls_drain by blast
qed

definition demo_rule :: EnforcementRule where
  "demo_rule =
     \<lparr>er_name = ''repeat'',
      er_detect = \<lparr>dc_trigger = \<lparr>dt_receipt_kind = ''constitution.evaluate.deny'', dt_deny_reason = None,
                                dt_forbid_rule_id = None\<rparr>,
                   dc_count_threshold = 2, dc_time_window = ''10s'', dc_group_by = ''principal'',
                   dc_historical = False\<rparr>,
      er_coach = Some \<lparr>co_cooldown = ''1s'', co_guidance_template = []\<rparr>,
      er_quarantine = Some \<lparr>qc_escalate_after = ''1s'', qc_expires_after = Some ''1s'', qc_compliance_check = None\<rparr>,
      er_evict = Some \<lparr>ev_escalate_after = ''1s'', ev_require_countersign = True\<rparr>,
      er_reputation_delta = [], er_reverse = \<lparr>rv_auto_when = []\<rparr>, er_severity = None\<rparr>"

definition demo_engine :: EngineState where
  "demo_engine = \<lparr>es_active = Some [demo_rule], es_agents = [], es_counters = [],
     es_scheduled = [\<lparr>sa_fire_at_wall_clock = ''1'', sa_target_agent_id = ''a'',
                      sa_enforcement_rule_id = ''repeat'', sa_stage = Coach\<rparr>]\<rparr>"

text \<open>A clock whose sums are always in the past.\<close>

definition demo_add :: clock_add where
  "demo_add t ns = Some ''1''"

lemma demo_one_second: "parse_window_ns ''1s'' = Some 1000000000"
proof -
  have "trim_ws ''1s'' = ''1s''"
    by (rule trim_ws_id) (simp_all add: plain_end_def is_digit_def less_eq_char_def)
  then show ?thesis
    by (simp add: parse_window_ns_def split_suffix_def Let_def is_digit_def less_eq_char_def parse_u64_def
        digits_value_def checked_mul_def)
qed

lemma demo_fire_at: "compute_fire_at demo_add now ''1s'' = Some ''1''"
  by (simp add: compute_fire_at_def demo_one_second demo_add_def)

lemma demo_drained:
  "all_due demo_add [''1'', ''1'', ''1''] demo_engine
   \<and> map ef_action_kind (fst (polls demo_add [''1'', ''1'', ''1''] demo_engine)) =
     [''enforcement.coach'', ''enforcement.quarantine'', ''enforcement.evict'', ''enforcement.reverse'']"
  by (simp add: demo_engine_def demo_rule_def poll_scheduled_def Let_def due_def follow_ons_def
      next_stage_schedule_def demo_fire_at follow_on_def build_stage_effect_def)

theorem escalation_ends_witness:
  "es_scheduled (snd (polls demo_add [''1'', ''1'', ''1''] demo_engine)) = []"
  using escalation_ends [of demo_add "[''1'', ''1'', ''1'']" demo_engine] demo_drained by simp

section \<open>Quarantine\<close>

definition settles_quarantine :: "string \<Rightarrow> ReceiptView \<Rightarrow> bool" where
  "settles_quarantine a r =
     (rv_principal_id r = Some a
      \<and> rv_action_kind r \<in> {''enforcement.quarantine'', ''enforcement.reverse'', ''enforcement.evict''})"

text \<open>The receipts among the operations of a run, in order.\<close>

fun op_receipts :: "engine_op list \<Rightarrow> ReceiptView list" where
  "op_receipts [] = []"
| "op_receipts (E_Receipt r # ops) = r # op_receipts ops"
| "op_receipts (_ # ops) = op_receipts ops"

lemma op_receipts_append [simp]: "op_receipts (xs @ ys) = op_receipts xs @ op_receipts ys"
  by (induction xs rule: op_receipts.induct) simp_all

lemma quarantined_put_agent [simp]:
  "is_agent_quarantined (put_agent b s st) a = (if a = b then quarantined s else is_agent_quarantined st a)"
  by (simp add: is_agent_quarantined_def put_agent_def)

lemma quarantined_entry: "quarantined (agent_entry st a) = is_agent_quarantined st a"
  by (simp add: agent_entry_def is_agent_quarantined_def agent_state_initial_def split: option.split)

lemma quarantined_other_fields [simp]:
  "is_agent_quarantined (st\<lparr>es_scheduled := q\<rparr>) a = is_agent_quarantined st a"
  "is_agent_quarantined (st\<lparr>es_counters := c\<rparr>) a = is_agent_quarantined st a"
  "is_agent_quarantined (st\<lparr>es_active := ac\<rparr>) a = is_agent_quarantined st a"
  by (simp_all add: is_agent_quarantined_def)

lemma quarantined_delta [simp]:
  "is_agent_quarantined (apply_reputation_delta b d st) a = is_agent_quarantined st a"
  by (auto simp: apply_reputation_delta_def Let_def quarantined_entry split: sum.split)

lemma quarantined_set [simp]:
  "is_agent_quarantined (set_quarantine b q st) a = (if a = b then q else is_agent_quarantined st a)"
  by (simp add: set_quarantine_def)

lemma quarantined_check_rules [simp]:
  "is_agent_quarantined (snd (check_rules add rules r st)) a = is_agent_quarantined st a"
proof (induction rules arbitrary: st)
  case (Cons rule rules)
  have "is_agent_quarantined (snd (check_detect add rule r st)) a = is_agent_quarantined st a"
    by (auto simp: check_detect_def Let_def put_counter_def schedule_coach_def mark_detected_def
        quarantined_entry split: option.split)
  with Cons show ?case by (simp add: case_prod_beta Let_def)
qed simp

lemma quarantined_accumulate [simp]:
  "is_agent_quarantined (accumulate r p st) a =
     (if a = p \<and> rv_action_kind r = ''enforcement.quarantine'' then True
      else if a = p \<and> (rv_action_kind r = ''enforcement.reverse'' \<or> rv_action_kind r = ''enforcement.evict'')
      then False else is_agent_quarantined st a)"
  by (auto simp: accumulate_def Let_def split: option.split)

lemma quarantined_on_receipt:
  "is_agent_quarantined (snd (on_receipt add r st)) a =
     (if settles_quarantine a r then rv_action_kind r = ''enforcement.quarantine''
      else is_agent_quarantined st a)"
  by (auto simp: on_receipt_def settles_quarantine_def starts_with_def split: option.split)

text \<open>
  (C30) An agent is quarantined in a state the engine reached exactly when, of the quarantining,
  reversing and evicting receipts about this agent among the processed ones, the last is a
  quarantining one. In particular an \<open>enforcement.evict\<close> receipt ends the quarantine.
\<close>

theorem quarantined_iff_last_receipt:
  "is_agent_quarantined (engine_run add ops engine_fresh) a =
     (let rs = filter (settles_quarantine a) (op_receipts ops)
      in rs \<noteq> [] \<and> rv_action_kind (last rs) = ''enforcement.quarantine'')"
proof (induction ops rule: rev_induct)
  case Nil
  then show ?case by (simp add: is_agent_quarantined_def engine_fresh_def)
next
  case (snoc op ops)
  then show ?case
    by (cases op) (auto simp: quarantined_on_receipt activate_def poll_scheduled_def Let_def)
qed

section \<open>Detection\<close>

text \<open>The detections of one rule along receipts, and the reference: count the window.\<close>

fun detections :: "clock_add \<Rightarrow> EnforcementRule \<Rightarrow> ReceiptView list \<Rightarrow> EngineState \<Rightarrow> bool list" where
  "detections add rule [] st = []"
| "detections add rule (r # rs) st =
     (let (eff, st') = check_detect add rule r st in (eff \<noteq> None) # detections add rule rs st')"

definition in_window :: "u64 \<Rightarrow> u64 \<Rightarrow> u64 \<Rightarrow> bool" where
  "in_window w now t = (now < w \<or> now - w \<le> t)"

fun window_detections :: "u64 \<Rightarrow> nat \<Rightarrow> u64 list \<Rightarrow> u64 list \<Rightarrow> bool list" where
  "window_detections w k [] hist = []"
| "window_detections w k (t # ts) hist =
     (let fires = k \<le> length (filter (in_window w t) (hist @ [t]))
      in fires # window_detections w k ts (if fires then [] else hist @ [t]))"

definition bucket_of :: "EnforcementRule \<Rightarrow> string \<Rightarrow> EngineState \<Rightarrow> u64 list" where
  "bucket_of rule g st =
     (case hm_get (es_counters st) (er_name rule, g) of None \<Rightarrow> [] | Some b \<Rightarrow> timestamps_ns b)"

lemma in_window_mono: "\<lbrakk>in_window w u t; now \<le> u\<rbrakk> \<Longrightarrow> in_window w now t"
proof -
  assume "in_window w u t" "now \<le> u"
  show ?thesis
  proof (cases "now < w")
    case False
    then have "w \<le> now" "w \<le> u" using \<open>now \<le> u\<close> by auto
    then have "now - w \<le> u - w" using \<open>now \<le> u\<close> by (simp add: word_le_nat_alt unat_sub)
    with \<open>in_window w u t\<close> \<open>w \<le> u\<close> show ?thesis
      using order_trans by (auto simp: in_window_def)
  qed (simp add: in_window_def)
qed

lemma bumped_counter_window:
  "timestamps_ns (bumped_counter rule r st) =
     filter (in_window (window_of rule) (rv_occurred_at_unix_ns r)) (bucket_of rule (group_key rule r) st)
     @ [rv_occurred_at_unix_ns r]"
  by (auto simp: bumped_counter_def Let_def prune_def bucket_of_def in_window_def [abs_def] split: option.split)

lemma bucket_of_put_counter [simp]:
  "bucket_of rule (group_key rule r) (put_counter rule r b st) = timestamps_ns b"
  by (simp add: bucket_of_def put_counter_def)

lemma bucket_of_fields [simp]:
  "bucket_of rule g (mark_detected a st) = bucket_of rule g st"
  "bucket_of rule g (schedule_coach add rule' r st) = bucket_of rule g st"
  by (auto simp: bucket_of_def mark_detected_def put_agent_def schedule_coach_def split: option.split)

lemma in_window_self [simp]: "in_window w t t"
proof (cases "t < w")
  case False
  then have "unat (t - w) \<le> unat t" by (simp add: unat_sub not_less)
  then show ?thesis by (simp add: in_window_def word_le_nat_alt)
qed (simp add: in_window_def)

lemma detections_follow_window:
  assumes "\<forall>r\<in>set rs. trigger_matches rule r \<and> group_key rule r = g"
    and "sorted (map rv_occurred_at_unix_ns rs)"
    and "length hist + length rs < 2 ^ 32"
    and "\<forall>r\<in>set rs. bucket_of rule g st = filter (in_window (window_of rule) now) hist
           \<and> now \<le> rv_occurred_at_unix_ns r \<or> bucket_of rule g st = [] \<and> hist = []"
  shows "detections add rule rs st =
    window_detections (window_of rule) (unat (dc_count_threshold (er_detect rule)))
      (map rv_occurred_at_unix_ns rs) hist"
  using assms
proof (induction rs arbitrary: st hist now)
  case (Cons r rs)
  let ?t = "rv_occurred_at_unix_ns r" and ?w = "window_of rule" and ?b = "bumped_counter rule r st"
  let ?k = "dc_count_threshold (er_detect rule)"
  from Cons.prems have m: "trigger_matches rule r" "group_key rule r = g" by auto
  have "filter (in_window ?w ?t) (filter (in_window ?w now) hist) = filter (in_window ?w ?t) hist" if "now \<le> ?t"
    unfolding filter_filter using that in_window_mono by (intro filter_cong) auto
  then have "filter (in_window ?w ?t) (bucket_of rule g st) = filter (in_window ?w ?t) hist"
    using Cons.prems(4) by auto
  then have b: "timestamps_ns ?b = filter (in_window ?w ?t) (hist @ [?t])"
    by (simp add: bumped_counter_window m)
  have "length (timestamps_ns ?b) \<le> length (hist @ [?t])"
    unfolding b by (rule length_filter_le)
  then have "length (timestamps_ns ?b) < 2 ^ 32"
    using Cons.prems(3) by simp
  then have fires: "\<not> (of_nat (length (timestamps_ns ?b)) :: u32) < ?k \<longleftrightarrow> unat ?k \<le> length (timestamps_ns ?b)"
    by (simp add: word_less_nat_alt unat_of_nat not_less)
  have later: "\<forall>r'\<in>set rs. ?t \<le> rv_occurred_at_unix_ns r'"
    using Cons.prems(2) by auto
  show ?case
  proof (cases "unat ?k \<le> length (timestamps_ns ?b)")
    case True
    let ?st = "snd (check_detect add rule r st)"
    have "bucket_of rule g ?st = []"
      using True fires m bucket_of_put_counter [of rule r "\<lparr>timestamps_ns = []\<rparr>" st]
      by (simp add: check_detect_def Let_def)
    with Cons.prems have "detections add rule rs ?st = window_detections ?w (unat ?k)
        (map rv_occurred_at_unix_ns rs) []"
      by (intro Cons.IH) auto
    with True fires m b show ?thesis
      by (simp add: check_detect_def Let_def case_prod_beta)
  next
    case False
    let ?st = "put_counter rule r ?b st"
    have "bucket_of rule g ?st = filter (in_window ?w ?t) (hist @ [?t])"
      using bucket_of_put_counter [of rule r ?b st] b m by simp
    with Cons.prems later have "detections add rule rs ?st = window_detections ?w (unat ?k)
        (map rv_occurred_at_unix_ns rs) (hist @ [?t])"
      by (intro Cons.IH [of _ _ ?t]) auto
    with False fires m b show ?thesis
      by (simp add: check_detect_def Let_def case_prod_beta)
  qed
qed simp

text \<open>
  (C31) Detection counts the window: along receipts that match a rule, have the same group key and
  non-decreasing timestamps, starting with an empty counter, the rule detects at a receipt exactly
  when the matching receipts since its last detection whose timestamps lie within the time window
  before this receipt, including it, are at least as many as the threshold.
\<close>

theorem detection_counts_window:
  assumes "\<forall>r\<in>set rs. trigger_matches rule r \<and> group_key rule r = g"
    and "sorted (map rv_occurred_at_unix_ns rs)"
    and "length rs < 2 ^ 32"
    and "bucket_of rule g st = []"
  shows "detections add rule rs st =
    window_detections (window_of rule) (unat (dc_count_threshold (er_detect rule)))
      (map rv_occurred_at_unix_ns rs) []"
  using assms by (intro detections_follow_window) auto

definition demo_view :: "u64 \<Rightarrow> ReceiptView" where
  "demo_view t =
     \<lparr>rv_action_kind = ''constitution.evaluate.deny'', rv_principal_id = Some ''a'', rv_deny_reason = None,
      rv_forbid_rule_id = None, rv_occurred_at_unix_ns = t, rv_occurred_at_wall_clock = ''1'',
      rv_reputation_delta = None\<rparr>"

lemma demo_rule_window: "window_of demo_rule = 10000000000"
proof -
  have "trim_ws ''10s'' = ''10s''"
    by (rule trim_ws_id) (simp_all add: plain_end_def is_digit_def less_eq_char_def)
  then show ?thesis
    by (simp add: window_of_def demo_rule_def parse_window_ns_def split_suffix_def Let_def is_digit_def
        less_eq_char_def parse_u64_def digits_value_def checked_mul_def)
qed

theorem detection_counts_window_witness:
  "detections demo_add demo_rule (map demo_view [0, 5000000000, 6000000000, 20000000000, 21000000000]) engine_fresh
   = [False, True, False, False, True]"
proof -
  let ?ts = "[0, 5000000000, 6000000000, 20000000000, 21000000000] :: u64 list"
  have matches: "\<forall>r\<in>set (map demo_view ?ts). trigger_matches demo_rule r \<and> group_key demo_rule r = ''a''"
    by (simp add: demo_view_def demo_rule_def trigger_matches_def group_key_def)
  have times: "map rv_occurred_at_unix_ns (map demo_view ?ts) = ?ts"
    by (simp add: demo_view_def)
  then have sorted: "sorted (map rv_occurred_at_unix_ns (map demo_view ?ts))" by simp
  have empty: "bucket_of demo_rule ''a'' engine_fresh = []"
    by (simp add: bucket_of_def engine_fresh_def)
  have threshold: "unat (dc_count_threshold (er_detect demo_rule)) = 2"
    by (simp add: demo_rule_def)
  have "window_detections 10000000000 2 ?ts [] = [False, True, False, False, True]"
    by (simp add: in_window_def)
  moreover have short: "length (map demo_view ?ts) < 2 ^ 32"
  proof -
    have "length (map demo_view ?ts) = 5" by simp
    also have "(5::nat) < 2 ^ 32" by simp
    finally show ?thesis .
  qed
  ultimately show ?thesis
    using detection_counts_window [OF matches sorted short empty, of demo_add]
    unfolding times threshold demo_rule_window by (simp only:)
qed

end
