(* ===== verification/Envelope.thy ===== *)
theory Envelope
  imports Receipt
begin

text \<open>
  Envelopes, the signed messages between agents (\<open>crates/yutha-transport/src/envelope.rs\<close>,
  \<open>performative.rs\<close>, \<open>recipient.rs\<close>, \<open>error.rs\<close>, \<open>proto_conv.rs\<close>): the type, its builder, expiry,
  signature and protobuf conversion. The protobuf byte encoder is a parameter, the record
  \<open>envelope_ctx\<close>.
\<close>

section \<open>Errors\<close>

datatype EnvelopeError =
    EnvSignatureInvalid
  | UnknownSpecVersion
  | ReplayDetected
  | EnvExpired
  | Malformed
  | UnknownPerformative
  | RecipientUnknown
  | CapabilityDenied

datatype TransportError =
    EnvelopeRejected EnvelopeError
  | Delivery string
  | Timeout
  | Backpressure
  | TransportBackend string
  | TransportReceipt ReceiptError
  | TransportCrypto CryptoError
  | TransportCore CoreError

section \<open>Performatives and recipients\<close>

datatype Performative =
    Propose
  | Counter
  | Commit
  | Abort
  | Release
  | Query
  | Inform
  | PerfError
  | RequestAction
  | Confirm
  | Decline

definition performative_from_wire :: "int \<Rightarrow> Performative option" where
  "performative_from_wire v =
     (if v = 1 then Some Propose else if v = 2 then Some Counter else if v = 3 then Some Commit
      else if v = 4 then Some Abort else if v = 5 then Some Release else if v = 6 then Some Query
      else if v = 7 then Some Inform else if v = 8 then Some PerfError
      else if v = 9 then Some RequestAction else if v = 10 then Some Confirm
      else if v = 11 then Some Decline else None)"

fun performative_to_wire :: "Performative \<Rightarrow> int" where
  "performative_to_wire Propose = 1"
| "performative_to_wire Counter = 2"
| "performative_to_wire Commit = 3"
| "performative_to_wire Abort = 4"
| "performative_to_wire Release = 5"
| "performative_to_wire Query = 6"
| "performative_to_wire Inform = 7"
| "performative_to_wire PerfError = 8"
| "performative_to_wire RequestAction = 9"
| "performative_to_wire Confirm = 10"
| "performative_to_wire Decline = 11"

record SwarmBroadcast =
  filter_tags :: "string list"

record ExternalEndpoint =
  ee_scheme :: string
  ee_authority :: string
  ee_path_hint :: string

datatype Recipient =
    ToAgent AgentId
  | ToRole string
  | ToSwarm SwarmBroadcast
  | ToExternal ExternalEndpoint

section \<open>Envelopes\<close>

record Envelope =
  e_spec_version :: SpecVersion
  e_swarm_id :: SwarmId
  e_envelope_id :: bytes
  e_from_agent :: AgentId
  e_recipient :: Recipient
  e_performative :: Performative
  e_payload :: bytes
  e_payload_schema_id :: string
  e_tags :: "string list"
  e_causal :: CausalRef
  e_nonce :: bytes
  e_epoch :: u64
  e_sent_at :: Timestamp
  e_expires_at :: "Timestamp option"
  e_in_reply_to :: "Hash option"
  e_agent_signature :: "Signature option"

definition envelope_is_expired_at :: "externals \<Rightarrow> Envelope \<Rightarrow> Timestamp \<Rightarrow> bool" where
  "envelope_is_expired_at x e now =
     (case e_expires_at e of
        None \<Rightarrow> False
      | Some exp \<Rightarrow>
          if wall_at_or_after x now exp then True
          else parsed_wall_clock x now = None \<or> parsed_wall_clock x exp = None)"

record EnvelopeBuilder =
  eb_spec_version :: "SpecVersion option"
  eb_swarm_id :: "SwarmId option"
  eb_envelope_id :: "bytes option"
  eb_from_agent :: "AgentId option"
  eb_recipient :: "Recipient option"
  eb_performative :: "Performative option"
  eb_payload :: bytes
  eb_payload_schema_id :: string
  eb_tags :: "string list"
  eb_causal :: "CausalRef option"
  eb_nonce :: "bytes option"
  eb_epoch :: "u64 option"
  eb_sent_at :: "Timestamp option"
  eb_expires_at :: "Timestamp option"
  eb_in_reply_to :: "Hash option"

definition envelope_build :: "EnvelopeBuilder \<Rightarrow> string + Envelope" where
  "envelope_build b =
     rbind (ok_or (eb_spec_version b) ''spec_version required'') (\<lambda>v.
     rbind (ok_or (eb_swarm_id b) ''swarm_id required'') (\<lambda>swarm.
     rbind (ok_or (eb_envelope_id b) ''envelope_id required'') (\<lambda>eid.
     rbind (ok_or (eb_from_agent b) ''from_agent required'') (\<lambda>from.
     rbind (ok_or (eb_recipient b) ''recipient required'') (\<lambda>recipient.
     rbind (ok_or (eb_performative b) ''performative required'') (\<lambda>perf.
     rbind (ok_or (eb_nonce b) ''nonce required'') (\<lambda>nonce.
     rbind (ok_or (eb_epoch b) ''epoch required'') (\<lambda>epoch.
     rbind (ok_or (eb_sent_at b) ''sent_at required'') (\<lambda>sent.
       Inr \<lparr>e_spec_version = v, e_swarm_id = swarm, e_envelope_id = eid, e_from_agent = from,
            e_recipient = recipient, e_performative = perf, e_payload = eb_payload b,
            e_payload_schema_id = eb_payload_schema_id b, e_tags = eb_tags b,
            e_causal = (case eb_causal b of None \<Rightarrow> causal_empty | Some c \<Rightarrow> c),
            e_nonce = nonce, e_epoch = epoch, e_sent_at = sent, e_expires_at = eb_expires_at b,
            e_in_reply_to = eb_in_reply_to b, e_agent_signature = None\<rparr>)))))))))"

section \<open>Protobuf messages and conversions\<close>

datatype proto_To =
    P_ToAgent proto_AgentId
  | P_ToRole string
  | P_ToSwarm SwarmBroadcast
  | P_ToExternal ExternalEndpoint

datatype proto_Recipient = P_Recipient (p_to: "proto_To option")

record proto_Envelope =
  pe_spec_version :: "proto_Version option"
  pe_swarm_id :: "proto_SwarmId option"
  pe_envelope_id :: bytes
  pe_from_agent :: "proto_AgentId option"
  pe_recipient :: "proto_Recipient option"
  pe_performative :: int
  pe_payload :: bytes
  pe_payload_schema_id :: string
  pe_tags :: "string list"
  pe_causal :: "proto_CausalRef option"
  pe_nonce :: bytes
  pe_epoch :: u64
  pe_sent_at :: "proto_Timestamp option"
  pe_expires_at :: "proto_Timestamp option"
  pe_in_reply_to :: "proto_Hash option"
  pe_extensions :: "bytes option"
  pe_agent_signature :: "proto_Signature option"

fun proto_of_recipient :: "Recipient \<Rightarrow> proto_Recipient" where
  "proto_of_recipient (ToAgent a) = P_Recipient (Some (P_ToAgent (proto_of_agent a)))"
| "proto_of_recipient (ToRole role) = P_Recipient (Some (P_ToRole role))"
| "proto_of_recipient (ToSwarm b) = P_Recipient (Some (P_ToSwarm \<lparr>filter_tags = filter_tags b\<rparr>))"
| "proto_of_recipient (ToExternal e) = P_Recipient (Some (P_ToExternal
     \<lparr>ee_scheme = ee_scheme e, ee_authority = ee_authority e, ee_path_hint = ee_path_hint e\<rparr>))"

definition proto_of_envelope :: "Envelope \<Rightarrow> proto_Envelope" where
  "proto_of_envelope e =
     \<lparr>pe_spec_version = Some (proto_of_version (e_spec_version e)),
      pe_swarm_id = Some (proto_of_swarm (e_swarm_id e)),
      pe_envelope_id = e_envelope_id e,
      pe_from_agent = Some (proto_of_agent (e_from_agent e)),
      pe_recipient = Some (proto_of_recipient (e_recipient e)),
      pe_performative = performative_to_wire (e_performative e),
      pe_payload = e_payload e, pe_payload_schema_id = e_payload_schema_id e, pe_tags = e_tags e,
      pe_causal = Some (proto_of_causal (e_causal e)),
      pe_nonce = e_nonce e, pe_epoch = e_epoch e,
      pe_sent_at = Some (proto_of_timestamp (e_sent_at e)),
      pe_expires_at = map_option proto_of_timestamp (e_expires_at e),
      pe_in_reply_to = map_option proto_of_hash (e_in_reply_to e),
      pe_extensions = None,
      pe_agent_signature = map_option proto_of_signature (e_agent_signature e)\<rparr>"

definition envelope_to_canonical_proto :: "Envelope \<Rightarrow> proto_Envelope" where
  "envelope_to_canonical_proto e =
     (proto_of_envelope e)\<lparr>pe_agent_signature := None, pe_extensions := None\<rparr>"

definition transport_missing :: "string \<Rightarrow> TransportError" where
  "transport_missing field = TransportCore (Validation (''required field missing: '' @ field))"

definition performative_try_from :: "int \<Rightarrow> TransportError + Performative" where
  "performative_try_from v =
     ok_or (performative_from_wire v) (TransportCore (Validation ''unknown performative wire value''))"

definition recipient_try_from :: "proto_Recipient \<Rightarrow> TransportError + Recipient" where
  "recipient_try_from p =
     rbind (ok_or (p_to p) (transport_missing ''recipient.to'')) (\<lambda>to.
       case to of
         P_ToAgent a \<Rightarrow> rbind (map_err TransportCore (agent_try_from a)) (\<lambda>i. Inr (ToAgent i))
       | P_ToRole role \<Rightarrow> Inr (ToRole role)
       | P_ToSwarm b \<Rightarrow> Inr (ToSwarm \<lparr>filter_tags = filter_tags b\<rparr>)
       | P_ToExternal e \<Rightarrow> Inr (ToExternal
           \<lparr>ee_scheme = ee_scheme e, ee_authority = ee_authority e, ee_path_hint = ee_path_hint e\<rparr>))"

definition envelope_try_from :: "externals \<Rightarrow> proto_Envelope \<Rightarrow> TransportError + Envelope" where
  "envelope_try_from x p =
     rbind (ok_or (pe_spec_version p) (transport_missing ''spec_version'')) (\<lambda>pv.
     rbind (map_err TransportCore (version_try_from pv)) (\<lambda>v.
     rbind (ok_or (pe_swarm_id p) (transport_missing ''swarm_id'')) (\<lambda>ps.
     rbind (map_err TransportCore (swarm_try_from ps)) (\<lambda>swarm.
     rbind (ok_or (pe_from_agent p) (transport_missing ''from_agent'')) (\<lambda>pa.
     rbind (map_err TransportCore (agent_try_from pa)) (\<lambda>from.
     rbind (ok_or (pe_recipient p) (transport_missing ''recipient'')) (\<lambda>pr.
     rbind (recipient_try_from pr) (\<lambda>recipient.
     rbind (performative_try_from (pe_performative p)) (\<lambda>perf.
     rbind (map_err TransportCore (transpose_map causal_try_from (pe_causal p))) (\<lambda>causal.
     rbind (ok_or (pe_sent_at p) (transport_missing ''sent_at'')) (\<lambda>pt.
     rbind (map_err TransportCore (timestamp_try_from x pt)) (\<lambda>sent.
     rbind (map_err TransportCore (transpose_map (timestamp_try_from x) (pe_expires_at p))) (\<lambda>exp.
     rbind (map_err TransportCore (transpose_map hash_try_from (pe_in_reply_to p))) (\<lambda>reply.
     rbind (map_err TransportCore (transpose_map signature_try_from (pe_agent_signature p))) (\<lambda>sig.
       Inr \<lparr>e_spec_version = v, e_swarm_id = swarm, e_envelope_id = pe_envelope_id p,
            e_from_agent = from, e_recipient = recipient, e_performative = perf,
            e_payload = pe_payload p, e_payload_schema_id = pe_payload_schema_id p,
            e_tags = pe_tags p,
            e_causal = (case causal of None \<Rightarrow> causal_empty | Some c \<Rightarrow> c),
            e_nonce = pe_nonce p, e_epoch = pe_epoch p, e_sent_at = sent, e_expires_at = exp,
            e_in_reply_to = reply, e_agent_signature = sig\<rparr>)))))))))))))))"

section \<open>Signature\<close>

record envelope_ctx =
  ecx_ext :: externals
  ecx_encode :: "proto_Envelope \<Rightarrow> bytes"

definition envelope_bytes :: "envelope_ctx \<Rightarrow> Envelope \<Rightarrow> bytes" where
  "envelope_bytes cx e = ecx_encode cx (envelope_to_canonical_proto e)"

definition envelope_address :: "envelope_ctx \<Rightarrow> Envelope \<Rightarrow> Hash" where
  "envelope_address cx e = sha256 (ecx_ext cx) (envelope_bytes cx e)"

definition envelope_verify_signature :: "envelope_ctx \<Rightarrow> Envelope \<Rightarrow> PublicKey \<Rightarrow> TransportError + unit" where
  "envelope_verify_signature cx e pk =
     rbind (ok_or (e_agent_signature e) (EnvelopeRejected EnvSignatureInvalid)) (\<lambda>sig.
       map_err (\<lambda>_. EnvelopeRejected EnvSignatureInvalid)
         (verify (ecx_ext cx) pk (envelope_bytes cx e) sig))"

definition envelope_sign ::
    "envelope_ctx \<Rightarrow> (bytes \<Rightarrow> string + Signature) \<Rightarrow> EnvelopeBuilder \<Rightarrow> string + Envelope" where
  "envelope_sign cx sign b =
     rbind (envelope_build b) (\<lambda>e.
     rbind (map_err (\<lambda>_. ''signer failed'') (sign (envelope_bytes cx e))) (\<lambda>sig.
       Inr (e\<lparr>e_agent_signature := Some sig\<rparr>)))"

section \<open>Round trip\<close>

lemma performative_wire_iff [simp]:
  "performative_from_wire v = Some p \<longleftrightarrow> v = performative_to_wire p"
  by (cases p) (auto simp: performative_from_wire_def)

lemma performative_try_from_iff [simp]:
  "performative_try_from v = Inr p \<longleftrightarrow> v = performative_to_wire p"
  by (simp add: performative_try_from_def)

lemma performative_roundtrip [simp]: "performative_try_from (performative_to_wire p) = Inr p"
  by simp

interpretation recipient_codec: codec proto_of_recipient recipient_try_from "\<lambda>_. True"
proof
  show "recipient_try_from (proto_of_recipient r) = Inr r" for r
    by (cases r) (auto simp: recipient_try_from_def agent_codec.decode_encode)
  show "True \<and> proto_of_recipient r = p" if dec: "recipient_try_from p = Inr r" for p r
  proof -
    obtain to where p: "p = P_Recipient (Some to)"
      using dec by (cases p) (auto simp: recipient_try_from_def rbind_eq_Inr)
    show ?thesis
      using dec by (cases to) (auto simp: p recipient_try_from_def rbind_eq_Inr agent_codec.decode_iff)
  qed
qed

definition envelope_ok :: "externals \<Rightarrow> Envelope \<Rightarrow> bool" where
  "envelope_ok x e =
     (version_ok (e_spec_version e) \<and> causal_ok (e_causal e) \<and> timestamp_ok x (e_sent_at e)
      \<and> pred_option (timestamp_ok x) (e_expires_at e) \<and> pred_option hash_ok (e_in_reply_to e)
      \<and> pred_option signature_ok (e_agent_signature e))"

interpretation envelope_codec: wire_format proto_of_envelope "envelope_try_from x" "envelope_ok x" for x
proof
  show "envelope_try_from x (proto_of_envelope e) = Inr e" if "envelope_ok x e" for e
    using that
    by (simp add: envelope_try_from_def proto_of_envelope_def envelope_ok_def
        version_codec.decode_encode agent_codec.decode_encode swarm_codec.decode_encode
        recipient_codec.decode_encode causal_codec.decode_encode timestamp_codec.decode_encode
        timestamp_codec.transpose_encode hash_codec.transpose_encode signature_codec.transpose_encode
        del: performative_try_from_iff)
qed

lemma envelope_bytes_unsigned [simp]:
  "envelope_bytes cx (e\<lparr>e_agent_signature := s\<rparr>) = envelope_bytes cx e"
  by (simp add: envelope_bytes_def envelope_to_canonical_proto_def proto_of_envelope_def)

lemma envelope_sign_verifies:
  assumes "envelope_sign cx sign b = Inr e"
    and "\<And>m sig. sign m = Inr sig \<Longrightarrow> verify (ecx_ext cx) pk m sig = Inr ()"
  shows "envelope_verify_signature cx e pk = Inr ()"
  using assms by (auto simp: envelope_sign_def envelope_verify_signature_def rbind_eq_Inr)

end
