(* ===== verification/Transport.thy ===== *)
theory Transport
  imports Envelope Observation Scores
begin

text \<open>
  Replay protection (\<open>crates/yutha-transport/src/replay.rs\<close>) and the in-memory transport
  (\<open>memory.rs\<close>). Integer overflow follows the release profile, where addition wraps. The
  sending and the receiving end of an inbox are always registered together, so that an inbox is
  one bounded queue and its sending end never finds the channel closed. A call of \<open>receive\<close> that
  would wait for an envelope has the result \<open>None\<close>.
\<close>

section \<open>Replay protection\<close>

record SenderState =
  nonces_queue :: "bytes list"
  nonces_set :: "bytes set"
  max_epoch :: u64

definition sender_state_default :: SenderState where
  "sender_state_default = \<lparr>nonces_queue = [], nonces_set = {}, max_epoch = 0\<rparr>"

record ReplayProtection =
  rp_per_sender :: "(AgentId, SenderState) hash_map"
  rp_window_size :: nat
  rp_max_epoch_skew :: u32

definition replay_with_params :: "nat \<Rightarrow> u32 \<Rightarrow> ReplayProtection" where
  "replay_with_params window_size skew =
     \<lparr>rp_per_sender = [], rp_window_size = window_size, rp_max_epoch_skew = skew\<rparr>"

definition replay_new :: ReplayProtection where
  "replay_new = replay_with_params 1024 256"

definition sender_state :: "ReplayProtection \<Rightarrow> AgentId \<Rightarrow> SenderState" where
  "sender_state rp a = (case hm_get (rp_per_sender rp) a of None \<Rightarrow> sender_state_default | Some s \<Rightarrow> s)"

fun age_out :: "nat \<Rightarrow> bytes list \<Rightarrow> bytes set \<Rightarrow> bytes list \<times> bytes set" where
  "age_out window [] s = ([], s)"
| "age_out window (oldest # q) s =
     (if length (oldest # q) > window then age_out window q (s - {oldest}) else (oldest # q, s))"

definition record_nonce :: "nat \<Rightarrow> Envelope \<Rightarrow> SenderState \<Rightarrow> SenderState" where
  "record_nonce window e st =
     (let (q, s) = age_out window (nonces_queue st @ [e_nonce e]) (insert (e_nonce e) (nonces_set st))
      in \<lparr>nonces_queue = q, nonces_set = s,
          max_epoch = (if e_epoch e > max_epoch st then e_epoch e else max_epoch st)\<rparr>)"

definition admit ::
    "externals \<Rightarrow> Envelope \<Rightarrow> Timestamp \<Rightarrow> ReplayProtection \<Rightarrow> (TransportError + unit) \<times> ReplayProtection" where
  "admit x e now rp =
     (if envelope_is_expired_at x e now then (Inl (EnvelopeRejected EnvExpired), rp)
      else
        let st = sender_state rp (e_from_agent e);
            put = (\<lambda>s. rp\<lparr>rp_per_sender := hm_insert (e_from_agent e) s (rp_per_sender rp)\<rparr>)
        in if e_epoch e + ucast (rp_max_epoch_skew rp) < max_epoch st
           then (Inl (EnvelopeRejected ReplayDetected), put st)
           else if e_nonce e \<in> nonces_set st
           then (Inl (EnvelopeRejected ReplayDetected), put st)
           else (Inr (), put (record_nonce (rp_window_size rp) e st)))"

section \<open>State of the transport\<close>

definition INBOX_CAPACITY :: nat where
  "INBOX_CAPACITY = 64"

record TransportState =
  tr_inboxes :: "(AgentId, Envelope list) hash_map"
  tr_roles :: "(string, AgentId list) hash_map"
  tr_tags :: "(AgentId, string set) hash_map"
  tr_replay :: ReplayProtection
  tr_receipts :: MemoryStore

record transport_deps =
  trd_observer :: observer
  trd_envelope_ctx :: envelope_ctx

definition transport_new :: "MemoryStore \<Rightarrow> TransportState" where
  "transport_new ms = \<lparr>tr_inboxes = [], tr_roles = [], tr_tags = [], tr_replay = replay_new, tr_receipts = ms\<rparr>"

definition register_recipient :: "AgentId \<Rightarrow> TransportState \<Rightarrow> TransportState" where
  "register_recipient a st = st\<lparr>tr_inboxes := hm_insert a [] (tr_inboxes st)\<rparr>"

definition register_role_member :: "string \<Rightarrow> AgentId \<Rightarrow> TransportState \<Rightarrow> TransportState" where
  "register_role_member role a st =
     (let members = (case hm_get (tr_roles st) role of None \<Rightarrow> [] | Some ms \<Rightarrow> ms)
      in st\<lparr>tr_roles := hm_insert role (if a \<in> set members then members else members @ [a]) (tr_roles st)\<rparr>)"

definition set_agent_tags :: "AgentId \<Rightarrow> string list \<Rightarrow> TransportState \<Rightarrow> TransportState" where
  "set_agent_tags a tags st = st\<lparr>tr_tags := hm_insert a (set tags) (tr_tags st)\<rparr>"

definition role_members :: "TransportState \<Rightarrow> string \<Rightarrow> AgentId list" where
  "role_members st role = (case hm_get (tr_roles st) role of None \<Rightarrow> [] | Some ms \<Rightarrow> ms)"

definition swarm_targets :: "TransportState \<Rightarrow> string list \<Rightarrow> AgentId list" where
  "swarm_targets st wanted =
     (if wanted = [] then map fst (tr_inboxes st)
      else filter (\<lambda>a. case hm_get (tr_tags st) a of
                         None \<Rightarrow> False | Some tags \<Rightarrow> list_all (\<lambda>t. t \<in> tags) wanted)
             (map fst (tr_inboxes st)))"

section \<open>Receipts of the transport\<close>

fun observe_to_transport :: "ObserveError \<Rightarrow> TransportError" where
  "observe_to_transport (BuildFailed m) = TransportBackend m"
| "observe_to_transport (AppendFailed e) = TransportReceipt e"

definition envelope_evidence :: "transport_deps \<Rightarrow> Envelope \<Rightarrow> Evidence list" where
  "envelope_evidence dp e =
     [evidence_new ''envelope_id'' ''type.yutha.dev/v1/Bytes'' (e_envelope_id e),
      evidence_new ''envelope_hash'' ''type.yutha.dev/v1/Hash''
        (digest (envelope_address (trd_envelope_ctx dp) e)),
      evidence_new ''from_agent'' ''type.yutha.dev/v1/AgentId'' (agent_as_bytes (e_from_agent e))]"

definition transport_record ::
    "transport_deps \<Rightarrow> observe_clock \<Rightarrow> string \<Rightarrow> Envelope \<Rightarrow> Evidence list \<Rightarrow> TransportState
     \<Rightarrow> (TransportError + Hash) \<times> TransportState" where
  "transport_record dp ck action_kind e extra st =
     (let (res, ms) = observe (trd_observer dp) ck action_kind (e_swarm_id e) []
                        (envelope_evidence dp e @ extra) (tr_receipts st)
      in (map_err observe_to_transport res, st\<lparr>tr_receipts := ms\<rparr>))"

definition recipient_kind :: "Recipient \<Rightarrow> string" where
  "recipient_kind r =
     (case r of ToAgent _ \<Rightarrow> ''agent'' | ToRole _ \<Rightarrow> ''role'' | ToSwarm _ \<Rightarrow> ''swarm''
      | ToExternal _ \<Rightarrow> ''external'')"

text \<open>Joining with commas.\<close>

fun join_comma :: "string list \<Rightarrow> string" where
  "join_comma [] = []"
| "join_comma [s] = s"
| "join_comma (s # t # ss) = s @ '','' @ join_comma (t # ss)"

definition broadcast_evidence :: "string \<Rightarrow> string \<Rightarrow> nat \<Rightarrow> Evidence list" where
  "broadcast_evidence kind value fanout_count =
     [evidence_new ''recipient_kind'' ''type.yutha.dev/v1/String'' (as_bytes kind),
      evidence_new ''recipient_value'' ''type.yutha.dev/v1/String'' (as_bytes value),
      evidence_new ''fanout_count'' ''type.yutha.dev/v1/Long'' (as_bytes (to_decimal fanout_count))]"

section \<open>Sending and receiving\<close>

definition try_send :: "Envelope \<Rightarrow> Envelope list \<Rightarrow> TransportError + Envelope list" where
  "try_send e q = (if INBOX_CAPACITY \<le> length q then Inl Backpressure else Inr (q @ [e]))"

text \<open>
  The fan-out of a broadcast: agents without an inbox are skipped; the first full inbox ends it
  with an error, after the inboxes before it were filled.
\<close>

fun fanout_to ::
    "AgentId list \<Rightarrow> Envelope \<Rightarrow> (AgentId, Envelope list) hash_map \<Rightarrow> nat
     \<Rightarrow> (TransportError + nat) \<times> (AgentId, Envelope list) hash_map" where
  "fanout_to [] e m n = (Inr n, m)"
| "fanout_to (a # as) e m n =
     (case hm_get m a of
        None \<Rightarrow> fanout_to as e m n
      | Some q \<Rightarrow>
          (case try_send e q of
             Inl err \<Rightarrow> (Inl err, m)
           | Inr q' \<Rightarrow> fanout_to as e (hm_insert a q' m) (n + 1)))"

definition broadcast ::
    "transport_deps \<Rightarrow> observe_clock \<Rightarrow> AgentId list \<Rightarrow> string \<Rightarrow> Envelope \<Rightarrow> TransportState
     \<Rightarrow> (TransportError + Hash) \<times> TransportState" where
  "broadcast dp ck targets value e st =
     (let (res, m) = fanout_to targets e (tr_inboxes st) 0;
          st' = st\<lparr>tr_inboxes := m\<rparr>
      in case res of
           Inl err \<Rightarrow> (Inl err, st')
         | Inr n \<Rightarrow> transport_record dp ck ''envelope.send'' e
                     (broadcast_evidence (recipient_kind (e_recipient e)) value n) st')"

definition unicast ::
    "transport_deps \<Rightarrow> observe_clock \<Rightarrow> AgentId \<Rightarrow> Envelope \<Rightarrow> TransportState
     \<Rightarrow> (TransportError + Hash) \<times> TransportState" where
  "unicast dp ck a e st =
     (case hm_get (tr_inboxes st) a of
        None \<Rightarrow> (Inl (Delivery ''recipient not registered''), st)
      | Some q \<Rightarrow>
          (case try_send e q of
             Inl err \<Rightarrow> (Inl err, st)
           | Inr q' \<Rightarrow>
               transport_record dp ck ''envelope.send'' e
                 [evidence_new ''to_agent'' ''type.yutha.dev/v1/AgentId'' (agent_as_bytes a),
                  evidence_new ''recipient_kind'' ''type.yutha.dev/v1/String''
                    (as_bytes (recipient_kind (e_recipient e)))]
                 (st\<lparr>tr_inboxes := hm_insert a q' (tr_inboxes st)\<rparr>)))"

definition send ::
    "transport_deps \<Rightarrow> Timestamp \<Rightarrow> observe_clock \<Rightarrow> Envelope \<Rightarrow> TransportState
     \<Rightarrow> (TransportError + Hash) \<times> TransportState" where
  "send dp now ck e st =
     (let (res, rp) = admit (ecx_ext (trd_envelope_ctx dp)) e now (tr_replay st);
          st1 = st\<lparr>tr_replay := rp\<rparr>
      in case res of
           Inl err \<Rightarrow> (Inl err, st1)
         | Inr _ \<Rightarrow>
             (case e_recipient e of
                ToAgent a \<Rightarrow> unicast dp ck a e st1
              | ToRole role \<Rightarrow> broadcast dp ck (role_members st1 role) role e st1
              | ToSwarm b \<Rightarrow>
                  broadcast dp ck (swarm_targets st1 (filter_tags b))
                    (if filter_tags b = [] then ''*'' else join_comma (filter_tags b)) e st1
              | ToExternal _ \<Rightarrow> (Inl (TransportBackend ''External endpoints not implemented''), st1)))"

definition deliver_evidence :: "AgentId \<Rightarrow> Evidence list" where
  "deliver_evidence a = [evidence_new ''to_agent'' ''type.yutha.dev/v1/AgentId'' (agent_as_bytes a)]"

definition receive ::
    "transport_deps \<Rightarrow> observe_clock \<Rightarrow> AgentId \<Rightarrow> TransportState
     \<Rightarrow> ((TransportError + Envelope) \<times> TransportState) option" where
  "receive dp ck a st =
     (case hm_get (tr_inboxes st) a of
        None \<Rightarrow> Some (Inl (Delivery ''recipient not registered''), st)
      | Some [] \<Rightarrow> None
      | Some (e # q) \<Rightarrow>
          (let (res, st') = transport_record dp ck ''envelope.deliver'' e (deliver_evidence a)
                              (st\<lparr>tr_inboxes := hm_insert a q (tr_inboxes st)\<rparr>)
           in Some (rbind res (\<lambda>_. Inr e), st')))"

end
