(* ===== verification/Transport_Runs.thy ===== *)
theory Transport_Runs
  imports Transport "HOL-Library.Sublist"
begin

text \<open>
  The behaviour of replay protection and of the transport over sequences of calls. The abstract
  view of replay protection is the history of accepted envelopes, of which the implementation keeps
  a queue, a set and a maximum per sender.
\<close>

section \<open>Replay protection against the history of accepted envelopes\<close>

definition last_n :: "nat \<Rightarrow> 'a list \<Rightarrow> 'a list" where
  "last_n n xs = drop (length xs - n) xs"

definition accepted_from :: "Envelope list \<Rightarrow> AgentId \<Rightarrow> Envelope list" where
  "accepted_from hist a = filter (\<lambda>e. e_from_agent e = a) hist"

definition newest_epoch :: "Envelope list \<Rightarrow> u64" where
  "newest_epoch es = fold max (map e_epoch es) 0"

text \<open>The specification of \<open>admit\<close> on the history of accepted envelopes.\<close>

definition spec_admit ::
    "externals \<Rightarrow> nat \<Rightarrow> u32 \<Rightarrow> Envelope \<Rightarrow> Timestamp \<Rightarrow> Envelope list
     \<Rightarrow> (TransportError + unit) \<times> Envelope list" where
  "spec_admit x window skew e now hist =
     (let past = accepted_from hist (e_from_agent e) in
      if envelope_is_expired_at x e now then (Inl (EnvelopeRejected EnvExpired), hist)
      else if e_epoch e + ucast skew < newest_epoch past
           \<or> e_nonce e \<in> e_nonce ` set (last_n window past)
      then (Inl (EnvelopeRejected ReplayDetected), hist)
      else (Inr (), hist @ [e]))"

fun run_calls :: "('c \<Rightarrow> 's \<Rightarrow> 'r \<times> 's) \<Rightarrow> 'c list \<Rightarrow> 's \<Rightarrow> 'r list \<times> 's" where
  "run_calls f [] s = ([], s)"
| "run_calls f (c # cs) s = (let (r, s') = f c s; (rs, s'') = run_calls f cs s' in (r # rs, s''))"

text \<open>A forward simulation: related states give equal answers and related states again.\<close>

locale simulates =
  fixes conc :: "'c \<Rightarrow> 's \<Rightarrow> 'r \<times> 's"
    and spec :: "'c \<Rightarrow> 't \<Rightarrow> 'r \<times> 't"
    and rel :: "'s \<Rightarrow> 't \<Rightarrow> bool"
  assumes answer: "rel s t \<Longrightarrow> fst (conc c s) = fst (spec c t)"
    and state: "rel s t \<Longrightarrow> rel (snd (conc c s)) (snd (spec c t))"
begin

lemma run_related:
  "rel s t \<Longrightarrow> fst (run_calls conc cs s) = fst (run_calls spec cs t)
     \<and> rel (snd (run_calls conc cs s)) (snd (run_calls spec cs t))"
proof (induction cs arbitrary: s t)
  case Nil
  then show ?case by simp
next
  case (Cons c cs)
  from Cons.IH [OF state [OF Cons.prems]] answer [OF Cons.prems] show ?case
    by (simp add: case_prod_beta Let_def)
qed

lemmas run_answers = run_related [THEN conjunct1]
lemmas run_states = run_related [THEN conjunct2]

end

definition replay_rel :: "nat \<Rightarrow> u32 \<Rightarrow> ReplayProtection \<Rightarrow> Envelope list \<Rightarrow> bool" where
  "replay_rel window skew rp hist =
     (rp_window_size rp = window \<and> rp_max_epoch_skew rp = skew
      \<and> (\<forall>a. let q = map e_nonce (last_n window (accepted_from hist a)) in
           distinct q
           \<and> sender_state rp a = \<lparr>nonces_queue = q, nonces_set = set q,
                                  max_epoch = newest_epoch (accepted_from hist a)\<rparr>))"

lemma last_n_Nil [simp]: "last_n n [] = []"
  by (simp add: last_n_def)

lemma last_n_Cons: "last_n n (x # xs) = (if length xs < n then x # xs else last_n n xs)"
  by (auto simp: last_n_def Suc_diff_le)

lemma age_out_last_n:
  "distinct q \<Longrightarrow> age_out window q (set q) = (last_n window q, set (last_n window q))"
proof (induction q)
  case Nil
  then show ?case by (simp add: last_n_def)
next
  case (Cons n q)
  then have minus: "set (n # q) - {n} = set q" by auto
  show ?case
  proof (cases "length q < window")
    case True
    then show ?thesis by (simp add: last_n_Cons)
  next
    case False
    with Cons minus show ?thesis by (simp add: last_n_Cons)
  qed
qed

lemma last_n_map [simp]: "last_n n (map f xs) = map f (last_n n xs)"
  by (simp add: last_n_def drop_map)

lemma last_n_append_last_n: "last_n n (last_n n xs @ [y]) = last_n n (xs @ [y])"
  by (induction xs) (auto simp: last_n_Cons)

lemma distinct_last_n: "distinct xs \<Longrightarrow> distinct (last_n n xs)"
  by (simp add: last_n_def)

lemma accepted_from_snoc [simp]:
  "accepted_from (hist @ [e]) a =
     (if e_from_agent e = a then accepted_from hist a @ [e] else accepted_from hist a)"
  by (simp add: accepted_from_def)

lemma newest_epoch_snoc [simp]: "newest_epoch (es @ [e]) = max (e_epoch e) (newest_epoch es)"
  by (simp add: newest_epoch_def)

lemma record_nonce_last_n:
  assumes "st = \<lparr>nonces_queue = last_n w q, nonces_set = set (last_n w q), max_epoch = m\<rparr>"
    and "distinct (last_n w q)" and "e_nonce e \<notin> set (last_n w q)"
  shows "record_nonce w e st =
    \<lparr>nonces_queue = last_n w (q @ [e_nonce e]), nonces_set = set (last_n w (q @ [e_nonce e])),
     max_epoch = max (e_epoch e) m\<rparr>"
    and "distinct (last_n w (q @ [e_nonce e]))"
proof -
  let ?q = "last_n w q @ [e_nonce e]"
  have d: "distinct ?q" using assms by simp
  have s: "insert (e_nonce e) (set (last_n w q)) = set ?q" by simp
  show "record_nonce w e st =
    \<lparr>nonces_queue = last_n w (q @ [e_nonce e]), nonces_set = set (last_n w (q @ [e_nonce e])),
     max_epoch = max (e_epoch e) m\<rparr>"
    unfolding record_nonce_def assms(1) SenderState.simps s age_out_last_n [OF d]
    by (auto simp: last_n_append_last_n max_def)
  show "distinct (last_n w (q @ [e_nonce e]))"
    using distinct_last_n [OF d, of w] by (simp add: last_n_append_last_n)
qed

lemma sender_state_put [simp]:
  "sender_state (rp\<lparr>rp_per_sender := hm_insert a s (rp_per_sender rp)\<rparr>) b =
     (if b = a then s else sender_state rp b)"
  by (simp add: sender_state_def)

interpretation replay: simulates "\<lambda>(e, now). admit x e now" "\<lambda>(e, now). spec_admit x w k e now"
  "replay_rel w k" for x w k
proof
  fix rp :: ReplayProtection and hist and c :: "Envelope \<times> Timestamp"
  assume rel: "replay_rel w k rp hist"
  obtain e now where c: "c = (e, now)" by (cases c)
  let ?past = "accepted_from hist (e_from_agent e)"
  let ?q = "map e_nonce ?past"
  note st = rel [unfolded replay_rel_def Let_def, THEN conjunct2, THEN conjunct2, rule_format]
  have sender: "sender_state rp (e_from_agent e) =
      \<lparr>nonces_queue = last_n w ?q, nonces_set = set (last_n w ?q), max_epoch = newest_epoch ?past\<rparr>"
    and d: "distinct (last_n w ?q)"
    using st [of "e_from_agent e"] by simp_all
  have params: "rp_window_size rp = w" "rp_max_epoch_skew rp = k"
    using rel by (simp_all add: replay_rel_def)
  have keep: "replay_rel w k (rp\<lparr>rp_per_sender :=
      hm_insert (e_from_agent e) (sender_state rp (e_from_agent e)) (rp_per_sender rp)\<rparr>) hist"
    using rel by (auto simp: replay_rel_def)
  show "fst ((case c of (e, now) \<Rightarrow> admit x e now) rp) =
      fst ((case c of (e, now) \<Rightarrow> spec_admit x w k e now) hist)"
    by (simp add: c admit_def spec_admit_def Let_def sender params)
  show "replay_rel w k (snd ((case c of (e, now) \<Rightarrow> admit x e now) rp))
      (snd ((case c of (e, now) \<Rightarrow> spec_admit x w k e now) hist))"
  proof (cases "fst (spec_admit x w k e now hist)")
    case (Inl err)
    then have "snd (spec_admit x w k e now hist) = hist"
      and "snd (admit x e now rp) = rp \<or> snd (admit x e now rp) = rp\<lparr>rp_per_sender :=
        hm_insert (e_from_agent e) (sender_state rp (e_from_agent e)) (rp_per_sender rp)\<rparr>"
      by (auto simp: admit_def spec_admit_def Let_def sender params split: if_splits)
    then show ?thesis
      using rel keep by (auto simp: c)
  next
    case (Inr u)
    then have acc: "snd (spec_admit x w k e now hist) = hist @ [e]"
      and fresh: "e_nonce e \<notin> set (last_n w ?q)"
      and con: "snd (admit x e now rp) = rp\<lparr>rp_per_sender :=
        hm_insert (e_from_agent e) (record_nonce w e (sender_state rp (e_from_agent e)))
          (rp_per_sender rp)\<rparr>"
      by (auto simp: admit_def spec_admit_def Let_def sender params split: if_splits)
    note rec = record_nonce_last_n [OF sender d fresh]
    have "distinct (map e_nonce (last_n w (accepted_from (hist @ [e]) a)))
        \<and> sender_state (snd (admit x e now rp)) a =
          \<lparr>nonces_queue = map e_nonce (last_n w (accepted_from (hist @ [e]) a)),
           nonces_set = set (map e_nonce (last_n w (accepted_from (hist @ [e]) a))),
           max_epoch = newest_epoch (accepted_from (hist @ [e]) a)\<rparr>" for a
    proof (cases "a = e_from_agent e")
      case True
      have "last_n w (?q @ [e_nonce e]) = map e_nonce (last_n w (?past @ [e]))"
        by (simp flip: last_n_map)
      with rec True show ?thesis by (simp add: con)
    next
      case False
      with st [of a] show ?thesis by (simp add: con)
    qed
    then show ?thesis
      by (simp add: c acc replay_rel_def params con Let_def)
  qed
qed

lemma replay_rel_new: "replay_rel w k (replay_with_params w k) []"
  by (simp add: replay_rel_def replay_with_params_def sender_state_def sender_state_default_def
      accepted_from_def newest_epoch_def last_n_def)

section \<open>Runs of the transport\<close>

datatype transport_op =
    T_Register AgentId
  | T_Role string AgentId
  | T_Tags AgentId "string list"
  | T_Send Timestamp observe_clock Envelope
  | T_Receive observe_clock AgentId

fun transport_step :: "transport_deps \<Rightarrow> transport_op \<Rightarrow> TransportState \<Rightarrow> TransportState" where
  "transport_step dp (T_Register a) st = register_recipient a st"
| "transport_step dp (T_Role role a) st = register_role_member role a st"
| "transport_step dp (T_Tags a tags) st = set_agent_tags a tags st"
| "transport_step dp (T_Send now ck e) st = snd (send dp now ck e st)"
| "transport_step dp (T_Receive ck a) st =
     (case receive dp ck a st of None \<Rightarrow> st | Some (_, st') \<Rightarrow> st')"

abbreviation transport_run :: "transport_deps \<Rightarrow> transport_op list \<Rightarrow> TransportState \<Rightarrow> TransportState" where
  "transport_run dp ops st \<equiv> fold (transport_step dp) ops st"

text \<open>The agents an envelope is for in a state of the transport.\<close>

definition addressees :: "TransportState \<Rightarrow> Envelope \<Rightarrow> AgentId list" where
  "addressees st e =
     (case e_recipient e of
        ToAgent a \<Rightarrow> [a]
      | ToRole role \<Rightarrow> role_members st role
      | ToSwarm b \<Rightarrow> swarm_targets st (filter_tags b)
      | ToExternal _ \<Rightarrow> [])"

definition enqueue_for :: "AgentId list \<Rightarrow> Envelope \<Rightarrow> (AgentId \<rightharpoonup> Envelope list) \<Rightarrow> AgentId \<rightharpoonup> Envelope list" where
  "enqueue_for as e m = (\<lambda>a. map_option (\<lambda>q. if a \<in> set as then q @ [e] else q) (m a))"

lemma transport_record_inboxes [simp]:
  "tr_inboxes (snd (transport_record dp ck k e ev st)) = tr_inboxes st"
  "tr_roles (snd (transport_record dp ck k e ev st)) = tr_roles st"
  "tr_replay (snd (transport_record dp ck k e ev st)) = tr_replay st"
  by (simp_all add: transport_record_def case_prod_beta Let_def)

lemma try_send_Inr: "try_send e q = Inr q' \<longleftrightarrow> length q < INBOX_CAPACITY \<and> q' = q @ [e]"
  by (auto simp: try_send_def)

lemma try_send_Inl: "try_send e q = Inl err \<longleftrightarrow> INBOX_CAPACITY \<le> length q \<and> err = Backpressure"
  by (auto simp: try_send_def)

text \<open>
  A fan-out fills the inboxes of a prefix of the targets: of all of them when it succeeds.
\<close>

definition fanned_out ::
    "AgentId list \<Rightarrow> Envelope \<Rightarrow> (AgentId, Envelope list) hash_map \<Rightarrow> nat \<Rightarrow> TransportError + nat
     \<Rightarrow> (AgentId, Envelope list) hash_map \<Rightarrow> AgentId list \<Rightarrow> AgentId list \<Rightarrow> bool" where
  "fanned_out as e m n res m' bs cs =
     (as = bs @ cs \<and> hm_get m' = enqueue_for bs e (hm_get m)
      \<and> (\<forall>b\<in>set bs. \<forall>q. hm_get m b = Some q \<longrightarrow> length q < INBOX_CAPACITY)
      \<and> (case res of
           Inr k \<Rightarrow> cs = [] \<and> k = n + length (filter (\<lambda>a. hm_get m a \<noteq> None) as)
         | Inl err \<Rightarrow> err = Backpressure))"

lemma fanned_out_skip:
  assumes "fanned_out as e m n res m' bs cs" and "hm_get m a = None"
  shows "fanned_out (a # as) e m n res m' (a # bs) cs"
proof -
  have "enqueue_for (a # bs) e (hm_get m) b = enqueue_for bs e (hm_get m) b" for b
    using assms(2) by (cases "b = a") (simp_all add: enqueue_for_def)
  then have "enqueue_for (a # bs) e (hm_get m) = enqueue_for bs e (hm_get m)" ..
  with assms show ?thesis
    by (auto simp: fanned_out_def split: sum.splits)
qed

lemma fanned_out_deliver:
  assumes "fanned_out as e (hm_insert a (q @ [e]) m) (n + 1) res m' bs cs"
    and "hm_get m a = Some q" and "length q < INBOX_CAPACITY" and "a \<notin> set as"
  shows "fanned_out (a # as) e m n res m' (a # bs) cs"
proof -
  let ?m = "hm_insert a (q @ [e]) m"
  have "filter (\<lambda>b. hm_get ?m b \<noteq> None) as = filter (\<lambda>b. hm_get m b \<noteq> None) as"
    using assms(4) by (intro filter_cong) auto
  moreover have "hm_get m' = enqueue_for (a # bs) e (hm_get m)"
    using assms by (auto simp: fanned_out_def enqueue_for_def fun_eq_iff)
  moreover have "\<forall>b\<in>set (a # bs). \<forall>q. hm_get m b = Some q \<longrightarrow> length q < INBOX_CAPACITY"
    using assms by (auto simp: fanned_out_def split: if_splits)
  ultimately show ?thesis
    using assms(1,2) by (auto simp: fanned_out_def split: sum.splits)
qed

lemma fanout_to_prefix:
  "\<lbrakk>distinct as; fanout_to as e m n = (res, m')\<rbrakk> \<Longrightarrow> \<exists>bs cs. fanned_out as e m n res m' bs cs"
proof (induction as arbitrary: m n)
  case Nil
  then show ?case
    by (auto simp: fanned_out_def enqueue_for_def fun_eq_iff option.map_ident)
next
  case (Cons a as)
  show ?case
  proof (cases "hm_get m a")
    case None
    with Cons.prems have "fanout_to as e m n = (res, m')" by simp
    with Cons None show ?thesis by (meson distinct.simps(2) fanned_out_skip)
  next
    case (Some q)
    show ?thesis
    proof (cases "try_send e q")
      case (Inl err)
      with Some Cons.prems have "fanned_out (a # as) e m n res m' [] (a # as)"
        by (auto simp: fanned_out_def enqueue_for_def fun_eq_iff option.map_ident try_send_Inl)
      then show ?thesis by blast
    next
      case (Inr q')
      with Some Cons.prems have "fanout_to as e (hm_insert a (q @ [e]) m) (n + 1) = (res, m')"
        and "length q < INBOX_CAPACITY"
        by (auto simp: try_send_Inr)
      with Cons Some show ?thesis by (meson distinct.simps(2) fanned_out_deliver)
    qed
  qed
qed

section \<open>Invariants\<close>

abbreviation within_capacity :: "(AgentId, Envelope list) hash_map \<Rightarrow> bool" where
  "within_capacity m \<equiv> \<forall>a q. hm_get m a = Some q \<longrightarrow> length q \<le> INBOX_CAPACITY"

definition transport_wf :: "TransportState \<Rightarrow> bool" where
  "transport_wf st =
     (hm_wf (tr_inboxes st) \<and> within_capacity (tr_inboxes st)
      \<and> (\<forall>role ms. hm_get (tr_roles st) role = Some ms \<longrightarrow> distinct ms))"

lemma hm_wf_fanout: "hm_wf m \<Longrightarrow> hm_wf (snd (fanout_to as e m n))"
  by (induction as e m n rule: fanout_to.induct) (auto simp: hm.wf_insert split: option.splits sum.splits)

lemma within_capacity_fanout: "within_capacity m \<Longrightarrow> within_capacity (snd (fanout_to as e m n))"
proof (induction as e m n rule: fanout_to.induct)
  case (2 a as e m n)
  show ?case
  proof (cases "hm_get m a")
    case (Some q)
    show ?thesis
    proof (cases "try_send e q")
      case (Inr q')
      then have "length q' \<le> INBOX_CAPACITY" by (auto simp: try_send_Inr)
      with 2(3) have "within_capacity (hm_insert a q' m)" by simp
      with 2(2) [OF Some Inr] Some Inr show ?thesis by simp
    qed (simp add: Some 2(3))
  next
    case None
    with 2(1) [OF None] 2(3) show ?thesis by simp
  qed
qed simp

lemma addressees_distinct: "transport_wf st \<Longrightarrow> distinct (addressees st e)"
  by (auto simp: addressees_def transport_wf_def role_members_def swarm_targets_def hm_wf_def
      split: Recipient.splits option.splits)

lemma transport_wf_new: "transport_wf (transport_new ms)"
  by (simp add: transport_wf_def transport_new_def hm_wf_def)

lemma transport_wf_cong:
  "tr_inboxes st' = tr_inboxes st \<Longrightarrow> tr_roles st' = tr_roles st \<Longrightarrow> transport_wf st' = transport_wf st"
  by (simp add: transport_wf_def)

lemma transport_wf_record [simp]:
  "transport_wf (snd (transport_record dp ck k e ev st)) = transport_wf st"
  by (rule transport_wf_cong) simp_all

lemma transport_wf_put:
  "\<lbrakk>transport_wf st; length q \<le> INBOX_CAPACITY\<rbrakk>
   \<Longrightarrow> transport_wf (st\<lparr>tr_inboxes := hm_insert a q (tr_inboxes st)\<rparr>)"
  by (simp add: transport_wf_def hm.wf_insert)

lemma transport_wf_broadcast: "transport_wf st \<Longrightarrow> transport_wf (snd (broadcast dp ck as v e st))"
  using hm_wf_fanout [of "tr_inboxes st" as e 0] within_capacity_fanout [of "tr_inboxes st" as e 0]
  by (cases "fanout_to as e (tr_inboxes st) 0")
    (auto simp: broadcast_def transport_wf_def Let_def split: sum.splits)

lemma transport_wf_unicast: "transport_wf st \<Longrightarrow> transport_wf (snd (unicast dp ck a e st))"
  by (auto simp: unicast_def try_send_Inr intro!: transport_wf_put split: option.splits sum.splits)

lemma transport_wf_replay [simp]: "transport_wf (st\<lparr>tr_replay := rp\<rparr>) = transport_wf st"
  by (rule transport_wf_cong) simp_all

lemma transport_wf_send: "transport_wf st \<Longrightarrow> transport_wf (snd (send dp now ck e st))"
  by (simp add: send_def case_prod_beta Let_def transport_wf_broadcast transport_wf_unicast
      split: sum.splits Recipient.splits)

lemma transport_wf_step: "transport_wf st \<Longrightarrow> transport_wf (transport_step dp op st)"
proof (cases op)
  case (T_Register a)
  then show "transport_wf st \<Longrightarrow> ?thesis"
    by (simp add: register_recipient_def transport_wf_put)
next
  case (T_Role role a)
  then show "transport_wf st \<Longrightarrow> ?thesis"
    by (auto simp: register_role_member_def transport_wf_def Let_def split: option.splits)
next
  case (T_Tags a tags)
  then show "transport_wf st \<Longrightarrow> ?thesis"
    by (auto simp: set_agent_tags_def transport_wf_def)
next
  case (T_Receive ck a)
  have "length q \<le> INBOX_CAPACITY" if "transport_wf st" "hm_get (tr_inboxes st) a = Some (e # q)" for e q
    using that by (fastforce simp: transport_wf_def)
  with T_Receive show "transport_wf st \<Longrightarrow> ?thesis"
    by (auto simp: receive_def Let_def case_prod_beta transport_wf_put split: option.splits list.splits)
qed (simp add: transport_wf_send)

lemma transport_wf_run: "transport_wf st \<Longrightarrow> transport_wf (transport_run dp ops st)"
  by (induction ops arbitrary: st) (simp_all add: transport_wf_step)

section \<open>What a send enqueues\<close>

definition delivers_to ::
    "AgentId list \<Rightarrow> Envelope \<Rightarrow> TransportState \<Rightarrow> (TransportError + Hash) \<times> TransportState \<Rightarrow> bool" where
  "delivers_to as e st out =
     (\<exists>bs cs. as = bs @ cs \<and> (is_ok (fst out) \<longrightarrow> cs = [])
        \<and> hm_get (tr_inboxes (snd out)) = enqueue_for bs e (hm_get (tr_inboxes st)))"

lemma enqueue_for_Nil [simp]: "enqueue_for [] e m = m"
  by (simp add: enqueue_for_def option.map_ident fun_eq_iff)

lemma delivers_nothing: "tr_inboxes st' = tr_inboxes st \<Longrightarrow> delivers_to as e st (Inl err, st')"
  by (auto simp: delivers_to_def intro: exI [of _ "[]"])

lemma delivers_to_unicast: "delivers_to [a] e st (unicast dp ck a e st)"
proof (cases "hm_get (tr_inboxes st) a")
  case None
  then show ?thesis by (simp add: unicast_def delivers_nothing)
next
  case (Some q)
  show ?thesis
  proof (cases "try_send e q")
    case (Inl err)
    then show ?thesis by (simp add: unicast_def Some delivers_nothing)
  next
    case (Inr q')
    then have "(hm_get (tr_inboxes st))(a \<mapsto> q') = enqueue_for [a] e (hm_get (tr_inboxes st))"
      using Some by (auto simp: enqueue_for_def fun_eq_iff try_send_Inr option.map_ident)
    with Some Inr show ?thesis
      by (auto simp: delivers_to_def unicast_def)
  qed
qed

lemma delivers_to_broadcast:
  assumes "distinct as"
  shows "delivers_to as e st (broadcast dp ck as v e st)"
proof -
  obtain res m where f: "fanout_to as e (tr_inboxes st) 0 = (res, m)" by fastforce
  from fanout_to_prefix [OF assms f] obtain bs cs
    where "fanned_out as e (tr_inboxes st) 0 res m bs cs" by blast
  then have "as = bs @ cs" "hm_get m = enqueue_for bs e (hm_get (tr_inboxes st))" "is_ok res \<longrightarrow> cs = []"
    by (auto simp: fanned_out_def split: sum.splits)
  then show ?thesis
    unfolding delivers_to_def broadcast_def f
    by - (rule exI [of _ bs], rule exI [of _ cs], auto simp: Let_def split: sum.splits)
qed

lemma addressees_replay [simp]: "addressees (st\<lparr>tr_replay := rp\<rparr>) e = addressees st e"
  by (simp add: addressees_def role_members_def swarm_targets_def split: Recipient.split)

lemma delivers_to_replay [simp]: "delivers_to as e (st\<lparr>tr_replay := rp\<rparr>) = delivers_to as e st"
  by (simp add: delivers_to_def fun_eq_iff)

lemma send_delivers:
  assumes "transport_wf st"
  shows "delivers_to (addressees st e) e st (send dp now ck e st)"
proof -
  obtain res rp where adm: "admit (ecx_ext (trd_envelope_ctx dp)) e now (tr_replay st) = (res, rp)"
    by fastforce
  let ?st = "st\<lparr>tr_replay := rp\<rparr>"
  have "delivers_to (addressees ?st e) e ?st (broadcast dp ck (addressees ?st e) v e ?st)" for v
    using addressees_distinct [OF assms, of e] by (intro delivers_to_broadcast) simp
  then have "delivers_to (addressees ?st e) e ?st (send dp now ck e st)"
    using delivers_to_unicast [of _ e ?st dp ck]
    by (cases "e_recipient e")
      (auto simp: send_def adm Let_def addressees_def delivers_nothing split: sum.splits)
  then show ?thesis by simp
qed

section \<open>First in, first out\<close>

definition inbox_of :: "TransportState \<Rightarrow> AgentId \<Rightarrow> Envelope list" where
  "inbox_of st a = (case hm_get (tr_inboxes st) a of None \<Rightarrow> [] | Some q \<Rightarrow> q)"

text \<open>The envelopes an agent receives along a run, and those sent that may be for it.\<close>

fun taken_in :: "transport_deps \<Rightarrow> AgentId \<Rightarrow> transport_op \<Rightarrow> TransportState \<Rightarrow> Envelope list" where
  "taken_in dp a (T_Receive ck b) st =
     (if a = b then (case receive dp ck a st of Some (Inr e, _) \<Rightarrow> [e] | _ \<Rightarrow> []) else [])"
| "taken_in dp a _ st = []"

fun received :: "transport_deps \<Rightarrow> AgentId \<Rightarrow> transport_op list \<Rightarrow> TransportState \<Rightarrow> Envelope list" where
  "received dp a [] st = []"
| "received dp a (op # ops) st = taken_in dp a op st @ received dp a ops (transport_step dp op st)"

definition may_be_for :: "AgentId \<Rightarrow> Envelope \<Rightarrow> bool" where
  "may_be_for a e =
     (case e_recipient e of ToAgent b \<Rightarrow> b = a | ToExternal _ \<Rightarrow> False | _ \<Rightarrow> True)"

fun sent_in :: "AgentId \<Rightarrow> transport_op \<Rightarrow> Envelope list" where
  "sent_in a (T_Send now ck e) = (if may_be_for a e then [e] else [])"
| "sent_in a _ = []"

lemma may_be_for_addressee: "a \<in> set (addressees st e) \<Longrightarrow> may_be_for a e"
  by (auto simp: addressees_def may_be_for_def split: Recipient.splits)

lemma inbox_after_send:
  assumes "transport_wf st"
  shows "subseq (inbox_of (snd (send dp now ck e st)) a)
    (inbox_of st a @ (if may_be_for a e then [e] else []))"
proof -
  from send_delivers [OF assms, of e dp now ck] obtain bs cs where
    bs: "addressees st e = bs @ cs"
      "hm_get (tr_inboxes (snd (send dp now ck e st))) = enqueue_for bs e (hm_get (tr_inboxes st))"
    unfolding delivers_to_def by blast
  have "may_be_for a e" if "a \<in> set bs"
    using may_be_for_addressee [of a st e] that by (simp add: bs)
  with bs(2) show ?thesis
    by (auto simp: inbox_of_def enqueue_for_def split: option.splits)
qed

lemma step_fifo:
  assumes "transport_wf st"
  shows "subseq (taken_in dp a op st @ inbox_of (transport_step dp op st) a) (inbox_of st a @ sent_in a op)"
proof (cases op)
  case (T_Receive ck b)
  have "subseq (taken_in dp a op st @ inbox_of (transport_step dp op st) a) (inbox_of st a)"
    by (auto simp: T_Receive inbox_of_def receive_def Let_def case_prod_beta rbind_eq_Inr
        split: option.splits list.splits sum.splits)
  then show ?thesis by (simp add: T_Receive)
next
  case (T_Send now ck e)
  then show ?thesis using inbox_after_send [OF assms] by simp
qed (auto simp: inbox_of_def register_recipient_def register_role_member_def set_agent_tags_def Let_def)

lemma run_fifo:
  "transport_wf st \<Longrightarrow>
   subseq (received dp a ops st @ inbox_of (transport_run dp ops st) a)
     (inbox_of st a @ concat (map (sent_in a) ops))"
proof (induction ops arbitrary: st)
  case (Cons op ops)
  let ?st = "transport_step dp op st"
  have "subseq (taken_in dp a op st @ received dp a ops ?st @ inbox_of (transport_run dp ops ?st) a)
      (taken_in dp a op st @ inbox_of ?st a @ concat (map (sent_in a) ops))"
    using Cons.IH [OF transport_wf_step [OF Cons.prems, of dp op]]
    by (simp only: subseq_append' append_assoc)
  also have "subseq \<dots> (inbox_of st a @ sent_in a op @ concat (map (sent_in a) ops))"
    using step_fifo [OF Cons.prems, of dp a op] by (simp flip: append_assoc)
  finally show ?case by simp
qed simp

section \<open>Admissions along a run\<close>

fun admissions :: "transport_op \<Rightarrow> (Envelope \<times> Timestamp) list" where
  "admissions (T_Send now ck e) = [(e, now)]"
| "admissions _ = []"

abbreviation deps_ext :: "transport_deps \<Rightarrow> externals" where
  "deps_ext dp \<equiv> ecx_ext (trd_envelope_ctx dp)"

lemma run_calls_append:
  "snd (run_calls f (as @ bs) s) = snd (run_calls f bs (snd (run_calls f as s)))"
  by (induction as arbitrary: s) (simp_all add: case_prod_beta Let_def)

lemma broadcast_replay [simp]: "tr_replay (snd (broadcast dp ck as v e st)) = tr_replay st"
  by (simp add: broadcast_def case_prod_beta Let_def split: sum.split)

lemma unicast_replay [simp]: "tr_replay (snd (unicast dp ck a e st)) = tr_replay st"
  by (simp add: unicast_def split: sum.split option.split)

lemma send_replay: "tr_replay (snd (send dp now ck e st)) = snd (admit (deps_ext dp) e now (tr_replay st))"
  by (simp add: send_def case_prod_beta Let_def split: sum.split Recipient.split)

lemma step_replay:
  "tr_replay (transport_step dp op st) =
     snd (run_calls (\<lambda>(e, now). admit (deps_ext dp) e now) (admissions op) (tr_replay st))"
  by (cases op)
    (auto simp: register_recipient_def register_role_member_def set_agent_tags_def receive_def
      Let_def case_prod_beta send_replay split: option.splits list.splits)

lemma run_replay:
  "tr_replay (transport_run dp ops st) =
     snd (run_calls (\<lambda>(e, now). admit (deps_ext dp) e now) (concat (map admissions ops)) (tr_replay st))"
  by (induction ops arbitrary: st) (simp_all add: run_calls_append step_replay)

lemma spec_history_grows:
  "\<exists>ys. snd (run_calls (\<lambda>(e, now). spec_admit x w k e now) cs hist) = hist @ ys
     \<and> length (accepted_from ys a) \<le> length (filter (\<lambda>(e, now). e_from_agent e = a) cs)"
proof (induction cs arbitrary: hist)
  case Nil
  then show ?case by (simp add: accepted_from_def)
next
  case (Cons c cs)
  obtain e now where c: "c = (e, now)" by (cases c)
  have "snd (spec_admit x w k e now hist) = hist \<or> snd (spec_admit x w k e now hist) = hist @ [e]"
    by (simp add: spec_admit_def Let_def)
  then show ?case
    using Cons.IH [of hist] Cons.IH [of "hist @ [e]"]
    by (auto simp: c case_prod_beta Let_def accepted_from_def le_SucI)
qed

lemma last_n_member: "length ys < n \<Longrightarrow> x \<in> set (last_n n (xs @ [x] @ ys))"
  by (simp add: last_n_def Suc_le_eq)

lemma no_second_admission:
  assumes "replay_rel w k rp hist"
    and "fst (admit x e now rp) = Inr ()"
    and "length (filter (\<lambda>(e', now). e_from_agent e' = e_from_agent e) cs) < w"
  shows "\<exists>why. fst (admit x e now' (snd (run_calls (\<lambda>(e, now). admit x e now) cs (snd (admit x e now rp)))))
      = Inl (EnvelopeRejected why)"
proof -
  let ?run = "run_calls (\<lambda>(e, now). spec_admit x w k e now) cs (hist @ [e])"
  have acc: "snd (spec_admit x w k e now hist) = hist @ [e]"
    using replay.answer [OF assms(1), where c = "(e, now)"] assms(2)
    by (auto simp: spec_admit_def Let_def split: if_splits)
  have rel: "replay_rel w k (snd (run_calls (\<lambda>(e, now). admit x e now) cs (snd (admit x e now rp)))) (snd ?run)"
    using replay.run_states [OF replay.state [OF assms(1), where c = "(e, now)" and x = x], of x cs]
    by (simp add: acc)
  from spec_history_grows [of x w k cs "hist @ [e]" "e_from_agent e"] obtain ys where
    ys: "snd ?run = (hist @ [e]) @ ys" "length (accepted_from ys (e_from_agent e)) < w"
    using assms(3) by fastforce
  have "accepted_from (snd ?run) (e_from_agent e) =
      accepted_from hist (e_from_agent e) @ [e] @ accepted_from ys (e_from_agent e)"
    by (simp add: ys(1) accepted_from_def)
  then have "e \<in> set (last_n w (accepted_from (snd ?run) (e_from_agent e)))"
    using last_n_member [OF ys(2)] by simp
  then have "\<exists>why. fst (spec_admit x w k e now' (snd ?run)) = Inl (EnvelopeRejected why)"
    by (simp add: spec_admit_def Let_def)
  with replay.answer [OF rel, where c = "(e, now')"] show ?thesis by simp
qed

lemma replay_rel_run:
  "replay_rel 1024 256 (tr_replay (transport_run dp ops (transport_new ms)))
     (snd (run_calls (\<lambda>(e, now). spec_admit (deps_ext dp) 1024 256 e now) (concat (map admissions ops)) []))"
  using replay.run_states [OF replay_rel_new] by (simp add: run_replay transport_new_def replay_new_def)

lemma send_admitted:
  assumes "\<forall>why. fst (send dp now ck e st) \<noteq> Inl (EnvelopeRejected why)"
  shows "fst (admit (deps_ext dp) e now (tr_replay st)) = Inr ()"
  using assms by (auto simp: send_def admit_def Let_def split: if_splits)

lemma send_rejected:
  assumes "fst (admit (deps_ext dp) e now (tr_replay st)) = Inl err"
  shows "fst (send dp now ck e st) = Inl err" "tr_inboxes (snd (send dp now ck e st)) = tr_inboxes st"
  using assms by (auto simp: send_def case_prod_beta Let_def)

lemma transport_record_Inr:
  assumes "transport_record dp ck k e ev st = (Inr h, st')"
  obtains r where "h = content_address (ob_receipt_ctx (trd_observer dp)) r"
    "get_receipt (tr_receipts st') h \<noteq> None" "r_action_kind r = k"
    "r_actor r = cp_agent_id (ob_control_plane (trd_observer dp))"
    "r_evidence r = envelope_evidence dp e @ ev"
proof -
  let ?o = "observe (trd_observer dp) ck k (e_swarm_id e) [] (envelope_evidence dp e @ ev) (tr_receipts st)"
  from assms have o: "?o = (Inr h, tr_receipts st')"
    by (auto simp: transport_record_def case_prod_beta Let_def prod_eq_iff)
  from observe_Inr [OF o] obtain r where
    r: "observation (trd_observer dp) ck k (e_swarm_id e) [] (envelope_evidence dp e @ ev) = Inr r"
      "h = content_address (ob_receipt_ctx (trd_observer dp)) r" "get_receipt (tr_receipts st') h \<noteq> None" .
  show ?thesis
    by (rule that [OF r(2,3)]) (simp_all add: observation_fields [OF r(1)])
qed

end
