(* ===== verification/Transport_Properties.thy ===== *)
theory Transport_Properties
  imports Transport_Runs Samples
begin

text \<open>
  The properties of the transport: replay protection implements the sliding-window specification,
  a successful send reaches exactly the addressees and is logged, inboxes are bounded first-in
  first-out queues, and a send that failed after admission cannot be repeated.
\<close>

section \<open>A sample transport\<close>

definition demo_observer :: observer where
  "demo_observer =
     \<lparr>ob_receipt_ctx = demo_ctx, ob_resolver = demo_resolver,
      ob_control_plane = \<lparr>cp_agent_id = AgentId 9, cp_sign = (\<lambda>m. Inr (demo_signature m)),
                          cp_public_key = demo_public_key\<rparr>\<rparr>"

definition demo_clock :: observe_clock where
  "demo_clock = \<lparr>oc_occurred = demo_time 5, oc_signed = demo_time 6\<rparr>"

definition demo_transport :: transport_deps where
  "demo_transport =
     \<lparr>trd_observer = demo_observer,
      trd_envelope_ctx = \<lparr>ecx_ext = demo_ext, ecx_encode = (\<lambda>p. pe_envelope_id p)\<rparr>\<rparr>"

definition demo_envelope :: "Recipient \<Rightarrow> bytes \<Rightarrow> Envelope" where
  "demo_envelope to nonce =
     \<lparr>e_spec_version = SpecVersion ''1.0.0'', e_swarm_id = SwarmId 1, e_envelope_id = [1],
      e_from_agent = AgentId 1, e_recipient = to, e_performative = Inform, e_payload = [],
      e_payload_schema_id = [], e_tags = [], e_causal = causal_empty, e_nonce = nonce, e_epoch = 1,
      e_sent_at = demo_time 1, e_expires_at = None, e_in_reply_to = None, e_agent_signature = None\<rparr>"

lemma demo_observer_simps [simp]:
  "ob_receipt_ctx demo_observer = demo_ctx" "ob_resolver demo_observer = demo_resolver"
  by (simp_all add: demo_observer_def)

lemma demo_observation:
  "\<exists>r out ms'. observation demo_observer ck k s v ev = Inr r
     \<and> append_receipt demo_ctx demo_resolver r ms = (Inr out, ms')"
proof -
  have v: "spec_version_parse ''1.0.0'' = Inr (SpecVersion ''1.0.0'')"
    by (simp add: spec_version_parse_def numeric_prefix_def parse_u32_def digits_value_def is_digit_def)
  define u :: Receipt where "u =
    \<lparr>r_spec_version = SpecVersion ''1.0.0'', r_swarm_id = s, r_actor = AgentId 9, r_action_kind = k,
     r_causal = causal_empty, r_evidence = ev, r_constitution_version = v, r_cost = None,
     r_occurred_at = oc_occurred ck, r_seal = unsealed, r_signatures = []\<rparr>"
  have u: "observation demo_observer ck k s v ev =
      Inr (u\<lparr>r_signatures := [\<lparr>sb_role = Actor, sb_signature = demo_signature (canonical_bytes demo_ctx u),
                               sb_signed_at = oc_signed ck\<rparr>]\<rparr>)"
    by (simp add: observation_def v demo_observer_def receipt_build_def receipt_builder_new_def u_def)
  have "resolve_actor demo_resolver (r_actor u) = Inr (Some demo_public_key)"
    by (simp add: demo_resolver_def)
  from demo_append_signed [OF this, of "oc_signed ck" ms] show ?thesis
    by (auto simp: u)
qed

lemma demo_observe_ok: "\<exists>h ms'. observe demo_observer ck k s v ev ms = (Inr h, ms')"
  using demo_observation [of ck k s v ev ms] by (auto simp: observe_def)

section \<open>Replay protection\<close>

text \<open>
  (C5) Replay protection answers every sequence of admissions exactly as the specification on the
  history of accepted envelopes: an envelope is refused when it has expired, when its epoch plus the
  allowed skew (with the wrap-around of 64-bit addition) is below the newest accepted epoch of its
  sender, or when its nonce is among the last \<open>w\<close> nonces accepted from its sender; otherwise it is
  accepted.
\<close>

theorem replay_refines_history:
  "fst (run_calls (\<lambda>(e, now). admit x e now) calls (replay_with_params w k)) =
   fst (run_calls (\<lambda>(e, now). spec_admit x w k e now) calls [])"
  by (rule replay.run_answers [OF replay_rel_new])

text \<open>
  Once an envelope has passed replay protection, whether its delivery then succeeded or failed,
  the same envelope is rejected, and no inbox changes, as long as fewer than 1024 further envelopes
  of the same sender were submitted. In particular a send that failed because the recipient was not
  registered or its inbox was full cannot be repeated.
\<close>

theorem no_replay_within_window:
  assumes "st = transport_run dp ops (transport_new ms)"
    and "\<forall>why. fst (send dp now ck e st) \<noteq> Inl (EnvelopeRejected why)"
    and "st' = transport_run dp ops' (snd (send dp now ck e st))"
    and "length (filter (\<lambda>(e', now). e_from_agent e' = e_from_agent e) (concat (map admissions ops'))) < 1024"
  shows "(\<exists>why. fst (send dp now' ck' e st') = Inl (EnvelopeRejected why))
    \<and> tr_inboxes (snd (send dp now' ck' e st')) = tr_inboxes st'"
proof -
  have rel: "replay_rel 1024 256 (tr_replay st)
      (snd (run_calls (\<lambda>(e, now). spec_admit (deps_ext dp) 1024 256 e now) (concat (map admissions ops)) []))"
    unfolding assms(1) by (rule replay_rel_run)
  have "tr_replay st' = snd (run_calls (\<lambda>(e, now). admit (deps_ext dp) e now) (concat (map admissions ops'))
      (snd (admit (deps_ext dp) e now (tr_replay st))))"
    by (simp add: assms(3) run_replay send_replay)
  with no_second_admission [OF rel send_admitted [OF assms(2)] assms(4)]
  obtain why where "fst (admit (deps_ext dp) e now' (tr_replay st')) = Inl (EnvelopeRejected why)"
    by metis
  from send_rejected [OF this] show ?thesis by simp
qed

lemma demo_unregistered_send:
  "send demo_transport (demo_time 1) demo_clock (demo_envelope (ToAgent (AgentId 2)) [7]) (transport_new memory_store_new)
   = (Inl (Delivery ''recipient not registered''),
      (transport_new memory_store_new)\<lparr>tr_replay := snd (admit demo_ext (demo_envelope (ToAgent (AgentId 2)) [7])
         (demo_time 1) replay_new)\<rparr>)"
  by (simp add: send_def admit_def demo_envelope_def envelope_is_expired_at_def transport_new_def Let_def
      demo_transport_def replay_new_def replay_with_params_def sender_state_def sender_state_default_def
      unicast_def)

theorem no_replay_within_window_witness:
  "\<exists>why. fst (send demo_transport (demo_time 3) demo_clock (demo_envelope (ToAgent (AgentId 2)) [7])
     (transport_step demo_transport (T_Register (AgentId 2))
       (snd (send demo_transport (demo_time 1) demo_clock (demo_envelope (ToAgent (AgentId 2)) [7])
         (transport_new memory_store_new))))) = Inl (EnvelopeRejected why)"
  using no_replay_within_window [of "transport_new memory_store_new" demo_transport "[]" memory_store_new
      "demo_time 1" demo_clock "demo_envelope (ToAgent (AgentId 2)) [7]"
      "transport_step demo_transport (T_Register (AgentId 2))
       (snd (send demo_transport (demo_time 1) demo_clock (demo_envelope (ToAgent (AgentId 2)) [7])
         (transport_new memory_store_new)))" "[T_Register (AgentId 2)]" "demo_time 3" demo_clock]
  by (simp add: demo_unregistered_send)

section \<open>Delivery\<close>

definition send_evidence :: "TransportState \<Rightarrow> Envelope \<Rightarrow> Evidence list" where
  "send_evidence st e =
     (let reached = length (filter (\<lambda>a. hm_get (tr_inboxes st) a \<noteq> None) (addressees st e)) in
      case e_recipient e of
        ToAgent a \<Rightarrow> [evidence_new ''to_agent'' ''type.yutha.dev/v1/AgentId'' (agent_as_bytes a),
                      evidence_new ''recipient_kind'' ''type.yutha.dev/v1/String'' (as_bytes ''agent'')]
      | ToRole role \<Rightarrow> broadcast_evidence ''role'' role reached
      | ToSwarm b \<Rightarrow> broadcast_evidence ''swarm''
          (if filter_tags b = [] then ''*'' else join_comma (filter_tags b)) reached
      | ToExternal _ \<Rightarrow> [])"

lemma broadcast_record:
  assumes "distinct as" and "broadcast dp ck as v e st = (Inr h, st')"
  shows "transport_record dp ck ''envelope.send'' e
    (broadcast_evidence (recipient_kind (e_recipient e)) v
      (length (filter (\<lambda>a. hm_get (tr_inboxes st) a \<noteq> None) as)))
    (st\<lparr>tr_inboxes := tr_inboxes st'\<rparr>) = (Inr h, st')"
proof -
  obtain res m where f: "fanout_to as e (tr_inboxes st) 0 = (res, m)" by fastforce
  from fanout_to_prefix [OF assms(1) f] obtain bs cs
    where fo: "fanned_out as e (tr_inboxes st) 0 res m bs cs" by blast
  from assms(2) obtain n where n: "res = Inr n"
    "transport_record dp ck ''envelope.send'' e (broadcast_evidence (recipient_kind (e_recipient e)) v n)
       (st\<lparr>tr_inboxes := m\<rparr>) = (Inr h, st')"
    by (auto simp: broadcast_def f Let_def split: sum.splits)
  moreover have "tr_inboxes st' = m"
    using transport_record_inboxes(1) [of dp ck "''envelope.send''" e
        "broadcast_evidence (recipient_kind (e_recipient e)) v n" "st\<lparr>tr_inboxes := m\<rparr>"] n(2)
    by simp
  ultimately show ?thesis
    using fo by (simp add: fanned_out_def)
qed

lemma send_record:
  assumes "transport_wf st" and "send dp now ck e st = (Inr h, st')"
  shows "\<exists>st0. transport_record dp ck ''envelope.send'' e (send_evidence st e) st0 = (Inr h, st')"
proof -
  obtain res rp where adm: "admit (deps_ext dp) e now (tr_replay st) = (res, rp)" by fastforce
  let ?st = "st\<lparr>tr_replay := rp\<rparr>"
  have same: "addressees ?st e = addressees st e" by simp
  have d: "distinct (addressees ?st e)" using addressees_distinct [OF assms(1)] by simp
  note bc = broadcast_record [where st = ?st and as = "addressees ?st e", OF d]
  show ?thesis
  proof (cases "e_recipient e")
    case (ToAgent a)
    with assms(2) show ?thesis
      by (auto simp: send_def adm Let_def unicast_def send_evidence_def recipient_kind_def
          split: sum.splits option.splits)
  next
    case (ToRole role)
    then have "broadcast dp ck (addressees ?st e) role e ?st = (Inr h, st')"
      using assms(2) by (auto simp: send_def adm Let_def addressees_def split: sum.splits)
    from bc [OF this] show ?thesis
      by (auto simp: ToRole send_evidence_def recipient_kind_def)
  next
    case (ToSwarm b)
    then have "broadcast dp ck (addressees ?st e)
        (if filter_tags b = [] then ''*'' else join_comma (filter_tags b)) e ?st = (Inr h, st')"
      using assms(2) by (auto simp: send_def adm Let_def addressees_def split: sum.splits)
    from bc [OF this] show ?thesis
      by (auto simp: ToSwarm send_evidence_def recipient_kind_def)
  next
    case (ToExternal ep)
    with assms(2) show ?thesis by (simp add: send_def adm Let_def split: sum.splits)
  qed
qed

text \<open>
  (C15) A send that succeeds in a reachable state appends the envelope to the inboxes of exactly the
  addressees that have one (the agent, the members of the role, or the agents carrying every
  requested tag) and to no other; a single addressee has one; the answer is the address of a logged
  \<open>envelope.send\<close> receipt of the control plane whose evidence names the envelope, its hash, its
  sender and the recipient, with the number of inboxes reached for a broadcast.
\<close>

theorem send_reaches_addressees:
  assumes "st = transport_run dp ops (transport_new ms)"
    and "send dp now ck e st = (Inr h, st')"
  shows "(\<forall>a. hm_get (tr_inboxes st') a =
            map_option (\<lambda>q. if a \<in> set (addressees st e) then q @ [e] else q) (hm_get (tr_inboxes st) a))
    \<and> (\<forall>a. e_recipient e = ToAgent a \<longrightarrow> hm_get (tr_inboxes st) a \<noteq> None)
    \<and> get_receipt (tr_receipts st') h \<noteq> None
    \<and> (\<exists>r. h = content_address (ob_receipt_ctx (trd_observer dp)) r \<and> r_action_kind r = ''envelope.send''
         \<and> r_actor r = cp_agent_id (ob_control_plane (trd_observer dp))
         \<and> r_evidence r = envelope_evidence dp e @ send_evidence st e)"
proof -
  have wf: "transport_wf st"
    unfolding assms(1) by (rule transport_wf_run [OF transport_wf_new])
  have "hm_get (tr_inboxes st') = enqueue_for (addressees st e) e (hm_get (tr_inboxes st))"
    using send_delivers [OF wf, of e dp now ck] assms(2) by (auto simp: delivers_to_def)
  moreover have "hm_get (tr_inboxes st) a \<noteq> None" if "e_recipient e = ToAgent a" for a
    using assms(2) that
    by (auto simp: send_def unicast_def Let_def case_prod_beta split: sum.splits option.splits)
  moreover obtain st0 where "transport_record dp ck ''envelope.send'' e (send_evidence st e) st0 = (Inr h, st')"
    using send_record [OF wf assms(2)] by blast
  ultimately show ?thesis
    by (auto simp: enqueue_for_def elim!: transport_record_Inr)
qed

definition demo_inboxes :: TransportState where
  "demo_inboxes = transport_run demo_transport
     [T_Register (AgentId 2), T_Register (AgentId 3), T_Tags (AgentId 3) [''blue'']]
     (transport_new memory_store_new)"

lemma demo_send_ok:
  "\<exists>h st'. send demo_transport (demo_time 1) demo_clock (demo_envelope (ToSwarm \<lparr>filter_tags = [''blue'']\<rparr>) [7])
     demo_inboxes = (Inr h, st')"
  using demo_observe_ok [of demo_clock "''envelope.send''" "SwarmId 1" "[]" _ memory_store_new]
  by (simp add: send_def admit_def demo_inboxes_def demo_envelope_def envelope_is_expired_at_def
      transport_new_def Let_def demo_transport_def replay_new_def replay_with_params_def sender_state_def
      sender_state_default_def broadcast_def register_recipient_def set_agent_tags_def swarm_targets_def
      try_send_def INBOX_CAPACITY_def transport_record_def case_prod_beta)
    (metis fst_conv snd_conv map_err.simps(2))

theorem send_reaches_addressees_witness:
  "\<exists>h st'. send demo_transport (demo_time 1) demo_clock (demo_envelope (ToSwarm \<lparr>filter_tags = [''blue'']\<rparr>) [7])
       demo_inboxes = (Inr h, st')
     \<and> hm_get (tr_inboxes st') (AgentId 3) = Some [demo_envelope (ToSwarm \<lparr>filter_tags = [''blue'']\<rparr>) [7]]
     \<and> hm_get (tr_inboxes st') (AgentId 2) = Some []
     \<and> get_receipt (tr_receipts st') h \<noteq> None"
proof -
  let ?e = "demo_envelope (ToSwarm \<lparr>filter_tags = [''blue'']\<rparr>) [7]"
  obtain h st' where s: "send demo_transport (demo_time 1) demo_clock ?e demo_inboxes = (Inr h, st')"
    using demo_send_ok by blast
  have "addressees demo_inboxes ?e = [AgentId 3]"
    by (simp add: addressees_def demo_envelope_def swarm_targets_def demo_inboxes_def transport_new_def
        register_recipient_def set_agent_tags_def)
  moreover have "hm_get (tr_inboxes demo_inboxes) (AgentId 2) = Some []"
    "hm_get (tr_inboxes demo_inboxes) (AgentId 3) = Some []"
    by (simp_all add: demo_inboxes_def transport_new_def register_recipient_def set_agent_tags_def)
  ultimately show ?thesis
    using s send_reaches_addressees [OF demo_inboxes_def s] by simp
qed

text \<open>
  (C17) Along every run from an empty transport (registrations, sends and receives in any order),
  every inbox holds at most 64 envelopes, and the envelopes an agent has received followed by
  those waiting in its inbox are, in this order, among the envelopes sent that may be for this agent:
  nothing is invented, duplicated or reordered, and no unicast reaches another agent.
\<close>

theorem inboxes_bounded_fifo:
  "length (inbox_of (transport_run dp ops (transport_new ms)) a) \<le> 64
   \<and> subseq (received dp a ops (transport_new ms) @ inbox_of (transport_run dp ops (transport_new ms)) a)
       (concat (map (sent_in a) ops))"
proof
  show "length (inbox_of (transport_run dp ops (transport_new ms)) a) \<le> 64"
    using transport_wf_run [OF transport_wf_new, of dp ops ms]
    by (auto simp: transport_wf_def inbox_of_def INBOX_CAPACITY_def split: option.splits)
  show "subseq (received dp a ops (transport_new ms) @ inbox_of (transport_run dp ops (transport_new ms)) a)
      (concat (map (sent_in a) ops))"
    using run_fifo [OF transport_wf_new, of dp a ops ms]
    by (simp add: inbox_of_def transport_new_def)
qed

end
