(* ===== verification/Loop_Properties.thy ===== *)
theory Loop_Properties
  imports Enforcement_Loop Enforcement_Properties Transport_Properties Authority_Properties
begin

text \<open>
  The enforcement loop and the capability layer: draining the receipt channel ends with an empty
  channel, and a quarantine recorded by the engine denies every use of the agent's capabilities,
  until a reversal or an eviction is recorded.
\<close>

lemma forward_engine:
  "ls_engine (forward dp v st) =
     (if starts_with ''constitution.evaluate.shadow.'' (rv_action_kind v) then ls_engine st
      else snd (on_receipt (ld_clock_add dp) v (ls_engine st)))"
  by (simp add: forward_def case_prod_beta Let_def)

lemma quarantined_forward:
  "is_agent_quarantined (ls_engine (forward dp v st)) a =
     (if settles_quarantine a v then rv_action_kind v = ''enforcement.quarantine''
      else is_agent_quarantined (ls_engine st) a)"
  by (auto simp: forward_engine quarantined_on_receipt settles_quarantine_def starts_with_def)

definition settled_by :: "string \<Rightarrow> ReceiptView list \<Rightarrow> bool \<Rightarrow> bool" where
  "settled_by a vs before =
     (let rs = filter (settles_quarantine a) vs
      in if rs = [] then before else rv_action_kind (last rs) = ''enforcement.quarantine'')"

lemma drain_quarantine:
  "is_agent_quarantined (ls_engine (drain dp st)) a =
     settled_by a (ls_channel st) (is_agent_quarantined (ls_engine st) a)"
proof (induction dp st rule: drain.induct)
  case (1 dp st)
  show ?case
  proof (cases "ls_channel st")
    case Nil
    then show ?thesis by (subst drain.simps) (simp add: settled_by_def)
  next
    case (Cons v vs)
    let ?st = "forward dp v (st\<lparr>ls_channel := vs\<rparr>)"
    obtain ws where ws: "ls_channel ?st = ls_channel (st\<lparr>ls_channel := vs\<rparr>) @ ws"
      "list_all (\<lambda>w. rv_action_kind w = ''enforcement.detect'') ws"
      by (rule forward_spec)
    then have "filter (settles_quarantine a) (ls_channel ?st) = filter (settles_quarantine a) vs"
      by (auto simp: list_all_iff settles_quarantine_def filter_empty_conv)
    moreover have "drain dp st = drain dp ?st"
      by (subst drain.simps) (simp add: Cons)
    ultimately show ?thesis
      using 1 [OF Cons] Cons by (simp add: settled_by_def quarantined_forward Let_def)
  qed
qed

lemma recorded_effect_settles:
  assumes "emit_enforcement_receipt dp eff swarm h ver st = (Inr rid, st')"
    and "ef_action_kind eff \<in> {''enforcement.quarantine'', ''enforcement.reverse'', ''enforcement.evict''}"
    and "utf8_valid (as_bytes (ef_target_agent_id eff))"
    and "length (ls_channel st) < PUBLISH_CHANNEL_CAPACITY"
  shows "is_agent_quarantined (ls_engine (drain dp st')) (ef_target_agent_id eff) =
    (ef_action_kind eff = ''enforcement.quarantine'')"
proof -
  obtain vs where vs: "ls_channel st' = ls_channel st @ vs" "list_all (view_about eff) vs"
    "length vs \<le> 1" "vs \<noteq> []"
    using emit_receipt_channel [of dp eff swarm h ver st] assms(1,4) by auto
  then obtain v where v: "vs = [v]" by (cases vs) auto
  with vs(2) assms(2,3) have "settles_quarantine (ef_target_agent_id eff) v"
    "rv_action_kind v = ef_action_kind eff"
    by (auto simp: view_about_def settles_quarantine_def)
  then show ?thesis
    by (simp add: drain_quarantine settled_by_def vs(1) v)
qed

text \<open>Of the quarantined agents only the subject of the capability at hand matters.\<close>

lemma record_event_free [simp]: "record_event (cdp\<lparr>cd_quarantined := q\<rparr>) = record_event cdp"
proof -
  have "event_receipt (cdp\<lparr>cd_quarantined := q\<rparr>) = event_receipt cdp"
    by (rule ext)+ (simp add: event_receipt_def)
  then show ?thesis
    by (simp add: fun_eq_iff record_event_def split: sum.split)
qed

lemma not_quarantined_free:
  assumes "\<not> cd_quarantined cdp a"
  shows "c_subject c = a \<Longrightarrow> issue cdp io c cs = issue (cdp\<lparr>cd_quarantined := \<lambda>_. False\<rparr>) io c cs"
    and "c_subject c = a \<Longrightarrow> attenuate cdp io c cs = attenuate (cdp\<lparr>cd_quarantined := \<lambda>_. False\<rparr>) io c cs"
    and "hm_get (cs_by_id cs) i = Some c \<Longrightarrow> c_subject c = a \<Longrightarrow>
      check_inner cdp io i d cs = check_inner (cdp\<lparr>cd_quarantined := \<lambda>_. False\<rparr>) io i d cs"
  using assms
  by (simp_all add: issue_def attenuate_def check_inner_def record_issue_def record_attenuate_def Let_def
      split: option.split)

text \<open>Nothing is published into a full channel.\<close>

lemma emit_receipt_unpublished:
  "\<not> length (ls_channel st) < PUBLISH_CHANNEL_CAPACITY \<Longrightarrow>
   ls_channel (snd (emit_enforcement_receipt dp eff swarm h ver st)) = ls_channel st"
  by (auto simp: emit_enforcement_receipt_def case_prod_beta Let_def publish_append_frame split: sum.split)

text \<open>
  (C12) The enforcement loop decides over the agent's capabilities. When the receipt of an effect about an
  agent is recorded while the channel has room (fewer than 4096 receipts wait), the forwarder drains the
  channel completely. After a quarantine, issuing and attenuating any capability to the agent is then
  refused and every check of an unrevoked capability of the agent is denied as \<open>subject_quarantined\<close>.
  After an eviction or a reversal, issuing, attenuating and checks concerning the agent are answered as if
  there were no quarantine: an eviction lifts it and revokes nothing. When the channel is full, the receipt
  is recorded all the same, but it changes nothing of who is quarantined.
\<close>

theorem recorded_effect_governs_checks:
  assumes emitted: "emit_enforcement_receipt dp eff swarm h ver st = (Inr rid, st')"
    and target: "ef_target_agent_id eff = ld_show_agent dp a" "utf8_valid (as_bytes (ld_show_agent dp a))"
    and kind: "ef_action_kind eff \<in> {''enforcement.quarantine'', ''enforcement.reverse'', ''enforcement.evict''}"
    and wired: "cd_quarantined cdp = quarantine_source (ld_show_agent dp) (ls_engine (drain dp st'))"
  shows "ls_channel (drain dp st') = []
    \<and> (if length (ls_channel st) \<ge> PUBLISH_CHANNEL_CAPACITY
       then cd_quarantined cdp = quarantine_source (ld_show_agent dp) (ls_engine (drain dp st))
       else if ef_action_kind eff = ''enforcement.quarantine''
       then (\<forall>c. c_subject c = a \<longrightarrow> issue cdp io c cs = (Inl (SubjectQuarantined a), cs)
                \<and> attenuate cdp io c cs = (Inl (SubjectQuarantined a), cs))
            \<and> (\<forall>i c d. hm_get (cs_by_id cs) i = Some c \<longrightarrow> c_subject c = a \<longrightarrow> hm_get (cs_revoked cs) i = None \<longrightarrow>
                check_inner cdp io i d cs = Inr (outcome_deny (Some i) ''subject_quarantined'' [], c_swarm_id c))
       else (let free = cdp\<lparr>cd_quarantined := \<lambda>_. False\<rparr> in
            (\<forall>c. c_subject c = a \<longrightarrow> issue cdp io c cs = issue free io c cs \<and> attenuate cdp io c cs = attenuate free io c cs)
            \<and> (\<forall>i c d. hm_get (cs_by_id cs) i = Some c \<longrightarrow> c_subject c = a \<longrightarrow>
                check_inner cdp io i d cs = check_inner free io i d cs)))"
proof (cases "length (ls_channel st) < PUBLISH_CHANNEL_CAPACITY")
  case True
  then have "cd_quarantined cdp a = (ef_action_kind eff = ''enforcement.quarantine'')"
    using recorded_effect_settles [OF emitted kind _ True] target
    by (simp add: wired quarantine_source_def)
  with True show ?thesis
    using not_quarantined_free [of cdp a]
    by (auto simp: drain_channel check_inner_def [of cdp] issue_def [of cdp] attenuate_def [of cdp] Let_def)
next
  case False
  then have "ls_channel st' = ls_channel st" "ls_engine st' = ls_engine st"
    using emit_receipt_unpublished [of st dp eff swarm h ver] emit_receipt_frame(1) [of dp eff swarm h ver st] emitted by simp_all
  then show ?thesis
    using False by (simp add: drain_channel wired fun_eq_iff quarantine_source_def drain_quarantine)
qed

definition demo_loop_deps :: loop_deps where
  "demo_loop_deps =
     \<lparr>ld_observer = demo_observer, ld_show_agent = (\<lambda>_. ''a''), ld_json_to_vec = (\<lambda>_. Inr []),
      ld_clock_add = demo_add, ld_clock = (\<lambda>_. demo_clock)\<rparr>"

definition demo_loop :: loop_state where
  "demo_loop =
     \<lparr>ls_constitution = None, ls_engine = demo_engine, ls_receipts = memory_store_new, ls_channel = [],
      ls_readings = 0\<rparr>"

definition demo_quarantine :: EnforcementEffect where
  "demo_quarantine =
     \<lparr>ef_action_kind = ''enforcement.quarantine'', ef_target_agent_id = ''a'', ef_enforcement_rule_id = ''repeat'',
      ef_reputation_delta = ''-0.25'', ef_additional_evidence = []\<rparr>"

lemma demo_emission:
  "\<exists>rid st'. emit_enforcement_receipt demo_loop_deps demo_quarantine (SwarmId 1) (demo_id 1) ''1.0.0'' demo_loop
     = (Inr rid, st')"
proof -
  obtain ev where "effect_evidence demo_loop_deps demo_quarantine (demo_id 1) = Inr ev"
    by (simp add: effect_evidence_def demo_quarantine_def)
  then show ?thesis
    using demo_observation [of demo_clock "''enforcement.quarantine''" "SwarmId 1" "''1.0.0''" ev memory_store_new]
    by (auto simp: emit_enforcement_receipt_def publish_append_def demo_loop_deps_def demo_loop_def
        demo_quarantine_def)
qed

theorem recorded_effect_governs_checks_witness:
  "\<exists>rid st'. emit_enforcement_receipt demo_loop_deps demo_quarantine (SwarmId 1) (demo_id 1) ''1.0.0'' demo_loop
       = (Inr rid, st')
     \<and> check_inner (demo_deps\<lparr>cd_quarantined := quarantine_source (\<lambda>_. ''a'') (ls_engine (drain demo_loop_deps st'))\<rparr>)
         demo_inputs (demo_id 1) (demo_action ''x'')
         ((capability_store_new memory_store_new)\<lparr>cs_by_id := [(demo_id 1, demo_cap 1 (AgentId 3) ''x'' None)]\<rparr>)
       = Inr (outcome_deny (Some (demo_id 1)) ''subject_quarantined'' [], SwarmId 1)"
proof -
  let ?cs = "(capability_store_new memory_store_new)\<lparr>cs_by_id := [(demo_id 1, demo_cap 1 (AgentId 3) ''x'' None)]\<rparr>"
  obtain rid st' where
    e: "emit_enforcement_receipt demo_loop_deps demo_quarantine (SwarmId 1) (demo_id 1) ''1.0.0'' demo_loop = (Inr rid, st')"
    using demo_emission by blast
  let ?dp = "demo_deps\<lparr>cd_quarantined := quarantine_source (\<lambda>_. ''a'') (ls_engine (drain demo_loop_deps st'))\<rparr>"
  have "length (ls_channel demo_loop) < PUBLISH_CHANNEL_CAPACITY"
    by (simp add: demo_loop_def PUBLISH_CHANNEL_CAPACITY_def)
  moreover have "ef_target_agent_id demo_quarantine = ld_show_agent demo_loop_deps (AgentId 3)"
    "utf8_valid (as_bytes (ld_show_agent demo_loop_deps (AgentId 3)))"
    by (simp_all add: demo_quarantine_def demo_loop_deps_def as_bytes_def)
  moreover have "cd_quarantined ?dp = quarantine_source (ld_show_agent demo_loop_deps) (ls_engine (drain demo_loop_deps st'))"
    by (simp add: demo_loop_deps_def)
  moreover have "hm_get (cs_by_id ?cs) (demo_id 1) = Some (demo_cap 1 (AgentId 3) ''x'' None)"
    "hm_get (cs_revoked ?cs) (demo_id 1) = None"
    by (simp_all add: capability_store_new_def with_max_depth_def)
  ultimately show ?thesis
    using e recorded_effect_governs_checks [OF e, of "AgentId 3" ?dp demo_inputs ?cs]
    by (simp add: demo_quarantine_def)
qed

end
