(* ===== verification/Validation.thy ===== *)
theory Validation
  imports Engine_Config
begin

text \<open>
  The load-time validators of a constitution (\<open>crates/yutha-cedar-plus/src/validate.rs\<close>) that do not
  involve the Cedar engine: unique names, scoring rules, procedures with their escalation graph,
  enforcement rules, substitution of named predicates and the bounds on counts and depth.
\<close>

section \<open>Names\<close>

text \<open>The first name that occurs a second time, as the insertions into a \<open>HashSet\<close> find it.\<close>

fun first_duplicate :: "string list \<Rightarrow> string set \<Rightarrow> string option" where
  "first_duplicate [] seen = None"
| "first_duplicate (n # ns) seen = (if n \<in> seen then Some n else first_duplicate ns (insert n seen))"

definition reject_duplicate :: "(string \<Rightarrow> CedarPlusError) \<Rightarrow> string list \<Rightarrow> CedarPlusError + unit" where
  "reject_duplicate err ns = (case first_duplicate ns {} of None \<Rightarrow> Inr () | Some n \<Rightarrow> Inl (err n))"

definition check_unique_names :: "EngineConfig \<Rightarrow> CedarPlusError + unit" where
  "check_unique_names cfg =
     rbind (reject_duplicate (\<lambda>n. InvalidScoringRule n ''duplicate scoring-rule name'')
       (map sr_name (ec_scoring_rules cfg))) (\<lambda>_.
     rbind (reject_duplicate (\<lambda>n. InvalidProcedure n ''duplicate procedure name'')
       (map pc_name (ec_procedures cfg))) (\<lambda>_.
     rbind (reject_duplicate (\<lambda>n. InvalidEnforcementRule n ''duplicate enforcement-rule name'')
       (map er_name (ec_enforcement_rules cfg))) (\<lambda>_.
     reject_duplicate (\<lambda>n. CedarParse ''duplicate predicate name'') (map np_name (ec_predicates cfg)))))"

text \<open>A check that visits a list and stops at the first error.\<close>

fun check_each :: "('a \<Rightarrow> 'e + unit) \<Rightarrow> 'a list \<Rightarrow> 'e + unit" where
  "check_each f [] = Inr ()"
| "check_each f (x # xs) = rbind (f x) (\<lambda>_. check_each f xs)"

section \<open>Scoring rules\<close>

definition check_scoring_rule :: "ScoringRule \<Rightarrow> CedarPlusError + unit" where
  "check_scoring_rule rule =
     (let s = sr_score rule;
          trimmed = dropWhile (\<lambda>c. c = CHR ''-'') s
      in if s = [] then Inl (InvalidScoringRule (sr_name rule) ''score is empty'')
         else if trimmed = [] \<or> \<not> is_digit (hd trimmed)
         then Inl (InvalidScoringRule (sr_name rule) ''score does not look numeric'')
         else if s \<in> set [''0'', ''0.0'', ''0.00'', ''-0'', ''-0.0'', ''-0.00'']
         then Inl (InvalidScoringRule (sr_name rule) ''score must not be zero'')
         else Inr ())"

definition check_scoring_rules :: "EngineConfig \<Rightarrow> CedarPlusError + unit" where
  "check_scoring_rules cfg = check_each check_scoring_rule (ec_scoring_rules cfg)"

section \<open>Procedures\<close>

definition check_procedure_states :: "Procedure \<Rightarrow> CedarPlusError + unit" where
  "check_procedure_states p =
     (if pc_initial_state p \<notin> set (pc_states p)
      then Inl (InvalidProcedure (pc_name p) ''initial_state not in states'')
      else check_each (\<lambda>t. if t \<in> set (pc_states p) then Inr ()
                          else Inl (InvalidProcedure (pc_name p) ''terminal_state not in states''))
             (pc_terminal_states p))"

definition transition_action_key :: "ProcedureTransition \<Rightarrow> string" where
  "transition_action_key t =
     (case (t_action t, t_on_timeout t) of
        (Some a, _) \<Rightarrow> ''action:'' @ a
      | (None, Some d) \<Rightarrow> ''timeout:'' @ d
      | (None, None) \<Rightarrow> ''unreachable'')"

definition check_transition :: "Procedure \<Rightarrow> ProcedureTransition \<Rightarrow> (string \<times> string) set \<Rightarrow> CedarPlusError + unit" where
  "check_transition p t keys =
     (let invalid = (\<lambda>m. Inl (InvalidProcedure (pc_name p) m)) in
      if t_from t \<notin> set (pc_states p) then invalid ''transition from not in states''
      else if t_to t \<notin> set (pc_states p) then invalid ''transition to not in states''
      else if t_from t \<in> set (pc_terminal_states p) then invalid ''transition from terminal state''
      else if t_action t = None \<and> t_on_timeout t = None then invalid ''transition has neither action nor on_timeout''
      else if t_action t \<noteq> None \<and> t_on_timeout t \<noteq> None then invalid ''transition has both action and on_timeout''
      else if (t_from t, transition_action_key t) \<in> keys then invalid ''two transitions share from and action''
      else Inr ())"

fun check_transitions :: "Procedure \<Rightarrow> ProcedureTransition list \<Rightarrow> (string \<times> string) set \<Rightarrow> CedarPlusError + unit" where
  "check_transitions p [] keys = Inr ()"
| "check_transitions p (t # ts) keys =
     rbind (check_transition p t keys) (\<lambda>_.
       check_transitions p ts (insert (t_from t, transition_action_key t) keys))"

definition check_procedure_transitions :: "Procedure \<Rightarrow> CedarPlusError + unit" where
  "check_procedure_transitions p =
     rbind (check_transitions p (pc_transitions p) {}) (\<lambda>_.
       check_each (\<lambda>s. if s \<in> set (pc_terminal_states p) \<or> list_ex (\<lambda>t. t_from t = s) (pc_transitions p)
                      then Inr ()
                      else Inl (InvalidProcedure (pc_name p) ''non-terminal state has no outgoing transitions''))
         (pc_states p))"

section \<open>The escalation graph\<close>

type_synonym escalation_graph = "(string, string list) hash_map"

text \<open>Later entries for the same name replace earlier ones; a set of targets is a list without repetitions.\<close>

definition escalation_graph :: "Procedure list \<Rightarrow> escalation_graph" where
  "escalation_graph ps =
     fold (\<lambda>p. hm_insert (pc_name p) (remdups (map snd (pc_on_timeout_escalate p)))) ps []"

datatype Color = White | Gray | Black

type_synonym coloring = "(string, Color) hash_map"

definition escalation_targets_declared :: "Procedure list \<Rightarrow> CedarPlusError + unit" where
  "escalation_targets_declared ps =
     check_each (\<lambda>(from, edges). check_each (\<lambda>to. if to \<in> set (map pc_name ps) then Inr ()
         else Inl (InvalidProcedure from ''escalation target is not a declared procedure'')) edges)
       (escalation_graph ps)"

text \<open>
  Depth-first search. The fuel bounds the depth of the recursion: running out of it is \<open>None\<close>.
\<close>

fun dfs :: "nat \<Rightarrow> escalation_graph \<Rightarrow> string \<Rightarrow> coloring \<Rightarrow> (CedarPlusError + coloring) option"
  and dfs_edges :: "nat \<Rightarrow> escalation_graph \<Rightarrow> string \<Rightarrow> string list \<Rightarrow> coloring
    \<Rightarrow> (CedarPlusError + coloring) option" where
  "dfs 0 g node color = None"
| "dfs (Suc k) g node color =
     (case dfs_edges k g node (case hm_get g node of None \<Rightarrow> [] | Some es \<Rightarrow> es) (hm_insert node Gray color) of
        Some (Inr color') \<Rightarrow> Some (Inr (hm_insert node Black color'))
      | r \<Rightarrow> r)"
| "dfs_edges k g node [] color = Some (Inr color)"
| "dfs_edges k g node (next # es) color =
     (case hm_get color next of
        Some Gray \<Rightarrow> Some (Inl (InvalidProcedure node ''escalation cycle''))
      | Some Black \<Rightarrow> dfs_edges k g node es color
      | _ \<Rightarrow>
          (case dfs k g next color of
             Some (Inr color') \<Rightarrow> dfs_edges k g node es color'
           | r \<Rightarrow> r))"

fun dfs_roots :: "nat \<Rightarrow> escalation_graph \<Rightarrow> string list \<Rightarrow> coloring \<Rightarrow> (CedarPlusError + coloring) option" where
  "dfs_roots k g [] color = Some (Inr color)"
| "dfs_roots k g (n # ns) color =
     (if hm_get color n = Some White
      then (case dfs k g n color of Some (Inr color') \<Rightarrow> dfs_roots k g ns color' | r \<Rightarrow> r)
      else dfs_roots k g ns color)"

definition all_white :: "Procedure list \<Rightarrow> coloring" where
  "all_white ps = fold (\<lambda>p. hm_insert (pc_name p) White) ps []"

definition check_escalation_acyclic :: "EngineConfig \<Rightarrow> (CedarPlusError + unit) option" where
  "check_escalation_acyclic cfg =
     (let ps = ec_procedures cfg in
      case escalation_targets_declared ps of
        Inl e \<Rightarrow> Some (Inl e)
      | Inr _ \<Rightarrow>
          map_option (\<lambda>r. rbind r (\<lambda>_. Inr ()))
            (dfs_roots (Suc (length ps)) (escalation_graph ps) (map pc_name ps) (all_white ps)))"

definition check_procedures :: "EngineConfig \<Rightarrow> (CedarPlusError + unit) option" where
  "check_procedures cfg =
     (case check_each (\<lambda>p. rbind (check_procedure_states p) (\<lambda>_. check_procedure_transitions p))
             (ec_procedures cfg) of
        Inl e \<Rightarrow> Some (Inl e)
      | Inr _ \<Rightarrow> check_escalation_acyclic cfg)"

section \<open>Enforcement rules\<close>

definition known_receipt_kinds :: "string list" where
  "known_receipt_kinds =
     [''agent.register'', ''agent.revoke'', ''agent.operator_revoke'', ''agent.rotate_key'',
      ''agent.heartbeat.missed'', ''envelope.send'', ''envelope.deliver'', ''envelope.deliver.failed'',
      ''capability.issue'', ''capability.attenuate'', ''capability.revoke'', ''capability.check.pass'',
      ''capability.check.deny'', ''memory.write'', ''memory.read'', ''memory.forget'', ''memory.share'',
      ''constitution.activate'', ''constitution.evaluate.pass'', ''constitution.evaluate.deny'',
      ''constitution.amend.propose'', ''constitution.amend.commit'', ''constitution.amend.timeout'',
      ''procedure.enter'', ''procedure.transition'', ''procedure.timeout'', ''procedure.escalate'',
      ''enforcement.detect'', ''enforcement.coach'', ''enforcement.quarantine'', ''enforcement.evict'',
      ''enforcement.reverse'', ''enforcement.evict_timeout'']"

definition check_duration :: "string \<Rightarrow> string \<Rightarrow> string \<Rightarrow> CedarPlusError + unit" where
  "check_duration rule what d =
     (if parse_duration d = None then Inl (InvalidEnforcementRule rule (what @ '' is not a parseable duration''))
      else Inr ())"

definition check_enforcement_rule :: "EnforcementRule \<Rightarrow> CedarPlusError + unit" where
  "check_enforcement_rule rule =
     (let n = er_name rule; d = er_detect rule in
      if dt_receipt_kind (dc_trigger d) \<notin> set known_receipt_kinds
      then Inl (InvalidEnforcementRule n ''trigger.receipt_kind is not a known canonical action-kind'')
      else if dc_count_threshold d = 0
      then Inl (InvalidEnforcementRule n ''detect.count_threshold must be >= 1'')
      else
        rbind (check_duration n ''detect.time_window'' (dc_time_window d)) (\<lambda>_.
        rbind (case er_coach rule of None \<Rightarrow> Inr ()
               | Some c \<Rightarrow> check_duration n ''coach.cooldown'' (co_cooldown c)) (\<lambda>_.
        rbind (case er_quarantine rule of None \<Rightarrow> Inr ()
               | Some q \<Rightarrow>
                   rbind (check_duration n ''quarantine.escalate_after'' (qc_escalate_after q)) (\<lambda>_.
                     case qc_expires_after q of None \<Rightarrow> Inr ()
                     | Some exp \<Rightarrow> check_duration n ''quarantine.expires_after'' exp)) (\<lambda>_.
        case er_evict rule of None \<Rightarrow> Inr ()
        | Some e \<Rightarrow> check_duration n ''evict.escalate_after'' (ev_escalate_after e)))))"

definition check_enforcement_rules :: "EngineConfig \<Rightarrow> CedarPlusError + unit" where
  "check_enforcement_rules cfg = check_each check_enforcement_rule (ec_enforcement_rules cfg)"

section \<open>Named predicates\<close>

definition is_name_char :: "char \<Rightarrow> bool" where
  "is_name_char c =
     (let code = of_char c :: nat in
      is_digit c \<or> c = CHR ''_'' \<or> (97 \<le> code \<and> code \<le> 122) \<or> (65 \<le> code \<and> code \<le> 90))"

function substitute :: "(string, string) hash_map \<Rightarrow> string \<Rightarrow> string + string" where
  "substitute preds [] = Inr []"
| "substitute preds (c # cs) =
     (if c = CHR ''@''
      then let name = takeWhile is_name_char cs in
           if name = [] then rbind (substitute preds cs) (\<lambda>out. Inr (CHR ''@'' # out))
           else case hm_get preds name of
                  None \<Rightarrow> Inl name
                | Some expansion \<Rightarrow>
                    rbind (substitute preds (drop (length name) cs)) (\<lambda>out.
                      Inr (CHR ''('' # expansion @ CHR '')'' # out))
      else rbind (substitute preds cs) (\<lambda>out. Inr (c # out)))"
  by pat_completeness auto
termination
  by (relation "measure (\<lambda>(preds, s). length s)") auto

definition predicate_map :: "EngineConfig \<Rightarrow> (string, string) hash_map" where
  "predicate_map cfg = fold (\<lambda>p. hm_insert (np_name p) (np_expr p)) (ec_predicates cfg) []"

definition resolve_scoring :: "(string, string) hash_map \<Rightarrow> ScoringRule \<Rightarrow> CedarPlusError + ScoringRule" where
  "resolve_scoring preds rule =
     rbind (map_err (\<lambda>_. InvalidScoringRule (sr_name rule) ''unresolved reference in when'')
       (substitute preds (sr_when rule))) (\<lambda>w. Inr (rule\<lparr>sr_when := w\<rparr>))"

definition resolve_transition ::
    "(string, string) hash_map \<Rightarrow> string \<Rightarrow> ProcedureTransition \<Rightarrow> CedarPlusError + ProcedureTransition" where
  "resolve_transition preds name t =
     rbind (transpose_map (\<lambda>w. map_err (\<lambda>_. InvalidProcedure name ''unresolved reference in transition.actor_when'')
              (substitute preds w)) (t_actor_when t)) (\<lambda>w. Inr (t\<lparr>t_actor_when := w\<rparr>))"

definition resolve_procedure :: "(string, string) hash_map \<Rightarrow> Procedure \<Rightarrow> CedarPlusError + Procedure" where
  "resolve_procedure preds p =
     rbind (transpose_map (\<lambda>w. map_err (\<lambda>_. InvalidProcedure (pc_name p) ''unresolved reference in trigger.when'')
              (substitute preds w)) (pt_when (pc_trigger p))) (\<lambda>w.
     rbind (collect_results (map (resolve_transition preds (pc_name p)) (pc_transitions p))) (\<lambda>ts.
       Inr (p\<lparr>pc_trigger := (pc_trigger p)\<lparr>pt_when := w\<rparr>, pc_transitions := ts\<rparr>)))"

definition resolve_named_predicates :: "EngineConfig \<Rightarrow> CedarPlusError + EngineConfig" where
  "resolve_named_predicates cfg =
     rbind (collect_results (map (resolve_scoring (predicate_map cfg)) (ec_scoring_rules cfg))) (\<lambda>rules.
     rbind (collect_results (map (resolve_procedure (predicate_map cfg)) (ec_procedures cfg))) (\<lambda>ps.
       Inr (cfg\<lparr>ec_scoring_rules := rules, ec_procedures := ps\<rparr>)))"

section \<open>Bounds\<close>

definition check_load_time_counts :: "EngineConfig \<Rightarrow> SandboxConfig \<Rightarrow> CedarPlusError + unit" where
  "check_load_time_counts cfg bounds =
     (if max_scoring_rules bounds < length (ec_scoring_rules cfg)
      then Inl (LoadBoundExceeded ScoringRuleCount)
      else if max_procedures bounds < length (ec_procedures cfg)
      then Inl (LoadBoundExceeded ProcedureCount)
      else Inr ())"

text \<open>Nesting of brackets within a line; the counters do not overflow for sources below 4 GiB.\<close>

fun line_depth :: "string \<Rightarrow> nat \<Rightarrow> nat \<Rightarrow> nat" where
  "line_depth [] current depth = depth"
| "line_depth (c # cs) current depth =
     (if c \<in> {CHR ''('', CHR ''['', CHR ''{''} then line_depth cs (Suc current) (max depth (Suc current))
      else if c \<in> {CHR '')'', CHR '']'', CHR ''}''} then line_depth cs (current - 1) depth
      else line_depth cs current depth)"

definition estimate_cedar_depth :: "string \<Rightarrow> nat" where
  "estimate_cedar_depth source =
     fold (\<lambda>l. max (line_depth l 0 0)) (split_on (\<lambda>c. c = CHR 0x0A) source) 0"

end
