(* ===== verification/Validation_Properties.thy ===== *)
theory Validation_Properties
  imports Validation
begin

text \<open>
  The depth-first search of the validator decides whether the escalation graph of the procedures is
  acyclic.
\<close>

section \<open>Depth-first search\<close>

definition graph_edges :: "escalation_graph \<Rightarrow> (string \<times> string) set" where
  "graph_edges g = {(x, y). \<exists>es. hm_get g x = Some es \<and> y \<in> set es}"

definition grays :: "coloring \<Rightarrow> string set" where
  "grays c = {x. hm_get c x = Some Gray}"

definition blacks :: "coloring \<Rightarrow> string set" where
  "blacks c = {x. hm_get c x = Some Black}"

definition colored :: "coloring \<Rightarrow> string set" where
  "colored c = dom (hm_get c)"

lemma color_cases:
  obtains (gray) "n \<in> grays c" "hm_get c n = Some Gray"
  | (black) "n \<in> blacks c" "hm_get c n = Some Black"
  | (fresh) "n \<notin> grays c" "n \<notin> blacks c" "hm_get c n = None \<or> hm_get c n = Some White"
proof (cases "hm_get c n")
  case None
  then show ?thesis using fresh by (simp add: grays_def blacks_def)
next
  case (Some x)
  then show ?thesis
    using gray black fresh by (cases x) (simp_all add: grays_def blacks_def)
qed

lemma colors_insert [simp]:
  "grays (hm_insert n Gray c) = insert n (grays c)"
  "grays (hm_insert n Black c) = grays c - {n}"
  "blacks (hm_insert n Gray c) = blacks c - {n}"
  "blacks (hm_insert n Black c) = insert n (blacks c)"
  "colored (hm_insert n x c) = insert n (colored c)"
  by (auto simp: grays_def blacks_def colored_def)

definition successors :: "escalation_graph \<Rightarrow> string \<Rightarrow> string list" where
  "successors g n = (case hm_get g n of None \<Rightarrow> [] | Some es \<Rightarrow> es)"

lemma successors_edges: "y \<in> set (successors g n) \<longleftrightarrow> (n, y) \<in> graph_edges g"
  by (cases "hm_get g n") (auto simp: successors_def graph_edges_def)

lemma dfs_Suc:
  "dfs (Suc k) g n c = Some (Inr c') \<longleftrightarrow>
     (\<exists>c1. dfs_edges k g n (successors g n) (hm_insert n Gray c) = Some (Inr c1) \<and> c' = hm_insert n Black c1)"
  "dfs (Suc k) g n c = Some (Inl e) \<longleftrightarrow> dfs_edges k g n (successors g n) (hm_insert n Gray c) = Some (Inl e)"
  "dfs (Suc k) g n c = None \<longleftrightarrow> dfs_edges k g n (successors g n) (hm_insert n Gray c) = None"
  by (auto simp: successors_def split: option.split sum.split)

lemma dfs_edges_fresh:
  assumes "hm_get c x = None \<or> hm_get c x = Some White"
  shows "dfs_edges k g n (x # es) c =
    (case dfs k g x c of Some (Inr c') \<Rightarrow> dfs_edges k g n es c' | r \<Rightarrow> r)"
  using assms by auto

text \<open>A search that succeeds keeps the gray nodes and adds finished ones, the start among them.\<close>

definition extends :: "coloring \<Rightarrow> coloring \<Rightarrow> bool" where
  "extends c c' = (grays c' = grays c \<and> blacks c \<subseteq> blacks c' \<and> colored c \<subseteq> colored c')"

lemma extends_refl [simp]: "extends c c"
  by (simp add: extends_def)

lemma extends_trans: "extends a b \<Longrightarrow> extends b c \<Longrightarrow> extends a c"
  by (auto simp: extends_def)

lemma dfs_edges_extends:
  assumes dfs: "\<And>x c c'. \<lbrakk>dfs k g x c = Some (Inr c'); x \<notin> grays c\<rbrakk> \<Longrightarrow> extends c c' \<and> x \<in> blacks c'"
  shows "dfs_edges k g n es c = Some (Inr c') \<Longrightarrow> extends c c' \<and> set es \<subseteq> blacks c'"
proof (induction es arbitrary: c)
  case (Cons x es)
  show ?case
  proof (cases rule: color_cases [of x c])
    case black
    with Cons.IH [of c] Cons.prems show ?thesis by (auto simp: extends_def)
  next
    case fresh
    with Cons.prems obtain c1 where c1: "dfs k g x c = Some (Inr c1)" "dfs_edges k g n es c1 = Some (Inr c')"
      by (auto simp only: dfs_edges_fresh split: option.splits sum.splits)
    from dfs [OF c1(1)] fresh Cons.IH [OF c1(2)] show ?thesis
      by (auto simp: extends_def)
  qed (use Cons.prems in simp)
qed simp

lemma dfs_extends: "\<lbrakk>dfs k g n c = Some (Inr c'); n \<notin> grays c\<rbrakk> \<Longrightarrow> extends c c' \<and> n \<in> blacks c'"
proof (induction k arbitrary: n c c')
  case (Suc k)
  then obtain c1 where c1: "dfs_edges k g n (successors g n) (hm_insert n Gray c) = Some (Inr c1)"
    "c' = hm_insert n Black c1"
    by (auto simp only: dfs_Suc)
  from dfs_edges_extends [OF Suc.IH c1(1)] c1(2) Suc.prems(2) show ?case
    by (auto simp: extends_def)
qed simp

lemma edges_extends:
  "dfs_edges k g n es c = Some (Inr c') \<Longrightarrow> extends c c' \<and> set es \<subseteq> blacks c'"
  by (rule dfs_edges_extends) (rule dfs_extends)

text \<open>Finished nodes are accessible: every path from them ends.\<close>

abbreviation ends :: "escalation_graph \<Rightarrow> string set" where
  "ends g \<equiv> Wellfounded.acc ((graph_edges g)\<inverse>)"

lemma dfs_edges_ends:
  assumes dfs: "\<And>x c c'. \<lbrakk>dfs k g x c = Some (Inr c'); x \<notin> grays c; blacks c \<subseteq> ends g\<rbrakk> \<Longrightarrow> blacks c' \<subseteq> ends g"
  shows "\<lbrakk>dfs_edges k g n es c = Some (Inr c'); blacks c \<subseteq> ends g\<rbrakk> \<Longrightarrow> blacks c' \<subseteq> ends g"
proof (induction es arbitrary: c)
  case (Cons x es)
  show ?case
  proof (cases rule: color_cases [of x c])
    case black
    with Cons show ?thesis by simp
  next
    case fresh
    with Cons.prems obtain c1 where c1: "dfs k g x c = Some (Inr c1)" "dfs_edges k g n es c1 = Some (Inr c')"
      by (auto simp only: dfs_edges_fresh split: option.splits sum.splits)
    from dfs [OF c1(1) fresh(1) Cons.prems(2)] Cons.IH [OF c1(2)] show ?thesis by simp
  qed (use Cons.prems in simp)
qed simp

lemma dfs_ends: "\<lbrakk>dfs k g n c = Some (Inr c'); n \<notin> grays c; blacks c \<subseteq> ends g\<rbrakk> \<Longrightarrow> blacks c' \<subseteq> ends g"
proof (induction k arbitrary: n c c')
  case (Suc k)
  then obtain c1 where c1: "dfs_edges k g n (successors g n) (hm_insert n Gray c) = Some (Inr c1)"
    "c' = hm_insert n Black c1"
    by (auto simp only: dfs_Suc)
  have "blacks c1 \<subseteq> ends g"
    by (rule dfs_edges_ends [OF Suc.IH c1(1)]) (use Suc.prems in auto)
  moreover have "set (successors g n) \<subseteq> blacks c1"
    using edges_extends [OF c1(1)] by blast
  ultimately have succ: "set (successors g n) \<subseteq> ends g" by blast
  have "n \<in> ends g"
    by (rule accI) (use succ successors_edges in blast)
  with \<open>blacks c1 \<subseteq> ends g\<close> c1(2) show ?case by simp
qed simp

text \<open>A search that fails has closed a cycle through the nodes on its stack.\<close>

definition stacked :: "escalation_graph \<Rightarrow> string \<Rightarrow> coloring \<Rightarrow> bool" where
  "stacked g n c = (\<forall>y \<in> grays c. (y, n) \<in> (graph_edges g)\<^sup>*)"

lemma stacked_edge: "\<lbrakk>stacked g n c; (n, x) \<in> graph_edges g\<rbrakk> \<Longrightarrow> stacked g x c"
  unfolding stacked_def by (blast intro: rtrancl_into_rtrancl)

lemma dfs_edges_cycle:
  assumes dfs: "\<And>x c. \<lbrakk>dfs k g x c = Some (Inl e); stacked g x c\<rbrakk> \<Longrightarrow> \<not> acyclic (graph_edges g)"
  shows "\<lbrakk>dfs_edges k g n es c = Some (Inl e); set es \<subseteq> set (successors g n); stacked g n c\<rbrakk>
    \<Longrightarrow> \<not> acyclic (graph_edges g)"
proof (induction es arbitrary: c)
  case (Cons x es)
  then have edge: "(n, x) \<in> graph_edges g" by (simp add: successors_edges)
  show ?case
  proof (cases rule: color_cases [of x c])
    case gray
    with Cons.prems(3) edge have "(x, x) \<in> (graph_edges g)\<^sup>+"
      unfolding stacked_def by (meson rtrancl_into_trancl1)
    then show ?thesis by (auto simp: acyclic_def)
  next
    case black
    with Cons show ?thesis by simp
  next
    case fresh
    with Cons.prems(1) consider "dfs k g x c = Some (Inl e)"
      | c1 where "dfs k g x c = Some (Inr c1)" "dfs_edges k g n es c1 = Some (Inl e)"
      by (auto simp only: dfs_edges_fresh split: option.splits sum.splits)
    then show ?thesis
    proof cases
      case 1
      then show ?thesis by (rule dfs) (rule stacked_edge [OF Cons.prems(3) edge])
    next
      case 2
      from dfs_extends [OF 2(1) fresh(1)] have "grays c1 = grays c" by (simp add: extends_def)
      with Cons.prems(3) have "stacked g n c1" by (simp add: stacked_def)
      with Cons.prems(2) show ?thesis by (intro Cons.IH [OF 2(2)]) simp_all
    qed
  qed
qed simp

lemma dfs_cycle: "\<lbrakk>dfs k g n c = Some (Inl e); stacked g n c\<rbrakk> \<Longrightarrow> \<not> acyclic (graph_edges g)"
proof (induction k arbitrary: n c)
  case (Suc k)
  from Suc.prems(1) have fails: "dfs_edges k g n (successors g n) (hm_insert n Gray c) = Some (Inl e)"
    by (simp only: dfs_Suc)
  from Suc.prems(2) have "stacked g n (hm_insert n Gray c)" by (simp add: stacked_def)
  from dfs_edges_cycle [OF _ fails subset_refl this] show ?case by (blast dest: Suc.IH)
qed simp

text \<open>Fuel for every node that is still to be visited is enough.\<close>

definition unvisited :: "string set \<Rightarrow> coloring \<Rightarrow> string set" where
  "unvisited U c = U - grays c - blacks c"

lemma unvisited_extends: "\<lbrakk>extends c c'; finite U\<rbrakk> \<Longrightarrow> card (unvisited U c') \<le> card (unvisited U c)"
  by (rule card_mono) (auto simp: unvisited_def extends_def)

lemma result_cases:
  obtains (none) "r = None" | (err) e where "r = Some (Inl e)" | (ok) c where "r = Some (Inr c)"
  by (metis option.exhaust sum.exhaust)

lemma dfs_edges_fuel:
  assumes dfs: "\<And>x c. \<lbrakk>x \<in> unvisited U c; card (unvisited U c) \<le> k\<rbrakk> \<Longrightarrow> dfs k g x c \<noteq> None"
    and U: "finite U"
  shows "\<lbrakk>set es \<subseteq> U; card (unvisited U c) \<le> k\<rbrakk> \<Longrightarrow> dfs_edges k g n es c \<noteq> None"
proof (induction es arbitrary: c)
  case (Cons x es)
  show ?case
  proof (cases rule: color_cases [of x c])
    case fresh
    with Cons.prems have "x \<in> unvisited U c" by (simp add: unvisited_def)
    from dfs [OF this Cons.prems(2)] consider (err) e where "dfs k g x c = Some (Inl e)"
      | (ok) c1 where "dfs k g x c = Some (Inr c1)"
      by (cases rule: result_cases [of "dfs k g x c"]) simp_all
    then show ?thesis
    proof cases
      case ok
      with dfs_extends fresh(1) have "extends c c1" by blast
      with Cons.prems unvisited_extends [OF _ U] have "dfs_edges k g n es c1 \<noteq> None"
        by (intro Cons.IH) (auto intro: order_trans)
      with ok fresh(3) show ?thesis by (simp only: dfs_edges_fresh) simp
    qed (use fresh(3) in \<open>simp only: dfs_edges_fresh, simp\<close>)
  qed (use Cons in simp_all)
qed simp

lemma dfs_fuel:
  assumes U: "finite U" "\<And>x y. (x, y) \<in> graph_edges g \<Longrightarrow> y \<in> U"
  shows "\<lbrakk>n \<in> unvisited U c; card (unvisited U c) \<le> k\<rbrakk> \<Longrightarrow> dfs k g n c \<noteq> None"
proof (induction k arbitrary: n c)
  case 0
  then show ?case using U(1) by (auto simp: unvisited_def)
next
  case (Suc k)
  have "unvisited U (hm_insert n Gray c) = unvisited U c - {n}" by (auto simp: unvisited_def)
  with Suc.prems U(1) have "card (unvisited U (hm_insert n Gray c)) \<le> k"
    by (simp add: card_Diff_singleton unvisited_def)
  then have "dfs_edges k g n (successors g n) (hm_insert n Gray c) \<noteq> None"
    by (intro dfs_edges_fuel [OF Suc.IH U(1)]) (use U(2) in \<open>auto simp: successors_edges\<close>)
  then show ?case by (simp only: dfs_Suc) simp
qed

section \<open>The search from every procedure\<close>

lemma dfs_roots_ok:
  "\<lbrakk>dfs_roots k g ns c = Some (Inr c'); grays c = {}; blacks c \<subseteq> ends g; set ns \<subseteq> colored c\<rbrakk>
    \<Longrightarrow> set ns \<subseteq> blacks c' \<and> blacks c \<subseteq> blacks c' \<and> blacks c' \<subseteq> ends g"
proof (induction ns arbitrary: c)
  case (Cons n ns)
  show ?case
  proof (cases rule: color_cases [of n c])
    case fresh
    with Cons.prems have "hm_get c n = Some White" by (auto simp: colored_def)
    with Cons.prems(1) obtain c1 where c1: "dfs k g n c = Some (Inr c1)" "dfs_roots k g ns c1 = Some (Inr c')"
      by (auto split: option.splits sum.splits)
    from dfs_extends [OF c1(1) fresh(1)] dfs_ends [OF c1(1) fresh(1) Cons.prems(3)] Cons.prems
    have "set ns \<subseteq> blacks c' \<and> blacks c1 \<subseteq> blacks c' \<and> blacks c' \<subseteq> ends g"
      by (intro Cons.IH [OF c1(2)]) (auto simp: extends_def)
    with dfs_extends [OF c1(1) fresh(1)] show ?thesis by (auto simp: extends_def)
  qed (use Cons in auto)
qed simp

lemma dfs_roots_cycle:
  "\<lbrakk>dfs_roots k g ns c = Some (Inl e); grays c = {}\<rbrakk> \<Longrightarrow> \<not> acyclic (graph_edges g)"
proof (induction ns arbitrary: c)
  case (Cons n ns)
  show ?case
  proof (cases "hm_get c n = Some White")
    case True
    with Cons.prems(1) consider "dfs k g n c = Some (Inl e)"
      | c1 where "dfs k g n c = Some (Inr c1)" "dfs_roots k g ns c1 = Some (Inl e)"
      by (auto split: option.splits sum.splits)
    then show ?thesis
    proof cases
      case 1
      then show ?thesis by (rule dfs_cycle) (simp add: stacked_def Cons.prems(2))
    next
      case 2
      with dfs_extends [OF 2(1)] Cons.prems(2) show ?thesis
        by (intro Cons.IH [OF 2(2)]) (simp add: extends_def)
    qed
  qed (use Cons in auto)
qed simp

lemma dfs_roots_fuel:
  assumes U: "finite U" "\<And>x y. (x, y) \<in> graph_edges g \<Longrightarrow> y \<in> U"
  shows "\<lbrakk>set ns \<subseteq> U; card U \<le> k; grays c = {}\<rbrakk> \<Longrightarrow> dfs_roots k g ns c \<noteq> None"
proof (induction ns arbitrary: c)
  case (Cons n ns)
  have k: "card (unvisited U c) \<le> k"
    using card_mono [OF U(1), of "unvisited U c"] Cons.prems(2) by (fastforce simp: unvisited_def)
  show ?case
  proof (cases "hm_get c n = Some White")
    case True
    with Cons.prems have "n \<in> unvisited U c" by (simp add: unvisited_def grays_def blacks_def)
    from dfs_fuel [of U g, OF U(1) _ this k] U(2) have "dfs k g n c \<noteq> None" by blast
    then consider (err) e where "dfs k g n c = Some (Inl e)"
      | (ok) c1 where "dfs k g n c = Some (Inr c1)"
      by (cases rule: result_cases [of "dfs k g n c"]) simp_all
    then show ?thesis
    proof cases
      case ok
      with dfs_extends [OF ok] Cons.prems show ?thesis
        using Cons.IH [of c1] by (simp add: extends_def True)
    qed (simp add: True)
  qed (use Cons in simp)
qed simp

lemma acc_no_cycle: "x \<in> Wellfounded.acc (r\<inverse>) \<Longrightarrow> (x, x) \<notin> r\<^sup>+"
proof (induction rule: acc.induct)
  case (accI x)
  show ?case
  proof
    assume "(x, x) \<in> r\<^sup>+"
    then obtain y where "(x, y) \<in> r" "(y, x) \<in> r\<^sup>*" by (blast dest: tranclD)
    then have "(y, y) \<in> r\<^sup>+" by (meson rtrancl_into_trancl1)
    with accI.IH [of y] \<open>(x, y) \<in> r\<close> show False by simp
  qed
qed

lemma acyclic_if_ends:
  assumes "\<And>x y. (x, y) \<in> r \<Longrightarrow> x \<in> Wellfounded.acc (r\<inverse>)"
  shows "acyclic r"
  unfolding acyclic_def
proof (intro allI notI)
  fix x assume cyc: "(x, x) \<in> r\<^sup>+"
  then obtain y where "(x, y) \<in> r" by (blast dest: tranclD)
  from acc_no_cycle [OF assms [OF this]] cyc show False by simp
qed

section \<open>The graph of the procedures\<close>

definition escalates_to :: "Procedure list \<Rightarrow> (string \<times> string) set" where
  "escalates_to ps = {(pc_name p, q) | p q. p \<in> set ps \<and> q \<in> set (map snd (pc_on_timeout_escalate p))}"

lemma first_duplicate_None: "first_duplicate ns seen = None \<longleftrightarrow> distinct ns \<and> set ns \<inter> seen = {}"
  by (induction ns arbitrary: seen) auto

lemma reject_duplicate_ok: "reject_duplicate err ns = Inr () \<longleftrightarrow> distinct ns"
  using first_duplicate_None [of ns "{}"] by (auto simp: reject_duplicate_def split: option.split)

lemma check_each_ok: "check_each f xs = Inr () \<longleftrightarrow> (\<forall>x \<in> set xs. f x = Inr ())"
  by (induction xs) (auto simp: rbind_eq_Inr)

lemma fold_hm_insert_get:
  "distinct (map f ps) \<Longrightarrow>
    hm_get (fold (\<lambda>p. hm_insert (f p) (v p)) ps m) = hm_get m ++ map_of (map (\<lambda>p. (f p, v p)) ps)"
proof (induction ps arbitrary: m)
  case (Cons p ps)
  then have "f p \<notin> dom (map_of (map (\<lambda>p. (f p, v p)) ps))" by (auto simp: dom_map_of_conv_image_fst)
  with Cons show ?case by (simp add: map_add_upd_left fun_upd_def [symmetric])
qed simp

lemma escalation_graph_get:
  "distinct (map pc_name ps) \<Longrightarrow> hm_get (escalation_graph ps) n = Some es \<longleftrightarrow>
    (\<exists>p \<in> set ps. n = pc_name p \<and> es = remdups (map snd (pc_on_timeout_escalate p)))"
  unfolding escalation_graph_def
  by (subst fold_hm_insert_get) (auto simp: map_of_eq_Some_iff o_def)

lemma escalation_graph_edges:
  "distinct (map pc_name ps) \<Longrightarrow> graph_edges (escalation_graph ps) = escalates_to ps"
  unfolding graph_edges_def escalates_to_def by (simp only: escalation_graph_get) force

lemma fold_hm_insert_distinct:
  "distinct (map fst m) \<Longrightarrow> distinct (map fst (fold (\<lambda>p. hm_insert (f p) (v p)) ps m))"
  by (induction ps arbitrary: m) (auto intro: distinct_update)

lemma escalation_targets_declared_ok:
  assumes "distinct (map pc_name ps)"
  shows "escalation_targets_declared ps = Inr () \<longleftrightarrow> snd ` escalates_to ps \<subseteq> pc_name ` set ps"
proof -
  have "distinct (map fst (escalation_graph ps))"
    unfolding escalation_graph_def by (rule fold_hm_insert_distinct) simp
  then have "graph_edges (escalation_graph ps) = {(x, y). \<exists>es. (x, es) \<in> set (escalation_graph ps) \<and> y \<in> set es}"
    by (simp add: graph_edges_def map_of_eq_Some_iff)
  moreover have "escalation_targets_declared ps = Inr () \<longleftrightarrow>
      (\<forall>(x, es) \<in> set (escalation_graph ps). \<forall>y \<in> set es. y \<in> pc_name ` set ps)"
    by (auto simp: escalation_targets_declared_def check_each_ok split: if_splits)
  ultimately have "escalation_targets_declared ps = Inr () \<longleftrightarrow>
      (\<forall>(x, y) \<in> graph_edges (escalation_graph ps). y \<in> pc_name ` set ps)"
    by (simp only: Ball_def split_paired_All prod.case mem_Collect_eq) blast
  with escalation_graph_edges [OF assms] show ?thesis
    by (simp only: image_subset_iff Ball_def split_paired_All prod.case snd_conv)
qed

lemma all_white_colors:
  assumes "distinct (map pc_name ps)"
  shows "grays (all_white ps) = {}" "blacks (all_white ps) = {}" "colored (all_white ps) = pc_name ` set ps"
  using assms unfolding grays_def blacks_def colored_def all_white_def
  by (simp_all add: fold_hm_insert_get dom_map_of_conv_image_fst image_image)
     (auto dest!: map_of_SomeD)

lemma dfs_roots_decides:
  assumes names: "distinct (map pc_name ps)" and declared: "snd ` escalates_to ps \<subseteq> pc_name ` set ps"
  shows "(\<exists>c. dfs_roots (Suc (length ps)) (escalation_graph ps) (map pc_name ps) (all_white ps) = Some (Inr c)) \<longleftrightarrow>
      acyclic (escalates_to ps)" (is "?ok \<longleftrightarrow> _")
    and "dfs_roots (Suc (length ps)) (escalation_graph ps) (map pc_name ps) (all_white ps) \<noteq> None"
proof -
  let ?run = "dfs_roots (Suc (length ps)) (escalation_graph ps) (map pc_name ps) (all_white ps)"
  note white = all_white_colors [OF names] and edges = escalation_graph_edges [OF names]
  have "card (pc_name ` set ps) \<le> Suc (length ps)"
    using card_image_le [of "set ps" pc_name] card_length [of ps] by simp
  then show some: "?run \<noteq> None"
    by (intro dfs_roots_fuel [of "pc_name ` set ps"]) (use declared in \<open>auto simp: white edges\<close>)
  have "acyclic (escalates_to ps)" if run: "?run = Some (Inr c)" for c
  proof (rule acyclic_if_ends)
    fix x y assume "(x, y) \<in> escalates_to ps"
    then have "x \<in> set (map pc_name ps)" by (auto simp: escalates_to_def)
    with dfs_roots_ok [OF run] show "x \<in> Wellfounded.acc ((escalates_to ps)\<inverse>)"
      by (auto simp: white edges)
  qed
  moreover have "\<not> acyclic (escalates_to ps)" if "?run = Some (Inl e)" for e
    using dfs_roots_cycle [OF that] by (simp add: white edges)
  ultimately show "?ok \<longleftrightarrow> acyclic (escalates_to ps)"
    using some by (cases rule: result_cases [of ?run]) auto
qed

text \<open>
  Property (C8): the acyclicity check of the loader always answers, and for procedures whose names
  passed the uniqueness check it accepts exactly the escalation graphs whose targets are declared and that
  have no cycle: the depth-first search with its three colours is a decision procedure for acyclicity.
\<close>

theorem escalation_check_decides:
  assumes "check_unique_names cfg = Inr ()"
  defines "ps \<equiv> ec_procedures cfg"
  shows "(check_escalation_acyclic cfg = Some (Inr ()) \<longleftrightarrow>
      snd ` escalates_to ps \<subseteq> pc_name ` set ps \<and> acyclic (escalates_to ps))
    \<and> check_escalation_acyclic cfg \<noteq> None"
proof
  from assms have names: "distinct (map pc_name ps)"
    by (auto simp: check_unique_names_def rbind_eq_Inr reject_duplicate_ok ps_def)
  note decides = dfs_roots_decides [OF names]
  show "check_escalation_acyclic cfg = Some (Inr ()) \<longleftrightarrow>
      snd ` escalates_to ps \<subseteq> pc_name ` set ps \<and> acyclic (escalates_to ps)"
  proof (cases "escalation_targets_declared ps")
    case (Inl e)
    with escalation_targets_declared_ok [OF names] show ?thesis
      by (simp add: check_escalation_acyclic_def ps_def)
  next
    case (Inr u)
    with escalation_targets_declared_ok [OF names] have "snd ` escalates_to ps \<subseteq> pc_name ` set ps" by simp
    with decides Inr show ?thesis
      by (auto simp: check_escalation_acyclic_def ps_def [symmetric] rbind_eq_Inr)
  qed
  show "check_escalation_acyclic cfg \<noteq> None"
    using decides(2) escalation_targets_declared_ok [OF names]
    by (auto simp: check_escalation_acyclic_def ps_def [symmetric] split: sum.split)
qed

definition demo_procedure :: "string \<Rightarrow> (string, string) hash_map \<Rightarrow> Procedure" where
  "demo_procedure name escalate =
     \<lparr>pc_name = name, pc_initial_state = ''open'', pc_states = [''open'', ''done''],
      pc_terminal_states = [''done''], pc_trigger = \<lparr>pt_action = ''file'', pt_when = None\<rparr>,
      pc_transitions =
        [\<lparr>t_from = ''open'', t_to = ''done'', t_action = Some ''close'', t_actor_when = None, t_on_timeout = None\<rparr>],
      pc_on_timeout_escalate = escalate\<rparr>"

definition demo_procedures :: "Procedure list \<Rightarrow> EngineConfig" where
  "demo_procedures ps = \<lparr>ec_schema_version = ''1.0'', ec_predicates = [], ec_scoring_rules = [],
     ec_procedures = ps, ec_enforcement_rules = []\<rparr>"

definition demo_escalation_chain :: EngineConfig where
  "demo_escalation_chain = demo_procedures [demo_procedure ''a'' [(''open'', ''b'')], demo_procedure ''b'' []]"

definition demo_escalation_loop :: EngineConfig where
  "demo_escalation_loop = demo_procedures [demo_procedure ''a'' [(''open'', ''b'')], demo_procedure ''b'' [(''open'', ''a'')]]"

theorem escalation_check_decides_witness:
  "acyclic (escalates_to (ec_procedures demo_escalation_chain)) \<and> check_escalation_acyclic demo_escalation_loop \<noteq> Some (Inr ())"
proof -
  have "check_unique_names demo_escalation_chain = Inr ()" "check_unique_names demo_escalation_loop = Inr ()"
    by code_simp+
  moreover have "check_escalation_acyclic demo_escalation_chain = Some (Inr ())" by code_simp
  moreover have "\<not> acyclic (escalates_to (ec_procedures demo_escalation_loop))"
  proof -
    have "(''a'', ''b'') \<in> escalates_to (ec_procedures demo_escalation_loop)" "(''b'', ''a'') \<in> escalates_to (ec_procedures demo_escalation_loop)"
      by (force simp: escalates_to_def demo_escalation_loop_def demo_procedures_def demo_procedure_def)+
    then have "(''a'', ''a'') \<in> (escalates_to (ec_procedures demo_escalation_loop))\<^sup>+"
      by (meson r_into_trancl trancl_into_trancl)
    then show ?thesis by (auto simp: acyclic_def)
  qed
  ultimately show ?thesis using escalation_check_decides by blast
qed

end
