(* ===== verification/Layer_B.thy ===== *)
theory Layer_B
  imports Validation Registry
begin

text \<open>
  Layer B of the constitution engine: the Cedar policies synthesised for scoring rules, procedure
  triggers and procedure transitions (\<open>crates/yutha-cedar-plus/src/layer_b.rs\<close>), the scoring pass
  (\<open>scoring.rs\<close>) and the procedure state machines (\<open>procedure.rs\<close>). The Cedar library itself is a
  parameter: its parser, its validator and its authorizer, which reports a decision and the
  identifiers of the policies that determined it.
\<close>

section \<open>Cedar\<close>

text \<open>Entities and requests in plain types (\<open>eval.rs\<close>).\<close>

record EntityUid =
  entity_type :: string
  entity_id :: string

record EntityRecord =
  en_uid :: EntityUid
  en_attrs :: "(string, json_value) hash_map"
  en_parents :: "EntityUid list"

record EntitySnapshot =
  sn_entities :: "EntityRecord list"

definition entity_count :: "EntitySnapshot \<Rightarrow> nat" where
  "entity_count s = length (sn_entities s)"

record ('schema, 'policies, 'entities, 'request) cedar =
  ced_parse_policies :: "string \<Rightarrow> 'policies option"
  ced_no_policies :: 'policies
  ced_policy_count :: "'policies \<Rightarrow> nat"
  ced_validates :: "'schema \<Rightarrow> 'policies \<Rightarrow> bool"
  ced_parses_expression :: "string \<Rightarrow> bool"
  ced_entity_type_ok :: "string \<Rightarrow> bool"
  ced_entity_id_ok :: "string \<Rightarrow> bool"
  ced_entities :: "json_value \<Rightarrow> 'schema \<Rightarrow> 'entities option"
  ced_context_ok :: "json_value \<Rightarrow> bool"
  ced_request :: "EntityUid \<Rightarrow> EntityUid \<Rightarrow> EntityUid \<Rightarrow> json_value \<Rightarrow> 'schema \<Rightarrow> 'request option"
  ced_is_authorized :: "'request \<Rightarrow> 'policies \<Rightarrow> 'entities \<Rightarrow> bool \<times> string list"

section \<open>Artifacts\<close>

record ScoringRuleHandle =
  srh_rule_name :: string
  srh_score :: Score
  srh_score_scaled :: int

record TransitionHandle =
  th_procedure_name :: string
  th_from_state :: string
  th_to_state :: string
  th_action :: string

record 'policies LayerBArtifacts =
  lb_scoring_policy_set :: 'policies
  lb_scoring_by_policy_id :: "(string, ScoringRuleHandle) btree_map"
  lb_trigger_policy_set :: 'policies
  lb_trigger_by_policy_id :: "(string, string) btree_map"
  lb_transition_policy_set :: 'policies
  lb_transition_by_policy_id :: "(string, TransitionHandle) btree_map"

definition quoted :: "string \<Rightarrow> string" where
  "quoted s = CHR 0x22 # s @ [CHR 0x22]"

abbreviation newline :: string where
  "newline \<equiv> [CHR 0x0A]"

definition action_constraint :: "string \<Rightarrow> string" where
  "action_constraint a = ''action == Yutha::Action::'' @ quoted a"

definition policy_text :: "string \<Rightarrow> string \<Rightarrow> string \<Rightarrow> string" where
  "policy_text policy_id action_head when_clause =
     ''@id('' @ quoted policy_id @ '')'' @ newline @
     ''permit (principal, '' @ action_head @ '', resource)'' @ newline @
     ''when { '' @ when_clause @ '' };''"

fun join_blank_line :: "string list \<Rightarrow> string" where
  "join_blank_line [] = []"
| "join_blank_line [t] = t"
| "join_blank_line (t # u # ts) = t @ newline @ newline @ join_blank_line (u # ts)"

definition parse_synthesized_set ::
    "('s, 'p, 'e, 'q) cedar \<Rightarrow> string list \<Rightarrow> string \<Rightarrow> CedarPlusError + 'p" where
  "parse_synthesized_set cx texts domain =
     (if texts = [] then Inr (ced_no_policies cx)
      else ok_or (ced_parse_policies cx (join_blank_line texts))
             (CedarParse (''synthesized '' @ domain @ '' policy set failed to parse'')))"

section \<open>Synthesis\<close>

definition scoring_policy_id :: "ScoringRule \<Rightarrow> string" where
  "scoring_policy_id rule = ''scoring__'' @ sr_name rule"

definition scoring_policy_text :: "ScoringRule \<Rightarrow> string" where
  "scoring_policy_text rule =
     policy_text (scoring_policy_id rule)
       (case sh_action (sr_head rule) of Some a \<Rightarrow> action_constraint a | None \<Rightarrow> ''action'') (sr_when rule)"

fun scoring_handles ::
    "ScoringRule list \<Rightarrow> (string, ScoringRuleHandle) btree_map
     \<Rightarrow> CedarPlusError + (string, ScoringRuleHandle) btree_map" where
  "scoring_handles [] by_id = Inr by_id"
| "scoring_handles (rule # rules) by_id =
     rbind (map_err (InvalidScoringRule (sr_name rule)) (parse_score_scaled (sr_score rule))) (\<lambda>scaled.
       scoring_handles rules
         (bt_insert (scoring_policy_id rule)
            \<lparr>srh_rule_name = sr_name rule, srh_score = sr_score rule, srh_score_scaled = scaled\<rparr> by_id))"

definition synthesize_scoring ::
    "('s, 'p, 'e, 'q) cedar \<Rightarrow> ScoringRule list \<Rightarrow> CedarPlusError + 'p \<times> (string, ScoringRuleHandle) btree_map" where
  "synthesize_scoring cx rules =
     rbind (scoring_handles rules []) (\<lambda>by_id.
     rbind (parse_synthesized_set cx (map scoring_policy_text rules) ''scoring'') (\<lambda>ps.
       Inr (ps, by_id)))"

definition trigger_policy_id :: "Procedure \<Rightarrow> string" where
  "trigger_policy_id p = ''proc_trigger__'' @ pc_name p"

definition trigger_policy_text :: "Procedure \<Rightarrow> string" where
  "trigger_policy_text p =
     policy_text (trigger_policy_id p) (action_constraint (pt_action (pc_trigger p)))
       (case pt_when (pc_trigger p) of None \<Rightarrow> ''true'' | Some w \<Rightarrow> w)"

definition synthesize_triggers ::
    "('s, 'p, 'e, 'q) cedar \<Rightarrow> Procedure list \<Rightarrow> CedarPlusError + 'p \<times> (string, string) btree_map" where
  "synthesize_triggers cx procs =
     rbind (parse_synthesized_set cx (map trigger_policy_text procs) ''procedure trigger'') (\<lambda>ps.
       Inr (ps, fold (\<lambda>p. bt_insert (trigger_policy_id p) (pc_name p)) procs []))"

text \<open>The action-driven transitions of the procedures, in declaration order; timed ones have no policy.\<close>

definition action_transitions :: "Procedure list \<Rightarrow> (Procedure \<times> ProcedureTransition \<times> string) list" where
  "action_transitions procs =
     concat (map (\<lambda>p. concat (map (\<lambda>t. case t_action t of None \<Rightarrow> [] | Some a \<Rightarrow> [(p, t, a)]) (pc_transitions p))) procs)"

definition transition_policy_id :: "Procedure \<Rightarrow> ProcedureTransition \<Rightarrow> string" where
  "transition_policy_id p t = ''proc_trans__'' @ pc_name p @ ''__'' @ t_from t @ ''__'' @ t_to t"

definition transition_policy_text :: "Procedure \<Rightarrow> ProcedureTransition \<Rightarrow> string \<Rightarrow> string" where
  "transition_policy_text p t a =
     policy_text (transition_policy_id p t) (action_constraint a)
       (case t_actor_when t of None \<Rightarrow> ''true'' | Some w \<Rightarrow> w)"

definition transition_handle :: "Procedure \<Rightarrow> ProcedureTransition \<Rightarrow> string \<Rightarrow> TransitionHandle" where
  "transition_handle p t a =
     \<lparr>th_procedure_name = pc_name p, th_from_state = t_from t, th_to_state = t_to t, th_action = a\<rparr>"

definition synthesize_transitions ::
    "('s, 'p, 'e, 'q) cedar \<Rightarrow> Procedure list \<Rightarrow> CedarPlusError + 'p \<times> (string, TransitionHandle) btree_map" where
  "synthesize_transitions cx procs =
     (let ts = action_transitions procs in
      rbind (parse_synthesized_set cx (map (\<lambda>(p, t, a). transition_policy_text p t a) ts) ''procedure transition'') (\<lambda>ps.
        Inr (ps, fold (\<lambda>(p, t, a). bt_insert (transition_policy_id p t) (transition_handle p t a)) ts [])))"

definition synthesize ::
    "('s, 'p, 'e, 'q) cedar \<Rightarrow> EngineConfig \<Rightarrow> CedarPlusError + 'p LayerBArtifacts" where
  "synthesize cx resolved =
     rbind (synthesize_scoring cx (ec_scoring_rules resolved)) (\<lambda>(sset, sids).
     rbind (synthesize_triggers cx (ec_procedures resolved)) (\<lambda>(tset, tids).
     rbind (synthesize_transitions cx (ec_procedures resolved)) (\<lambda>(rset, rids).
       Inr \<lparr>lb_scoring_policy_set = sset, lb_scoring_by_policy_id = sids,
            lb_trigger_policy_set = tset, lb_trigger_by_policy_id = tids,
            lb_transition_policy_set = rset, lb_transition_by_policy_id = rids\<rparr>)))"

section \<open>An activated constitution\<close>

record ('schema, 'policies) ActivatedConstitution =
  av_constitution :: Constitution
  av_policy_set :: 'policies
  av_schema :: 'schema
  av_resolved_engine_config :: EngineConfig
  av_layer_b :: "'policies LayerBArtifacts"
  av_policy_count :: nat
  av_cedar_max_policy_depth :: nat

text \<open>The identifiers reported for one of the synthesised sets, in the order they are processed.\<close>

definition matched_ids ::
    "('s, 'p, 'e, 'q) cedar \<Rightarrow> 'q \<Rightarrow> 'e \<Rightarrow> 'p \<Rightarrow> string list" where
  "matched_ids cx rq ents ps = sort (snd (ced_is_authorized cx rq ps ents))"

section \<open>Scoring\<close>

record ScoreContribution =
  sc_rule_id :: string
  sc_score :: Score

record ScoringOutcome =
  so_contributions :: "ScoreContribution list"
  so_total_scaled :: int

definition scoring_outcome_default :: ScoringOutcome where
  "scoring_outcome_default = \<lparr>so_contributions = [], so_total_scaled = 0\<rparr>"

definition total_score :: "ScoringOutcome \<Rightarrow> Score option" where
  "total_score o1 = (if so_contributions o1 = [] then None else Some (render_score_scaled (so_total_scaled o1)))"

definition contribute ::
    "(string, ScoringRuleHandle) btree_map \<Rightarrow> string \<Rightarrow> ScoringOutcome \<Rightarrow> ScoringOutcome" where
  "contribute by_id policy_id o1 =
     (case bt_get by_id policy_id of
        None \<Rightarrow> o1
      | Some h \<Rightarrow>
          \<lparr>so_contributions = so_contributions o1 @ [\<lparr>sc_rule_id = srh_rule_name h, sc_score = srh_score h\<rparr>],
           so_total_scaled = saturating_add_i64 (so_total_scaled o1) (srh_score_scaled h)\<rparr>)"

definition evaluate_scoring ::
    "('s, 'p, 'e, 'q) cedar \<Rightarrow> 'q \<Rightarrow> 'e \<Rightarrow> ('s, 'p) ActivatedConstitution \<Rightarrow> ScoringOutcome" where
  "evaluate_scoring cx rq ents active =
     (let lb = av_layer_b active in
      if ced_policy_count cx (lb_scoring_policy_set lb) = 0 then scoring_outcome_default
      else fold (contribute (lb_scoring_by_policy_id lb))
             (matched_ids cx rq ents (lb_scoring_policy_set lb)) scoring_outcome_default)"

section \<open>Procedures\<close>

record ProcedureInstance =
  pi_instance_id :: string
  pi_procedure_name :: string
  pi_current_state :: string
  pi_entry_wall_clock :: string
  pi_closed :: bool

type_synonym ProcedureIndex = "(string, ProcedureInstance) hash_map"

definition record_enter :: "ProcedureInstance \<Rightarrow> ProcedureIndex \<Rightarrow> ProcedureIndex" where
  "record_enter i ix = hm_insert (pi_instance_id i) i ix"

definition record_transition :: "string \<Rightarrow> string \<Rightarrow> bool \<Rightarrow> ProcedureIndex \<Rightarrow> ProcedureIndex" where
  "record_transition instance_id new_state terminal ix =
     (case hm_get ix instance_id of
        None \<Rightarrow> ix
      | Some i \<Rightarrow> hm_insert instance_id (i\<lparr>pi_current_state := new_state, pi_closed := terminal\<rparr>) ix)"

definition has_open_instance :: "ProcedureIndex \<Rightarrow> string \<Rightarrow> bool" where
  "has_open_instance ix instance_id =
     (case hm_get ix instance_id of None \<Rightarrow> False | Some i \<Rightarrow> \<not> pi_closed i)"

definition open_instances_for :: "ProcedureIndex \<Rightarrow> string \<Rightarrow> ProcedureInstance list" where
  "open_instances_for ix name = filter (\<lambda>i. \<not> pi_closed i \<and> pi_procedure_name i = name) (map snd ix)"

record ProcedureEffect =
  pe_action_kind :: string
  pe_instance_id :: string

record ProcedureEvalContext =
  px_descriptor_digest :: Hash
  px_swarm_id :: string
  px_action_kind :: string
  px_wall_clock :: string

definition find_procedure :: "('s, 'p) ActivatedConstitution \<Rightarrow> string \<Rightarrow> Procedure option" where
  "find_procedure active name = find (\<lambda>p. pc_name p = name) (ec_procedures (av_resolved_engine_config active))"

definition procedure_instance_id :: "externals \<Rightarrow> ProcedureEvalContext \<Rightarrow> string \<Rightarrow> string" where
  "procedure_instance_id x ctx name =
     hex_encode (digest (sha256 x (as_bytes name @ digest (px_descriptor_digest ctx)
                                   @ as_bytes (px_swarm_id ctx) @ as_bytes (px_wall_clock ctx))))"

type_synonym procedure_pass = "ProcedureIndex \<times> ProcedureEffect list"

definition trigger_procedure ::
    "externals \<Rightarrow> ('s, 'p) ActivatedConstitution \<Rightarrow> ProcedureEvalContext \<Rightarrow> string \<Rightarrow> procedure_pass \<Rightarrow> procedure_pass" where
  "trigger_procedure x active ctx policy_id st =
     (case bt_get (lb_trigger_by_policy_id (av_layer_b active)) policy_id of
        None \<Rightarrow> st
      | Some name \<Rightarrow>
          let instance_id = procedure_instance_id x ctx name in
          if has_open_instance (fst st) instance_id then st
          else case find_procedure active name of
                 None \<Rightarrow> st
               | Some p \<Rightarrow>
                   (record_enter
                      \<lparr>pi_instance_id = instance_id, pi_procedure_name = name,
                       pi_current_state = pc_initial_state p,
                       pi_entry_wall_clock = px_wall_clock ctx, pi_closed = False\<rparr> (fst st),
                    snd st @ [\<lparr>pe_action_kind = ''procedure.enter'', pe_instance_id = instance_id\<rparr>]))"

definition triggers ::
    "externals \<Rightarrow> ('s, 'p, 'e, 'q) cedar \<Rightarrow> 'q \<Rightarrow> 'e \<Rightarrow> ('s, 'p) ActivatedConstitution \<Rightarrow> ProcedureEvalContext
     \<Rightarrow> procedure_pass \<Rightarrow> procedure_pass" where
  "triggers x cx rq ents active ctx st =
     (let ps = lb_trigger_policy_set (av_layer_b active) in
      if ced_policy_count cx ps = 0 then st
      else fold (trigger_procedure x active ctx) (matched_ids cx rq ents ps) st)"

text \<open>A transition moves every open instance of its procedure that is in its source state.\<close>

definition move_instance :: "TransitionHandle \<Rightarrow> bool \<Rightarrow> string \<Rightarrow> procedure_pass \<Rightarrow> procedure_pass" where
  "move_instance h terminal instance_id st =
     (record_transition instance_id (th_to_state h) terminal (fst st),
      snd st @ [\<lparr>pe_action_kind = ''procedure.transition'', pe_instance_id = instance_id\<rparr>])"

definition fire_transition ::
    "('s, 'p) ActivatedConstitution \<Rightarrow> TransitionHandle \<Rightarrow> procedure_pass \<Rightarrow> procedure_pass" where
  "fire_transition active h st =
     (let open_ids = map pi_instance_id
            (filter (\<lambda>i. pi_current_state i = th_from_state h) (open_instances_for (fst st) (th_procedure_name h)))
      in case find_procedure active (th_procedure_name h) of
           None \<Rightarrow> st
         | Some p \<Rightarrow> fold (move_instance h (th_to_state h \<in> set (pc_terminal_states p))) open_ids st)"

definition transition_procedure ::
    "('s, 'p) ActivatedConstitution \<Rightarrow> ProcedureEvalContext \<Rightarrow> string \<Rightarrow> procedure_pass \<Rightarrow> procedure_pass" where
  "transition_procedure active ctx policy_id st =
     (case bt_get (lb_transition_by_policy_id (av_layer_b active)) policy_id of
        None \<Rightarrow> st
      | Some h \<Rightarrow> if th_action h \<noteq> px_action_kind ctx then st else fire_transition active h st)"

definition transitions ::
    "('s, 'p, 'e, 'q) cedar \<Rightarrow> 'q \<Rightarrow> 'e \<Rightarrow> ('s, 'p) ActivatedConstitution \<Rightarrow> ProcedureEvalContext
     \<Rightarrow> procedure_pass \<Rightarrow> procedure_pass" where
  "transitions cx rq ents active ctx st =
     (let ps = lb_transition_policy_set (av_layer_b active) in
      if ced_policy_count cx ps = 0 then st
      else fold (transition_procedure active ctx) (matched_ids cx rq ents ps) st)"

definition evaluate_procedures ::
    "externals \<Rightarrow> ('s, 'p, 'e, 'q) cedar \<Rightarrow> 'q \<Rightarrow> 'e \<Rightarrow> ('s, 'p) ActivatedConstitution \<Rightarrow> ProcedureEvalContext
     \<Rightarrow> ProcedureIndex \<Rightarrow> procedure_pass" where
  "evaluate_procedures x cx rq ents active ctx ix =
     transitions cx rq ents active ctx (triggers x cx rq ents active ctx (ix, []))"

end
