(* ===== verification/Constitution_Engine.thy ===== *)
theory Constitution_Engine
  imports Layer_B "HOL-Library.Product_Lexorder"
begin

text \<open>
  Loading and evaluating constitutions: the loader with its validation stages
  (\<open>crates/yutha-cedar-plus/src/loader.rs\<close>, \<open>validate.rs\<close>) and the evaluator with its active and shadow
  slots, the two evaluation layers and the digests of its evidence (\<open>evaluator.rs\<close>, \<open>eval.rs\<close>). Besides
  Cedar, the display form of identifiers and the JSON encoder are parameters.
\<close>

record ('s, 'p, 'e, 'q) eval_deps =
  ed_cedar :: "('s, 'p, 'e, 'q) cedar"
  ed_ext :: externals
  ed_show_agent :: "AgentId \<Rightarrow> string"
  ed_show_swarm :: "SwarmId \<Rightarrow> string"
  ed_to_vec :: "json_value \<Rightarrow> bytes"

section \<open>Loading\<close>

record 'p ParsedCedar =
  pd_policy_set :: 'p
  pd_policy_count :: nat
  pd_cedar_max_policy_depth :: nat

definition parse_and_validate_cedar ::
    "('s, 'p, 'e, 'q) cedar \<Rightarrow> 's \<Rightarrow> string \<Rightarrow> SandboxConfig \<Rightarrow> CedarPlusError + 'p ParsedCedar" where
  "parse_and_validate_cedar cx schema source bounds =
     rbind (ok_or (ced_parse_policies cx source) (CedarParse ''Cedar source failed to parse'')) (\<lambda>ps.
       if max_cedar_policies bounds < ced_policy_count cx ps then Inl (LoadBoundExceeded PolicyCount)
       else if \<not> ced_validates cx schema ps then Inl (CedarParse ''Cedar validator rejected the policy set'')
       else if unat (max_policy_depth_at_load bounds) < estimate_cedar_depth source
       then Inl (LoadBoundExceeded PolicyDepth)
       else Inr \<lparr>pd_policy_set = ps, pd_policy_count = ced_policy_count cx ps,
                 pd_cedar_max_policy_depth = estimate_cedar_depth source\<rparr>)"

definition parse_cedar_expression :: "('s, 'p, 'e, 'q) cedar \<Rightarrow> string \<Rightarrow> CedarPlusError + unit" where
  "parse_cedar_expression cx expr =
     (if ced_parses_expression cx expr then Inr () else Inl (CedarParse ''Cedar expression failed to parse''))"

definition check_optional_expression ::
    "('s, 'p, 'e, 'q) cedar \<Rightarrow> CedarPlusError \<Rightarrow> string option \<Rightarrow> CedarPlusError + unit" where
  "check_optional_expression cx err w =
     (case w of None \<Rightarrow> Inr () | Some e \<Rightarrow> map_err (\<lambda>_. err) (parse_cedar_expression cx e))"

definition check_expressions :: "('s, 'p, 'e, 'q) cedar \<Rightarrow> EngineConfig \<Rightarrow> CedarPlusError + unit" where
  "check_expressions cx cfg =
     rbind (check_each (\<lambda>rule. map_err (\<lambda>_. InvalidScoringRule (sr_name rule) ''when expression rejected'')
              (parse_cedar_expression cx (sr_when rule))) (ec_scoring_rules cfg)) (\<lambda>_.
       check_each (\<lambda>p.
         rbind (check_optional_expression cx (InvalidProcedure (pc_name p) ''trigger.when rejected'')
                  (pt_when (pc_trigger p))) (\<lambda>_.
           check_each (\<lambda>t. check_optional_expression cx
               (InvalidProcedure (pc_name p) ''transition actor_when rejected'') (t_actor_when t))
             (pc_transitions p))) (ec_procedures cfg))"

text \<open>
  The search for escalation cycles always answers (theory \<open>Validation_Properties\<close>); the branch without an
  answer is not taken.
\<close>

definition structural_checks :: "EngineConfig \<Rightarrow> CedarPlusError + unit" where
  "structural_checks cfg =
     rbind (check_unique_names cfg) (\<lambda>_.
     rbind (check_scoring_rules cfg) (\<lambda>_.
     rbind (case check_procedures cfg of Some r \<Rightarrow> r | None \<Rightarrow> Inl (EvaluatorInternalError ''no answer'')) (\<lambda>_.
       check_enforcement_rules cfg)))"

definition load ::
    "('s, 'p, 'e, 'q) cedar \<Rightarrow> 's \<Rightarrow> SandboxConfig \<Rightarrow> Constitution \<Rightarrow> CedarPlusError + ('s, 'p) ActivatedConstitution" where
  "load cx schema bounds k =
     rbind (structural_checks (k_engine_config k)) (\<lambda>_.
     rbind (resolve_named_predicates (k_engine_config k)) (\<lambda>resolved.
     rbind (check_load_time_counts resolved bounds) (\<lambda>_.
     rbind (parse_and_validate_cedar cx schema (k_cedar_source k) bounds) (\<lambda>parsed.
     rbind (check_expressions cx resolved) (\<lambda>_.
     rbind (synthesize cx resolved) (\<lambda>lb.
       Inr \<lparr>av_constitution = k, av_policy_set = pd_policy_set parsed, av_schema = schema,
            av_resolved_engine_config = resolved, av_layer_b = lb,
            av_policy_count = pd_policy_count parsed,
            av_cedar_max_policy_depth = pd_cedar_max_policy_depth parsed\<rparr>))))))"

section \<open>Requests and outcomes\<close>

record EvaluationRequest =
  eq_constitution_hash :: Hash
  eq_schema_version :: string
  eq_action_kind :: string
  eq_principal_id :: AgentId
  eq_resource_uid :: EntityUid
  eq_context_attrs :: "(string, json_value) hash_map"
  eq_entity_snapshot :: EntitySnapshot
  eq_current_wall_clock :: string
  eq_current_time_unix_ns :: u64

datatype Decision = Permit | Deny

record EvaluationOutcome =
  eo_decision :: Decision
  eo_deny_reason :: "string option"
  eo_matched_rule_ids :: "string list"
  eo_score_contributions :: "ScoreContribution list"
  eo_total_score :: "Score option"
  eo_procedure_effects :: "ProcedureEffect list"
  eo_evidence_digest :: Hash
  eo_decided_at :: Timestamp

section \<open>Digests\<close>

definition uid_json :: "EntityUid \<Rightarrow> json_value" where
  "uid_json u = json_object [(''type'', JString (entity_type u)), (''id'', JString (entity_id u))]"

definition uid_key :: "EntityUid \<Rightarrow> string \<times> string" where
  "uid_key u = (entity_type u, entity_id u)"

definition canonical_entity :: "EntityRecord \<Rightarrow> json_value" where
  "canonical_entity e =
     json_object [(''uid'', uid_json (en_uid e)), (''attrs'', json_object (en_attrs e)),
                  (''parents'', JArray (map uid_json (sort_key uid_key (en_parents e))))]"

definition canonicalize_entity_snapshot :: "EntitySnapshot \<Rightarrow> json_value list" where
  "canonicalize_entity_snapshot s = map canonical_entity (sort_key (\<lambda>e. uid_key (en_uid e)) (sn_entities s))"

definition hash_input_attributes :: "('s, 'p, 'e, 'q) eval_deps \<Rightarrow> EvaluationRequest \<Rightarrow> Hash" where
  "hash_input_attributes dp rq =
     sha256 (ed_ext dp) (ed_to_vec dp (json_object
       [(''action_kind'', JString (eq_action_kind rq)),
        (''principal_id'', JString (ed_show_agent dp (eq_principal_id rq))),
        (''resource_uid'', uid_json (eq_resource_uid rq)),
        (''context_attrs'', json_object (eq_context_attrs rq)),
        (''entity_snapshot'', JArray (canonicalize_entity_snapshot (eq_entity_snapshot rq))),
        (''current_wall_clock'', JString (eq_current_wall_clock rq))]))"

definition compute_evidence_digest ::
    "('s, 'p, 'e, 'q) eval_deps \<Rightarrow> string list \<Rightarrow> ScoreContribution list \<Rightarrow> ProcedureEffect list \<Rightarrow> Hash \<Rightarrow> Hash" where
  "compute_evidence_digest dp ids scores effects input_digest =
     sha256 (ed_ext dp) (ed_to_vec dp (json_object
       [(''matched_rule_ids'', JArray (map JString ids)),
        (''score_contributions'', JArray (map (\<lambda>c. json_object
           [(''rule_id'', JString (sc_rule_id c)), (''score'', JString (sc_score c))]) scores)),
        (''procedure_effects'', JArray (map (\<lambda>f. json_object
           [(''action_kind'', JString (pe_action_kind f)), (''instance_id'', JString (pe_instance_id f))]) effects)),
        (''input_attribute_digest'', JString (hex_encode (digest input_digest)))]))"

section \<open>Cedar conversions\<close>

definition build_cedar_uid :: "('s, 'p, 'e, 'q) cedar \<Rightarrow> EntityUid \<Rightarrow> CedarPlusError + EntityUid" where
  "build_cedar_uid cx u =
     (if \<not> ced_entity_type_ok cx (entity_type u) then Inl (RequestShapeInvalid ''invalid entity type name'')
      else if \<not> ced_entity_id_ok cx (entity_id u) then Inl (EntityUnresolved ''invalid entity id'')
      else Inr u)"

definition entity_json :: "EntityRecord \<Rightarrow> json_value" where
  "entity_json e =
     json_object [(''uid'', uid_json (en_uid e)), (''attrs'', json_object (en_attrs e)),
                  (''parents'', JArray (map uid_json (en_parents e)))]"

definition build_cedar_entities ::
    "('s, 'p, 'e, 'q) cedar \<Rightarrow> EntitySnapshot \<Rightarrow> 's \<Rightarrow> CedarPlusError + 'e" where
  "build_cedar_entities cx s schema =
     ok_or (ced_entities cx (JArray (map entity_json (sn_entities s))) schema)
       (EntityUnresolved ''entity snapshot rejected by Cedar'')"

definition build_context :: "('s, 'p, 'e, 'q) cedar \<Rightarrow> (string, json_value) hash_map \<Rightarrow> CedarPlusError + json_value" where
  "build_context cx attrs =
     (if ced_context_ok cx (json_object attrs) then Inr (json_object attrs)
      else Inl (RequestShapeInvalid ''Cedar Context rejected''))"

text \<open>The position of the last \<open>::\<close>.\<close>

fun rfind_colons :: "string \<Rightarrow> nat option" where
  "rfind_colons [] = None"
| "rfind_colons (c # cs) =
     (case rfind_colons cs of
        Some i \<Rightarrow> Some (Suc i)
      | None \<Rightarrow> if c = CHR '':'' \<and> cs \<noteq> [] \<and> hd cs = CHR '':'' then Some 0 else None)"

definition action_uid :: "string \<Rightarrow> EntityUid" where
  "action_uid kind =
     (case rfind_colons kind of
        Some i \<Rightarrow> \<lparr>entity_type = take i kind, entity_id = drop (i + 2) kind\<rparr>
      | None \<Rightarrow> \<lparr>entity_type = ''Yutha::Action'', entity_id = kind\<rparr>)"

definition request_uids ::
    "('s, 'p, 'e, 'q) eval_deps \<Rightarrow> EvaluationRequest \<Rightarrow> CedarPlusError + EntityUid \<times> EntityUid \<times> EntityUid" where
  "request_uids dp rq =
     (let cx = ed_cedar dp in
      rbind (build_cedar_uid cx \<lparr>entity_type = ''Yutha::Agent'', entity_id = ed_show_agent dp (eq_principal_id rq)\<rparr>) (\<lambda>p.
      rbind (build_cedar_uid cx (action_uid (eq_action_kind rq))) (\<lambda>a.
      rbind (build_cedar_uid cx (eq_resource_uid rq)) (\<lambda>r. Inr (p, a, r)))))"

text \<open>The part of the preparation whose failure the shadow slot turns into a denial.\<close>

definition cedar_inputs ::
    "('s, 'p, 'e, 'q) eval_deps \<Rightarrow> EvaluationRequest \<Rightarrow> 's \<Rightarrow> EntityUid \<times> EntityUid \<times> EntityUid
     \<Rightarrow> CedarPlusError + 'e \<times> 'q" where
  "cedar_inputs dp rq schema uids =
     (let cx = ed_cedar dp; (p, a, r) = uids in
      rbind (build_cedar_entities cx (eq_entity_snapshot rq) schema) (\<lambda>ents.
      rbind (build_context cx (eq_context_attrs rq)) (\<lambda>ctx.
      rbind (ok_or (ced_request cx p a r ctx schema) (RequestShapeInvalid ''Cedar Request rejected'')) (\<lambda>q.
        Inr (ents, q)))))"

section \<open>Evaluation\<close>

definition schema_incompatible_deny ::
    "('s, 'p, 'e, 'q) eval_deps \<Rightarrow> EvaluationRequest \<Rightarrow> Timestamp \<Rightarrow> EvaluationOutcome" where
  "schema_incompatible_deny dp rq now =
     \<lparr>eo_decision = Deny, eo_deny_reason = Some ''shadow_schema_incompatible'', eo_matched_rule_ids = [],
      eo_score_contributions = [], eo_total_score = None, eo_procedure_effects = [],
      eo_evidence_digest = compute_evidence_digest dp [] [] [] (hash_input_attributes dp rq),
      eo_decided_at = now\<rparr>"

definition map_cedar_response ::
    "('s, 'p, 'e, 'q) eval_deps \<Rightarrow> bool \<times> string list \<Rightarrow> EvaluationRequest \<Rightarrow> ScoreContribution list \<Rightarrow> Score option
     \<Rightarrow> ProcedureEffect list \<Rightarrow> Timestamp \<Rightarrow> EvaluationOutcome" where
  "map_cedar_response dp response rq scores tot effects now =
     (let (allow, ids) = response in
      \<lparr>eo_decision = (if allow then Permit else Deny),
       eo_deny_reason = (if allow then None
                         else Some (if ids = [] then ''no_permit_rule'' else ''forbid_rule_matched'')),
       eo_matched_rule_ids = ids, eo_score_contributions = scores, eo_total_score = tot,
       eo_procedure_effects = effects,
       eo_evidence_digest = compute_evidence_digest dp (sort ids) scores effects (hash_input_attributes dp rq),
       eo_decided_at = now\<rparr>)"

datatype EvaluationMode = ActiveMode | ShadowMode

definition procedure_context ::
    "('s, 'p, 'e, 'q) eval_deps \<Rightarrow> EvaluationRequest \<Rightarrow> ('s, 'p) ActivatedConstitution \<Rightarrow> ProcedureEvalContext" where
  "procedure_context dp rq active =
     \<lparr>px_descriptor_digest = hash_input_attributes dp rq,
      px_swarm_id = ed_show_swarm dp (k_swarm_id (av_constitution active)),
      px_action_kind = eq_action_kind rq, px_wall_clock = eq_current_wall_clock rq\<rparr>"

text \<open>The two layers on prepared inputs: the decision first, scoring and procedures on a permit.\<close>

definition evaluate_layers ::
    "('s, 'p, 'e, 'q) eval_deps \<Rightarrow> EvaluationRequest \<Rightarrow> ('s, 'p) ActivatedConstitution \<Rightarrow> EvaluationMode \<Rightarrow> Timestamp
     \<Rightarrow> 'e \<Rightarrow> 'q \<Rightarrow> ProcedureIndex \<Rightarrow> EvaluationOutcome \<times> ProcedureIndex" where
  "evaluate_layers dp rq active mode now ents q ix =
     (let cx = ed_cedar dp;
          response = ced_is_authorized cx q (av_policy_set active) ents
      in if fst response
         then let scoring = evaluate_scoring cx q ents active;
                  (ix', effects) =
                    (case mode of
                       ActiveMode \<Rightarrow> evaluate_procedures (ed_ext dp) cx q ents active (procedure_context dp rq active) ix
                     | ShadowMode \<Rightarrow> (ix, []))
              in (map_cedar_response dp response rq (so_contributions scoring) (total_score scoring) effects now, ix')
         else (map_cedar_response dp response rq [] None [] now, ix))"

definition evaluate_against ::
    "('s, 'p, 'e, 'q) eval_deps \<Rightarrow> SandboxConfig \<Rightarrow> EvaluationRequest \<Rightarrow> ('s, 'p) ActivatedConstitution
     \<Rightarrow> EvaluationMode \<Rightarrow> Timestamp \<Rightarrow> ProcedureIndex \<Rightarrow> (CedarPlusError + EvaluationOutcome) \<times> ProcedureIndex" where
  "evaluate_against dp sandbox rq active mode now ix =
     (if max_entity_count sandbox < entity_count (eq_entity_snapshot rq)
      then (Inl (EvaluationBoundExceeded EntityStoreSize), ix)
      else case request_uids dp rq of
             Inl e \<Rightarrow> (Inl e, ix)
           | Inr uids \<Rightarrow>
               (case cedar_inputs dp rq (av_schema active) uids of
                  Inl e \<Rightarrow>
                    (case mode of
                       ShadowMode \<Rightarrow> (Inr (schema_incompatible_deny dp rq now), ix)
                     | ActiveMode \<Rightarrow> (Inl e, ix))
                | Inr (ents, q) \<Rightarrow>
                    (let (out, ix') = evaluate_layers dp rq active mode now ents q ix in (Inr out, ix'))))"

section \<open>The evaluator\<close>

record ('s, 'p) CedarPlusEvaluator =
  cv_schema :: 's
  cv_bounds :: SandboxConfig
  cv_sandbox :: SandboxConfig
  cv_current :: "('s, 'p) ActivatedConstitution option"
  cv_current_shadow :: "('s, 'p) ActivatedConstitution option"
  cv_procedure_index :: ProcedureIndex

definition evaluator_new :: "'s \<Rightarrow> SandboxConfig \<Rightarrow> SandboxConfig \<Rightarrow> ('s, 'p) CedarPlusEvaluator" where
  "evaluator_new schema bounds sandbox =
     \<lparr>cv_schema = schema, cv_bounds = bounds, cv_sandbox = sandbox, cv_current = None,
      cv_current_shadow = None, cv_procedure_index = []\<rparr>"

abbreviation active_hash :: "('s, 'p) ActivatedConstitution \<Rightarrow> Hash" where
  "active_hash a \<equiv> k_constitution_hash (av_constitution a)"

definition evaluator_activate ::
    "('s, 'p, 'e, 'q) eval_deps \<Rightarrow> Constitution \<Rightarrow> ('s, 'p) CedarPlusEvaluator
     \<Rightarrow> (CedarPlusError + Hash) \<times> ('s, 'p) CedarPlusEvaluator" where
  "evaluator_activate dp k ev =
     (case load (ed_cedar dp) (cv_schema ev) (cv_bounds ev) k of
        Inl e \<Rightarrow> (Inl e, ev)
      | Inr a \<Rightarrow> (Inr (active_hash a), ev\<lparr>cv_current := Some a\<rparr>))"

definition activate_shadow ::
    "('s, 'p, 'e, 'q) eval_deps \<Rightarrow> Constitution \<Rightarrow> ('s, 'p) CedarPlusEvaluator
     \<Rightarrow> (CedarPlusError + Hash) \<times> ('s, 'p) CedarPlusEvaluator" where
  "activate_shadow dp k ev =
     (case load (ed_cedar dp) (cv_schema ev) (cv_bounds ev) k of
        Inl e \<Rightarrow> (Inl e, ev)
      | Inr a \<Rightarrow> (Inr (active_hash a), ev\<lparr>cv_current_shadow := Some a\<rparr>))"

definition clear_shadow :: "('s, 'p) CedarPlusEvaluator \<Rightarrow> Hash option \<times> ('s, 'p) CedarPlusEvaluator" where
  "clear_shadow ev = (map_option active_hash (cv_current_shadow ev), ev\<lparr>cv_current_shadow := None\<rparr>)"

record ('s, 'p) PromoteShadowOutcome =
  pso_from_active_constitution_hash :: "Hash option"
  pso_to_active_constitution_hash :: Hash
  pso_to_constitution_version :: string
  pso_schema_version :: string
  pso_promoted :: "('s, 'p) ActivatedConstitution"

definition promote_shadow ::
    "('s, 'p) CedarPlusEvaluator \<Rightarrow> ('s, 'p) PromoteShadowOutcome option \<times> ('s, 'p) CedarPlusEvaluator" where
  "promote_shadow ev =
     (case cv_current_shadow ev of
        None \<Rightarrow> (None, ev)
      | Some a \<Rightarrow>
          (Some \<lparr>pso_from_active_constitution_hash = map_option active_hash (cv_current ev),
                 pso_to_active_constitution_hash = active_hash a,
                 pso_to_constitution_version = k_constitution_version (av_constitution a),
                 pso_schema_version = k_schema_version (av_constitution a),
                 pso_promoted = a\<rparr>,
           ev\<lparr>cv_current := Some a, cv_current_shadow := None\<rparr>))"

definition resolve_active ::
    "EvaluationRequest \<Rightarrow> ('s, 'p) CedarPlusEvaluator \<Rightarrow> CedarPlusError + ('s, 'p) ActivatedConstitution" where
  "resolve_active rq ev =
     rbind (ok_or (cv_current ev) (ConstitutionUnresolved ''no active constitution'')) (\<lambda>a.
       if eq_constitution_hash rq \<noteq> active_hash a
       then Inl (ConstitutionUnresolved ''request pinned to another constitution'')
       else Inr a)"

definition evaluate ::
    "('s, 'p, 'e, 'q) eval_deps \<Rightarrow> EvaluationRequest \<Rightarrow> Timestamp \<Rightarrow> ('s, 'p) CedarPlusEvaluator
     \<Rightarrow> (CedarPlusError + EvaluationOutcome) \<times> ('s, 'p) CedarPlusEvaluator" where
  "evaluate dp rq now ev =
     (case resolve_active rq ev of
        Inl e \<Rightarrow> (Inl e, ev)
      | Inr a \<Rightarrow>
          (let (res, ix) = evaluate_against dp (cv_sandbox ev) rq a ActiveMode now (cv_procedure_index ev)
           in (res, ev\<lparr>cv_procedure_index := ix\<rparr>)))"

definition evaluate_pair ::
    "('s, 'p, 'e, 'q) eval_deps \<Rightarrow> EvaluationRequest \<Rightarrow> Timestamp \<Rightarrow> Timestamp \<Rightarrow> ('s, 'p) CedarPlusEvaluator
     \<Rightarrow> (CedarPlusError + EvaluationOutcome \<times> EvaluationOutcome option) \<times> ('s, 'p) CedarPlusEvaluator" where
  "evaluate_pair dp rq now shadow_now ev =
     (let (res, ev') = evaluate dp rq now ev in
      case res of
        Inl e \<Rightarrow> (Inl e, ev')
      | Inr out \<Rightarrow>
          (case cv_current_shadow ev of
             None \<Rightarrow> (Inr (out, None), ev')
           | Some s \<Rightarrow>
               (let (sres, ix) = evaluate_against dp (cv_sandbox ev)
                                   (rq\<lparr>eq_constitution_hash := active_hash s\<rparr>) s ShadowMode shadow_now
                                   (cv_procedure_index ev')
                in (rbind sres (\<lambda>sout. Inr (out, Some sout)), ev'\<lparr>cv_procedure_index := ix\<rparr>))))"

end
