(* ===== verification/Envelope_Service.thy ===== *)
theory Envelope_Service
  imports Control_Plane Transport Constitution_Engine Enforcement_Loop
begin

text \<open>
  The envelope service of the control plane (\<open>crates/yutha-control-plane/src/grpc/envelope.rs\<close>): a send
  passes authentication, the sender check, the capability check and the evaluation of the constitution,
  whose outcome is recorded before it counts, and reaches the transport only then. The handler reads
  the constitution slots twice, once itself and once inside the evaluator, so it is modelled as two
  steps between which other requests may run.
\<close>

section \<open>State\<close>

text \<open>
  The part of \<open>ControlPlaneState\<close> the services share. All components append to one receipt store, kept in
  the capability store of \<open>nd_cp\<close>; the transport works on it through \<open>run_transport\<close>.
\<close>

record ('s, 'p) NodeState =
  nd_cp :: ControlPlaneState
  nd_transport :: TransportState
  nd_evaluator :: "('s, 'p) CedarPlusEvaluator"
  nd_engine :: EngineState

record ('s, 'p, 'e, 'q) node_deps =
  ndp_cp :: cp_deps
  ndp_eval :: "('s, 'p, 'e, 'q) eval_deps"
  ndp_envelope_ctx :: envelope_ctx

abbreviation node_topology :: "('s, 'p, 'e, 'q) node_deps \<Rightarrow> Topology" where
  "node_topology dp \<equiv> rgd_topology (cpd_registry (ndp_cp dp))"

abbreviation show_agent_id :: "('s, 'p, 'e, 'q) node_deps \<Rightarrow> AgentId \<Rightarrow> string" where
  "show_agent_id dp \<equiv> ed_show_agent (ndp_eval dp)"

text \<open>The capability layer asks the enforcement engine for quarantined agents.\<close>

definition node_cp_deps :: "('s, 'p, 'e, 'q) node_deps \<Rightarrow> ('s, 'p) NodeState \<Rightarrow> cp_deps" where
  "node_cp_deps dp nd = (ndp_cp dp)\<lparr>cpd_quarantined := quarantine_source (show_agent_id dp) (nd_engine nd)\<rparr>"

definition node_observer :: "('s, 'p, 'e, 'q) node_deps \<Rightarrow> ('s, 'p) NodeState \<Rightarrow> observer" where
  "node_observer dp nd =
     \<lparr>ob_receipt_ctx = rgd_receipt_ctx (cpd_registry (ndp_cp dp)),
      ob_resolver = resolver_adapter (st_passports (nd_cp nd)),
      ob_control_plane = rgd_control_plane (cpd_registry (ndp_cp dp))\<rparr>"

definition node_receipts :: "('s, 'p) NodeState \<Rightarrow> MemoryStore" where
  "node_receipts nd = cs_receipts (st_capabilities (nd_cp nd))"

definition set_node_receipts :: "MemoryStore \<Rightarrow> ('s, 'p) NodeState \<Rightarrow> ('s, 'p) NodeState" where
  "set_node_receipts ms nd =
     nd\<lparr>nd_cp := (nd_cp nd)\<lparr>st_capabilities := (st_capabilities (nd_cp nd))\<lparr>cs_receipts := ms\<rparr>\<rparr>\<rparr>"

text \<open>Building, signing and appending a receipt; every failure is an internal error.\<close>

definition emit_receipt ::
    "('s, 'p, 'e, 'q) node_deps \<Rightarrow> observe_clock \<Rightarrow> string \<Rightarrow> SwarmId \<Rightarrow> string \<Rightarrow> Evidence list \<Rightarrow> ('s, 'p) NodeState
     \<Rightarrow> (Status + Hash) \<times> ('s, 'p) NodeState" where
  "emit_receipt dp ck action_kind swarm version evidence nd =
     (let (res, ms) = observe (node_observer dp nd) ck action_kind swarm version evidence (node_receipts nd)
      in (map_err (\<lambda>_. status InternalError ''receipt'') res, set_node_receipts ms nd))"

definition run_transport ::
    "('s, 'p, 'e, 'q) node_deps
     \<Rightarrow> (transport_deps \<Rightarrow> TransportState \<Rightarrow> 'r \<times> TransportState) \<Rightarrow> ('s, 'p) NodeState \<Rightarrow> 'r \<times> ('s, 'p) NodeState" where
  "run_transport dp f nd =
     (let (res, tr) = f \<lparr>trd_observer = node_observer dp nd, trd_envelope_ctx = ndp_envelope_ctx dp\<rparr>
                        ((nd_transport nd)\<lparr>tr_receipts := node_receipts nd\<rparr>)
      in (res, set_node_receipts (tr_receipts tr) (nd\<lparr>nd_transport := tr\<rparr>)))"

section \<open>Errors\<close>

fun transport_to_status :: "TransportError \<Rightarrow> Status" where
  "transport_to_status (EnvelopeRejected _) = status InvalidArgument ''transport''"
| "transport_to_status (Delivery _) = status InternalError ''transport''"
| "transport_to_status Timeout = status DeadlineExceeded ''transport''"
| "transport_to_status Backpressure = status ResourceExhausted ''transport''"
| "transport_to_status (TransportBackend _) = status InternalError ''transport''"
| "transport_to_status (TransportReceipt r) = receipt_to_status r"
| "transport_to_status (TransportCrypto _) = status InternalError ''transport''"
| "transport_to_status (TransportCore c) = core_to_status c"

section \<open>The evaluation request\<close>

definition swarm_scope :: "SwarmBroadcast \<Rightarrow> string" where
  "swarm_scope b = (if filter_tags b = [] then ''*'' else join_comma (filter_tags b))"

definition external_scope :: "ExternalEndpoint \<Rightarrow> string" where
  "external_scope e = ee_scheme e @ ''://'' @ ee_authority e @ ee_path_hint e"

definition recipient_descriptor_string :: "(AgentId \<Rightarrow> string) \<Rightarrow> Recipient \<Rightarrow> string" where
  "recipient_descriptor_string show_agent r =
     (case r of
        ToAgent a \<Rightarrow> ''agent:'' @ show_agent a
      | ToRole role \<Rightarrow> ''role:'' @ role
      | ToSwarm b \<Rightarrow> ''swarm:'' @ swarm_scope b
      | ToExternal e \<Rightarrow> ''external:'' @ external_scope e)"

fun performative_debug :: "Performative \<Rightarrow> string" where
  "performative_debug Propose = ''Propose''"
| "performative_debug Counter = ''Counter''"
| "performative_debug Commit = ''Commit''"
| "performative_debug Abort = ''Abort''"
| "performative_debug Release = ''Release''"
| "performative_debug Query = ''Query''"
| "performative_debug Inform = ''Inform''"
| "performative_debug PerfError = ''Error''"
| "performative_debug RequestAction = ''RequestAction''"
| "performative_debug Confirm = ''Confirm''"
| "performative_debug Decline = ''Decline''"

definition I64_MAX :: int where
  "I64_MAX = 9223372036854775807"

record ResolvedAgentAttrs =
  ra_framework :: string
  ra_passport_tier :: string
  ra_passport_hash :: string
  ra_reputation :: string
  ra_budget_remaining_usd_cents :: int
  ra_budget_remaining_tool_calls :: int
  ra_budget_remaining_compute_ms :: int

definition placeholder :: ResolvedAgentAttrs where
  "placeholder =
     \<lparr>ra_framework = [], ra_passport_tier = ''minimal'', ra_passport_hash = replicate 64 (CHR ''0''),
      ra_reputation = ''1.0'', ra_budget_remaining_usd_cents = I64_MAX,
      ra_budget_remaining_tool_calls = I64_MAX, ra_budget_remaining_compute_ms = I64_MAX\<rparr>"

fun passport_tier_str :: "PassportTier \<Rightarrow> string" where
  "passport_tier_str Minimal = ''minimal''"
| "passport_tier_str Standard = ''standard''"
| "passport_tier_str Verifiable = ''verifiable''"

definition resolve_agent_attrs ::
    "('s, 'p, 'e, 'q) node_deps \<Rightarrow> ('s, 'p) NodeState \<Rightarrow> AgentId \<Rightarrow> ResolvedAgentAttrs" where
  "resolve_agent_attrs dp nd a =
     (let attrs = placeholder\<lparr>ra_reputation := as_reputation (get_agent_state (nd_engine nd) (show_agent_id dp a))\<rparr> in
      case store_lookup (st_passports (nd_cp nd)) a of
        Inr (Some p) \<Rightarrow>
          attrs\<lparr>ra_framework := pp_framework p, ra_passport_tier := passport_tier_str (pp_tier p),
                ra_passport_hash :=
                  hex_encode (digest (passport_address (rgd_passport_ctx (cpd_registry (ndp_cp dp))) p))\<rparr>
      | _ \<Rightarrow> attrs)"

definition agent_entity :: "string \<Rightarrow> string \<Rightarrow> ResolvedAgentAttrs \<Rightarrow> EntityRecord" where
  "agent_entity agent_uid swarm_uid ra =
     \<lparr>en_uid = \<lparr>entity_type = ''Yutha::Agent'', entity_id = agent_uid\<rparr>,
      en_attrs =
        [(''agent_id'', JString agent_uid), (''passport_tier'', JString (ra_passport_tier ra)),
         (''framework'', JString (ra_framework ra)), (''passport_hash'', JString (ra_passport_hash ra)),
         (''reputation'', json_object [(''__extn'',
            json_object [(''fn'', JString ''decimal''), (''arg'', JString (ra_reputation ra))])]),
         (''budget_remaining_usd_cents'', JNumber (ra_budget_remaining_usd_cents ra)),
         (''budget_remaining_tool_calls'', JNumber (ra_budget_remaining_tool_calls ra)),
         (''budget_remaining_compute_ms'', JNumber (ra_budget_remaining_compute_ms ra))],
      en_parents = [\<lparr>entity_type = ''Yutha::Swarm'', entity_id = swarm_uid\<rparr>]\<rparr>"

definition resource_entity :: "string \<Rightarrow> string \<Rightarrow> string \<Rightarrow> string list \<Rightarrow> EntityRecord" where
  "resource_entity uid kind scope tags =
     \<lparr>en_uid = \<lparr>entity_type = ''Yutha::Resource'', entity_id = uid\<rparr>,
      en_attrs = [(''resource_kind'', JString kind), (''scope'', JString scope), (''tags'', JArray (map JString tags))],
      en_parents = []\<rparr>"

definition swarm_entity :: "string \<Rightarrow> string \<Rightarrow> string \<Rightarrow> EntityRecord" where
  "swarm_entity swarm_uid topology_mode constitution_version =
     \<lparr>en_uid = \<lparr>entity_type = ''Yutha::Swarm'', entity_id = swarm_uid\<rparr>,
      en_attrs = [(''swarm_id'', JString swarm_uid), (''topology_mode'', JString topology_mode),
                  (''constitution_version'', JString constitution_version)],
      en_parents = []\<rparr>"

text \<open>The resource of the request and the entity that has to accompany it.\<close>

definition recipient_resource :: "(AgentId \<Rightarrow> string) \<Rightarrow> Recipient \<Rightarrow> EntityUid \<times> EntityRecord option" where
  "recipient_resource show_agent r =
     (let resource = (\<lambda>kind scope tags.
            let uid = kind @ '':'' @ scope
            in (\<lparr>entity_type = ''Yutha::Resource'', entity_id = uid\<rparr>, Some (resource_entity uid kind scope tags)))
      in case r of
           ToAgent a \<Rightarrow> (\<lparr>entity_type = ''Yutha::Agent'', entity_id = show_agent a\<rparr>, None)
         | ToRole role \<Rightarrow> resource ''role'' role []
         | ToSwarm b \<Rightarrow> resource ''swarm'' (swarm_scope b) (filter_tags b)
         | ToExternal e \<Rightarrow> resource ''external'' (external_scope e) [])"

definition topology_mode_str :: "TopologyMode \<Rightarrow> string" where
  "topology_mode_str m = (case m of Closed \<Rightarrow> ''closed'' | Open \<Rightarrow> ''open'' | Hybrid \<Rightarrow> ''hybrid'')"

definition send_entities ::
    "('s, 'p, 'e, 'q) node_deps \<Rightarrow> ('s, 'p) NodeState \<Rightarrow> AgentId \<Rightarrow> Envelope \<Rightarrow> string \<Rightarrow> EntityRecord list" where
  "send_entities dp nd sender e constitution_version =
     (let swarm_uid = ed_show_swarm (ndp_eval dp) (top_swarm_id (node_topology dp));
          agent = (\<lambda>a. agent_entity (show_agent_id dp a) swarm_uid (resolve_agent_attrs dp nd a))
      in [agent sender,
          swarm_entity swarm_uid (topology_mode_str (top_mode (node_topology dp))) constitution_version]
         @ (case e_recipient e of ToAgent rid \<Rightarrow> if rid \<noteq> sender then [agent rid] else [] | _ \<Rightarrow> [])
         @ (case snd (recipient_resource (show_agent_id dp) (e_recipient e)) of None \<Rightarrow> [] | Some r \<Rightarrow> [r]))"

definition build_eval_request_for_send ::
    "('s, 'p, 'e, 'q) node_deps \<Rightarrow> ('s, 'p) NodeState \<Rightarrow> Timestamp \<Rightarrow> Hash \<Rightarrow> string \<Rightarrow> AgentId \<Rightarrow> Envelope \<Rightarrow> Hash option
     \<Rightarrow> EvaluationRequest" where
  "build_eval_request_for_send dp nd now constitution_hash constitution_version sender e cap_id =
     \<lparr>eq_constitution_hash = constitution_hash, eq_schema_version = ''1.1.0'', eq_action_kind = ''SendEnvelope'',
      eq_principal_id = sender,
      eq_resource_uid = fst (recipient_resource (show_agent_id dp) (e_recipient e)),
      eq_context_attrs =
        [(''performative'', JString (performative_debug (e_performative e))),
         (''payload_schema_id'', JString (e_payload_schema_id e)),
         (''tags'', JArray (map JString (e_tags e))),
         (''capability_id'', JString (case cap_id of None \<Rightarrow> [] | Some h \<Rightarrow> hex_encode (digest h))),
         (''estimated_cost_usd_cents'', JNumber 0), (''estimated_cost_tool_calls'', JNumber 0),
         (''estimated_cost_compute_ms'', JNumber 0),
         (''current_wall_clock'', JString (wall_clock now)),
         (''current_time_unix_ns'', JNumber (uint (monotonic_ns now)))],
      eq_entity_snapshot = \<lparr>sn_entities = send_entities dp nd sender e constitution_version\<rparr>,
      eq_current_wall_clock = wall_clock now, eq_current_time_unix_ns = monotonic_ns now\<rparr>"

section \<open>Receipts of an evaluation\<close>

definition optional_evidence :: "string \<Rightarrow> string \<Rightarrow> bytes option \<Rightarrow> Evidence list" where
  "optional_evidence key typ v = (case v of None \<Rightarrow> [] | Some b \<Rightarrow> [evidence_new key typ b])"

definition eval_evidence :: "(AgentId \<Rightarrow> string) \<Rightarrow> string \<Rightarrow> EvaluationOutcome \<Rightarrow> Hash \<Rightarrow> AgentId \<Rightarrow> Evidence list" where
  "eval_evidence show_agent hash_key out constitution_hash subject =
     [evidence_new hash_key ''type.yutha.dev/v1/Hash'' (digest constitution_hash),
      evidence_new ''action_kind'' ''type.yutha.dev/v1/String'' (as_bytes ''SendEnvelope''),
      evidence_new ''matched_rule_ids'' ''type.yutha.dev/v1/String'' (as_bytes (join_comma (eo_matched_rule_ids out))),
      evidence_new ''input_attribute_digest'' ''type.yutha.dev/v1/Hash'' (digest (eo_evidence_digest out)),
      evidence_new ''subject_agent_id'' ''type.yutha.dev/v1/AgentId'' (as_bytes (show_agent subject))]
     @ optional_evidence ''deny_reason'' ''type.yutha.dev/v1/String'' (map_option as_bytes (eo_deny_reason out))
     @ optional_evidence ''total_score'' ''type.yutha.dev/v1/String'' (map_option as_bytes (eo_total_score out))"

definition emit_constitution_eval_receipt ::
    "('s, 'p, 'e, 'q) node_deps \<Rightarrow> observe_clock \<Rightarrow> EvaluationOutcome \<Rightarrow> Hash \<Rightarrow> string \<Rightarrow> AgentId \<Rightarrow> Hash option
     \<Rightarrow> ('s, 'p) NodeState \<Rightarrow> (Status + Hash) \<times> ('s, 'p) NodeState" where
  "emit_constitution_eval_receipt dp ck out constitution_hash version subject shadow_hash nd =
     emit_receipt dp ck
       (case eo_decision out of Permit \<Rightarrow> ''constitution.evaluate.pass'' | Deny \<Rightarrow> ''constitution.evaluate.deny'')
       (top_swarm_id (node_topology dp)) version
       (eval_evidence (show_agent_id dp) ''constitution_hash'' out constitution_hash subject
        @ optional_evidence ''shadow_constitution_hash'' ''type.yutha.dev/v1/Hash'' (map_option digest shadow_hash)) nd"

definition emit_constitution_shadow_eval_receipt ::
    "('s, 'p, 'e, 'q) node_deps \<Rightarrow> observe_clock \<Rightarrow> EvaluationOutcome \<Rightarrow> Hash \<Rightarrow> string \<Rightarrow> AgentId
     \<Rightarrow> ('s, 'p) NodeState \<Rightarrow> (Status + Hash) \<times> ('s, 'p) NodeState" where
  "emit_constitution_shadow_eval_receipt dp ck out shadow_hash version subject nd =
     emit_receipt dp ck
       (case eo_decision out of Permit \<Rightarrow> ''constitution.evaluate.shadow.pass''
                              | Deny \<Rightarrow> ''constitution.evaluate.shadow.deny'')
       (top_swarm_id (node_topology dp)) version
       (eval_evidence (show_agent_id dp) ''shadow_constitution_hash'' out shadow_hash subject) nd"

section \<open>Sending\<close>

record SendEnvelopeRequest =
  se_envelope :: "proto_Envelope option"
  se_capability_id :: "proto_Hash option"

text \<open>The clock readings of one send.\<close>

record send_clock =
  sk_auth :: Timestamp
  sk_check :: cap_inputs
  sk_request :: Timestamp
  sk_decided :: Timestamp
  sk_shadow_decided :: Timestamp
  sk_eval :: observe_clock
  sk_shadow_eval :: observe_clock
  sk_admit :: Timestamp
  sk_send :: observe_clock

text \<open>What the first half of the handler hands to the second.\<close>

record pending_send =
  pn_agent :: AgentId
  pn_envelope :: Envelope
  pn_capability :: "Hash option"
  pn_constitution_hash :: Hash
  pn_constitution_version :: string
  pn_shadow :: "(Hash \<times> string) option"

definition send_descriptor :: "(AgentId \<Rightarrow> string) \<Rightarrow> Envelope \<Rightarrow> ActionDescriptor" where
  "send_descriptor show_agent e =
     \<lparr>ad_action_kind = ''envelope.send'', ad_resource_tags = e_tags e, ad_numeric_values = [],
      ad_recipient = Some (recipient_descriptor_string show_agent (e_recipient e)), ad_memory_scope = None\<rparr>"

definition decode_send ::
    "('s, 'p, 'e, 'q) node_deps \<Rightarrow> AuthContext \<Rightarrow> SendEnvelopeRequest \<Rightarrow> Status + Envelope \<times> Hash option" where
  "decode_send dp auth req =
     rbind (ok_or (se_envelope req) (missing_field ''envelope'')) (\<lambda>ep.
     rbind (map_err transport_to_status (envelope_try_from (ax_ext (cpd_auth (ndp_cp dp))) ep)) (\<lambda>e.
       if e_from_agent e \<noteq> auth_agent_id auth
       then Inl (status PermissionDenied ''from_agent must match the bearer-token agent_id'')
       else
         rbind (map_err core_to_status (transpose_map hash_try_from (se_capability_id req))) (\<lambda>cap.
           if top_require_capability_for_send (node_topology dp) \<and> cap = None
           then Inl (status InvalidArgument ''capability_id is required'')
           else Inr (e, cap))))"

definition check_send_capability ::
    "('s, 'p, 'e, 'q) node_deps \<Rightarrow> cap_inputs \<Rightarrow> Envelope \<Rightarrow> Hash option \<Rightarrow> ('s, 'p) NodeState
     \<Rightarrow> (Status + unit) \<times> ('s, 'p) NodeState" where
  "check_send_capability dp io e cap nd =
     (case cap of
        None \<Rightarrow> (Inr (), nd)
      | Some cap_id \<Rightarrow>
          (let (res, st) = run_capability
                 (check_capability (cap_deps_of (node_cp_deps dp nd) (nd_cp nd)) io cap_id
                    (send_descriptor (show_agent_id dp) e)) (nd_cp nd)
           in (rbind res (\<lambda>ev. if co_permitted (ce_outcome ev) then Inr ()
                               else Inl (status PermissionDenied ''capability check denied'')),
               nd\<lparr>nd_cp := st\<rparr>)))"

definition read_slots ::
    "AuthContext \<Rightarrow> Envelope \<Rightarrow> Hash option \<Rightarrow> ('s, 'p) CedarPlusEvaluator \<Rightarrow> Status + pending_send" where
  "read_slots auth e cap ev =
     rbind (ok_or (cv_current ev) (status FailedPrecondition ''no active constitution'')) (\<lambda>a.
       Inr \<lparr>pn_agent = auth_agent_id auth, pn_envelope = e, pn_capability = cap,
            pn_constitution_hash = active_hash a,
            pn_constitution_version = k_constitution_version (av_constitution a),
            pn_shadow = map_option (\<lambda>s. (active_hash s, k_constitution_version (av_constitution s)))
                          (cv_current_shadow ev)\<rparr>)"

definition send_front ::
    "('s, 'p, 'e, 'q) node_deps \<Rightarrow> send_clock \<Rightarrow> string option \<Rightarrow> SendEnvelopeRequest \<Rightarrow> ('s, 'p) NodeState
     \<Rightarrow> (Status + pending_send) \<times> ('s, 'p) NodeState" where
  "send_front dp ck authorization req nd =
     (case rbind (require_active_bearer_auth (ndp_cp dp) (sk_auth ck) authorization (nd_cp nd)) (\<lambda>auth.
           rbind (decode_send dp auth req) (\<lambda>d. Inr (auth, d))) of
        Inl s \<Rightarrow> (Inl s, nd)
      | Inr (auth, e, cap) \<Rightarrow>
          (let (res, nd1) = check_send_capability dp (sk_check ck) e cap nd
           in (rbind res (\<lambda>_. read_slots auth e cap (nd_evaluator nd1)), nd1)))"

text \<open>The outcome of the handler; an \<open>expect\<close> that fails is a panic.\<close>

datatype send_outcome = Sent Hash | Refused Status | Panicked

definition deliver_permitted ::
    "('s, 'p, 'e, 'q) node_deps \<Rightarrow> send_clock \<Rightarrow> pending_send \<Rightarrow> EvaluationOutcome \<Rightarrow> ('s, 'p) NodeState
     \<Rightarrow> send_outcome \<times> ('s, 'p) NodeState" where
  "deliver_permitted dp ck pn out nd =
     (if eo_decision out = Deny then (Refused (status PermissionDenied ''constitution check denied''), nd)
      else let (res, nd') = run_transport dp (\<lambda>td. send td (sk_admit ck) (sk_send ck) (pn_envelope pn)) nd
           in (case res of Inl e \<Rightarrow> Refused (transport_to_status e) | Inr h \<Rightarrow> Sent h, nd'))"

definition record_shadow ::
    "('s, 'p, 'e, 'q) node_deps \<Rightarrow> send_clock \<Rightarrow> pending_send \<Rightarrow> EvaluationOutcome option \<Rightarrow> ('s, 'p) NodeState
     \<Rightarrow> (Status + unit) option \<times> ('s, 'p) NodeState" where
  "record_shadow dp ck pn shadow nd =
     (case shadow of
        None \<Rightarrow> (Some (Inr ()), nd)
      | Some out \<Rightarrow>
          (case pn_shadow pn of
             None \<Rightarrow> (None, nd)
           | Some (h, v) \<Rightarrow>
               (let (res, nd') = emit_constitution_shadow_eval_receipt dp (sk_shadow_eval ck) out h v (pn_agent pn) nd
                in (Some (rbind res (\<lambda>_. Inr ())), nd'))))"

definition send_back ::
    "('s, 'p, 'e, 'q) node_deps \<Rightarrow> send_clock \<Rightarrow> pending_send \<Rightarrow> ('s, 'p) NodeState
     \<Rightarrow> send_outcome \<times> ('s, 'p) NodeState" where
  "send_back dp ck pn nd =
     (let rq = build_eval_request_for_send dp nd (sk_request ck) (pn_constitution_hash pn)
                 (pn_constitution_version pn) (pn_agent pn) (pn_envelope pn) (pn_capability pn);
          (res, ev) = evaluate_pair (ndp_eval dp) rq (sk_decided ck) (sk_shadow_decided ck) (nd_evaluator nd);
          nd1 = nd\<lparr>nd_evaluator := ev\<rparr>
      in case res of
           Inl e \<Rightarrow> (Refused (status InternalError ''constitution eval''), nd1)
         | Inr (out, shadow) \<Rightarrow>
             (case emit_constitution_eval_receipt dp (sk_eval ck) out (pn_constitution_hash pn)
                     (pn_constitution_version pn) (pn_agent pn) (map_option fst (pn_shadow pn)) nd1 of
                (Inl s, nd2) \<Rightarrow> (Refused s, nd2)
              | (Inr _, nd2) \<Rightarrow>
                  (case record_shadow dp ck pn shadow nd2 of
                     (None, nd3) \<Rightarrow> (Panicked, nd3)
                   | (Some (Inl s), nd3) \<Rightarrow> (Refused s, nd3)
                   | (Some (Inr _), nd3) \<Rightarrow> deliver_permitted dp ck pn out nd3)))"

definition handle_send ::
    "('s, 'p, 'e, 'q) node_deps \<Rightarrow> send_clock \<Rightarrow> string option \<Rightarrow> SendEnvelopeRequest \<Rightarrow> ('s, 'p) NodeState
     \<Rightarrow> send_outcome \<times> ('s, 'p) NodeState" where
  "handle_send dp ck authorization req nd =
     (case send_front dp ck authorization req nd of
        (Inl s, nd1) \<Rightarrow> (Refused s, nd1)
      | (Inr pn, nd1) \<Rightarrow> send_back dp ck pn nd1)"

section \<open>Subscribing\<close>

text \<open>The inbox a subscription may read: the one of the caller.\<close>

definition subscribe_target ::
    "('s, 'p, 'e, 'q) node_deps \<Rightarrow> Timestamp \<Rightarrow> string option \<Rightarrow> proto_AgentId option \<Rightarrow> ('s, 'p) NodeState
     \<Rightarrow> Status + AgentId" where
  "subscribe_target dp now authorization agent_id nd =
     rbind (require_active_bearer_auth (ndp_cp dp) now authorization (nd_cp nd)) (\<lambda>auth.
       case agent_id of
         None \<Rightarrow> Inr (auth_agent_id auth)
       | Some p \<Rightarrow>
           rbind (map_err core_to_status (agent_try_from p)) (\<lambda>claimed.
             if claimed \<noteq> auth_agent_id auth
             then Inl (status PermissionDenied ''agent_id must match the bearer-token agent_id'')
             else Inr claimed))"

end
