(* ===== verification/Constitution_Service.thy ===== *)
theory Constitution_Service
  imports Envelope_Service
begin

text \<open>
  The constitution service (\<open>crates/yutha-control-plane/src/grpc/constitution.rs\<close>): operators activate a
  constitution, preview one in the shadow slot, clear it or promote it; agents read the slots. The YAML
  parser and printer and the protobuf encoder are parameters.
\<close>

section \<open>Wire format\<close>

record proto_Constitution =
  pk_spec_version :: "proto_Version option"
  pk_schema_version :: string
  pk_constitution_version :: string
  pk_parent_version :: "proto_Hash option"
  pk_swarm_id :: "proto_SwarmId option"
  pk_cedar_source :: string
  pk_engine_config_yaml :: string
  pk_issued_at :: "proto_Timestamp option"

record constitution_codec =
  kc_parse_yaml :: "string \<Rightarrow> EngineConfig option"
  kc_print_yaml :: "EngineConfig \<Rightarrow> string"
  kc_encode :: "proto_Constitution \<Rightarrow> bytes"
  kc_ext :: externals

fun cedar_plus_to_status :: "CedarPlusError \<Rightarrow> Status" where
  "cedar_plus_to_status (CedarParse _) = status InvalidArgument ''constitution parse''"
| "cedar_plus_to_status (SchemaVersionUnsupported _) = status FailedPrecondition ''schema_version''"
| "cedar_plus_to_status (InvalidScoringRule _ _) = status InvalidArgument ''scoring rule''"
| "cedar_plus_to_status (InvalidProcedure _ _) = status InvalidArgument ''procedure''"
| "cedar_plus_to_status (InvalidEnforcementRule _ _) = status InvalidArgument ''enforcement rule''"
| "cedar_plus_to_status (LoadBoundExceeded _) = status FailedPrecondition ''load-time bound exceeded''"
| "cedar_plus_to_status (RequestShapeInvalid m) = status InvalidArgument m"
| "cedar_plus_to_status (EntityUnresolved m) = status InvalidArgument m"
| "cedar_plus_to_status (ConstitutionUnresolved m) = status FailedPrecondition m"
| "cedar_plus_to_status (EvaluatorInternalError m) = status InternalError m"
| "cedar_plus_to_status (EvaluationBoundExceeded _) = status ResourceExhausted ''evaluation bound exceeded''"
| "cedar_plus_to_status (ProcedureTransitionAmbiguous _ _) = status InternalError ''procedure transition ambiguous''"
| "cedar_plus_to_status (Infrastructure m) = status InternalError m"

definition parse_engine_config_yaml :: "constitution_codec \<Rightarrow> string \<Rightarrow> CedarPlusError + EngineConfig" where
  "parse_engine_config_yaml kc yaml = ok_or (kc_parse_yaml kc yaml) (CedarParse ''engine config YAML'')"

definition constitution_from_proto :: "constitution_codec \<Rightarrow> proto_Constitution \<Rightarrow> Status + Constitution" where
  "constitution_from_proto kc p =
     rbind (required ''constitution.spec_version'' version_try_from (pk_spec_version p)) (\<lambda>v.
     rbind (required ''constitution.swarm_id'' swarm_try_from (pk_swarm_id p)) (\<lambda>s.
     rbind (required ''constitution.issued_at'' (timestamp_try_from (kc_ext kc)) (pk_issued_at p)) (\<lambda>t.
     rbind (map_err core_to_status (transpose_map hash_try_from (pk_parent_version p))) (\<lambda>parent.
     rbind (map_err cedar_plus_to_status (parse_engine_config_yaml kc (pk_engine_config_yaml p))) (\<lambda>cfg.
       Inr \<lparr>k_constitution_hash = sha256 (kc_ext kc) (kc_encode kc p), k_spec_version = v,
            k_schema_version = pk_schema_version p, k_constitution_version = pk_constitution_version p,
            k_parent_version = parent, k_swarm_id = s, k_cedar_source = pk_cedar_source p,
            k_engine_config = cfg, k_issued_at = t\<rparr>)))))"

definition constitution_to_proto :: "constitution_codec \<Rightarrow> Constitution \<Rightarrow> proto_Constitution" where
  "constitution_to_proto kc k =
     \<lparr>pk_spec_version = Some (proto_of_version (k_spec_version k)), pk_schema_version = k_schema_version k,
      pk_constitution_version = k_constitution_version k,
      pk_parent_version = map_option proto_of_hash (k_parent_version k),
      pk_swarm_id = Some (proto_of_swarm (k_swarm_id k)), pk_cedar_source = k_cedar_source k,
      pk_engine_config_yaml = kc_print_yaml kc (k_engine_config k),
      pk_issued_at = Some (proto_of_timestamp (k_issued_at k))\<rparr>"

section \<open>Receipts\<close>

definition emit_constitution_activate_receipt ::
    "('s, 'p, 'e, 'q) node_deps \<Rightarrow> observe_clock \<Rightarrow> Hash \<Rightarrow> string \<Rightarrow> SwarmId \<Rightarrow> ('s, 'p) NodeState
     \<Rightarrow> (Status + Hash) \<times> ('s, 'p) NodeState" where
  "emit_constitution_activate_receipt dp ck h version swarm nd =
     emit_receipt dp ck ''constitution.activate'' swarm version
       [evidence_new ''constitution_hash'' ''type.yutha.dev/v1/Hash'' (digest h),
        evidence_new ''constitution_version'' ''type.yutha.dev/v1/String'' (as_bytes version)] nd"

definition emit_constitution_shadow_activate_receipt ::
    "('s, 'p, 'e, 'q) node_deps \<Rightarrow> observe_clock \<Rightarrow> Hash \<Rightarrow> string \<Rightarrow> Hash option \<Rightarrow> string \<Rightarrow> SwarmId
     \<Rightarrow> ('s, 'p) NodeState \<Rightarrow> (Status + Hash) \<times> ('s, 'p) NodeState" where
  "emit_constitution_shadow_activate_receipt dp ck h version parent schema_version swarm nd =
     emit_receipt dp ck ''constitution.shadow_activate'' swarm version
       ([evidence_new ''shadow_constitution_hash'' ''type.yutha.dev/v1/Hash'' (digest h),
         evidence_new ''shadow_constitution_version'' ''type.yutha.dev/v1/String'' (as_bytes version),
         evidence_new ''schema_version'' ''type.yutha.dev/v1/String'' (as_bytes schema_version)]
        @ optional_evidence ''parent_active_constitution_hash'' ''type.yutha.dev/v1/Hash'' (map_option digest parent)) nd"

definition emit_constitution_shadow_clear_receipt ::
    "('s, 'p, 'e, 'q) node_deps \<Rightarrow> observe_clock \<Rightarrow> Hash option \<Rightarrow> string option \<Rightarrow> SwarmId
     \<Rightarrow> ('s, 'p) NodeState \<Rightarrow> (Status + Hash) \<times> ('s, 'p) NodeState" where
  "emit_constitution_shadow_clear_receipt dp ck previous version swarm nd =
     emit_receipt dp ck ''constitution.shadow_clear'' swarm
       (case version of
          Some v \<Rightarrow> v
        | None \<Rightarrow> (case cv_current (nd_evaluator nd) of
                     Some a \<Rightarrow> k_constitution_version (av_constitution a) | None \<Rightarrow> ''0.0.0''))
       (optional_evidence ''previously_shadowed_constitution_hash'' ''type.yutha.dev/v1/Hash''
          (map_option digest previous)) nd"

definition emit_constitution_shadow_promote_receipt ::
    "('s, 'p, 'e, 'q) node_deps \<Rightarrow> observe_clock \<Rightarrow> ('s, 'p) PromoteShadowOutcome \<Rightarrow> SwarmId
     \<Rightarrow> ('s, 'p) NodeState \<Rightarrow> (Status + Hash) \<times> ('s, 'p) NodeState" where
  "emit_constitution_shadow_promote_receipt dp ck out swarm nd =
     emit_receipt dp ck ''constitution.shadow_promote'' swarm (pso_to_constitution_version out)
       ([evidence_new ''to_active_constitution_hash'' ''type.yutha.dev/v1/Hash''
           (digest (pso_to_active_constitution_hash out)),
         evidence_new ''to_constitution_version'' ''type.yutha.dev/v1/String''
           (as_bytes (pso_to_constitution_version out)),
         evidence_new ''schema_version'' ''type.yutha.dev/v1/String'' (as_bytes (pso_schema_version out))]
        @ optional_evidence ''from_active_constitution_hash'' ''type.yutha.dev/v1/Hash''
            (map_option digest (pso_from_active_constitution_hash out))) nd"

section \<open>Handlers\<close>

definition operator_auth ::
    "('s, 'p, 'e, 'q) node_deps \<Rightarrow> Timestamp \<Rightarrow> string option \<Rightarrow> Status + OperatorAuthContext" where
  "operator_auth dp now authorization =
     require_operator_bearer_auth (cpd_auth (ndp_cp dp)) now authorization (cpd_operator_public_key (ndp_cp dp))
       (top_swarm_id (node_topology dp))"

text \<open>The enforcement engine follows the rules of the constitution it is bound to.\<close>

definition bind_engine :: "('s, 'p) ActivatedConstitution \<Rightarrow> ('s, 'p) NodeState \<Rightarrow> ('s, 'p) NodeState" where
  "bind_engine a nd =
     nd\<lparr>nd_engine := Enforcement.activate (ec_enforcement_rules (av_resolved_engine_config a)) (nd_engine nd)\<rparr>"

definition handle_activate ::
    "('s, 'p, 'e, 'q) node_deps \<Rightarrow> constitution_codec \<Rightarrow> Timestamp \<Rightarrow> observe_clock \<Rightarrow> string option
     \<Rightarrow> proto_Constitution option \<Rightarrow> ('s, 'p) NodeState \<Rightarrow> (Status + Hash \<times> Hash) \<times> ('s, 'p) NodeState" where
  "handle_activate dp kc now ck authorization kp nd =
     (case rbind (operator_auth dp now authorization) (\<lambda>op.
           rbind (ok_or kp (missing_field ''constitution'')) (\<lambda>p.
           rbind (constitution_from_proto kc p) (\<lambda>k. Inr (op, p, k)))) of
        Inl s \<Rightarrow> (Inl s, nd)
      | Inr (op, p, k) \<Rightarrow>
          (case evaluator_activate (ndp_eval dp) k (nd_evaluator nd) of
             (Inl e, ev) \<Rightarrow> (Inl (cedar_plus_to_status e), nd\<lparr>nd_evaluator := ev\<rparr>)
           | (Inr _, ev) \<Rightarrow>
               (let nd1 = nd\<lparr>nd_evaluator := ev\<rparr>;
                    (version, nd2) =
                      (case cv_current ev of
                         Some a \<Rightarrow> (k_constitution_version (av_constitution a), bind_engine a nd1)
                       | None \<Rightarrow> (pk_constitution_version p, nd1));
                    (res, nd3) = emit_constitution_activate_receipt dp ck (k_constitution_hash k) version
                                   (op_swarm_id op) nd2
                in (rbind res (\<lambda>r. Inr (k_constitution_hash k, r)), nd3))))"

definition handle_activate_shadow ::
    "('s, 'p, 'e, 'q) node_deps \<Rightarrow> constitution_codec \<Rightarrow> Timestamp \<Rightarrow> observe_clock \<Rightarrow> string option
     \<Rightarrow> proto_Constitution option \<Rightarrow> ('s, 'p) NodeState \<Rightarrow> (Status + Hash \<times> Hash) \<times> ('s, 'p) NodeState" where
  "handle_activate_shadow dp kc now ck authorization kp nd =
     (case rbind (operator_auth dp now authorization) (\<lambda>op.
           rbind (ok_or kp (missing_field ''constitution'')) (\<lambda>p.
           rbind (constitution_from_proto kc p) (\<lambda>k. Inr (op, p, k)))) of
        Inl s \<Rightarrow> (Inl s, nd)
      | Inr (op, p, k) \<Rightarrow>
          (let parent = map_option active_hash (cv_current (nd_evaluator nd)) in
           case activate_shadow (ndp_eval dp) k (nd_evaluator nd) of
             (Inl e, ev) \<Rightarrow> (Inl (cedar_plus_to_status e), nd\<lparr>nd_evaluator := ev\<rparr>)
           | (Inr h, ev) \<Rightarrow>
               (let (version, schema) =
                      (case cv_current_shadow ev of
                         Some a \<Rightarrow> (k_constitution_version (av_constitution a), k_schema_version (av_constitution a))
                       | None \<Rightarrow> (pk_constitution_version p, pk_schema_version p));
                    (res, nd1) = emit_constitution_shadow_activate_receipt dp ck h version parent schema
                                   (op_swarm_id op) (nd\<lparr>nd_evaluator := ev\<rparr>)
                in (rbind res (\<lambda>r. Inr (h, r)), nd1))))"

definition handle_clear_shadow ::
    "('s, 'p, 'e, 'q) node_deps \<Rightarrow> Timestamp \<Rightarrow> observe_clock \<Rightarrow> string option \<Rightarrow> ('s, 'p) NodeState
     \<Rightarrow> (Status + Hash \<times> Hash option) \<times> ('s, 'p) NodeState" where
  "handle_clear_shadow dp now ck authorization nd =
     (case operator_auth dp now authorization of
        Inl s \<Rightarrow> (Inl s, nd)
      | Inr op \<Rightarrow>
          (let version = map_option (\<lambda>a. k_constitution_version (av_constitution a)) (cv_current_shadow (nd_evaluator nd));
               (previous, ev) = clear_shadow (nd_evaluator nd);
               (res, nd1) = emit_constitution_shadow_clear_receipt dp ck previous version (op_swarm_id op)
                              (nd\<lparr>nd_evaluator := ev\<rparr>)
           in (rbind res (\<lambda>r. Inr (r, previous)), nd1)))"

definition handle_promote_shadow ::
    "('s, 'p, 'e, 'q) node_deps \<Rightarrow> Timestamp \<Rightarrow> observe_clock \<Rightarrow> string option \<Rightarrow> ('s, 'p) NodeState
     \<Rightarrow> (Status + Hash \<times> Hash \<times> Hash option) \<times> ('s, 'p) NodeState" where
  "handle_promote_shadow dp now ck authorization nd =
     (case operator_auth dp now authorization of
        Inl s \<Rightarrow> (Inl s, nd)
      | Inr op \<Rightarrow>
          (case promote_shadow (nd_evaluator nd) of
             (None, ev) \<Rightarrow>
               (Inl (status FailedPrecondition ''no shadow constitution to promote''), nd\<lparr>nd_evaluator := ev\<rparr>)
           | (Some out, ev) \<Rightarrow>
               (let (res, nd1) = emit_constitution_shadow_promote_receipt dp ck out (op_swarm_id op)
                                   (bind_engine (pso_promoted out) (nd\<lparr>nd_evaluator := ev\<rparr>))
                in (rbind res (\<lambda>r. Inr (pso_to_active_constitution_hash out, r,
                      pso_from_active_constitution_hash out)), nd1))))"

definition handle_get_active ::
    "('s, 'p, 'e, 'q) node_deps \<Rightarrow> constitution_codec \<Rightarrow> Timestamp \<Rightarrow> string option \<Rightarrow> ('s, 'p) NodeState
     \<Rightarrow> Status + proto_Constitution \<times> Hash" where
  "handle_get_active dp kc now authorization nd =
     rbind (require_active_bearer_auth (ndp_cp dp) now authorization (nd_cp nd)) (\<lambda>_.
     rbind (ok_or (cv_current (nd_evaluator nd)) (status NotFound ''no active constitution'')) (\<lambda>a.
       Inr (constitution_to_proto kc (av_constitution a), active_hash a)))"

definition handle_get_active_shadow ::
    "('s, 'p, 'e, 'q) node_deps \<Rightarrow> constitution_codec \<Rightarrow> Timestamp \<Rightarrow> string option \<Rightarrow> ('s, 'p) NodeState
     \<Rightarrow> Status + (proto_Constitution \<times> Hash) option" where
  "handle_get_active_shadow dp kc now authorization nd =
     rbind (require_active_bearer_auth (ndp_cp dp) now authorization (nd_cp nd)) (\<lambda>_.
       Inr (map_option (\<lambda>a. (constitution_to_proto kc (av_constitution a), active_hash a))
              (cv_current_shadow (nd_evaluator nd))))"

end
