(* ===== verification/Constitution_Properties.thy ===== *)
theory Constitution_Properties
  imports Constitution_Engine Validation_Properties Samples
begin

text \<open>
  Theorems about the constitution engine: the state machines of procedures stay within what their
  constitution declares, a shadow constitution only observes, the digest of the inputs does not depend on
  the order in which a snapshot was built, and what the identifiers of policies mean for Layer B.
\<close>

section \<open>What the loader guarantees\<close>

abbreviation procedures_of :: "('s, 'p) ActivatedConstitution \<Rightarrow> Procedure list" where
  "procedures_of a \<equiv> ec_procedures (av_resolved_engine_config a)"

definition moves_of :: "Procedure \<Rightarrow> (string \<times> string) set" where
  "moves_of p = set (map (\<lambda>t. (t_from t, t_to t)) (pc_transitions p))"

definition procedure_ok :: "Procedure \<Rightarrow> bool" where
  "procedure_ok p =
     (pc_initial_state p \<in> set (pc_states p)
      \<and> set (pc_terminal_states p) \<subseteq> set (pc_states p)
      \<and> moves_of p \<subseteq> (set (pc_states p) - set (pc_terminal_states p)) \<times> set (pc_states p)
      \<and> set (pc_states p) - set (pc_terminal_states p) \<subseteq> fst ` moves_of p)"

lemma procedure_ok_progress:
  assumes "procedure_ok p" "s \<in> set (pc_states p)" "s \<notin> set (pc_terminal_states p)"
  shows "\<exists>t \<in> set (pc_transitions p). t_from t = s"
proof -
  from assms have "s \<in> fst ` moves_of p" by (auto simp: procedure_ok_def)
  then show ?thesis by (auto simp: moves_of_def)
qed

lemma check_transitions_ok:
  "check_transitions p ts keys = Inr () \<Longrightarrow>
    \<forall>t \<in> set ts. t_from t \<in> set (pc_states p) - set (pc_terminal_states p) \<and> t_to t \<in> set (pc_states p)"
proof (induction ts arbitrary: keys)
  case (Cons t ts)
  from Cons.prems have "check_transition p t keys = Inr ()"
    and rest: "check_transitions p ts (insert (t_from t, transition_action_key t) keys) = Inr ()"
    by (auto simp: rbind_eq_Inr)
  then have "t_from t \<in> set (pc_states p) - set (pc_terminal_states p) \<and> t_to t \<in> set (pc_states p)"
    by (auto simp: check_transition_def Let_def split: if_splits)
  with Cons.IH [OF rest] show ?case by simp
qed simp

lemma check_procedure_ok:
  assumes "check_procedure_states p = Inr ()" and "check_procedure_transitions p = Inr ()"
  shows "procedure_ok p"
proof -
  from assms(2) have ts: "check_transitions p (pc_transitions p) {} = Inr ()"
    and out: "\<forall>s \<in> set (pc_states p). s \<in> set (pc_terminal_states p) \<or> (\<exists>t \<in> set (pc_transitions p). t_from t = s)"
    by (auto simp: check_procedure_transitions_def rbind_eq_Inr check_each_ok list_ex_iff split: if_splits)
  have "moves_of p \<subseteq> (set (pc_states p) - set (pc_terminal_states p)) \<times> set (pc_states p)"
    using check_transitions_ok [OF ts] by (auto simp: moves_of_def)
  moreover have "set (pc_states p) - set (pc_terminal_states p) \<subseteq> fst ` moves_of p"
    using out by (force simp: moves_of_def)
  ultimately show ?thesis
    using assms(1) by (auto simp: procedure_ok_def check_procedure_states_def check_each_ok split: if_splits)
qed

lemma structural_checks_ok:
  assumes "structural_checks cfg = Inr ()"
  shows "distinct (map pc_name (ec_procedures cfg))" "\<forall>p \<in> set (ec_procedures cfg). procedure_ok p"
proof -
  from assms have "check_unique_names cfg = Inr ()" and procs: "check_procedures cfg = Some (Inr ())"
    by (auto simp: structural_checks_def rbind_eq_Inr split: option.splits)
  then show "distinct (map pc_name (ec_procedures cfg))"
    by (auto simp: check_unique_names_def rbind_eq_Inr reject_duplicate_ok)
  from procs have "check_each (\<lambda>p. rbind (check_procedure_states p) (\<lambda>_. check_procedure_transitions p))
      (ec_procedures cfg) = Inr ()"
    by (auto simp: check_procedures_def split: sum.splits)
  then show "\<forall>p \<in> set (ec_procedures cfg). procedure_ok p"
    by (auto simp: check_each_ok rbind_eq_Inr intro: check_procedure_ok)
qed

text \<open>Substituting predicates changes conditions only.\<close>

definition same_graph :: "Procedure \<Rightarrow> Procedure \<Rightarrow> bool" where
  "same_graph p q =
     (pc_name q = pc_name p \<and> pc_initial_state q = pc_initial_state p \<and> pc_states q = pc_states p
      \<and> pc_terminal_states q = pc_terminal_states p
      \<and> map (\<lambda>t. (t_from t, t_to t)) (pc_transitions q) = map (\<lambda>t. (t_from t, t_to t)) (pc_transitions p))"

lemma collect_results_map:
  "collect_results (map f xs) = Inr ys \<longleftrightarrow> list_all2 (\<lambda>x y. f x = Inr y) xs ys"
proof (induction xs arbitrary: ys)
  case (Cons x xs)
  show ?case
    by (cases "f x"; cases ys) (auto simp: rbind_eq_Inr Cons.IH list_all2_Cons1)
qed auto

lemma resolve_transition_graph:
  "resolve_transition preds n t = Inr u \<Longrightarrow> (t_from u, t_to u) = (t_from t, t_to t)"
  by (auto simp: resolve_transition_def rbind_eq_Inr)

lemma resolve_procedure_graph: "resolve_procedure preds p = Inr q \<Longrightarrow> same_graph p q"
proof -
  assume "resolve_procedure preds p = Inr q"
  then obtain w ts where ts: "collect_results (map (resolve_transition preds (pc_name p)) (pc_transitions p)) = Inr ts"
    and q: "q = p\<lparr>pc_trigger := (pc_trigger p)\<lparr>pt_when := w\<rparr>, pc_transitions := ts\<rparr>"
    by (auto simp: resolve_procedure_def rbind_eq_Inr)
  from ts have "list_all2 (\<lambda>t u. (t_from u, t_to u) = (t_from t, t_to t)) (pc_transitions p) ts"
    unfolding collect_results_map by (rule list_all2_mono) (rule resolve_transition_graph)
  then have "map (\<lambda>t. (t_from t, t_to t)) ts = map (\<lambda>t. (t_from t, t_to t)) (pc_transitions p)"
    by (induction rule: list_all2_induct) auto
  with q show "same_graph p q" by (simp add: same_graph_def)
qed

lemma same_graph_ok: "same_graph p q \<Longrightarrow> procedure_ok p \<Longrightarrow> procedure_ok q"
  by (simp add: procedure_ok_def same_graph_def moves_of_def del: set_map)

lemma load_procedures:
  assumes "load cx schema bounds k = Inr a"
  shows "distinct (map pc_name (procedures_of a))" "\<forall>p \<in> set (procedures_of a). procedure_ok p"
proof -
  from assms have checks: "structural_checks (k_engine_config k) = Inr ()"
    and res: "resolve_named_predicates (k_engine_config k) = Inr (av_resolved_engine_config a)"
    by (auto simp: load_def rbind_eq_Inr)
  from res obtain rules ps where
    "collect_results (map (resolve_procedure (predicate_map (k_engine_config k))) (ec_procedures (k_engine_config k))) = Inr ps"
    and eq: "(k_engine_config k)\<lparr>ec_scoring_rules := rules, ec_procedures := ps\<rparr> = av_resolved_engine_config a"
    by (auto simp: resolve_named_predicates_def rbind_eq_Inr)
  then have "list_all2 (\<lambda>p q. resolve_procedure (predicate_map (k_engine_config k)) p = Inr q)
      (ec_procedures (k_engine_config k)) (procedures_of a)"
    by (simp add: collect_results_map eq [symmetric])
  then have same: "list_all2 same_graph (ec_procedures (k_engine_config k)) (procedures_of a)"
    by (rule list_all2_mono) (rule resolve_procedure_graph)
  then have "map pc_name (procedures_of a) = map pc_name (ec_procedures (k_engine_config k))"
    by (induction rule: list_all2_induct) (auto simp: same_graph_def)
  with structural_checks_ok [OF checks] show "distinct (map pc_name (procedures_of a))" by simp
  from same structural_checks_ok(2) [OF checks] show "\<forall>p \<in> set (procedures_of a). procedure_ok p"
    by (auto simp: list_all2_conv_all_nth in_set_conv_nth) (metis nth_mem same_graph_ok)
qed

section \<open>The procedure index\<close>

text \<open>
  An instance is typed by a list of procedures when its procedure is declared there, its state is a
  declared state, a closed instance is in a terminal state, and an open one is in a state from which a
  transition leads on, unless it was never moved.
\<close>

definition instance_typed :: "Procedure list \<Rightarrow> ProcedureInstance \<Rightarrow> bool" where
  "instance_typed ps i =
     (\<exists>p \<in> set ps. pc_name p = pi_procedure_name i \<and> pi_current_state i \<in> set (pc_states p)
        \<and> (if pi_closed i then pi_current_state i \<in> set (pc_terminal_states p)
           else pi_current_state i = pc_initial_state p \<or> pi_current_state i \<notin> set (pc_terminal_states p)))"

definition index_ok :: "(ProcedureInstance \<Rightarrow> bool) \<Rightarrow> ProcedureIndex \<Rightarrow> bool" where
  "index_ok T ix = (hm_wf ix \<and> (\<forall>n i. hm_get ix n = Some i \<longrightarrow> pi_instance_id i = n \<and> T i))"

lemma index_ok_Nil [simp]: "index_ok T []"
  by (simp add: index_ok_def hm_wf_def)

lemma index_ok_mono: "index_ok T ix \<Longrightarrow> (\<And>i. T i \<Longrightarrow> U i) \<Longrightarrow> index_ok U ix"
  by (auto simp: index_ok_def)

lemma index_ok_enter: "index_ok T ix \<Longrightarrow> T i \<Longrightarrow> index_ok T (record_enter i ix)"
  by (auto simp: index_ok_def record_enter_def hm_wf_def distinct_update)

lemma move_instance_get:
  "hm_get (fst (move_instance h b n st)) x =
     (if x = n then map_option (\<lambda>i. i\<lparr>pi_current_state := th_to_state h, pi_closed := b\<rparr>) (hm_get (fst st) x)
      else hm_get (fst st) x)"
  by (cases "hm_get (fst st) n") (auto simp: move_instance_def record_transition_def)

lemma moved_instances:
  "hm_get (fst (fold (move_instance h b) ns st)) x =
     (if x \<in> set ns then map_option (\<lambda>i. i\<lparr>pi_current_state := th_to_state h, pi_closed := b\<rparr>) (hm_get (fst st) x)
      else hm_get (fst st) x)"
proof (induction ns arbitrary: st)
  case (Cons n ns)
  show ?case by (simp add: Cons.IH move_instance_get option.map_comp comp_def)
qed simp

lemma moved_wf: "hm_wf (fst st) \<Longrightarrow> hm_wf (fst (fold (move_instance h b) ns st))"
proof (induction ns arbitrary: st)
  case (Cons n ns)
  have "hm_wf (fst (move_instance h b n st))"
    using Cons.prems by (auto simp: move_instance_def record_transition_def hm_wf_def distinct_update split: option.split)
  with Cons.IH show ?case by simp
qed simp

lemma find_procedure_mem: "find_procedure a n = Some p \<Longrightarrow> p \<in> set (procedures_of a) \<and> pc_name p = n"
  by (auto simp: find_procedure_def find_Some_iff)

lemma fire_transition_ok:
  assumes ok: "index_ok T (fst st)"
    and moved: "\<And>p i. \<lbrakk>find_procedure a (th_procedure_name h) = Some p; T i; pi_procedure_name i = th_procedure_name h\<rbrakk>
      \<Longrightarrow> T (i\<lparr>pi_current_state := th_to_state h, pi_closed := th_to_state h \<in> set (pc_terminal_states p)\<rparr>)"
  shows "index_ok T (fst (fire_transition a h st))"
proof (cases "find_procedure a (th_procedure_name h)")
  case None
  with ok show ?thesis by (simp add: fire_transition_def)
next
  case (Some p)
  let ?ns = "map pi_instance_id (filter (\<lambda>i. pi_current_state i = th_from_state h)
      (open_instances_for (fst st) (th_procedure_name h)))"
  have named: "pi_procedure_name i = th_procedure_name h" if "n \<in> set ?ns" "hm_get (fst st) n = Some i" for n i
  proof -
    from that(1) obtain m j where j: "(m, j) \<in> set (fst st)" "pi_procedure_name j = th_procedure_name h" "pi_instance_id j = n"
      by (auto simp: open_instances_for_def)
    with ok have "hm_get (fst st) m = Some j" by (simp add: index_ok_def hm_wf_def)
    with ok j(3) have "m = n" by (auto simp: index_ok_def)
    with \<open>hm_get (fst st) m = Some j\<close> that(2) j(2) show ?thesis by simp
  qed
  let ?ix = "fst (fold (move_instance h (th_to_state h \<in> set (pc_terminal_states p))) ?ns st)"
  have "pi_instance_id i = n \<and> T i" if "hm_get ?ix n = Some i" for n i
  proof (cases "n \<in> set ?ns")
    case True
    with that obtain j where "hm_get (fst st) n = Some j"
      "i = j\<lparr>pi_current_state := th_to_state h, pi_closed := th_to_state h \<in> set (pc_terminal_states p)\<rparr>"
      by (auto simp only: moved_instances if_True map_option_eq_Some)
    with ok moved [OF Some] named [OF True] show ?thesis by (auto simp: index_ok_def)
  next
    case False
    with that ok show ?thesis by (simp only: moved_instances if_False) (simp add: index_ok_def)
  qed
  moreover from ok have "hm_wf ?ix" by (intro moved_wf) (simp add: index_ok_def)
  ultimately show ?thesis by (simp add: fire_transition_def Some Let_def index_ok_def)
qed

section \<open>Evaluations keep the index typed\<close>

definition loaded :: "('s, 'p, 'e, 'q) cedar \<Rightarrow> ('s, 'p) ActivatedConstitution \<Rightarrow> bool" where
  "loaded cx a = (\<exists>schema bounds k. load cx schema bounds k = Inr a)"

lemma loaded_procedures:
  assumes "loaded cx a"
  shows "distinct (map pc_name (procedures_of a))" "\<And>p. p \<in> set (procedures_of a) \<Longrightarrow> procedure_ok p"
proof -
  from assms obtain schema bounds k where "load cx schema bounds k = Inr a" by (auto simp: loaded_def)
  from load_procedures [OF this]
  show "distinct (map pc_name (procedures_of a))" "\<And>p. p \<in> set (procedures_of a) \<Longrightarrow> procedure_ok p" by auto
qed

lemma fold_bt_insert_get:
  "bt_get (fold (\<lambda>e. bt_insert (f e) (g e)) es m) n = Some v \<Longrightarrow> bt_get m n = Some v \<or> v \<in> g ` set es"
  by (induction es arbitrary: m) (fastforce split: if_splits)+

lemma transition_handle_declared:
  assumes "loaded cx a" and "bt_get (lb_transition_by_policy_id (av_layer_b a)) n = Some h"
  shows "\<exists>p \<in> set (procedures_of a). pc_name p = th_procedure_name h \<and> th_to_state h \<in> set (pc_states p)"
proof -
  from assms(1) have "synthesize cx (av_resolved_engine_config a) = Inr (av_layer_b a)"
    by (auto simp: loaded_def load_def rbind_eq_Inr)
  then have "lb_transition_by_policy_id (av_layer_b a) =
      fold (\<lambda>e. bt_insert (transition_policy_id (fst e) (fst (snd e))) (transition_handle (fst e) (fst (snd e)) (snd (snd e))))
        (action_transitions (procedures_of a)) []"
    by (auto simp: synthesize_def synthesize_transitions_def Let_def rbind_eq_Inr case_prod_unfold
        dest: arg_cong [where f = lb_transition_by_policy_id])
  with assms(2) have "h \<in> (\<lambda>e. transition_handle (fst e) (fst (snd e)) (snd (snd e))) ` set (action_transitions (procedures_of a))"
    by (auto dest: fold_bt_insert_get)
  then obtain p t c where h: "(p, t, c) \<in> set (action_transitions (procedures_of a))" "h = transition_handle p t c"
    by auto
  then have "p \<in> set (procedures_of a)" "t \<in> set (pc_transitions p)"
    by (auto simp: action_transitions_def split: option.splits)
  with loaded_procedures(2) [OF assms(1)] have "t_to t \<in> set (pc_states p)"
    by (auto simp: procedure_ok_def moves_of_def)
  with \<open>p \<in> set (procedures_of a)\<close> h(2) show ?thesis by (auto simp: transition_handle_def)
qed

lemma entered_typed:
  assumes "loaded cx a" and "p \<in> set (procedures_of a)"
  shows "instance_typed (procedures_of a)
    \<lparr>pi_instance_id = n, pi_procedure_name = pc_name p, pi_current_state = pc_initial_state p,
     pi_entry_wall_clock = w, pi_closed = False\<rparr>"
  using loaded_procedures(2) [OF assms] assms(2) by (auto simp: instance_typed_def procedure_ok_def intro!: bexI [of _ p])

lemma trigger_procedure_ok:
  assumes "loaded cx a" and "index_ok T (fst st)" and T: "\<And>i. instance_typed (procedures_of a) i \<Longrightarrow> T i"
  shows "index_ok T (fst (trigger_procedure x a ctx n st))"
  using assms(2)
  by (auto simp: trigger_procedure_def Let_def dest!: find_procedure_mem
      intro!: index_ok_enter T entered_typed [OF assms(1)] split: option.split)

lemma transition_procedure_ok:
  assumes a: "loaded cx a" and "index_ok T (fst st)" and T: "\<And>i. instance_typed (procedures_of a) i \<Longrightarrow> T i"
  shows "index_ok T (fst (transition_procedure a ctx n st))"
proof (cases "bt_get (lb_transition_by_policy_id (av_layer_b a)) n")
  case (Some h)
  then obtain q where q: "q \<in> set (procedures_of a)" "pc_name q = th_procedure_name h" "th_to_state h \<in> set (pc_states q)"
    using transition_handle_declared [OF a] by blast
  have "index_ok T (fst (fire_transition a h st))"
  proof (rule fire_transition_ok [OF assms(2)])
    fix p and i :: ProcedureInstance assume p: "find_procedure a (th_procedure_name h) = Some p" and "pi_procedure_name i = th_procedure_name h"
    from find_procedure_mem [OF p] q loaded_procedures(1) [OF a] have "p = q"
      by (auto simp: distinct_map inj_on_def)
    with q \<open>pi_procedure_name i = th_procedure_name h\<close>
    show "T (i\<lparr>pi_current_state := th_to_state h, pi_closed := th_to_state h \<in> set (pc_terminal_states p)\<rparr>)"
      by (auto simp: instance_typed_def intro!: T)
  qed
  with Some assms(2) show ?thesis by (simp add: transition_procedure_def)
qed (use assms(2) in \<open>simp add: transition_procedure_def\<close>)

lemma evaluate_procedures_ok:
  assumes "loaded cx a" and "index_ok T ix" and "\<And>i. instance_typed (procedures_of a) i \<Longrightarrow> T i"
  shows "index_ok T (fst (evaluate_procedures x cx rq ents a ctx ix))"
proof -
  have "index_ok T (fst (triggers x cx rq ents a ctx (ix, [])))"
    using assms(2) by (auto simp: triggers_def Let_def
        intro!: fold_invariant [where P = "\<lambda>st. index_ok T (fst st)" and Q = "\<lambda>_. True"] trigger_procedure_ok [OF assms(1)] assms(3))
  then show ?thesis
    by (auto simp: evaluate_procedures_def transitions_def Let_def
        intro!: fold_invariant [where P = "\<lambda>st. index_ok T (fst st)" and Q = "\<lambda>_. True"] transition_procedure_ok [OF assms(1)] assms(3))
qed

lemma shadow_index: "snd (evaluate_against dp sb rq a ShadowMode now ix) = ix"
  by (auto simp: evaluate_against_def evaluate_layers_def Let_def split: sum.split)

lemma evaluate_against_ok:
  assumes "loaded (ed_cedar dp) a" and "index_ok T ix" and "\<And>i. instance_typed (procedures_of a) i \<Longrightarrow> T i"
  shows "index_ok T (snd (evaluate_against dp sb rq a mode now ix))"
  using assms(2) evaluate_procedures_ok [OF assms(1, 2, 3)]
  by (cases mode) (auto simp: evaluate_against_def evaluate_layers_def Let_def case_prod_beta split: sum.split)

section \<open>Reachable evaluators\<close>

text \<open>The states an evaluator reaches, with the constitutions that have been active so far.\<close>

inductive evaluator_reachable ::
    "('s, 'p, 'e, 'q) eval_deps \<Rightarrow> ('s, 'p) CedarPlusEvaluator \<Rightarrow> ('s, 'p) ActivatedConstitution set \<Rightarrow> bool" for dp where
  fresh: "evaluator_reachable dp (evaluator_new schema bounds sandbox) {}"
| activated: "evaluator_reachable dp ev H \<Longrightarrow> ev' = snd (evaluator_activate dp k ev)
    \<Longrightarrow> evaluator_reachable dp ev' (H \<union> set_option (cv_current ev'))"
| shadowed: "evaluator_reachable dp ev H \<Longrightarrow> evaluator_reachable dp (snd (activate_shadow dp k ev)) H"
| cleared: "evaluator_reachable dp ev H \<Longrightarrow> evaluator_reachable dp (snd (clear_shadow ev)) H"
| promoted: "evaluator_reachable dp ev H \<Longrightarrow> ev' = snd (promote_shadow ev)
    \<Longrightarrow> evaluator_reachable dp ev' (H \<union> set_option (cv_current ev'))"
| evaluated: "evaluator_reachable dp ev H \<Longrightarrow> evaluator_reachable dp (snd (evaluate dp rq now ev)) H"
| evaluated_pair: "evaluator_reachable dp ev H \<Longrightarrow> evaluator_reachable dp (snd (evaluate_pair dp rq now snow ev)) H"

definition evaluator_inv ::
    "('s, 'p, 'e, 'q) cedar \<Rightarrow> ('s, 'p) ActivatedConstitution set \<Rightarrow> ('s, 'p) CedarPlusEvaluator \<Rightarrow> bool" where
  "evaluator_inv cx H ev =
     ((\<forall>a \<in> H. loaded cx a) \<and> set_option (cv_current ev) \<subseteq> H
      \<and> (\<forall>a \<in> set_option (cv_current_shadow ev). loaded cx a)
      \<and> index_ok (\<lambda>i. \<exists>a \<in> H. instance_typed (procedures_of a) i) (cv_procedure_index ev))"

lemma evaluate_inv: "evaluator_inv (ed_cedar dp) H ev \<Longrightarrow> evaluator_inv (ed_cedar dp) H (snd (evaluate dp rq now ev))"
  by (auto simp: evaluator_inv_def evaluate_def resolve_active_def case_prod_beta Let_def rbind_eq_Inr ok_or_def
      intro!: evaluate_against_ok split: sum.split option.splits if_splits)

lemma evaluate_slots [simp]:
  "cv_current (snd (evaluate dp rq now ev)) = cv_current ev"
  "cv_current_shadow (snd (evaluate dp rq now ev)) = cv_current_shadow ev"
  "cv_sandbox (snd (evaluate dp rq now ev)) = cv_sandbox ev"
  by (simp_all add: evaluate_def case_prod_beta Let_def split: sum.split)

lemma evaluate_pair_state: "snd (evaluate_pair dp rq now snow ev) = snd (evaluate dp rq now ev)"
  by (auto simp: evaluate_pair_def case_prod_beta Let_def shadow_index split: sum.split option.split)

lemma reachable_inv: "evaluator_reachable dp ev H \<Longrightarrow> evaluator_inv (ed_cedar dp) H ev"
proof (induction rule: evaluator_reachable.induct)
  case (fresh schema bounds sandbox)
  then show ?case by (simp add: evaluator_inv_def evaluator_new_def)
next
  case (activated ev H ev' k)
  then show ?case
    by (auto simp: evaluator_inv_def evaluator_activate_def loaded_def elim!: index_ok_mono split: sum.splits)
next
  case (shadowed ev H k)
  then show ?case by (auto simp: evaluator_inv_def activate_shadow_def loaded_def split: sum.split)
next
  case (cleared ev H)
  then show ?case by (simp add: evaluator_inv_def clear_shadow_def)
next
  case (promoted ev H ev')
  then show ?case
    by (auto simp: evaluator_inv_def promote_shadow_def elim!: index_ok_mono split: option.splits)
next
  case (evaluated ev H rq now)
  then show ?case by (intro evaluate_inv)
next
  case (evaluated_pair ev H rq now snow)
  then show ?case by (simp add: evaluate_pair_state evaluate_inv)
qed

text \<open>
  Property (C7): procedure instances are well typed. In every state an evaluator reaches, through any
  sequence of activations, shadow operations and evaluations, each instance in the index is stored under
  its own identifier and belongs to a procedure of a constitution that has been active; its state is
  declared there; a closed instance is in a terminal state, and an open instance that has left the
  initial state is in a state with an outgoing transition, so it is not stuck.
\<close>

theorem procedure_instances_typed:
  assumes "evaluator_reachable dp ev H" and "hm_get (cv_procedure_index ev) n = Some i"
  shows "pi_instance_id i = n
    \<and> (\<exists>a \<in> H. \<exists>p \<in> set (ec_procedures (av_resolved_engine_config a)).
          pc_name p = pi_procedure_name i \<and> pi_current_state i \<in> set (pc_states p)
          \<and> (pi_closed i \<longrightarrow> pi_current_state i \<in> set (pc_terminal_states p))
          \<and> (\<not> pi_closed i \<and> pi_current_state i \<noteq> pc_initial_state p
              \<longrightarrow> (\<exists>t \<in> set (pc_transitions p). t_from t = pi_current_state i)))"
proof -
  from reachable_inv [OF assms(1)] assms(2) obtain a where a: "a \<in> H" "loaded (ed_cedar dp) a" "pi_instance_id i = n"
    and typed: "instance_typed (procedures_of a) i"
    unfolding evaluator_inv_def index_ok_def by blast
  from typed obtain p where p: "p \<in> set (procedures_of a)" "pc_name p = pi_procedure_name i"
    "pi_current_state i \<in> set (pc_states p)"
    "if pi_closed i then pi_current_state i \<in> set (pc_terminal_states p)
     else pi_current_state i = pc_initial_state p \<or> pi_current_state i \<notin> set (pc_terminal_states p)"
    by (auto simp only: instance_typed_def)
  from loaded_procedures(2) [OF a(2) p(1)]
  have "s \<in> set (pc_states p) \<Longrightarrow> s \<notin> set (pc_terminal_states p) \<Longrightarrow> \<exists>t \<in> set (pc_transitions p). t_from t = s" for s
    by (rule procedure_ok_progress)
  with a p show ?thesis by (metis (no_types, lifting))
qed

definition demo_cedar :: "string list \<Rightarrow> (unit, string, unit, unit) cedar" where
  "demo_cedar ids =
     \<lparr>ced_parse_policies = Some, ced_no_policies = [], ced_policy_count = (\<lambda>_. 1), ced_validates = (\<lambda>_ _. True),
      ced_parses_expression = (\<lambda>_. True), ced_entity_type_ok = (\<lambda>_. True), ced_entity_id_ok = (\<lambda>_. True),
      ced_entities = (\<lambda>_ _. Some ()), ced_context_ok = (\<lambda>_. True), ced_request = (\<lambda>_ _ _ _ _. Some ()),
      ced_is_authorized = (\<lambda>_ _ _. (True, ids))\<rparr>"

definition demo_eval :: "string list \<Rightarrow> (unit, string, unit, unit) eval_deps" where
  "demo_eval ids = \<lparr>ed_cedar = demo_cedar ids, ed_ext = demo_ext, ed_show_agent = (\<lambda>_. ''a''), ed_show_swarm = (\<lambda>_. ''s''),
     ed_to_vec = (\<lambda>_. [])\<rparr>"

definition demo_hash :: Hash where
  "demo_hash = \<lparr>algorithm = Sha256, digest = replicate 32 0\<rparr>"

definition demo_constitution :: "EngineConfig \<Rightarrow> Constitution" where
  "demo_constitution cfg =
     \<lparr>k_constitution_hash = demo_hash, k_spec_version = SpecVersion ''1.0.0'', k_schema_version = ''1.1.0'',
      k_constitution_version = ''1.0.0'', k_parent_version = None, k_swarm_id = SwarmId 1,
      k_cedar_source = ''permit (principal, action, resource);'', k_engine_config = cfg,
      k_issued_at = demo_time 1\<rparr>"

definition demo_request :: "string \<Rightarrow> EvaluationRequest" where
  "demo_request kind =
     \<lparr>eq_constitution_hash = demo_hash, eq_schema_version = ''1.1.0'', eq_action_kind = kind,
      eq_principal_id = AgentId 1, eq_resource_uid = \<lparr>entity_type = ''Yutha::Agent'', entity_id = ''b''\<rparr>,
      eq_context_attrs = [], eq_entity_snapshot = \<lparr>sn_entities = []\<rparr>, eq_current_wall_clock = ''t'',
      eq_current_time_unix_ns = 1\<rparr>"

definition demo_activated :: "string list \<Rightarrow> EngineConfig \<Rightarrow> (unit, string) CedarPlusEvaluator" where
  "demo_activated ids cfg =
     snd (evaluator_activate (demo_eval ids) (demo_constitution cfg) (evaluator_new () sandbox_default sandbox_default))"

definition demo_ids :: "string list" where
  "demo_ids = [''proc_trigger__a'', ''proc_trans__a__open__done'']"

definition demo_filed :: "(unit, string) CedarPlusEvaluator" where
  "demo_filed = snd (evaluate (demo_eval demo_ids) (demo_request ''file'') (demo_time 2) (demo_activated demo_ids demo_escalation_chain))"

lemma demo_filed_reachable:
  "evaluator_reachable (demo_eval demo_ids) demo_filed (set_option (cv_current (demo_activated demo_ids demo_escalation_chain)))"
  using evaluator_reachable.evaluated [OF evaluator_reachable.activated [OF evaluator_reachable.fresh refl]]
  unfolding demo_filed_def demo_activated_def by (metis Un_empty_left)

lemma demo_filed_index:
  "map (\<lambda>(n, i). (pi_procedure_name i, pi_current_state i, pi_closed i)) (cv_procedure_index demo_filed) =
     [(''a'', ''open'', False)]"
  by code_simp

theorem procedure_instances_typed_witness:
  "\<exists>n i. \<exists>p :: Procedure. hm_get (cv_procedure_index demo_filed) n = Some i \<and> pi_instance_id i = n
     \<and> pc_name p = pi_procedure_name i \<and> pi_current_state i \<in> set (pc_states p)"
proof -
  from demo_filed_index obtain n i where "cv_procedure_index demo_filed = [(n, i)]" by auto
  then have "hm_get (cv_procedure_index demo_filed) n = Some i" by simp
  with procedure_instances_typed [OF demo_filed_reachable this] show ?thesis by blast
qed

section \<open>The shadow slot\<close>

lemma evaluate_Inr:
  assumes "fst (evaluate dp rq now ev) = Inr out"
  shows "entity_count (eq_entity_snapshot rq) \<le> max_entity_count (cv_sandbox ev)" "\<exists>uids. request_uids dp rq = Inr uids"
  using assms
  by (auto simp: evaluate_def evaluate_against_def case_prod_beta Let_def split: sum.splits if_splits)

text \<open>
  The shadow outcome: the denial of an incompatible schema, or the layers without procedures.
\<close>

lemma shadow_evaluation:
  assumes "entity_count (eq_entity_snapshot rq) \<le> max_entity_count sb" and "request_uids dp rq = Inr uids"
  shows "\<exists>out. fst (evaluate_against dp sb (rq\<lparr>eq_constitution_hash := h\<rparr>) a ShadowMode now ix) = Inr out
     \<and> eo_procedure_effects out = []"
proof -
  have "request_uids dp (rq\<lparr>eq_constitution_hash := h\<rparr>) = Inr uids"
    using assms(2) by (simp add: request_uids_def)
  with assms(1) show ?thesis
    by (auto simp: evaluate_against_def evaluate_layers_def schema_incompatible_deny_def map_cedar_response_def
        case_prod_beta Let_def split: sum.split)
qed

text \<open>
  Property (C33): a shadow constitution only observes. Evaluating a request against both slots leaves the
  evaluator exactly as evaluating it against the active slot alone does, fails with the same error when
  that fails, and otherwise returns the same active outcome; a shadow outcome is present exactly when a
  shadow is loaded, it carries no procedure effect, and no shadow constitution can turn the evaluation
  into an error.
\<close>

theorem shadow_only_observes:
  "snd (evaluate_pair dp rq now snow ev) = snd (evaluate dp rq now ev)
   \<and> (case fst (evaluate dp rq now ev) of
        Inl e \<Rightarrow> fst (evaluate_pair dp rq now snow ev) = Inl e
      | Inr out \<Rightarrow> \<exists>sh. fst (evaluate_pair dp rq now snow ev) = Inr (out, sh)
          \<and> (sh = None \<longleftrightarrow> cv_current_shadow ev = None)
          \<and> (case sh of None \<Rightarrow> True | Some s \<Rightarrow> eo_procedure_effects s = []))"
proof (cases "fst (evaluate dp rq now ev)")
  case (Inl e)
  then show ?thesis by (simp add: evaluate_pair_state) (simp add: evaluate_pair_def case_prod_beta Let_def)
next
  case (Inr out)
  from evaluate_Inr [OF Inr] obtain uids where ok: "entity_count (eq_entity_snapshot rq) \<le> max_entity_count (cv_sandbox ev)"
    "request_uids dp rq = Inr uids" by blast
  show ?thesis
  proof (cases "cv_current_shadow ev")
    case None
    with Inr show ?thesis by (simp add: evaluate_pair_state) (simp add: evaluate_pair_def case_prod_beta Let_def)
  next
    case (Some s)
    obtain sout where "fst (evaluate_against dp (cv_sandbox ev) (rq\<lparr>eq_constitution_hash := active_hash s\<rparr>) s ShadowMode snow
        (cv_procedure_index (snd (evaluate dp rq now ev)))) = Inr sout" "eo_procedure_effects sout = []"
      using shadow_evaluation [OF ok] by blast
    with Inr Some show ?thesis
      by (simp add: evaluate_pair_state) (simp add: evaluate_pair_def case_prod_beta Let_def)
  qed
qed

section \<open>Identifiers of policies\<close>

lemma fold_bt_insert_key:
  "bt_get (fold (\<lambda>e. bt_insert (f e) (g e)) es m) n = Some v \<Longrightarrow> bt_get m n = None \<Longrightarrow> n \<in> f ` set es"
  by (induction es arbitrary: m) (fastforce split: if_splits)+

lemma scoring_handles_key:
  "scoring_handles rules by_id = Inr tab \<Longrightarrow> bt_get tab n = Some h \<Longrightarrow>
    bt_get by_id n = Some h \<or> n \<in> scoring_policy_id ` set rules"
  by (induction rules arbitrary: by_id) (fastforce simp: rbind_eq_Inr split: if_splits)+

definition layer_b_id :: "string \<Rightarrow> bool" where
  "layer_b_id n = (take 9 n = ''scoring__'' \<or> take 12 n = ''proc_trigger'' \<or> take 10 n = ''proc_trans'')"

lemma synthesized_ids:
  assumes "loaded cx a"
  shows "bt_get (lb_scoring_by_policy_id (av_layer_b a)) n = Some h \<Longrightarrow> layer_b_id n"
    and "bt_get (lb_trigger_by_policy_id (av_layer_b a)) n = Some s \<Longrightarrow> layer_b_id n"
    and "bt_get (lb_transition_by_policy_id (av_layer_b a)) n = Some t \<Longrightarrow> layer_b_id n"
proof -
  from assms have "synthesize cx (av_resolved_engine_config a) = Inr (av_layer_b a)"
    by (auto simp: loaded_def load_def rbind_eq_Inr)
  then obtain sset stab tset ttab rset rtab where
    s: "synthesize_scoring cx (ec_scoring_rules (av_resolved_engine_config a)) = Inr (sset, stab)"
    and t: "synthesize_triggers cx (procedures_of a) = Inr (tset, ttab)"
    and r: "synthesize_transitions cx (procedures_of a) = Inr (rset, rtab)"
    and lb: "\<lparr>lb_scoring_policy_set = sset, lb_scoring_by_policy_id = stab, lb_trigger_policy_set = tset,
      lb_trigger_by_policy_id = ttab, lb_transition_policy_set = rset, lb_transition_by_policy_id = rtab\<rparr> = av_layer_b a"
    by (auto simp: synthesize_def rbind_eq_Inr)
  note lb = lb [symmetric]
  from s have "scoring_handles (ec_scoring_rules (av_resolved_engine_config a)) [] = Inr stab"
    by (auto simp: synthesize_scoring_def rbind_eq_Inr)
  then show "bt_get (lb_scoring_by_policy_id (av_layer_b a)) n = Some h \<Longrightarrow> layer_b_id n"
    by (auto simp: lb layer_b_id_def scoring_policy_id_def dest: scoring_handles_key)
  from t have "ttab = fold (\<lambda>p. bt_insert (trigger_policy_id p) (pc_name p)) (procedures_of a) []"
    by (auto simp: synthesize_triggers_def rbind_eq_Inr)
  then show "bt_get (lb_trigger_by_policy_id (av_layer_b a)) n = Some s \<Longrightarrow> layer_b_id n"
    by (auto simp: lb layer_b_id_def trigger_policy_id_def dest!: fold_bt_insert_key)
  from r have "rtab = fold (\<lambda>e. bt_insert (transition_policy_id (fst e) (fst (snd e)))
      (transition_handle (fst e) (fst (snd e)) (snd (snd e)))) (action_transitions (procedures_of a)) []"
    by (auto simp: synthesize_transitions_def Let_def rbind_eq_Inr case_prod_unfold)
  then show "bt_get (lb_transition_by_policy_id (av_layer_b a)) n = Some t \<Longrightarrow> layer_b_id n"
    by (auto simp: lb layer_b_id_def transition_policy_id_def dest!: fold_bt_insert_key)
qed

text \<open>Whether an authorizer reports the identifiers that Cedar generates for the policies of a text.\<close>

definition reports_generated_ids :: "('s, 'p, 'e, 'q) cedar \<Rightarrow> bool" where
  "reports_generated_ids cx = (\<forall>q ps e. \<forall>n \<in> set (snd (ced_is_authorized cx q ps e)). take 6 n = ''policy'')"

lemma generated_not_layer_b: "take 6 n = ''policy'' \<Longrightarrow> \<not> layer_b_id n"
proof
  assume n: "take 6 n = ''policy''" and "layer_b_id n"
  then consider "take 6 (take 9 n) = take 6 ''scoring__''" | "take 6 (take 12 n) = take 6 ''proc_trigger''"
    | "take 6 (take 10 n) = take 6 ''proc_trans''"
    unfolding layer_b_id_def by metis
  then show False by cases (simp_all add: n)
qed

lemma fold_ignored: "(\<And>n s. n \<in> set ns \<Longrightarrow> f n s = s) \<Longrightarrow> fold f ns s = s"
  by (induction ns arbitrary: s) simp_all

lemma generated_ids_inert:
  assumes "loaded cx a" and "reports_generated_ids cx"
  shows "evaluate_scoring cx rq ents a = scoring_outcome_default"
    and "evaluate_procedures x cx rq ents a ctx ix = (ix, [])"
proof -
  have unknown: "\<not> layer_b_id n" if "n \<in> set (matched_ids cx rq ents ps)" for n ps
    using that assms(2) by (auto simp: matched_ids_def reports_generated_ids_def intro!: generated_not_layer_b)
  note none = synthesized_ids [OF assms(1)]
  show "evaluate_scoring cx rq ents a = scoring_outcome_default"
    by (auto simp: evaluate_scoring_def Let_def contribute_def dest!: unknown none(1) intro!: fold_ignored split: option.split)
  have "triggers x cx rq ents a ctx st = st" for st
    by (auto simp: triggers_def Let_def trigger_procedure_def dest!: unknown none(2) intro!: fold_ignored split: option.split)
  moreover have "transitions cx rq ents a ctx st = st" for st
    by (auto simp: transitions_def Let_def transition_procedure_def dest!: unknown none(3) intro!: fold_ignored split: option.split)
  ultimately show "evaluate_procedures x cx rq ents a ctx ix = (ix, [])"
    by (simp add: evaluate_procedures_def)
qed

text \<open>
  Property (C38): Layer B depends on the authorizer reporting the identifiers written in the \<open>@id\<close>
  annotations of the synthesised policies. Cedar's parser numbers the policies of a text instead
  (\<open>policy0\<close>, \<open>policy1\<close>, and so on); with an authorizer that reports those identifiers, no evaluation of any
  reachable evaluator has a score or a procedure effect, whatever the constitution declares, and no
  procedure instance ever exists.
\<close>

theorem layer_b_needs_annotated_ids:
  assumes "evaluator_reachable dp ev H" and "reports_generated_ids (ed_cedar dp)"
  shows "cv_procedure_index ev = []
    \<and> (fst (evaluate dp rq now ev) = Inr out
        \<longrightarrow> eo_score_contributions out = [] \<and> eo_total_score out = None \<and> eo_procedure_effects out = [])"
proof -
  have inert: "snd (evaluate_against dp sb rq a mode now ix) = ix
      \<and> (fst (evaluate_against dp sb rq a mode now ix) = Inr out
          \<longrightarrow> eo_score_contributions out = [] \<and> eo_total_score out = None \<and> eo_procedure_effects out = [])"
    if "loaded (ed_cedar dp) a" for sb rq a mode now ix out
    using generated_ids_inert [OF that assms(2)]
    by (auto simp: evaluate_against_def evaluate_layers_def Let_def case_prod_beta schema_incompatible_deny_def
        map_cedar_response_def scoring_outcome_default_def total_score_def split: sum.splits EvaluationMode.splits if_splits)
  have current: "loaded (ed_cedar dp) a" if "evaluator_reachable dp ev H" "cv_current ev = Some a" for ev H a
    using reachable_inv [OF that(1)] that(2) by (auto simp: evaluator_inv_def)
  have step: "cv_procedure_index (snd (evaluate dp rq now ev)) = cv_procedure_index ev" if "evaluator_reachable dp ev H" for ev H rq now
    using current [OF that] inert
    by (auto simp: evaluate_def resolve_active_def case_prod_beta Let_def rbind_eq_Inr ok_or_def split: sum.split option.splits if_splits)
  have "cv_procedure_index ev = []"
    using assms(1)
    by (induction rule: evaluator_reachable.induct)
      (auto simp: evaluator_new_def evaluator_activate_def activate_shadow_def clear_shadow_def promote_shadow_def
        evaluate_pair_state step split: sum.splits option.splits)
  moreover have "eo_score_contributions out = [] \<and> eo_total_score out = None \<and> eo_procedure_effects out = []"
    if "fst (evaluate dp rq now ev) = Inr out"
    using that current [OF assms(1)] inert
    by (auto simp: evaluate_def resolve_active_def case_prod_beta Let_def rbind_eq_Inr ok_or_def split: sum.splits option.splits if_splits)
  ultimately show ?thesis by blast
qed

theorem layer_b_needs_annotated_ids_witness:
  "cv_procedure_index (snd (evaluate (demo_eval [''policy0'']) (demo_request ''file'') (demo_time 2)
       (demo_activated [''policy0''] demo_escalation_chain))) = []
   \<and> cv_procedure_index demo_filed \<noteq> []"
proof -
  have reach: "evaluator_reachable (demo_eval [''policy0''])
      (snd (evaluate (demo_eval [''policy0'']) (demo_request ''file'') (demo_time 2) (demo_activated [''policy0''] demo_escalation_chain)))
      ({} \<union> set_option (cv_current (demo_activated [''policy0''] demo_escalation_chain)))"
    unfolding demo_activated_def
    by (intro evaluator_reachable.evaluated evaluator_reachable.activated [OF evaluator_reachable.fresh refl])
  have "reports_generated_ids (ed_cedar (demo_eval [''policy0'']))"
    by (simp add: reports_generated_ids_def demo_eval_def demo_cedar_def)
  with layer_b_needs_annotated_ids [OF reach] demo_filed_index show ?thesis by auto
qed

section \<open>Digests\<close>

text \<open>What an entity says, apart from the order in which it says it.\<close>

definition entity_view :: "EntityRecord \<Rightarrow> EntityUid \<times> (string \<Rightarrow> json_value option) \<times> EntityUid multiset" where
  "entity_view e = (en_uid e, hm_get (en_attrs e), mset (en_parents e))"

definition snapshot_ok :: "EntitySnapshot \<Rightarrow> bool" where
  "snapshot_ok s = (distinct (map en_uid (sn_entities s)) \<and> list_all (\<lambda>e. hm_wf (en_attrs e)) (sn_entities s))"

lemma fold_bt_insert_wf: "bt_wf m \<Longrightarrow> bt_wf (fold (\<lambda>(k, v). bt_insert k v) kvs m)"
  by (induction kvs arbitrary: m) (auto simp: bt_wf_insert)

lemma fold_bt_insert_map:
  "distinct (map fst kvs) \<Longrightarrow> bt_get (fold (\<lambda>(k, v). bt_insert k v) kvs m) = bt_get m ++ map_of kvs"
proof (induction kvs arbitrary: m)
  case (Cons e kvs)
  then have "fst e \<notin> dom (map_of kvs)" by (auto simp: dom_map_of_conv_image_fst)
  with Cons show ?case by (cases e) (simp add: map_add_upd_left fun_upd_def [symmetric])
qed simp

lemma json_object_eq_iff:
  assumes "hm_wf kvs" "hm_wf lvs"
  shows "json_object kvs = json_object lvs \<longleftrightarrow> hm_get kvs = hm_get lvs"
proof -
  have get: "bt_get (fold (\<lambda>(k, v). bt_insert k v) l []) = hm_get l" if "hm_wf l" for l :: "(string \<times> json_value) list"
    using that fold_bt_insert_map [of l "[]"] by (simp add: hm_wf_def)
  have wf: "bt_wf (fold (\<lambda>(k, v). bt_insert k v) l [])" for l :: "(string \<times> json_value) list"
    by (rule fold_bt_insert_wf) (simp add: bt_wf_def)
  show ?thesis
    unfolding json_object_def using bt_eqI [OF wf wf, of kvs lvs] get assms by (metis json_value.inject(4))
qed

lemma uid_json_inject [simp]: "uid_json u = uid_json v \<longleftrightarrow> u = v"
  by (cases u; cases v) (auto simp: uid_json_def json_object_def)

lemma uid_key_inject [simp]: "uid_key u = uid_key v \<longleftrightarrow> u = v"
  by (cases u; cases v) (auto simp: uid_key_def)

lemma sorted_uids_eq_iff: "sort_key uid_key xs = sort_key uid_key ys \<longleftrightarrow> mset xs = mset ys"
proof
  assume "mset xs = mset ys"
  then show "sort_key uid_key xs = sort_key uid_key ys"
    by (intro sort_key_inj_key_eq) (simp_all add: inj_on_def)
qed (metis mset_sort)

lemma canonical_entity_eq_iff:
  assumes "hm_wf (en_attrs e)" "hm_wf (en_attrs f)"
  shows "canonical_entity e = canonical_entity f \<longleftrightarrow> entity_view e = entity_view f"
proof -
  have "canonical_entity e = canonical_entity f \<longleftrightarrow>
      uid_json (en_uid e) = uid_json (en_uid f) \<and> json_object (en_attrs e) = json_object (en_attrs f)
      \<and> map uid_json (sort_key uid_key (en_parents e)) = map uid_json (sort_key uid_key (en_parents f))"
    by (auto simp: canonical_entity_def json_object_def [of "_ # _"])
  also have "map uid_json xs = map uid_json ys \<longleftrightarrow> xs = ys" for xs ys
    by (rule inj_map_eq_map) (simp add: inj_def)
  finally show ?thesis
    by (auto simp: entity_view_def json_object_eq_iff [OF assms] sorted_uids_eq_iff)
qed

lemma map_sort_key: "map f (sort_key (\<lambda>x. k (f x)) xs) = sort_key k (map f xs)"
proof -
  have "map f (insort_key (\<lambda>x. k (f x)) x ys) = insort_key k (f x) (map f ys)" for x ys
    by (induction ys) auto
  then show ?thesis by (induction xs) simp_all
qed

text \<open>
  the canonical form of an entity snapshot, which the digest of the inputs is taken over,
  identifies exactly the snapshots that say the same: for snapshots with one record for each entity, the
  canonical lists agree if and only if the records have the same identities, attribute values and
  parents, whatever the order in which records, attributes and parents are stored.
\<close>

theorem canonical_snapshot_complete:
  assumes "snapshot_ok s" and "snapshot_ok t"
  shows "canonicalize_entity_snapshot s = canonicalize_entity_snapshot t \<longleftrightarrow>
    mset (map entity_view (sn_entities s)) = mset (map entity_view (sn_entities t))"
proof -
  define sorted where "sorted = (\<lambda>u :: EntitySnapshot. sort_key (\<lambda>e. uid_key (en_uid e)) (sn_entities u))"
  have wf: "hm_wf (en_attrs e)" if "e \<in> set (sorted s) \<union> set (sorted t)" for e
    using that assms by (auto simp: sorted_def snapshot_ok_def list_all_iff)
  have "canonicalize_entity_snapshot s = canonicalize_entity_snapshot t \<longleftrightarrow>
      map canonical_entity (sorted s) = map canonical_entity (sorted t)"
    by (simp add: canonicalize_entity_snapshot_def sorted_def)
  also have "\<dots> \<longleftrightarrow> map entity_view (sorted s) = map entity_view (sorted t)"
    using wf canonical_entity_eq_iff by (auto simp: list_eq_iff_nth_eq)
  also have "\<dots> \<longleftrightarrow> sort_key (\<lambda>v. uid_key (fst v)) (map entity_view (sn_entities s)) =
      sort_key (\<lambda>v. uid_key (fst v)) (map entity_view (sn_entities t))"
    by (simp add: sorted_def map_sort_key [symmetric] entity_view_def)
  also have "\<dots> \<longleftrightarrow> mset (map entity_view (sn_entities s)) = mset (map entity_view (sn_entities t))"
  proof
    assume eq: "mset (map entity_view (sn_entities s)) = mset (map entity_view (sn_entities t))"
    have "inj_on fst (set (map entity_view (sn_entities s)))"
      using assms(1) by (auto simp: snapshot_ok_def entity_view_def distinct_map inj_on_def)
    then have "inj_on (\<lambda>v. uid_key (fst v)) (set (map entity_view (sn_entities s)))"
      by (auto simp: inj_on_def)
    with eq show "sort_key (\<lambda>v. uid_key (fst v)) (map entity_view (sn_entities s)) =
        sort_key (\<lambda>v. uid_key (fst v)) (map entity_view (sn_entities t))"
      by (intro sort_key_inj_key_eq) simp_all
  qed (metis mset_sort)
  finally show ?thesis .
qed

definition demo_entity :: "string \<Rightarrow> (string, json_value) hash_map \<Rightarrow> EntityRecord" where
  "demo_entity n attrs = \<lparr>en_uid = \<lparr>entity_type = ''Yutha::Agent'', entity_id = n\<rparr>, en_attrs = attrs, en_parents = []\<rparr>"

theorem canonical_snapshot_complete_witness:
  "canonicalize_entity_snapshot \<lparr>sn_entities = [demo_entity ''b'' [], demo_entity ''a'' [(''y'', JNumber 1), (''x'', JNumber 2)]]\<rparr> =
   canonicalize_entity_snapshot \<lparr>sn_entities = [demo_entity ''a'' [(''x'', JNumber 2), (''y'', JNumber 1)], demo_entity ''b'' []]\<rparr>"
  by (subst canonical_snapshot_complete)
    (auto simp: snapshot_ok_def demo_entity_def hm_wf_def entity_view_def fun_eq_iff)

section \<open>Collisions of synthesised identifiers\<close>

lemma fold_bt_insert_last:
  "e \<in> set es \<Longrightarrow> \<exists>e' \<in> set es. f e' = f e \<and> bt_get (fold (\<lambda>e. bt_insert (f e) (g e)) es m) (f e) = Some (g e')"
proof (induction es arbitrary: e m)
  case (Cons d es)
  show ?case
  proof (cases "f e \<in> f ` set es")
    case True
    then obtain e1 where e1: "e1 \<in> set es" "f e1 = f e" by auto
    from Cons.IH [OF e1(1), of "bt_insert (f d) (g d) m"] show ?thesis
      unfolding e1(2) by auto
  next
    case False
    with Cons.prems have "d = e" by auto
    have "bt_get (fold (\<lambda>e. bt_insert (f e) (g e)) es m1) (f e) = bt_get m1 (f e)" for m1
      using False by (induction es arbitrary: m1) auto
    with \<open>d = e\<close> show ?thesis by auto
  qed
qed simp

text \<open>
  the identifier of a transition's policy is built from the procedure and the two states
  and leaves out the action, while the validator only requires state and action to differ. When a later
  transition has the same identifier, the table of transitions keeps one of the later ones: the earlier
  declaration has no entry, so its action never moves an instance.
\<close>

theorem later_transition_replaces:
  assumes "action_transitions procs = us @ (p, t, a) # vs" and "(p', t', a') \<in> set vs"
    and "transition_policy_id p' t' = transition_policy_id p t"
    and "synthesize_transitions cx procs = Inr (ps, tab)"
  shows "\<exists>(q, u, b) \<in> set vs. bt_get tab (transition_policy_id p t) = Some (transition_handle q u b)"
proof -
  let ?id = "\<lambda>e. transition_policy_id (fst e) (fst (snd e))" and ?h = "\<lambda>e. transition_handle (fst e) (fst (snd e)) (snd (snd e))"
  obtain m where "tab = fold (\<lambda>e. bt_insert (?id e) (?h e)) vs m"
    using assms(1, 4) by (auto simp: synthesize_transitions_def Let_def rbind_eq_Inr case_prod_unfold)
  with fold_bt_insert_last [OF assms(2), of ?id ?h m] assms(3) show ?thesis by (force simp: case_prod_unfold)
qed

definition demo_two_ways :: Procedure where
  "demo_two_ways =
     (demo_procedure ''a'' [])\<lparr>pc_transitions :=
        map (\<lambda>c. \<lparr>t_from = ''open'', t_to = ''done'', t_action = Some c, t_actor_when = None, t_on_timeout = None\<rparr>)
          [''close'', ''cancel'']\<rparr>"

theorem later_transition_replaces_witness:
  "structural_checks (demo_procedures [demo_two_ways]) = Inr ()
   \<and> (\<exists>ps tab. synthesize_transitions (demo_cedar []) [demo_two_ways] = Inr (ps, tab)
        \<and> map_option th_action (bt_get tab ''proc_trans__a__open__done'') = Some ''cancel'')"
proof -
  have checks: "structural_checks (demo_procedures [demo_two_ways]) = Inr ()" by code_simp
  obtain t1 t2 where ts: "action_transitions [demo_two_ways] = [] @ (demo_two_ways, t1, ''close'') # [(demo_two_ways, t2, ''cancel'')]"
    and "transition_policy_id demo_two_ways t1 = ''proc_trans__a__open__done''"
      "transition_policy_id demo_two_ways t2 = ''proc_trans__a__open__done''"
    by (simp add: action_transitions_def demo_two_ways_def demo_procedure_def transition_policy_id_def)
  moreover obtain ps tab where "synthesize_transitions (demo_cedar []) [demo_two_ways] = Inr (ps, tab)"
    by (cases "synthesize_transitions (demo_cedar []) [demo_two_ways]")
      (auto simp: synthesize_transitions_def parse_synthesized_set_def demo_cedar_def Let_def rbind_eq_Inl split: if_splits)
  ultimately show ?thesis
    using checks later_transition_replaces [OF ts, of demo_two_ways t2 "''cancel''" "demo_cedar []" ps tab]
    by (auto simp: transition_handle_def)
qed

end
