(* ===== verification/Mediation_Properties.thy ===== *)
theory Mediation_Properties
  imports Constitution_Service Constitution_Properties Loop_Properties Access_Properties
begin

text \<open>
  Theorems about whole requests to a node: a send reaches the transport only through every check, what
  its audit record says, how the evaluator and the enforcement engine stay bound to the same
  constitution, and what happens when requests interleave.
\<close>

section \<open>Frames\<close>

lemma set_node_receipts_simps [simp]:
  "nd_transport (set_node_receipts ms nd) = nd_transport nd"
  "nd_evaluator (set_node_receipts ms nd) = nd_evaluator nd"
  "nd_engine (set_node_receipts ms nd) = nd_engine nd"
  "st_passports (nd_cp (set_node_receipts ms nd)) = st_passports (nd_cp nd)"
  "node_receipts (set_node_receipts ms nd) = ms"
  by (simp_all add: set_node_receipts_def node_receipts_def)

lemma node_emit_frame [simp]:
  "nd_transport (snd (emit_receipt dp ck k s v evs nd)) = nd_transport nd"
  "nd_evaluator (snd (emit_receipt dp ck k s v evs nd)) = nd_evaluator nd"
  "nd_engine (snd (emit_receipt dp ck k s v evs nd)) = nd_engine nd"
  "st_passports (nd_cp (snd (emit_receipt dp ck k s v evs nd))) = st_passports (nd_cp nd)"
  by (simp_all add: emit_receipt_def case_prod_beta Let_def)

lemma node_emit_keeps:
  "get_receipt (node_receipts nd) h = Some r \<Longrightarrow> get_receipt (node_receipts (snd (emit_receipt dp ck k s v evs nd))) h = Some r"
  by (simp add: emit_receipt_def case_prod_beta Let_def observe_keeps)

lemma node_emit_recorded:
  assumes "fst (emit_receipt dp ck k s v evs nd) = Inr h"
  shows "get_receipt (node_receipts (snd (emit_receipt dp ck k s v evs nd))) h \<noteq> None"
    "\<exists>r. observation (node_observer dp nd) ck k s v evs = Inr r \<and> h = content_address (ob_receipt_ctx (node_observer dp nd)) r"
proof -
  let ?o = "observe (node_observer dp nd) ck k s v evs (node_receipts nd)"
  from assms have h: "fst ?o = Inr h"
    by (cases "fst ?o") (auto simp: emit_receipt_def case_prod_beta Let_def)
  then show "get_receipt (node_receipts (snd (emit_receipt dp ck k s v evs nd))) h \<noteq> None"
    by (simp add: emit_receipt_def case_prod_beta Let_def observe_recorded)
  from h have "?o = (Inr h, snd ?o)" by (simp add: prod_eq_iff)
  then show "\<exists>r. observation (node_observer dp nd) ck k s v evs = Inr r \<and> h = content_address (ob_receipt_ctx (node_observer dp nd)) r"
    by (elim observe_Inr) auto
qed

lemma check_send_capability_frame [simp]:
  "nd_transport (snd (check_send_capability dp io e cap nd)) = nd_transport nd"
  "nd_evaluator (snd (check_send_capability dp io e cap nd)) = nd_evaluator nd"
  "nd_engine (snd (check_send_capability dp io e cap nd)) = nd_engine nd"
  "st_passports (nd_cp (snd (check_send_capability dp io e cap nd))) = st_passports (nd_cp nd)"
  by (auto simp: check_send_capability_def run_capability_def case_prod_beta Let_def split: option.split)

lemma check_send_capability_permits:
  assumes "fst (check_send_capability dp io e (Some c) nd) = Inr ()"
  shows "permits_now (cap_deps_of (node_cp_deps dp nd) (nd_cp nd)) io c (send_descriptor (show_agent_id dp) e)
    (st_capabilities (nd_cp nd))"
  using assms
  by (auto simp: check_send_capability_def run_capability_def check_capability_def case_prod_beta Let_def rbind_eq_Inr
      elim!: map_err.elims split: sum.splits if_splits)

lemma eval_request_cong:
  assumes "st_passports (nd_cp nd1) = st_passports (nd_cp nd)" "nd_engine nd1 = nd_engine nd"
  shows "build_eval_request_for_send dp nd1 = build_eval_request_for_send dp nd"
proof -
  have "resolve_agent_attrs dp nd1 = resolve_agent_attrs dp nd"
    by (simp add: fun_eq_iff resolve_agent_attrs_def assms)
  then show ?thesis by (simp add: fun_eq_iff build_eval_request_for_send_def send_entities_def)
qed

section \<open>Complete mediation\<close>

lemma record_shadow_frame [simp]:
  "nd_transport (snd (record_shadow dp ck pn sh nd)) = nd_transport nd"
  by (auto simp: record_shadow_def emit_constitution_shadow_eval_receipt_def case_prod_beta Let_def split: option.split)

lemma send_back_transport:
  assumes "nd_transport (snd (send_back dp ck pn nd)) \<noteq> nd_transport nd"
  obtains out where
    "fst (evaluate (ndp_eval dp) (build_eval_request_for_send dp nd (sk_request ck) (pn_constitution_hash pn)
        (pn_constitution_version pn) (pn_agent pn) (pn_envelope pn) (pn_capability pn)) (sk_decided ck) (nd_evaluator nd)) = Inr out"
    "eo_decision out = Permit"
proof -
  let ?rq = "build_eval_request_for_send dp nd (sk_request ck) (pn_constitution_hash pn)
        (pn_constitution_version pn) (pn_agent pn) (pn_envelope pn) (pn_capability pn)"
  let ?pair = "evaluate_pair (ndp_eval dp) ?rq (sk_decided ck) (sk_shadow_decided ck) (nd_evaluator nd)"
  obtain out sh where pair: "fst ?pair = Inr (out, sh)" and "eo_decision out = Permit"
  proof (cases "fst ?pair")
    case (Inl e)
    with assms show ?thesis by (simp add: send_back_def case_prod_beta Let_def)
  next
    case (Inr p)
    then obtain out sh where p: "fst ?pair = Inr (out, sh)" by (cases p) auto
    show ?thesis
    proof (cases "eo_decision out")
      case Deny
      with assms p show ?thesis
        by (auto simp: send_back_def emit_constitution_eval_receipt_def deliver_permitted_def case_prod_beta Let_def
            split: sum.splits option.splits prod.splits)
    qed (rule that [OF p])
  qed
  moreover have "fst (evaluate (ndp_eval dp) ?rq (sk_decided ck) (nd_evaluator nd)) = Inr out"
    using pair by (auto simp: evaluate_pair_def case_prod_beta Let_def rbind_eq_Inr split: sum.splits option.splits)
  ultimately show ?thesis using that by blast
qed

lemma send_front_Inr:
  assumes "fst (send_front dp ck h req nd) = Inr pn"
  obtains auth where "require_active_bearer_auth (ndp_cp dp) (sk_auth ck) h (nd_cp nd) = Inr auth"
    "decode_send dp auth req = Inr (pn_envelope pn, pn_capability pn)" "pn_agent pn = auth_agent_id auth"
    "fst (check_send_capability dp (sk_check ck) (pn_envelope pn) (pn_capability pn) nd) = Inr ()"
    "read_slots auth (pn_envelope pn) (pn_capability pn) (nd_evaluator nd) = Inr pn"
    "snd (send_front dp ck h req nd) = snd (check_send_capability dp (sk_check ck) (pn_envelope pn) (pn_capability pn) nd)"
  using assms
  by (auto simp: send_front_def case_prod_beta Let_def rbind_eq_Inr read_slots_def split: sum.splits)

lemma send_front_frame:
  "nd_transport (snd (send_front dp ck h req nd)) = nd_transport nd"
  "nd_evaluator (snd (send_front dp ck h req nd)) = nd_evaluator nd"
  "nd_engine (snd (send_front dp ck h req nd)) = nd_engine nd"
  "st_passports (nd_cp (snd (send_front dp ck h req nd))) = st_passports (nd_cp nd)"
  by (auto simp: send_front_def case_prod_beta Let_def split: sum.split)

lemma handle_send_split:
  "nd_transport (snd (handle_send dp ck h req nd)) \<noteq> nd_transport nd \<Longrightarrow>
    \<exists>pn. fst (send_front dp ck h req nd) = Inr pn
      \<and> handle_send dp ck h req nd = send_back dp ck pn (snd (send_front dp ck h req nd))"
  using send_front_frame(1) [of dp ck h req nd]
  by (cases "send_front dp ck h req nd"; cases "fst (send_front dp ck h req nd)") (auto simp: handle_send_def)

section \<open>A node on which the properties are applied\<close>

definition demo_node_deps :: "(unit, string, unit, unit) node_deps" where
  "demo_node_deps =
     \<lparr>ndp_cp = demo_cp, ndp_eval = demo_eval [],
      ndp_envelope_ctx = \<lparr>ecx_ext = demo_ext, ecx_encode = (\<lambda>p. pe_envelope_id p)\<rparr>\<rparr>"

text \<open>The only capability of the node is held by agent 7.\<close>

definition demo_node :: "(unit, string) NodeState" where
  "demo_node =
     \<lparr>nd_cp = demo_state\<lparr>st_capabilities :=
        demo_store\<lparr>cs_by_id := [(demo_id 1, demo_cap 1 (AgentId 7) ''envelope.send'' None)]\<rparr>\<rparr>,
      nd_transport = register_recipient (AgentId 3) (transport_new memory_store_new),
      nd_evaluator = demo_activated [] demo_escalation_chain,
      nd_engine = \<lparr>es_active = None, es_agents = [], es_counters = [], es_scheduled = []\<rparr>\<rparr>"

definition demo_send_clock :: send_clock where
  "demo_send_clock =
     \<lparr>sk_auth = demo_now, sk_check = demo_inputs, sk_request = demo_time 3, sk_decided = demo_time 3,
      sk_shadow_decided = demo_time 3, sk_eval = Transport_Properties.demo_clock,
      sk_shadow_eval = Transport_Properties.demo_clock, sk_admit = demo_time 3, sk_send = Transport_Properties.demo_clock\<rparr>"

definition demo_sent :: Envelope where
  "demo_sent = (demo_envelope (ToAgent (AgentId 3)) [7])\<lparr>e_from_agent := AgentId 2\<rparr>"

definition demo_send_request :: SendEnvelopeRequest where
  "demo_send_request =
     \<lparr>se_envelope = Some (proto_of_envelope demo_sent), se_capability_id = Some (proto_of_hash (demo_id 1))\<rparr>"

lemma demo_node_observe_ok:
  assumes "hm_get (ps_live (st_passports (nd_cp nd))) (AgentId 9) = Some (demo_passport (AgentId 9))"
  shows "\<exists>h ms'. observe (node_observer demo_node_deps nd) ck k s v ev ms = (Inr h, ms')"
proof -
  have v: "spec_version_parse ''1.0.0'' = Inr (SpecVersion ''1.0.0'')"
    by (simp add: spec_version_parse_def numeric_prefix_def parse_u32_def digits_value_def is_digit_def)
  define u where "u = \<lparr>r_spec_version = SpecVersion ''1.0.0'', r_swarm_id = s, r_actor = AgentId 9,
      r_action_kind = k, r_causal = causal_empty, r_evidence = ev, r_constitution_version = v,
      r_cost = None, r_occurred_at = oc_occurred ck, r_seal = unsealed, r_signatures = []\<rparr>"
  have u: "observation (node_observer demo_node_deps nd) ck k s v ev =
      Inr (u\<lparr>r_signatures := [\<lparr>sb_role = Actor, sb_signature = demo_signature (canonical_bytes demo_ctx u),
        sb_signed_at = oc_signed ck\<rparr>]\<rparr>)"
    by (simp add: observation_def v node_observer_def demo_node_deps_def demo_cp_def demo_registry_deps_def
        demo_identity_def receipt_build_def receipt_builder_new_def u_def)
  have "resolve_actor (resolver_adapter (st_passports (nd_cp nd))) (r_actor u) = Inr (Some demo_public_key)"
    using assms by (simp add: u_def demo_passport_def)
  from demo_append_signed [OF this, of "oc_signed ck" ms] show ?thesis
    unfolding observe_def u
    by (auto simp: node_observer_def demo_node_deps_def demo_cp_def demo_registry_deps_def)
qed

lemma demo_node_passports [simp]: "st_passports (nd_cp demo_node) = demo_passports"
  by (simp add: demo_node_def demo_state_def)

lemma demo_node_live:
  "st_passports (nd_cp nd) = demo_passports \<Longrightarrow>
     hm_get (ps_live (st_passports (nd_cp nd))) (AgentId 9) = Some (demo_passport (AgentId 9))"
  by (simp add: demo_passports_def)

lemma demo_node_emit_ok:
  "st_passports (nd_cp nd) = demo_passports \<Longrightarrow>
     \<exists>h. fst (emit_receipt demo_node_deps ck k s v ev nd) = Inr h"
  using demo_node_observe_ok [OF demo_node_live, of nd ck k s v ev "node_receipts nd"]
  by (auto simp: emit_receipt_def)

lemma demo_node_auth:
  "require_active_bearer_auth (ndp_cp demo_node_deps) (sk_auth demo_send_clock) (Some agent_header) (nd_cp demo_node)
    = Inr \<lparr>auth_agent_id = AgentId 2, auth_swarm_id = SwarmId 1, auth_expires_at = demo_expiry\<rparr>"
  by (simp add: demo_node_deps_def demo_send_clock_def)
    (rule demo_agent_auth, simp_all add: demo_node_def demo_state_def demo_passports_def)

lemma demo_decodes:
  "decode_send demo_node_deps \<lparr>auth_agent_id = AgentId 2, auth_swarm_id = SwarmId 1, auth_expires_at = demo_expiry\<rparr>
     demo_send_request = Inr (demo_sent, Some (demo_id 1))"
proof -
  have "envelope_ok demo_ext demo_sent"
    by (simp add: envelope_ok_def demo_sent_def demo_envelope_def version_ok_def timestamp_ok_def demo_time_def
        demo_ext_def is_digit_def causal_ok_def causal_empty_def spec_version_parse_def numeric_prefix_def
        parse_u32_def digits_value_def)
  then have "envelope_try_from demo_ext (proto_of_envelope demo_sent) = Inr demo_sent"
    by (rule envelope_codec.decode_encode)
  moreover have "hash_try_from (proto_of_hash (demo_id 1)) = Inr (demo_id 1)"
    by (rule hash_codec.decode_encode) (simp add: hash_ok_def demo_id_def)
  ultimately show ?thesis
    by (simp add: decode_send_def demo_send_request_def demo_node_deps_def demo_cp_def demo_auth_def
        demo_registry_deps_def demo_topology_def ok_or_def transpose_map_def)
      (simp add: demo_sent_def)
qed

lemma demo_node_permits:
  "permits_now (cap_deps_of (node_cp_deps demo_node_deps demo_node) (nd_cp demo_node)) demo_inputs (demo_id 1)
     (send_descriptor (show_agent_id demo_node_deps) demo_sent) (st_capabilities (nd_cp demo_node))"
proof -
  let ?cs = "st_capabilities (nd_cp demo_node)"
  have "chain_from ?cs (Some (demo_id 1)) [(demo_id 1, demo_cap 1 (AgentId 7) ''envelope.send'' None)]"
    by (auto simp: demo_node_def intro!: chain_from.intros)
  moreover have "scope_permits (for_action ''envelope.send'') (send_descriptor (show_agent_id demo_node_deps) demo_sent)"
    by (simp add: scope_permits_iff for_action_def scope_empty_def send_descriptor_def empty_or_contains_def)
  moreover have "ad_resource_tags (send_descriptor (show_agent_id demo_node_deps) demo_sent) = []"
    by (simp add: send_descriptor_def demo_sent_def demo_envelope_def)
  ultimately show ?thesis
    unfolding check_inner_permits_iff
    by (intro exI [of _ "[(demo_id 1, demo_cap 1 (AgentId 7) ''envelope.send'' None)]"])
      (simp add: demo_node_def link_ok_def cap_deps_of_def node_cp_deps_def quarantine_source_def
        demo_node_deps_def demo_cp_def is_agent_quarantined_def)
qed

lemma demo_node_cap_deps:
  "cap_deps_of (node_cp_deps demo_node_deps nd) (nd_cp nd) =
     demo_deps\<lparr>cd_resolver := resolver_adapter (st_passports (nd_cp nd)), cd_quarantined := quarantine_source (\<lambda>_. ''a'') (nd_engine nd)\<rparr>"
  by (simp add: cap_deps_of_def node_cp_deps_def demo_node_deps_def demo_cp_def demo_deps_def demo_registry_deps_def demo_eval_def)

lemma demo_check_ok: "fst (check_send_capability demo_node_deps demo_inputs demo_sent (Some (demo_id 1)) demo_node) = Inr ()"
proof -
  let ?dp = "cap_deps_of (node_cp_deps demo_node_deps demo_node) (nd_cp demo_node)"
  let ?d = "send_descriptor (show_agent_id demo_node_deps) demo_sent"
  from demo_node_permits obtain out s where c: "check_inner ?dp demo_inputs (demo_id 1) ?d (st_capabilities (nd_cp demo_node))
      = Inr (out, s)" "co_permitted out" by blast
  have "resolve_actor (resolver_adapter demo_passports) (AgentId 9) = Inr (Some demo_public_key)"
    by (simp add: demo_passports_def demo_passport_def)
  then have "\<exists>h cs'. record_check ?dp demo_inputs out ?d s (st_capabilities (nd_cp demo_node)) = (Inr h, cs')"
    unfolding record_check_def demo_node_cap_deps demo_node_passports
    by (intro demo_event_recorded) (simp_all add: check_evidence_def)
  with c show ?thesis
    by (auto simp: check_send_capability_def run_capability_def check_capability_def)
qed

definition demo_pending :: pending_send where
  "demo_pending = \<lparr>pn_agent = AgentId 2, pn_envelope = demo_sent, pn_capability = Some (demo_id 1),
     pn_constitution_hash = demo_hash, pn_constitution_version = ''1.0.0'', pn_shadow = None\<rparr>"

lemma demo_front_ok:
  "fst (send_front demo_node_deps demo_send_clock (Some agent_header) demo_send_request demo_node) = Inr demo_pending"
proof -
  have "map_option (\<lambda>a. (active_hash a, k_constitution_version (av_constitution a))) (cv_current (demo_activated [] demo_escalation_chain))
      = Some (demo_hash, ''1.0.0'')" "cv_current_shadow (demo_activated [] demo_escalation_chain) = None"
    by code_simp+
  moreover have "sk_check demo_send_clock = demo_inputs" by (simp add: demo_send_clock_def)
  ultimately show ?thesis
    using demo_check_ok
    by (auto simp: send_front_def demo_node_auth demo_decodes case_prod_beta Let_def read_slots_def ok_or_def
        demo_node_def [THEN arg_cong [of _ _ nd_evaluator]] demo_pending_def)
qed

lemma demo_evaluate_against:
  assumes "entity_count (eq_entity_snapshot rq) \<le> max_entity_count sandbox"
  shows "\<exists>out. fst (evaluate_against (demo_eval ids) sandbox rq a mode now ix) = Inr out \<and> eo_decision out = Permit"
  using assms
  by (auto simp: evaluate_against_def request_uids_def build_cedar_uid_def cedar_inputs_def build_cedar_entities_def
      build_context_def ok_or_def evaluate_layers_def map_cedar_response_def demo_eval_def demo_cedar_def
      case_prod_beta Let_def split: EvaluationMode.splits)

lemma demo_evaluate_pair:
  assumes "resolve_active rq ev = Inr a" "entity_count (eq_entity_snapshot rq) \<le> max_entity_count (cv_sandbox ev)"
  shows "\<exists>out sh. fst (evaluate_pair (demo_eval ids) rq t t' ev) = Inr (out, sh) \<and> eo_decision out = Permit
    \<and> (sh = None \<longleftrightarrow> cv_current_shadow ev = None)"
proof -
  let ?ix = "snd (evaluate_against (demo_eval ids) (cv_sandbox ev) rq a ActiveMode t (cv_procedure_index ev))"
  obtain out where out: "fst (evaluate_against (demo_eval ids) (cv_sandbox ev) rq a ActiveMode t (cv_procedure_index ev)) = Inr out"
    "eo_decision out = Permit"
    using demo_evaluate_against [OF assms(2)] by blast
  show ?thesis
  proof (cases "cv_current_shadow ev")
    case None
    with assms out show ?thesis by (simp add: evaluate_pair_def evaluate_def case_prod_beta Let_def)
  next
    case (Some s)
    obtain sout where "fst (evaluate_against (demo_eval ids) (cv_sandbox ev) (rq\<lparr>eq_constitution_hash := active_hash s\<rparr>) s ShadowMode t' ?ix)
        = Inr sout"
      using demo_evaluate_against [of "rq\<lparr>eq_constitution_hash := active_hash s\<rparr>"] assms(2) by fastforce
    with Some assms out show ?thesis by (simp add: evaluate_pair_def evaluate_def case_prod_beta Let_def)
  qed
qed

lemma demo_back_verdict:
  assumes "cv_current ev = cv_current (demo_activated [] demo_escalation_chain)" "cv_sandbox ev = sandbox_default"
  shows "\<exists>out sh. fst (evaluate_pair (demo_eval []) (build_eval_request_for_send demo_node_deps nd t demo_hash v x demo_sent c) t1 t2 ev)
      = Inr (out, sh) \<and> eo_decision out = Permit \<and> (sh = None \<longleftrightarrow> cv_current_shadow ev = None)"
proof -
  have "map_option active_hash (cv_current (demo_activated [] demo_escalation_chain)) = Some demo_hash" by code_simp
  with assms have "\<exists>a. resolve_active (build_eval_request_for_send demo_node_deps nd t demo_hash v x demo_sent c) ev = Inr a"
    by (auto simp: resolve_active_def ok_or_def build_eval_request_for_send_def)
  moreover have "entity_count (eq_entity_snapshot (build_eval_request_for_send demo_node_deps nd t demo_hash v x demo_sent c))
      \<le> max_entity_count (cv_sandbox ev)"
    by (simp add: assms sandbox_default_def entity_count_def build_eval_request_for_send_def send_entities_def
        recipient_resource_def demo_sent_def demo_envelope_def Let_def)
  ultimately show ?thesis using demo_evaluate_pair by blast
qed

lemma demo_delivered:
  assumes "nd_transport nd = nd_transport demo_node"
  shows "hm_get (tr_inboxes (nd_transport (snd (run_transport demo_node_deps
      (\<lambda>td. send td (sk_admit demo_send_clock) (sk_send demo_send_clock) demo_sent) nd)))) (AgentId 3) = Some [demo_sent]"
proof -
  have frame: "tr_inboxes (snd (transport_record td ck k e ex st)) = tr_inboxes st" for td ck k e ex st
    by (simp add: transport_record_def case_prod_beta Let_def)
  show ?thesis
    by (simp add: run_transport_def send_def admit_def assms demo_node_def [THEN arg_cong [of _ _ nd_transport]]
        demo_node_deps_def demo_sent_def demo_envelope_def envelope_is_expired_at_def transport_new_def Let_def
        replay_new_def replay_with_params_def sender_state_def sender_state_default_def register_recipient_def
        unicast_def try_send_def INBOX_CAPACITY_def case_prod_beta frame)
qed

lemma demo_handled:
  "hm_get (tr_inboxes (nd_transport (snd (handle_send demo_node_deps demo_send_clock (Some agent_header) demo_send_request demo_node))))
     (AgentId 3) = Some [demo_sent]"
proof -
  define nd where "nd = snd (send_front demo_node_deps demo_send_clock (Some agent_header) demo_send_request demo_node)"
  note frame = send_front_frame [of demo_node_deps demo_send_clock "Some agent_header" demo_send_request demo_node, folded nd_def]
  let ?rq = "build_eval_request_for_send demo_node_deps nd (sk_request demo_send_clock) demo_hash ''1.0.0'' (AgentId 2) demo_sent (Some (demo_id 1))"
  let ?pair = "evaluate_pair (demo_eval []) ?rq (sk_decided demo_send_clock) (sk_shadow_decided demo_send_clock) (nd_evaluator nd)"
  have ev: "nd_evaluator nd = demo_activated [] demo_escalation_chain" by (simp add: frame demo_node_def)
  moreover have "cv_current_shadow (demo_activated [] demo_escalation_chain) = None"
    "cv_sandbox (demo_activated [] demo_escalation_chain) = sandbox_default" by code_simp+
  ultimately obtain out where out: "fst ?pair = Inr (out, None)" "eo_decision out = Permit"
    using demo_back_verdict [of "nd_evaluator nd"] by metis
  let ?nd1 = "nd\<lparr>nd_evaluator := snd ?pair\<rparr>"
  have "st_passports (nd_cp ?nd1) = demo_passports" by (simp add: frame)
  from demo_node_emit_ok [OF this] obtain h where
    h: "fst (emit_constitution_eval_receipt demo_node_deps (sk_eval demo_send_clock) out demo_hash ''1.0.0'' (AgentId 2) None ?nd1) = Inr h"
    unfolding emit_constitution_eval_receipt_def by blast
  let ?nd2 = "snd (emit_constitution_eval_receipt demo_node_deps (sk_eval demo_send_clock) out demo_hash ''1.0.0'' (AgentId 2) None ?nd1)"
  have "nd_transport ?nd2 = nd_transport demo_node"
    by (simp add: emit_constitution_eval_receipt_def frame)
  note delivered = demo_delivered [OF this]
  have "handle_send demo_node_deps demo_send_clock (Some agent_header) demo_send_request demo_node
      = send_back demo_node_deps demo_send_clock demo_pending nd"
    using demo_front_ok by (simp add: handle_send_def nd_def case_prod_beta)
  moreover have "snd (send_back demo_node_deps demo_send_clock demo_pending nd) =
      snd (run_transport demo_node_deps (\<lambda>td. send td (sk_admit demo_send_clock) (sk_send demo_send_clock) demo_sent) ?nd2)"
    using out h by (simp add: send_back_def demo_pending_def case_prod_beta Let_def record_shadow_def deliver_permitted_def
        demo_node_deps_def [THEN arg_cong [of _ _ ndp_eval]] split: prod.split sum.split)
  ultimately show ?thesis using delivered by simp
qed

text \<open>
  Property (C2): complete mediation of sends. A \<open>Send\<close> request changes the state of the transport (an inbox,
  the replay protection) only if the caller is an active agent with a valid token, the envelope of the
  request names the caller as its sender, the request carries the identifier of a capability where the
  topology requires one, the capability with the identifier the request carries permits the send at this
  moment, and the active constitution permits it.
\<close>

theorem sends_completely_mediated:
  assumes "nd_transport (snd (handle_send dp ck h req nd)) \<noteq> nd_transport nd"
  shows "\<exists>auth ep e cap a out.
    require_active_bearer_auth (ndp_cp dp) (sk_auth ck) h (nd_cp nd) = Inr auth
    \<and> se_envelope req = Some ep \<and> envelope_try_from (ax_ext (cpd_auth (ndp_cp dp))) ep = Inr e
    \<and> e_from_agent e = auth_agent_id auth
    \<and> transpose_map hash_try_from (se_capability_id req) = Inr cap
    \<and> (top_require_capability_for_send (node_topology dp) \<longrightarrow> cap \<noteq> None)
    \<and> (\<forall>c. cap = Some c \<longrightarrow> permits_now (cap_deps_of (node_cp_deps dp nd) (nd_cp nd)) (sk_check ck) c
          (send_descriptor (show_agent_id dp) e) (st_capabilities (nd_cp nd)))
    \<and> cv_current (nd_evaluator nd) = Some a
    \<and> fst (evaluate (ndp_eval dp) (build_eval_request_for_send dp nd (sk_request ck) (active_hash a)
            (k_constitution_version (av_constitution a)) (auth_agent_id auth) e cap) (sk_decided ck) (nd_evaluator nd))
        = Inr out
    \<and> eo_decision out = Permit"
proof -
  from handle_send_split [OF assms] obtain pn where pn: "fst (send_front dp ck h req nd) = Inr pn"
    and second: "handle_send dp ck h req nd = send_back dp ck pn (snd (send_front dp ck h req nd))" by blast
  let ?nd = "snd (send_front dp ck h req nd)"
  from assms have "nd_transport (snd (send_back dp ck pn ?nd)) \<noteq> nd_transport ?nd"
    by (simp add: second send_front_frame)
  then obtain out where out: "fst (evaluate (ndp_eval dp) (build_eval_request_for_send dp ?nd (sk_request ck)
      (pn_constitution_hash pn) (pn_constitution_version pn) (pn_agent pn) (pn_envelope pn) (pn_capability pn))
      (sk_decided ck) (nd_evaluator ?nd)) = Inr out" "eo_decision out = Permit"
    by (rule send_back_transport)
  note out = out [unfolded eval_request_cong [OF send_front_frame(4, 3)] send_front_frame(2)]
  from pn obtain auth where auth: "require_active_bearer_auth (ndp_cp dp) (sk_auth ck) h (nd_cp nd) = Inr auth"
    and dec: "decode_send dp auth req = Inr (pn_envelope pn, pn_capability pn)" and agent: "pn_agent pn = auth_agent_id auth"
    and cap: "fst (check_send_capability dp (sk_check ck) (pn_envelope pn) (pn_capability pn) nd) = Inr ()"
    and slots: "read_slots auth (pn_envelope pn) (pn_capability pn) (nd_evaluator nd) = Inr pn"
    by (rule send_front_Inr)
  from dec obtain ep where ep: "se_envelope req = Some ep"
    "envelope_try_from (ax_ext (cpd_auth (ndp_cp dp))) ep = Inr (pn_envelope pn)"
    "e_from_agent (pn_envelope pn) = auth_agent_id auth"
    "transpose_map hash_try_from (se_capability_id req) = Inr (pn_capability pn)"
    "top_require_capability_for_send (node_topology dp) \<longrightarrow> pn_capability pn \<noteq> None"
    by (auto simp: decode_send_def rbind_eq_Inr ok_or_def elim!: map_err.elims split: option.splits if_splits)
  from slots obtain a where a: "cv_current (nd_evaluator nd) = Some a" "pn_constitution_hash pn = active_hash a"
    "pn_constitution_version pn = k_constitution_version (av_constitution a)"
    by (cases pn) (auto simp: read_slots_def rbind_eq_Inr ok_or_def split: option.splits)
  have "\<forall>c. pn_capability pn = Some c \<longrightarrow> permits_now (cap_deps_of (node_cp_deps dp nd) (nd_cp nd)) (sk_check ck) c
      (send_descriptor (show_agent_id dp) (pn_envelope pn)) (st_capabilities (nd_cp nd))"
    using cap check_send_capability_permits by metis
  with auth ep a out agent show ?thesis by (intro exI conjI) auto
qed

theorem sends_completely_mediated_witness:
  "hm_get (tr_inboxes (nd_transport (snd (handle_send demo_node_deps demo_send_clock (Some agent_header)
       demo_send_request demo_node)))) (AgentId 3) = Some [demo_sent]
   \<and> (\<exists>auth a. require_active_bearer_auth (ndp_cp demo_node_deps) (sk_auth demo_send_clock) (Some agent_header) (nd_cp demo_node)
          = Inr auth \<and> e_from_agent demo_sent = auth_agent_id auth \<and> cv_current (nd_evaluator demo_node) = Some a
        \<and> permits_now (cap_deps_of (node_cp_deps demo_node_deps demo_node) (nd_cp demo_node)) (sk_check demo_send_clock) (demo_id 1)
             (send_descriptor (show_agent_id demo_node_deps) demo_sent) (st_capabilities (nd_cp demo_node)))"
proof -
  have "tr_inboxes (nd_transport demo_node) = [(AgentId 3, [])]"
    by (simp add: demo_node_def register_recipient_def transport_new_def)
  with demo_handled have changed: "nd_transport (snd (handle_send demo_node_deps demo_send_clock (Some agent_header) demo_send_request demo_node))
      \<noteq> nd_transport demo_node" by auto
  from demo_decodes have "envelope_try_from (ax_ext (cpd_auth (ndp_cp demo_node_deps))) (proto_of_envelope demo_sent) = Inr demo_sent"
    "transpose_map hash_try_from (Some (proto_of_hash (demo_id 1))) = Inr (Some (demo_id 1))"
    by (auto simp: decode_send_def demo_send_request_def rbind_eq_Inr elim!: map_err.elims split: if_splits)
  with sends_completely_mediated [OF changed] show ?thesis
    using demo_handled by (auto simp: demo_send_request_def)
qed

section \<open>Whose capability it is\<close>

lemma envelope_from_replaced:
  assumes "envelope_try_from x ep = Inr e"
  shows "envelope_try_from x (ep\<lparr>pe_from_agent := Some (proto_of_agent a)\<rparr>) = Inr (e\<lparr>e_from_agent := a\<rparr>)"
  using assms
  by (clarsimp simp: envelope_try_from_def rbind_eq_Inr agent_codec.decode_encode)

text \<open>
  Property (C35): a capability is not bound to the agent that presents it. Whenever a send of one agent
  passes authentication, the capability check and the lookup of the constitution, the same request with
  the same capability passes them for every other active agent that puts its own name on the envelope:
  the subject of the capability is compared with nobody.
\<close>

theorem send_capability_not_bound_to_sender:
  assumes front: "fst (send_front dp ck h req nd) = Inr pn" and ep: "se_envelope req = Some ep"
    and other: "require_active_bearer_auth (ndp_cp dp) (sk_auth ck) h' (nd_cp nd) = Inr auth'"
  shows "fst (send_front dp ck h'
      (req\<lparr>se_envelope := Some (ep\<lparr>pe_from_agent := Some (proto_of_agent (auth_agent_id auth'))\<rparr>)\<rparr>) nd)
    = Inr (pn\<lparr>pn_agent := auth_agent_id auth', pn_envelope := (pn_envelope pn)\<lparr>e_from_agent := auth_agent_id auth'\<rparr>\<rparr>)"
proof -
  let ?e = "(pn_envelope pn)\<lparr>e_from_agent := auth_agent_id auth'\<rparr>"
  let ?req = "req\<lparr>se_envelope := Some (ep\<lparr>pe_from_agent := Some (proto_of_agent (auth_agent_id auth'))\<rparr>)\<rparr>"
  from front obtain auth where dec: "decode_send dp auth req = Inr (pn_envelope pn, pn_capability pn)"
    and cap: "fst (check_send_capability dp (sk_check ck) (pn_envelope pn) (pn_capability pn) nd) = Inr ()"
    and slots: "read_slots auth (pn_envelope pn) (pn_capability pn) (nd_evaluator nd) = Inr pn"
    by (rule send_front_Inr)
  from dec ep have env: "envelope_try_from (ax_ext (cpd_auth (ndp_cp dp))) ep = Inr (pn_envelope pn)"
    by (auto simp: decode_send_def rbind_eq_Inr ok_or_def elim!: map_err.elims split: if_splits)
  have dec': "decode_send dp auth' ?req = Inr (?e, pn_capability pn)"
    using dec ep envelope_from_replaced [OF env, of "auth_agent_id auth'"]
    by (auto simp: decode_send_def rbind_eq_Inr ok_or_def elim!: map_err.elims split: if_splits)
  have "send_descriptor (show_agent_id dp) ?e = send_descriptor (show_agent_id dp) (pn_envelope pn)"
    by (simp add: send_descriptor_def)
  then have cap': "check_send_capability dp (sk_check ck) ?e (pn_capability pn) nd
      = check_send_capability dp (sk_check ck) (pn_envelope pn) (pn_capability pn) nd"
    by (simp only: check_send_capability_def)
  from slots have "read_slots auth' ?e (pn_capability pn) (nd_evaluator nd)
      = Inr (pn\<lparr>pn_agent := auth_agent_id auth', pn_envelope := ?e\<rparr>)"
    by (cases pn) (auto simp: read_slots_def rbind_eq_Inr ok_or_def split: option.splits)
  with other dec' cap cap' show ?thesis by (simp add: send_front_def case_prod_beta Let_def)
qed

theorem send_capability_not_bound_to_sender_witness:
  "map_option c_subject (hm_get (cs_by_id (st_capabilities (nd_cp demo_node))) (demo_id 1)) = Some (AgentId 7)
   \<and> (\<exists>pn. fst (send_front demo_node_deps demo_send_clock (Some agent_header)
        (demo_send_request\<lparr>se_envelope := Some ((proto_of_envelope demo_sent)\<lparr>pe_from_agent := Some (proto_of_agent (AgentId 2))\<rparr>)\<rparr>)
        demo_node) = Inr pn \<and> pn_agent pn = AgentId 2)"
proof -
  have "se_envelope demo_send_request = Some (proto_of_envelope demo_sent)" by (simp add: demo_send_request_def)
  from send_capability_not_bound_to_sender [OF demo_front_ok this demo_node_auth] show ?thesis
    by (simp add: demo_node_def)
qed

section \<open>What evaluation receipts tell the enforcement engine\<close>

lemma scan_keeps_forbid:
  "\<forall>ev \<in> set evs. ev_key ev \<noteq> ''forbid_rule_id'' \<Longrightarrow> vs_forbid_rule_id (fold scan_evidence evs v) = vs_forbid_rule_id v"
  by (induction evs arbitrary: v) (auto simp: scan_evidence_def split: option.split)

text \<open>
  the enforcement rules that name a forbid rule are dead. The receipts of the evaluations of
  sends carry no evidence of the rule that forbade the send, so a rule whose trigger asks for one matches
  none of them, whatever the evaluation found.
\<close>

theorem forbid_rule_triggers_never_match:
  assumes "dt_forbid_rule_id (dc_trigger (er_detect rule)) = Some want"
    and "observation ob ck kind swarm version
      (eval_evidence show_agent ''constitution_hash'' out h subject
       @ optional_evidence ''shadow_constitution_hash'' ''type.yutha.dev/v1/Hash'' (map_option digest sh)) = Inr r"
  shows "\<not> trigger_matches rule (build_view show_agent r)"
proof -
  have "rv_forbid_rule_id (build_view show_agent r) = None"
    unfolding build_view_def Let_def observation_fields(2) [OF assms(2)] ReceiptView.simps
    by (subst scan_keeps_forbid) (auto simp: eval_evidence_def optional_evidence_def evidence_new_def split: option.splits)
  with assms(1) show ?thesis by (simp add: trigger_matches_def Let_def)
qed

theorem forbid_rule_triggers_never_match_witness:
  "\<exists>r. observation (node_observer demo_node_deps demo_node) Transport_Properties.demo_clock ''constitution.evaluate.deny'' (SwarmId 1) ''1.0.0''
       (eval_evidence (\<lambda>_. ''a'') ''constitution_hash''
          (map_cedar_response (demo_eval []) (False, [''no_pii'']) (demo_request ''SendEnvelope'') [] None [] demo_now) demo_hash (AgentId 2)
        @ optional_evidence ''shadow_constitution_hash'' ''type.yutha.dev/v1/Hash'' (map_option digest (None :: Hash option))) = Inr r
     \<and> \<not> trigger_matches (demo_rule\<lparr>er_detect := (er_detect demo_rule)\<lparr>dc_trigger :=
            \<lparr>dt_receipt_kind = ''constitution.evaluate.deny'', dt_deny_reason = Some ''forbid_rule_matched'',
             dt_forbid_rule_id = Some ''no_pii''\<rparr>\<rparr>\<rparr>) (build_view (\<lambda>_. ''a'') r)"
  (is "\<exists>r. ?obs = Inr r \<and> \<not> trigger_matches ?rule (build_view _ r)")
proof -
  obtain h ms where "observe (node_observer demo_node_deps demo_node) Transport_Properties.demo_clock ''constitution.evaluate.deny'' (SwarmId 1) ''1.0.0''
       (eval_evidence (\<lambda>_. ''a'') ''constitution_hash''
          (map_cedar_response (demo_eval []) (False, [''no_pii'']) (demo_request ''SendEnvelope'') [] None [] demo_now) demo_hash (AgentId 2)
        @ optional_evidence ''shadow_constitution_hash'' ''type.yutha.dev/v1/Hash'' (map_option digest (None :: Hash option))) memory_store_new = (Inr h, ms)"
    using demo_node_observe_ok [OF demo_node_live [OF demo_node_passports]] by blast
  then obtain r where r: "?obs = Inr r" by (elim observe_Inr) blast
  have "dt_forbid_rule_id (dc_trigger (er_detect ?rule)) = Some ''no_pii''" by simp
  from forbid_rule_triggers_never_match [OF this r] r show ?thesis by blast
qed

section \<open>One constitution for the evaluator and the enforcement engine\<close>

datatype node_op =
    N_Activate constitution_codec Timestamp observe_clock "string option" "proto_Constitution option"
  | N_Activate_Shadow constitution_codec Timestamp observe_clock "string option" "proto_Constitution option"
  | N_Clear_Shadow Timestamp observe_clock "string option"
  | N_Promote_Shadow Timestamp observe_clock "string option"
  | N_Send_Front send_clock "string option" SendEnvelopeRequest
  | N_Send_Back send_clock pending_send

fun node_step :: "('s, 'p, 'e, 'q) node_deps \<Rightarrow> node_op \<Rightarrow> ('s, 'p) NodeState \<Rightarrow> ('s, 'p) NodeState" where
  "node_step dp (N_Activate kc now ck h kp) nd = snd (handle_activate dp kc now ck h kp nd)"
| "node_step dp (N_Activate_Shadow kc now ck h kp) nd = snd (handle_activate_shadow dp kc now ck h kp nd)"
| "node_step dp (N_Clear_Shadow now ck h) nd = snd (handle_clear_shadow dp now ck h nd)"
| "node_step dp (N_Promote_Shadow now ck h) nd = snd (handle_promote_shadow dp now ck h nd)"
| "node_step dp (N_Send_Front ck h req) nd = snd (send_front dp ck h req nd)"
| "node_step dp (N_Send_Back ck pn) nd = snd (send_back dp ck pn nd)"

definition engine_follows :: "('s, 'p) NodeState \<Rightarrow> bool" where
  "engine_follows nd \<longleftrightarrow> es_active (nd_engine nd) =
     map_option (\<lambda>a. ec_enforcement_rules (av_resolved_engine_config a)) (cv_current (nd_evaluator nd))"

lemma engine_follows_cong:
  "nd_engine nd' = nd_engine nd \<Longrightarrow> cv_current (nd_evaluator nd') = cv_current (nd_evaluator nd) \<Longrightarrow>
     engine_follows nd' = engine_follows nd"
  by (simp add: engine_follows_def)

lemma evaluate_pair_current [simp]: "cv_current (snd (evaluate_pair dp rq t t' ev)) = cv_current ev"
  by (auto simp: evaluate_pair_def evaluate_def case_prod_beta Let_def split: sum.split option.split)

lemma send_back_frame:
  "nd_engine (snd (send_back dp ck pn nd)) = nd_engine nd"
  "cv_current (nd_evaluator (snd (send_back dp ck pn nd))) = cv_current (nd_evaluator nd)"
  by (auto simp: send_back_def record_shadow_def deliver_permitted_def run_transport_def emit_constitution_eval_receipt_def
      emit_constitution_shadow_eval_receipt_def case_prod_beta Let_def split: sum.split option.split prod.split)

lemma engine_follows_step: "engine_follows nd \<Longrightarrow> engine_follows (node_step dp op nd)"
proof (cases op)
  case (N_Activate kc now ck h kp)
  then show "engine_follows nd \<Longrightarrow> ?thesis"
    by (auto simp: handle_activate_def evaluator_activate_def bind_engine_def engine_follows_def
        emit_constitution_activate_receipt_def Enforcement.activate_def case_prod_beta Let_def split: sum.split)
next
  case (N_Activate_Shadow kc now ck h kp)
  then show "engine_follows nd \<Longrightarrow> ?thesis"
    by (auto simp: handle_activate_shadow_def activate_shadow_def engine_follows_def
        emit_constitution_shadow_activate_receipt_def case_prod_beta Let_def split: sum.split option.split)
next
  case (N_Clear_Shadow now ck h)
  then show "engine_follows nd \<Longrightarrow> ?thesis"
    by (auto simp: handle_clear_shadow_def clear_shadow_def engine_follows_def
        emit_constitution_shadow_clear_receipt_def case_prod_beta Let_def split: sum.split)
next
  case (N_Promote_Shadow now ck h)
  then show "engine_follows nd \<Longrightarrow> ?thesis"
    by (auto simp: handle_promote_shadow_def promote_shadow_def engine_follows_def bind_engine_def Enforcement.activate_def
        emit_constitution_shadow_promote_receipt_def case_prod_beta Let_def split: sum.split option.split)
next
  case (N_Send_Front ck h req)
  then show "engine_follows nd \<Longrightarrow> ?thesis"
    using engine_follows_cong [OF send_front_frame(3) arg_cong [where f = cv_current, OF send_front_frame(2)], of dp ck h req nd] by simp
next
  case (N_Send_Back ck pn)
  then show "engine_follows nd \<Longrightarrow> ?thesis"
    using engine_follows_cong [OF send_back_frame, of dp ck pn nd] by simp
qed

text \<open>
  Property (C11): the evaluator and the enforcement engine stay bound to the same constitution. Whatever
  sequence of activations, shadow activations, clearings, promotions and halves of sends a node handles,
  the rules of the engine are those of the resolved configuration of the active constitution, and there
  are none as long as no constitution is active.
\<close>

theorem engine_follows_constitution:
  assumes "cv_current (nd_evaluator nd) = None" and "es_active (nd_engine nd) = None"
  shows "es_active (nd_engine (fold (node_step dp) ops nd)) =
    map_option (\<lambda>a. ec_enforcement_rules (av_resolved_engine_config a)) (cv_current (nd_evaluator (fold (node_step dp) ops nd)))"
proof -
  have "engine_follows nd \<Longrightarrow> engine_follows (fold (node_step dp) ops nd)"
    by (induction ops arbitrary: nd) (simp_all add: engine_follows_step)
  with assms show ?thesis by (simp add: engine_follows_def)
qed

lemma demo_operator_header:
  "operator_auth demo_node_deps demo_now (Some operator_header)
     = Inr \<lparr>op_operator_id = ''ops'', op_swarm_id = SwarmId 1, op_expires_at = demo_expiry\<rparr>"
  using demo_operator_auth by (simp add: operator_auth_def demo_node_deps_def)

text \<open>A node without a constitution, and one whose shadow constitution is promoted.\<close>

definition demo_idle_node :: "(unit, string) NodeState" where
  "demo_idle_node = demo_node\<lparr>nd_evaluator := evaluator_new () sandbox_default sandbox_default\<rparr>"

definition demo_constitution_codec :: constitution_codec where
  "demo_constitution_codec =
     \<lparr>kc_parse_yaml = (\<lambda>_. Some demo_escalation_chain), kc_print_yaml = (\<lambda>_. []), kc_encode = (\<lambda>_. []), kc_ext = demo_ext\<rparr>"

definition demo_constitution_proto :: proto_Constitution where
  "demo_constitution_proto = constitution_to_proto demo_constitution_codec (demo_constitution demo_escalation_chain)"

lemma demo_constitution_decodes:
  "constitution_from_proto demo_constitution_codec demo_constitution_proto = Inr (demo_constitution demo_escalation_chain)"
proof -
  have "timestamp_try_from demo_ext (proto_of_timestamp (demo_time 1)) = Inr (demo_time 1)"
    by (rule timestamp_codec.decode_encode) (simp add: timestamp_ok_def demo_time_def demo_ext_def is_digit_def)
  moreover have "spec_version_parse ''1.0.0'' = Inr (SpecVersion ''1.0.0'')"
    by (simp add: spec_version_parse_def numeric_prefix_def parse_u32_def digits_value_def is_digit_def)
  moreover have "sha256 demo_ext [] = demo_hash" by (simp add: sha256_def demo_ext_def demo_hash_def)
  ultimately show ?thesis
    by (simp add: constitution_from_proto_def demo_constitution_proto_def constitution_to_proto_def demo_constitution_codec_def
        demo_constitution_def required_def ok_or_def parse_engine_config_yaml_def swarm_codec.decode_encode
        version_try_from_def proto_of_version_def transpose_map_def)
qed

theorem engine_follows_constitution_witness:
  "\<exists>rules. es_active (nd_engine (fold (node_step demo_node_deps)
      [N_Activate demo_constitution_codec demo_now Transport_Properties.demo_clock (Some operator_header) (Some demo_constitution_proto)]
      demo_idle_node)) = Some rules"
proof -
  let ?op = "N_Activate demo_constitution_codec demo_now Transport_Properties.demo_clock (Some operator_header) (Some demo_constitution_proto)"
  have "map_option active_hash (cv_current (demo_activated [] demo_escalation_chain)) = Some demo_hash" by code_simp
  then have "\<exists>a. cv_current (nd_evaluator (node_step demo_node_deps ?op demo_idle_node)) = Some a"
    by (auto simp: handle_activate_def demo_operator_header demo_constitution_decodes ok_or_def demo_idle_node_def
        demo_node_deps_def [THEN arg_cong [of _ _ ndp_eval]] demo_activated_def evaluator_activate_def bind_engine_def
        emit_constitution_activate_receipt_def case_prod_beta Let_def evaluator_new_def split: sum.splits)
  moreover have "cv_current (nd_evaluator demo_idle_node) = None" "es_active (nd_engine demo_idle_node) = None"
    by (simp_all add: demo_idle_node_def evaluator_new_def demo_node_def)
  ultimately show ?thesis
    using engine_follows_constitution [of demo_idle_node demo_node_deps "[?op]"] by auto
qed

section \<open>A shadow constitution that arrives in the middle of a send\<close>

text \<open>
  Property (C36): a send in flight panics when a shadow constitution is activated between the moment its
  handler reads the slots and the evaluation. The handler has no hash for the shadow outcome it gets, and
  its \<open>expect\<close> fails, after the receipt of the evaluation was recorded and before the envelope is handed to
  the transport: the log says the send was permitted, and nothing was sent.
\<close>

theorem late_shadow_panics_send:
  assumes "fst (send_front dp ck h req nd) = Inr pn" and "cv_current_shadow (nd_evaluator nd) = None"
    and "cv_current_shadow (nd_evaluator nd') = Some shadow"
    and "evaluate_pair (ndp_eval dp) (build_eval_request_for_send dp nd' (sk_request ck) (pn_constitution_hash pn)
        (pn_constitution_version pn) (pn_agent pn) (pn_envelope pn) (pn_capability pn))
        (sk_decided ck) (sk_shadow_decided ck) (nd_evaluator nd') = (Inr (out, sh), ev')"
    and "fst (emit_constitution_eval_receipt dp (sk_eval ck) out (pn_constitution_hash pn) (pn_constitution_version pn)
        (pn_agent pn) None (nd'\<lparr>nd_evaluator := ev'\<rparr>)) = Inr rid"
  shows "fst (send_back dp ck pn nd') = Panicked \<and> nd_transport (snd (send_back dp ck pn nd')) = nd_transport nd'
    \<and> get_receipt (node_receipts (snd (send_back dp ck pn nd'))) rid \<noteq> None"
proof -
  from assms(1) obtain auth where "read_slots auth (pn_envelope pn) (pn_capability pn) (nd_evaluator nd) = Inr pn"
    by (rule send_front_Inr)
  with assms(2) have none: "pn_shadow pn = None"
    by (cases pn) (auto simp: read_slots_def rbind_eq_Inr ok_or_def split: option.splits)
  have sh: "sh \<noteq> None"
    using assms(3,4) by (auto simp: evaluate_pair_def case_prod_beta Let_def rbind_eq_Inr split: sum.splits option.splits)
  note rec = assms(5) [unfolded emit_constitution_eval_receipt_def, THEN node_emit_recorded(1)]
  from assms(4,5) none sh rec show ?thesis
    by (auto simp: send_back_def record_shadow_def emit_constitution_eval_receipt_def case_prod_beta Let_def
        split: prod.split sum.split)
qed

theorem late_shadow_panics_send_witness:
  "\<exists>nd'. nd_transport nd' = nd_transport demo_node \<and> fst (send_back demo_node_deps demo_send_clock demo_pending nd') = Panicked
     \<and> fst (send_front demo_node_deps demo_send_clock (Some agent_header) demo_send_request demo_node) = Inr demo_pending"
proof -
  define nd' where "nd' = demo_node\<lparr>nd_evaluator :=
      snd (activate_shadow (demo_eval []) (demo_constitution demo_escalation_chain) (nd_evaluator demo_node))\<rparr>"
  have ev: "nd_evaluator demo_node = demo_activated [] demo_escalation_chain" by (simp add: demo_node_def)
  have before: "cv_current_shadow (nd_evaluator demo_node) = None" unfolding ev by code_simp
  have "map_option active_hash (cv_current_shadow (nd_evaluator nd')) = Some demo_hash"
    unfolding nd'_def ev NodeState.simps by code_simp
  then obtain s where s: "cv_current_shadow (nd_evaluator nd') = Some s" by blast
  have "cv_current (nd_evaluator nd') = cv_current (demo_activated [] demo_escalation_chain)" "cv_sandbox (nd_evaluator nd') = sandbox_default"
    unfolding nd'_def ev NodeState.simps by code_simp+
  from demo_back_verdict [OF this] obtain out sh ev' where
    pair: "evaluate_pair (ndp_eval demo_node_deps) (build_eval_request_for_send demo_node_deps nd' (sk_request demo_send_clock)
      (pn_constitution_hash demo_pending) (pn_constitution_version demo_pending) (pn_agent demo_pending) (pn_envelope demo_pending)
      (pn_capability demo_pending)) (sk_decided demo_send_clock) (sk_shadow_decided demo_send_clock) (nd_evaluator nd')
      = (Inr (out, sh), ev')"
    by (simp add: demo_pending_def demo_node_deps_def [THEN arg_cong [of _ _ ndp_eval]]) (metis prod.collapse)
  have "st_passports (nd_cp (nd'\<lparr>nd_evaluator := ev'\<rparr>)) = demo_passports" by (simp add: nd'_def)
  from demo_node_emit_ok [OF this] obtain rid where rid: "fst (emit_constitution_eval_receipt demo_node_deps (sk_eval demo_send_clock) out
      (pn_constitution_hash demo_pending) (pn_constitution_version demo_pending) (pn_agent demo_pending) None
      (nd'\<lparr>nd_evaluator := ev'\<rparr>)) = Inr rid"
    unfolding emit_constitution_eval_receipt_def by blast
  have "nd_transport nd' = nd_transport demo_node" by (simp add: nd'_def)
  with late_shadow_panics_send [OF demo_front_ok before s pair rid] demo_front_ok show ?thesis by blast
qed

end
