(* ===== verification/Subscription.thy ===== *)
theory Subscription
  imports Envelope_Service
begin

text \<open>
  The streams of one subscribed agent (\<open>MemoryTransport::subscribe\<close> in
  \<open>crates/yutha-transport/src/memory.rs\<close>, the handler \<open>subscribe\<close> in
  \<open>crates/yutha-control-plane/src/grpc/envelope.rs\<close>, \<open>mark_revoked\<close> in \<open>grpc/mod.rs\<close>). Each subscription
  runs two tasks: the inner forwarder moves envelopes from the shared inbox into a channel, the outer
  forwarder from there into the channel of the client. Tasks, clients, senders and revocations
  interleave: every step of a task between two of its suspension points is one event. One poll of a
  \<open>select!\<close> is atomic, and its branches are tried in the order written (\<open>biased\<close>).

  A \<open>Notify\<close> keeps no memory: \<open>notify_waiters\<close> reaches the tasks that wait at that moment, so being
  notified is part of the waiting phase.
\<close>

section \<open>State\<close>

type_synonym stream_item = "TransportError + Envelope \<times> Hash"

record SubscribedEnvelope =
  su_envelope :: "proto_Envelope option"
  su_deliver_receipt :: "proto_Hash option"

type_synonym stream_frame = "Status + SubscribedEnvelope"

datatype inner_phase =
    WantLock
  | Selecting bool
  | Recording Envelope
  | Pushing stream_item
  | InnerExited

datatype outer_phase =
    OuterLoop
  | OuterSelecting bool
  | OuterPushing stream_frame
  | OuterEnding
  | OuterExited

text \<open>One subscription; \<open>sm_seen\<close> is the history of what its client has read.\<close>

record subscription =
  sm_inner :: inner_phase
  sm_items :: "stream_item list"
  sm_outer :: outer_phase
  sm_frames :: "stream_frame list"
  sm_open :: bool
  sm_seen :: "stream_frame list"

text \<open>
  The inbox, its lock, the subscriptions in the order of their creation, the handlers that passed
  authentication, and the history of what the inbox accepted.
\<close>

record sub_state =
  sb_inbox :: "Envelope list option"
  sb_lock :: "nat option"
  sb_streams :: "subscription list"
  sb_authorized :: nat
  sb_revoked :: bool
  sb_receipts :: MemoryStore
  sb_accepted :: "Envelope list"

definition sub_new :: "MemoryStore \<Rightarrow> sub_state" where
  "sub_new ms =
     \<lparr>sb_inbox = None, sb_lock = None, sb_streams = [], sb_authorized = 0, sb_revoked = False,
      sb_receipts = ms, sb_accepted = []\<rparr>"

definition STREAM_CAPACITY :: nat where
  "STREAM_CAPACITY = 8"

definition inbox_queue :: "sub_state \<Rightarrow> Envelope list" where
  "inbox_queue st = (case sb_inbox st of None \<Rightarrow> [] | Some q \<Rightarrow> q)"

definition put_stream :: "nat \<Rightarrow> subscription \<Rightarrow> sub_state \<Rightarrow> sub_state" where
  "put_stream i s st = st\<lparr>sb_streams := (sb_streams st)[i := s]\<rparr>"

section \<open>Notifications\<close>

fun wake_inner :: "inner_phase \<Rightarrow> inner_phase" where
  "wake_inner (Selecting _) = Selecting True"
| "wake_inner p = p"

fun wake_outer :: "outer_phase \<Rightarrow> outer_phase" where
  "wake_outer (OuterSelecting _) = OuterSelecting True"
| "wake_outer p = p"

definition supersede_waiters :: "subscription list \<Rightarrow> subscription list" where
  "supersede_waiters ss = map (\<lambda>s. s\<lparr>sm_inner := wake_inner (sm_inner s)\<rparr>) ss"

definition stream_new :: subscription where
  "stream_new =
     \<lparr>sm_inner = WantLock, sm_items = [], sm_outer = OuterLoop, sm_frames = [], sm_open = True, sm_seen = []\<rparr>"

text \<open>
  The two halves of the handler: authentication, and then the registration of the inbox, the eviction
  of waiting forwarders and the start of the new ones.
\<close>

definition authorize :: "sub_state \<Rightarrow> sub_state option" where
  "authorize st = (if sb_revoked st then None else Some (st\<lparr>sb_authorized := sb_authorized st + 1\<rparr>))"

definition open_stream :: "sub_state \<Rightarrow> sub_state option" where
  "open_stream st =
     (if sb_authorized st = 0 then None
      else Some (st\<lparr>sb_authorized := sb_authorized st - 1, sb_inbox := Some (inbox_queue st),
                    sb_streams := supersede_waiters (sb_streams st) @ [stream_new]\<rparr>))"

definition mark_revoked_streams :: "sub_state \<Rightarrow> sub_state" where
  "mark_revoked_streams st =
     st\<lparr>sb_revoked := True, sb_streams := map (\<lambda>s. s\<lparr>sm_outer := wake_outer (sm_outer s)\<rparr>) (sb_streams st)\<rparr>"

definition queue_envelope :: "Envelope \<Rightarrow> sub_state \<Rightarrow> sub_state option" where
  "queue_envelope e st =
     (case sb_inbox st of
        None \<Rightarrow> None
      | Some q \<Rightarrow>
          (case try_send e q of
             Inl _ \<Rightarrow> None
           | Inr q' \<Rightarrow> Some (st\<lparr>sb_inbox := Some q', sb_accepted := sb_accepted st @ [e]\<rparr>)))"

section \<open>The inner forwarder\<close>

definition record_deliver ::
    "transport_deps \<Rightarrow> observe_clock \<Rightarrow> AgentId \<Rightarrow> Envelope \<Rightarrow> MemoryStore \<Rightarrow> stream_item \<times> MemoryStore" where
  "record_deliver dp ck a e ms =
     (let (res, tr) = transport_record dp ck ''envelope.deliver'' e (deliver_evidence a) (transport_new ms)
      in (rbind res (\<lambda>h. Inr (e, h)), tr_receipts tr))"

fun inner_step ::
    "transport_deps \<Rightarrow> AgentId \<Rightarrow> observe_clock \<Rightarrow> nat \<Rightarrow> subscription \<Rightarrow> inner_phase \<Rightarrow> sub_state \<Rightarrow> sub_state option" where
  "inner_step dp a ck i s WantLock st =
     (if sb_lock st \<noteq> None then None
      else Some (put_stream i (s\<lparr>sm_inner := Selecting False\<rparr>) (st\<lparr>sb_lock := Some i\<rparr>)))"
| "inner_step dp a ck i s (Selecting n) st =
     (if sm_outer s = OuterExited \<or> n then Some (put_stream i (s\<lparr>sm_inner := InnerExited\<rparr>) (st\<lparr>sb_lock := None\<rparr>))
      else case sb_inbox st of
             Some (e # q) \<Rightarrow>
               Some (put_stream i (s\<lparr>sm_inner := Recording e\<rparr>) (st\<lparr>sb_lock := None, sb_inbox := Some q\<rparr>))
           | _ \<Rightarrow> None)"
| "inner_step dp a ck i s (Recording e) st =
     (let (it, ms) = record_deliver dp ck a e (sb_receipts st)
      in Some (put_stream i (s\<lparr>sm_inner := Pushing it\<rparr>) (st\<lparr>sb_receipts := ms\<rparr>)))"
| "inner_step dp a ck i s (Pushing it) st =
     (if sm_outer s = OuterExited then Some (put_stream i (s\<lparr>sm_inner := InnerExited\<rparr>) st)
      else if length (sm_items s) < STREAM_CAPACITY
      then Some (put_stream i (s\<lparr>sm_inner := WantLock, sm_items := sm_items s @ [it]\<rparr>) st)
      else None)"
| "inner_step dp a ck i s InnerExited st = None"

section \<open>The outer forwarder\<close>

definition subscribed_frame :: "stream_item \<Rightarrow> stream_frame" where
  "subscribed_frame it =
     (case it of
        Inl e \<Rightarrow> Inl (transport_to_status e)
      | Inr (e, h) \<Rightarrow> Inr \<lparr>su_envelope = Some (proto_of_envelope e), su_deliver_receipt = Some (proto_of_hash h)\<rparr>)"

definition revoked_frame :: stream_frame where
  "revoked_frame = Inl (unauth ''agent revoked'')"

fun outer_step :: "subscription \<Rightarrow> outer_phase \<Rightarrow> subscription option" where
  "outer_step s OuterLoop = Some (s\<lparr>sm_outer := OuterSelecting False\<rparr>)"
| "outer_step s (OuterSelecting n) =
     (if \<not> sm_open s then Some (s\<lparr>sm_outer := OuterExited\<rparr>)
      else if n then Some (s\<lparr>sm_outer := OuterEnding\<rparr>)
      else case sm_items s of
             it # rest \<Rightarrow> Some (s\<lparr>sm_outer := OuterPushing (subscribed_frame it), sm_items := rest\<rparr>)
           | [] \<Rightarrow> if sm_inner s = InnerExited then Some (s\<lparr>sm_outer := OuterExited\<rparr>) else None)"
| "outer_step s (OuterPushing f) =
     (if \<not> sm_open s then Some (s\<lparr>sm_outer := OuterExited\<rparr>)
      else if length (sm_frames s) < STREAM_CAPACITY
      then Some (s\<lparr>sm_outer := OuterLoop, sm_frames := sm_frames s @ [f]\<rparr>)
      else None)"
| "outer_step s OuterEnding =
     (if \<not> sm_open s then Some (s\<lparr>sm_outer := OuterExited\<rparr>)
      else if length (sm_frames s) < STREAM_CAPACITY
      then Some (s\<lparr>sm_outer := OuterExited, sm_frames := sm_frames s @ [revoked_frame]\<rparr>)
      else None)"
| "outer_step s OuterExited = None"

section \<open>The client\<close>

definition client_next :: "subscription \<Rightarrow> subscription option" where
  "client_next s =
     (case sm_frames s of
        f # rest \<Rightarrow> if sm_open s then Some (s\<lparr>sm_frames := rest, sm_seen := sm_seen s @ [f]\<rparr>) else None
      | [] \<Rightarrow> None)"

section \<open>Events\<close>

datatype sub_event =
    Authorize
  | Open_Stream
  | Revoke
  | Queue Envelope
  | Inner nat observe_clock
  | Outer nat
  | Client_Next nat
  | Client_Drop nat

text \<open>What an event does; \<open>None\<close> where it cannot happen.\<close>

fun sub_step :: "transport_deps \<Rightarrow> AgentId \<Rightarrow> sub_event \<Rightarrow> sub_state \<Rightarrow> sub_state option" where
  "sub_step dp a Authorize st = authorize st"
| "sub_step dp a Open_Stream st = open_stream st"
| "sub_step dp a Revoke st = Some (mark_revoked_streams st)"
| "sub_step dp a (Queue e) st = queue_envelope e st"
| "sub_step dp a (Inner i ck) st =
     (if i < length (sb_streams st)
      then let s = sb_streams st ! i in inner_step dp a ck i s (sm_inner s) st else None)"
| "sub_step dp a (Outer i) st =
     (if i < length (sb_streams st)
      then let s = sb_streams st ! i in map_option (\<lambda>s'. put_stream i s' st) (outer_step s (sm_outer s)) else None)"
| "sub_step dp a (Client_Next i) st =
     (if i < length (sb_streams st)
      then map_option (\<lambda>s'. put_stream i s' st) (client_next (sb_streams st ! i)) else None)"
| "sub_step dp a (Client_Drop i) st =
     (if i < length (sb_streams st)
      then Some (put_stream i ((sb_streams st ! i)\<lparr>sm_open := False\<rparr>) st) else None)"

fun sub_run :: "transport_deps \<Rightarrow> AgentId \<Rightarrow> sub_event list \<Rightarrow> sub_state \<Rightarrow> sub_state option" where
  "sub_run dp a [] st = Some st"
| "sub_run dp a (ev # evs) st = Option.bind (sub_step dp a ev st) (sub_run dp a evs)"

end
