(* ===== verification/Subscription_Properties.thy ===== *)
theory Subscription_Properties
  imports Subscription Transport_Properties "HOL-Library.Multiset"
begin

text \<open>
  Theorems about the streams of a subscribed agent over all interleavings of forwarders, clients,
  senders and revocations: envelopes are forwarded in order and at most once, a single stream delivers
  everything, a waiting forwarder obeys the notification it gets, and a busy one misses it.
\<close>

section \<open>What is in the pipeline of a stream\<close>

definition item_line :: "stream_item \<Rightarrow> proto_Envelope list" where
  "item_line it = (case it of Inl _ \<Rightarrow> [] | Inr (e, h) \<Rightarrow> [proto_of_envelope e])"

definition frame_line :: "stream_frame \<Rightarrow> proto_Envelope list" where
  "frame_line f = (case f of Inl _ \<Rightarrow> [] | Inr s \<Rightarrow> (case su_envelope s of None \<Rightarrow> [] | Some p \<Rightarrow> [p]))"

fun inner_line :: "inner_phase \<Rightarrow> proto_Envelope list" where
  "inner_line (Recording e) = [proto_of_envelope e]"
| "inner_line (Pushing it) = item_line it"
| "inner_line _ = []"

fun outer_line :: "outer_phase \<Rightarrow> proto_Envelope list" where
  "outer_line (OuterPushing f) = frame_line f"
| "outer_line _ = []"

text \<open>The envelopes a stream has taken from the inbox, oldest first.\<close>

definition pipeline :: "subscription \<Rightarrow> proto_Envelope list" where
  "pipeline s = concat (map frame_line (sm_seen s)) @ concat (map frame_line (sm_frames s))
     @ outer_line (sm_outer s) @ concat (map item_line (sm_items s)) @ inner_line (sm_inner s)"

abbreviation waiting :: "sub_state \<Rightarrow> proto_Envelope list" where
  "waiting st \<equiv> map proto_of_envelope (inbox_queue st)"

lemma frame_of_item [simp]: "frame_line (subscribed_frame it) = item_line it"
  by (auto simp: frame_line_def subscribed_frame_def item_line_def split: sum.splits)

lemma revoked_frame_line [simp]: "frame_line revoked_frame = []"
  by (simp add: frame_line_def revoked_frame_def)

lemma put_stream_simps [simp]:
  "sb_streams (put_stream i s st) = (sb_streams st)[i := s]" "sb_inbox (put_stream i s st) = sb_inbox st"
  "sb_lock (put_stream i s st) = sb_lock st" "sb_accepted (put_stream i s st) = sb_accepted st"
  "inbox_queue (put_stream i s st) = inbox_queue st" "sb_revoked (put_stream i s st) = sb_revoked st"
  by (simp_all add: put_stream_def inbox_queue_def)

lemma record_deliver_line: "subseq (item_line (fst (record_deliver dp ck a e ms)) @ ys) (proto_of_envelope e # ys)"
  by (auto simp: record_deliver_def item_line_def case_prod_beta Let_def rbind_eq_Inr split: sum.split)

lemma outer_pipeline:
  assumes "outer_step s (sm_outer s) = Some s'"
  shows "subseq (pipeline s') (pipeline s)" "sm_inner s' = sm_inner s"
proof -
  from assms show "sm_inner s' = sm_inner s"
    by (cases "sm_outer s") (auto split: if_splits list.splits)
  from assms show "subseq (pipeline s') (pipeline s)"
  proof (cases "sm_outer s")
    case (OuterPushing f)
    with assms show ?thesis
      by (auto simp: pipeline_def subseq_append' split: if_splits intro: list_emb_append2)
  qed (auto simp: pipeline_def split: if_splits list.splits)
qed

lemma client_pipeline:
  assumes "client_next s = Some s'"
  shows "pipeline s' = pipeline s" "sm_inner s' = sm_inner s" "sm_outer s' = sm_outer s"
  using assms by (auto simp: client_next_def pipeline_def split: list.splits if_splits)

lemma inner_pipeline:
  assumes "inner_step dp a ck i s (sm_inner s) st = Some st'"
  obtains s' where "sb_streams st' = (sb_streams st)[i := s']" "sb_accepted st' = sb_accepted st"
    "subseq (pipeline s' @ waiting st') (pipeline s @ waiting st)" "subseq (waiting st') (waiting st)"
    "sm_outer s' = sm_outer s" "sb_revoked st' = sb_revoked st" "sm_seen s' = sm_seen s" "sm_frames s' = sm_frames s"
proof (cases "sm_inner s")
  case WantLock
  with assms show ?thesis
    by (intro that [of "s\<lparr>sm_inner := Selecting False\<rparr>"]) (auto simp: pipeline_def inbox_queue_def split: if_splits)
next
  case (Selecting n)
  show ?thesis
  proof (cases "sm_outer s = OuterExited \<or> n")
    case True
    with assms Selecting show ?thesis
      by (intro that [of "s\<lparr>sm_inner := InnerExited\<rparr>"]) (auto simp: pipeline_def inbox_queue_def)
  next
    case False
    with assms Selecting obtain e q where "sb_inbox st = Some (e # q)"
      "st' = put_stream i (s\<lparr>sm_inner := Recording e\<rparr>) (st\<lparr>sb_lock := None, sb_inbox := Some q\<rparr>)"
      by (auto split: option.splits list.splits)
    with Selecting show ?thesis
      by (intro that [of "s\<lparr>sm_inner := Recording e\<rparr>"]) (auto simp: pipeline_def inbox_queue_def)
  qed
next
  case (Recording e)
  let ?r = "record_deliver dp ck a e (sb_receipts st)"
  from Recording assms have "st' = put_stream i (s\<lparr>sm_inner := Pushing (fst ?r)\<rparr>) (st\<lparr>sb_receipts := snd ?r\<rparr>)"
    by (simp add: case_prod_beta Let_def)
  with Recording record_deliver_line [of dp ck a e "sb_receipts st"] show ?thesis
    by (intro that [of "s\<lparr>sm_inner := Pushing (fst ?r)\<rparr>"]) (auto simp: pipeline_def inbox_queue_def subseq_append')
next
  case (Pushing it)
  show ?thesis
  proof (cases "sm_outer s = OuterExited")
    case True
    with assms Pushing show ?thesis
      by (intro that [of "s\<lparr>sm_inner := InnerExited\<rparr>"])
        (auto simp: pipeline_def subseq_append' intro: list_emb_append2)
  next
    case False
    with assms Pushing show ?thesis
      by (intro that [of "s\<lparr>sm_inner := WantLock, sm_items := sm_items s @ [it]\<rparr>"])
        (auto simp: pipeline_def split: if_splits)
  qed
next
  case InnerExited
  with assms show ?thesis by simp
qed

section \<open>Order and conservation\<close>

lemma subseq_mset: "subseq xs ys \<Longrightarrow> mset xs \<subseteq># mset ys"
proof (induction rule: list_emb.induct)
  case (list_emb_Cons xs ys y)
  have "mset ys \<subseteq># mset (y # ys)" by simp
  with list_emb_Cons.IH show ?case by (rule subset_mset.order_trans)
qed auto

definition streams_ok :: "sub_state \<Rightarrow> bool" where
  "streams_ok st \<longleftrightarrow>
     (\<forall>s \<in> set (sb_streams st). subseq (pipeline s @ waiting st) (map proto_of_envelope (sb_accepted st)))
     \<and> subseq (waiting st) (map proto_of_envelope (sb_accepted st))
     \<and> mset (waiting st) + sum_list (map (\<lambda>s. mset (pipeline s)) (sb_streams st)) \<subseteq># mset (map proto_of_envelope (sb_accepted st))"

text \<open>One stream moves on, at most taking from the head of the inbox.\<close>

lemma streams_ok_move:
  assumes ok: "streams_ok st" and i: "i < length (sb_streams st)"
    and st': "sb_streams st' = (sb_streams st)[i := s']" "sb_accepted st' = sb_accepted st"
    and moved: "subseq (pipeline s' @ waiting st') (pipeline (sb_streams st ! i) @ waiting st)"
    and inbox: "subseq (waiting st') (waiting st)"
  shows "streams_ok st'"
proof -
  let ?s = "sb_streams st ! i" and ?acc = "map proto_of_envelope (sb_accepted st)"
  have "subseq (pipeline s' @ waiting st') ?acc"
    using moved ok i by (auto simp: streams_ok_def intro: subseq_order.order_trans)
  moreover have "subseq (pipeline s @ waiting st') ?acc" if "s \<in> set (sb_streams st)" for s
    using inbox ok that subseq_append' [of "pipeline s" "waiting st'" "waiting st"]
    by (auto simp: streams_ok_def intro: subseq_order.order_trans)
  moreover have "mset (waiting st') + sum_list (map (\<lambda>s. mset (pipeline s)) (sb_streams st')) \<subseteq># mset ?acc"
  proof -
    let ?rest = "sum_list (map (\<lambda>s. mset (pipeline s)) (take i (sb_streams st)))
      + sum_list (map (\<lambda>s. mset (pipeline s)) (drop (Suc i) (sb_streams st)))"
    have "map (\<lambda>s. mset (pipeline s)) (sb_streams st)
        = map (\<lambda>s. mset (pipeline s)) (take i (sb_streams st) @ ?s # drop (Suc i) (sb_streams st))"
      using id_take_nth_drop [OF i] by simp
    then have s: "sum_list (map (\<lambda>s. mset (pipeline s)) (sb_streams st)) = mset (pipeline ?s) + ?rest"
      by (simp only: map_append list.map sum_list.append sum_list.Cons ac_simps)
    have s': "sum_list (map (\<lambda>s. mset (pipeline s)) (sb_streams st')) = mset (pipeline s') + ?rest"
      using i by (simp add: st' upd_conv_take_nth_drop ac_simps)
    have "mset (waiting st') + mset (pipeline s') + ?rest \<subseteq># mset (waiting st) + mset (pipeline ?s) + ?rest"
      using subseq_mset [OF moved] by (simp add: ac_simps)
    also have "\<dots> \<subseteq># mset ?acc"
      using ok unfolding streams_ok_def s by (simp add: add.assoc)
    finally show ?thesis unfolding s' by (simp add: add.assoc)
  qed
  moreover have "subseq (waiting st') ?acc"
    using inbox ok by (auto simp: streams_ok_def intro: subseq_order.order_trans)
  ultimately show ?thesis
    using set_update_subset_insert [of "sb_streams st" i s'] by (auto simp: streams_ok_def st')
qed

lemma pipeline_wake [simp]:
  "pipeline (s\<lparr>sm_inner := wake_inner (sm_inner s)\<rparr>) = pipeline s"
  "pipeline (s\<lparr>sm_outer := wake_outer (sm_outer s)\<rparr>) = pipeline s"
  "pipeline (s\<lparr>sm_open := x\<rparr>) = pipeline s" "pipeline stream_new = []"
  by (cases "sm_inner s"; simp add: pipeline_def) (cases "sm_outer s"; simp add: pipeline_def stream_new_def)+

lemma streams_ok_step:
  assumes "streams_ok st" "sub_step dp a ev st = Some st'"
  shows "streams_ok st'"
proof (cases ev)
  case Open_Stream
  then show ?thesis
    using assms by (auto simp: open_stream_def streams_ok_def supersede_waiters_def inbox_queue_def o_def split: if_splits)
next
  case (Queue e)
  then obtain q where "sb_inbox st = Some q" "st' = st\<lparr>sb_inbox := Some (q @ [e]), sb_accepted := sb_accepted st @ [e]\<rparr>"
    using assms by (auto simp: queue_envelope_def try_send_def split: option.splits if_splits)
  then show ?thesis
    using assms(1) by (auto simp: streams_ok_def inbox_queue_def simp flip: append_assoc intro: list_emb_append_mono)
next
  case (Inner i ck)
  with assms(2) have i: "i < length (sb_streams st)"
    and "inner_step dp a ck i (sb_streams st ! i) (sm_inner (sb_streams st ! i)) st = Some st'"
    by (auto simp: Let_def split: if_splits)
  from this(2) show ?thesis by (rule inner_pipeline) (rule streams_ok_move [OF assms(1) i])
next
  case (Outer i)
  with assms(2) obtain s' where "i < length (sb_streams st)" "st' = put_stream i s' st"
    "outer_step (sb_streams st ! i) (sm_outer (sb_streams st ! i)) = Some s'"
    by (auto simp: Let_def split: if_splits)
  with outer_pipeline [OF this(3)] show ?thesis
    by (intro streams_ok_move [OF assms(1)]) (auto intro: list_emb_append_mono)
next
  case (Client_Next i)
  with assms(2) obtain s' where "i < length (sb_streams st)" "st' = put_stream i s' st" "client_next (sb_streams st ! i) = Some s'"
    by (auto split: if_splits)
  with client_pipeline [OF this(3)] show ?thesis by (intro streams_ok_move [OF assms(1)]) auto
next
  case (Client_Drop i)
  with assms(2) have "i < length (sb_streams st)" "st' = put_stream i ((sb_streams st ! i)\<lparr>sm_open := False\<rparr>) st"
    by (auto split: if_splits)
  then show ?thesis by (intro streams_ok_move [OF assms(1)]) auto
qed (use assms in \<open>auto simp: authorize_def mark_revoked_streams_def streams_ok_def inbox_queue_def o_def split: if_splits\<close>)

lemma run_keeps:
  assumes step: "\<And>ev st st'. P st \<Longrightarrow> sub_step dp a ev st = Some st' \<Longrightarrow> P st'"
  shows "P st \<Longrightarrow> sub_run dp a evs st = Some st' \<Longrightarrow> P st'"
proof (induction evs arbitrary: st)
  case (Cons ev evs)
  then show ?case using step by (auto simp: bind_eq_Some_conv)
qed simp

lemma streams_ok_new: "streams_ok (sub_new ms)"
  by (simp add: streams_ok_def sub_new_def inbox_queue_def)

text \<open>A stream in the middle of passing on its first envelope.\<close>

definition mid_delivery :: "Envelope \<Rightarrow> observe_clock \<Rightarrow> sub_event list" where
  "mid_delivery e ck =
     [Authorize, Open_Stream, Outer 0, Inner 0 ck, Queue e, Inner 0 ck, Inner 0 ck, Inner 0 ck, Outer 0]"

lemmas run_simps = sub_new_def authorize_def open_stream_def inbox_queue_def supersede_waiters_def stream_new_def
  mark_revoked_streams_def queue_envelope_def try_send_def INBOX_CAPACITY_def put_stream_def STREAM_CAPACITY_def
  client_next_def Let_def case_prod_beta

text \<open>
  Property (C32): in every reachable state of the streams of an agent, each stream has taken envelopes in
  the order in which the inbox accepted them, and no envelope is in two places: the inbox, the pipelines
  of all streams and what the clients have read together hold every accepted envelope at most once.
\<close>

theorem streams_conserve_envelopes:
  assumes "sub_run dp a evs (sub_new ms) = Some st"
  shows "(\<forall>s \<in> set (sb_streams st). subseq (pipeline s @ waiting st) (map proto_of_envelope (sb_accepted st)))
    \<and> mset (waiting st) + sum_list (map (\<lambda>s. mset (pipeline s)) (sb_streams st))
        \<subseteq># mset (map proto_of_envelope (sb_accepted st))"
  using run_keeps [of streams_ok, OF streams_ok_step streams_ok_new assms] by (simp add: streams_ok_def)

theorem streams_conserve_envelopes_witness:
  "\<exists>st. sub_run demo_transport (AgentId 2) (mid_delivery (demo_envelope (ToAgent (AgentId 2)) [7]) demo_clock)
       (sub_new memory_store_new) = Some st
     \<and> length (sb_streams st) = 1
     \<and> subseq (pipeline (sb_streams st ! 0)) (map proto_of_envelope [demo_envelope (ToAgent (AgentId 2)) [7]])"
proof -
  let ?e = "demo_envelope (ToAgent (AgentId 2)) [7]"
  obtain st where run: "sub_run demo_transport (AgentId 2) (mid_delivery ?e demo_clock) (sub_new memory_store_new) = Some st"
    "length (sb_streams st) = 1" "sb_accepted st = [?e]" "inbox_queue st = []"
    by (simp add: mid_delivery_def run_simps)
  from streams_conserve_envelopes [OF run(1)] run show ?thesis by (auto simp: length_Suc_conv)
qed

section \<open>The lock\<close>

fun selecting :: "inner_phase \<Rightarrow> bool" where
  "selecting (Selecting _) = True"
| "selecting _ = False"

definition lock_ok :: "sub_state \<Rightarrow> bool" where
  "lock_ok st \<longleftrightarrow>
     (\<forall>i. sb_lock st = Some i \<longleftrightarrow> i < length (sb_streams st) \<and> selecting (sm_inner (sb_streams st ! i)))"

lemma lock_ok_stays:
  assumes "lock_ok st" "length (sb_streams st') = length (sb_streams st)" "sb_lock st' = sb_lock st"
    "\<And>i. i < length (sb_streams st) \<Longrightarrow>
      selecting (sm_inner (sb_streams st' ! i)) \<longleftrightarrow> selecting (sm_inner (sb_streams st ! i))"
  shows "lock_ok st'"
  using assms by (auto simp: lock_ok_def)

lemma wake_inner_selecting [simp]: "selecting (wake_inner p) = selecting p"
  by (cases p) auto

lemma lock_ok_inner:
  assumes "lock_ok st" "i < length (sb_streams st)" "s = sb_streams st ! i"
    "inner_step dp a ck i s (sm_inner s) st = Some st'"
  shows "lock_ok st'"
proof (cases "sm_inner s")
  case WantLock
  with assms show ?thesis by (auto simp: lock_ok_def nth_list_update split: if_splits)
next
  case (Selecting n)
  with assms have "sb_lock st = Some i" by (auto simp: lock_ok_def)
  then have other: "j < length (sb_streams st) \<Longrightarrow> selecting (sm_inner (sb_streams st ! j)) \<Longrightarrow> j = i" for j
    using assms(1) unfolding lock_ok_def by (metis option.inject)
  from assms(4) Selecting obtain s' where st': "sb_lock st' = None" "sb_streams st' = (sb_streams st)[i := s']"
    "\<not> selecting (sm_inner s')"
    by (auto split: if_splits option.splits list.splits)
  have "\<not> selecting (sm_inner ((sb_streams st)[i := s'] ! j))" if "j < length (sb_streams st)" for j
    using st'(3) other [OF that] that by (cases "j = i") auto
  then show ?thesis by (simp add: lock_ok_def st')
next
  case (Recording e)
  with assms show ?thesis
    by (intro lock_ok_stays [OF assms(1)]) (auto simp: nth_list_update case_prod_beta Let_def split: if_splits)
next
  case (Pushing it)
  with assms show ?thesis
    by (intro lock_ok_stays [OF assms(1)]) (auto simp: nth_list_update split: if_splits)
qed (use assms in simp)

lemma lock_ok_step:
  assumes "lock_ok st" "sub_step dp a ev st = Some st'"
  shows "lock_ok st'"
proof (cases ev)
  case Open_Stream
  with assms have st': "sb_streams st' = supersede_waiters (sb_streams st) @ [stream_new]" "sb_lock st' = sb_lock st"
    by (auto simp: open_stream_def split: if_splits)
  have "j < length (sb_streams st) \<Longrightarrow>
      selecting (sm_inner (sb_streams st' ! j)) \<longleftrightarrow> selecting (sm_inner (sb_streams st ! j))" for j
    by (simp add: st' supersede_waiters_def nth_append)
  moreover have "\<not> selecting (sm_inner (sb_streams st' ! length (sb_streams st)))"
    by (simp add: st' supersede_waiters_def nth_append stream_new_def)
  moreover have "length (sb_streams st') = Suc (length (sb_streams st))" by (simp add: st' supersede_waiters_def)
  ultimately show ?thesis using assms(1) by (auto simp: lock_ok_def st' less_Suc_eq)
next
  case (Inner i ck)
  with assms show ?thesis by (auto simp: Let_def split: if_splits intro: lock_ok_inner)
next
  case (Outer i)
  with assms(2) obtain s' where "i < length (sb_streams st)" "st' = put_stream i s' st"
    "outer_step (sb_streams st ! i) (sm_outer (sb_streams st ! i)) = Some s'"
    by (auto simp: Let_def split: if_splits)
  with outer_pipeline(2) [OF this(3)] show ?thesis
    by (intro lock_ok_stays [OF assms(1)]) (auto simp: nth_list_update)
next
  case (Client_Next i)
  with assms(2) obtain s' where "i < length (sb_streams st)" "st' = put_stream i s' st" "client_next (sb_streams st ! i) = Some s'"
    by (auto split: if_splits)
  with client_pipeline(2) [OF this(3)] show ?thesis
    by (intro lock_ok_stays [OF assms(1)]) (auto simp: nth_list_update)
next
  case Authorize
  then show ?thesis
    using assms by (intro lock_ok_stays [OF assms(1)]) (auto simp: authorize_def split: if_splits)
next
  case Revoke
  then show ?thesis
    using assms by (intro lock_ok_stays [OF assms(1)]) (auto simp: mark_revoked_streams_def)
next
  case (Queue e)
  then show ?thesis
    using assms by (intro lock_ok_stays [OF assms(1)]) (auto simp: queue_envelope_def split: option.splits sum.splits)
next
  case (Client_Drop i)
  then show ?thesis
    using assms by (intro lock_ok_stays [OF assms(1)]) (auto simp: nth_list_update split: if_splits)
qed

lemma lock_ok_new: "lock_ok (sub_new ms)"
  by (simp add: lock_ok_def sub_new_def)

section \<open>A single stream delivers everything\<close>

text \<open>
  The frames a stream will hand to its client whatever happens to the receipts, and the envelopes it has
  still to turn into frames.
\<close>

definition fixed_frames :: "subscription \<Rightarrow> stream_frame list" where
  "fixed_frames s = sm_seen s @ sm_frames s @ (case sm_outer s of OuterPushing f \<Rightarrow> [f] | _ \<Rightarrow> [])
     @ map subscribed_frame (sm_items s) @ (case sm_inner s of Pushing it \<Rightarrow> [subscribed_frame it] | _ \<Rightarrow> [])"

definition owed :: "nat \<Rightarrow> sub_state \<Rightarrow> Envelope list" where
  "owed i st = (case sm_inner (sb_streams st ! i) of Recording e \<Rightarrow> [e] | _ \<Rightarrow> []) @ inbox_queue st"

text \<open>
  A frame for an envelope: what recording its delivery gave, the envelope with the receipt or, where the
  receipt could not be recorded, the error.
\<close>

definition frame_for :: "transport_deps \<Rightarrow> AgentId \<Rightarrow> Envelope \<Rightarrow> stream_frame \<Rightarrow> bool" where
  "frame_for dp a e f \<longleftrightarrow> (\<exists>ck ms. f = subscribed_frame (fst (record_deliver dp ck a e ms)))"

text \<open>The stream is the only one that still reads the inbox; nothing has told it to stop.\<close>

definition sole_stream :: "nat \<Rightarrow> sub_state \<Rightarrow> bool" where
  "sole_stream i st \<longleftrightarrow>
     i < length (sb_streams st) \<and> sm_open (sb_streams st ! i)
     \<and> sm_inner (sb_streams st ! i) \<notin> {InnerExited, Selecting True}
     \<and> sm_outer (sb_streams st ! i) \<notin> {OuterSelecting True, OuterEnding, OuterExited}
     \<and> (\<forall>j < length (sb_streams st). j \<noteq> i \<longrightarrow> sm_inner (sb_streams st ! j) = InnerExited)"

inductive own_step :: "transport_deps \<Rightarrow> AgentId \<Rightarrow> nat \<Rightarrow> sub_state \<Rightarrow> sub_state \<Rightarrow> bool"
  for dp a i where
  own_inner: "sub_step dp a (Inner i ck) st = Some st' \<Longrightarrow> own_step dp a i st st'"
| own_outer: "sub_step dp a (Outer i) st = Some st' \<Longrightarrow> own_step dp a i st st'"
| own_client: "sub_step dp a (Client_Next i) st = Some st' \<Longrightarrow> own_step dp a i st st'"

inductive_simps own_step_iff: "own_step dp a i st st'"

text \<open>On every path: the goal holds, or the path goes on and every next state leads to it.\<close>

inductive inevitable :: "('s \<Rightarrow> 's \<Rightarrow> bool) \<Rightarrow> ('s \<Rightarrow> bool) \<Rightarrow> 's \<Rightarrow> bool"
  for step P where
  now: "P s \<Longrightarrow> inevitable step P s"
| later: "\<exists>s'. step s s' \<Longrightarrow> (\<And>s'. step s s' \<Longrightarrow> inevitable step P s') \<Longrightarrow> inevitable step P s"

lemma inevitable_mono: "inevitable step P s \<Longrightarrow> (\<And>s. P s \<Longrightarrow> Q s) \<Longrightarrow> inevitable step Q s"
proof (induction rule: inevitable.induct)
  case (now s)
  then show ?case by (simp add: inevitable.now)
next
  case (later s)
  then show ?case by (metis inevitable.later)
qed

text \<open>Every step of the stream brings an envelope closer to its client.\<close>

fun inner_work :: "inner_phase \<Rightarrow> nat" where
  "inner_work WantLock = 1"
| "inner_work (Selecting _) = 0"
| "inner_work (Recording _) = 8"
| "inner_work (Pushing _) = 7"
| "inner_work InnerExited = 0"

fun outer_work :: "outer_phase \<Rightarrow> nat" where
  "outer_work OuterLoop = 1"
| "outer_work (OuterPushing _) = 4"
| "outer_work _ = 0"

definition work :: "nat \<Rightarrow> sub_state \<Rightarrow> nat" where
  "work i st = (let s = sb_streams st ! i in
     9 * length (inbox_queue st) + 5 * length (sm_items s) + 2 * length (sm_frames s)
     + inner_work (sm_inner s) + outer_work (sm_outer s))"

definition carries_on :: "transport_deps \<Rightarrow> AgentId \<Rightarrow> nat \<Rightarrow> sub_state \<Rightarrow> sub_state \<Rightarrow> bool" where
  "carries_on dp a i st st' \<longleftrightarrow> sole_stream i st' \<and> work i st' < work i st
     \<and> (\<forall>xs'. list_all2 (frame_for dp a) (owed i st') xs' \<longrightarrow>
          (\<exists>xs. list_all2 (frame_for dp a) (owed i st) xs
             \<and> fixed_frames (sb_streams st' ! i) @ xs' = fixed_frames (sb_streams st ! i) @ xs))"

lemma sole_stream_put:
  "sole_stream i st \<Longrightarrow> sm_open s' \<Longrightarrow> sm_inner s' \<notin> {InnerExited, Selecting True} \<Longrightarrow>
     sm_outer s' \<notin> {OuterSelecting True, OuterEnding, OuterExited} \<Longrightarrow> sb_streams st' = (sb_streams st)[i := s'] \<Longrightarrow>
     sole_stream i st'"
  by (auto simp: sole_stream_def)

lemma carries_on_put:
  assumes "sole_stream i st" "sm_open s'" "sm_inner s' \<notin> {InnerExited, Selecting True}"
    "sm_outer s' \<notin> {OuterSelecting True, OuterEnding, OuterExited}" "sb_streams st' = (sb_streams st)[i := s']"
    "work i st' < work i st" "fixed_frames s' = fixed_frames (sb_streams st ! i)" "owed i st' = owed i st"
  shows "carries_on dp a i st st'"
  using assms sole_stream_put [OF assms(1-5)] by (auto simp: carries_on_def sole_stream_def)

lemma carries_on_inner:
  assumes sole: "sole_stream i st" and step: "sub_step dp a (Inner i ck) st = Some st'"
  shows "carries_on dp a i st st'"
proof -
  let ?s = "sb_streams st ! i"
  from step have i: "i < length (sb_streams st)" and step: "inner_step dp a ck i ?s (sm_inner ?s) st = Some st'"
    by (auto simp: Let_def split: if_splits)
  show ?thesis
  proof (cases "sm_inner ?s")
    case WantLock
    with step i sole show ?thesis
      by (intro carries_on_put [OF sole, of "?s\<lparr>sm_inner := Selecting False\<rparr>"])
        (auto simp: work_def Let_def fixed_frames_def owed_def inbox_queue_def sole_stream_def split: if_splits)
  next
    case (Selecting n)
    with sole have "\<not> n" "sm_outer ?s \<noteq> OuterExited" by (auto simp: sole_stream_def)
    with step Selecting obtain e q where q: "sb_inbox st = Some (e # q)"
      "st' = put_stream i (?s\<lparr>sm_inner := Recording e\<rparr>) (st\<lparr>sb_lock := None, sb_inbox := Some q\<rparr>)"
      by (auto split: option.splits list.splits)
    with Selecting i sole show ?thesis
      by (intro carries_on_put [OF sole, of "?s\<lparr>sm_inner := Recording e\<rparr>"])
        (auto simp: work_def Let_def fixed_frames_def owed_def inbox_queue_def sole_stream_def)
  next
    case (Recording e)
    let ?r = "record_deliver dp ck a e (sb_receipts st)"
    from Recording step have st': "st' = put_stream i (?s\<lparr>sm_inner := Pushing (fst ?r)\<rparr>) (st\<lparr>sb_receipts := snd ?r\<rparr>)"
      by (simp add: case_prod_beta Let_def)
    have "frame_for dp a e (subscribed_frame (fst ?r))"
      by (auto simp: frame_for_def)
    with Recording st' i show ?thesis
      using sole_stream_put [OF sole, of "?s\<lparr>sm_inner := Pushing (fst ?r)\<rparr>" st'] sole
      by (auto simp: carries_on_def work_def Let_def fixed_frames_def owed_def inbox_queue_def sole_stream_def)
  next
    case (Pushing it)
    with step i sole show ?thesis
      by (intro carries_on_put [OF sole, of "?s\<lparr>sm_inner := WantLock, sm_items := sm_items ?s @ [it]\<rparr>"])
        (auto simp: work_def Let_def fixed_frames_def owed_def inbox_queue_def sole_stream_def split: if_splits)
  qed (use step in simp)
qed

lemma carries_on_outer:
  assumes sole: "sole_stream i st" and step: "sub_step dp a (Outer i) st = Some st'"
  shows "carries_on dp a i st st'"
proof -
  let ?s = "sb_streams st ! i"
  from step obtain s' where i: "i < length (sb_streams st)" and st': "st' = put_stream i s' st"
    and o: "outer_step ?s (sm_outer ?s) = Some s'"
    by (auto simp: Let_def split: if_splits)
  from o sole have kept: "sm_open s'" "sm_inner s' = sm_inner ?s" "fixed_frames s' = fixed_frames ?s"
    "sm_outer s' \<notin> {OuterSelecting True, OuterEnding, OuterExited}"
    "5 * length (sm_items s') + 2 * length (sm_frames s') + outer_work (sm_outer s')
      < 5 * length (sm_items ?s) + 2 * length (sm_frames ?s) + outer_work (sm_outer ?s)"
    by (cases "sm_outer ?s"; auto simp: sole_stream_def fixed_frames_def split: if_splits list.splits)+
  with sole show ?thesis
    by (intro carries_on_put [OF sole, of s'])
      (auto simp: st' work_def Let_def owed_def sole_stream_def)
qed

lemma carries_on_client:
  assumes sole: "sole_stream i st" and step: "sub_step dp a (Client_Next i) st = Some st'"
  shows "carries_on dp a i st st'"
proof -
  from step obtain s' where "st' = put_stream i s' st" "client_next (sb_streams st ! i) = Some s'"
    by (auto split: if_splits)
  with sole show ?thesis
    by (intro carries_on_put [OF sole, of s'])
      (auto simp: client_next_def work_def Let_def owed_def sole_stream_def fixed_frames_def split: list.splits if_splits)
qed

lemma own_step_carries_on:
  assumes "sole_stream i st" "own_step dp a i st st'"
  shows "carries_on dp a i st st'"
  using assms(2)
  by (cases rule: own_step.cases) (simp_all add: carries_on_inner [OF assms(1)] carries_on_outer [OF assms(1)] carries_on_client [OF assms(1)])

lemma own_step_lock: "lock_ok st \<Longrightarrow> own_step dp a i st st' \<Longrightarrow> lock_ok st'"
  by (erule own_step.cases) (blast intro: lock_ok_step)+

text \<open>A stream that has not handed over everything can take a step.\<close>

lemma sole_stream_progress:
  assumes sole: "sole_stream i st" and lock: "lock_ok st"
    and unfinished: "owed i st \<noteq> [] \<or> sm_seen (sb_streams st ! i) \<noteq> fixed_frames (sb_streams st ! i)"
  shows "\<exists>st'. own_step dp a i st st'"
proof -
  let ?s = "sb_streams st ! i"
  have free: "sb_lock st = None" if "\<not> selecting (sm_inner ?s)"
  proof (rule ccontr)
    assume "sb_lock st \<noteq> None"
    then obtain j where "sb_lock st = Some j" by blast
    with lock have j: "j < length (sb_streams st)" "selecting (sm_inner (sb_streams st ! j))" by (auto simp: lock_ok_def)
    with that sole show False by (auto simp: sole_stream_def)
  qed
  have inner: "\<exists>st'. sub_step dp a (Inner i ck) st = Some st'"
    if "length (sm_items ?s) < STREAM_CAPACITY" "selecting (sm_inner ?s) \<Longrightarrow> inbox_queue st \<noteq> []" for ck
    using sole that free
    by (cases "sm_inner ?s") (auto simp: sole_stream_def Let_def case_prod_beta inbox_queue_def neq_Nil_conv split: option.splits)
  show ?thesis
  proof (cases "sm_frames ?s")
    case (Cons f fs)
    with sole show ?thesis by (auto simp: own_step_iff sole_stream_def client_next_def)
  next
    case Nil
    show ?thesis
    proof (cases "outer_step ?s (sm_outer ?s)")
      case (Some s')
      with sole show ?thesis by (auto simp: own_step_iff sole_stream_def Let_def)
    next
      case None
      with Nil sole have idle: "sm_outer ?s = OuterSelecting False" "sm_items ?s = []"
        by (cases "sm_outer ?s"; auto simp: sole_stream_def STREAM_CAPACITY_def split: list.splits if_splits)+
      with Nil unfinished have "selecting (sm_inner ?s) \<Longrightarrow> inbox_queue st \<noteq> []"
        by (cases "sm_inner ?s") (auto simp: owed_def fixed_frames_def)
      moreover have "length (sm_items ?s) < STREAM_CAPACITY" by (simp add: idle STREAM_CAPACITY_def)
      ultimately show ?thesis using inner own_inner by blast
    qed
  qed
qed

definition all_seen :: "transport_deps \<Rightarrow> AgentId \<Rightarrow> nat \<Rightarrow> sub_state \<Rightarrow> sub_state \<Rightarrow> bool" where
  "all_seen dp a i st st' \<longleftrightarrow>
     (\<exists>xs. list_all2 (frame_for dp a) (owed i st) xs \<and> sm_seen (sb_streams st' ! i) = fixed_frames (sb_streams st ! i) @ xs)"

lemma sole_stream_delivers:
  "sole_stream i st \<Longrightarrow> lock_ok st \<Longrightarrow> inevitable (own_step dp a i) (all_seen dp a i st) st"
proof (induction "work i st" arbitrary: st rule: less_induct)
  case less
  show ?case
  proof (cases "owed i st = [] \<and> sm_seen (sb_streams st ! i) = fixed_frames (sb_streams st ! i)")
    case True
    then show ?thesis by (intro now) (auto simp: all_seen_def)
  next
    case False
    show ?thesis
    proof (rule later)
      show "\<exists>st'. own_step dp a i st st'" using sole_stream_progress [OF less.prems] False by blast
      fix st'
      assume step: "own_step dp a i st st'"
      with less.prems have on: "carries_on dp a i st st'" by (simp add: own_step_carries_on)
      then have "inevitable (own_step dp a i) (all_seen dp a i st') st'"
        using less.hyps step own_step_lock less.prems(2) by (auto simp: carries_on_def)
      then show "inevitable (own_step dp a i) (all_seen dp a i st) st'"
      proof (rule inevitable_mono)
        fix s
        assume "all_seen dp a i st' s"
        with on show "all_seen dp a i st s" by (fastforce simp: all_seen_def carries_on_def)
      qed
    qed
  qed
qed

text \<open>
  Property (C4): liveness of a subscription. From every reachable state in which one stream alone still
  reads the inbox and has not been told to stop, every way in which its two forwarders and its client
  take their turns leads, in finitely many steps and without getting stuck, to a state in which the
  client has read one frame for every envelope of the stream and of the inbox, in order.
\<close>

theorem single_stream_delivers:
  assumes "sub_run dp a evs (sub_new ms) = Some st" and "sole_stream i st"
  shows "inevitable (own_step dp a i)
    (\<lambda>st'. \<exists>xs. list_all2 (frame_for dp a) (owed i st) xs \<and> sm_seen (sb_streams st' ! i) = fixed_frames (sb_streams st ! i) @ xs) st"
proof -
  have "lock_ok st" using run_keeps [of lock_ok, OF lock_ok_step lock_ok_new assms(1)] .
  from sole_stream_delivers [OF assms(2) this] show ?thesis
    by (rule inevitable_mono) (simp add: all_seen_def)
qed

theorem single_stream_delivers_witness:
  "\<exists>st. sub_run demo_transport (AgentId 2) (mid_delivery (demo_envelope (ToAgent (AgentId 2)) [7]) demo_clock
         @ [Queue (demo_envelope (ToAgent (AgentId 2)) [8])]) (sub_new memory_store_new) = Some st
     \<and> sm_seen (sb_streams st ! 0) = []
     \<and> inevitable (own_step demo_transport (AgentId 2) 0) (\<lambda>st'. length (sm_seen (sb_streams st' ! 0)) = 2) st"
proof -
  let ?evs = "mid_delivery (demo_envelope (ToAgent (AgentId 2)) [7]) demo_clock @ [Queue (demo_envelope (ToAgent (AgentId 2)) [8])]"
  obtain st where run: "sub_run demo_transport (AgentId 2) ?evs (sub_new memory_store_new) = Some st"
    and state: "sole_stream 0 st" "sm_seen (sb_streams st ! 0) = []" "length (fixed_frames (sb_streams st ! 0)) = 1"
      "length (owed 0 st) = 1"
    by (simp add: mid_delivery_def run_simps sole_stream_def fixed_frames_def owed_def)
  from single_stream_delivers [OF run state(1)]
  have "inevitable (own_step demo_transport (AgentId 2) 0) (\<lambda>st'. length (sm_seen (sb_streams st' ! 0)) = 2) st"
    by (rule inevitable_mono) (auto simp: state dest: list_all2_lengthD)
  with run state show ?thesis by blast
qed

section \<open>Notifications\<close>

definition superseded_at :: "nat \<Rightarrow> proto_Envelope list \<Rightarrow> sub_state \<Rightarrow> bool" where
  "superseded_at i line st \<longleftrightarrow> i < length (sb_streams st)
     \<and> sm_inner (sb_streams st ! i) \<in> {Selecting True, InnerExited} \<and> subseq (pipeline (sb_streams st ! i)) line"

definition revoked_at :: "nat \<Rightarrow> stream_frame list \<Rightarrow> sub_state \<Rightarrow> bool" where
  "revoked_at i fs st \<longleftrightarrow> i < length (sb_streams st)
     \<and> (let s = sb_streams st ! i in
        sm_seen s @ sm_frames s = fs \<and> sm_outer s \<in> {OuterSelecting True, OuterEnding, OuterExited}
        \<or> sm_seen s @ sm_frames s = fs @ [revoked_frame] \<and> sm_outer s = OuterExited)"

lemma other_stream_inner:
  assumes "sub_step dp a (Inner j ck) st = Some st'" "j \<noteq> i"
  shows "sb_streams st' ! i = sb_streams st ! i" "length (sb_streams st') = length (sb_streams st)"
proof -
  from assms have "inner_step dp a ck j (sb_streams st ! j) (sm_inner (sb_streams st ! j)) st = Some st'"
    by (auto simp: Let_def split: if_splits)
  then obtain s' where "sb_streams st' = (sb_streams st)[j := s']" by (rule inner_pipeline)
  with assms(2) show "sb_streams st' ! i = sb_streams st ! i" "length (sb_streams st') = length (sb_streams st)" by simp_all
qed

lemma superseded_step:
  assumes "superseded_at i line st" "sub_step dp a ev st = Some st'"
  shows "superseded_at i line st'"
proof (cases ev)
  case (Inner j ck)
  show ?thesis
  proof (cases "j = i")
    case True
    with assms Inner show ?thesis
      by (auto simp: superseded_at_def Let_def pipeline_def split: if_splits)
  next
    case False
    with other_stream_inner [OF assms(2) [unfolded Inner]] assms(1) show ?thesis by (simp add: superseded_at_def)
  qed
next
  case (Outer j)
  with assms(2) obtain s' where "st' = put_stream j s' st" "outer_step (sb_streams st ! j) (sm_outer (sb_streams st ! j)) = Some s'"
    by (auto simp: Let_def split: if_splits)
  with outer_pipeline [OF this(2)] assms(1) show ?thesis
    by (cases "j = i") (auto simp: superseded_at_def intro: subseq_order.order_trans)
next
  case (Client_Next j)
  with assms(2) obtain s' where "st' = put_stream j s' st" "client_next (sb_streams st ! j) = Some s'"
    by (auto split: if_splits)
  with client_pipeline [OF this(2)] assms(1) show ?thesis by (cases "j = i") (auto simp: superseded_at_def)
next
  case (Client_Drop j)
  with assms show ?thesis by (cases "j = i") (auto simp: superseded_at_def split: if_splits)
next
  case Open_Stream
  then show ?thesis
    using assms by (auto simp: superseded_at_def open_stream_def supersede_waiters_def nth_append pipeline_def split: if_splits)
qed (use assms in \<open>auto simp: superseded_at_def authorize_def
    mark_revoked_streams_def queue_envelope_def split: if_splits option.splits sum.splits\<close>)

lemma revoked_step:
  assumes "revoked_at i fs st" "sub_step dp a ev st = Some st'"
  shows "revoked_at i fs st'"
proof (cases ev)
  case (Inner j ck)
  with assms(2) have "j < length (sb_streams st)"
    "inner_step dp a ck j (sb_streams st ! j) (sm_inner (sb_streams st ! j)) st = Some st'"
    by (auto simp: Let_def split: if_splits)
  from this(2) assms(1) show ?thesis
    by (elim inner_pipeline) (cases "j = i"; auto simp: revoked_at_def Let_def)
next
  case (Outer j)
  with assms(2) obtain s' where s': "st' = put_stream j s' st" "outer_step (sb_streams st ! j) (sm_outer (sb_streams st ! j)) = Some s'"
    by (auto simp: Let_def split: if_splits)
  show ?thesis
  proof (cases "j = i")
    case True
    with s' assms(1) show ?thesis by (auto simp: revoked_at_def Let_def split: if_splits)
  next
    case False
    with s' assms(1) show ?thesis by (simp add: revoked_at_def)
  qed
next
  case (Client_Next j)
  with assms(2) obtain s' where "st' = put_stream j s' st" "client_next (sb_streams st ! j) = Some s'"
    by (auto split: if_splits)
  with assms(1) show ?thesis
    by (cases "j = i") (auto simp: revoked_at_def Let_def client_next_def split: list.splits if_splits)
next
  case (Client_Drop j)
  with assms show ?thesis by (cases "j = i") (auto simp: revoked_at_def Let_def split: if_splits)
qed (use assms in \<open>auto simp: revoked_at_def Let_def authorize_def open_stream_def supersede_waiters_def nth_append
    mark_revoked_streams_def queue_envelope_def split: if_splits option.splits sum.splits\<close>)

text \<open>
  a forwarder that waits when it is notified obeys. A stream whose inner forwarder is waiting
  for an envelope when a newer subscription starts never takes another envelope, and a stream whose
  outer forwarder is waiting when the agent is revoked passes on nothing more than the frame that tells
  its client of the revocation, after which it is closed.
\<close>

theorem waiting_forwarder_obeys:
  assumes "i < length (sb_streams st)"
  shows "(\<forall>n. sm_inner (sb_streams st ! i) = Selecting n \<and> sub_run dp a (Open_Stream # evs) st = Some st' \<longrightarrow>
        subseq (pipeline (sb_streams st' ! i)) (pipeline (sb_streams st ! i)))
    \<and> (\<forall>n. sm_outer (sb_streams st ! i) = OuterSelecting n \<and> sub_run dp a (Revoke # evs) st = Some st' \<longrightarrow>
        (let old = sb_streams st ! i; new = sb_streams st' ! i in
         sm_seen new @ sm_frames new = sm_seen old @ sm_frames old
         \<or> sm_seen new @ sm_frames new = sm_seen old @ sm_frames old @ [revoked_frame] \<and> sm_outer new = OuterExited))"
proof (intro conjI allI impI; elim conjE)
  fix n
  assume n: "sm_inner (sb_streams st ! i) = Selecting n" and run: "sub_run dp a (Open_Stream # evs) st = Some st'"
  then obtain st1 where o: "open_stream st = Some st1" and r: "sub_run dp a evs st1 = Some st'"
    by (auto simp: bind_eq_Some_conv)
  from o n assms have "superseded_at i (pipeline (sb_streams st ! i)) st1"
    by (auto simp: superseded_at_def open_stream_def supersede_waiters_def nth_append pipeline_def split: if_splits)
  from run_keeps [of "superseded_at i (pipeline (sb_streams st ! i))", OF superseded_step this r]
  show "subseq (pipeline (sb_streams st' ! i)) (pipeline (sb_streams st ! i))"
    by (simp add: superseded_at_def)
next
  fix n
  assume n: "sm_outer (sb_streams st ! i) = OuterSelecting n" and run: "sub_run dp a (Revoke # evs) st = Some st'"
  let ?fs = "sm_seen (sb_streams st ! i) @ sm_frames (sb_streams st ! i)"
  from n assms have first: "revoked_at i ?fs (mark_revoked_streams st)"
    by (simp add: revoked_at_def mark_revoked_streams_def Let_def)
  from run have "sub_run dp a evs (mark_revoked_streams st) = Some st'" by simp
  from run_keeps [of "revoked_at i ?fs", OF revoked_step first this]
  show "let old = sb_streams st ! i; new = sb_streams st' ! i in
         sm_seen new @ sm_frames new = sm_seen old @ sm_frames old
         \<or> sm_seen new @ sm_frames new = sm_seen old @ sm_frames old @ [revoked_frame] \<and> sm_outer new = OuterExited"
    by (auto simp: revoked_at_def Let_def)
qed

theorem waiting_forwarder_obeys_witness:
  "\<exists>st st'. sm_outer (sb_streams st ! 0) = OuterSelecting False
     \<and> sub_run demo_transport (AgentId 2) [Revoke, Outer 0, Outer 0, Client_Next 0] st = Some st'
     \<and> sm_seen (sb_streams st' ! 0) = [revoked_frame] \<and> sm_outer (sb_streams st' ! 0) = OuterExited"
proof -
  obtain st where st: "sub_run demo_transport (AgentId 2) [Authorize, Open_Stream, Outer 0, Inner 0 demo_clock] (sub_new memory_store_new) = Some st"
    "0 < length (sb_streams st)" "sm_outer (sb_streams st ! 0) = OuterSelecting False" "sm_seen (sb_streams st ! 0) = []"
    "sm_frames (sb_streams st ! 0) = []" "sm_open (sb_streams st ! 0)"
    by (simp add: run_simps)
  then obtain st' where st': "sub_run demo_transport (AgentId 2) [Revoke, Outer 0, Outer 0, Client_Next 0] st = Some st'"
    "sm_seen (sb_streams st' ! 0) \<noteq> []"
    by (simp add: run_simps)
  with waiting_forwarder_obeys [OF st(2), of demo_transport "AgentId 2" "[Outer 0, Outer 0, Client_Next 0]" st'] st
  have "sm_seen (sb_streams st' ! 0) @ sm_frames (sb_streams st' ! 0) = [revoked_frame] \<and> sm_outer (sb_streams st' ! 0) = OuterExited"
    by (auto simp: Let_def simp del: sub_run.simps)
  with st st' show ?thesis by (auto simp: append_eq_Cons_conv simp del: sub_run.simps)
qed

section \<open>Missed notifications\<close>

fun busy :: "outer_phase \<Rightarrow> bool" where
  "busy OuterLoop = True"
| "busy (OuterPushing _) = True"
| "busy _ = False"

text \<open>Stream \<open>i\<close> of a revoked agent goes on, unless its client has left or its inner forwarder has ended.\<close>

definition missed_at :: "nat \<Rightarrow> sub_state \<Rightarrow> bool" where
  "missed_at i st \<longleftrightarrow> i < length (sb_streams st) \<and> sb_revoked st
     \<and> (let s = sb_streams st ! i in sm_outer s \<notin> {OuterSelecting True, OuterEnding}
          \<and> (sm_outer s = OuterExited \<longrightarrow> \<not> sm_open s \<or> sm_inner s = InnerExited))"

lemma missed_put:
  assumes "missed_at i st" "sb_revoked st' = sb_revoked st" "sb_streams st' = (sb_streams st)[j := s']"
    "j = i \<Longrightarrow> sm_outer s' \<notin> {OuterSelecting True, OuterEnding} \<and> (sm_outer s' = OuterExited \<longrightarrow> \<not> sm_open s' \<or> sm_inner s' = InnerExited)"
  shows "missed_at i st'"
  using assms by (cases "j = i") (auto simp: missed_at_def Let_def)

lemma inner_step_keeps:
  assumes "inner_step dp a ck j s (sm_inner s) st = Some st'"
  obtains s' where "sb_streams st' = (sb_streams st)[j := s']" "sb_revoked st' = sb_revoked st"
    "sm_outer s' = sm_outer s" "sm_open s' = sm_open s" "sm_inner s \<noteq> InnerExited"
  using assms
  by (cases "sm_inner s") (auto simp: case_prod_beta Let_def split: if_splits option.splits list.splits)

lemma missed_step:
  assumes missed: "missed_at i st" and step: "sub_step dp a ev st = Some st'" and "ev \<noteq> Revoke"
  shows "missed_at i st'"
proof (cases ev)
  case (Inner j ck)
  with step have "inner_step dp a ck j (sb_streams st ! j) (sm_inner (sb_streams st ! j)) st = Some st'"
    by (auto simp: Let_def split: if_splits)
  then obtain s' where "sb_streams st' = (sb_streams st)[j := s']" "sb_revoked st' = sb_revoked st"
    "sm_outer s' = sm_outer (sb_streams st ! j)" "sm_open s' = sm_open (sb_streams st ! j)"
    "sm_inner (sb_streams st ! j) \<noteq> InnerExited"
    by (rule inner_step_keeps)
  with missed show ?thesis
    by (intro missed_put [OF missed, of st' j s']) (auto simp: missed_at_def Let_def)
next
  case (Outer j)
  with step obtain s' where s': "st' = put_stream j s' st" "outer_step (sb_streams st ! j) (sm_outer (sb_streams st ! j)) = Some s'"
    by (auto simp: Let_def split: if_splits)
  then show ?thesis
    using missed by (intro missed_put [OF missed, of st' j s'])
      (cases "sm_outer (sb_streams st ! j)"; auto simp: missed_at_def Let_def split: if_splits list.splits)+
next
  case (Client_Next j)
  with step obtain s' where "st' = put_stream j s' st" "client_next (sb_streams st ! j) = Some s'"
    by (auto split: if_splits)
  with missed show ?thesis
    by (intro missed_put [OF missed, of st' j s'])
      (auto simp: missed_at_def Let_def client_next_def split: list.splits if_splits)
next
  case (Client_Drop j)
  with step missed show ?thesis
    by (intro missed_put [OF missed, of st' j "(sb_streams st ! j)\<lparr>sm_open := False\<rparr>"])
      (auto simp: missed_at_def Let_def split: if_splits)
qed (use assms in \<open>auto simp: missed_at_def Let_def authorize_def open_stream_def supersede_waiters_def nth_append
    queue_envelope_def split: if_splits option.splits sum.splits\<close>)

lemma missed_run:
  "missed_at i st \<Longrightarrow> sub_run dp a evs st = Some st' \<Longrightarrow> Revoke \<notin> set evs \<Longrightarrow> missed_at i st'"
  by (induction evs arbitrary: st) (auto simp: bind_eq_Some_conv dest: missed_step)

text \<open>
  Property (C34): a revocation that lands while the outer forwarder of a stream is not waiting (it is passing
  on an envelope, or about to wait again) is missed for good. Whatever happens afterwards short of a second
  revocation, the agent is revoked and no new subscription would be authorized, yet the stream is never told to
  stop; and whenever its client has not left, it was not replaced and no other stream reads the inbox,
  every schedule of its forwarders and its client leads to the client having read a frame for every envelope
  of the stream and the inbox, in order, those sent after the revocation included.
\<close>

theorem busy_stream_survives_revocation:
  assumes "sub_run dp a evs (sub_new ms) = Some st" and "i < length (sb_streams st)" and "busy (sm_outer (sb_streams st ! i))"
    and "sub_run dp a (Revoke # evs') st = Some st'" and "Revoke \<notin> set evs'"
  shows "sb_revoked st' \<and> authorize st' = None
    \<and> sm_outer (sb_streams st' ! i) \<notin> {OuterSelecting True, OuterEnding}
    \<and> (sm_open (sb_streams st' ! i) \<and> sm_inner (sb_streams st' ! i) \<notin> {InnerExited, Selecting True}
        \<and> (\<forall>j < length (sb_streams st'). j \<noteq> i \<longrightarrow> sm_inner (sb_streams st' ! j) = InnerExited) \<longrightarrow>
       inevitable (own_step dp a i)
         (\<lambda>st''. \<exists>xs. list_all2 (frame_for dp a) (owed i st') xs
            \<and> sm_seen (sb_streams st'' ! i) = fixed_frames (sb_streams st' ! i) @ xs) st')"
proof -
  have "missed_at i (mark_revoked_streams st)"
    using assms(2,3) by (cases "sm_outer (sb_streams st ! i)") (auto simp: missed_at_def mark_revoked_streams_def Let_def)
  moreover have run: "sub_run dp a evs' (mark_revoked_streams st) = Some st'"
    using assms(4) by simp
  ultimately have missed: "missed_at i st'"
    using missed_run assms(5) by blast
  have "lock_ok st"
    using run_keeps [of lock_ok, OF lock_ok_step lock_ok_new assms(1)] .
  from run_keeps [of lock_ok, OF lock_ok_step this assms(4)] have "lock_ok st'" .
  then have "sole_stream i st' \<Longrightarrow> inevitable (own_step dp a i) (all_seen dp a i st') st'"
    by (rule sole_stream_delivers [rotated])
  with missed show ?thesis
    by (auto simp: missed_at_def Let_def authorize_def sole_stream_def all_seen_def [abs_def])
qed

theorem busy_stream_survives_revocation_witness:
  "\<exists>st. sub_run demo_transport (AgentId 2) (mid_delivery (demo_envelope (ToAgent (AgentId 2)) [7]) demo_clock
         @ [Revoke, Queue (demo_envelope (ToAgent (AgentId 2)) [8])]) (sub_new memory_store_new) = Some st
     \<and> sb_revoked st \<and> authorize st = None \<and> sm_seen (sb_streams st ! 0) = []
     \<and> inevitable (own_step demo_transport (AgentId 2) 0) (\<lambda>st'. length (sm_seen (sb_streams st' ! 0)) = 2) st"
proof -
  let ?evs = "mid_delivery (demo_envelope (ToAgent (AgentId 2)) [7]) demo_clock"
    and ?more = "[Queue (demo_envelope (ToAgent (AgentId 2)) [8])]"
  obtain st where run: "sub_run demo_transport (AgentId 2) ?evs (sub_new memory_store_new) = Some st"
    and state: "0 < length (sb_streams st)" "busy (sm_outer (sb_streams st ! 0))"
    by (simp add: mid_delivery_def run_simps)
  obtain st' where run': "sub_run demo_transport (AgentId 2) (Revoke # ?more) st = Some st'"
    and whole: "sub_run demo_transport (AgentId 2) (?evs @ Revoke # ?more) (sub_new memory_store_new) = Some st'"
    and state': "sole_stream 0 st'" "sm_seen (sb_streams st' ! 0) = []" "length (fixed_frames (sb_streams st' ! 0)) = 1"
      "length (owed 0 st') = 1"
    using run by (auto simp: mid_delivery_def run_simps sole_stream_def fixed_frames_def owed_def)
  note survives = busy_stream_survives_revocation [OF run state run']
  then have "inevitable (own_step demo_transport (AgentId 2) 0) (\<lambda>st''. \<exists>xs.
      list_all2 (frame_for demo_transport (AgentId 2)) (owed 0 st') xs
      \<and> sm_seen (sb_streams st'' ! 0) = fixed_frames (sb_streams st' ! 0) @ xs) st'"
    using state'(1) by (simp add: sole_stream_def)
  then have "inevitable (own_step demo_transport (AgentId 2) 0) (\<lambda>st'. length (sm_seen (sb_streams st' ! 0)) = 2) st'"
    by (rule inevitable_mono) (auto simp: state' dest: list_all2_lengthD)
  with survives whole state'(2) show ?thesis by auto
qed

text \<open>
  a new subscription does not evict a forwarder that is busy with an envelope. The older
  forwarder goes on to take an envelope queued after the newer subscription, and when its client is
  gone that envelope is lost, although its delivery was recorded and the newer stream is open.
\<close>

theorem busy_forwarder_takes_from_newer:
  "\<exists>st. sub_run dp a ([Authorize, Open_Stream, Outer 0, Inner 0 ck, Queue e0, Inner 0 ck, Authorize, Open_Stream, Inner 0 ck, Inner 0 ck,
          Inner 0 ck, Queue e, Inner 0 ck, Inner 0 ck, Client_Drop 0, Outer 0, Inner 0 ck]) (sub_new ms) = Some st
     \<and> sb_accepted st = [e0, e] \<and> inbox_queue st = []
     \<and> sm_inner (sb_streams st ! 0) = InnerExited \<and> sm_seen (sb_streams st ! 0) = [] \<and> sm_outer (sb_streams st ! 0) = OuterExited
     \<and> sm_open (sb_streams st ! 1) \<and> pipeline (sb_streams st ! 1) = []"
  by (simp add: run_simps pipeline_def)

end
