(* ===== verification/Receipt_Service.thy ===== *)
theory Receipt_Service
  imports Auth
begin

text \<open>
  The receipt service (\<open>crates/yutha-control-plane/src/grpc/receipt.rs\<close>): look-up of a receipt by its
  content address and queries, with the decoding of the query selector
  (\<open>crates/yutha-receipt/src/proto_conv.rs\<close>). Neither handler reads the authorization header.
\<close>

section \<open>Query selectors\<close>

datatype proto_By =
    P_ByReceiptId proto_Hash
  | P_ByPredecessor "proto_Hash option"
  | P_ByAgent "proto_AgentId option"
  | P_ByActionKind string
  | P_ByTime "proto_Timestamp option" "proto_Timestamp option"

record proto_QueryRequest =
  pq_by :: "proto_By option"
  pq_page_token :: bytes

definition query_field :: "string \<Rightarrow> ('p \<Rightarrow> CoreError + 'a) \<Rightarrow> 'p option \<Rightarrow> ReceiptError + 'a" where
  "query_field name dec p =
     rbind (ok_or p (ReceiptCore (Validation (''required field missing: '' @ name)))) (\<lambda>v. map_err ReceiptCore (dec v))"

fun by_try_from :: "externals \<Rightarrow> proto_By \<Rightarrow> ReceiptError + Query" where
  "by_try_from x (P_ByReceiptId h) = rbind (map_err ReceiptCore (hash_try_from h)) (\<lambda>i. Inr (ByReceiptId i))"
| "by_try_from x (P_ByPredecessor p) = rbind (query_field ''predecessor'' hash_try_from p) (\<lambda>h. Inr (ByPredecessor h))"
| "by_try_from x (P_ByAgent p) = rbind (query_field ''agent_id'' agent_try_from p) (\<lambda>a. Inr (ByAgent a))"
| "by_try_from x (P_ByActionKind k) = Inr (ByActionKind k)"
| "by_try_from x (P_ByTime f t) =
     rbind (query_field ''from'' (timestamp_try_from x) f) (\<lambda>from.
     rbind (query_field ''to'' (timestamp_try_from x) t) (\<lambda>to. Inr (ByTimeRange from to)))"

definition query_try_from :: "externals \<Rightarrow> proto_QueryRequest \<Rightarrow> ReceiptError + Query" where
  "query_try_from x p = rbind (ok_or (pq_by p) (InvalidQuery ''query selector not set'')) (by_try_from x)"

section \<open>Handlers\<close>

definition handle_get_receipt :: "MemoryStore \<Rightarrow> proto_Hash option \<Rightarrow> Status + proto_Receipt" where
  "handle_get_receipt ms receipt_id =
     rbind (ok_or receipt_id (missing_field ''receipt_id'')) (\<lambda>p.
     rbind (map_err core_to_status (hash_try_from p)) (\<lambda>i.
     rbind (ok_or (get_receipt ms i) (status NotFound ''receipt not found'')) (\<lambda>r.
       Inr (proto_of_receipt r))))"

definition handle_query_receipts ::
    "externals \<Rightarrow> MemoryStore \<Rightarrow> proto_QueryRequest option \<Rightarrow> Status + proto_Receipt list \<times> bytes" where
  "handle_query_receipts x ms request =
     rbind (ok_or request (missing_field ''query'')) (\<lambda>p.
     rbind (map_err receipt_to_status (query_try_from x p)) (\<lambda>q.
     rbind (map_err receipt_to_status (query ms q)) (\<lambda>page.
       Inr (map proto_of_receipt (page_receipts page),
            case page_next_token page of None \<Rightarrow> [] | Some t \<Rightarrow> t))))"

end
