(* ===== verification/Replay_Store.thy ===== *)
theory Replay_Store
  imports Receipt_Store
begin

text \<open>
  The store of replay sessions (\<open>crates/yutha-receipt/src/replay_store.rs\<close>): every session has a receipt
  store of its own, reached through a shared handle. Handles are addresses into the list of allocated
  stores, so that two sessions sharing a store, or a session keeping a store nobody else can reach, are
  different states. The contract of the trait \<open>ReplayStore\<close> is the locale \<open>replay_sessions\<close>.
\<close>

section \<open>Data\<close>

datatype ReplaySessionId = ReplaySessionId (session_uuid: "128 word")

instantiation ReplaySessionId :: linorder
begin

definition less_eq_ReplaySessionId :: "ReplaySessionId \<Rightarrow> ReplaySessionId \<Rightarrow> bool" where
  "less_eq_ReplaySessionId a b = (session_uuid a \<le> session_uuid b)"

definition less_ReplaySessionId :: "ReplaySessionId \<Rightarrow> ReplaySessionId \<Rightarrow> bool" where
  "less_ReplaySessionId a b = (session_uuid a < session_uuid b)"

instance
  by standard (auto simp: less_eq_ReplaySessionId_def less_ReplaySessionId_def ReplaySessionId.expand)

end

datatype ReplayMode = Cold | Warm

record ReplaySessionWindow =
  wn_from_unix_ns :: u64
  wn_to_unix_ns :: u64
  wn_action_kind_filter :: "string list"

record ReplaySessionMetadata =
  sm_session_id :: ReplaySessionId
  sm_candidate_constitution_hash :: Hash
  sm_candidate_constitution_version :: string
  sm_window :: ReplaySessionWindow
  sm_mode :: ReplayMode
  sm_warm_lookback_hours :: u32
  sm_created_at :: Timestamp
  sm_last_active_at :: Timestamp
  sm_receipts_replayed :: u64

text \<open>A shared handle (\<open>Arc\<close>) to a \<open>MemoryStore\<close> is the address of the store.\<close>

type_synonym store_ref = nat

record SessionSlot =
  sl_store :: store_ref
  sl_metadata :: ReplaySessionMetadata

record MemoryReplayStore =
  mr_stores :: "MemoryStore list"
  mr_sessions :: "(ReplaySessionId, SessionSlot) hash_map"

definition replay_store_new :: MemoryReplayStore where
  "replay_store_new = \<lparr>mr_stores = [], mr_sessions = []\<rparr>"

definition alloc_store :: "MemoryReplayStore \<Rightarrow> store_ref \<times> MemoryReplayStore" where
  "alloc_store rs = (length (mr_stores rs), rs\<lparr>mr_stores := mr_stores rs @ [memory_store_new]\<rparr>)"

definition deref_store :: "MemoryReplayStore \<Rightarrow> store_ref \<Rightarrow> MemoryStore" where
  "deref_store rs a = (if a < length (mr_stores rs) then mr_stores rs ! a else memory_store_new)"

definition assign_store :: "store_ref \<Rightarrow> MemoryStore \<Rightarrow> MemoryReplayStore \<Rightarrow> MemoryReplayStore" where
  "assign_store a ms rs = rs\<lparr>mr_stores := (mr_stores rs)[a := ms]\<rparr>"

section \<open>Operations\<close>

text \<open>
  \<open>free\<close> tells whether \<open>try_read\<close> gets the lock: with a writer in flight, or without the session, the
  handle is one to a new empty store.
\<close>

definition session_store :: "bool \<Rightarrow> ReplaySessionId \<Rightarrow> MemoryReplayStore \<Rightarrow> store_ref \<times> MemoryReplayStore" where
  "session_store free i rs =
     (if free
      then (case hm_get (mr_sessions rs) i of Some slot \<Rightarrow> (sl_store slot, rs) | None \<Rightarrow> alloc_store rs)
      else alloc_store rs)"

definition create_session ::
    "ReplaySessionMetadata \<Rightarrow> MemoryReplayStore \<Rightarrow> (ReceiptError + unit) \<times> MemoryReplayStore" where
  "create_session m rs =
     (if hm_get (mr_sessions rs) (sm_session_id m) \<noteq> None
      then (Inl (ReceiptBackend ''replay session already exists''), rs)
      else let (a, rs1) = alloc_store rs
           in (Inr (), rs1\<lparr>mr_sessions :=
                 hm_insert (sm_session_id m) \<lparr>sl_store = a, sl_metadata = m\<rparr> (mr_sessions rs1)\<rparr>))"

definition delete_session :: "ReplaySessionId \<Rightarrow> MemoryReplayStore \<Rightarrow> (ReceiptError + unit) \<times> MemoryReplayStore" where
  "delete_session i rs = (Inr (), rs\<lparr>mr_sessions := hm_remove i (mr_sessions rs)\<rparr>)"

definition list_sessions :: "MemoryReplayStore \<Rightarrow> ReceiptError + ReplaySessionMetadata list" where
  "list_sessions rs = Inr (sort_key sm_session_id (map (\<lambda>e. sl_metadata (snd e)) (mr_sessions rs)))"

definition get_session :: "MemoryReplayStore \<Rightarrow> ReplaySessionId \<Rightarrow> ReceiptError + ReplaySessionMetadata option" where
  "get_session rs i = Inr (map_option sl_metadata (hm_get (mr_sessions rs) i))"

definition touched :: "u64 \<Rightarrow> Timestamp \<Rightarrow> ReplaySessionMetadata \<Rightarrow> ReplaySessionMetadata" where
  "touched delta now m =
     m\<lparr>sm_last_active_at := now, sm_receipts_replayed := saturating_add (sm_receipts_replayed m) delta\<rparr>"

definition touch_session ::
    "ReplaySessionId \<Rightarrow> u64 \<Rightarrow> Timestamp \<Rightarrow> MemoryReplayStore \<Rightarrow> (ReceiptError + unit) \<times> MemoryReplayStore" where
  "touch_session i delta now rs =
     (case hm_get (mr_sessions rs) i of
        None \<Rightarrow> (Inr (), rs)
      | Some slot \<Rightarrow>
          (Inr (), rs\<lparr>mr_sessions :=
             hm_insert i (slot\<lparr>sl_metadata := touched delta now (sl_metadata slot)\<rparr>) (mr_sessions rs)\<rparr>))"

section \<open>Allocation\<close>

lemma alloc_store_simps [simp]:
  "fst (alloc_store rs) = length (mr_stores rs)"
  "mr_sessions (snd (alloc_store rs)) = mr_sessions rs"
  "length (mr_stores (snd (alloc_store rs))) = Suc (length (mr_stores rs))"
  "deref_store (snd (alloc_store rs)) a = deref_store rs a"
  by (simp_all add: alloc_store_def deref_store_def nth_append)

lemma assign_store_simps [simp]:
  "mr_sessions (assign_store a ms rs) = mr_sessions rs"
  "length (mr_stores (assign_store a ms rs)) = length (mr_stores rs)"
  "deref_store (assign_store a ms rs) b = (if b = a \<and> a < length (mr_stores rs) then ms else deref_store rs b)"
  by (simp_all add: assign_store_def deref_store_def)

lemma deref_store_sessions [simp]: "deref_store (rs\<lparr>mr_sessions := m\<rparr>) a = deref_store rs a"
  by (simp add: deref_store_def)

lemma fresh_store_empty: "length (mr_stores rs) \<le> a \<Longrightarrow> deref_store rs a = memory_store_new"
  by (simp add: deref_store_def)

section \<open>Invariant\<close>

text \<open>Sessions are filed under their own id, and no two of them share a store.\<close>

definition replay_store_inv :: "MemoryReplayStore \<Rightarrow> bool" where
  "replay_store_inv rs \<longleftrightarrow>
     hm_wf (mr_sessions rs)
     \<and> (\<forall>i slot. hm_get (mr_sessions rs) i = Some slot
          \<longrightarrow> sm_session_id (sl_metadata slot) = i \<and> sl_store slot < length (mr_stores rs))
     \<and> (\<forall>i j a b. hm_get (mr_sessions rs) i = Some a \<longrightarrow> hm_get (mr_sessions rs) j = Some b
          \<longrightarrow> sl_store a = sl_store b \<longrightarrow> i = j)"

lemma replay_inv_new [simp]: "replay_store_inv replay_store_new"
  by (simp add: replay_store_inv_def replay_store_new_def hm_wf_def)

lemma replay_inv_alloc [simp]: "replay_store_inv rs \<Longrightarrow> replay_store_inv (snd (alloc_store rs))"
  by (auto simp: replay_store_inv_def intro: less_SucI)

lemma replay_inv_assign [simp]: "replay_store_inv (assign_store a ms rs) = replay_store_inv rs"
  by (simp add: replay_store_inv_def)

lemma replay_inv_session_store [simp]: "replay_store_inv rs \<Longrightarrow> replay_store_inv (snd (session_store free i rs))"
  by (simp add: session_store_def split: option.split)

lemma replay_inv_create [simp]:
  assumes "replay_store_inv rs"
  shows "replay_store_inv (snd (create_session m rs))"
proof (cases "hm_get (mr_sessions rs) (sm_session_id m)")
  case None
  with assms show ?thesis
    by (auto simp: create_session_def case_prod_beta Let_def replay_store_inv_def hm.wf_insert
        split: if_splits) (metis less_irrefl_nat less_SucI)+
qed (simp add: create_session_def assms)

lemma replay_inv_delete [simp]: "replay_store_inv rs \<Longrightarrow> replay_store_inv (snd (delete_session i rs))"
  by (auto simp: delete_session_def replay_store_inv_def hm.wf_remove split: if_splits)

lemma replay_inv_touch [simp]: "replay_store_inv rs \<Longrightarrow> replay_store_inv (snd (touch_session i d t rs))"
  by (auto simp: touch_session_def touched_def replay_store_inv_def hm.wf_insert split: option.split if_splits)

section \<open>The contract of a replay store\<close>

locale replay_sessions =
  fixes create :: "ReplaySessionMetadata \<Rightarrow> 's \<Rightarrow> (ReceiptError + unit) \<times> 's"
    and delete :: "ReplaySessionId \<Rightarrow> 's \<Rightarrow> (ReceiptError + unit) \<times> 's"
    and get :: "'s \<Rightarrow> ReplaySessionId \<Rightarrow> ReceiptError + ReplaySessionMetadata option"
    and touch :: "ReplaySessionId \<Rightarrow> u64 \<Rightarrow> Timestamp \<Rightarrow> 's \<Rightarrow> (ReceiptError + unit) \<times> 's"
  assumes create_new: "get s (sm_session_id m) = Inr None \<Longrightarrow>
      fst (create m s) = Inr () \<and> get (snd (create m s)) = (get s)(sm_session_id m := Inr (Some m))"
    and create_taken: "get s (sm_session_id m) = Inr (Some m') \<Longrightarrow>
      \<not> is_ok (fst (create m s)) \<and> snd (create m s) = s"
    and get_delete: "get (snd (delete i s)) = (get s)(i := Inr None)"
    and get_touch: "get s i = Inr (Some m) \<Longrightarrow>
      get (snd (touch i d t s)) = (get s)(i := Inr (Some (touched d t m)))"
    and touch_gone: "get s i = Inr None \<Longrightarrow> snd (touch i d t s) = s"
begin

lemma create_then_delete:
  "get s (sm_session_id m) = Inr None \<Longrightarrow> get (snd (delete (sm_session_id m) (snd (create m s)))) = get s"
  using create_new [of s m] by (auto simp: get_delete fun_eq_iff)

text \<open>The counter of a session adds up what it was touched with, up to the largest \<open>u64\<close>.\<close>

lemma get_touches:
  assumes "get s i = Inr (Some m)"
  shows "\<exists>m'. get (fold (\<lambda>(d, t) s. snd (touch i d t s)) ts s) i = Inr (Some m')
    \<and> unat (sm_receipts_replayed m') =
        min (unat (sm_receipts_replayed m) + sum_list (map (\<lambda>e. unat (fst e)) ts)) (2 ^ 64 - 1)"
  using assms
proof (induction ts arbitrary: s m)
  case Nil
  have "unat (sm_receipts_replayed m) < 2 ^ 64"
    by (rule order_less_le_trans [OF unsigned_less]) simp
  with Nil show ?case by simp
next
  case (Cons dt ts)
  obtain d t where dt: "dt = (d, t)" by (cases dt)
  from Cons.prems have "get (snd (touch i d t s)) i = Inr (Some (touched d t m))"
    by (simp add: get_touch)
  from Cons.IH [OF this] show ?case
    by (auto simp: dt touched_def unat_saturating_add)
qed

lemma get_touch_other: "j \<noteq> i \<Longrightarrow> get s i = Inr (Some m) \<Longrightarrow> get (snd (touch i d t s)) j = get s j"
  by (simp add: get_touch)

end

interpretation memory_replay: replay_sessions create_session delete_session get_session touch_session
  by unfold_locales
    (auto simp: create_session_def delete_session_def get_session_def touch_session_def case_prod_beta Let_def
      fun_eq_iff)

section \<open>Refinement of a partitioned store\<close>

text \<open>
  What a client may rely on: a partial map from sessions to their metadata and receipts. As long as no
  two sessions share a store, writing through the handle of a session changes the entry of that session
  and no other.
\<close>

type_synonym partition = "ReplaySessionId \<rightharpoonup> ReplaySessionMetadata \<times> MemoryStore"

definition partition_of :: "MemoryReplayStore \<Rightarrow> partition" where
  "partition_of rs = (\<lambda>i. map_option (\<lambda>slot. (sl_metadata slot, deref_store rs (sl_store slot))) (hm_get (mr_sessions rs) i))"

lemma partition_of_new: "partition_of replay_store_new = Map.empty"
  by (simp add: partition_of_def replay_store_new_def fun_eq_iff)

lemma partition_of_alloc [simp]: "partition_of (snd (alloc_store rs)) = partition_of rs"
  by (simp add: partition_of_def fun_eq_iff)

lemma partition_of_session_store [simp]: "partition_of (snd (session_store free i rs)) = partition_of rs"
  by (simp add: session_store_def split: option.split)

lemma partition_of_create:
  "hm_get (mr_sessions rs) (sm_session_id m) = None \<Longrightarrow>
     partition_of (snd (create_session m rs)) = (partition_of rs)(sm_session_id m \<mapsto> (m, memory_store_new))"
  by (auto simp: create_session_def case_prod_beta Let_def partition_of_def fun_eq_iff fresh_store_empty)

lemma partition_of_delete: "partition_of (snd (delete_session i rs)) = (partition_of rs)(i := None)"
  by (simp add: delete_session_def partition_of_def fun_eq_iff)

lemma partition_of_touch:
  "partition_of (snd (touch_session i d t rs)) =
     (case partition_of rs i of None \<Rightarrow> partition_of rs | Some (m, ms) \<Rightarrow> (partition_of rs)(i \<mapsto> (touched d t m, ms)))"
  by (auto simp: touch_session_def partition_of_def fun_eq_iff split: option.split)

lemma partition_of_assign:
  assumes "replay_store_inv rs" "hm_get (mr_sessions rs) i = Some slot"
  shows "partition_of (assign_store (sl_store slot) ms rs) = (partition_of rs)(i \<mapsto> (sl_metadata slot, ms))"
  using assms by (auto simp: partition_of_def fun_eq_iff replay_store_inv_def intro!: option.map_cong)

lemma partition_of_assign_detached:
  assumes "\<forall>i slot. hm_get (mr_sessions rs) i = Some slot \<longrightarrow> sl_store slot \<noteq> a"
  shows "partition_of (assign_store a ms rs) = partition_of rs"
  using assms by (auto simp: partition_of_def fun_eq_iff intro!: option.map_cong)

end
