(* ===== verification/Replay.thy ===== *)
theory Replay
  imports Replay_Store Constitution_Engine Enforcement_Loop
begin

text \<open>
  Replay sessions (\<open>crates/yutha-replay\<close>): a candidate constitution is previewed against receipts of the
  past, on an enforcement engine of its own and with a receipt store of its own. The display form of
  session ids, the result of parsing the canonical Cedar schema, the JSON encoder and the arithmetic on
  wall-clock texts are parameters.
\<close>

section \<open>Data\<close>

datatype ReplayError =
    ReplayReceipt ReceiptError
  | ReplayCedarPlus string
  | InvalidInputReceipt string string
  | ReplaySigner string
  | ReplayBackend string

record ('s, 'p, 'e, 'q) replay_deps =
  yd_eval :: "('s, 'p, 'e, 'q) eval_deps"
  yd_canonical_schema :: "'s option"
  yd_show_session :: "ReplaySessionId \<Rightarrow> string"
  yd_parse_session :: "string \<Rightarrow> ReplaySessionId option"
  yd_json_to_vec :: "json_value \<Rightarrow> string + bytes"
  yd_clock_add :: clock_add

text \<open>
  The engine and the chain head are behind locks of the session object; the receipt store is a handle,
  and passports and identity come with the observer of the node.
\<close>

record ReplaySession =
  ss_session_id :: ReplaySessionId
  ss_swarm_id :: SwarmId
  ss_constitution_hash :: Hash
  ss_constitution_version :: string
  ss_engine :: EngineState
  ss_receipt_store :: store_ref
  ss_last_step_emissions :: "Hash list"

record ReplayStepOutcome =
  so_original_receipt_id :: Hash
  so_effects_count :: nat
  so_emitted_receipt_ids :: "Hash list"

record ReplayWindowOutcome =
  wo_receipts_replayed :: u64
  wo_session_receipts_emitted :: u64

section \<open>The view of a receipt\<close>

text \<open>Keys found twice keep the last readable value, the principal the first; there is no fallback.\<close>

definition replay_scan :: "Evidence \<Rightarrow> view_scan \<Rightarrow> view_scan" where
  "replay_scan ev v =
     (case from_utf8 (ev_value ev) of
        None \<Rightarrow> v
      | Some s \<Rightarrow>
          (if (ev_key ev = ''subject_agent_id'' \<or> ev_key ev = ''target_agent_id'') \<and> vs_principal v = None
           then v\<lparr>vs_principal := Some s\<rparr>
           else if ev_key ev = ''deny_reason'' then v\<lparr>vs_deny_reason := Some s\<rparr>
           else if ev_key ev = ''forbid_rule_id'' then v\<lparr>vs_forbid_rule_id := Some s\<rparr>
           else if ev_key ev = ''reputation_delta'' then v\<lparr>vs_reputation_delta := Some s\<rparr>
           else v))"

definition replay_view :: "Receipt \<Rightarrow> ReceiptView" where
  "replay_view r =
     (let v = fold replay_scan (r_evidence r)
                \<lparr>vs_principal = None, vs_deny_reason = None, vs_forbid_rule_id = None,
                 vs_reputation_delta = None\<rparr>
      in \<lparr>rv_action_kind = r_action_kind r, rv_principal_id = vs_principal v,
          rv_deny_reason = vs_deny_reason v, rv_forbid_rule_id = vs_forbid_rule_id v,
          rv_occurred_at_unix_ns = monotonic_ns (r_occurred_at r),
          rv_occurred_at_wall_clock = wall_clock (r_occurred_at r),
          rv_reputation_delta = vs_reputation_delta v\<rparr>)"

section \<open>The receipts of a window\<close>

abbreviation receipt_time :: "Receipt \<Rightarrow> u64" where
  "receipt_time r \<equiv> monotonic_ns (r_occurred_at r)"

definition query_window :: "externals \<Rightarrow> string \<Rightarrow> u64 \<Rightarrow> u64 \<Rightarrow> MemoryStore \<Rightarrow> ReplayError + Receipt list" where
  "query_window x what from to source =
     rbind (map_err (\<lambda>_. ReplayBackend (what @ '' from-timestamp'')) (timestamp_new x ''1970-01-01T00:00:00Z'' from)) (\<lambda>from_ts.
     rbind (map_err (\<lambda>_. ReplayBackend (what @ '' to-timestamp'')) (timestamp_new x ''9999-12-31T23:59:59Z'' to)) (\<lambda>to_ts.
     rbind (map_err ReplayReceipt (query source (ByTimeRange from_ts to_ts))) (\<lambda>page.
       Inr (sort_key receipt_time (page_receipts page)))))"

definition retain_kinds :: "string list \<Rightarrow> Receipt list \<Rightarrow> Receipt list" where
  "retain_kinds kinds rs = (if kinds = [] then rs else filter (\<lambda>r. r_action_kind r \<in> set kinds) rs)"

section \<open>Creating a session\<close>

definition create_cold ::
    "('s, 'p, 'e, 'q) replay_deps \<Rightarrow> ReplaySessionId \<Rightarrow> SwarmId \<Rightarrow> Constitution \<Rightarrow> store_ref
     \<Rightarrow> ReplayError + ReplaySession" where
  "create_cold dp i swarm candidate store =
     rbind (ok_or (yd_canonical_schema dp) (ReplayCedarPlus ''schema'')) (\<lambda>schema.
     rbind (map_err (\<lambda>_. ReplayCedarPlus ''load'') (load (ed_cedar (yd_eval dp)) schema sandbox_default candidate)) (\<lambda>a.
       Inr \<lparr>ss_session_id = i, ss_swarm_id = swarm,
            ss_constitution_hash = k_constitution_hash candidate,
            ss_constitution_version = k_constitution_version candidate,
            ss_engine = activate (ec_enforcement_rules (av_resolved_engine_config a)) engine_fresh,
            ss_receipt_store = store, ss_last_step_emissions = []\<rparr>))"

definition saturating_mul :: "'a::len word \<Rightarrow> 'a word \<Rightarrow> 'a word" where
  "saturating_mul a b = (if unat a * unat b < 2 ^ LENGTH('a) then a * b else - 1)"

definition lookback_ns :: "u32 \<Rightarrow> u64" where
  "lookback_ns hours = saturating_mul (saturating_mul (ucast hours) 3600) 1000000000"

definition lookback_range :: "u64 \<Rightarrow> u32 \<Rightarrow> u64 \<times> u64" where
  "lookback_range from hours = (saturating_sub from (lookback_ns hours), saturating_sub from 1)"

text \<open>A lookback receipt moves the engine; the effects are dropped.\<close>

definition warm_up :: "clock_add \<Rightarrow> Receipt \<Rightarrow> EngineState \<Rightarrow> EngineState" where
  "warm_up add r eng =
     snd (poll_scheduled add (wall_clock (r_occurred_at r)) (snd (on_receipt add (replay_view r) eng)))"

definition create_warm ::
    "('s, 'p, 'e, 'q) replay_deps \<Rightarrow> ReplaySessionId \<Rightarrow> SwarmId \<Rightarrow> Constitution \<Rightarrow> store_ref \<Rightarrow> MemoryStore \<Rightarrow> u64 \<Rightarrow> u32
     \<Rightarrow> ReplayError + ReplaySession" where
  "create_warm dp i swarm candidate store source from hours =
     rbind (create_cold dp i swarm candidate store) (\<lambda>s.
     rbind (query_window (ed_ext (yd_eval dp)) ''lookback'' (fst (lookback_range from hours))
              (snd (lookback_range from hours)) source) (\<lambda>receipts.
       Inr (s\<lparr>ss_engine := fold (warm_up (yd_clock_add dp)) receipts (ss_engine s)\<rparr>)))"

section \<open>Emitting into the session\<close>

definition session_evidence ::
    "('s, 'p, 'e, 'q) replay_deps \<Rightarrow> ReplaySession \<Rightarrow> EnforcementEffect \<Rightarrow> ReplayError + Evidence list" where
  "session_evidence dp s eff =
     rbind (collect_results (map (\<lambda>(k, v). rbind (map_err (\<lambda>_. ReplayBackend ''encode additional_evidence'') (yd_json_to_vec dp v))
              (\<lambda>b. Inr (evidence_new k ''type.yutha.dev/v1/Json'' b))) (ef_additional_evidence eff)))
       (\<lambda>extra. Inr (
         [evidence_new ''target_agent_id'' ''type.yutha.dev/v1/AgentId'' (as_bytes (ef_target_agent_id eff)),
          evidence_new ''enforcement_rule_id'' ''type.yutha.dev/v1/String'' (as_bytes (ef_enforcement_rule_id eff)),
          evidence_new ''reputation_delta'' ''type.yutha.dev/v1/String'' (as_bytes (ef_reputation_delta eff)),
          evidence_new ''constitution_hash'' ''type.yutha.dev/v1/Hash'' (digest (ss_constitution_hash s)),
          evidence_new ''replay_session_id'' ''type.yutha.dev/v1/String'' (as_bytes (yd_show_session dp (ss_session_id s)))]
         @ extra))"

definition session_receipt ::
    "('s, 'p, 'e, 'q) replay_deps \<Rightarrow> observer \<Rightarrow> observe_clock \<Rightarrow> ReplaySession \<Rightarrow> EnforcementEffect \<Rightarrow> Hash list
     \<Rightarrow> ReplayError + Receipt" where
  "session_receipt dp ob ck s eff preds =
     rbind (map_err (\<lambda>_. ReplayBackend ''spec version'') (spec_version_parse ''1.0.0'')) (\<lambda>v.
     rbind (session_evidence dp s eff) (\<lambda>evidence.
     rbind (map_err (\<lambda>_. ReplayBackend ''build receipt'')
       (receipt_build (receipt_builder_new
          \<lparr>rb_spec_version := Some v, rb_swarm_id := Some (ss_swarm_id s),
           rb_actor := Some (cp_agent_id (ob_control_plane ob)),
           rb_action_kind := Some (ef_action_kind eff),
           rb_constitution_version := Some (ss_constitution_version s),
           rb_causal := Some \<lparr>predecessors = preds\<rparr>,
           rb_occurred_at := Some (oc_occurred ck), rb_evidence := evidence\<rparr>))) (\<lambda>r.
     rbind (map_err (\<lambda>_. ReplaySigner ''sign'')
       (cp_sign (ob_control_plane ob) (canonical_bytes (ob_receipt_ctx ob) r))) (\<lambda>sig.
       Inr (r\<lparr>r_signatures := r_signatures r @
                [\<lparr>sb_role = Actor, sb_signature = sig, sb_signed_at = oc_signed ck\<rparr>]\<rparr>)))))"

definition emit_session_enforcement_receipt ::
    "('s, 'p, 'e, 'q) replay_deps \<Rightarrow> observer \<Rightarrow> observe_clock \<Rightarrow> ReplaySession \<Rightarrow> EnforcementEffect \<Rightarrow> Hash list \<Rightarrow> MemoryStore
     \<Rightarrow> (ReplayError + Hash) \<times> MemoryStore" where
  "emit_session_enforcement_receipt dp ob ck s eff preds ms =
     (case session_receipt dp ob ck s eff preds of
        Inl e \<Rightarrow> (Inl e, ms)
      | Inr r \<Rightarrow>
          (let (res, ms') = append_receipt (ob_receipt_ctx ob) (ob_resolver ob) r ms
           in (rbind (map_err ReplayReceipt res) (\<lambda>out. Inr (ao_receipt_id out)), ms')))"

text \<open>The first failure ends the loop; the clock readings are numbered by the effects of the step.\<close>

fun emit_session_each ::
    "('s, 'p, 'e, 'q) replay_deps \<Rightarrow> observer \<Rightarrow> (nat \<Rightarrow> observe_clock) \<Rightarrow> ReplaySession \<Rightarrow> Hash list
     \<Rightarrow> EnforcementEffect list \<Rightarrow> MemoryStore \<Rightarrow> (ReplayError + Hash list) \<times> MemoryStore" where
  "emit_session_each dp ob ck s preds [] ms = (Inr [], ms)"
| "emit_session_each dp ob ck s preds (eff # effs) ms =
     (case emit_session_enforcement_receipt dp ob (ck 0) s eff preds ms of
        (Inl e, ms') \<Rightarrow> (Inl e, ms')
      | (Inr i, ms') \<Rightarrow>
          (let (res, ms'') = emit_session_each dp ob (\<lambda>n. ck (Suc n)) s preds effs ms'
           in (rbind res (\<lambda>is. Inr (i # is)), ms'')))"

section \<open>Playing\<close>

definition play_effects :: "clock_add \<Rightarrow> Receipt \<Rightarrow> EngineState \<Rightarrow> EnforcementEffect list \<times> EngineState" where
  "play_effects add original eng =
     (let (effects, eng1) = on_receipt add (replay_view original) eng;
          (scheduled, eng2) = poll_scheduled add (wall_clock (r_occurred_at original)) eng1
      in (effects @ scheduled, eng2))"

text \<open>
  Playing one receipt is one step. The code awaits the engine, the chain head and the append one after the
  other; two runs of one session that interleave between these awaits are not in the model.
\<close>

definition play_receipt ::
    "('s, 'p, 'e, 'q) replay_deps \<Rightarrow> observer \<Rightarrow> (nat \<Rightarrow> observe_clock) \<Rightarrow> Receipt \<Rightarrow> ReplaySession \<times> MemoryStore
     \<Rightarrow> (ReplayError + ReplayStepOutcome) \<times> ReplaySession \<times> MemoryStore" where
  "play_receipt dp ob ck original = (\<lambda>(s, ms).
     let (effs, eng) = play_effects (yd_clock_add dp) original (ss_engine s);
         s1 = s\<lparr>ss_engine := eng\<rparr>;
         (res, ms') = emit_session_each dp ob ck s1 (ss_last_step_emissions s1) effs ms
     in case res of
          Inl e \<Rightarrow> (Inl e, s1, ms')
        | Inr ids \<Rightarrow>
            (Inr \<lparr>so_original_receipt_id = content_address (ob_receipt_ctx ob) original,
                  so_effects_count = length effs, so_emitted_receipt_ids = ids\<rparr>,
             s1\<lparr>ss_last_step_emissions := ids\<rparr>, ms'))"

fun play_all ::
    "('s, 'p, 'e, 'q) replay_deps \<Rightarrow> observer \<Rightarrow> (nat \<Rightarrow> nat \<Rightarrow> observe_clock) \<Rightarrow> Receipt list \<Rightarrow> ReplayWindowOutcome
     \<Rightarrow> ReplaySession \<times> MemoryStore \<Rightarrow> (ReplayError + ReplayWindowOutcome) \<times> ReplaySession \<times> MemoryStore" where
  "play_all dp ob ck [] totals st = (Inr totals, st)"
| "play_all dp ob ck (r # rs) totals st =
     (case play_receipt dp ob (ck 0) r st of
        (Inl e, st') \<Rightarrow> (Inl e, st')
      | (Inr out, st') \<Rightarrow>
          play_all dp ob (\<lambda>n. ck (Suc n)) rs
            \<lparr>wo_receipts_replayed = saturating_add (wo_receipts_replayed totals) 1,
             wo_session_receipts_emitted =
               saturating_add (wo_session_receipts_emitted totals) (of_nat (length (so_emitted_receipt_ids out)))\<rparr> st')"

definition run_window ::
    "('s, 'p, 'e, 'q) replay_deps \<Rightarrow> observer \<Rightarrow> (nat \<Rightarrow> nat \<Rightarrow> observe_clock) \<Rightarrow> MemoryStore \<Rightarrow> ReplaySessionWindow
     \<Rightarrow> ReplaySession \<times> MemoryStore \<Rightarrow> (ReplayError + ReplayWindowOutcome) \<times> ReplaySession \<times> MemoryStore" where
  "run_window dp ob ck source window st =
     (case query_window (ed_ext (yd_eval dp)) ''window'' (wn_from_unix_ns window) (wn_to_unix_ns window) source of
        Inl e \<Rightarrow> (Inl e, st)
      | Inr receipts \<Rightarrow>
          play_all dp ob ck (retain_kinds (wn_action_kind_filter window) receipts)
            \<lparr>wo_receipts_replayed = 0, wo_session_receipts_emitted = 0\<rparr> st)"

end
