(* ===== verification/Replay_Service.thy ===== *)
theory Replay_Service
  imports Replay Constitution_Service Receipt_Service
begin

text \<open>
  The replay service (\<open>crates/yutha-control-plane/src/grpc/replay.rs\<close>): operators create a session for a
  candidate constitution, run it over a window of the receipt log, read what it emitted and close it. A
  run is a task of its own: each iteration of its loop is one step, and other requests run in between.
  Session objects are shared between the map of sessions and the tasks, so they have addresses too.
\<close>

section \<open>State\<close>

record ReplayProgress =
  pg_replay_session_id :: string
  pg_progress_unix_ns :: u64
  pg_receipts_replayed :: u64
  pg_latest_replay_receipt_id :: "proto_Hash option"
  pg_window_complete :: bool

datatype run_phase = Starting | Playing "Receipt list" | Ended

record RunTask =
  rk_object :: nat
  rk_session_id :: ReplaySessionId
  rk_window :: ReplaySessionWindow
  rk_phase :: run_phase
  rk_replayed :: u64
  rk_sent :: "(Status + ReplayProgress) list"

record ('s, 'p) ReplayNode =
  rn_node :: "('s, 'p) NodeState"
  rn_store :: MemoryReplayStore
  rn_objects :: "ReplaySession list"
  rn_sessions :: "(ReplaySessionId, nat) hash_map"
  rn_tasks :: "RunTask list"

definition replay_node_new :: "('s, 'p) NodeState \<Rightarrow> ('s, 'p) ReplayNode" where
  "replay_node_new nd =
     \<lparr>rn_node = nd, rn_store = replay_store_new, rn_objects = [], rn_sessions = [], rn_tasks = []\<rparr>"

section \<open>Lifecycle receipts\<close>

fun replay_mode_str :: "ReplayMode \<Rightarrow> string" where
  "replay_mode_str Cold = ''cold''"
| "replay_mode_str Warm = ''warm''"

definition emit_replay_session_create_receipt ::
    "('s, 'p, 'e, 'q) node_deps \<Rightarrow> observe_clock \<Rightarrow> string \<Rightarrow> Hash \<Rightarrow> string \<Rightarrow> ReplaySessionWindow \<Rightarrow> ReplayMode \<Rightarrow> u32
     \<Rightarrow> SwarmId \<Rightarrow> ('s, 'p) NodeState \<Rightarrow> (Status + Hash) \<times> ('s, 'p) NodeState" where
  "emit_replay_session_create_receipt dp ck session candidate_hash candidate_version window mode hours swarm nd =
     emit_receipt dp ck ''replay.session.create'' swarm candidate_version
       ([evidence_new ''replay_session_id'' ''type.yutha.dev/v1/String'' (as_bytes session),
         evidence_new ''candidate_constitution_hash'' ''type.yutha.dev/v1/Hash'' (digest candidate_hash),
         evidence_new ''candidate_constitution_version'' ''type.yutha.dev/v1/String'' (as_bytes candidate_version),
         evidence_new ''receipt_window_from_unix_ns'' ''type.yutha.dev/v1/String''
           (as_bytes (to_decimal (unat (wn_from_unix_ns window)))),
         evidence_new ''receipt_window_to_unix_ns'' ''type.yutha.dev/v1/String''
           (as_bytes (to_decimal (unat (wn_to_unix_ns window)))),
         evidence_new ''action_kind_filter'' ''type.yutha.dev/v1/String''
           (as_bytes (join_comma (wn_action_kind_filter window))),
         evidence_new ''replay_mode'' ''type.yutha.dev/v1/String'' (as_bytes (replay_mode_str mode))]
        @ (if mode = Warm
           then [evidence_new ''warm_lookback_hours'' ''type.yutha.dev/v1/String'' (as_bytes (to_decimal (unat hours)))]
           else [])) nd"

definition emit_replay_session_close_receipt ::
    "('s, 'p, 'e, 'q) node_deps \<Rightarrow> observe_clock \<Rightarrow> string \<Rightarrow> u64 \<Rightarrow> string \<Rightarrow> SwarmId \<Rightarrow> ('s, 'p) NodeState
     \<Rightarrow> (Status + Hash) \<times> ('s, 'p) NodeState" where
  "emit_replay_session_close_receipt dp ck session replayed_total close_reason swarm nd =
     emit_receipt dp ck ''replay.session.close'' swarm ''0.0.0''
       [evidence_new ''replay_session_id'' ''type.yutha.dev/v1/String'' (as_bytes session),
        evidence_new ''receipts_replayed_total'' ''type.yutha.dev/v1/String'' (as_bytes (to_decimal (unat replayed_total))),
        evidence_new ''close_reason'' ''type.yutha.dev/v1/String'' (as_bytes close_reason)] nd"

section \<open>Creating\<close>

record CreateReplaySessionRequest =
  cr_candidate :: "proto_Constitution option"
  cr_window :: "ReplaySessionWindow option"
  cr_mode :: int
  cr_warm_lookback_hours :: u32

text \<open>What the handler reads from outside: clocks, the new id, whether \<open>try_read\<close> gets the lock.\<close>

record create_inputs =
  ci_auth :: Timestamp
  ci_session_id :: ReplaySessionId
  ci_now :: Timestamp
  ci_lock_free :: bool
  ci_clock :: observe_clock

definition decode_create ::
    "('s, 'p, 'e, 'q) node_deps \<Rightarrow> constitution_codec \<Rightarrow> Timestamp \<Rightarrow> string option \<Rightarrow> CreateReplaySessionRequest
     \<Rightarrow> Status + OperatorAuthContext \<times> Constitution \<times> ReplaySessionWindow" where
  "decode_create dp kc now authorization req =
     rbind (operator_auth dp now authorization) (\<lambda>op.
     rbind (ok_or (cr_candidate req) (missing_field ''candidate'')) (\<lambda>kp.
     rbind (ok_or (cr_window req) (missing_field ''window'')) (\<lambda>w.
     rbind (constitution_from_proto kc kp) (\<lambda>k. Inr (op, k, w)))))"

definition requested_mode :: "CreateReplaySessionRequest \<Rightarrow> ReplayMode" where
  "requested_mode req = (if cr_mode req = 1 then Warm else Cold)"

definition requested_lookback :: "CreateReplaySessionRequest \<Rightarrow> u32" where
  "requested_lookback req = (if cr_warm_lookback_hours req = 0 then 24 else cr_warm_lookback_hours req)"

definition session_metadata ::
    "create_inputs \<Rightarrow> CreateReplaySessionRequest \<Rightarrow> Constitution \<Rightarrow> ReplaySessionWindow \<Rightarrow> ReplaySessionMetadata" where
  "session_metadata ci req k w =
     \<lparr>sm_session_id = ci_session_id ci, sm_candidate_constitution_hash = k_constitution_hash k,
      sm_candidate_constitution_version = k_constitution_version k, sm_window = w,
      sm_mode = requested_mode req, sm_warm_lookback_hours = requested_lookback req,
      sm_created_at = ci_now ci, sm_last_active_at = ci_now ci, sm_receipts_replayed = 0\<rparr>"

definition build_session ::
    "('s, 'p, 'e, 'q) replay_deps \<Rightarrow> create_inputs \<Rightarrow> CreateReplaySessionRequest \<Rightarrow> SwarmId \<Rightarrow> Constitution
     \<Rightarrow> ReplaySessionWindow \<Rightarrow> store_ref \<Rightarrow> MemoryStore \<Rightarrow> ReplayError + ReplaySession" where
  "build_session yd ci req swarm k w store production =
     (case requested_mode req of
        Cold \<Rightarrow> create_cold yd (ci_session_id ci) swarm k store
      | Warm \<Rightarrow> create_warm yd (ci_session_id ci) swarm k store production (wn_from_unix_ns w) (requested_lookback req))"

definition handle_create_session ::
    "('s, 'p, 'e, 'q) node_deps \<Rightarrow> ('s, 'p, 'e, 'q) replay_deps \<Rightarrow> constitution_codec \<Rightarrow> create_inputs \<Rightarrow> string option
     \<Rightarrow> CreateReplaySessionRequest \<Rightarrow> ('s, 'p) ReplayNode \<Rightarrow> (Status + string \<times> Hash) \<times> ('s, 'p) ReplayNode" where
  "handle_create_session dp yd kc ci authorization req rn =
     (case decode_create dp kc (ci_auth ci) authorization req of
        Inl s \<Rightarrow> (Inl s, rn)
      | Inr (op, k, w) \<Rightarrow>
          (case create_session (session_metadata ci req k w) (rn_store rn) of
             (Inl e, rs) \<Rightarrow> (Inl (status InternalError ''replay_store.create_session''), rn\<lparr>rn_store := rs\<rparr>)
           | (Inr _, rs) \<Rightarrow>
               (let (store, rs1) = session_store (ci_lock_free ci) (ci_session_id ci) rs;
                    rn1 = rn\<lparr>rn_store := rs1\<rparr>
                in case build_session yd ci req (op_swarm_id op) k w store (node_receipts (rn_node rn1)) of
                     Inl e \<Rightarrow> (Inl (status InternalError ''ReplaySession::create''), rn1)
                   | Inr s \<Rightarrow>
                       (let (res, nd) = emit_replay_session_create_receipt dp (ci_clock ci)
                              (yd_show_session yd (ci_session_id ci)) (k_constitution_hash k) (k_constitution_version k)
                              w (requested_mode req) (requested_lookback req) (op_swarm_id op) (rn_node rn1)
                        in (rbind res (\<lambda>h. Inr (yd_show_session yd (ci_session_id ci), h)),
                            rn1\<lparr>rn_objects := rn_objects rn1 @ [s],
                                rn_sessions := hm_insert (ci_session_id ci) (length (rn_objects rn1)) (rn_sessions rn1),
                                rn_node := nd\<rparr>)))))"

section \<open>Running\<close>

definition parse_session ::
    "('s, 'p, 'e, 'q) node_deps \<Rightarrow> ('s, 'p, 'e, 'q) replay_deps \<Rightarrow> Timestamp \<Rightarrow> string option \<Rightarrow> string
     \<Rightarrow> Status + OperatorAuthContext \<times> ReplaySessionId" where
  "parse_session dp yd now authorization session =
     rbind (operator_auth dp now authorization) (\<lambda>op.
     rbind (ok_or (yd_parse_session yd session) (status InvalidArgument ''invalid replay_session_id'')) (\<lambda>i.
       Inr (op, i)))"

definition find_metadata :: "ReplaySessionId \<Rightarrow> MemoryReplayStore \<Rightarrow> Status + ReplaySessionMetadata" where
  "find_metadata i rs =
     rbind (map_err (\<lambda>_. status InternalError ''replay_store.get_session'') (get_session rs i)) (\<lambda>m.
       ok_or m (status NotFound ''replay session not found''))"

text \<open>The handler answers with the stream of the task it spawns.\<close>

definition handle_run_session ::
    "('s, 'p, 'e, 'q) node_deps \<Rightarrow> ('s, 'p, 'e, 'q) replay_deps \<Rightarrow> Timestamp \<Rightarrow> string option \<Rightarrow> string
     \<Rightarrow> ('s, 'p) ReplayNode \<Rightarrow> (Status + nat) \<times> ('s, 'p) ReplayNode" where
  "handle_run_session dp yd now authorization session rn =
     (case rbind (parse_session dp yd now authorization session) (\<lambda>(_, i).
           rbind (ok_or (hm_get (rn_sessions rn) i) (status NotFound ''replay session not found'')) (\<lambda>n.
           rbind (find_metadata i (rn_store rn)) (\<lambda>m. Inr (i, n, m)))) of
        Inl s \<Rightarrow> (Inl s, rn)
      | Inr (i, n, m) \<Rightarrow>
          (Inr (length (rn_tasks rn)),
           rn\<lparr>rn_tasks := rn_tasks rn @
                [\<lparr>rk_object = n, rk_session_id = i, rk_window = sm_window m, rk_phase = Starting,
                  rk_replayed = 0, rk_sent = []\<rparr>]\<rparr>))"

text \<open>\<open>tx.send\<close> reaches the client as long as the stream is open.\<close>

definition send_progress :: "bool \<Rightarrow> (Status + ReplayProgress) \<Rightarrow> RunTask \<Rightarrow> RunTask" where
  "send_progress is_open msg t = (if is_open then t\<lparr>rk_sent := rk_sent t @ [msg]\<rparr> else t)"

definition put_task :: "nat \<Rightarrow> RunTask \<Rightarrow> ('s, 'p) ReplayNode \<Rightarrow> ('s, 'p) ReplayNode" where
  "put_task n t rn = rn\<lparr>rn_tasks := (rn_tasks rn)[n := t]\<rparr>"

definition progress_of ::
    "('s, 'p, 'e, 'q) replay_deps \<Rightarrow> RunTask \<Rightarrow> u64 \<Rightarrow> Hash option \<Rightarrow> bool \<Rightarrow> ReplayProgress" where
  "progress_of yd t at latest complete =
     \<lparr>pg_replay_session_id = yd_show_session yd (rk_session_id t), pg_progress_unix_ns = at,
      pg_receipts_replayed = rk_replayed t, pg_latest_replay_receipt_id = map_option proto_of_hash latest,
      pg_window_complete = complete\<rparr>"

text \<open>The clocks of one step: of the receipts it emits and of the activity it records.\<close>

record step_inputs =
  si_open :: bool
  si_clock :: "nat \<Rightarrow> observe_clock"
  si_now :: Timestamp

text \<open>
  The first step: the window and its receipts. The messages on a bad bound are those of \<open>run_window\<close> without
  the word in front.
\<close>

definition start_window ::
    "('s, 'p, 'e, 'q) replay_deps \<Rightarrow> step_inputs \<Rightarrow> nat \<Rightarrow> RunTask \<Rightarrow> ('s, 'p) ReplayNode \<Rightarrow> ('s, 'p) ReplayNode" where
  "start_window yd si n t rn =
     put_task n
       (case query_window (ed_ext (yd_eval yd)) ''window'' (wn_from_unix_ns (rk_window t)) (wn_to_unix_ns (rk_window t))
               (node_receipts (rn_node rn)) of
          Inl e \<Rightarrow>
            (send_progress (si_open si)
               (Inl (status InternalError
                  (case e of ReplayBackend msg \<Rightarrow> drop (length ''window '') msg | _ \<Rightarrow> ''source query''))) t)
              \<lparr>rk_phase := Ended\<rparr>
        | Inr receipts \<Rightarrow> t\<lparr>rk_phase := Playing (retain_kinds (wn_action_kind_filter (rk_window t)) receipts)\<rparr>) rn"

definition play_next ::
    "('s, 'p, 'e, 'q) node_deps \<Rightarrow> ('s, 'p, 'e, 'q) replay_deps \<Rightarrow> step_inputs \<Rightarrow> nat \<Rightarrow> RunTask \<Rightarrow> Receipt \<Rightarrow> Receipt list
     \<Rightarrow> ('s, 'p) ReplayNode \<Rightarrow> ('s, 'p) ReplayNode" where
  "play_next dp yd si n t r rs rn =
     (let s = rn_objects rn ! rk_object t;
          (res, s', ms) = play_receipt yd (node_observer dp (rn_node rn)) (si_clock si) r
                            (s, deref_store (rn_store rn) (ss_receipt_store s));
          rn1 = rn\<lparr>rn_objects := (rn_objects rn)[rk_object t := s'],
                   rn_store := assign_store (ss_receipt_store s) ms (rn_store rn)\<rparr>
      in case res of
           Inl e \<Rightarrow>
             put_task n ((send_progress (si_open si) (Inl (status InternalError ''play_receipt'')) t)\<lparr>rk_phase := Ended\<rparr>) rn1
         | Inr out \<Rightarrow>
             (let t1 = t\<lparr>rk_replayed := saturating_add (rk_replayed t) 1\<rparr>;
                  latest = (if so_emitted_receipt_ids out = [] then None else Some (last (so_emitted_receipt_ids out)))
              in put_task n
                   ((send_progress (si_open si) (Inr (progress_of yd t1 (receipt_time r) latest False)) t1)
                      \<lparr>rk_phase := if si_open si then Playing rs else Ended\<rparr>)
                   (rn1\<lparr>rn_store := snd (touch_session (rk_session_id t) 1 (si_now si) (rn_store rn1))\<rparr>)))"

definition finish_window ::
    "('s, 'p, 'e, 'q) replay_deps \<Rightarrow> step_inputs \<Rightarrow> nat \<Rightarrow> RunTask \<Rightarrow> ('s, 'p) ReplayNode \<Rightarrow> ('s, 'p) ReplayNode" where
  "finish_window yd si n t rn =
     put_task n
       ((send_progress (si_open si) (Inr (progress_of yd t (wn_to_unix_ns (rk_window t)) None True)) t)\<lparr>rk_phase := Ended\<rparr>)
       (rn\<lparr>rn_store := snd (touch_session (rk_session_id t) 0 (si_now si) (rn_store rn))\<rparr>)"

text \<open>One step of \<open>run_window_streaming\<close>.\<close>

definition run_window_streaming ::
    "('s, 'p, 'e, 'q) node_deps \<Rightarrow> ('s, 'p, 'e, 'q) replay_deps \<Rightarrow> step_inputs \<Rightarrow> nat
     \<Rightarrow> ('s, 'p) ReplayNode \<Rightarrow> ('s, 'p) ReplayNode" where
  "run_window_streaming dp yd si n rn =
     (if n < length (rn_tasks rn)
      then let t = rn_tasks rn ! n
           in case rk_phase t of
                Starting \<Rightarrow> start_window yd si n t rn
              | Playing (r # rs) \<Rightarrow> play_next dp yd si n t r rs rn
              | Playing [] \<Rightarrow> finish_window yd si n t rn
              | Ended \<Rightarrow> rn
      else rn)"

section \<open>Reading, closing, listing\<close>

definition handle_query_replay_receipts ::
    "('s, 'p, 'e, 'q) node_deps \<Rightarrow> ('s, 'p, 'e, 'q) replay_deps \<Rightarrow> Timestamp \<Rightarrow> bool \<Rightarrow> string option \<Rightarrow> string
     \<Rightarrow> proto_QueryRequest option \<Rightarrow> ('s, 'p) ReplayNode \<Rightarrow> (Status + proto_Receipt list \<times> bytes) \<times> ('s, 'p) ReplayNode" where
  "handle_query_replay_receipts dp yd now free authorization session query_proto rn =
     (case rbind (parse_session dp yd now authorization session) (\<lambda>(_, i).
           rbind (ok_or query_proto (missing_field ''query'')) (\<lambda>qp.
           rbind (map_err (\<lambda>_. status InvalidArgument ''invalid query'') (query_try_from (ed_ext (yd_eval yd)) qp)) (\<lambda>q.
             Inr (i, q)))) of
        Inl s \<Rightarrow> (Inl s, rn)
      | Inr (i, q) \<Rightarrow>
          (let (store, rs) = session_store free i (rn_store rn)
           in (rbind (map_err (\<lambda>_. status InternalError ''session_store.query'') (query (deref_store rs store) q)) (\<lambda>page.
                 Inr (map proto_of_receipt (page_receipts page),
                      case page_next_token page of None \<Rightarrow> [] | Some tok \<Rightarrow> tok)),
               rn\<lparr>rn_store := rs\<rparr>)))"

definition handle_close_session ::
    "('s, 'p, 'e, 'q) node_deps \<Rightarrow> ('s, 'p, 'e, 'q) replay_deps \<Rightarrow> Timestamp \<Rightarrow> observe_clock \<Rightarrow> string option \<Rightarrow> string
     \<Rightarrow> ('s, 'p) ReplayNode \<Rightarrow> (Status + Hash \<times> u64) \<times> ('s, 'p) ReplayNode" where
  "handle_close_session dp yd now ck authorization session rn =
     (case rbind (parse_session dp yd now authorization session) (\<lambda>(op, i).
           rbind (find_metadata i (rn_store rn)) (\<lambda>m. Inr (op, i, sm_receipts_replayed m))) of
        Inl s \<Rightarrow> (Inl s, rn)
      | Inr (op, i, replayed_total) \<Rightarrow>
          (let rn1 = rn\<lparr>rn_sessions := hm_remove i (rn_sessions rn)\<rparr>;
               (deleted, rs) = delete_session i (rn_store rn1);
               rn2 = rn1\<lparr>rn_store := rs\<rparr>
           in case deleted of
                Inl e \<Rightarrow> (Inl (status InternalError ''replay_store.delete_session''), rn2)
              | Inr _ \<Rightarrow>
                  (let (res, nd) = emit_replay_session_close_receipt dp ck (yd_show_session yd i) replayed_total ''explicit''
                                     (op_swarm_id op) (rn_node rn2)
                   in (rbind res (\<lambda>h. Inr (h, replayed_total)), rn2\<lparr>rn_node := nd\<rparr>))))"

record ReplaySessionDescriptor =
  rd_replay_session_id :: string
  rd_candidate_constitution_hash :: "proto_Hash option"
  rd_candidate_constitution_version :: string
  rd_window :: "ReplaySessionWindow option"
  rd_mode :: int
  rd_created_at :: "proto_Timestamp option"
  rd_last_active_at :: "proto_Timestamp option"
  rd_receipts_replayed :: u64

definition descriptor_of :: "('s, 'p, 'e, 'q) replay_deps \<Rightarrow> ReplaySessionMetadata \<Rightarrow> ReplaySessionDescriptor" where
  "descriptor_of yd m =
     \<lparr>rd_replay_session_id = yd_show_session yd (sm_session_id m),
      rd_candidate_constitution_hash = Some (proto_of_hash (sm_candidate_constitution_hash m)),
      rd_candidate_constitution_version = sm_candidate_constitution_version m, rd_window = Some (sm_window m),
      rd_mode = (case sm_mode m of Cold \<Rightarrow> 0 | Warm \<Rightarrow> 1),
      rd_created_at = Some (proto_of_timestamp (sm_created_at m)),
      rd_last_active_at = Some (proto_of_timestamp (sm_last_active_at m)),
      rd_receipts_replayed = sm_receipts_replayed m\<rparr>"

definition handle_list_sessions ::
    "('s, 'p, 'e, 'q) node_deps \<Rightarrow> ('s, 'p, 'e, 'q) replay_deps \<Rightarrow> Timestamp \<Rightarrow> string option \<Rightarrow> ('s, 'p) ReplayNode
     \<Rightarrow> Status + ReplaySessionDescriptor list" where
  "handle_list_sessions dp yd now authorization rn =
     rbind (operator_auth dp now authorization) (\<lambda>_.
     rbind (map_err (\<lambda>_. status InternalError ''replay_store.list_sessions'') (list_sessions (rn_store rn))) (\<lambda>ms.
       Inr (map (descriptor_of yd) ms)))"

end
