(* ===== verification/Replay_Runs.thy ===== *)
theory Replay_Runs
  imports Replay_Service Mediation_Properties
begin

text \<open>
  Runs of the replay service: sequences of requests and of steps of the spawned runs, who owns which
  store, and what each step leaves alone.
\<close>

section \<open>What a session emits\<close>

definition replay_marked :: "('s, 'p, 'e, 'q) replay_deps \<Rightarrow> ReplaySessionId \<Rightarrow> Receipt \<Rightarrow> bool" where
  "replay_marked yd i r \<longleftrightarrow>
     starts_with ''enforcement.'' (r_action_kind r)
     \<and> list_ex (\<lambda>ev. ev_key ev = ''replay_session_id'' \<and> ev_value ev = as_bytes (yd_show_session yd i)) (r_evidence r)"

definition store_marked :: "('s, 'p, 'e, 'q) replay_deps \<Rightarrow> ReplaySessionId \<Rightarrow> MemoryStore \<Rightarrow> bool" where
  "store_marked yd i ms \<longleftrightarrow> (\<forall>h r. get_receipt ms h = Some r \<longrightarrow> replay_marked yd i r)"

lemma store_marked_new [simp]: "store_marked yd i memory_store_new"
  by (simp add: store_marked_def get_receipt_def memory_store_new_def)

lemma session_receipt_fields:
  assumes "session_receipt yd ob ck s eff preds = Inr r"
  shows "r_action_kind r = ef_action_kind eff" "session_evidence yd s eff = Inr (r_evidence r)"
    "predecessors (r_causal r) = preds" "r_constitution_version r = ss_constitution_version s"
    "r_actor r = cp_agent_id (ob_control_plane ob)" "r_swarm_id r = ss_swarm_id s"
  using assms
  by (auto simp: session_receipt_def receipt_build_def receipt_builder_new_def rbind_eq_Inr split: if_splits)

lemma session_evidence_marked:
  "session_evidence yd s eff = Inr evs \<Longrightarrow>
     list_ex (\<lambda>ev. ev_key ev = ''replay_session_id'' \<and> ev_value ev = as_bytes (yd_show_session yd (ss_session_id s))) evs"
  by (auto simp: session_evidence_def rbind_eq_Inr evidence_new_def)

lemma session_receipt_marked:
  assumes "session_receipt yd ob ck s eff preds = Inr r" "starts_with ''enforcement.'' (ef_action_kind eff)"
  shows "replay_marked yd (ss_session_id s) r"
  using session_receipt_fields(1) [OF assms(1)] session_evidence_marked [OF session_receipt_fields(2) [OF assms(1)]] assms(2)
  by (simp add: replay_marked_def)

lemma emit_session_receipt_marked:
  assumes "store_marked yd (ss_session_id s) ms" "starts_with ''enforcement.'' (ef_action_kind eff)"
  shows "store_marked yd (ss_session_id s) (snd (emit_session_enforcement_receipt yd ob ck s eff preds ms))"
proof (cases "session_receipt yd ob ck s eff preds")
  case (Inr r)
  have "replay_marked yd (ss_session_id s) q"
    if "get_receipt (snd (append_receipt (ob_receipt_ctx ob) (ob_resolver ob) r ms)) h = Some q" for h q
    using memory_log.append_only_new [OF that] session_receipt_marked [OF Inr assms(2)] assms(1)
    by (auto simp: store_marked_def)
  with Inr show ?thesis
    by (simp add: emit_session_enforcement_receipt_def case_prod_beta Let_def store_marked_def)
qed (simp add: emit_session_enforcement_receipt_def assms)

lemma emit_session_each_marked:
  assumes "store_marked yd (ss_session_id s) ms" "list_all (\<lambda>eff. starts_with ''enforcement.'' (ef_action_kind eff)) effs"
  shows "store_marked yd (ss_session_id s) (snd (emit_session_each yd ob ck s preds effs ms))"
  using assms
proof (induction effs arbitrary: ms ck)
  case (Cons eff effs)
  have "store_marked yd (ss_session_id s) (snd (emit_session_enforcement_receipt yd ob (ck 0) s eff preds ms))"
    using Cons.prems by (intro emit_session_receipt_marked) simp_all
  with Cons show ?case
    by (auto simp: case_prod_beta Let_def split: sum.split prod.split)
qed simp

lemma enforcement_stage: "starts_with ''enforcement.'' (stage_action_kind st)"
  by (cases st) (simp_all add: starts_with_def)

lemma play_effects_kinds:
  "list_all (\<lambda>eff. starts_with ''enforcement.'' (ef_action_kind eff)) (fst (play_effects add r eng))"
proof -
  have "list_all (\<lambda>eff. starts_with ''enforcement.'' (ef_action_kind eff)) (fst (on_receipt add v eng))" for v
    using on_receipt_effects [of add v eng] by (auto simp: list_all_iff starts_with_def)
  moreover have "list_all (\<lambda>eff. starts_with ''enforcement.'' (ef_action_kind eff)) (fst (poll_scheduled add now e))" for now e
    by (auto simp: poll_scheduled_def Let_def list_all_iff build_stage_effect_def enforcement_stage)
  ultimately show ?thesis
    by (simp add: play_effects_def case_prod_beta Let_def)
qed

text \<open>Playing moves the engine and the chain head of the session; what identifies it stays.\<close>

definition same_session :: "ReplaySession \<Rightarrow> ReplaySession \<Rightarrow> bool" where
  "same_session s s' \<longleftrightarrow>
     ss_session_id s' = ss_session_id s \<and> ss_receipt_store s' = ss_receipt_store s
     \<and> ss_constitution_hash s' = ss_constitution_hash s \<and> ss_constitution_version s' = ss_constitution_version s
     \<and> ss_swarm_id s' = ss_swarm_id s"

lemma play_receipt_frame: "same_session s (fst (snd (play_receipt yd ob ck r (s, ms))))"
  by (auto simp: play_receipt_def same_session_def case_prod_beta Let_def split: sum.split)

lemma play_receipt_id [simp]: "ss_session_id (fst (snd (play_receipt yd ob ck r (s, ms)))) = ss_session_id s"
  using play_receipt_frame [of s yd ob ck r ms] by (simp add: same_session_def)

lemma play_receipt_marked:
  assumes "store_marked yd (ss_session_id s) ms"
  shows "store_marked yd (ss_session_id s) (snd (snd (play_receipt yd ob ck r (s, ms))))"
proof -
  let ?p = "play_effects (yd_clock_add yd) r (ss_engine s)"
  have "store_marked yd (ss_session_id (s\<lparr>ss_engine := snd ?p\<rparr>))
      (snd (emit_session_each yd ob ck (s\<lparr>ss_engine := snd ?p\<rparr>) (ss_last_step_emissions s) (fst ?p) ms))"
    using assms by (intro emit_session_each_marked play_effects_kinds) simp
  then show ?thesis
    by (auto simp: play_receipt_def case_prod_beta Let_def split: sum.split)
qed

section \<open>Runs of the service\<close>

datatype replay_op =
    OpCreate create_inputs "string option" CreateReplaySessionRequest
  | OpRun Timestamp "string option" string
  | OpStep step_inputs nat
  | OpQuery Timestamp bool "string option" string "proto_QueryRequest option"
  | OpClose Timestamp observe_clock "string option" string

fun replay_step ::
    "('s, 'p, 'e, 'q) node_deps \<Rightarrow> ('s, 'p, 'e, 'q) replay_deps \<Rightarrow> constitution_codec \<Rightarrow> replay_op
     \<Rightarrow> ('s, 'p) ReplayNode \<Rightarrow> ('s, 'p) ReplayNode" where
  "replay_step dp yd kc (OpCreate ci h req) rn = snd (handle_create_session dp yd kc ci h req rn)"
| "replay_step dp yd kc (OpRun now h i) rn = snd (handle_run_session dp yd now h i rn)"
| "replay_step dp yd kc (OpStep si n) rn = run_window_streaming dp yd si n rn"
| "replay_step dp yd kc (OpQuery now free h i q) rn = snd (handle_query_replay_receipts dp yd now free h i q rn)"
| "replay_step dp yd kc (OpClose now ck h i) rn = snd (handle_close_session dp yd now ck h i rn)"

definition replay_run ::
    "('s, 'p, 'e, 'q) node_deps \<Rightarrow> ('s, 'p, 'e, 'q) replay_deps \<Rightarrow> constitution_codec \<Rightarrow> replay_op list
     \<Rightarrow> ('s, 'p) ReplayNode \<Rightarrow> ('s, 'p) ReplayNode" where
  "replay_run dp yd kc ops rn = fold (replay_step dp yd kc) ops rn"

text \<open>Between the requests to the replay service, production may move to any state.\<close>

inductive replay_reachable ::
    "('s, 'p, 'e, 'q) node_deps \<Rightarrow> ('s, 'p, 'e, 'q) replay_deps \<Rightarrow> constitution_codec \<Rightarrow> ('s, 'p) ReplayNode \<Rightarrow> bool"
  for dp yd kc where
  start: "replay_reachable dp yd kc (replay_node_new nd)"
| request: "replay_reachable dp yd kc rn \<Longrightarrow> replay_reachable dp yd kc (replay_step dp yd kc op rn)"
| production: "replay_reachable dp yd kc rn \<Longrightarrow> replay_reachable dp yd kc (rn\<lparr>rn_node := nd\<rparr>)"

section \<open>Ownership of stores\<close>

text \<open>
  No two session objects share a store, a store reached from a slot belongs to a session of that id, and
  every receipt in it is marked with the id.
\<close>

definition stores_owned :: "('s, 'p, 'e, 'q) replay_deps \<Rightarrow> MemoryReplayStore \<Rightarrow> ReplaySession list \<Rightarrow> bool" where
  "stores_owned yd rs objs \<longleftrightarrow>
     replay_store_inv rs \<and> distinct (map ss_receipt_store objs)
     \<and> (\<forall>s\<in>set objs. ss_receipt_store s < length (mr_stores rs)
          \<and> store_marked yd (ss_session_id s) (deref_store rs (ss_receipt_store s)))
     \<and> (\<forall>i slot. hm_get (mr_sessions rs) i = Some slot \<longrightarrow>
          store_marked yd i (deref_store rs (sl_store slot))
          \<and> (\<forall>s\<in>set objs. ss_receipt_store s = sl_store slot \<longrightarrow> ss_session_id s = i))"

lemma stores_owned_alloc [simp]:
  "stores_owned yd rs objs \<Longrightarrow> stores_owned yd (snd (alloc_store rs)) objs"
  by (auto simp: stores_owned_def intro: less_SucI)

lemma stores_owned_session_store [simp]:
  "stores_owned yd rs objs \<Longrightarrow> stores_owned yd (snd (session_store free i rs)) objs"
  by (simp add: session_store_def split: option.split)

lemma stores_owned_delete [simp]:
  assumes "stores_owned yd rs objs"
  shows "stores_owned yd (snd (delete_session i rs)) objs"
  using assms replay_inv_delete [of rs i]
  by (auto simp: stores_owned_def delete_session_def split: if_splits)

lemma stores_owned_touch [simp]:
  assumes "stores_owned yd rs objs"
  shows "stores_owned yd (snd (touch_session i d t rs)) objs"
  using assms replay_inv_touch [of rs i d t]
  by (auto simp: stores_owned_def touch_session_def split: option.splits if_splits)

lemma stores_owned_create [simp]:
  assumes "stores_owned yd rs objs"
  shows "stores_owned yd (snd (create_session m rs)) objs"
proof (cases "hm_get (mr_sessions rs) (sm_session_id m)")
  case None
  have "replay_store_inv (snd (create_session m rs))"
    using assms by (simp add: stores_owned_def)
  with None assms show ?thesis
    by (auto simp: stores_owned_def create_session_def case_prod_beta Let_def fresh_store_empty
        intro: less_SucI split: if_splits)
qed (simp add: create_session_def assms)

lemma stores_owned_add:
  assumes "stores_owned yd rs objs" "ss_receipt_store s < length (mr_stores rs)"
    and "ss_receipt_store s \<notin> ss_receipt_store ` set objs"
    and "store_marked yd (ss_session_id s) (deref_store rs (ss_receipt_store s))"
    and "\<And>i slot. hm_get (mr_sessions rs) i = Some slot \<Longrightarrow> sl_store slot = ss_receipt_store s \<Longrightarrow> i = ss_session_id s"
  shows "stores_owned yd rs (objs @ [s])"
  using assms unfolding stores_owned_def by (auto 0 3)

lemma stores_owned_play:
  assumes owned: "stores_owned yd rs objs" and n: "n < length objs"
    and same: "same_session (objs ! n) s'" and marked: "store_marked yd (ss_session_id s') ms"
  shows "stores_owned yd (assign_store (ss_receipt_store (objs ! n)) ms rs) (objs[n := s'])"
proof -
  have stores: "map ss_receipt_store (objs[n := s']) = map ss_receipt_store objs"
    using same by (simp add: map_update list_update_same_conv n same_session_def)
  have obj: "s = s' \<or> (s \<in> set objs \<and> ss_receipt_store s \<noteq> ss_receipt_store (objs ! n))" if s: "s \<in> set (objs[n := s'])" for s
  proof -
    from s obtain k where k: "k < length objs" "s = objs[n := s'] ! k"
      by (auto simp: in_set_conv_nth)
    show ?thesis
    proof (cases "k = n")
      case False
      moreover have "distinct (map ss_receipt_store objs)"
        using owned by (simp add: stores_owned_def)
      ultimately have "ss_receipt_store (objs ! k) \<noteq> ss_receipt_store (objs ! n)"
        using k n nth_eq_iff_index_eq [of "map ss_receipt_store objs" k n] by simp
      with False k show ?thesis by simp
    qed (use k n in simp)
  qed
  show ?thesis
    using owned same marked nth_mem [OF n] unfolding stores_owned_def stores
    by (auto simp: same_session_def dest!: obj)
qed

definition service_inv :: "('s, 'p, 'e, 'q) replay_deps \<Rightarrow> ('s, 'p) ReplayNode \<Rightarrow> bool" where
  "service_inv yd rn \<longleftrightarrow>
     stores_owned yd (rn_store rn) (rn_objects rn)
     \<and> (\<forall>i n. hm_get (rn_sessions rn) i = Some n \<longrightarrow> n < length (rn_objects rn) \<and> ss_session_id (rn_objects rn ! n) = i)
     \<and> (\<forall>t\<in>set (rn_tasks rn). rk_object t < length (rn_objects rn)
          \<and> ss_session_id (rn_objects rn ! rk_object t) = rk_session_id t)"

lemma fresh_handle:
  fixes free :: bool
  assumes "replay_store_inv rs" "fst (create_session m rs) = Inr ()"
  defines "p \<equiv> session_store free (sm_session_id m) (snd (create_session m rs))"
  shows "length (mr_stores rs) \<le> fst p" "fst p < length (mr_stores (snd p))"
    "deref_store (snd p) (fst p) = memory_store_new"
    "hm_get (mr_sessions (snd p)) i = Some slot \<Longrightarrow> sl_store slot = fst p \<Longrightarrow> i = sm_session_id m"
  using assms
  by (auto simp: create_session_def session_store_def case_prod_beta Let_def fresh_store_empty replay_store_inv_def
      split: if_splits dest: less_irrefl_nat) (metis less_irrefl_nat less_Suc_eq)+

lemma build_session_fields:
  "build_session yd ci req swarm k w store ms = Inr s \<Longrightarrow>
     ss_session_id s = ci_session_id ci \<and> ss_receipt_store s = store"
  by (auto simp: build_session_def create_cold_def create_warm_def rbind_eq_Inr split: ReplayMode.splits)

lemma session_metadata_id [simp]: "sm_session_id (session_metadata ci req k w) = ci_session_id ci"
  by (simp add: session_metadata_def)

lemma service_inv_objects:
  "service_inv yd rn \<Longrightarrow> stores_owned yd rs (rn_objects rn) \<Longrightarrow> service_inv yd (rn\<lparr>rn_store := rs\<rparr>)"
  by (simp add: service_inv_def)

lemma service_inv_node: "service_inv yd (rn\<lparr>rn_node := nd\<rparr>) = service_inv yd rn"
  by (simp add: service_inv_def)

lemma service_inv_add:
  assumes "service_inv yd rn" "stores_owned yd (rn_store rn) (rn_objects rn @ [s])" "ss_session_id s = i"
  shows "service_inv yd (rn\<lparr>rn_objects := rn_objects rn @ [s],
    rn_sessions := hm_insert i (length (rn_objects rn)) (rn_sessions rn), rn_node := nd\<rparr>)"
  using assms by (auto simp: service_inv_def nth_append intro: less_SucI)

lemma service_inv_create:
  assumes inv: "service_inv yd rn"
  shows "service_inv yd (snd (handle_create_session dp yd kc ci h req rn))"
proof (cases "decode_create dp kc (ci_auth ci) h req")
  case (Inr d)
  obtain op k w where d: "d = (op, k, w)" by (cases d)
  let ?m = "session_metadata ci req k w"
  let ?c = "create_session ?m (rn_store rn)"
  let ?p = "session_store (ci_lock_free ci) (ci_session_id ci) (snd ?c)"
  have owned: "stores_owned yd (rn_store rn) (rn_objects rn)"
    using inv by (simp add: service_inv_def)
  then have rs_inv: "replay_store_inv (rn_store rn)" by (simp add: stores_owned_def)
  show ?thesis
  proof (cases "fst ?c")
    case (Inl e)
    then show ?thesis
      using inv owned by (auto simp: handle_create_session_def Inr d service_inv_objects split: prod.split)
         (metis service_inv_objects snd_conv stores_owned_create)
  next
    case c: (Inr u)
    let ?rn = "rn\<lparr>rn_store := snd ?p\<rparr>"
    have inv1: "service_inv yd ?rn"
      using inv owned by (simp add: service_inv_objects)
    note fresh = fresh_handle [OF rs_inv, of ?m "ci_lock_free ci", unfolded session_metadata_id]
    show ?thesis
    proof (cases "build_session yd ci req (op_swarm_id op) k w (fst ?p) (node_receipts (rn_node rn))")
      case (Inl e)
      then show ?thesis
        using inv1 c by (simp add: handle_create_session_def Inr d case_prod_beta Let_def split: sum.split)
    next
      case s: (Inr s)
      have id: "ss_session_id s = ci_session_id ci" "ss_receipt_store s = fst ?p"
        using build_session_fields [OF s] by simp_all
      have "ss_receipt_store s \<notin> ss_receipt_store ` set (rn_objects rn)"
        using owned fresh(1) c id by (auto simp: stores_owned_def)
      then have "stores_owned yd (rn_store ?rn) (rn_objects ?rn @ [s])"
        using inv1 fresh c id by (intro stores_owned_add) (auto simp: service_inv_def)
      from service_inv_add [OF inv1 this id(1)] show ?thesis
        using c s by (simp add: handle_create_session_def Inr d case_prod_beta Let_def split: sum.split)
    qed
  qed
qed (simp add: handle_create_session_def inv)

lemma service_inv_put_task:
  assumes "service_inv yd rn" "n < length (rn_tasks rn)"
    and "rk_object t = rk_object (rn_tasks rn ! n)" "rk_session_id t = rk_session_id (rn_tasks rn ! n)"
  shows "service_inv yd (put_task n t rn)"
  using assms nth_mem [OF assms(2)]
  by (auto simp: service_inv_def put_task_def dest!: set_update_subset_insert [THEN subsetD])

lemma send_progress_simps [simp]:
  "rk_object (send_progress b m t) = rk_object t" "rk_session_id (send_progress b m t) = rk_session_id t"
  "rk_replayed (send_progress b m t) = rk_replayed t" "rk_window (send_progress b m t) = rk_window t"
  by (simp_all add: send_progress_def)

lemma service_inv_play:
  assumes inv: "service_inv yd rn" and n: "n < length (rn_tasks rn)" and t: "rn_tasks rn ! n = t"
  shows "service_inv yd (play_next dp yd si n t r rs rn)"
proof -
  let ?s = "rn_objects rn ! rk_object t"
  let ?p = "play_receipt yd (node_observer dp (rn_node rn)) (si_clock si) r (?s, deref_store (rn_store rn) (ss_receipt_store ?s))"
  let ?rn = "rn\<lparr>rn_objects := (rn_objects rn)[rk_object t := fst (snd ?p)],
    rn_store := assign_store (ss_receipt_store ?s) (snd (snd ?p)) (rn_store rn)\<rparr>"
  have obj: "rk_object t < length (rn_objects rn)"
    using inv nth_mem [OF n] by (simp add: service_inv_def t)
  have owned: "stores_owned yd (rn_store rn) (rn_objects rn)"
    using inv by (simp add: service_inv_def)
  then have "store_marked yd (ss_session_id ?s) (deref_store (rn_store rn) (ss_receipt_store ?s))"
    using nth_mem [OF obj] by (simp add: stores_owned_def)
  from play_receipt_marked [OF this]
  have "store_marked yd (ss_session_id (fst (snd ?p))) (snd (snd ?p))"
    by simp
  from stores_owned_play [OF owned obj play_receipt_frame this]
  have owned1: "stores_owned yd (rn_store ?rn) (rn_objects ?rn)" by simp
  have ids: "ss_session_id ((rn_objects rn)[rk_object t := fst (snd ?p)] ! k) = ss_session_id (rn_objects rn ! k)"
    if "k < length (rn_objects rn)" for k
    using that by (cases "k = rk_object t") simp_all
  have rn: "service_inv yd ?rn"
    using inv owned1 by (simp add: service_inv_def ids)
  moreover have "service_inv yd (?rn\<lparr>rn_store := snd (touch_session i d now (rn_store ?rn))\<rparr>)" for i d now
    by (rule service_inv_objects [OF rn stores_owned_touch [OF owned1]])
  ultimately show ?thesis
    using n t by (auto simp: play_next_def case_prod_beta Let_def intro!: service_inv_put_task split: sum.split)
qed

lemma service_inv_streaming:
  assumes "service_inv yd rn"
  shows "service_inv yd (run_window_streaming dp yd si n rn)"
proof -
  have "service_inv yd (rn\<lparr>rn_store := snd (touch_session i d now (rn_store rn))\<rparr>)" for i d now
    using assms by (intro service_inv_objects stores_owned_touch) (simp_all add: service_inv_def)
  with assms show ?thesis
    by (auto simp: run_window_streaming_def start_window_def finish_window_def Let_def
        intro!: service_inv_put_task service_inv_play split: run_phase.split list.split sum.split)
qed

lemma service_inv_step:
  assumes inv: "service_inv yd rn"
  shows "service_inv yd (replay_step dp yd kc op rn)"
proof (cases op)
  case (OpRun now h i)
  with inv show ?thesis
    by (auto simp: handle_run_session_def service_inv_def rbind_eq_Inr split: sum.split)
next
  case (OpQuery now free h i q)
  with inv show ?thesis
    by (auto simp: handle_query_replay_receipts_def case_prod_beta Let_def service_inv_def split: sum.split)
next
  case (OpClose now ck h i)
  with inv show ?thesis
    by (auto simp: handle_close_session_def case_prod_beta Let_def service_inv_def split: sum.split if_splits)
qed (simp_all add: service_inv_create service_inv_streaming inv)

lemma replay_reachable_inv: "replay_reachable dp yd kc rn \<Longrightarrow> service_inv yd rn"
proof (induction rule: replay_reachable.induct)
  case (start nd)
  show ?case by (simp add: service_inv_def replay_node_new_def stores_owned_def) (simp add: replay_store_new_def)
qed (simp_all add: service_inv_step service_inv_node)

section \<open>Isolation\<close>

text \<open>The session a request or a step is about, if it may change it.\<close>

fun op_session :: "('s, 'p, 'e, 'q) replay_deps \<Rightarrow> ('s, 'p) ReplayNode \<Rightarrow> replay_op \<Rightarrow> ReplaySessionId option" where
  "op_session yd rn (OpCreate ci h req) = Some (ci_session_id ci)"
| "op_session yd rn (OpStep si n) = (if n < length (rn_tasks rn) then Some (rk_session_id (rn_tasks rn ! n)) else None)"
| "op_session yd rn (OpClose now ck h i) = yd_parse_session yd i"
| "op_session yd rn op = None"

lemma put_task_simps [simp]:
  "rn_store (put_task n t rn) = rn_store rn" "rn_node (put_task n t rn) = rn_node rn"
  "rn_objects (put_task n t rn) = rn_objects rn" "rn_sessions (put_task n t rn) = rn_sessions rn"
  by (simp_all add: put_task_def)

lemma touch_other:
  "j \<noteq> i \<Longrightarrow> partition_of (snd (touch_session i d t rs)) j = partition_of rs j"
  by (auto simp: partition_of_touch split: option.split)

lemma play_next_other:
  assumes inv: "service_inv yd rn" and n: "n < length (rn_tasks rn)" "rn_tasks rn ! n = t" and j: "j \<noteq> rk_session_id t"
  shows "partition_of (rn_store (play_next dp yd si n t r rs rn)) j = partition_of (rn_store rn) j"
proof -
  let ?s = "rn_objects rn ! rk_object t"
  have "ss_session_id ?s = rk_session_id t" "?s \<in> set (rn_objects rn)"
    using inv nth_mem [OF n(1)] by (simp_all add: service_inv_def n(2))
  then have "partition_of (assign_store (ss_receipt_store ?s) ms (rn_store rn)) j = partition_of (rn_store rn) j" for ms
    using inv j by (auto simp: partition_of_def service_inv_def stores_owned_def intro!: option.map_cong)
  then show ?thesis
    by (simp add: play_next_def case_prod_beta Let_def touch_other [OF j] split: sum.split)
qed

lemma create_other:
  assumes "j \<noteq> ci_session_id ci"
  shows "partition_of (rn_store (snd (handle_create_session dp yd kc ci h req rn))) j = partition_of (rn_store rn) j"
proof -
  have "partition_of (snd (create_session m (rn_store rn))) j = partition_of (rn_store rn) j"
    if "sm_session_id m = ci_session_id ci" for m
    using that assms partition_of_create [of "rn_store rn" m]
    by (cases "hm_get (mr_sessions (rn_store rn)) (sm_session_id m)") (auto simp: create_session_def)
  then have "partition_of (snd (create_session (session_metadata ci req k w) (rn_store rn))) j = partition_of (rn_store rn) j" for k w
    by simp
  then show ?thesis
    by (auto simp: handle_create_session_def case_prod_beta Let_def split: sum.split prod.split)
qed

lemma step_other:
  assumes inv: "service_inv yd rn" and other: "op_session yd rn op \<noteq> Some j"
  shows "partition_of (rn_store (replay_step dp yd kc op rn)) j = partition_of (rn_store rn) j"
proof (cases op)
  case (OpStep si n)
  with other have "j \<noteq> rk_session_id (rn_tasks rn ! n)" if "n < length (rn_tasks rn)"
    using that by auto
  with OpStep inv show ?thesis
    by (auto simp: run_window_streaming_def start_window_def finish_window_def Let_def play_next_other touch_other
        split: run_phase.split list.split)
next
  case (OpRun now h i)
  then show ?thesis by (auto simp: handle_run_session_def split: sum.split)
next
  case (OpQuery now free h i q)
  then show ?thesis
    by (auto simp: handle_query_replay_receipts_def case_prod_beta Let_def split: sum.split)
next
  case (OpClose now ck h i)
  with other show ?thesis
    by (auto simp: handle_close_session_def parse_session_def case_prod_beta Let_def partition_of_delete rbind_eq_Inr ok_or_def
        split: sum.split option.splits)
qed (use other in \<open>simp_all add: create_other\<close>)

lemma set_node_receipts_again [simp]:
  "set_node_receipts ms (set_node_receipts ms' nd) = set_node_receipts ms nd"
  "set_node_receipts (node_receipts nd) nd = nd"
  by (simp_all add: set_node_receipts_def node_receipts_def)

text \<open>What replay may do to a node: add lifecycle receipts to its log.\<close>

definition lifecycle_only :: "('s, 'p) NodeState \<Rightarrow> ('s, 'p) NodeState \<Rightarrow> bool" where
  "lifecycle_only nd nd' \<longleftrightarrow>
     nd' = set_node_receipts (node_receipts nd') nd
     \<and> (\<forall>h. get_receipt (node_receipts nd') h = get_receipt (node_receipts nd) h
          \<or> (\<exists>r. get_receipt (node_receipts nd) h = None \<and> get_receipt (node_receipts nd') h = Some r
               \<and> r_action_kind r \<in> {''replay.session.create'', ''replay.session.close''}))"

lemma lifecycle_refl [simp]: "lifecycle_only nd nd"
  by (simp add: lifecycle_only_def)

lemma lifecycle_trans: "lifecycle_only nd nd1 \<Longrightarrow> lifecycle_only nd1 nd2 \<Longrightarrow> lifecycle_only nd nd2"
  unfolding lifecycle_only_def by (metis set_node_receipts_again(1))

lemma lifecycle_emit:
  assumes "k \<in> {''replay.session.create'', ''replay.session.close''}"
  shows "lifecycle_only nd (snd (emit_receipt dp ck k s v evs nd))"
proof -
  let ?o = "observe (node_observer dp nd) ck k s v evs (node_receipts nd)"
  have "get_receipt (snd ?o) h = get_receipt (node_receipts nd) h
      \<or> (\<exists>r. get_receipt (node_receipts nd) h = None \<and> get_receipt (snd ?o) h = Some r \<and> r_action_kind r = k)" for h
  proof (cases "observation (node_observer dp nd) ck k s v evs")
    case (Inr r)
    let ?a = "append_receipt (ob_receipt_ctx (node_observer dp nd)) (ob_resolver (node_observer dp nd)) r (node_receipts nd)"
    have "get_receipt (snd ?a) h = get_receipt (node_receipts nd) h
        \<or> (get_receipt (node_receipts nd) h = None \<and> get_receipt (snd ?a) h = Some r)"
      using memory_log.append_only_new memory_log.append_keeps
      by (cases "get_receipt (node_receipts nd) h"; cases "get_receipt (snd ?a) h") fastforce+
    with observation_fields(1) [OF Inr] Inr show ?thesis
      by (auto simp: observe_def case_prod_beta Let_def)
  qed (simp add: observe_def)
  then show ?thesis
    using assms by (auto simp: lifecycle_only_def emit_receipt_def case_prod_beta Let_def)
qed

lemma lifecycle_step: "lifecycle_only (rn_node rn) (rn_node (replay_step dp yd kc op rn))"
proof (cases op)
  case (OpCreate ci h req)
  then show ?thesis
    by (auto simp: handle_create_session_def emit_replay_session_create_receipt_def case_prod_beta Let_def lifecycle_emit
        split: sum.split prod.split)
next
  case (OpRun now h i)
  then show ?thesis by (auto simp: handle_run_session_def split: sum.split)
next
  case (OpStep si n)
  then show ?thesis
    by (auto simp: run_window_streaming_def start_window_def play_next_def finish_window_def case_prod_beta Let_def
        split: run_phase.split list.split sum.split)
next
  case (OpQuery now free h i q)
  then show ?thesis by (auto simp: handle_query_replay_receipts_def case_prod_beta Let_def split: sum.split)
next
  case (OpClose now ck h i)
  then show ?thesis
    by (auto simp: handle_close_session_def emit_replay_session_close_receipt_def delete_session_def case_prod_beta Let_def
        lifecycle_emit split: sum.split prod.split)
qed

end
