(* ===== verification/Replay_Properties.thy ===== *)
theory Replay_Properties
  imports Replay_Runs
begin

text \<open>
  Theorems about replay: a session works on its own store and engine only, its receipts say which session
  they come from, production sees nothing but the receipts of the session's life cycle, a run plays exactly
  the receipts of its window in order of time, and where a preview differs from what production would do.
\<close>

section \<open>Replay and production\<close>

text \<open>
  Property (C21): replay is invisible to production. Whatever sequence of requests to the replay service and
  steps of its runs a node executes, its transport, passports, capabilities, evaluator and enforcement
  engine stay as they are, the log loses nothing, and every receipt it gains records the creation or the
  closing of a session.
\<close>

theorem replay_leaves_production:
  "let nd = rn_node rn; nd' = rn_node (replay_run dp yd kc ops rn)
   in nd' = set_node_receipts (node_receipts nd') nd
    \<and> (\<forall>h. get_receipt (node_receipts nd') h = get_receipt (node_receipts nd) h
         \<or> (\<exists>r. get_receipt (node_receipts nd) h = None \<and> get_receipt (node_receipts nd') h = Some r
              \<and> r_action_kind r \<in> {''replay.session.create'', ''replay.session.close''}))"
proof -
  have "lifecycle_only (rn_node rn) (rn_node (replay_run dp yd kc ops rn))"
    unfolding replay_run_def
    by (induction ops arbitrary: rn) (auto intro: lifecycle_trans lifecycle_step)
  then show ?thesis
    by (simp add: lifecycle_only_def Let_def)
qed

section \<open>A session on which the properties are applied\<close>

definition demo_replay_deps :: "(unit, string, unit, unit) replay_deps" where
  "demo_replay_deps =
     \<lparr>yd_eval = (demo_eval [])\<lparr>ed_ext := demo_ext\<lparr>ext_rfc3339 := (\<lambda>_. Some 0)\<rparr>\<rparr>, yd_canonical_schema = Some (),
      yd_show_session = (\<lambda>i. if i = ReplaySessionId 5 then ''5'' else ''6''),
      yd_parse_session = (\<lambda>s. if s = ''5'' then Some (ReplaySessionId 5) else if s = ''6'' then Some (ReplaySessionId 6) else None),
      yd_json_to_vec = (\<lambda>_. Inr []), yd_clock_add = (\<lambda>_ _. None)\<rparr>"

text \<open>A candidate that reacts to every envelope, and a log with one.\<close>

definition demo_watch :: EnforcementRule where
  "demo_watch =
     demo_rule\<lparr>er_detect := \<lparr>dc_trigger = \<lparr>dt_receipt_kind = ''envelope.send'', dt_deny_reason = None, dt_forbid_rule_id = None\<rparr>,
       dc_count_threshold = 1, dc_time_window = ''1s'', dc_group_by = ''principal'', dc_historical = False\<rparr>\<rparr>"

definition demo_watching :: EngineConfig where
  "demo_watching = demo_escalation_chain\<lparr>ec_procedures := [], ec_enforcement_rules := [demo_watch]\<rparr>"

definition demo_preview_codec :: constitution_codec where
  "demo_preview_codec = demo_constitution_codec\<lparr>kc_parse_yaml := (\<lambda>_. Some demo_watching)\<rparr>"

definition demo_logged :: "(unit, string) NodeState" where
  "demo_logged = set_node_receipts (memory_store_new\<lparr>ms_by_id := [(demo_id 4, demo_receipt ''envelope.send'' 5)]\<rparr>) demo_node"

definition demo_create_inputs :: "ReplaySessionId \<Rightarrow> bool \<Rightarrow> create_inputs" where
  "demo_create_inputs i free =
     \<lparr>ci_auth = demo_now, ci_session_id = i, ci_now = demo_time 4, ci_lock_free = free,
      ci_clock = Transport_Properties.demo_clock\<rparr>"

definition demo_window :: ReplaySessionWindow where
  "demo_window = \<lparr>wn_from_unix_ns = 0, wn_to_unix_ns = 100, wn_action_kind_filter = []\<rparr>"

definition demo_create_request :: CreateReplaySessionRequest where
  "demo_create_request =
     \<lparr>cr_candidate = Some demo_constitution_proto, cr_window = Some demo_window, cr_mode = 0, cr_warm_lookback_hours = 0\<rparr>"

definition demo_step_inputs :: step_inputs where
  "demo_step_inputs = \<lparr>si_open = True, si_clock = (\<lambda>_. Transport_Properties.demo_clock), si_now = demo_time 6\<rparr>"

lemmas load_defs = load_def structural_checks_def check_unique_names_def reject_duplicate_def check_scoring_rules_def
  check_enforcement_rules_def check_procedures_def check_escalation_acyclic_def escalation_targets_declared_def
  escalation_graph_def all_white_def resolve_named_predicates_def check_load_time_counts_def sandbox_default_def
  parse_and_validate_cedar_def check_expressions_def synthesize_def synthesize_scoring_def synthesize_triggers_def
  synthesize_transitions_def action_transitions_def parse_synthesized_set_def ok_or_def

lemma demo_watching_loads:
  "\<exists>a. load (demo_cedar []) () sandbox_default (demo_constitution demo_watching) = Inr a
     \<and> ec_enforcement_rules (av_resolved_engine_config a) = [demo_watch]"
proof -
  have "trim_ws ''1s'' = ''1s''"
    by (rule trim_ws_id) (simp_all add: plain_end_def is_digit_def less_eq_char_def)
  then have d: "parse_duration ''1s'' \<noteq> None"
    by (simp add: parse_duration_def split_suffix_def Let_def is_digit_def less_eq_char_def parse_u64_def digits_value_def)
  have "check_duration n f ''1s'' = Inr ()" for n f
    using d by (simp add: check_duration_def)
  then have "check_enforcement_rules demo_watching = Inr ()"
    by (simp add: check_enforcement_rules_def check_enforcement_rule_def demo_watching_def demo_watch_def demo_rule_def
        known_receipt_kinds_def Let_def)
  moreover have "estimate_cedar_depth ''permit (principal, action, resource);'' \<le> 5" by code_simp
  ultimately show ?thesis
    by (simp add: load_defs demo_cedar_def demo_constitution_def demo_watching_def demo_escalation_chain_def demo_procedures_def)
qed

lemma demo_preview_decodes:
  "decode_create demo_node_deps demo_preview_codec demo_now (Some operator_header) demo_create_request =
     Inr (\<lparr>op_operator_id = ''ops'', op_swarm_id = SwarmId 1, op_expires_at = demo_expiry\<rparr>, demo_constitution demo_watching, demo_window)"
proof -
  have "constitution_from_proto demo_preview_codec demo_constitution_proto = Inr (demo_constitution demo_watching)"
    using demo_constitution_decodes
    by (auto simp: constitution_from_proto_def demo_preview_codec_def demo_constitution_codec_def parse_engine_config_yaml_def
        ok_or_def rbind_eq_Inr demo_constitution_def)
  then show ?thesis
    by (simp add: decode_create_def demo_operator_header demo_create_request_def ok_or_def)
qed

definition demo_session :: "store_ref \<Rightarrow> ReplaySession" where
  "demo_session store =
     \<lparr>ss_session_id = ReplaySessionId 5, ss_swarm_id = SwarmId 1, ss_constitution_hash = demo_hash,
      ss_constitution_version = ''1.0.0'', ss_engine = activate [demo_watch] engine_fresh, ss_receipt_store = store,
      ss_last_step_emissions = []\<rparr>"

lemma demo_build_session:
  "build_session demo_replay_deps (demo_create_inputs (ReplaySessionId 5) free) demo_create_request (SwarmId 1)
     (demo_constitution demo_watching) demo_window store ms = Inr (demo_session store)"
  using demo_watching_loads
  by (auto simp: build_session_def requested_mode_def demo_create_request_def create_cold_def demo_replay_deps_def
      demo_eval_def ok_or_def demo_create_inputs_def demo_session_def)
     (simp_all add: demo_constitution_def)

definition demo_metadata :: ReplaySessionMetadata where
  "demo_metadata =
     session_metadata (demo_create_inputs (ReplaySessionId 5) True) demo_create_request (demo_constitution demo_watching) demo_window"

definition demo_created :: "bool \<Rightarrow> (unit, string) ReplayNode" where
  "demo_created free =
     \<lparr>rn_node = demo_logged,
      rn_store = \<lparr>mr_stores = (if free then [memory_store_new] else [memory_store_new, memory_store_new]),
                  mr_sessions = [(ReplaySessionId 5, \<lparr>sl_store = 0, sl_metadata = demo_metadata\<rparr>)]\<rparr>,
      rn_objects = [demo_session (if free then 0 else 1)], rn_sessions = [(ReplaySessionId 5, 0)], rn_tasks = []\<rparr>"

abbreviation demo_replay :: "replay_op \<Rightarrow> (unit, string) ReplayNode \<Rightarrow> (unit, string) ReplayNode" where
  "demo_replay \<equiv> replay_step demo_node_deps demo_replay_deps demo_preview_codec"

abbreviation demo_create :: "bool \<Rightarrow> replay_op" where
  "demo_create free \<equiv> OpCreate (demo_create_inputs (ReplaySessionId 5) free) (Some operator_header) demo_create_request"

lemma demo_create_inputs_simps [simp]:
  "ci_auth (demo_create_inputs i free) = demo_now" "ci_session_id (demo_create_inputs i free) = i"
  "ci_lock_free (demo_create_inputs i free) = free"
  by (simp_all add: demo_create_inputs_def)

lemma demo_metadata_any:
  "session_metadata (demo_create_inputs (ReplaySessionId 5) free) demo_create_request (demo_constitution demo_watching) demo_window
     = demo_metadata"
  by (simp add: demo_metadata_def session_metadata_def demo_create_inputs_def)

lemma demo_metadata_id [simp]: "sm_session_id demo_metadata = ReplaySessionId 5"
  by (simp add: demo_metadata_def)

lemma demo_create_effect:
  "(demo_replay (demo_create free) (replay_node_new demo_logged))\<lparr>rn_node := demo_logged\<rparr> = demo_created free"
  by (simp add: handle_create_session_def demo_preview_decodes demo_metadata_any demo_build_session demo_created_def
      replay_node_new_def replay_store_new_def create_session_def session_store_def alloc_store_def case_prod_beta Let_def)

lemma demo_created_reachable: "replay_reachable demo_node_deps demo_replay_deps demo_preview_codec (demo_created free)"
  unfolding demo_create_effect [symmetric] by (intro replay_reachable.intros)

section \<open>Isolation of sessions\<close>

text \<open>
  Property (C9): sessions are isolated from each other. In every state the service can reach, whatever
  production does in between, a request or a step of a run changes the metadata and the receipts of the
  session it is about and of no other, although the stores are shared handles.
\<close>

theorem sessions_isolated:
  assumes "replay_reachable dp yd kc rn" and "op_session yd rn op \<noteq> Some j"
  shows "partition_of (rn_store (replay_step dp yd kc op rn)) j = partition_of (rn_store rn) j"
  using replay_reachable_inv [OF assms(1)] assms(2) by (rule step_other)

theorem sessions_isolated_witness:
  "partition_of (rn_store (demo_replay (OpClose demo_now Transport_Properties.demo_clock (Some operator_header) ''6'')
      (demo_created True))) (ReplaySessionId 5) = Some (demo_metadata, memory_store_new)"
proof -
  have "partition_of (rn_store (demo_created True)) (ReplaySessionId 5) = Some (demo_metadata, memory_store_new)"
    by (simp add: partition_of_def demo_created_def deref_store_def)
  moreover have other: "op_session demo_replay_deps (demo_created True)
      (OpClose demo_now Transport_Properties.demo_clock (Some operator_header) ''6'') \<noteq> Some (ReplaySessionId 5)"
    by (simp add: demo_replay_deps_def)
  ultimately show ?thesis
    using sessions_isolated [OF demo_created_reachable other] by simp
qed

text \<open>
  Property (C23): receipts of a preview cannot be mistaken for receipts of production. In every reachable
  state, each receipt that can be read from the store of a session is an \<open>enforcement.*\<close> receipt and carries
  the id of that session as evidence.
\<close>

theorem replay_receipts_marked:
  assumes "replay_reachable dp yd kc rn" and "partition_of (rn_store rn) i = Some (m, ms)" and "get_receipt ms h = Some r"
  shows "sm_session_id m = i \<and> starts_with ''enforcement.'' (r_action_kind r)
    \<and> list_ex (\<lambda>ev. ev_key ev = ''replay_session_id'' \<and> ev_value ev = as_bytes (yd_show_session yd i)) (r_evidence r)"
proof -
  from assms(2) obtain slot where slot: "hm_get (mr_sessions (rn_store rn)) i = Some slot" "m = sl_metadata slot"
    "ms = deref_store (rn_store rn) (sl_store slot)"
    by (auto simp: partition_of_def)
  have "stores_owned yd (rn_store rn) (rn_objects rn)"
    using replay_reachable_inv [OF assms(1)] by (simp add: service_inv_def)
  with slot assms(3) show ?thesis
    by (auto simp: stores_owned_def store_marked_def replay_marked_def replay_store_inv_def)
qed

text \<open>The run of the session, up to the play of the first receipt.\<close>

definition demo_task :: RunTask where
  "demo_task = \<lparr>rk_object = 0, rk_session_id = ReplaySessionId 5, rk_window = demo_window, rk_phase = Starting,
     rk_replayed = 0, rk_sent = []\<rparr>"

definition demo_playing :: "bool \<Rightarrow> (unit, string) ReplayNode" where
  "demo_playing free =
     (demo_created free)\<lparr>rn_tasks := [demo_task\<lparr>rk_phase := Playing [demo_receipt ''envelope.send'' 5]\<rparr>]\<rparr>"

lemma demo_window_query:
  "query_window (ed_ext (yd_eval demo_replay_deps)) w 0 100 (node_receipts demo_logged) = Inr [demo_receipt ''envelope.send'' 5]"
  by (simp add: query_window_def timestamp_new_def demo_replay_deps_def query_def demo_logged_def memory_store_new_def)
     (simp add: demo_receipt_def demo_unsigned_def demo_time_def)

lemma demo_playing_run:
  "demo_replay (OpStep demo_step_inputs 0) (demo_replay (OpRun demo_now (Some operator_header) ''5'') (demo_created free))
     = demo_playing free"
proof -
  have run: "demo_replay (OpRun demo_now (Some operator_header) ''5'') (demo_created free) = (demo_created free)\<lparr>rn_tasks := [demo_task]\<rparr>"
    by (simp add: handle_run_session_def parse_session_def demo_operator_header demo_replay_deps_def demo_created_def ok_or_def
        find_metadata_def get_session_def demo_metadata_def session_metadata_def demo_task_def)
  show ?thesis
    unfolding run
    by (simp add: run_window_streaming_def start_window_def demo_task_def put_task_def Let_def demo_playing_def
        demo_created_def demo_window_query demo_window_def [THEN arg_cong [of _ _ wn_from_unix_ns]]
        demo_window_def [THEN arg_cong [of _ _ wn_to_unix_ns]] demo_window_def [THEN arg_cong [of _ _ wn_action_kind_filter]]
        retain_kinds_def)
qed

lemma demo_playing_reachable: "replay_reachable demo_node_deps demo_replay_deps demo_preview_codec (demo_playing free)"
  unfolding demo_playing_run [symmetric] by (intro replay_reachable.intros demo_created_reachable)

lemma demo_session_emits:
  assumes "st_passports (nd_cp nd) = demo_passports"
  shows "\<exists>h ms'. emit_session_enforcement_receipt demo_replay_deps (node_observer demo_node_deps nd) ck s eff preds ms = (Inr h, ms')
    \<and> get_receipt ms' h \<noteq> None"
proof -
  let ?ob = "node_observer demo_node_deps nd"
  have v: "spec_version_parse ''1.0.0'' = Inr (SpecVersion ''1.0.0'')"
    by (simp add: spec_version_parse_def numeric_prefix_def parse_u32_def digits_value_def is_digit_def)
  have "collect_results (map (\<lambda>(k, v). rbind (map_err e (yd_json_to_vec demo_replay_deps v)) (\<lambda>b. Inr (f k b))) kvs)
      = Inr (map (\<lambda>(k, v). f k []) kvs)" for e :: "string \<Rightarrow> ReplayError" and f :: "string \<Rightarrow> bytes \<Rightarrow> Evidence" and kvs
    by (induction kvs) (auto simp: demo_replay_deps_def)
  then obtain evs where evs: "session_evidence demo_replay_deps s eff = Inr evs"
    by (simp add: session_evidence_def)
  define u where "u = \<lparr>r_spec_version = SpecVersion ''1.0.0'', r_swarm_id = ss_swarm_id s, r_actor = AgentId 9,
      r_action_kind = ef_action_kind eff, r_causal = \<lparr>predecessors = preds\<rparr>, r_evidence = evs,
      r_constitution_version = ss_constitution_version s,
      r_cost = None, r_occurred_at = oc_occurred ck, r_seal = unsealed, r_signatures = []\<rparr>"
  let ?r = "u\<lparr>r_signatures := [\<lparr>sb_role = Actor, sb_signature = demo_signature (canonical_bytes demo_ctx u),
        sb_signed_at = oc_signed ck\<rparr>]\<rparr>"
  have u: "session_receipt demo_replay_deps ?ob ck s eff preds = Inr ?r"
    by (simp add: session_receipt_def v evs node_observer_def demo_node_deps_def demo_cp_def demo_registry_deps_def
        demo_identity_def receipt_build_def receipt_builder_new_def u_def)
  have "resolve_actor (resolver_adapter (st_passports (nd_cp nd))) (r_actor u) = Inr (Some demo_public_key)"
    using demo_node_live [OF assms] by (simp add: u_def demo_passport_def)
  from demo_append_signed [OF this, of "oc_signed ck" ms] obtain out ms'
    where a: "append_receipt (ob_receipt_ctx ?ob) (ob_resolver ?ob) ?r ms = (Inr out, ms')"
    by (auto simp: node_observer_def demo_node_deps_def demo_cp_def demo_registry_deps_def)
  then show ?thesis
    using memory_log.append_stored [of "ob_receipt_ctx ?ob" "ob_resolver ?ob" ?r ms out]
    by (simp add: emit_session_enforcement_receipt_def u)
qed

lemma demo_play_effects:
  "\<exists>eff eng. play_effects (yd_clock_add demo_replay_deps) (demo_receipt ''envelope.send'' 5) (activate [demo_watch] engine_fresh)
     = ([eff], eng) \<and> ef_target_agent_id eff = []"
  by (simp add: play_effects_def on_receipt_def activate_def engine_fresh_def replay_view_def Let_def starts_with_def
      demo_receipt_def demo_unsigned_def demo_watch_def demo_rule_def check_detect_def trigger_matches_def bumped_counter_def
      prune_def detect_effect_def group_key_def poll_scheduled_def schedule_coach_def mark_detected_def put_counter_def
      compute_fire_at_def demo_replay_deps_def demo_one_second)

lemma demo_plays:
  "\<exists>h ms. play_receipt demo_replay_deps (node_observer demo_node_deps demo_logged) ck (demo_receipt ''envelope.send'' 5)
       (demo_session a, memory_store_new)
     = (Inr \<lparr>so_original_receipt_id = content_address demo_ctx (demo_receipt ''envelope.send'' 5), so_effects_count = 1,
            so_emitted_receipt_ids = [h]\<rparr>,
        (demo_session a)\<lparr>ss_engine := snd (play_effects (yd_clock_add demo_replay_deps) (demo_receipt ''envelope.send'' 5)
            (activate [demo_watch] engine_fresh)), ss_last_step_emissions := [h]\<rparr>, ms)
     \<and> get_receipt ms h \<noteq> None"
proof -
  let ?eng = "activate [demo_watch] engine_fresh"
  obtain eff eng where eff: "play_effects (yd_clock_add demo_replay_deps) (demo_receipt ''envelope.send'' 5) ?eng = ([eff], eng)"
    using demo_play_effects by blast
  have "st_passports (nd_cp demo_logged) = demo_passports" by (simp add: demo_logged_def)
  from demo_session_emits [OF this, of "ck 0" "(demo_session a)\<lparr>ss_engine := eng\<rparr>" eff "[]" memory_store_new]
  show ?thesis
    by (auto simp: play_receipt_def demo_session_def eff)
       (simp add: node_observer_def demo_node_deps_def demo_cp_def demo_registry_deps_def)
qed

theorem replay_receipts_marked_witness:
  "\<exists>m ms h r. partition_of (rn_store (demo_replay (OpStep demo_step_inputs 0) (demo_playing True))) (ReplaySessionId 5) = Some (m, ms)
     \<and> get_receipt ms h = Some r \<and> starts_with ''enforcement.'' (r_action_kind r)
     \<and> list_ex (\<lambda>ev. ev_key ev = ''replay_session_id'' \<and> ev_value ev = as_bytes ''5'') (r_evidence r)"
proof -
  let ?rn = "demo_replay (OpStep demo_step_inputs 0) (demo_playing True)"
  obtain h ms out s where play: "play_receipt demo_replay_deps (node_observer demo_node_deps demo_logged) (si_clock demo_step_inputs)
      (demo_receipt ''envelope.send'' 5) (demo_session 0, memory_store_new) = (Inr out, s, ms)" and h: "get_receipt ms h \<noteq> None"
    using demo_plays [of "si_clock demo_step_inputs" 0] by blast
  then have part: "\<exists>m. partition_of (rn_store ?rn) (ReplaySessionId 5) = Some (m, ms)"
    by (auto simp: demo_playing_def demo_created_def run_window_streaming_def Let_def play_next_def demo_task_def
        deref_store_def partition_of_def touch_session_def assign_store_def demo_session_def [THEN arg_cong [of _ _ ss_receipt_store]])
  from h obtain r where r: "get_receipt ms h = Some r" by blast
  have reach: "replay_reachable demo_node_deps demo_replay_deps demo_preview_codec ?rn"
    by (rule replay_reachable.request [OF demo_playing_reachable])
  from part obtain m where m: "partition_of (rn_store ?rn) (ReplaySessionId 5) = Some (m, ms)" by blast
  have "yd_show_session demo_replay_deps (ReplaySessionId 5) = ''5''" by (simp add: demo_replay_deps_def)
  with replay_receipts_marked [OF reach m r] m r show ?thesis by auto
qed

section \<open>A run plays its window\<close>

text \<open>Enough steps of the task do what \<open>run_window\<close> does at once.\<close>

abbreviation stream_steps ::
    "('s, 'p, 'e, 'q) node_deps \<Rightarrow> ('s, 'p, 'e, 'q) replay_deps \<Rightarrow> nat \<Rightarrow> step_inputs list \<Rightarrow> ('s, 'p) ReplayNode \<Rightarrow> ('s, 'p) ReplayNode" where
  "stream_steps dp yd n \<equiv> fold (\<lambda>si. run_window_streaming dp yd si n)"

lemma streaming_step:
  assumes "n < length (rn_tasks rn)" "rn_tasks rn ! n = t"
  shows "rk_phase t = Starting \<Longrightarrow> run_window_streaming dp yd si n rn = start_window yd si n t rn"
    "rk_phase t = Playing [] \<Longrightarrow> run_window_streaming dp yd si n rn = finish_window yd si n t rn"
    "rk_phase t = Playing (r # rs) \<Longrightarrow> run_window_streaming dp yd si n rn = play_next dp yd si n t r rs rn"
  using assms by (simp_all add: run_window_streaming_def)

lemma stream_ended:
  "n < length (rn_tasks rn) \<Longrightarrow> rk_phase (rn_tasks rn ! n) = Ended \<Longrightarrow> stream_steps dp yd n sis rn = rn"
  by (induction sis) (simp_all add: run_window_streaming_def)

text \<open>What a finished task leaves of a session that held the address \<open>k\<close> and the store \<open>a\<close>.\<close>

definition streamed ::
    "nat \<Rightarrow> nat \<Rightarrow> store_ref \<Rightarrow> (ReplayError + ReplayWindowOutcome) \<times> ReplaySession \<times> MemoryStore \<Rightarrow> ('s, 'p) ReplayNode \<Rightarrow> bool" where
  "streamed n k a result rn =
     (case result of (res, s, ms) \<Rightarrow>
        rn_objects rn ! k = s \<and> deref_store (rn_store rn) a = ms \<and> rk_phase (rn_tasks rn ! n) = Ended
        \<and> (case res of
             Inl e \<Rightarrow> (\<exists>status. last (rk_sent (rn_tasks rn ! n)) = Inl status)
           | Inr out \<Rightarrow> (\<exists>p. last (rk_sent (rn_tasks rn ! n)) = Inr p \<and> pg_window_complete p
                          \<and> pg_receipts_replayed p = wo_receipts_replayed out)))"

lemma touch_store_simps [simp]:
  "deref_store (snd (touch_session i d t rs)) a = deref_store rs a"
  "length (mr_stores (snd (touch_session i d t rs))) = length (mr_stores rs)"
  by (simp_all add: touch_session_def split: option.split)

lemma play_next_fails:
  assumes "n < length (rn_tasks rn)" "rn_objects rn ! rk_object t = s" "rk_object t < length (rn_objects rn)"
    and "ss_receipt_store s < length (mr_stores (rn_store rn))" "si_open si"
    and "play_receipt yd (node_observer dp (rn_node rn)) (si_clock si) r (s, deref_store (rn_store rn) (ss_receipt_store s)) = (Inl e, s', ms)"
  shows "streamed n (rk_object t) (ss_receipt_store s) (Inl e, s', ms) (play_next dp yd si n t r rs rn)"
  using assms by (simp add: play_next_def streamed_def put_task_def send_progress_def)

lemma play_next_continues:
  assumes "n < length (rn_tasks rn)" "rn_objects rn ! rk_object t = s" "rk_object t < length (rn_objects rn)"
    and "ss_receipt_store s < length (mr_stores (rn_store rn))" "si_open si"
    and "play_receipt yd (node_observer dp (rn_node rn)) (si_clock si) r (s, deref_store (rn_store rn) (ss_receipt_store s)) = (Inr out, s', ms)"
  shows "\<exists>t'. rn_tasks (play_next dp yd si n t r rs rn) ! n = t' \<and> rk_object t' = rk_object t \<and> rk_phase t' = Playing rs
      \<and> rk_replayed t' = saturating_add (rk_replayed t) 1"
    "length (rn_tasks (play_next dp yd si n t r rs rn)) = length (rn_tasks rn)"
    "rn_node (play_next dp yd si n t r rs rn) = rn_node rn"
    "rn_objects (play_next dp yd si n t r rs rn) ! rk_object t = s'"
    "length (rn_objects (play_next dp yd si n t r rs rn)) = length (rn_objects rn)"
    "deref_store (rn_store (play_next dp yd si n t r rs rn)) (ss_receipt_store s) = ms"
    "length (mr_stores (rn_store (play_next dp yd si n t r rs rn))) = length (mr_stores (rn_store rn))"
  using assms by (simp_all add: play_next_def put_task_def send_progress_def Let_def)

lemma stream_playing:
  assumes "n < length (rn_tasks rn)" "rn_tasks rn ! n = t" "rk_phase t = Playing rs" "rk_replayed t = wo_receipts_replayed totals"
    and "rn_objects rn ! rk_object t = s" "rk_object t < length (rn_objects rn)" "ss_receipt_store s < length (mr_stores (rn_store rn))"
    and "list_all si_open sis" "length rs < length sis"
  shows "streamed n (rk_object t) (ss_receipt_store s)
    (play_all yd (node_observer dp (rn_node rn)) (\<lambda>i. si_clock (sis ! i)) rs totals (s, deref_store (rn_store rn) (ss_receipt_store s)))
    (stream_steps dp yd n sis rn)"
  using assms
proof (induction rs arbitrary: rn t s totals sis)
  case Nil
  then obtain si sis' where sis: "sis = si # sis'" by (cases sis) auto
  let ?rn = "finish_window yd si n t rn"
  from Nil sis have "streamed n (rk_object t) (ss_receipt_store s) (Inr totals, s, deref_store (rn_store rn) (ss_receipt_store s)) ?rn"
    by (simp add: finish_window_def streamed_def put_task_def send_progress_def progress_of_def)
  moreover have "stream_steps dp yd n sis' ?rn = ?rn"
    using Nil by (intro stream_ended) (simp_all add: finish_window_def put_task_def)
  ultimately show ?case
    using sis by (simp add: streaming_step(2) [OF Nil.prems(1-3)])
next
  case (Cons r rs)
  then obtain si sis' where sis: "sis = si # sis'" by (cases sis) auto
  let ?p = "play_receipt yd (node_observer dp (rn_node rn)) (si_clock si) r (s, deref_store (rn_store rn) (ss_receipt_store s))"
  let ?rn = "play_next dp yd si n t r rs rn"
  note step = streaming_step(3) [OF Cons.prems(1-3), of dp yd si]
  obtain res s' ms where p: "?p = (res, s', ms)" by (cases ?p)
  show ?case
  proof (cases res)
    case (Inl e)
    note prems = Cons.prems
    have "streamed n (rk_object t) (ss_receipt_store s) (Inl e, s', ms) ?rn"
      using prems sis p Inl by (intro play_next_fails) simp_all
    moreover from this have "stream_steps dp yd n sis' ?rn = ?rn"
      using prems p Inl by (intro stream_ended) (simp_all add: streamed_def play_next_def put_task_def)
    ultimately show ?thesis
      using p Inl sis by (simp add: step)
  next
    case (Inr out)
    have op: "si_open si" using Cons.prems sis by simp
    note next_facts = play_next_continues [OF Cons.prems(1,5,6,7) op, of yd dp r out s' ms rs, OF p [unfolded Inr]]
    obtain t' where t': "rn_tasks ?rn ! n = t'" "rk_object t' = rk_object t" "rk_phase t' = Playing rs"
      "rk_replayed t' = saturating_add (rk_replayed t) 1"
      using next_facts(1) by blast
    have store: "ss_receipt_store s' = ss_receipt_store s"
      using play_receipt_frame [of s yd "node_observer dp (rn_node rn)" "si_clock si" r "deref_store (rn_store rn) (ss_receipt_store s)"] p
      by (simp add: same_session_def)
    have "streamed n (rk_object t') (ss_receipt_store s')
      (play_all yd (node_observer dp (rn_node ?rn)) (\<lambda>i. si_clock (sis' ! i)) rs
        \<lparr>wo_receipts_replayed = saturating_add (wo_receipts_replayed totals) 1,
         wo_session_receipts_emitted = saturating_add (wo_session_receipts_emitted totals) (of_nat (length (so_emitted_receipt_ids out)))\<rparr>
        (s', deref_store (rn_store ?rn) (ss_receipt_store s')))
      (stream_steps dp yd n sis' ?rn)"
      using Cons.prems sis t' next_facts store by (intro Cons.IH) simp_all
    then show ?thesis
      using t' next_facts store p Inr sis by (simp add: step)
  qed
qed

lemma query_window_Inr:
  assumes "query_window x w from to ms = Inr rs"
  shows "rs = sort_key receipt_time (filter (\<lambda>r. from \<le> receipt_time r \<and> receipt_time r \<le> to) (map snd (ms_by_id ms)))"
  using assms by (auto simp: query_window_def rbind_eq_Inr timestamp_new_def query_def split: option.splits)

lemma window_length:
  assumes "query_window x w from to ms = Inr rs"
  shows "length (retain_kinds kinds rs) \<le> length (ms_by_id ms)"
proof -
  have "length (retain_kinds kinds rs) \<le> length rs" by (simp add: retain_kinds_def)
  also have "\<dots> \<le> length (ms_by_id ms)"
    by (simp add: query_window_Inr [OF assms] order_trans [OF length_filter_le])
  finally show ?thesis .
qed

lemma stream_starting:
  assumes "n < length (rn_tasks rn)" "rn_tasks rn ! n = t" "rk_phase t = Starting" "rk_replayed t = 0"
    and "rn_objects rn ! rk_object t = s" "rk_object t < length (rn_objects rn)" "ss_receipt_store s < length (mr_stores (rn_store rn))"
    and "list_all si_open (si # sis)" "length (ms_by_id (node_receipts (rn_node rn))) < length sis"
  shows "streamed n (rk_object t) (ss_receipt_store s)
    (run_window yd (node_observer dp (rn_node rn)) (\<lambda>i. si_clock (sis ! i)) (node_receipts (rn_node rn)) (rk_window t)
      (s, deref_store (rn_store rn) (ss_receipt_store s)))
    (stream_steps dp yd n (si # sis) rn)"
proof (cases "query_window (ed_ext (yd_eval yd)) ''window'' (wn_from_unix_ns (rk_window t)) (wn_to_unix_ns (rk_window t))
    (node_receipts (rn_node rn))")
  case (Inl e)
  let ?rn = "start_window yd si n t rn"
  have "streamed n (rk_object t) (ss_receipt_store s) (Inl e, s, deref_store (rn_store rn) (ss_receipt_store s)) ?rn"
    using assms Inl by (simp add: start_window_def streamed_def put_task_def send_progress_def)
  moreover have "stream_steps dp yd n sis ?rn = ?rn"
    using assms Inl by (intro stream_ended) (simp_all add: start_window_def put_task_def)
  ultimately show ?thesis
    using Inl by (simp add: run_window_def streaming_step(1) [OF assms(1-3)])
next
  case (Inr rs)
  let ?rn = "start_window yd si n t rn" and ?rs = "retain_kinds (wn_action_kind_filter (rk_window t)) rs"
  have rn: "?rn = put_task n (t\<lparr>rk_phase := Playing ?rs\<rparr>) rn" by (simp add: start_window_def Inr)
  have "streamed n (rk_object (t\<lparr>rk_phase := Playing ?rs\<rparr>)) (ss_receipt_store s)
    (play_all yd (node_observer dp (rn_node ?rn)) (\<lambda>i. si_clock (sis ! i)) ?rs \<lparr>wo_receipts_replayed = 0, wo_session_receipts_emitted = 0\<rparr>
      (s, deref_store (rn_store ?rn) (ss_receipt_store s)))
    (stream_steps dp yd n sis ?rn)"
    using assms window_length [OF Inr, of "wn_action_kind_filter (rk_window t)"] rn
    by (intro stream_playing) (simp_all add: put_task_def)
  then show ?thesis
    using Inr by (simp add: run_window_def streaming_step(1) [OF assms(1-3)] rn)
qed

text \<open>
  Property (C22): the streaming run is \<open>run_window\<close>. After a run was accepted, finitely many steps of its task,
  one more than there are receipts in the log and one to begin, bring it to its end; if the client stays
  and the session is not used otherwise, the session's engine, chain head and receipts are those
  \<open>run_window\<close> computes, a failure is reported as the last message, and otherwise the last message says
  that the window is complete and counts the same number of receipts.
\<close>

theorem streaming_is_run_window:
  assumes "replay_reachable dp yd kc rn" and "handle_run_session dp yd now h session rn = (Inr n, rn1)"
    and "list_all si_open (si # sis)" and "length (ms_by_id (node_receipts (rn_node rn))) < length sis"
  shows "\<exists>k s w. rn_objects rn ! k = s
    \<and> streamed n k (ss_receipt_store s)
        (run_window yd (node_observer dp (rn_node rn)) (\<lambda>i. si_clock (sis ! i)) (node_receipts (rn_node rn)) w
          (s, deref_store (rn_store rn) (ss_receipt_store s)))
        (stream_steps dp yd n (si # sis) rn1)
    \<and> (\<exists>i m. yd_parse_session yd session = Some i \<and> hm_get (rn_sessions rn) i = Some k
         \<and> get_session (rn_store rn) i = Inr (Some m) \<and> sm_window m = w)"
proof -
  from assms(2) obtain i k m where run: "yd_parse_session yd session = Some i" "hm_get (rn_sessions rn) i = Some k"
    "get_session (rn_store rn) i = Inr (Some m)" "n = length (rn_tasks rn)"
    and rn1: "rn1 = rn\<lparr>rn_tasks := rn_tasks rn @ [\<lparr>rk_object = k, rk_session_id = i, rk_window = sm_window m,
      rk_phase = Starting, rk_replayed = 0, rk_sent = []\<rparr>]\<rparr>"
    by (auto simp: handle_run_session_def parse_session_def find_metadata_def get_session_def rbind_eq_Inr ok_or_def
        split: sum.splits option.splits)
  let ?t = "\<lparr>rk_object = k, rk_session_id = i, rk_window = sm_window m, rk_phase = Starting, rk_replayed = 0, rk_sent = []\<rparr>"
  let ?s = "rn_objects rn ! k"
  have k: "k < length (rn_objects rn)" and "stores_owned yd (rn_store rn) (rn_objects rn)"
    using replay_reachable_inv [OF assms(1)] run by (simp_all add: service_inv_def)
  then have "ss_receipt_store ?s < length (mr_stores (rn_store rn))"
    by (simp add: stores_owned_def)
  with assms(3,4) k have "streamed n (rk_object ?t) (ss_receipt_store ?s)
    (run_window yd (node_observer dp (rn_node rn1)) (\<lambda>i. si_clock (sis ! i)) (node_receipts (rn_node rn1)) (rk_window ?t)
      (?s, deref_store (rn_store rn1) (ss_receipt_store ?s)))
    (stream_steps dp yd n (si # sis) rn1)"
    by (intro stream_starting) (simp_all add: run rn1)
  then show ?thesis
    using run by (intro exI [of _ k] exI [of _ ?s] exI [of _ "sm_window m"]) (simp add: rn1)
qed

theorem streaming_is_run_window_witness:
  "\<exists>rn1. handle_run_session demo_node_deps demo_replay_deps demo_now (Some operator_header) ''5'' (demo_created True) = (Inr 0, rn1)
     \<and> rk_phase (rn_tasks (stream_steps demo_node_deps demo_replay_deps 0 [demo_step_inputs, demo_step_inputs, demo_step_inputs] rn1) ! 0) = Ended"
proof -
  let ?run = "handle_run_session demo_node_deps demo_replay_deps demo_now (Some operator_header) ''5'' (demo_created True)"
  have run: "?run = (Inr 0, snd ?run)"
    by (simp add: handle_run_session_def parse_session_def demo_operator_header demo_replay_deps_def demo_created_def ok_or_def
        find_metadata_def get_session_def)
  have "length (ms_by_id (node_receipts (rn_node (demo_created True)))) < length [demo_step_inputs, demo_step_inputs]"
    by (simp add: demo_created_def demo_logged_def)
  moreover have "list_all si_open [demo_step_inputs, demo_step_inputs, demo_step_inputs]"
    by (simp add: demo_step_inputs_def)
  ultimately have "rk_phase (rn_tasks (stream_steps demo_node_deps demo_replay_deps 0 [demo_step_inputs, demo_step_inputs, demo_step_inputs]
      (snd ?run)) ! 0) = Ended"
    using streaming_is_run_window [OF demo_created_reachable run] by (fastforce simp: streamed_def split: prod.splits)
  with run show ?thesis by blast
qed

lemma sort_key_unique:
  assumes "mset xs = mset ys" and "distinct (map f ys)"
  shows "sort_key f xs = sort_key f ys"
proof (rule map_sorted_distinct_set_unique [of f])
  have "mset (map f xs) = mset (map f ys)" by (simp only: mset_map assms(1))
  from mset_eq_imp_distinct_iff [OF this] assms(2) have "distinct (map f xs)" by simp
  then show "distinct (map f (sort_key f xs))" "distinct (map f (sort_key f ys))"
    using assms(2) by (simp_all add: distinct_map)
  show "set (sort_key f xs) = set (sort_key f ys)" using mset_eq_setD [OF assms(1)] by simp
  with assms(2) show "inj_on f (set (sort_key f xs) \<union> set (sort_key f ys))" by (simp add: distinct_map)
qed simp_all

text \<open>
  a preview does not depend on the iteration order of the log. The in-memory log answers a
  query in the order of a hash map; if the receipts of the window have different times, runs over two logs
  with the same entries in different orders give the same outcome, session and receipts.
\<close>

theorem replay_order_independent:
  assumes "mset (ms_by_id ms') = mset (ms_by_id ms)"
    and "distinct (map receipt_time (filter (\<lambda>r. wn_from_unix_ns w \<le> receipt_time r \<and> receipt_time r \<le> wn_to_unix_ns w)
           (map snd (ms_by_id ms))))"
  shows "run_window yd ob ck ms' w st = run_window yd ob ck ms w st"
proof -
  let ?f = "\<lambda>m. filter (\<lambda>r. wn_from_unix_ns w \<le> receipt_time r \<and> receipt_time r \<le> wn_to_unix_ns w) (map snd (ms_by_id m))"
  have "mset (?f ms') = mset (?f ms)"
    by (simp only: mset_filter mset_map assms(1))
  from sort_key_unique [OF this assms(2)]
  have "sort_key receipt_time (?f ms') = sort_key receipt_time (?f ms)" .
  then have "query_window x what (wn_from_unix_ns w) (wn_to_unix_ns w) ms' = query_window x what (wn_from_unix_ns w) (wn_to_unix_ns w) ms"
    for x what
    by (auto simp: query_window_def timestamp_new_def query_def split: option.split)
  then show ?thesis by (simp add: run_window_def)
qed

definition demo_log :: "(Hash \<times> Receipt) list \<Rightarrow> MemoryStore" where
  "demo_log es = memory_store_new\<lparr>ms_by_id := es\<rparr>"

theorem replay_order_independent_witness:
  "run_window demo_replay_deps demo_observer (\<lambda>_ _. Transport_Properties.demo_clock)
     (demo_log [(demo_id 4, demo_receipt ''x'' 5), (demo_id 3, demo_receipt ''x'' 2)]) demo_window (demo_session 0, memory_store_new)
   = run_window demo_replay_deps demo_observer (\<lambda>_ _. Transport_Properties.demo_clock)
     (demo_log [(demo_id 3, demo_receipt ''x'' 2), (demo_id 4, demo_receipt ''x'' 5)]) demo_window (demo_session 0, memory_store_new)"
  by (rule replay_order_independent)
     (simp_all add: demo_log_def demo_window_def demo_receipt_def demo_unsigned_def demo_time_def)

section \<open>Warm sessions\<close>

lemma unat_lookback_ns: "unat (lookback_ns hours) = min (unat hours * 3600000000000) (2 ^ 64 - 1)"
proof -
  have h: "unat hours < 2 ^ 32" by (rule order_less_le_trans [OF unsigned_less]) simp
  then have "unat (ucast hours :: u64) = unat hours"
    by (simp add: unsigned_ucast_eq take_bit_nat_eq_self)
  moreover from this h have "unat (saturating_mul (ucast hours :: u64) 3600) = unat hours * 3600"
    by (simp add: saturating_mul_def unat_word_ariths)
  ultimately show ?thesis
    by (auto simp: lookback_ns_def saturating_mul_def [of "saturating_mul _ _"] unat_word_ariths unsigned_minus_1_eq_mask
        mask_eq_exp_minus_1)
qed

text \<open>
  the lookback of a warm session. Except at the beginning of time, the receipts that warm up
  the engine are those of the given number of hours before the window, without its first instant, and the
  64-bit arithmetic never wraps however many hours are asked for. A window that starts at zero has no
  earlier receipts, but the range is the single instant zero, which the run replays a second time.
\<close>

theorem warm_lookback_window:
  "fst (lookback_range from hours) \<le> t \<and> t \<le> snd (lookback_range from hours) \<longleftrightarrow>
     (if from = 0 then t = 0
      else unat from - unat hours * 3600000000000 \<le> unat t \<and> unat t < unat from)"
proof -
  have "unat from < 2 ^ 64" by (rule order_less_le_trans [OF unsigned_less]) simp
  then have "unat (fst (lookback_range from hours)) = unat from - unat hours * 3600000000000"
    by (simp add: lookback_range_def unat_saturating_sub unat_lookback_ns min_def)
  moreover have "unat (snd (lookback_range from hours)) = unat from - 1"
    by (simp add: lookback_range_def unat_saturating_sub)
  moreover have "from \<noteq> 0 \<Longrightarrow> 0 < unat from" by (simp add: unat_gt_0)
  ultimately show ?thesis
    by (cases "from = 0") (auto simp: word_le_nat_alt unat_eq_0)
qed

section \<open>Where creation goes wrong\<close>

lemma create_rejected:
  assumes "decode_create dp kc (ci_auth ci) h req = Inr (op, k, w)" "hm_get (mr_sessions (rn_store rn)) (ci_session_id ci) = None"
    and "\<And>store ms. build_session yd ci req (op_swarm_id op) k w store ms = Inl (e store ms)"
  shows "\<exists>st rs. handle_create_session dp yd kc ci h req rn = (Inl st, rn\<lparr>rn_store := rs\<rparr>)
    \<and> get_session rs (ci_session_id ci) = Inr (Some (session_metadata ci req k w))"
  using assms
  by (auto simp: handle_create_session_def create_session_def case_prod_beta Let_def get_session_def session_store_def split: option.split)

text \<open>
  a rejected candidate leaves a session behind. When the loader refuses the candidate, the
  request fails and no receipt is written, but the slot reserved before stays in the replay store: the
  session is found and listed under its id, and every attempt to run it fails.
\<close>

theorem rejected_candidate_stays:
  assumes "decode_create dp kc (ci_auth ci) h req = Inr (op, k, w)"
    and "hm_get (mr_sessions (rn_store rn)) (ci_session_id ci) = None" and "hm_get (rn_sessions rn) (ci_session_id ci) = None"
    and "yd_canonical_schema yd = Some schema" and "load (ed_cedar (yd_eval yd)) schema sandbox_default k = Inl e"
  shows "\<exists>st rn'. handle_create_session dp yd kc ci h req rn = (Inl st, rn') \<and> rn_node rn' = rn_node rn
    \<and> get_session (rn_store rn') (ci_session_id ci) = Inr (Some (session_metadata ci req k w))
    \<and> (\<forall>now auth session. yd_parse_session yd session = Some (ci_session_id ci)
         \<longrightarrow> \<not> is_ok (fst (handle_run_session dp yd now auth session rn')))"
proof -
  have "build_session yd ci req (op_swarm_id op) k w store ms = Inl (ReplayCedarPlus ''load'')" for store ms
    by (simp add: build_session_def create_warm_def create_cold_def assms ok_or_def split: ReplayMode.split)
  from create_rejected [OF assms(1,2) this] obtain st rs where
    "handle_create_session dp yd kc ci h req rn = (Inl st, rn\<lparr>rn_store := rs\<rparr>)"
    "get_session rs (ci_session_id ci) = Inr (Some (session_metadata ci req k w))"
    by blast
  moreover have "\<not> is_ok (fst (handle_run_session dp yd now auth session (rn\<lparr>rn_store := rs\<rparr>)))"
    if "yd_parse_session yd session = Some (ci_session_id ci)" for now auth session
    using that assms(3)
    by (cases "operator_auth dp now auth") (simp_all add: handle_run_session_def parse_session_def ok_or_def)
  ultimately show ?thesis
    by (intro exI [of _ st] exI [of _ "rn\<lparr>rn_store := rs\<rparr>"]) simp
qed

definition demo_refusing :: "(unit, string, unit, unit) replay_deps" where
  "demo_refusing = demo_replay_deps\<lparr>yd_eval := (demo_eval [])\<lparr>ed_cedar := (demo_cedar [])\<lparr>ced_parse_policies := (\<lambda>_. None)\<rparr>\<rparr>\<rparr>"

theorem rejected_candidate_stays_witness:
  "\<exists>st rn'. handle_create_session demo_node_deps demo_refusing demo_preview_codec (demo_create_inputs (ReplaySessionId 5) True)
      (Some operator_header) demo_create_request (replay_node_new demo_logged) = (Inl st, rn')
    \<and> get_session (rn_store rn') (ReplaySessionId 5) = Inr (Some demo_metadata)
    \<and> \<not> is_ok (fst (handle_run_session demo_node_deps demo_refusing demo_now (Some operator_header) ''5'' rn'))"
proof -
  let ?k = "demo_constitution demo_watching"
  have "load (ed_cedar (yd_eval demo_refusing)) () sandbox_default ?k \<noteq> Inr a" for a
    by (simp add: demo_refusing_def load_def rbind_eq_Inr parse_and_validate_cedar_def ok_or_def)
  then obtain e where "load (ed_cedar (yd_eval demo_refusing)) () sandbox_default ?k = Inl e"
    by (metis sum.exhaust_sel sum.collapse(2))
  moreover have "yd_canonical_schema demo_refusing = Some ()" "yd_parse_session demo_refusing ''5'' = Some (ReplaySessionId 5)"
    by (simp_all add: demo_refusing_def demo_replay_deps_def)
  ultimately show ?thesis
    using rejected_candidate_stays [of demo_node_deps demo_preview_codec "demo_create_inputs (ReplaySessionId 5) True" "Some operator_header"
        demo_create_request _ ?k demo_window "replay_node_new demo_logged" demo_refusing "()" e] demo_preview_decodes
    by (fastforce simp: replay_node_new_def replay_store_new_def demo_metadata_any)
qed

text \<open>A session object whose store no slot reaches.\<close>

definition detached :: "nat \<Rightarrow> ('s, 'p) ReplayNode \<Rightarrow> bool" where
  "detached k rn \<longleftrightarrow>
     k < length (rn_objects rn) \<and> ss_receipt_store (rn_objects rn ! k) < length (mr_stores (rn_store rn))
     \<and> (\<forall>i slot. hm_get (mr_sessions (rn_store rn)) i = Some slot \<longrightarrow> sl_store slot \<noteq> ss_receipt_store (rn_objects rn ! k))"

lemma detached_cong:
  assumes "detached k rn" "k < length (rn_objects rn')" "ss_receipt_store (rn_objects rn' ! k) = ss_receipt_store (rn_objects rn ! k)"
    and "length (mr_stores (rn_store rn)) \<le> length (mr_stores (rn_store rn'))"
    and "\<And>i slot. hm_get (mr_sessions (rn_store rn')) i = Some slot \<Longrightarrow>
      length (mr_stores (rn_store rn)) \<le> sl_store slot
      \<or> (\<exists>slot'. hm_get (mr_sessions (rn_store rn)) i = Some slot' \<and> sl_store slot' = sl_store slot)"
  shows "detached k rn'"
proof -
  have store: "ss_receipt_store (rn_objects rn ! k) < length (mr_stores (rn_store rn))"
    and slots: "hm_get (mr_sessions (rn_store rn)) i = Some slot \<Longrightarrow> sl_store slot \<noteq> ss_receipt_store (rn_objects rn ! k)" for i slot
    using assms(1) by (auto simp: detached_def)
  have "sl_store slot \<noteq> ss_receipt_store (rn_objects rn ! k)" if "hm_get (mr_sessions (rn_store rn')) i = Some slot" for i slot
    using assms(5) [OF that] store slots by force
  with assms(2-4) store show ?thesis by (auto simp: detached_def)
qed

lemma touch_slots:
  "hm_get (mr_sessions (snd (touch_session i d t rs))) j = Some slot \<Longrightarrow>
     \<exists>slot'. hm_get (mr_sessions rs) j = Some slot' \<and> sl_store slot' = sl_store slot"
  by (auto simp: touch_session_def split: option.splits if_splits)

lemma session_store_simps [simp]:
  "mr_sessions (snd (session_store free i rs)) = mr_sessions rs"
  "length (mr_stores rs) \<le> length (mr_stores (snd (session_store free i rs)))"
  by (simp_all add: session_store_def split: option.split)

lemma create_slots:
  "hm_get (mr_sessions (snd (create_session m rs))) j = Some slot \<Longrightarrow>
     length (mr_stores rs) \<le> sl_store slot \<or> hm_get (mr_sessions rs) j = Some slot"
  "length (mr_stores rs) \<le> length (mr_stores (snd (create_session m rs)))"
  by (auto simp: create_session_def case_prod_beta Let_def split: if_splits)

lemma detached_create:
  assumes "detached k rn"
  shows "detached k (snd (handle_create_session dp yd kc ci h req rn))"
proof (rule detached_cong [OF assms])
  let ?rn = "snd (handle_create_session dp yd kc ci h req rn)"
  have k: "k < length (rn_objects rn)" using assms by (simp add: detached_def)
  then show "k < length (rn_objects ?rn)" "ss_receipt_store (rn_objects ?rn ! k) = ss_receipt_store (rn_objects rn ! k)"
    by (auto simp: handle_create_session_def case_prod_beta Let_def nth_append split: sum.split prod.split)
  have "rn_store ?rn = rn_store rn \<or> (\<exists>m. rn_store ?rn = snd (create_session m (rn_store rn)))
      \<or> (\<exists>m i. rn_store ?rn = snd (session_store (ci_lock_free ci) i (snd (create_session m (rn_store rn)))))"
    by (auto simp: handle_create_session_def case_prod_beta Let_def split: sum.split prod.split)
  then consider "rn_store ?rn = rn_store rn"
    | m where "mr_sessions (rn_store ?rn) = mr_sessions (snd (create_session m (rn_store rn)))"
        "length (mr_stores (snd (create_session m (rn_store rn)))) \<le> length (mr_stores (rn_store ?rn))"
    by force
  then have "length (mr_stores (rn_store rn)) \<le> length (mr_stores (rn_store ?rn))
    \<and> (\<forall>i slot. hm_get (mr_sessions (rn_store ?rn)) i = Some slot \<longrightarrow>
          length (mr_stores (rn_store rn)) \<le> sl_store slot \<or> hm_get (mr_sessions (rn_store rn)) i = Some slot)"
  proof cases
    case (2 m)
    then show ?thesis using create_slots [where m = m and rs = "rn_store rn"] by (auto intro: order_trans)
  qed simp
  then show "length (mr_stores (rn_store rn)) \<le> length (mr_stores (rn_store ?rn))"
    "hm_get (mr_sessions (rn_store ?rn)) i = Some slot \<Longrightarrow> length (mr_stores (rn_store rn)) \<le> sl_store slot
      \<or> (\<exists>slot'. hm_get (mr_sessions (rn_store rn)) i = Some slot' \<and> sl_store slot' = sl_store slot)" for i slot
    by blast+
qed

lemma detached_streaming:
  assumes "detached k rn"
  shows "detached k (run_window_streaming dp yd si n rn)"
proof (rule detached_cong [OF assms])
  let ?rn = "run_window_streaming dp yd si n rn"
  have k: "k < length (rn_objects rn)" using assms by (simp add: detached_def)
  show "k < length (rn_objects ?rn)" "length (mr_stores (rn_store rn)) \<le> length (mr_stores (rn_store ?rn))"
    using k by (auto simp: run_window_streaming_def start_window_def play_next_def finish_window_def case_prod_beta Let_def
        split: run_phase.split list.split sum.split)
  have "ss_receipt_store ((rn_objects rn)[j := fst (snd (play_receipt yd ob ck r (rn_objects rn ! j, ms)))] ! k)
      = ss_receipt_store (rn_objects rn ! k)" for j ob ck r ms
    using k play_receipt_frame [of "rn_objects rn ! j" yd ob ck r ms] by (cases "j = k") (simp_all add: same_session_def)
  then show "ss_receipt_store (rn_objects ?rn ! k) = ss_receipt_store (rn_objects rn ! k)"
    by (auto simp: run_window_streaming_def start_window_def play_next_def finish_window_def case_prod_beta Let_def
        split: run_phase.split list.split sum.split)
  show "length (mr_stores (rn_store rn)) \<le> sl_store slot
      \<or> (\<exists>slot'. hm_get (mr_sessions (rn_store rn)) i = Some slot' \<and> sl_store slot' = sl_store slot)"
    if "hm_get (mr_sessions (rn_store ?rn)) i = Some slot" for i slot
    using that
    by (auto simp: run_window_streaming_def start_window_def play_next_def finish_window_def case_prod_beta Let_def
        split: run_phase.splits list.splits sum.splits if_splits dest!: touch_slots)
qed

lemma detached_session_store: "detached k rn \<Longrightarrow> detached k (rn\<lparr>rn_store := snd (session_store free i (rn_store rn))\<rparr>)"
  by (auto simp: detached_def intro: order_less_le_trans [OF _ session_store_simps(2)])

lemma detached_step: "detached k rn \<Longrightarrow> detached k (replay_step dp yd kc op rn)"
proof (cases op)
  case (OpQuery now free h i q)
  assume "detached k rn"
  then show ?thesis
    using OpQuery by (auto simp: handle_query_replay_receipts_def case_prod_beta Let_def detached_session_store split: sum.split)
next
  case (OpClose now ck h i)
  assume "detached k rn"
  then show ?thesis
    using OpClose
    by (auto simp: handle_close_session_def delete_session_def case_prod_beta Let_def detached_def split: sum.split if_splits)
next
  case (OpRun now h i)
  assume "detached k rn"
  then show ?thesis
    using OpRun by (auto simp: handle_run_session_def detached_def split: sum.split)
qed (simp_all add: detached_create detached_streaming)

lemma contended_create:
  assumes "service_inv yd rn" "\<not> ci_lock_free ci" "fst (handle_create_session dp yd kc ci h req rn) = Inr x"
  shows "detached (length (rn_objects rn)) (snd (handle_create_session dp yd kc ci h req rn))"
proof -
  let ?rn = "snd (handle_create_session dp yd kc ci h req rn)"
  from assms(2,3) obtain m s where created: "rn_objects ?rn = rn_objects rn @ [s]"
    "rn_store ?rn = snd (alloc_store (snd (create_session m (rn_store rn))))"
    "ss_receipt_store s = length (mr_stores (snd (create_session m (rn_store rn))))"
    by (auto simp: handle_create_session_def case_prod_beta Let_def session_store_def dest!: build_session_fields
        split: sum.splits prod.splits)
  have "replay_store_inv (snd (create_session m (rn_store rn)))"
    using assms(1) by (simp add: service_inv_def stores_owned_def)
  then have "sl_store slot < length (mr_stores (snd (create_session m (rn_store rn))))"
    if "hm_get (mr_sessions (snd (create_session m (rn_store rn)))) i = Some slot" for i slot
    using that by (simp add: replay_store_inv_def)
  with created show ?thesis by (fastforce simp: detached_def)
qed

text \<open>The states that can follow a given one.\<close>

inductive replay_later ::
    "('s, 'p, 'e, 'q) node_deps \<Rightarrow> ('s, 'p, 'e, 'q) replay_deps \<Rightarrow> constitution_codec \<Rightarrow> ('s, 'p) ReplayNode \<Rightarrow> ('s, 'p) ReplayNode \<Rightarrow> bool"
  for dp yd kc rn where
  later_refl: "replay_later dp yd kc rn rn"
| later_request: "replay_later dp yd kc rn rn' \<Longrightarrow> replay_later dp yd kc rn (replay_step dp yd kc op rn')"
| later_production: "replay_later dp yd kc rn rn' \<Longrightarrow> replay_later dp yd kc rn (rn'\<lparr>rn_node := nd\<rparr>)"

lemma detached_later: "replay_later dp yd kc rn rn' \<Longrightarrow> detached k rn \<Longrightarrow> detached k rn'"
proof (induction rule: replay_later.induct)
  case (later_production rn' nd)
  then show ?case by (simp add: detached_def)
qed (simp_all add: detached_step)

text \<open>
  Property (C37): a creation that races with a writer detaches the session. If \<open>try_read\<close> finds the lock
  taken when the handler asks for the store of the session it has just created, the session works on a
  store of its own that the replay store does not know: whatever happens afterwards, no step of its runs
  changes what any query of replay receipts can return, although the run reports progress.
\<close>

theorem contended_create_detaches:
  assumes "replay_reachable dp yd kc rn" and "\<not> ci_lock_free ci"
    and "fst (handle_create_session dp yd kc ci h req rn) = Inr x"
    and "replay_later dp yd kc (snd (handle_create_session dp yd kc ci h req rn)) rn'"
    and "n < length (rn_tasks rn')" and "rk_object (rn_tasks rn' ! n) = length (rn_objects rn)"
  shows "map_option snd (partition_of (rn_store (run_window_streaming dp yd si n rn')) j)
    = map_option snd (partition_of (rn_store rn') j)"
proof -
  have "detached (length (rn_objects rn)) rn'"
    using contended_create [OF replay_reachable_inv [OF assms(1)] assms(2,3)] by (rule detached_later [OF assms(4)])
  then have "partition_of (assign_store (ss_receipt_store (rn_objects rn' ! length (rn_objects rn))) ms (rn_store rn')) = partition_of (rn_store rn')" for ms
    by (intro partition_of_assign_detached) (auto simp: detached_def)
  moreover have "map_option snd (partition_of (snd (touch_session i d t rs)) j) = map_option snd (partition_of rs j)" for i d t rs
    by (auto simp: partition_of_touch split: option.split)
  ultimately show ?thesis
    using assms(5,6)
    by (auto simp: run_window_streaming_def start_window_def play_next_def finish_window_def case_prod_beta Let_def
        split: run_phase.split list.split sum.split)
qed

lemma demo_create_ok:
  "\<exists>h. fst (handle_create_session demo_node_deps demo_replay_deps demo_preview_codec (demo_create_inputs (ReplaySessionId 5) free)
     (Some operator_header) demo_create_request (replay_node_new demo_logged)) = Inr (''5'', h)"
proof -
  have "st_passports (nd_cp demo_logged) = demo_passports" by (simp add: demo_logged_def)
  from demo_node_emit_ok [OF this]
  have "\<exists>h. fst (emit_replay_session_create_receipt demo_node_deps ck i kh kv w m hours swarm demo_logged) = Inr h" for ck i kh kv w m hours swarm
    by (simp add: emit_replay_session_create_receipt_def)
  then show ?thesis
    by (simp add: handle_create_session_def demo_preview_decodes demo_metadata_any demo_build_session replay_node_new_def
        replay_store_new_def create_session_def case_prod_beta Let_def demo_replay_deps_def [THEN arg_cong [of _ _ yd_show_session]])
      (metis rbind.simps(2))
qed

theorem contended_create_detaches_witness:
  "map_option snd (partition_of (rn_store (demo_replay (OpStep demo_step_inputs 0) (demo_playing False))) (ReplaySessionId 5)) = Some memory_store_new
   \<and> rk_replayed (rn_tasks (demo_replay (OpStep demo_step_inputs 0) (demo_playing False)) ! 0) = 1"
proof -
  let ?create = "handle_create_session demo_node_deps demo_replay_deps demo_preview_codec (demo_create_inputs (ReplaySessionId 5) False)
     (Some operator_header) demo_create_request (replay_node_new demo_logged)"
  have later: "replay_later demo_node_deps demo_replay_deps demo_preview_codec (snd ?create) (demo_playing False)"
    unfolding demo_playing_run [symmetric] demo_create_effect [symmetric] by (simp only: replay_step.simps(1)) (intro replay_later.intros)
  obtain h where h: "fst ?create = Inr (''5'', h)" using demo_create_ok by blast
  have task: "0 < length (rn_tasks (demo_playing False))" "rk_object (rn_tasks (demo_playing False) ! 0) = length (rn_objects (replay_node_new demo_logged))"
    by (simp_all add: demo_playing_def demo_task_def replay_node_new_def)
  have "\<not> ci_lock_free (demo_create_inputs (ReplaySessionId 5) False)" by simp
  note same = contended_create_detaches [OF replay_reachable.start this h later task, of demo_step_inputs "ReplaySessionId 5"]
  moreover have "partition_of (rn_store (demo_playing False)) (ReplaySessionId 5) = Some (demo_metadata, memory_store_new)"
    by (simp add: demo_playing_def demo_created_def partition_of_def deref_store_def)
  moreover obtain out s ms where "play_receipt demo_replay_deps (node_observer demo_node_deps demo_logged) (si_clock demo_step_inputs)
      (demo_receipt ''envelope.send'' 5) (demo_session 1, memory_store_new) = (Inr out, s, ms)"
    using demo_plays [of "si_clock demo_step_inputs" 1] by blast
  ultimately show ?thesis
    using same
    by (simp add: demo_playing_def demo_created_def run_window_streaming_def Let_def play_next_def demo_task_def put_task_def
        send_progress_def deref_store_def demo_session_def [THEN arg_cong [of _ _ ss_receipt_store]] saturating_add_def)
qed

section \<open>Where a preview differs from production\<close>

lemma replay_scan_principal:
  "list_all (\<lambda>ev. ev_key ev \<notin> {''subject_agent_id'', ''target_agent_id''}) evs \<Longrightarrow>
     vs_principal (fold replay_scan evs v) = vs_principal v \<and> vs_principal (fold scan_evidence evs v) = vs_principal v"
proof (induction evs arbitrary: v)
  case (Cons ev evs)
  have "vs_principal (replay_scan ev v) = vs_principal v" for v
    using Cons.prems by (auto simp: replay_scan_def split: option.split)
  moreover have "vs_principal (scan_evidence ev v) = vs_principal v" for v
    using Cons.prems by (auto simp: scan_evidence_def split: option.split)
  ultimately show ?case using Cons by (simp add: conj_commute)
qed simp

text \<open>
  a preview attributes sends to nobody. The receipt the transport records for an envelope has
  no evidence naming a principal; production falls back to the actor of the receipt, replay to nothing. A
  rule that groups by principal therefore counts, in the preview, the envelopes of all senders under the
  empty name, and what it detects has an empty target.
\<close>

theorem replay_attributes_sends_to_nobody:
  assumes "observation (trd_observer td) ck kind swarm version (envelope_evidence td e @ extra) = Inr r"
    and "list_all (\<lambda>ev. ev_key ev \<notin> {''subject_agent_id'', ''target_agent_id''}) extra"
    and "dc_group_by (er_detect rule) \<noteq> ''none''"
  shows "group_key rule (replay_view r) = []
    \<and> group_key rule (build_view show_agent r) = show_agent (cp_agent_id (ob_control_plane (trd_observer td)))
    \<and> (\<forall>eff. fst (check_detect add rule (replay_view r) eng) = Some eff \<longrightarrow> ef_target_agent_id eff = [])"
proof -
  have "list_all (\<lambda>ev. ev_key ev \<notin> {''subject_agent_id'', ''target_agent_id''}) (r_evidence r)"
    using assms(2) observation_fields(2) [OF assms(1)] by (simp add: envelope_evidence_def evidence_new_def)
  note scan = replay_scan_principal [OF this]
  have key: "group_key rule (replay_view r) = []"
    by (simp add: group_key_def replay_view_def Let_def scan)
  moreover have "group_key rule (build_view show_agent r) = show_agent (r_actor r)"
    using assms(3) by (simp add: group_key_def build_view_def Let_def scan)
  moreover have "fst (check_detect add rule (replay_view r) eng) = Some eff \<Longrightarrow> ef_target_agent_id eff = []" for eff
    using key by (auto simp: check_detect_def Let_def detect_effect_def split: if_splits)
  ultimately show ?thesis
    using observation_fields(5) [OF assms(1)] by simp
qed

theorem replay_attributes_sends_to_nobody_witness:
  "\<exists>r. observation (trd_observer demo_transport) Transport_Properties.demo_clock ''envelope.send'' (SwarmId 1) []
       (envelope_evidence demo_transport (demo_envelope (ToAgent (AgentId 3)) [7])
        @ [evidence_new ''to_agent'' ''type.yutha.dev/v1/AgentId'' (agent_as_bytes (AgentId 3))]) = Inr r
     \<and> group_key demo_watch (replay_view r) = []"
proof -
  let ?evs = "envelope_evidence demo_transport (demo_envelope (ToAgent (AgentId 3)) [7])
        @ [evidence_new ''to_agent'' ''type.yutha.dev/v1/AgentId'' (agent_as_bytes (AgentId 3))]"
  obtain h ms where "observe demo_observer Transport_Properties.demo_clock ''envelope.send'' (SwarmId 1) [] ?evs memory_store_new = (Inr h, ms)"
    using demo_observe_ok by blast
  then obtain r where "observation demo_observer Transport_Properties.demo_clock ''envelope.send'' (SwarmId 1) [] ?evs = Inr r"
    by (rule observe_Inr)
  then have r: "observation (trd_observer demo_transport) Transport_Properties.demo_clock ''envelope.send'' (SwarmId 1) [] ?evs = Inr r"
    by (simp add: demo_transport_def)
  have "list_all (\<lambda>ev. ev_key ev \<notin> {''subject_agent_id'', ''target_agent_id''})
      [evidence_new ''to_agent'' ''type.yutha.dev/v1/AgentId'' (agent_as_bytes (AgentId 3))]"
    by (simp add: evidence_new_def)
  moreover have "dc_group_by (er_detect demo_watch) \<noteq> ''none''" by (simp add: demo_watch_def)
  ultimately show ?thesis
    using replay_attributes_sends_to_nobody [OF r, of demo_watch] r by blast
qed

text \<open>Production loads candidates with the schema of its evaluator, a preview with the canonical one.\<close>

lemma preview_loads_like_activation:
  assumes "yd_canonical_schema yd = Some (cv_schema ev)" and "cv_bounds ev = sandbox_default"
  shows "is_ok (create_cold yd i swarm k store) = is_ok (fst (evaluator_activate (yd_eval yd) k ev))"
  using assms
  by (cases "load (ed_cedar (yd_eval yd)) (cv_schema ev) sandbox_default k")
    (simp_all add: create_cold_def evaluator_activate_def ok_or_def)

text \<open>A validator that knows the extended schema (\<open>True\<close>) and not the canonical one.\<close>

definition demo_workload_cedar :: "(bool, string, unit, unit) cedar" where
  "demo_workload_cedar =
     \<lparr>ced_parse_policies = Some, ced_no_policies = [], ced_policy_count = (\<lambda>_. 1), ced_validates = (\<lambda>s _. s),
      ced_parses_expression = (\<lambda>_. True), ced_entity_type_ok = (\<lambda>_. True), ced_entity_id_ok = (\<lambda>_. True),
      ced_entities = (\<lambda>_ _. Some ()), ced_context_ok = (\<lambda>_. True), ced_request = (\<lambda>_ _ _ _ _. Some ()),
      ced_is_authorized = (\<lambda>_ _ _. (True, []))\<rparr>"

text \<open>
  a preview may refuse a constitution that production accepts. Although a session is meant to
  validate its candidate like an activation, it always loads it with the canonical schema: a node that was
  started with a workload extension activates a candidate whose policies need the extension, and no session
  can be created for it.
\<close>

theorem preview_ignores_workload_schema:
  "is_ok (fst (evaluator_activate \<lparr>ed_cedar = demo_workload_cedar, ed_ext = demo_ext, ed_show_agent = (\<lambda>_. ''a''),
        ed_show_swarm = (\<lambda>_. ''s''), ed_to_vec = (\<lambda>_. [])\<rparr> (demo_constitution (demo_procedures []))
        (evaluator_new True sandbox_default sandbox_default)))
   \<and> \<not> is_ok (create_cold \<lparr>yd_eval = \<lparr>ed_cedar = demo_workload_cedar, ed_ext = demo_ext, ed_show_agent = (\<lambda>_. ''a''),
        ed_show_swarm = (\<lambda>_. ''s''), ed_to_vec = (\<lambda>_. [])\<rparr>, yd_canonical_schema = Some False, yd_show_session = (\<lambda>_. []),
        yd_parse_session = (\<lambda>_. None), yd_json_to_vec = Inl \<circ> (\<lambda>_. []), yd_clock_add = (\<lambda>_ _. None)\<rparr>
        i swarm (demo_constitution (demo_procedures [])) store)"
proof -
  have depth: "estimate_cedar_depth ''permit (principal, action, resource);'' \<le> 5" by code_simp
  show ?thesis
    using depth
    by (simp add: create_cold_def evaluator_activate_def evaluator_new_def load_defs demo_workload_cedar_def
        demo_constitution_def demo_procedures_def)
qed

end
