(* ===== verification/Oidc.thy ===== *)
theory Oidc
  imports Registry Enforcement_Loop Decimal_F64
begin

text \<open>
  The OpenID Connect attestor (\<open>crates/yutha-attestor-oidc\<close>): its configuration and key sources, the
  key cache with its two ways of refreshing (in the background past the time to live, blocking when a key
  id is unknown), the projection of claims, and the verification of an ID token. The JSON values of
  \<open>serde_json\<close> are the datatype \<open>json\<close>. What comes from other packages is a parameter: the decoder of
  tokens (\<open>jsonwebtoken\<close>), the parsers of key sets and discovery documents, the date formatter
  (\<open>time\<close>), and the answers of the network and the file system, one value of \<open>oidc_net\<close> for each fetch.
  The operations here run without interference; \<open>Oidc_Runs\<close> interleaves them.
\<close>

section \<open>JSON values\<close>

text \<open>
  A \<open>serde_json\<close> number is a non-negative \<open>u64\<close>, a negative \<open>i64\<close> or a finite double.
\<close>

datatype json_number = PosInt u64 | NegInt int | JFloat f64

datatype json =
    V_Null
  | V_Bool bool
  | V_Number json_number
  | V_String string
  | V_Array "json list"
  | V_Object "(string, json) btree_map"

fun value_get :: "json \<Rightarrow> string \<Rightarrow> json option" where
  "value_get (V_Object m) k = bt_get m k"
| "value_get _ k = None"

fun as_str :: "json \<Rightarrow> string option" where
  "as_str (V_String s) = Some s"
| "as_str _ = None"

fun as_i64 :: "json \<Rightarrow> int option" where
  "as_i64 (V_Number (PosInt n)) = (if uint n < 2 ^ 63 then Some (uint n) else None)"
| "as_i64 (V_Number (NegInt i)) = Some i"
| "as_i64 _ = None"

section \<open>Text helpers\<close>

definition ascii_upper :: "char \<Rightarrow> char" where
  "ascii_upper c =
     (let n = (of_char c :: nat) in if 97 \<le> n \<and> n \<le> 122 then char_of (n - 32) else c)"

definition to_ascii_uppercase :: "string \<Rightarrow> string" where
  "to_ascii_uppercase s = map ascii_upper s"

definition eq_ignore_ascii_case :: "string \<Rightarrow> string \<Rightarrow> bool" where
  "eq_ignore_ascii_case a b = (to_ascii_uppercase a = to_ascii_uppercase b)"

definition trim_end_matches :: "char \<Rightarrow> string \<Rightarrow> string" where
  "trim_end_matches c s = rev (dropWhile (\<lambda>x. x = c) (rev s))"

fun find_substr :: "string \<Rightarrow> string \<Rightarrow> nat option" where
  "find_substr pat [] = (if pat = [] then Some 0 else None)"
| "find_substr pat (c # cs) =
     (if starts_with pat (c # cs) then Some 0 else map_option Suc (find_substr pat cs))"

fun join_with :: "string \<Rightarrow> string list \<Rightarrow> string" where
  "join_with sep [] = []"
| "join_with sep [s] = s"
| "join_with sep (s # t # ss) = s @ sep @ join_with sep (t # ss)"

abbreviation section_sign :: string where
  "section_sign \<equiv> [CHR 0xC2, CHR 0xA7]"

abbreviation long_dash :: string where
  "long_dash \<equiv> [CHR 0xE2, CHR 0x80, CHR 0x94]"

section \<open>Where the keys come from\<close>

datatype JwksSource =
    Discovery (issuer_url: string)
  | JwksUri (jwks_url: string)
  | StaticFile (jwks_path: string)

definition check_url :: "string \<Rightarrow> bool \<Rightarrow> string \<Rightarrow> AttestorError + unit" where
  "check_url url allow_insecure_http field =
     (if url = [] then Inl (AttestorInternal (field @ '': must not be empty''))
      else
        let is_https = starts_with ''https://'' url; is_http = starts_with ''http://'' url in
        if \<not> is_https \<and> \<not> is_http
        then Inl (AttestorInternal (field @ '': URL must start with http:// or https://''))
        else if is_http \<and> \<not> allow_insecure_http
        then Inl (AttestorInternal (field @
               '': HTTPS required (set allow_insecure_http for the F7 mock-OIDC server or local IdPs)''))
        else Inr ())"

fun source_validate :: "JwksSource \<Rightarrow> bool \<Rightarrow> AttestorError + unit" where
  "source_validate (Discovery url) insecure = check_url url insecure ''Discovery issuer_url''"
| "source_validate (JwksUri url) insecure = check_url url insecure ''JwksUri url''"
| "source_validate (StaticFile path) insecure =
     (if path = [] then Inl (AttestorInternal ''JwksSource::StaticFile: path must not be empty'')
      else Inr ())"

fun source_tag :: "JwksSource \<Rightarrow> string" where
  "source_tag (Discovery _) = ''discovery''"
| "source_tag (JwksUri _) = ''jwks-uri''"
| "source_tag (StaticFile _) = ''static-file''"

fun is_static_file :: "JwksSource \<Rightarrow> bool" where
  "is_static_file (StaticFile _) = True"
| "is_static_file _ = False"

section \<open>Configuration\<close>

record OidcConfig =
  oc_source :: JwksSource
  oc_expected_issuer :: string
  oc_expected_audience :: string
  oc_allowed_algs :: "string list"
  oc_project_claims :: "string list"
  oc_cache_ttl_secs :: u64
  oc_max_staleness_secs :: "u64 option"
  oc_clock_skew_tolerance_secs :: u64
  oc_connect_timeout_secs :: u64
  oc_allow_insecure_http :: bool

definition redact_url :: "string \<Rightarrow> string" where
  "redact_url url =
     (case Option.bind (find_substr ''://'' url)
             (\<lambda>i. map_option (\<lambda>j. take (i + 3 + j) url) (find_substr ''/'' (drop (i + 3) url))) of
        Some scheme_and_host \<Rightarrow> scheme_and_host @ ''/<redacted-path>''
      | None \<Rightarrow> url)"

definition disallowed_alg :: "string \<Rightarrow> bool" where
  "disallowed_alg alg =
     (let upper = to_ascii_uppercase alg in
      upper = ''NONE'' \<or> upper = ''HS256'' \<or> upper = ''HS384'' \<or> upper = ''HS512'')"

text \<open>The loop over the allow-list: the first disallowed algorithm ends it.\<close>

fun check_algs :: "string list \<Rightarrow> AttestorError + unit" where
  "check_algs [] = Inr ()"
| "check_algs (alg # algs) =
     (if disallowed_alg alg
      then Inl (AttestorInternal (''OidcConfig: alg '' @ [CHR 0x22] @ alg @ [CHR 0x22] @
             '' is architecturally disallowed (HMAC requires shared-secret distribution that breaks the OIDC trust model; `none` is never accepted). Remove from allowed_algs.''))
      else check_algs algs)"

definition oidc_validate :: "OidcConfig \<Rightarrow> AttestorError + unit" where
  "oidc_validate c =
     (if oc_expected_issuer c = []
      then Inl (AttestorInternal ''OidcConfig: expected_issuer must not be empty'')
      else if \<not> oc_allow_insecure_http c \<and> \<not> starts_with ''https://'' (oc_expected_issuer c)
      then Inl (AttestorInternal (''OidcConfig: expected_issuer must be HTTPS unless allow_insecure_http is set (got: ''
             @ redact_url (oc_expected_issuer c) @ '' '' @ long_dash @
             '' pass --attestor-oidc-allow-insecure-http for the F7 mock-OIDC server or local IdPs)''))
      else if oc_expected_audience c = []
      then Inl (AttestorInternal ''OidcConfig: expected_audience must not be empty'')
      else if oc_allowed_algs c = []
      then Inl (AttestorInternal (''OidcConfig: allowed_algs must not be empty (default is RS256, RS384, RS512, ES256, ES384, EdDSA ''
             @ long_dash @ '' see spec '' @ section_sign @ ''2.1)''))
      else rbind (check_algs (oc_allowed_algs c)) (\<lambda>_.
        if oc_cache_ttl_secs c < 60
        then Inl (AttestorInternal (''OidcConfig: cache_ttl_secs must be at least 60 (got ''
               @ to_decimal (unat (oc_cache_ttl_secs c)) @ '')''))
        else if oc_clock_skew_tolerance_secs c > 86400
        then Inl (AttestorInternal (''OidcConfig: clock_skew_tolerance_secs='' @ to_decimal (unat (oc_clock_skew_tolerance_secs c))
               @ '' is unreasonably large (>1 day). Tighten to 60'' @ [CHR 0xE2, CHR 0x80, CHR 0x93] @
               ''300 unless you have a specific NTP situation''))
        else source_validate (oc_source c) (oc_allow_insecure_http c)))"

section \<open>What other packages provide\<close>

datatype Algorithm =
    HS256 | HS384 | HS512 | ES256 | ES384 | RS256 | RS384 | RS512 | PS256 | PS384 | PS512 | EdDSA

text \<open>The kinds of \<open>jsonwebtoken\<close> errors the code names; all the others are one constructor.\<close>

datatype ErrorKind =
    InvalidSignature
  | InvalidToken
  | InvalidIssuer
  | InvalidAudience
  | ExpiredSignature
  | ImmatureSignature
  | MissingRequiredClaim string
  | OtherErrorKind

record Header =
  hdr_alg :: Algorithm
  hdr_kid :: "string option"
  hdr_typ :: "string option"

text \<open>
  What the code sets on a \<open>Validation\<close>: the one algorithm it is made for, the claims added to the required
  ones, issuer, audience, leeway and the check of \<open>nbf\<close>; the rest keeps the defaults of \<open>Validation::new\<close>.
\<close>

record Validation_settings =
  vl_algorithm :: Algorithm
  vl_required :: "string list"
  vl_issuer :: string
  vl_audience :: string
  vl_leeway :: u64
  vl_validate_nbf :: bool

datatype Jwk = Jwk (decoding_key: bytes)

record DiscoveryDoc =
  dd_issuer :: string
  dd_jwks_uri :: string

text \<open>
  \<open>jx_decode\<close> takes the Unix time at which the token is decoded; \<open>jx_jwk_set\<close> parses a key set into its raw
  entries and \<open>jx_jwk_entry\<close> turns one into a key with its id; \<open>jx_discovery\<close> reads a discovery document;
  \<open>jx_from_unix\<close> makes a date of a number of seconds and \<open>jx_format\<close> prints it as RFC 3339. Errors are given by
  their display form.
\<close>

record jwt_ext =
  jx_core :: externals
  jx_decode_header :: "string \<Rightarrow> ErrorKind + Header"
  jx_decode :: "int \<Rightarrow> string \<Rightarrow> bytes \<Rightarrow> Validation_settings \<Rightarrow> ErrorKind + json"
  jx_jwk_set :: "string \<Rightarrow> string + json list"
  jx_jwk_entry :: "json \<Rightarrow> string + (string \<times> Jwk)"
  jx_discovery :: "string \<Rightarrow> string + DiscoveryDoc"
  jx_from_unix :: "int \<Rightarrow> string + int"
  jx_format :: "int \<Rightarrow> string + string"

record http_response =
  rs_status :: nat
  rs_text :: "string + string"

text \<open>
  The outside world during one fetch: whether the \<open>n\<close>-th HTTP client can be built, the answer to the \<open>n\<close>-th
  request, and the contents of files.
\<close>

record oidc_net =
  nt_client :: "nat \<Rightarrow> string + unit"
  nt_get :: "nat \<Rightarrow> string \<Rightarrow> string + http_response"
  nt_read_file :: "string \<Rightarrow> string + string"

definition is_success :: "nat \<Rightarrow> bool" where
  "is_success s = (200 \<le> s \<and> s < 300)"

section \<open>Errors\<close>

fun map_oidc_error :: "ErrorKind \<Rightarrow> AttestorError" where
  "map_oidc_error InvalidSignature = AttestorRejected ''signature verification failed''"
| "map_oidc_error InvalidToken = Malformed ''not a JWS compact serialization''"
| "map_oidc_error InvalidIssuer = AttestorRejected ''issuer mismatch''"
| "map_oidc_error InvalidAudience = AttestorRejected ''audience mismatch''"
| "map_oidc_error ExpiredSignature = AttestorRejected ''credential expired''"
| "map_oidc_error ImmatureSignature = AttestorRejected ''nbf in the future''"
| "map_oidc_error (MissingRequiredClaim claim) = Malformed (''payload: missing/invalid '' @ claim)"
| "map_oidc_error OtherErrorKind = Malformed ''token validation failed''"

section \<open>Fetching the keys\<close>

text \<open>Durations and instants are nanoseconds.\<close>

type_synonym instant = nat

definition from_secs :: "u64 \<Rightarrow> nat" where
  "from_secs s = unat s * 10 ^ 9"

definition as_secs :: "nat \<Rightarrow> nat" where
  "as_secs d = d div 10 ^ 9"

record CacheConfig =
  cc_cache_ttl :: nat
  cc_max_staleness :: "nat option"
  cc_connect_timeout :: nat

definition JWKS_PAYLOAD_MAX_BYTES :: nat where
  "JWKS_PAYLOAD_MAX_BYTES = 64 * 1024"

fun insert_entries :: "jwt_ext \<Rightarrow> json list \<Rightarrow> (string, Jwk) hash_map \<Rightarrow> AttestorError + (string, Jwk) hash_map" where
  "insert_entries x [] out = Inr out"
| "insert_entries x (raw # raws) out =
     rbind (map_err (\<lambda>err. TrustRootUnavailable (''JWKS parse: key entry rejected: '' @ err)) (jx_jwk_entry x raw))
       (\<lambda>(kid, jwk). insert_entries x raws (hm_insert kid jwk out))"

definition parse_jwks_body :: "jwt_ext \<Rightarrow> string \<Rightarrow> AttestorError + (string, Jwk) hash_map" where
  "parse_jwks_body x body =
     rbind (map_err (\<lambda>err. TrustRootUnavailable (''JWKS parse: '' @ err)) (jx_jwk_set x body))
       (\<lambda>raw_set. insert_entries x raw_set [])"

definition fetch_via_jwks_url :: "jwt_ext \<Rightarrow> oidc_net \<Rightarrow> nat \<Rightarrow> string \<Rightarrow> AttestorError + (string, Jwk) hash_map" where
  "fetch_via_jwks_url x net n url =
     rbind (map_err (\<lambda>err. TrustRootUnavailable (''JWKS fetch: failed to build HTTP client: '' @ err)) (nt_client net n)) (\<lambda>_.
     rbind (map_err (\<lambda>err. TrustRootUnavailable (''JWKS fetch: GET failed: '' @ err)) (nt_get net n url)) (\<lambda>resp.
     if \<not> is_success (rs_status resp)
     then Inl (TrustRootUnavailable (''JWKS fetch: GET returned HTTP '' @ to_decimal (rs_status resp)))
     else rbind (map_err (\<lambda>err. TrustRootUnavailable (''JWKS fetch: failed to read response body: '' @ err)) (rs_text resp)) (\<lambda>body.
     if length body > JWKS_PAYLOAD_MAX_BYTES
     then Inl (TrustRootUnavailable (''JWKS payload exceeds '' @ to_decimal JWKS_PAYLOAD_MAX_BYTES @ '' bytes cap (''
            @ to_decimal (length body) @ '' bytes); spec '' @ section_sign @ ''5.3''))
     else parse_jwks_body x body)))"

definition parse_static_file :: "jwt_ext \<Rightarrow> oidc_net \<Rightarrow> string \<Rightarrow> AttestorError + (string, Jwk) hash_map" where
  "parse_static_file x net path =
     rbind (map_err (\<lambda>err. TrustRootUnavailable (''Static-file JWKS: failed to read '' @ path @ '': '' @ err))
       (nt_read_file net path)) (\<lambda>body.
     if length body > JWKS_PAYLOAD_MAX_BYTES
     then Inl (TrustRootUnavailable (''Static-file JWKS: payload exceeds '' @ to_decimal JWKS_PAYLOAD_MAX_BYTES @ '' bytes cap (''
            @ to_decimal (length body) @ '' bytes); spec '' @ section_sign @ ''5.3''))
     else parse_jwks_body x body)"

definition fetch_via_discovery :: "jwt_ext \<Rightarrow> oidc_net \<Rightarrow> string \<Rightarrow> string \<Rightarrow> AttestorError + (string, Jwk) hash_map" where
  "fetch_via_discovery x net issuer expected_issuer =
     (let well_known = trim_end_matches (CHR ''/'') issuer @ ''/.well-known/openid-configuration'' in
      rbind (map_err (\<lambda>err. TrustRootUnavailable (''Discovery: failed to build HTTP client: '' @ err)) (nt_client net 0)) (\<lambda>_.
      rbind (map_err (\<lambda>err. TrustRootUnavailable (''Discovery: GET /.well-known/openid-configuration failed: '' @ err))
        (nt_get net 0 well_known)) (\<lambda>resp.
      if \<not> is_success (rs_status resp)
      then Inl (TrustRootUnavailable (''Discovery: GET /.well-known/openid-configuration returned HTTP ''
             @ to_decimal (rs_status resp)))
      else rbind (map_err (\<lambda>err. TrustRootUnavailable (''Discovery: response body is not a valid JSON discovery document: '' @ err))
        (rbind (rs_text resp) (jx_discovery x))) (\<lambda>doc.
      if expected_issuer \<noteq> [] \<and> dd_issuer doc \<noteq> expected_issuer
      then Inl (TrustRootUnavailable (''Discovery: discovery-doc `issuer` field does not exact-match operator-configured expected_issuer (per RFC 8414 ''
             @ section_sign @ ''3.3 / spec '' @ section_sign @
             ''6.3). Refusing to trust the JWKS this discovery doc points at.''))
      else fetch_via_jwks_url x net 1 (dd_jwks_uri doc)))))"

fun fetch_jwks :: "jwt_ext \<Rightarrow> oidc_net \<Rightarrow> JwksSource \<Rightarrow> string \<Rightarrow> AttestorError + (string, Jwk) hash_map" where
  "fetch_jwks x net (Discovery issuer) expected_issuer = fetch_via_discovery x net issuer expected_issuer"
| "fetch_jwks x net (JwksUri url) expected_issuer = fetch_via_jwks_url x net 0 url"
| "fetch_jwks x net (StaticFile path) expected_issuer = parse_static_file x net path"

section \<open>The key cache\<close>

text \<open>
  \<open>jc_refresh_dedup\<close> is the mutex: \<open>None\<close> when free, otherwise the number of the task whose guard holds it.
  The connect timeout is part of the configuration and has no effect but through the network's answers.
\<close>

record JwksCache =
  jc_source :: JwksSource
  jc_keys :: "(string, Jwk) hash_map"
  jc_last_refresh_at :: instant
  jc_refresh_dedup :: "nat option"
  jc_config :: CacheConfig

definition warm :: "jwt_ext \<Rightarrow> oidc_net \<Rightarrow> instant \<Rightarrow> JwksSource \<Rightarrow> string \<Rightarrow> u64 \<Rightarrow> u64 option \<Rightarrow> u64
    \<Rightarrow> AttestorError + JwksCache" where
  "warm x net now source expected_issuer cache_ttl_secs max_staleness_secs connect_timeout_secs =
     (let config = \<lparr>cc_cache_ttl = from_secs cache_ttl_secs,
                    cc_max_staleness = map_option from_secs max_staleness_secs,
                    cc_connect_timeout = from_secs connect_timeout_secs\<rparr> in
      rbind (fetch_jwks x net source expected_issuer) (\<lambda>initial.
      if initial = []
      then Inl (TrustRootUnavailable (''JWKS source ('' @ source_tag source @ '') returned zero keys; refusing to start''))
      else Inr \<lparr>jc_source = source, jc_keys = initial, jc_last_refresh_at = now, jc_refresh_dedup = None,
                jc_config = config\<rparr>))"

definition elapsed :: "JwksCache \<Rightarrow> instant \<Rightarrow> nat" where
  "elapsed c now = now - jc_last_refresh_at c"

definition stale_message :: "nat \<Rightarrow> nat \<Rightarrow> string" where
  "stale_message since max_staleness =
     ''JWKS stale: last refresh was '' @ to_decimal (as_secs since) @ ''s ago; max staleness window is ''
     @ to_decimal (as_secs max_staleness) @ ''s''"

text \<open>The freshness gate. An accepting answer says whether a background refresh is spawned.\<close>

definition assert_fresh :: "JwksCache \<Rightarrow> instant \<Rightarrow> AttestorError + bool" where
  "assert_fresh c now =
     (if is_static_file (jc_source c)
      then (case cc_max_staleness (jc_config c) of
              Some m \<Rightarrow>
                if elapsed c now > m
                then Inl (TrustRootUnavailable (stale_message (elapsed c now) m @ '' (static-file source '' @ long_dash @
                       '' restart the control plane after rotating the file)''))
                else Inr False
            | None \<Rightarrow> Inr False)
      else
        let since = elapsed c now; spawn = (since > cc_cache_ttl (jc_config c)) in
        case cc_max_staleness (jc_config c) of
          Some m \<Rightarrow> if since > m then Inl (TrustRootUnavailable (stale_message since m)) else Inr spawn
        | None \<Rightarrow> Inr spawn)"

text \<open>
  The parts of the two refreshing paths: the fetch (without the issuer check, which is made once when the
  cache is warmed), and the two writes after it.
\<close>

definition refetch :: "jwt_ext \<Rightarrow> oidc_net \<Rightarrow> JwksCache \<Rightarrow> AttestorError + (string, Jwk) hash_map" where
  "refetch x net c =
     rbind (fetch_jwks x net (jc_source c) []) (\<lambda>fresh.
     if fresh = []
     then Inl (TrustRootUnavailable (''JWKS refresh ('' @ source_tag (jc_source c) @ ''): source returned zero keys''))
     else Inr fresh)"

definition swap_keys :: "(string, Jwk) hash_map \<Rightarrow> JwksCache \<Rightarrow> JwksCache" where
  "swap_keys fresh c = c\<lparr>jc_keys := fresh\<rparr>"

definition stamp_refresh :: "instant \<Rightarrow> JwksCache \<Rightarrow> JwksCache" where
  "stamp_refresh now c = c\<lparr>jc_last_refresh_at := now\<rparr>"

text \<open>The blocking refresh when nobody else refreshes meanwhile, and the look-up of a key.\<close>

definition refresh_now :: "jwt_ext \<Rightarrow> oidc_net \<Rightarrow> instant \<Rightarrow> JwksCache \<Rightarrow> (AttestorError + unit) \<times> JwksCache" where
  "refresh_now x net now c =
     (case refetch x net c of
        Inl e \<Rightarrow> (Inl e, c)
      | Inr fresh \<Rightarrow> (Inr (), stamp_refresh now (swap_keys fresh c)))"

definition lookup :: "jwt_ext \<Rightarrow> oidc_net \<Rightarrow> instant \<Rightarrow> string \<Rightarrow> JwksCache \<Rightarrow> (AttestorError + Jwk option) \<times> JwksCache" where
  "lookup x net now kid c =
     (case hm_get (jc_keys c) kid of
        Some jwk \<Rightarrow> (Inr (Some jwk), c)
      | None \<Rightarrow>
          if is_static_file (jc_source c) then (Inr None, c)
          else case refresh_now x net now c of
                 (Inl e, c') \<Rightarrow> (Inl e, c')
               | (Inr _, c') \<Rightarrow> (Inr (hm_get (jc_keys c') kid), c'))"

text \<open>The background refresh: a failure or an empty answer keeps the cache.\<close>

definition background_refresh :: "jwt_ext \<Rightarrow> oidc_net \<Rightarrow> instant \<Rightarrow> JwksCache \<Rightarrow> JwksCache" where
  "background_refresh x net now c =
     (case jc_refresh_dedup c of
        Some _ \<Rightarrow> c
      | None \<Rightarrow> (case fetch_jwks x net (jc_source c) [] of
                   Inr fresh \<Rightarrow> if fresh \<noteq> [] then stamp_refresh now (swap_keys fresh c) else c
                 | Inl _ \<Rightarrow> c))"

section \<open>Claims\<close>

fun array_strings :: "json list \<Rightarrow> string list option" where
  "array_strings [] = Some []"
| "array_strings (V_String s # items) = map_option ((#) s) (array_strings items)"
| "array_strings (_ # items) = None"

fun render_claim_value :: "json \<Rightarrow> string option" where
  "render_claim_value (V_String s) = Some s"
| "render_claim_value (V_Array items) = map_option (join_with '','') (array_strings items)"
| "render_claim_value _ = None"

definition PROJECT_MAX_ENTRIES :: nat where
  "PROJECT_MAX_ENTRIES = 64"

definition PROJECT_MAX_BYTES :: nat where
  "PROJECT_MAX_BYTES = 4 * 1024"

fun project_loop :: "json \<Rightarrow> string list \<Rightarrow> (string, string) btree_map \<Rightarrow> nat \<Rightarrow> (string, string) btree_map" where
  "project_loop payload [] out bytes_used = out"
| "project_loop payload (claim_name # rest) out bytes_used =
     (if length out \<ge> PROJECT_MAX_ENTRIES then out
      else case value_get payload claim_name of
             None \<Rightarrow> project_loop payload rest out bytes_used
           | Some raw \<Rightarrow>
               (case render_claim_value raw of
                  None \<Rightarrow> project_loop payload rest out bytes_used
                | Some rendered \<Rightarrow>
                    let entry_bytes = length claim_name + length rendered in
                    if bytes_used + entry_bytes > PROJECT_MAX_BYTES then out
                    else project_loop payload rest (bt_insert claim_name rendered out) (bytes_used + entry_bytes)))"

definition project_allowlisted_claims :: "json \<Rightarrow> string list \<Rightarrow> (string, string) btree_map" where
  "project_allowlisted_claims payload allowlist = project_loop payload allowlist [] 0"

section \<open>The attestor\<close>

record OidcAttestor =
  oa_config :: OidcConfig
  oa_cache :: JwksCache

definition oidc_connect :: "jwt_ext \<Rightarrow> oidc_net \<Rightarrow> instant \<Rightarrow> OidcConfig \<Rightarrow> AttestorError + OidcAttestor" where
  "oidc_connect x net now config =
     rbind (oidc_validate config) (\<lambda>_.
     rbind (warm x net now (oc_source config) (oc_expected_issuer config) (oc_cache_ttl_secs config)
              (oc_max_staleness_secs config) (oc_connect_timeout_secs config)) (\<lambda>cache.
     Inr \<lparr>oa_config = config, oa_cache = cache\<rparr>))"

fun algorithm_name :: "Algorithm \<Rightarrow> string" where
  "algorithm_name HS256 = ''HS256''"
| "algorithm_name HS384 = ''HS384''"
| "algorithm_name HS512 = ''HS512''"
| "algorithm_name ES256 = ''ES256''"
| "algorithm_name ES384 = ''ES384''"
| "algorithm_name RS256 = ''RS256''"
| "algorithm_name RS384 = ''RS384''"
| "algorithm_name RS512 = ''RS512''"
| "algorithm_name PS256 = ''PS256''"
| "algorithm_name PS384 = ''PS384''"
| "algorithm_name PS512 = ''PS512''"
| "algorithm_name EdDSA = ''EdDSA''"

text \<open>What the checks before the cache leave to the rest of a verification.\<close>

record verify_request =
  vr_token :: string
  vr_header :: Header
  vr_kid :: string

definition typ_ok :: "string option \<Rightarrow> bool" where
  "typ_ok typ =
     (case typ of None \<Rightarrow> True
      | Some t \<Rightarrow> eq_ignore_ascii_case t ''JWT'' \<or> eq_ignore_ascii_case t ''JOSE'')"

definition check_header :: "jwt_ext \<Rightarrow> OidcConfig \<Rightarrow> bytes \<Rightarrow> AttestorError + verify_request" where
  "check_header x config credential =
     (if credential = []
      then Inl (AttestorRejected ''empty credential; OIDC Attestor requires an ID token'')
      else
        rbind (ok_or (from_utf8 credential) (Malformed ''not a JWS compact serialization'')) (\<lambda>token.
        rbind (map_err map_oidc_error (jx_decode_header x token)) (\<lambda>header.
        rbind (ok_or (hdr_kid header) (Malformed ''header: missing kid'')) (\<lambda>kid.
        if \<not> typ_ok (hdr_typ header) then Inl (Malformed ''header: unsupported typ'')
        else if \<not> list_ex (\<lambda>a. eq_ignore_ascii_case a (algorithm_name (hdr_alg header))) (oc_allowed_algs config)
        then Inl (Malformed ''header: unsupported alg'')
        else Inr \<lparr>vr_token = token, vr_header = header, vr_kid = kid\<rparr>))))"

fun core_error_to_string :: "CoreError \<Rightarrow> string" where
  "core_error_to_string (InvalidLength expected actual) =
     ''invalid length: expected '' @ to_decimal expected @ '' bytes, got '' @ to_decimal actual"
| "core_error_to_string (UnknownEnumValue context) = ''unknown enum value: '' @ context"
| "core_error_to_string (Validation m) = ''validation failed: '' @ m"
| "core_error_to_string (TimestampError m) = ''timestamp error: '' @ m"
| "core_error_to_string (VersionError m) = ''version error: '' @ m"
| "core_error_to_string (Internal m) = ''internal: '' @ m"

definition unix_secs_to_timestamp :: "jwt_ext \<Rightarrow> int \<Rightarrow> AttestorError + Timestamp" where
  "unix_secs_to_timestamp x exp_secs =
     rbind (map_err (\<lambda>err. AttestorInternal (''could not construct OffsetDateTime from JWT exp: '' @ err))
       (jx_from_unix x exp_secs)) (\<lambda>dt.
     rbind (map_err (\<lambda>err. AttestorInternal (''RFC 3339 format failed for JWT exp: '' @ err)) (jx_format x dt)) (\<lambda>w.
     map_err (\<lambda>err. AttestorInternal (''could not construct Timestamp from JWT exp: '' @ core_error_to_string err))
       (timestamp_new (jx_core x) w 0)))"

definition validation_for :: "OidcConfig \<Rightarrow> Algorithm \<Rightarrow> Validation_settings" where
  "validation_for config alg =
     \<lparr>vl_algorithm = alg, vl_required = [''iss'', ''aud''], vl_issuer = oc_expected_issuer config,
      vl_audience = oc_expected_audience config, vl_leeway = oc_clock_skew_tolerance_secs config,
      vl_validate_nbf = True\<rparr>"

definition check_claims :: "jwt_ext \<Rightarrow> OidcConfig \<Rightarrow> int \<Rightarrow> verify_request \<Rightarrow> Jwk \<Rightarrow> AttestorError + AttestedIdentity" where
  "check_claims x config now_secs rq jwk =
     rbind (map_err map_oidc_error
       (jx_decode x now_secs (vr_token rq) (decoding_key jwk) (validation_for config (hdr_alg (vr_header rq))))) (\<lambda>payload.
     rbind (ok_or (Option.bind (value_get payload ''iat'') as_i64) (Malformed ''payload: missing/invalid iat'')) (\<lambda>iat.
     if iat > saturating_add_i64 now_secs (wrap_i64 (uint (oc_clock_skew_tolerance_secs config)))
     then Inl (AttestorRejected ''iat in the future'')
     else
     rbind (ok_or (Option.bind (value_get payload ''iss'') as_str) (Malformed ''payload: missing iss'')) (\<lambda>iss.
     rbind (ok_or (Option.bind (Option.bind (value_get payload ''sub'') as_str) (\<lambda>s. if s \<noteq> [] then Some s else None))
       (Malformed ''payload: sub empty or not a string'')) (\<lambda>sub.
     rbind (ok_or (Option.bind (value_get payload ''exp'') as_i64) (Malformed ''payload: missing/invalid exp'')) (\<lambda>exp_secs.
     rbind (unix_secs_to_timestamp x exp_secs) (\<lambda>expires_at.
     Inr \<lparr>ai_external_identity = ''oidc:'' @ iss @ '':'' @ sub, ai_credential_expires_at = Some expires_at,
          ai_attributes = project_allowlisted_claims payload (oc_project_claims config)\<rparr>))))))"

text \<open>
  A whole verification without interference, with the Boolean that says whether it spawned a background
  refresh.
\<close>

definition oidc_verify :: "jwt_ext \<Rightarrow> oidc_net \<Rightarrow> instant \<Rightarrow> int \<Rightarrow> OidcAttestor \<Rightarrow> bytes
    \<Rightarrow> (AttestorError + AttestedIdentity) \<times> OidcAttestor \<times> bool" where
  "oidc_verify x net now now_secs a credential =
     (case check_header x (oa_config a) credential of
        Inl e \<Rightarrow> (Inl e, a, False)
      | Inr rq \<Rightarrow>
          (case assert_fresh (oa_cache a) now of
             Inl e \<Rightarrow> (Inl e, a, False)
           | Inr spawn \<Rightarrow>
               (case lookup x net now (vr_kid rq) (oa_cache a) of
                  (Inl e, c) \<Rightarrow> (Inl e, a\<lparr>oa_cache := c\<rparr>, spawn)
                | (Inr None, c) \<Rightarrow> (Inl (AttestorRejected ''kid not found in JWKS''), a\<lparr>oa_cache := c\<rparr>, spawn)
                | (Inr (Some jwk), c) \<Rightarrow>
                    (check_claims x (oa_config a) now_secs rq jwk, a\<lparr>oa_cache := c\<rparr>, spawn))))"

text \<open>The trait object the registry holds, as it answers at one moment.\<close>

definition oidc_attestor :: "jwt_ext \<Rightarrow> oidc_net \<Rightarrow> instant \<Rightarrow> int \<Rightarrow> OidcAttestor \<Rightarrow> Attestor" where
  "oidc_attestor x net now now_secs a =
     \<lparr>attestor_id = ''oidc'', attestor_verify = (\<lambda>context credential. fst (oidc_verify x net now now_secs a credential))\<rparr>"

end
