(* ===== verification/Spiffe.thy ===== *)
theory Spiffe
  imports Oidc
begin

text \<open>
  The SPIFFE attestor (\<open>crates/yutha-attestor-spiffe\<close>): configuration, the cache of trust bundles with its
  two sources, the claims read beside the ones the SPIFFE library checks, the projection of selectors, and
  the verification of a JWT-SVID. The library (\<open>spiffe\<close>), base64 and JSON decoding and the files and
  sockets are parameters. The live source of the workload interface is a value: its state at the moment of
  the call.
\<close>

section \<open>What other packages provide\<close>

datatype JwtBundle = JwtBundle (trust_domain: string) (jwt_authorities: bytes)

record StaticBundleFile =
  sb_trust_domain :: string
  sb_keys :: "json list"

record JwtSource =
  js_is_healthy :: bool
  js_bundle_for_trust_domain :: "string \<Rightarrow> string + JwtBundle option"

record JwtSvid =
  sv_spiffe_id :: string
  sv_expiry :: int

datatype JwtSvidError =
    InvalidJwtFormat
  | InvalidBase64
  | InvalidJson
  | MissingKeyId
  | InvalidTyp
  | UnsupportedAlgorithm
  | BackendUnsupportedAlgorithm
  | InvalidSubject
  | InvalidAuthorityJwk
  | InvalidExpiration
  | SvidInvalidAudience
  | BundleNotFound
  | AuthorityNotFound
  | SvidInvalidToken ErrorKind
  | BundleSourceError string
  | JwtVerifyNotEnabled
  | OtherSvidError

text \<open>
  \<open>sp_parse_and_validate\<close> is the library's check of a token at a Unix time, with the look-up of bundles it is
  given and the audiences it must find; \<open>sp_read\<close> reads a file, \<open>sp_build_source\<close> connects to a socket within a
  time limit.
\<close>

record spiffe_ext =
  sp_core :: externals
  sp_parse_and_validate :: "int \<Rightarrow> string \<Rightarrow> (string \<Rightarrow> string + JwtBundle option) \<Rightarrow> string list \<Rightarrow> JwtSvidError + JwtSvid"
  sp_trust_domain :: "string \<Rightarrow> string + string"
  sp_from_jwt_authorities :: "string \<Rightarrow> bytes \<Rightarrow> string + JwtBundle"
  sp_base64url :: "string \<Rightarrow> bytes option"
  sp_json :: "bytes \<Rightarrow> json option"
  sp_json_to_vec :: "json \<Rightarrow> string + bytes"
  sp_static_bundle :: "bytes \<Rightarrow> string + StaticBundleFile"
  sp_format :: "int \<Rightarrow> string + string"
  sp_read :: "string \<Rightarrow> string + bytes"
  sp_build_source :: "string \<Rightarrow> nat \<Rightarrow> string + JwtSource"

section \<open>Errors\<close>

fun map_jwt_token_error :: "ErrorKind \<Rightarrow> AttestorError" where
  "map_jwt_token_error ExpiredSignature = AttestorRejected ''credential expired''"
| "map_jwt_token_error InvalidAudience = AttestorRejected ''audience mismatch''"
| "map_jwt_token_error ImmatureSignature = AttestorRejected ''nbf in the future''"
| "map_jwt_token_error InvalidIssuer = AttestorRejected ''issuer mismatch''"
| "map_jwt_token_error InvalidSignature = AttestorRejected ''signature verification failed''"
| "map_jwt_token_error _ = AttestorRejected ''signature verification failed''"

fun map_spiffe_error :: "JwtSvidError \<Rightarrow> AttestorError" where
  "map_spiffe_error InvalidJwtFormat = Malformed ''not a JWS compact serialization''"
| "map_spiffe_error InvalidBase64 = Malformed ''JWT header/claims base64url decode failed''"
| "map_spiffe_error InvalidJson = Malformed ''payload not JSON''"
| "map_spiffe_error MissingKeyId = Malformed ''header: missing kid''"
| "map_spiffe_error InvalidTyp = Malformed ''header: unsupported typ''"
| "map_spiffe_error UnsupportedAlgorithm = Malformed ''header: unsupported alg''"
| "map_spiffe_error BackendUnsupportedAlgorithm = Malformed ''header: unsupported alg''"
| "map_spiffe_error InvalidSubject = Malformed ''sub is not a SPIFFE ID''"
| "map_spiffe_error InvalidAuthorityJwk = Malformed ''authority JWK in the trust bundle could not be parsed''"
| "map_spiffe_error InvalidExpiration = AttestorRejected ''credential expired''"
| "map_spiffe_error SvidInvalidAudience = AttestorRejected ''audience mismatch''"
| "map_spiffe_error BundleNotFound = AttestorRejected ''trust domain not in bundle''"
| "map_spiffe_error AuthorityNotFound = AttestorRejected ''kid not found in trust bundle''"
| "map_spiffe_error (SvidInvalidToken inner) = map_jwt_token_error inner"
| "map_spiffe_error (BundleSourceError inner) = TrustRootUnavailable (''bundle source error: '' @ inner)"
| "map_spiffe_error JwtVerifyNotEnabled =
     AttestorInternal (''offline JWT verification backend not enabled in this build '' @ long_dash @
       '' yutha-attestor-spiffe Cargo.toml should enable the `jwt-verify-rust-crypto` feature of the spiffe crate'')"
| "map_spiffe_error OtherSvidError =
     AttestorInternal ''unexpected SPIFFE SDK error variant: non-exhaustive-fallback''"

section \<open>Configuration\<close>

datatype TrustBundleSource =
    BundleFile (bundle_path: string)
  | WorkloadApi (workload_socket: string)

fun bundle_source_tag :: "TrustBundleSource \<Rightarrow> string" where
  "bundle_source_tag (BundleFile _) = ''static-file''"
| "bundle_source_tag (WorkloadApi _) = ''workload-api''"

record SpiffeConfig =
  sc_source :: TrustBundleSource
  sc_expected_audience :: string
  sc_max_staleness :: "nat option"
  sc_clock_skew_tolerance_secs :: u64
  sc_connect_timeout_secs :: u64

definition spiffe_validate :: "SpiffeConfig \<Rightarrow> AttestorError + unit" where
  "spiffe_validate c =
     (if sc_expected_audience c = []
      then Inl (AttestorInternal ''SpiffeConfig.expected_audience must be non-empty; pass a swarm-specific value via --attestor-spiffe-audience'')
      else if sc_connect_timeout_secs c = 0
      then Inl (AttestorInternal ''SpiffeConfig.connect_timeout_secs must be > 0'')
      else Inr ())"

section \<open>The bundle cache\<close>

datatype BundleCache =
    StaticCache (sca_bundle: JwtBundle) (sca_loaded_at: instant) (sca_tag: string)
  | WorkloadCache (wca_source: JwtSource) (wca_tag: string)

definition workload_api_endpoint_str :: "string \<Rightarrow> string" where
  "workload_api_endpoint_str s =
     (if starts_with ''unix:'' s \<or> starts_with ''tcp:'' s then s else ''unix:'' @ s)"

definition load_static_bundle :: "spiffe_ext \<Rightarrow> string \<Rightarrow> AttestorError + JwtBundle" where
  "load_static_bundle x path =
     rbind (map_err (\<lambda>e. TrustRootUnavailable (''trust bundle unavailable (static-file): read failed: '' @ e)) (sp_read x path)) (\<lambda>bs.
     rbind (map_err (\<lambda>e. Malformed (''static bundle file is not valid JSON: '' @ e)) (sp_static_bundle x bs)) (\<lambda>parsed.
     rbind (map_err (\<lambda>e. Malformed (''static bundle trust_domain is not a valid SPIFFE trust domain: '' @ e))
       (sp_trust_domain x (sb_trust_domain parsed))) (\<lambda>td.
     if sb_keys parsed = [] then Inl (Malformed ''static bundle keys array is empty'')
     else
     rbind (map_err (\<lambda>e. AttestorInternal (''static bundle keys re-serialisation failed: '' @ e))
       (sp_json_to_vec x (V_Object [(''keys'', V_Array (sb_keys parsed))]))) (\<lambda>jwks.
     map_err (\<lambda>e. Malformed (''static bundle keys did not parse as a JWKS: '' @ e)) (sp_from_jwt_authorities x td jwks)))))"

definition bundle_cache_connect :: "spiffe_ext \<Rightarrow> instant \<Rightarrow> SpiffeConfig \<Rightarrow> AttestorError + BundleCache" where
  "bundle_cache_connect x now config =
     (case sc_source config of
        BundleFile path \<Rightarrow>
          rbind (load_static_bundle x path) (\<lambda>bundle. Inr (StaticCache bundle now (bundle_source_tag (sc_source config))))
      | WorkloadApi socket \<Rightarrow>
          rbind (map_err (\<lambda>e. TrustRootUnavailable (''trust bundle unavailable (workload-api): initial sync failed: '' @ e))
            (sp_build_source x (workload_api_endpoint_str socket) (from_secs (sc_connect_timeout_secs config))))
            (\<lambda>source. Inr (WorkloadCache source (bundle_source_tag (sc_source config)))))"

definition bundle_assert_fresh :: "BundleCache \<Rightarrow> instant \<Rightarrow> nat option \<Rightarrow> AttestorError + unit" where
  "bundle_assert_fresh cache now max_staleness =
     (case cache of
        StaticCache bundle loaded_at tag \<Rightarrow>
          (case max_staleness of
             Some window \<Rightarrow>
               if now - loaded_at > window
               then Inl (TrustRootUnavailable (''trust bundle stale ('' @ tag @ ''): last refresh was ''
                      @ to_decimal (as_secs (now - loaded_at)) @ ''s ago; max staleness window is ''
                      @ to_decimal (as_secs window) @ ''s''))
               else Inr ()
           | None \<Rightarrow> Inr ())
      | WorkloadCache source tag \<Rightarrow>
          if \<not> js_is_healthy source
          then Inl (TrustRootUnavailable (''trust bundle stale ('' @ tag @ ''): JwtSource reports unhealthy '' @ long_dash @
                 '' SPIRE agent unreachable or no usable authorities''))
          else Inr ())"

definition bundle_lookup :: "BundleCache \<Rightarrow> instant \<Rightarrow> string \<Rightarrow> nat option \<Rightarrow> AttestorError + JwtBundle" where
  "bundle_lookup cache now td max_staleness =
     rbind (bundle_assert_fresh cache now max_staleness) (\<lambda>_.
     case cache of
       StaticCache bundle loaded_at tag \<Rightarrow>
         if trust_domain bundle = td then Inr bundle
         else Inl (AttestorRejected ''trust domain not in bundle'')
     | WorkloadCache source tag \<Rightarrow>
         rbind (map_err (\<lambda>e. TrustRootUnavailable (''trust bundle unavailable ('' @ tag @ ''): bundle lookup failed: '' @ e))
           (js_bundle_for_trust_domain source td))
           (\<lambda>maybe. ok_or maybe (AttestorRejected ''trust domain not in bundle'')))"

text \<open>The look-up the library is given; its errors in display form.\<close>

definition bundle_for_trust_domain :: "BundleCache \<Rightarrow> string \<Rightarrow> string + JwtBundle option" where
  "bundle_for_trust_domain cache td =
     (case cache of
        StaticCache bundle loaded_at tag \<Rightarrow> Inr (if trust_domain bundle = td then Some bundle else None)
      | WorkloadCache source tag \<Rightarrow>
          map_err (\<lambda>e. ''workload-api bundle lookup failed: '' @ e) (js_bundle_for_trust_domain source td))"

section \<open>Claims the library does not surface\<close>

record ExtraClaims =
  ec_iat :: "int option"
  ec_nbf :: "int option"
  ec_selectors :: "(string, string) btree_map option"

text \<open>A cast of a double to \<open>i64\<close> truncates towards zero and saturates; not-a-number becomes zero.\<close>

fun f64_as_i64 :: "f64 \<Rightarrow> int" where
  "f64_as_i64 F_NaN = 0"
| "f64_as_i64 F_NegInf = - (2 ^ 63)"
| "f64_as_i64 F_PosInf = 2 ^ 63 - 1"
| "f64_as_i64 (F_Fin k) = max (- (2 ^ 63)) (min (2 ^ 63 - 1) (sgn k * (\<bar>k\<bar> div 2 ^ 1074)))"

fun as_f64 :: "json \<Rightarrow> f64 option" where
  "as_f64 (V_Number (PosInt n)) = Some (round_f64 (unat n) 1)"
| "as_f64 (V_Number (NegInt i)) = Some (f64_neg (round_f64 (nat (- i)) 1))"
| "as_f64 (V_Number (JFloat f)) = Some f"
| "as_f64 _ = None"

definition value_as_unix_seconds :: "json \<Rightarrow> int option" where
  "value_as_unix_seconds v =
     (case as_i64 v of Some i \<Rightarrow> Some i | None \<Rightarrow> map_option f64_as_i64 (as_f64 v))"

fun string_entries :: "(string \<times> json) list \<Rightarrow> (string, string) btree_map \<Rightarrow> (string, string) btree_map option" where
  "string_entries [] out = Some out"
| "string_entries ((k, v) # m) out = Option.bind (as_str v) (\<lambda>s. string_entries m (bt_insert k s out))"

fun extract_string_map :: "json \<Rightarrow> (string, string) btree_map option" where
  "extract_string_map (V_Object obj) = string_entries obj []"
| "extract_string_map _ = None"

definition nth_segment :: "nat \<Rightarrow> string \<Rightarrow> string option" where
  "nth_segment n token =
     (let parts = split_on (\<lambda>c. c = CHR ''.'') token in if n < length parts then Some (parts ! n) else None)"

definition decode_extra_claims :: "spiffe_ext \<Rightarrow> string \<Rightarrow> AttestorError + ExtraClaims" where
  "decode_extra_claims x token =
     rbind (ok_or (nth_segment 1 token) (Malformed ''token does not contain a payload segment'')) (\<lambda>payload_segment.
     rbind (ok_or (sp_base64url x payload_segment) (Malformed ''JWT payload base64url decode failed'')) (\<lambda>bs.
     rbind (ok_or (sp_json x bs) (Malformed ''payload not JSON'')) (\<lambda>value.
     case value of
       V_Object m \<Rightarrow>
         Inr \<lparr>ec_iat = Option.bind (bt_get m ''iat'') value_as_unix_seconds,
              ec_nbf = Option.bind (bt_get m ''nbf'') value_as_unix_seconds,
              ec_selectors = Option.bind (bt_get m ''selectors'') extract_string_map\<rparr>
     | _ \<Rightarrow> Inl (Malformed ''payload is JSON but not an object''))))"

section \<open>Selectors\<close>

definition MAX_SELECTOR_ENTRIES :: nat where
  "MAX_SELECTOR_ENTRIES = 64"

definition MAX_SELECTOR_BYTES :: nat where
  "MAX_SELECTOR_BYTES = 4 * 1024"

text \<open>
  The saturating additions of the code never saturate at or below the cap, where the comparison decides.
\<close>

fun selector_loop :: "(string \<times> string) list \<Rightarrow> (string, string) btree_map \<Rightarrow> nat \<Rightarrow> (string, string) btree_map" where
  "selector_loop [] out total_bytes = out"
| "selector_loop ((k, v) # rest) out total_bytes =
     (if length out \<ge> MAX_SELECTOR_ENTRIES then out
      else
        let entry_bytes = length k + length v in
        if total_bytes + entry_bytes > MAX_SELECTOR_BYTES then out
        else selector_loop rest (bt_insert k v out) (total_bytes + entry_bytes))"

definition project_selectors :: "(string, string) btree_map \<Rightarrow> (string, string) btree_map" where
  "project_selectors selectors = selector_loop selectors [] 0"

section \<open>The attestor\<close>

record SpiffeAttestor =
  sa_expected_audience :: string
  sa_clock_skew_tolerance :: nat
  sa_max_staleness :: "nat option"
  sa_cache :: BundleCache

definition spiffe_connect :: "spiffe_ext \<Rightarrow> instant \<Rightarrow> SpiffeConfig \<Rightarrow> AttestorError + SpiffeAttestor" where
  "spiffe_connect x now config =
     rbind (spiffe_validate config) (\<lambda>_.
     rbind (bundle_cache_connect x now config) (\<lambda>cache.
     Inr \<lparr>sa_expected_audience = sc_expected_audience config,
          sa_clock_skew_tolerance = from_secs (sc_clock_skew_tolerance_secs config),
          sa_max_staleness = sc_max_staleness config, sa_cache = cache\<rparr>))"

definition offset_datetime_to_timestamp :: "spiffe_ext \<Rightarrow> int \<Rightarrow> AttestorError + Timestamp" where
  "offset_datetime_to_timestamp x dt =
     rbind (map_err (\<lambda>e. AttestorInternal (''could not format JWT exp as RFC 3339: '' @ e)) (sp_format x dt)) (\<lambda>w.
     map_err (\<lambda>e. AttestorInternal (''could not construct Timestamp from JWT exp: '' @ core_error_to_string e))
       (timestamp_new (sp_core x) w 0))"

definition build_attested_identity :: "spiffe_ext \<Rightarrow> JwtSvid \<Rightarrow> (string, string) btree_map option \<Rightarrow> AttestorError + AttestedIdentity" where
  "build_attested_identity x svid selectors =
     rbind (offset_datetime_to_timestamp x (sv_expiry svid)) (\<lambda>expires_at.
     Inr \<lparr>ai_external_identity = sv_spiffe_id svid, ai_credential_expires_at = Some expires_at,
          ai_attributes = (case selectors of Some s \<Rightarrow> project_selectors s | None \<Rightarrow> [])\<rparr>)"

definition in_the_future :: "int \<Rightarrow> int \<Rightarrow> int option \<Rightarrow> bool" where
  "in_the_future now_unix tolerance claim =
     (case claim of Some t \<Rightarrow> t > saturating_add_i64 now_unix tolerance | None \<Rightarrow> False)"

definition spiffe_verify :: "spiffe_ext \<Rightarrow> instant \<Rightarrow> int \<Rightarrow> SpiffeAttestor \<Rightarrow> bytes \<Rightarrow> AttestorError + AttestedIdentity" where
  "spiffe_verify x now now_unix a credential =
     (if credential = []
      then Inl (AttestorRejected ''empty credential; SPIFFE Attestor requires a JWT-SVID'')
      else
        rbind (ok_or (from_utf8 credential) (Malformed ''credential is not valid UTF-8'')) (\<lambda>token.
        rbind (bundle_assert_fresh (sa_cache a) now (sa_max_staleness a)) (\<lambda>_.
        rbind (map_err map_spiffe_error
          (sp_parse_and_validate x now_unix token (bundle_for_trust_domain (sa_cache a)) [sa_expected_audience a])) (\<lambda>svid.
        rbind (decode_extra_claims x token) (\<lambda>extra.
        let tolerance = min (int (as_secs (sa_clock_skew_tolerance a))) (2 ^ 63 - 1) in
        if in_the_future now_unix tolerance (ec_nbf extra) then Inl (AttestorRejected ''nbf in the future'')
        else if in_the_future now_unix tolerance (ec_iat extra) then Inl (AttestorRejected ''iat in the future'')
        else build_attested_identity x svid (ec_selectors extra))))))"

definition spiffe_attestor :: "spiffe_ext \<Rightarrow> instant \<Rightarrow> int \<Rightarrow> SpiffeAttestor \<Rightarrow> Attestor" where
  "spiffe_attestor x now now_unix a =
     \<lparr>attestor_id = ''spiffe'', attestor_verify = (\<lambda>context credential. spiffe_verify x now now_unix a credential)\<rparr>"

end
