(* ===== verification/Attestor_Startup.thy ===== *)
theory Attestor_Startup
  imports Spiffe
begin

text \<open>
  How the server binary chooses and builds its attestor from the command line
  (\<open>AttestorArg::build\<close> in \<open>crates/yutha-control-plane/src/main.rs\<close>). An error is the text \<open>anyhow\<close> shows. The
  trait object that results is a value of \<open>built_attestor\<close>, and \<open>built_object\<close> the object the registry calls.
\<close>

section \<open>Options\<close>

datatype AttestorArg = NativeArg | SpiffeArg | OidcArg

record Attestor_cli =
  cli_attestor :: AttestorArg
  cli_attestor_spiffe_socket :: "string option"
  cli_attestor_spiffe_bundle_file :: "string option"
  cli_attestor_spiffe_audience :: "string option"
  cli_attestor_spiffe_max_staleness_secs :: "u64 option"
  cli_attestor_spiffe_clock_skew_secs :: u64
  cli_attestor_spiffe_connect_timeout_secs :: u64
  cli_attestor_oidc_issuer :: "string option"
  cli_attestor_oidc_audience :: "string option"
  cli_attestor_oidc_jwks_uri :: "string option"
  cli_attestor_oidc_jwks_file :: "string option"
  cli_attestor_oidc_project_claims :: "string list"
  cli_attestor_oidc_allowed_algs :: "string list"
  cli_attestor_oidc_cache_ttl_secs :: u64
  cli_attestor_oidc_max_staleness_secs :: "u64 option"
  cli_attestor_oidc_clock_skew_secs :: u64
  cli_attestor_oidc_connect_timeout_secs :: u64
  cli_attestor_oidc_allow_insecure_http :: bool

definition default_oidc_allowed_algs :: "string list" where
  "default_oidc_allowed_algs = [''RS256'', ''RS384'', ''RS512'', ''ES256'', ''ES384'', ''EdDSA'']"

text \<open>The values the flags have when none is given.\<close>

definition cli_defaults :: Attestor_cli where
  "cli_defaults =
     \<lparr>cli_attestor = NativeArg, cli_attestor_spiffe_socket = None, cli_attestor_spiffe_bundle_file = None,
      cli_attestor_spiffe_audience = None, cli_attestor_spiffe_max_staleness_secs = None,
      cli_attestor_spiffe_clock_skew_secs = 60, cli_attestor_spiffe_connect_timeout_secs = 10,
      cli_attestor_oidc_issuer = None, cli_attestor_oidc_audience = None, cli_attestor_oidc_jwks_uri = None,
      cli_attestor_oidc_jwks_file = None, cli_attestor_oidc_project_claims = [],
      cli_attestor_oidc_allowed_algs = default_oidc_allowed_algs, cli_attestor_oidc_cache_ttl_secs = 3600,
      cli_attestor_oidc_max_staleness_secs = None, cli_attestor_oidc_clock_skew_secs = 60,
      cli_attestor_oidc_connect_timeout_secs = 10, cli_attestor_oidc_allow_insecure_http = False\<rparr>"

record SpiffeCliOpts =
  so_socket :: "string option"
  so_bundle_file :: "string option"
  so_audience :: "string option"
  so_max_staleness_secs :: "u64 option"
  so_clock_skew_secs :: u64
  so_connect_timeout_secs :: u64

definition spiffe_opts_from_cli :: "Attestor_cli \<Rightarrow> SpiffeCliOpts" where
  "spiffe_opts_from_cli cli =
     \<lparr>so_socket = cli_attestor_spiffe_socket cli, so_bundle_file = cli_attestor_spiffe_bundle_file cli,
      so_audience = cli_attestor_spiffe_audience cli, so_max_staleness_secs = cli_attestor_spiffe_max_staleness_secs cli,
      so_clock_skew_secs = cli_attestor_spiffe_clock_skew_secs cli,
      so_connect_timeout_secs = cli_attestor_spiffe_connect_timeout_secs cli\<rparr>"

record OidcCliOpts =
  oo_issuer :: "string option"
  oo_audience :: "string option"
  oo_jwks_uri :: "string option"
  oo_jwks_file :: "string option"
  oo_project_claims :: "string list"
  oo_allowed_algs :: "string list"
  oo_cache_ttl_secs :: u64
  oo_max_staleness_secs :: "u64 option"
  oo_clock_skew_secs :: u64
  oo_connect_timeout_secs :: u64
  oo_allow_insecure_http :: bool

definition oidc_opts_from_cli :: "Attestor_cli \<Rightarrow> OidcCliOpts" where
  "oidc_opts_from_cli cli =
     \<lparr>oo_issuer = cli_attestor_oidc_issuer cli, oo_audience = cli_attestor_oidc_audience cli,
      oo_jwks_uri = cli_attestor_oidc_jwks_uri cli, oo_jwks_file = cli_attestor_oidc_jwks_file cli,
      oo_project_claims = cli_attestor_oidc_project_claims cli, oo_allowed_algs = cli_attestor_oidc_allowed_algs cli,
      oo_cache_ttl_secs = cli_attestor_oidc_cache_ttl_secs cli, oo_max_staleness_secs = cli_attestor_oidc_max_staleness_secs cli,
      oo_clock_skew_secs = cli_attestor_oidc_clock_skew_secs cli,
      oo_connect_timeout_secs = cli_attestor_oidc_connect_timeout_secs cli,
      oo_allow_insecure_http = cli_attestor_oidc_allow_insecure_http cli\<rparr>"

definition non_empty :: "string option \<Rightarrow> string option" where
  "non_empty s = Option.bind s (\<lambda>t. if t \<noteq> [] then Some t else None)"

section \<open>Building\<close>

definition build_spiffe_attestor :: "spiffe_ext \<Rightarrow> instant \<Rightarrow> SpiffeCliOpts \<Rightarrow> string + SpiffeAttestor" where
  "build_spiffe_attestor x now opts =
     rbind (ok_or (non_empty (so_audience opts))
       (''--attestor spiffe requires --attestor-spiffe-audience (a swarm-specific value; see /spec/identity-keys/attestor-spiffe.md ''
        @ section_sign @ ''6.1)'')) (\<lambda>audience.
     rbind (case (so_socket opts, so_bundle_file opts) of
              (Some socket, None) \<Rightarrow> Inr (WorkloadApi socket)
            | (None, Some path) \<Rightarrow> Inr (BundleFile path)
            | (None, None) \<Rightarrow> Inl (''--attestor spiffe requires EXACTLY ONE of --attestor-spiffe-socket (SPIRE Workload API) or --attestor-spiffe-bundle-file (static JWKS); both are unset. See /spec/identity-keys/attestor-spiffe.md ''
                @ section_sign @ ''4.'')
            | (Some _, Some _) \<Rightarrow> Inl (''--attestor spiffe requires EXACTLY ONE of --attestor-spiffe-socket and --attestor-spiffe-bundle-file; both are set. See /spec/identity-keys/attestor-spiffe.md ''
                @ section_sign @ ''4.3.'')) (\<lambda>source.
     map_err (\<lambda>e. ''SPIFFE Attestor construction failed: '' @ attestor_error_to_string e
         @ ''. See /spec/identity-keys/attestor-spiffe.md and docs/operator/spiffe-attestor.md for troubleshooting.'')
       (spiffe_connect x now
          \<lparr>sc_source = source, sc_expected_audience = audience,
           sc_max_staleness = map_option from_secs (so_max_staleness_secs opts),
           sc_clock_skew_tolerance_secs = so_clock_skew_secs opts, sc_connect_timeout_secs = so_connect_timeout_secs opts\<rparr>)))"

definition build_oidc_attestor :: "jwt_ext \<Rightarrow> oidc_net \<Rightarrow> instant \<Rightarrow> OidcCliOpts \<Rightarrow> string + OidcAttestor" where
  "build_oidc_attestor x net now opts =
     rbind (ok_or (non_empty (oo_issuer opts))
       (''--attestor oidc requires --attestor-oidc-issuer (the IdP's issuer URL; see /spec/identity-keys/attestor-oidc.md ''
        @ section_sign @ ''6.1)'')) (\<lambda>issuer.
     rbind (ok_or (non_empty (oo_audience opts))
       (''--attestor oidc requires --attestor-oidc-audience (a swarm-specific value; see /spec/identity-keys/attestor-oidc.md ''
        @ section_sign @ ''6.1)'')) (\<lambda>audience.
     rbind (case (oo_jwks_uri opts, oo_jwks_file opts) of
              (None, None) \<Rightarrow> Inr (Discovery issuer)
            | (Some url, None) \<Rightarrow> Inr (JwksUri url)
            | (None, Some path) \<Rightarrow> Inr (StaticFile path)
            | (Some _, Some _) \<Rightarrow> Inl (''--attestor oidc requires AT MOST ONE of --attestor-oidc-jwks-uri or --attestor-oidc-jwks-file; both are set. See /spec/identity-keys/attestor-oidc.md ''
                @ section_sign @ ''4.4.'')) (\<lambda>source.
     map_err (\<lambda>e. ''OIDC Attestor construction failed: '' @ attestor_error_to_string e
         @ ''. See /spec/identity-keys/attestor-oidc.md and docs/operator/oidc-attestor.md for troubleshooting.'')
       (oidc_connect x net now
          \<lparr>oc_source = source, oc_expected_issuer = issuer, oc_expected_audience = audience,
           oc_allowed_algs = oo_allowed_algs opts, oc_project_claims = oo_project_claims opts,
           oc_cache_ttl_secs = oo_cache_ttl_secs opts, oc_max_staleness_secs = oo_max_staleness_secs opts,
           oc_clock_skew_tolerance_secs = oo_clock_skew_secs opts, oc_connect_timeout_secs = oo_connect_timeout_secs opts,
           oc_allow_insecure_http = oo_allow_insecure_http opts\<rparr>))))"

datatype built_attestor =
    BuiltNative
  | BuiltSpiffe SpiffeAttestor
  | BuiltOidc OidcAttestor

fun attestor_build :: "spiffe_ext \<Rightarrow> jwt_ext \<Rightarrow> oidc_net \<Rightarrow> instant \<Rightarrow> AttestorArg \<Rightarrow> SpiffeCliOpts \<Rightarrow> OidcCliOpts
    \<Rightarrow> string + built_attestor" where
  "attestor_build sx jx net now NativeArg spiffe oidc = Inr BuiltNative"
| "attestor_build sx jx net now SpiffeArg spiffe oidc =
     rbind (build_spiffe_attestor sx now spiffe) (\<lambda>a. Inr (BuiltSpiffe a))"
| "attestor_build sx jx net now OidcArg spiffe oidc =
     rbind (build_oidc_attestor jx net now oidc) (\<lambda>a. Inr (BuiltOidc a))"

text \<open>The attestor object at one moment.\<close>

fun built_object :: "spiffe_ext \<Rightarrow> jwt_ext \<Rightarrow> oidc_net \<Rightarrow> instant \<Rightarrow> int \<Rightarrow> built_attestor \<Rightarrow> Attestor" where
  "built_object sx jx net now now_secs BuiltNative = native_attestor"
| "built_object sx jx net now now_secs (BuiltSpiffe a) = spiffe_attestor sx now now_secs a"
| "built_object sx jx net now now_secs (BuiltOidc a) = oidc_attestor jx net now now_secs a"

end
