(* ===== verification/Oidc_Runs.thy ===== *)
theory Oidc_Runs
  imports Oidc
begin

text \<open>
  Concurrent use of one OIDC attestor: any number of verifications and background refreshes, each a task
  that stops at every point where the code awaits a lock or the network
  (\<open>crates/yutha-attestor-oidc/src/jwks_cache.rs\<close>, \<open>attestor.rs\<close>), interleaved in any order with the
  passing of time. Every answer of the outside world may be a different one. The mutex is the field
  \<open>jc_refresh_dedup\<close> of the cache; which waiting task gets it next is not fixed.
\<close>

section \<open>Tasks\<close>

text \<open>
  \<open>Call\<close> to \<open>Answered\<close> are the stages of a verification, \<open>Spawned\<close> and \<open>Finished\<close> the ends of a background
  refresh; the three stages between, in which a fetch is made and its result written, belong to a
  verification when they carry its request and to a background refresh otherwise.
\<close>

datatype oidc_task =
    Call bytes
  | Looking verify_request
  | Missed verify_request
  | Waiting verify_request instant
  | Guarded verify_request instant
  | Fetching "verify_request option"
  | Fetched "verify_request option" "(string, Jwk) hash_map"
  | Swapped "verify_request option"
  | Retrying verify_request
  | Answered "AttestorError + AttestedIdentity"
  | Spawned
  | Finished

definition update_cache :: "(JwksCache \<Rightarrow> JwksCache) \<Rightarrow> OidcAttestor \<Rightarrow> OidcAttestor" where
  "update_cache f a = a\<lparr>oa_cache := f (oa_cache a)\<rparr>"

definition lock_by :: "nat \<Rightarrow> JwksCache \<Rightarrow> JwksCache" where
  "lock_by i c = c\<lparr>jc_refresh_dedup := Some i\<rparr>"

definition unlock :: "JwksCache \<Rightarrow> JwksCache" where
  "unlock c = c\<lparr>jc_refresh_dedup := None\<rparr>"

text \<open>The end of a verification whose look-up gave \<open>found\<close>.\<close>

definition conclude :: "jwt_ext \<Rightarrow> OidcConfig \<Rightarrow> int \<Rightarrow> verify_request \<Rightarrow> Jwk option \<Rightarrow> AttestorError + AttestedIdentity" where
  "conclude x config now_secs rq found =
     rbind (ok_or found (AttestorRejected ''kid not found in JWKS'')) (check_claims x config now_secs rq)"

definition after_refresh :: "verify_request option \<Rightarrow> oidc_task" where
  "after_refresh rq = (case rq of Some r \<Rightarrow> Retrying r | None \<Rightarrow> Finished)"

text \<open>
  One step of task \<open>i\<close>: its next stage, the attestor, and whether it spawns a background refresh. A task
  whose next stage is the one it is in cannot proceed. The step of a task that fetches is the end of its
  request, with the answer \<open>net\<close>; the code limits the time to connect, not the time until the answer, so
  that this step may come arbitrarily late or never, in which case the task keeps the guard.
\<close>

fun task_step :: "jwt_ext \<Rightarrow> oidc_net \<Rightarrow> instant \<Rightarrow> int \<Rightarrow> nat \<Rightarrow> oidc_task \<Rightarrow> OidcAttestor \<Rightarrow> oidc_task \<times> OidcAttestor \<times> bool" where
  "task_step x net now now_secs i (Call credential) a =
     (case check_header x (oa_config a) credential of
        Inl e \<Rightarrow> (Answered (Inl e), a, False)
      | Inr rq \<Rightarrow> (case assert_fresh (oa_cache a) now of
                    Inl e \<Rightarrow> (Answered (Inl e), a, False)
                  | Inr spawn \<Rightarrow> (Looking rq, a, spawn)))"
| "task_step x net now now_secs i (Looking rq) a =
     (case hm_get (jc_keys (oa_cache a)) (vr_kid rq) of
        Some jwk \<Rightarrow> (Answered (conclude x (oa_config a) now_secs rq (Some jwk)), a, False)
      | None \<Rightarrow> if is_static_file (jc_source (oa_cache a))
                then (Answered (conclude x (oa_config a) now_secs rq None), a, False)
                else (Missed rq, a, False))"
| "task_step x net now now_secs i (Missed rq) a = (Waiting rq (jc_last_refresh_at (oa_cache a)), a, False)"
| "task_step x net now now_secs i (Waiting rq before_lock) a =
     (case jc_refresh_dedup (oa_cache a) of
        None \<Rightarrow> (Guarded rq before_lock, update_cache (lock_by i) a, False)
      | Some _ \<Rightarrow> (Waiting rq before_lock, a, False))"
| "task_step x net now now_secs i (Guarded rq before_lock) a =
     (if jc_last_refresh_at (oa_cache a) \<noteq> before_lock then (Retrying rq, update_cache unlock a, False)
      else (Fetching (Some rq), a, False))"
| "task_step x net now now_secs i (Fetching (Some rq)) a =
     (case refetch x net (oa_cache a) of
        Inl e \<Rightarrow> (Answered (Inl e), update_cache unlock a, False)
      | Inr fresh \<Rightarrow> (Fetched (Some rq) fresh, a, False))"
| "task_step x net now now_secs i (Fetching None) a =
     (case fetch_jwks x net (jc_source (oa_cache a)) [] of
        Inl e \<Rightarrow> (Finished, update_cache unlock a, False)
      | Inr fresh \<Rightarrow> if fresh \<noteq> [] then (Fetched None fresh, a, False)
                     else (Finished, update_cache unlock a, False))"
| "task_step x net now now_secs i (Fetched rq fresh) a = (Swapped rq, update_cache (swap_keys fresh) a, False)"
| "task_step x net now now_secs i (Swapped rq) a =
     (after_refresh rq, update_cache (unlock \<circ> stamp_refresh now) a, False)"
| "task_step x net now now_secs i (Retrying rq) a =
     (Answered (conclude x (oa_config a) now_secs rq (hm_get (jc_keys (oa_cache a)) (vr_kid rq))), a, False)"
| "task_step x net now now_secs i (Answered r) a = (Answered r, a, False)"
| "task_step x net now now_secs i Spawned a =
     (case jc_refresh_dedup (oa_cache a) of
        None \<Rightarrow> (Fetching None, update_cache (lock_by i) a, False)
      | Some _ \<Rightarrow> (Finished, a, False))"
| "task_step x net now now_secs i Finished a = (Finished, a, False)"

section \<open>Runs\<close>

record oidc_run =
  or_clock :: instant
  or_attestor :: OidcAttestor
  or_tasks :: "oidc_task list"

abbreviation or_cache :: "oidc_run \<Rightarrow> JwksCache" where
  "or_cache s \<equiv> oa_cache (or_attestor s)"

datatype oidc_event =
    Tick nat
  | Verify bytes
  | Advance nat oidc_net int

fun oidc_step :: "jwt_ext \<Rightarrow> oidc_event \<Rightarrow> oidc_run \<Rightarrow> oidc_run" where
  "oidc_step x (Tick d) s = s\<lparr>or_clock := or_clock s + d\<rparr>"
| "oidc_step x (Verify credential) s = s\<lparr>or_tasks := or_tasks s @ [Call credential]\<rparr>"
| "oidc_step x (Advance i net now_secs) s =
     (if i < length (or_tasks s)
      then case task_step x net (or_clock s) now_secs i (or_tasks s ! i) (or_attestor s) of
             (t, a, spawn) \<Rightarrow>
               s\<lparr>or_attestor := a, or_tasks := (or_tasks s)[i := t] @ (if spawn then [Spawned] else [])\<rparr>
      else s)"

definition oidc_exec :: "jwt_ext \<Rightarrow> oidc_event list \<Rightarrow> oidc_run \<Rightarrow> oidc_run" where
  "oidc_exec x evs s = fold (oidc_step x) evs s"

fun event_net_in :: "oidc_net set \<Rightarrow> oidc_event \<Rightarrow> bool" where
  "event_net_in N (Advance i net now_secs) = (net \<in> N)"
| "event_net_in N _ = True"

text \<open>
  The states a running attestor can be in, \<open>N\<close> being the answers the outside world may give.
\<close>

inductive oidc_reachable :: "jwt_ext \<Rightarrow> OidcConfig \<Rightarrow> oidc_net set \<Rightarrow> oidc_run \<Rightarrow> bool"
  for x :: jwt_ext and config :: OidcConfig and N :: "oidc_net set"
where
  connected: "oidc_connect x net now config = Inr a \<Longrightarrow> net \<in> N
    \<Longrightarrow> oidc_reachable x config N \<lparr>or_clock = now, or_attestor = a, or_tasks = []\<rparr>"
| stepped: "oidc_reachable x config N s \<Longrightarrow> event_net_in N ev \<Longrightarrow> oidc_reachable x config N (oidc_step x ev s)"

inductive_cases oidc_reachableE: "oidc_reachable x config N s"

lemma oidc_exec_simps [simp]:
  "oidc_exec x [] s = s"
  "oidc_exec x (ev # evs) s = oidc_exec x evs (oidc_step x ev s)"
  "oidc_exec x (evs @ evs') s = oidc_exec x evs' (oidc_exec x evs s)"
  by (simp_all add: oidc_exec_def)

lemma oidc_exec_reachable:
  "oidc_reachable x config N s \<Longrightarrow> list_all (event_net_in N) evs \<Longrightarrow> oidc_reachable x config N (oidc_exec x evs s)"
  by (induction evs arbitrary: s) (auto intro: oidc_reachable.stepped)

section \<open>The invariant\<close>

fun holds_guard :: "oidc_task \<Rightarrow> bool" where
  "holds_guard (Guarded rq b) = True"
| "holds_guard (Fetching rq) = True"
| "holds_guard (Fetched rq fresh) = True"
| "holds_guard (Swapped rq) = True"
| "holds_guard _ = False"

text \<open>A set of keys the source published in one of the answers \<open>N\<close>.\<close>

definition published :: "jwt_ext \<Rightarrow> OidcConfig \<Rightarrow> oidc_net set \<Rightarrow> (string, Jwk) hash_map \<Rightarrow> bool" where
  "published x config N fresh \<longleftrightarrow> fresh \<noteq> [] \<and> (\<exists>net\<in>N. fetch_jwks x net (oc_source config) [] = Inr fresh)"

text \<open>An identity that was attested for a credential with a published key.\<close>

definition vouched :: "jwt_ext \<Rightarrow> OidcConfig \<Rightarrow> oidc_net set \<Rightarrow> bytes \<Rightarrow> AttestedIdentity \<Rightarrow> bool" where
  "vouched x config N credential identity \<longleftrightarrow>
     (\<exists>rq fresh jwk now_secs. check_header x config credential = Inr rq \<and> published x config N fresh
        \<and> hm_get fresh (vr_kid rq) = Some jwk \<and> check_claims x config now_secs rq jwk = Inr identity)"

text \<open>
  A verification of the given credential: the request its stages carry is the one the header gave, and
  an identity it answers with is vouched for. Every background refresh counts as one, too.
\<close>

fun task_for :: "jwt_ext \<Rightarrow> OidcConfig \<Rightarrow> oidc_net set \<Rightarrow> bytes \<Rightarrow> oidc_task \<Rightarrow> bool" where
  "task_for x config N c (Call credential) = (credential = c)"
| "task_for x config N c (Looking rq) = (check_header x config c = Inr rq)"
| "task_for x config N c (Missed rq) = (check_header x config c = Inr rq)"
| "task_for x config N c (Waiting rq b) = (check_header x config c = Inr rq)"
| "task_for x config N c (Guarded rq b) = (check_header x config c = Inr rq)"
| "task_for x config N c (Fetching rq) = pred_option (\<lambda>r. check_header x config c = Inr r) rq"
| "task_for x config N c (Fetched rq fresh) =
     (pred_option (\<lambda>r. check_header x config c = Inr r) rq \<and> published x config N fresh)"
| "task_for x config N c (Swapped rq) = pred_option (\<lambda>r. check_header x config c = Inr r) rq"
| "task_for x config N c (Retrying rq) = (check_header x config c = Inr rq)"
| "task_for x config N c (Answered r) = (\<forall>identity. r = Inr identity \<longrightarrow> vouched x config N c identity)"
| "task_for x config N c _ = True"

definition task_ok :: "jwt_ext \<Rightarrow> OidcConfig \<Rightarrow> oidc_net set \<Rightarrow> oidc_task \<Rightarrow> bool" where
  "task_ok x config N t \<longleftrightarrow> (\<exists>credential. task_for x config N credential t)"

lemma task_ok_simps [simp]:
  "task_ok x config N (Call credential)" "task_ok x config N Spawned"
  "task_ok x config N (Fetched rq fresh) \<Longrightarrow> published x config N fresh"
  by (auto simp: task_ok_def)

definition run_inv :: "jwt_ext \<Rightarrow> OidcConfig \<Rightarrow> oidc_net set \<Rightarrow> oidc_run \<Rightarrow> bool" where
  "run_inv x config N s \<longleftrightarrow>
     oa_config (or_attestor s) = config \<and> jc_source (or_cache s) = oc_source config
     \<and> cc_max_staleness (jc_config (or_cache s)) = map_option from_secs (oc_max_staleness_secs config)
     \<and> cc_cache_ttl (jc_config (or_cache s)) = from_secs (oc_cache_ttl_secs config)
     \<and> oidc_validate config = Inr ()
     \<and> published x config N (jc_keys (or_cache s)) \<and> jc_last_refresh_at (or_cache s) \<le> or_clock s
     \<and> (\<forall>i. jc_refresh_dedup (or_cache s) = Some i \<longleftrightarrow> i < length (or_tasks s) \<and> holds_guard (or_tasks s ! i))
     \<and> list_all (task_ok x config N) (or_tasks s)"

section \<open>What one step may change\<close>

lemmas cache_parts = update_cache_def lock_by_def unlock_def swap_keys_def stamp_refresh_def after_refresh_def

text \<open>The part of the contract about the mutex: a step takes or gives back the guard of its own task only.\<close>

lemma task_step_guard:
  assumes "task_step x net now now_secs i t a = (t', a', spawn)"
    and "jc_refresh_dedup (oa_cache a) = Some i \<longleftrightarrow> holds_guard t"
  shows "jc_refresh_dedup (oa_cache a') = Some j
    \<longleftrightarrow> (if j = i then holds_guard t' else jc_refresh_dedup (oa_cache a) = Some j)"
  using assms
  by (cases "(x, net, now, now_secs, i, t, a)" rule: task_step.cases)
    (auto simp: cache_parts split: sum.splits option.splits if_splits)

text \<open>What the steps leave alone, and where a written key set comes from.\<close>

lemma task_step_frame:
  assumes "task_step x net now now_secs i t a = (t', a', spawn)"
  shows "oa_config a' = oa_config a" "jc_source (oa_cache a') = jc_source (oa_cache a)"
    "jc_config (oa_cache a') = jc_config (oa_cache a)"
    "jc_keys (oa_cache a') = jc_keys (oa_cache a) \<or> (\<exists>rq. t = Fetched rq (jc_keys (oa_cache a')))"
    "jc_last_refresh_at (oa_cache a') = jc_last_refresh_at (oa_cache a)
     \<or> (\<exists>rq. t = Swapped rq) \<and> jc_last_refresh_at (oa_cache a') = now"
  using assms
  by (cases "(x, net, now, now_secs, i, t, a)" rule: task_step.cases;
      auto simp: cache_parts split: sum.splits option.splits if_splits)+

lemma refetch_Inr: "refetch x net c = Inr fresh \<longleftrightarrow> fetch_jwks x net (jc_source c) [] = Inr fresh \<and> fresh \<noteq> []"
  by (auto simp: refetch_def rbind_eq_Inr)

lemma conclude_Inr:
  "conclude x config now_secs rq found = Inr identity
   \<longleftrightarrow> (\<exists>jwk. found = Some jwk \<and> check_claims x config now_secs rq jwk = Inr identity)"
  by (auto simp: conclude_def rbind_eq_Inr)

lemma vouchedI:
  assumes "check_header x config c = Inr rq" and "published x config N keys" and "hm_get keys (vr_kid rq) = Some jwk"
    and "check_claims x config now_secs rq jwk = Inr identity"
  shows "vouched x config N c identity"
  using assms unfolding vouched_def by blast

lemma task_step_for:
  assumes "task_step x net now now_secs i t a = (t', a', spawn)" and "net \<in> N"
    and "oa_config a = config" and "jc_source (oa_cache a) = oc_source config"
    and "published x config N (jc_keys (oa_cache a))" and "task_for x config N c t"
  shows "task_for x config N c t'"
proof (cases "(x, net, now, now_secs, i, t, a)" rule: task_step.cases)
  case (1 _ _ _ _ _ credential)
  with assms show ?thesis
    by (auto split: sum.splits)
next
  case (2 _ _ _ _ _ rq)
  with assms show ?thesis
    by (auto simp: conclude_Inr split: option.splits if_splits intro: vouchedI)
next
  case (6 _ _ _ _ _ rq)
  with assms show ?thesis
    by (auto simp: refetch_Inr published_def split: sum.splits)
next
  case 7
  with assms show ?thesis
    by (auto simp: published_def split: sum.splits if_splits)
next
  case (10 _ _ _ _ _ rq)
  with assms show ?thesis
    by (auto simp: conclude_Inr intro: vouchedI)
qed (use assms in \<open>auto simp: cache_parts split: option.splits if_splits\<close>)

section \<open>The invariant holds in every reachable state\<close>

lemma fetch_without_issuer_check:
  "fetch_jwks x net src expected_issuer = Inr fresh \<Longrightarrow> fetch_jwks x net src [] = Inr fresh"
  by (cases src) (auto simp: fetch_via_discovery_def Let_def rbind_eq_Inr split: if_splits)

lemma connect_inv:
  assumes "oidc_connect x net now config = Inr a" and "net \<in> N"
  shows "run_inv x config N \<lparr>or_clock = now, or_attestor = a, or_tasks = []\<rparr>"
  using assms
  by (auto simp: oidc_connect_def warm_def run_inv_def published_def Let_def rbind_eq_Inr split: if_splits
      intro!: bexI [of _ net] intro: fetch_without_issuer_check)

lemma advance_inv:
  assumes inv: "run_inv x config N s" and "net \<in> N" and i: "i < length (or_tasks s)"
    and step: "task_step x net (or_clock s) now_secs i (or_tasks s ! i) (or_attestor s) = (t, a, spawn)"
  shows "run_inv x config N
    (s\<lparr>or_attestor := a, or_tasks := (or_tasks s)[i := t] @ (if spawn then [Spawned] else [])\<rparr>)"
proof -
  note frame = task_step_frame [OF step]
  from inv i have t_ok: "task_ok x config N (or_tasks s ! i)"
    by (simp add: run_inv_def list_all_length)
  have "task_ok x config N t"
    using inv t_ok task_step_for [OF step \<open>net \<in> N\<close>] by (auto simp: run_inv_def task_ok_def)
  then have ok: "list_all (task_ok x config N) ((or_tasks s)[i := t] @ (if spawn then [Spawned] else []))"
    using inv by (auto simp: run_inv_def list_all_iff dest: set_update_subset_insert [THEN subsetD])
  from inv have before: "published x config N (jc_keys (or_cache s))" "jc_last_refresh_at (or_cache s) \<le> or_clock s"
    by (simp_all add: run_inv_def)
  have "published x config N (jc_keys (oa_cache a))"
    using frame(4) before(1) t_ok by (elim disjE exE) simp_all
  moreover have "jc_last_refresh_at (oa_cache a) \<le> or_clock s"
    using frame(5) before(2) by (elim disjE conjE) simp_all
  moreover have "jc_refresh_dedup (oa_cache a) = Some j \<longleftrightarrow>
      j < length ((or_tasks s)[i := t] @ (if spawn then [Spawned] else []))
      \<and> holds_guard (((or_tasks s)[i := t] @ (if spawn then [Spawned] else [])) ! j)" for j
    using task_step_guard [OF step, of j] inv i by (auto simp: run_inv_def nth_append nth_list_update)
  ultimately show ?thesis
    using frame(1-3) inv ok by (simp add: run_inv_def)
qed

lemma oidc_step_inv:
  assumes "run_inv x config N s" and "event_net_in N ev"
  shows "run_inv x config N (oidc_step x ev s)"
proof (cases ev)
  case (Verify credential)
  with assms show ?thesis
    by (auto simp: run_inv_def nth_append)
next
  case (Advance i net now_secs)
  with assms show ?thesis
    using advance_inv [of x config N s net i now_secs] by (auto split: prod.split)
qed (use assms in \<open>auto simp: run_inv_def\<close>)

theorem oidc_reachable_inv: "oidc_reachable x config N s \<Longrightarrow> run_inv x config N s"
  by (induction rule: oidc_reachable.induct) (auto intro: connect_inv oidc_step_inv)

lemma run_inv_guard:
  "run_inv x config N s \<Longrightarrow> jc_refresh_dedup (or_cache s) = Some i \<longleftrightarrow> i < length (or_tasks s) \<and> holds_guard (or_tasks s ! i)"
  by (simp add: run_inv_def)

text \<open>What becomes of a task: a verification of a credential stays one of this credential.\<close>

lemma oidc_step_for:
  assumes "run_inv x config N s" and "event_net_in N ev" and "i < length (or_tasks s)"
    and "task_for x config N c (or_tasks s ! i)"
  shows "i < length (or_tasks (oidc_step x ev s)) \<and> task_for x config N c (or_tasks (oidc_step x ev s) ! i)"
proof (cases ev)
  case (Advance j net now_secs)
  show ?thesis
  proof (cases "j = i")
    case True
    obtain t a spawn where step: "task_step x net (or_clock s) now_secs i (or_tasks s ! i) (or_attestor s) = (t, a, spawn)"
      by (cases "task_step x net (or_clock s) now_secs i (or_tasks s ! i) (or_attestor s)")
    have "task_for x config N c t"
      using assms by (intro task_step_for [OF step]) (simp_all add: Advance run_inv_def)
    with step True assms(3) show ?thesis
      by (simp add: Advance nth_append)
  qed (use assms Advance in \<open>auto simp: nth_append split: prod.split\<close>)
qed (use assms in \<open>auto simp: nth_append\<close>)

lemma oidc_exec_for:
  assumes "run_inv x config N s" and "list_all (event_net_in N) evs" and "i < length (or_tasks s)"
    and "task_for x config N c (or_tasks s ! i)"
  shows "task_for x config N c (or_tasks (oidc_exec x evs s) ! i)"
  using assms
proof (induction evs arbitrary: s)
  case (Cons ev evs)
  then show ?case
    using oidc_step_inv [of x config N s ev] oidc_step_for [of x config N s ev i c] by simp
qed simp

section \<open>Progress\<close>

text \<open>
  How many steps a task may still take, those of the refresh it may spawn included; a task of weight zero
  is done.
\<close>

fun task_weight :: "oidc_task \<Rightarrow> nat" where
  "task_weight (Call credential) = 14"
| "task_weight (Looking rq) = 8"
| "task_weight (Missed rq) = 7"
| "task_weight (Waiting rq b) = 6"
| "task_weight (Guarded rq b) = 5"
| "task_weight (Fetching rq) = 4"
| "task_weight (Fetched rq fresh) = 3"
| "task_weight (Swapped rq) = 2"
| "task_weight (Retrying rq) = 1"
| "task_weight (Answered r) = 0"
| "task_weight Spawned = 5"
| "task_weight Finished = 0"

definition run_weight :: "oidc_run \<Rightarrow> nat" where
  "run_weight s = sum_list (map task_weight (or_tasks s))"

definition all_done :: "oidc_run \<Rightarrow> bool" where
  "all_done s = list_all (\<lambda>t. task_weight t = 0) (or_tasks s)"

lemma all_done_iff: "all_done s \<longleftrightarrow> run_weight s = 0"
  by (simp add: all_done_def run_weight_def list_all_iff)

text \<open>A task may move unless it is done, or waits for a guard that is taken.\<close>

fun may_move :: "oidc_task \<Rightarrow> JwksCache \<Rightarrow> bool" where
  "may_move (Waiting rq b) c = (jc_refresh_dedup c = None)"
| "may_move t c = (task_weight t \<noteq> 0)"

lemma task_step_weight:
  assumes "task_step x net now now_secs i t a = (t', a', spawn)" and "may_move t (oa_cache a)"
  shows "task_weight t' + (if spawn then 5 else 0) < task_weight t"
  using assms
  by (cases "(x, net, now, now_secs, i, t, a)" rule: task_step.cases)
    (auto simp: cache_parts split: sum.splits option.splits if_splits)

lemma holder_may_move: "holds_guard t \<Longrightarrow> may_move t c"
  by (cases t) auto

lemma some_task_may_move:
  assumes "run_inv x config N s" and "run_weight s \<noteq> 0"
  obtains i where "i < length (or_tasks s)" and "may_move (or_tasks s ! i) (or_cache s)"
proof -
  from assms(2) obtain i where i: "i < length (or_tasks s)" "task_weight (or_tasks s ! i) \<noteq> 0"
    by (auto simp: run_weight_def in_set_conv_nth)
  show thesis
  proof (cases "jc_refresh_dedup (or_cache s)")
    case None
    with i have "may_move (or_tasks s ! i) (or_cache s)"
      by (cases "or_tasks s ! i") auto
    with i(1) show thesis by (rule that)
  next
    case (Some j)
    with run_inv_guard [OF assms(1)] have "j < length (or_tasks s) \<and> holds_guard (or_tasks s ! j)"
      by blast
    then show thesis
      by (auto intro: that holder_may_move)
  qed
qed

lemma advance_weight:
  assumes "i < length (or_tasks s)" and "may_move (or_tasks s ! i) (or_cache s)"
  shows "run_weight (oidc_step x (Advance i net now_secs) s) < run_weight s"
proof -
  obtain t a spawn where step: "task_step x net (or_clock s) now_secs i (or_tasks s ! i) (or_attestor s) = (t, a, spawn)"
    by (cases "task_step x net (or_clock s) now_secs i (or_tasks s ! i) (or_attestor s)")
  define ws where "ws = map task_weight (or_tasks s)"
  have "sum_list (ws[i := task_weight t]) + ws ! i = sum_list ws + task_weight t"
    using assms(1) elem_le_sum_list [of i ws] by (simp add: ws_def sum_list_update)
  then show ?thesis
    using task_step_weight [OF step assms(2)] assms(1) step
    by (auto simp: run_weight_def map_update ws_def split: if_splits)
qed

lemma stuck_task_step:
  assumes "\<not> may_move t (oa_cache a)"
  shows "task_step x net now now_secs i t a = (t, a, False)"
  using assms by (cases t) (auto split: option.split)

text \<open>
  A schedule is an infinite sequence of events. It is fair when no new verification arrives and every task
  that is not done is advanced again. For a task that fetches, to be advanced means that the source
  answers: only the time to connect is limited, so that the answer to a request may be outstanding forever,
  and a schedule that advances the fetching task never again is the run in which it is.
\<close>

primrec oidc_path :: "jwt_ext \<Rightarrow> (nat \<Rightarrow> oidc_event) \<Rightarrow> oidc_run \<Rightarrow> nat \<Rightarrow> oidc_run" where
  "oidc_path x f s 0 = s"
| "oidc_path x f s (Suc n) = oidc_step x (f n) (oidc_path x f s n)"

fun advances :: "nat \<Rightarrow> oidc_event \<Rightarrow> bool" where
  "advances i (Advance j net now_secs) = (j = i)"
| "advances i _ = False"

fun arrives :: "oidc_event \<Rightarrow> bool" where
  "arrives (Verify credential) = True"
| "arrives _ = False"

definition fair_schedule :: "jwt_ext \<Rightarrow> oidc_net set \<Rightarrow> (nat \<Rightarrow> oidc_event) \<Rightarrow> oidc_run \<Rightarrow> bool" where
  "fair_schedule x N f s \<longleftrightarrow> (\<forall>n. event_net_in N (f n) \<and> \<not> arrives (f n))
     \<and> (\<forall>n i. i < length (or_tasks (oidc_path x f s n)) \<and> task_weight (or_tasks (oidc_path x f s n) ! i) \<noteq> 0 \<longrightarrow>
          (\<exists>m\<ge>n. advances i (f m)))"

text \<open>A step either makes the run lighter or leaves tasks and attestor as they are.\<close>

lemma oidc_step_lighter:
  assumes "\<not> arrives ev"
  shows "run_weight (oidc_step x ev s) < run_weight s
    \<or> or_tasks (oidc_step x ev s) = or_tasks s \<and> or_attestor (oidc_step x ev s) = or_attestor s
      \<and> (\<forall>i. advances i ev \<and> i < length (or_tasks s) \<longrightarrow> \<not> may_move (or_tasks s ! i) (or_cache s))"
proof (cases ev)
  case (Advance i net now_secs)
  then show ?thesis
    using advance_weight [of i s x net now_secs]
    by (cases "i < length (or_tasks s) \<and> may_move (or_tasks s ! i) (or_cache s)") (auto simp: stuck_task_step)
qed (use assms in auto)

lemma fair_schedule_completes:
  assumes reach: "oidc_reachable x config N s" and fair: "fair_schedule x N f s"
  shows "\<exists>n. all_done (oidc_path x f s n)"
proof -
  let ?p = "oidc_path x f s"
  have quiet: "\<not> arrives (f n)" and answers: "event_net_in N (f n)" for n
    using fair by (simp_all add: fair_schedule_def)
  obtain n where least: "run_weight (?p n) \<le> run_weight (?p m)" for m
    using ex_has_least_nat [of "\<lambda>_. True" _ "\<lambda>n. run_weight (?p n)"] by blast
  have still: "or_tasks (?p (n + k)) = or_tasks (?p n) \<and> or_attestor (?p (n + k)) = or_attestor (?p n)" for k
  proof (induction k)
    case (Suc k)
    then have "run_weight (?p (n + k)) = run_weight (?p n)"
      by (simp add: run_weight_def)
    with Suc least [of "n + Suc k"] oidc_step_lighter [OF quiet [of "n + k"], of x "?p (n + k)"] show ?case
      by simp
  qed simp
  have "oidc_reachable x config N (?p n)" for n
    using reach answers by (induction n) (auto intro: oidc_reachable.stepped)
  note inv = oidc_reachable_inv [OF this]
  have "run_weight (?p n) = 0"
  proof (rule ccontr)
    assume "run_weight (?p n) \<noteq> 0"
    with inv obtain i where i: "i < length (or_tasks (?p n))" "may_move (or_tasks (?p n) ! i) (or_cache (?p n))"
      by (rule some_task_may_move)
    then have "task_weight (or_tasks (?p n) ! i) \<noteq> 0"
      by (cases "or_tasks (?p n) ! i") auto
    with i(1) fair obtain m where m: "m \<ge> n" "advances i (f m)"
      unfolding fair_schedule_def by blast
    then obtain k where "m = n + k"
      using le_Suc_ex by blast
    with i m(2) still [of k] oidc_step_lighter [OF quiet [of m], of x "?p m"] least [of "Suc m"] show False
      by (auto simp: run_weight_def)
  qed
  then show ?thesis
    by (auto simp: all_done_iff)
qed

text \<open>As long as a fetch is not answered, nobody who waits for the guard gets it.\<close>

lemma holder_blocks_step:
  assumes "run_inv x config N s" and "j < length (or_tasks s)" and "holds_guard (or_tasks s ! j)" and "\<not> advances j ev"
    and "i < length (or_tasks s)" and "or_tasks s ! i = Waiting rq b"
  shows "or_tasks (oidc_step x ev s) ! j = or_tasks s ! j \<and> or_tasks (oidc_step x ev s) ! i = Waiting rq b
    \<and> length (or_tasks s) \<le> length (or_tasks (oidc_step x ev s))"
proof -
  have "jc_refresh_dedup (or_cache s) = Some j"
    using run_inv_guard [OF assms(1)] assms(2,3) by blast
  with assms(2-) show ?thesis
    by (cases ev) (auto simp: nth_append nth_list_update split: prod.split)
qed

lemma holder_blocks:
  assumes "run_inv x config N s" and "list_all (event_net_in N) evs" and "j < length (or_tasks s)"
    and "holds_guard (or_tasks s ! j)" and "\<not> list_ex (advances j) evs"
    and "i < length (or_tasks s)" and "or_tasks s ! i = Waiting rq b"
  shows "or_tasks (oidc_exec x evs s) ! i = Waiting rq b"
  using assms
proof (induction evs arbitrary: s)
  case (Cons ev evs)
  then have "\<not> advances j ev" "event_net_in N ev"
    by simp_all
  with Cons.prems oidc_step_inv [of x config N s ev] holder_blocks_step [of x config N s j ev i rq b] show ?case
    by (auto intro!: Cons.IH)
qed simp

section \<open>A task that runs alone\<close>

definition drive_step :: "jwt_ext \<Rightarrow> oidc_net \<Rightarrow> instant \<Rightarrow> int \<Rightarrow> nat \<Rightarrow> oidc_task \<times> OidcAttestor \<Rightarrow> oidc_task \<times> OidcAttestor" where
  "drive_step x net now now_secs i = (\<lambda>(t, a). case task_step x net now now_secs i t a of (t', a', spawn) \<Rightarrow> (t', a'))"

definition task_view :: "nat \<Rightarrow> oidc_run \<Rightarrow> oidc_task \<times> OidcAttestor" where
  "task_view i s = (or_tasks s ! i, or_attestor s)"

lemma advance_drives:
  assumes "i < length (or_tasks s)"
  shows "task_view i (oidc_step x (Advance i net now_secs) s) = drive_step x net (or_clock s) now_secs i (task_view i s)"
    and "i < length (or_tasks (oidc_step x (Advance i net now_secs) s))"
    and "or_clock (oidc_step x (Advance i net now_secs) s) = or_clock s"
  using assms by (auto simp: task_view_def drive_step_def nth_append split: prod.split)

lemma advances_drive:
  assumes "i < length (or_tasks s)"
  shows "task_view i (oidc_exec x (replicate n (Advance i net now_secs)) s)
    = (drive_step x net (or_clock s) now_secs i ^^ n) (task_view i s)"
  using assms
proof (induction n arbitrary: s)
  case (Suc n)
  from Suc.IH [OF advance_drives(2) [OF Suc.prems]] show ?case
    by (simp add: advance_drives(1,3) [OF Suc.prems] funpow_swap1 del: oidc_step.simps)
qed simp

lemma advances_length:
  assumes "i < length (or_tasks s)"
  shows "i < length (or_tasks (oidc_exec x (replicate n (Advance i net now_secs)) s))"
  using assms
proof (induction n arbitrary: s)
  case (Suc n)
  from Suc.IH [OF advance_drives(2) [OF Suc.prems]] show ?case
    by (simp del: oidc_step.simps)
qed simp

lemma drive_done: "(drive_step x net now now_secs i ^^ n) (Answered r, a) = (Answered r, a)"
  by (induction n) (simp_all add: drive_step_def)

lemma refetch_guard [simp]: "refetch x net (c\<lparr>jc_refresh_dedup := g\<rparr>) = refetch x net c"
  by (auto simp: refetch_def intro!: arg_cong2 [where f = rbind])

text \<open>Every stage of a verification that meets a free guard, and the number of steps it needs.\<close>

lemma drive_Looking:
  assumes "jc_refresh_dedup (oa_cache a) = None"
  shows "(drive_step x net now now_secs i ^^ 8) (Looking rq, a) =
    (case lookup x net now (vr_kid rq) (oa_cache a) of
       (Inl e, c) \<Rightarrow> (Answered (Inl e), a\<lparr>oa_cache := c\<rparr>)
     | (Inr found, c) \<Rightarrow> (Answered (conclude x (oa_config a) now_secs rq found), a\<lparr>oa_cache := c\<rparr>))"
proof -
  obtain cfg src keys last cc where a: "a = \<lparr>oa_config = cfg, oa_cache = \<lparr>jc_source = src, jc_keys = keys,
      jc_last_refresh_at = last, jc_refresh_dedup = None, jc_config = cc\<rparr>\<rparr>"
    using assms by (metis JwksCache.cases OidcAttestor.cases JwksCache.select_convs(4) OidcAttestor.select_convs(2))
  show ?thesis
    using refetch_guard [of x net "Some i" "oa_cache a"]
    by (auto simp: a lookup_def refresh_now_def drive_step_def cache_parts eval_nat_numeral
        split: option.splits sum.splits)
qed

lemma drive_Call_step:
  "drive_step x net now now_secs i (Call credential, a) =
     (case check_header x (oa_config a) credential of
        Inl e \<Rightarrow> (Answered (Inl e), a)
      | Inr rq \<Rightarrow> (case assert_fresh (oa_cache a) now of Inl e \<Rightarrow> (Answered (Inl e), a) | Inr spawn \<Rightarrow> (Looking rq, a)))"
  by (simp add: drive_step_def split: sum.split)

lemma drive_Call:
  assumes "jc_refresh_dedup (oa_cache a) = None"
  shows "(drive_step x net now now_secs i ^^ 9) (Call credential, a)
    = (Answered (fst (oidc_verify x net now now_secs a credential)), fst (snd (oidc_verify x net now now_secs a credential)))"
proof -
  let ?d = "drive_step x net now now_secs i"
  have "(?d ^^ 9) (Call credential, a) = (?d ^^ 8) (?d (Call credential, a))"
    by (simp add: eval_nat_numeral funpow_swap1)
  then show ?thesis
    using drive_Looking [OF assms, where x = x and net = net] drive_done [where n = 8]
    by (auto simp: oidc_verify_def conclude_def drive_Call_step
        split: sum.splits prod.splits option.splits)
qed

text \<open>A background refresh that meets a free guard.\<close>

lemma drive_Spawned:
  assumes "jc_refresh_dedup (oa_cache a) = None"
  shows "(drive_step x net now now_secs i ^^ 4) (Spawned, a)
    = (Finished, a\<lparr>oa_cache := background_refresh x net now (oa_cache a)\<rparr>)"
proof -
  obtain cfg src keys last cc where a: "a = \<lparr>oa_config = cfg, oa_cache = \<lparr>jc_source = src, jc_keys = keys,
      jc_last_refresh_at = last, jc_refresh_dedup = None, jc_config = cc\<rparr>\<rparr>"
    using assms by (metis JwksCache.cases OidcAttestor.cases JwksCache.select_convs(4) OidcAttestor.select_convs(2))
  show ?thesis
    by (auto simp: a background_refresh_def drive_step_def cache_parts eval_nat_numeral split: sum.splits)
qed

end
