(* ===== verification/Attestor_Properties.thy ===== *)
theory Attestor_Properties
  imports Attestor_Startup Oidc_Runs Service_Properties
begin

text \<open>
  Properties of the OIDC and SPIFFE attestors: which identities they attest, under any interleaving of
  verifications and key refreshes, that every verification is answered, what becomes of a stale cache, the
  caps on projected claims, and what an admitted agent's registration receipt says of its identity.
\<close>

section \<open>Sample environment\<close>

text \<open>
  A token is its key id; a key set is a list of key ids separated by commas; every token decodes to the
  same claims.
\<close>

definition demo_claims :: json where
  "demo_claims = V_Object [(''aud'', V_String ''yutha-demo''), (''exp'', V_Number (PosInt 2000)),
     (''iat'', V_Number (PosInt 900)), (''iss'', V_String ''https://idp''), (''sub'', V_String ''alice'')]"

definition demo_core :: externals where
  "demo_core = \<lparr>ext_sha256 = (\<lambda>_. []), ext_key_ok = (\<lambda>_. True), ext_verify = (\<lambda>_ _ _. True), ext_rfc3339 = (\<lambda>_. Some 0)\<rparr>"

definition demo_jwt :: jwt_ext where
  "demo_jwt = \<lparr>jx_core = demo_core,
     jx_decode_header = (\<lambda>t. Inr \<lparr>hdr_alg = RS256, hdr_kid = Some t, hdr_typ = Some ''jwt''\<rparr>),
     jx_decode = (\<lambda>now t k v. if vl_algorithm v = RS256 \<and> k = as_bytes t \<and> vl_issuer v = ''https://idp'' \<and> now \<le> 2000
        then Inr demo_claims else Inl InvalidSignature),
     jx_jwk_set = (\<lambda>body. Inr (map V_String (split_on (\<lambda>c. c = CHR '','') body))),
     jx_jwk_entry = (\<lambda>v. case v of V_String k \<Rightarrow> Inr (k, Jwk (as_bytes k)) | _ \<Rightarrow> Inl ''bad''),
     jx_discovery = (\<lambda>_. Inl ''none''), jx_from_unix = Inr, jx_format = (\<lambda>_. Inr ''t'')\<rparr>"

definition demo_net :: "string \<Rightarrow> oidc_net" where
  "demo_net body = \<lparr>nt_client = (\<lambda>_. Inr ()), nt_get = (\<lambda>_ _. Inr \<lparr>rs_status = 200, rs_text = Inr body\<rparr>), nt_read_file = (\<lambda>_. Inl ''none'')\<rparr>"

definition demo_oidc :: OidcConfig where
  "demo_oidc = \<lparr>oc_source = JwksUri ''https://idp/keys'', oc_expected_issuer = ''https://idp'',
     oc_expected_audience = ''yutha-demo'', oc_allowed_algs = [''RS256''], oc_project_claims = [],
     oc_cache_ttl_secs = 60, oc_max_staleness_secs = Some 120, oc_clock_skew_tolerance_secs = 60,
     oc_connect_timeout_secs = 10, oc_allow_insecure_http = False\<rparr>"

definition demo_attestor :: OidcAttestor where
  "demo_attestor = \<lparr>oa_config = demo_oidc, oa_cache =
     \<lparr>jc_source = JwksUri ''https://idp/keys'', jc_keys = [(''k1'', Jwk (as_bytes ''k1''))], jc_last_refresh_at = 0,
      jc_refresh_dedup = None, jc_config = \<lparr>cc_cache_ttl = 60 * 10 ^ 9, cc_max_staleness = Some (120 * 10 ^ 9),
      cc_connect_timeout = 10 * 10 ^ 9\<rparr>\<rparr>\<rparr>"

lemmas demo_oidc_defs = demo_claims_def demo_core_def demo_jwt_def demo_net_def demo_oidc_def demo_attestor_def

lemma demo_connect: "oidc_connect demo_jwt (demo_net ''k1'') 0 demo_oidc = Inr demo_attestor"
  by (simp add: demo_oidc_defs oidc_connect_def oidc_validate_def warm_def starts_with_def disallowed_alg_def check_url_def
      to_ascii_uppercase_def ascii_upper_def fetch_via_jwks_url_def is_success_def JWKS_PAYLOAD_MAX_BYTES_def
      parse_jwks_body_def from_secs_def Let_def)

abbreviation demo_start :: oidc_run where
  "demo_start \<equiv> \<lparr>or_clock = 0, or_attestor = demo_attestor, or_tasks = []\<rparr>"

lemma demo_reachable:
  "list_all (event_net_in {demo_net ''k1'', demo_net ''k1,k2''}) evs
   \<Longrightarrow> oidc_reachable demo_jwt demo_oidc {demo_net ''k1'', demo_net ''k1,k2''} (oidc_exec demo_jwt evs demo_start)"
  by (rule oidc_exec_reachable [OF oidc_reachable.connected [OF demo_connect]]) simp_all

section \<open>What an attested identity rests on\<close>

text \<open>
  What \<open>jsonwebtoken\<close> documents of a token it accepts: the signature verifies under the key with the
  algorithm asked for (\<open>sig_ok\<close>), an issuer claim that is a string is the expected one, and the expiry is
  not more than the leeway in the past.
\<close>

definition decode_sound :: "jwt_ext \<Rightarrow> (Algorithm \<Rightarrow> bytes \<Rightarrow> string \<Rightarrow> bool) \<Rightarrow> bool" where
  "decode_sound x sig_ok \<longleftrightarrow>
     (\<forall>now token key v claims. jx_decode x now token key v = Inr claims \<longrightarrow>
        sig_ok (vl_algorithm v) key token
        \<and> (\<forall>iss. value_get claims ''iss'' = Some (V_String iss) \<longrightarrow> iss = vl_issuer v)
        \<and> (\<forall>e. Option.bind (value_get claims ''exp'') as_i64 = Some e \<longrightarrow> now \<le> e + uint (vl_leeway v)))"

lemma decode_soundD:
  assumes "decode_sound x sig_ok" and "jx_decode x now token key v = Inr claims"
  shows "sig_ok (vl_algorithm v) key token"
    and "value_get claims ''iss'' = Some (V_String iss) \<Longrightarrow> iss = vl_issuer v"
  using assms unfolding decode_sound_def by blast+

lemma as_str_Some [simp]: "as_str v = Some s \<longleftrightarrow> v = V_String s"
  by (cases v) auto

lemma check_claims_Inr:
  assumes "check_claims x config now_secs rq jwk = Inr identity"
  obtains claims iss sub where
    "jx_decode x now_secs (vr_token rq) (decoding_key jwk) (validation_for config (hdr_alg (vr_header rq))) = Inr claims"
    "value_get claims ''iss'' = Some (V_String iss)" "value_get claims ''sub'' = Some (V_String sub)" "sub \<noteq> []"
    "ai_external_identity identity = ''oidc:'' @ iss @ '':'' @ sub"
    "ai_attributes identity = project_allowlisted_claims claims (oc_project_claims config)"
  using assms
  by (auto simp: check_claims_def rbind_eq_Inr Option.bind_eq_Some_conv split: if_splits)

lemma check_algs_Inr: "check_algs algs = Inr () \<longleftrightarrow> \<not> list_ex disallowed_alg algs"
  by (induction algs) auto

lemma hmac_disallowed:
  "alg \<in> {HS256, HS384, HS512} \<Longrightarrow> eq_ignore_ascii_case a (algorithm_name alg) \<Longrightarrow> disallowed_alg a"
  by (auto simp: disallowed_alg_def eq_ignore_ascii_case_def to_ascii_uppercase_def ascii_upper_def)

lemma oidc_validate_algs: "oidc_validate config = Inr () \<Longrightarrow> check_algs (oc_allowed_algs config) = Inr ()"
  by (auto simp: oidc_validate_def rbind_eq_Inr split: if_splits)

lemma check_header_Inr:
  assumes "check_header x config credential = Inr rq"
  shows "from_utf8 credential = Some (vr_token rq)" "jx_decode_header x (vr_token rq) = Inr (vr_header rq)"
    "hdr_kid (vr_header rq) = Some (vr_kid rq)"
    "\<exists>a \<in> set (oc_allowed_algs config). eq_ignore_ascii_case a (algorithm_name (hdr_alg (vr_header rq)))"
  using assms by (auto simp: check_header_def rbind_eq_Inr list_ex_iff elim!: map_err.elims split: if_splits)

lemma checked_header_asymmetric:
  assumes "check_header x config credential = Inr rq" and "oidc_validate config = Inr ()"
  shows "hdr_alg (vr_header rq) \<notin> {HS256, HS384, HS512}"
proof
  assume hmac: "hdr_alg (vr_header rq) \<in> {HS256, HS384, HS512}"
  from check_header_Inr(4) [OF assms(1)] hmac_disallowed [OF hmac] oidc_validate_algs [OF assms(2)] show False
    by (auto simp: check_algs_Inr list_ex_iff)
qed

lemma run_inv_valid: "run_inv x config N s \<Longrightarrow> oidc_validate config = Inr ()"
  unfolding run_inv_def by blast

lemma vouched_sound:
  assumes "vouched x config N credential identity" and "oidc_validate config = Inr ()" and "decode_sound x sig_ok"
  shows "\<exists>token header kid net fresh jwk now_secs claims sub. from_utf8 credential = Some token
    \<and> jx_decode_header x token = Inr header \<and> hdr_kid header = Some kid \<and> hdr_alg header \<notin> {HS256, HS384, HS512}
    \<and> net \<in> N \<and> fetch_jwks x net (oc_source config) [] = Inr fresh \<and> hm_get fresh kid = Some jwk
    \<and> sig_ok (hdr_alg header) (decoding_key jwk) token
    \<and> jx_decode x now_secs token (decoding_key jwk) (validation_for config (hdr_alg header)) = Inr claims
    \<and> value_get claims ''iss'' = Some (V_String (oc_expected_issuer config)) \<and> value_get claims ''sub'' = Some (V_String sub)
    \<and> sub \<noteq> [] \<and> ai_external_identity identity = ''oidc:'' @ oc_expected_issuer config @ '':'' @ sub"
proof -
  from assms(1) obtain rq fresh jwk now_secs where rq: "check_header x config credential = Inr rq"
    and pub: "published x config N fresh" "hm_get fresh (vr_kid rq) = Some jwk"
    and claims: "check_claims x config now_secs rq jwk = Inr identity"
    by (auto simp: vouched_def)
  obtain claims iss sub where decoded:
    "jx_decode x now_secs (vr_token rq) (decoding_key jwk) (validation_for config (hdr_alg (vr_header rq))) = Inr claims"
    "value_get claims ''iss'' = Some (V_String iss)"
    and sub: "value_get claims ''sub'' = Some (V_String sub)" "sub \<noteq> []" "ai_external_identity identity = ''oidc:'' @ iss @ '':'' @ sub"
    using check_claims_Inr [OF claims] by metis
  have signed: "sig_ok (hdr_alg (vr_header rq)) (decoding_key jwk) (vr_token rq)" and iss: "iss = oc_expected_issuer config"
    using decode_soundD(1) [OF assms(3) decoded(1)] decode_soundD(2) [OF assms(3) decoded]
    by (simp_all add: validation_for_def)
  from pub(1) obtain net where "net \<in> N" "fetch_jwks x net (oc_source config) [] = Inr fresh"
    by (auto simp: published_def)
  with check_header_Inr(1-3) [OF rq] checked_header_asymmetric [OF rq assms(2)] pub(2) signed decoded sub show ?thesis
    unfolding iss by blast
qed

text \<open>
  (C19) Whatever verifications and key refreshes run side by side, and whatever the outside world answers:
  when a verification of a credential attests an identity, the credential is a token whose header names no
  HMAC algorithm and a key that the configured source published, the signature of this token verifies
  under this key and algorithm, and its claims, as decoded under this key, name the configured issuer and a
  non-empty subject, of which the identity is composed.
\<close>

theorem attested_identity_sound:
  assumes "oidc_reachable x config N s" and "i < length (or_tasks s)" and "or_tasks s ! i = Call credential"
    and "list_all (event_net_in N) evs" and "or_tasks (oidc_exec x evs s) ! i = Answered (Inr identity)"
    and "decode_sound x sig_ok"
  shows "\<exists>token header kid net fresh jwk now_secs claims sub. from_utf8 credential = Some token
    \<and> jx_decode_header x token = Inr header \<and> hdr_kid header = Some kid \<and> hdr_alg header \<notin> {HS256, HS384, HS512}
    \<and> net \<in> N \<and> fetch_jwks x net (oc_source config) [] = Inr fresh \<and> hm_get fresh kid = Some jwk
    \<and> sig_ok (hdr_alg header) (decoding_key jwk) token
    \<and> jx_decode x now_secs token (decoding_key jwk) (validation_for config (hdr_alg header)) = Inr claims
    \<and> value_get claims ''iss'' = Some (V_String (oc_expected_issuer config)) \<and> value_get claims ''sub'' = Some (V_String sub)
    \<and> sub \<noteq> [] \<and> ai_external_identity identity = ''oidc:'' @ oc_expected_issuer config @ '':'' @ sub"
proof -
  note inv = oidc_reachable_inv [OF assms(1)]
  have "vouched x config N credential identity"
    using oidc_exec_for [OF inv assms(4,2), of credential] assms(3,5) by simp
  then show ?thesis
    using run_inv_valid [OF inv] assms(6) by (rule vouched_sound)
qed

lemma demo_decode_sound: "decode_sound demo_jwt (\<lambda>alg key token. alg = RS256 \<and> key = as_bytes token)"
  by (auto simp: decode_sound_def demo_oidc_defs split: if_splits intro: add_increasing2)

lemmas demo_run_simps = demo_oidc_defs check_header_def from_utf8_def as_bytes_def typ_ok_def eq_ignore_ascii_case_def
  to_ascii_uppercase_def ascii_upper_def assert_fresh_def elapsed_def Let_def conclude_def check_claims_def
  validation_for_def saturating_add_i64_def wrap_i64_def unix_secs_to_timestamp_def timestamp_new_def
  project_allowlisted_claims_def cache_parts char_of_def bit_Suc_0_iff

definition demo_events :: "oidc_event list" where
  "demo_events = [Verify (as_bytes ''k1''), Advance 0 (demo_net ''k1'') 1000, Advance 0 (demo_net ''k1'') 1000]"

abbreviation demo_called :: oidc_run where
  "demo_called \<equiv> oidc_exec demo_jwt [Verify (as_bytes ''k1'')] demo_start"

lemma demo_called_reachable: "oidc_reachable demo_jwt demo_oidc {demo_net ''k1'', demo_net ''k1,k2''} demo_called"
  by (rule demo_reachable) simp

definition demo_attested :: AttestedIdentity where
  "demo_attested = \<lparr>ai_external_identity = ''oidc:https://idp:alice'',
     ai_credential_expires_at = Some \<lparr>wall_clock = ''t'', monotonic_ns = 0\<rparr>, ai_attributes = []\<rparr>"

lemma demo_answered: "or_tasks (oidc_exec demo_jwt demo_events demo_start) = [Answered (Inr demo_attested)]"
  by (simp add: demo_run_simps demo_events_def demo_attested_def)

text \<open>Two verifications of a token with an unknown key: the first waits for the source, the second for the guard.\<close>

abbreviation demo_unknown :: verify_request where
  "demo_unknown \<equiv> \<lparr>vr_token = ''k2'', vr_header = \<lparr>hdr_alg = RS256, hdr_kid = Some ''k2'', hdr_typ = Some ''jwt''\<rparr>, vr_kid = ''k2''\<rparr>"

definition demo_waiting :: "oidc_event list" where
  "demo_waiting = (let step = (\<lambda>i. Advance i (demo_net ''k1'') 1000) in
     [Verify (as_bytes ''k2''), Verify (as_bytes ''k2''), step 0, step 0, step 0, step 0, step 0, step 1, step 1, step 1])"

lemma demo_waiting_tasks:
  "or_tasks (oidc_exec demo_jwt demo_waiting demo_start) = [Fetching (Some demo_unknown), Waiting demo_unknown 0]"
  by (simp add: demo_waiting_def demo_run_simps)

theorem attested_identity_sound_witness:
  "\<exists>kid fresh jwk sub. hdr_kid \<lparr>hdr_alg = RS256, hdr_kid = Some ''k1'', hdr_typ = Some ''jwt''\<rparr> = Some kid
    \<and> (\<exists>net \<in> {demo_net ''k1'', demo_net ''k1,k2''}. fetch_jwks demo_jwt net (oc_source demo_oidc) [] = Inr fresh)
    \<and> hm_get fresh kid = Some jwk \<and> decoding_key jwk = as_bytes ''k1''
    \<and> value_get demo_claims ''sub'' = Some (V_String sub)
    \<and> ai_external_identity demo_attested = ''oidc:'' @ oc_expected_issuer demo_oidc @ '':'' @ sub"
proof -
  have "0 < length (or_tasks demo_called)" "or_tasks demo_called ! 0 = Call (as_bytes ''k1'')"
    "list_all (event_net_in {demo_net ''k1'', demo_net ''k1,k2''}) (tl demo_events)"
    "or_tasks (oidc_exec demo_jwt (tl demo_events) demo_called) ! 0 = Answered (Inr demo_attested)"
    using demo_answered by (simp_all add: demo_events_def)
  from attested_identity_sound [OF demo_called_reachable this demo_decode_sound]
  obtain token header kid net fresh jwk now_secs claims sub where
    t: "from_utf8 (as_bytes ''k1'') = Some token" "jx_decode_header demo_jwt token = Inr header" "hdr_kid header = Some kid"
      "net \<in> {demo_net ''k1'', demo_net ''k1,k2''}" "fetch_jwks demo_jwt net (oc_source demo_oidc) [] = Inr fresh"
      "hm_get fresh kid = Some jwk" "decoding_key jwk = as_bytes token"
      "jx_decode demo_jwt now_secs token (decoding_key jwk) (validation_for demo_oidc (hdr_alg header)) = Inr claims"
      "value_get claims ''sub'' = Some (V_String sub)"
      "ai_external_identity demo_attested = ''oidc:'' @ oc_expected_issuer demo_oidc @ '':'' @ sub"
    by blast
  have "token = ''k1''"
    using t(1) by (simp add: from_utf8_def as_bytes_def char_of_def bit_Suc_0_iff)
  moreover have "claims = demo_claims"
    using t(8) by (auto simp: demo_jwt_def split: if_splits)
  ultimately show ?thesis
    using t by (intro exI [of _ kid] exI [of _ fresh] exI [of _ jwk] exI [of _ sub]) (auto simp: demo_jwt_def [THEN arg_cong [of _ _ jx_decode_header]])
qed

section \<open>The key cache under concurrency\<close>

text \<open>
  (C38) At most one refetch of the keys is in flight: of all verifications and background refreshes running
  side by side, only one is between taking the refresh guard and giving it back. The keys that any of them
  can read are at every moment the whole of one non-empty answer of the source, never a mixture of two.
\<close>

theorem one_refetch_whole_key_sets:
  assumes "oidc_reachable x config N s"
  shows "(\<exists>\<^sub>\<le>\<^sub>1 i. i < length (or_tasks s) \<and> holds_guard (or_tasks s ! i))
    \<and> jc_keys (or_cache s) \<noteq> [] \<and> (\<exists>net\<in>N. fetch_jwks x net (oc_source config) [] = Inr (jc_keys (or_cache s)))"
proof -
  note inv = oidc_reachable_inv [OF assms]
  have "\<exists>\<^sub>\<le>\<^sub>1 i. i < length (or_tasks s) \<and> holds_guard (or_tasks s ! i)"
    by (rule Uniq_I) (metis run_inv_guard [OF inv] option.inject)
  moreover have "published x config N (jc_keys (or_cache s))"
    using inv by (simp add: run_inv_def)
  ultimately show ?thesis
    by (simp add: published_def)
qed

theorem one_refetch_whole_key_sets_witness:
  "(\<exists>\<^sub>\<le>\<^sub>1 i. i < length (or_tasks (oidc_exec demo_jwt demo_waiting demo_start))
       \<and> holds_guard (or_tasks (oidc_exec demo_jwt demo_waiting demo_start) ! i))
    \<and> holds_guard (or_tasks (oidc_exec demo_jwt demo_waiting demo_start) ! 0)
    \<and> (\<exists>net\<in>{demo_net ''k1'', demo_net ''k1,k2''}. fetch_jwks demo_jwt net (oc_source demo_oidc) []
         = Inr (jc_keys (or_cache (oidc_exec demo_jwt demo_waiting demo_start))))"
proof -
  have "list_all (event_net_in {demo_net ''k1'', demo_net ''k1,k2''}) demo_waiting"
    by (simp add: demo_waiting_def Let_def)
  from one_refetch_whole_key_sets [OF demo_reachable [OF this]] show ?thesis
    by (simp add: demo_waiting_tasks)
qed

text \<open>
  (C39) Every verification is answered if the source answers every fetch. From every reachable state and along
  every schedule in which no new verification arrives and every task that is not done takes another
  step, to take a step being for a fetching task that its request is answered, there is a moment at which all
  verifications have an answer and all refreshes have ended, whatever the answers are and
  however the tasks interleave: no task starves at the refresh guard. The condition is needed, and nothing in the
  code enforces it, since only connecting has a time limit: as long as the request of the task that
  holds the guard is not answered, every verification that waits for the guard goes on waiting, whatever else
  happens.
\<close>

theorem every_verification_answered:
  assumes "oidc_reachable x config N s"
  shows "(fair_schedule x N f s \<longrightarrow> (\<exists>n. all_done (oidc_path x f s n)))
    \<and> (\<forall>i j rq rq' b evs. i < length (or_tasks s) \<and> or_tasks s ! i = Waiting rq b
        \<and> j < length (or_tasks s) \<and> or_tasks s ! j = Fetching rq'
        \<and> list_all (event_net_in N) evs \<and> \<not> list_ex (advances j) evs \<longrightarrow>
        or_tasks (oidc_exec x evs s) ! i = Waiting rq b)"
proof (intro conjI impI allI; (elim conjE)?)
  show "\<exists>n. all_done (oidc_path x f s n)" if "fair_schedule x N f s"
    using assms that by (rule fair_schedule_completes)
  show "or_tasks (oidc_exec x evs s) ! i = Waiting rq b"
    if "i < length (or_tasks s)" "or_tasks s ! i = Waiting rq b" "j < length (or_tasks s)" "or_tasks s ! j = Fetching rq'"
      "list_all (event_net_in N) evs" "\<not> list_ex (advances j) evs" for i j rq rq' b evs
    using oidc_reachable_inv [OF assms] that by (intro holder_blocks [of x config N s evs j i rq b]) simp_all
qed

lemma demo_path:
  "oidc_path demo_jwt (\<lambda>_. Advance 0 (demo_net ''k1'') 1000) demo_called (Suc (Suc n))
   = \<lparr>or_clock = 0, or_attestor = demo_attestor, or_tasks = [Answered (Inr demo_attested)]\<rparr>"
  by (induction n) (simp_all add: demo_run_simps demo_attested_def)

lemma demo_fair:
  "fair_schedule demo_jwt {demo_net ''k1'', demo_net ''k1,k2''} (\<lambda>_. Advance 0 (demo_net ''k1'') 1000) demo_called"
proof -
  have "length (or_tasks (oidc_path demo_jwt (\<lambda>_. Advance 0 (demo_net ''k1'') 1000) demo_called n)) = 1" for n
  proof (cases n rule: nat.exhaust [case_names 0 Suc])
    case (Suc m)
    then show ?thesis
      using demo_path by (cases m) (simp_all add: demo_run_simps)
  qed simp
  then show ?thesis
    by (auto simp: fair_schedule_def)
qed

theorem every_verification_answered_witness:
  "(\<exists>n. all_done (oidc_path demo_jwt (\<lambda>_. Advance 0 (demo_net ''k1'') 1000) demo_called n))
   \<and> or_tasks (oidc_exec demo_jwt (replicate 100 (Advance 1 (demo_net ''k1'') 1000) @ [Tick 5])
        (oidc_exec demo_jwt demo_waiting demo_start)) ! 1 = Waiting demo_unknown 0"
proof
  show "\<exists>n. all_done (oidc_path demo_jwt (\<lambda>_. Advance 0 (demo_net ''k1'') 1000) demo_called n)"
    using every_verification_answered [OF demo_called_reachable] demo_fair by blast
  have "list_all (event_net_in {demo_net ''k1'', demo_net ''k1,k2''}) demo_waiting"
    by (simp add: demo_waiting_def Let_def)
  note blocked = every_verification_answered [OF demo_reachable [OF this], THEN conjunct2, rule_format,
      of 1 demo_unknown 0 0 "Some demo_unknown" "replicate 100 (Advance 1 (demo_net ''k1'') 1000) @ [Tick 5]"]
  show "or_tasks (oidc_exec demo_jwt (replicate 100 (Advance 1 (demo_net ''k1'') 1000) @ [Tick 5])
        (oidc_exec demo_jwt demo_waiting demo_start)) ! 1 = Waiting demo_unknown 0"
    by (rule blocked) (simp add: demo_waiting_tasks list_all_iff list_ex_iff del: oidc_exec_simps)
qed

text \<open>
  A verification that nobody disturbs does what the straight-line reading of the code says: nine
  steps of its task, with the refresh guard free at the start, end in the answer and the cache of
  \<open>oidc_verify\<close>.
\<close>

theorem undisturbed_verification:
  assumes "i < length (or_tasks s)" and "or_tasks s ! i = Call credential" and "jc_refresh_dedup (or_cache s) = None"
  shows "or_tasks (oidc_exec x (replicate 9 (Advance i net now_secs)) s) ! i
      = Answered (fst (oidc_verify x net (or_clock s) now_secs (or_attestor s) credential))
    \<and> or_attestor (oidc_exec x (replicate 9 (Advance i net now_secs)) s)
      = fst (snd (oidc_verify x net (or_clock s) now_secs (or_attestor s) credential))"
  using advances_drive [OF assms(1), of x 9 net now_secs] drive_Call [OF assms(3), where x = x and net = net]
  by (simp add: task_view_def assms(2))

theorem undisturbed_verification_witness:
  "or_tasks (oidc_exec demo_jwt (replicate 9 (Advance 0 (demo_net ''k1,k2'') 1000))
       (demo_start\<lparr>or_tasks := [Call (as_bytes ''k2'')]\<rparr>)) ! 0
     = Answered (fst (oidc_verify demo_jwt (demo_net ''k1,k2'') 0 1000 demo_attestor (as_bytes ''k2'')))
   \<and> or_attestor (oidc_exec demo_jwt (replicate 9 (Advance 0 (demo_net ''k1,k2'') 1000))
       (demo_start\<lparr>or_tasks := [Call (as_bytes ''k2'')]\<rparr>))
     = fst (snd (oidc_verify demo_jwt (demo_net ''k1,k2'') 0 1000 demo_attestor (as_bytes ''k2'')))"
  using undisturbed_verification [of 0 "demo_start\<lparr>or_tasks := [Call (as_bytes ''k2'')]\<rparr>" "as_bytes ''k2''"
      demo_jwt "demo_net ''k1,k2''" 1000]
  by (simp add: demo_attestor_def)

section \<open>A cache that is too old\<close>

definition cache_expired :: "JwksCache \<Rightarrow> instant \<Rightarrow> bool" where
  "cache_expired c now \<longleftrightarrow> (\<exists>m. cc_max_staleness (jc_config c) = Some m \<and> elapsed c now > m)"

lemma assert_fresh_expired: "cache_expired c now \<Longrightarrow> \<exists>msg. assert_fresh c now = Inl (TrustRootUnavailable msg)"
  by (auto simp: cache_expired_def assert_fresh_def Let_def)

fun refused :: "jwt_ext \<Rightarrow> OidcConfig \<Rightarrow> oidc_task \<Rightarrow> bool" where
  "refused x config (Call credential) = True"
| "refused x config (Answered (Inl e)) =
     ((\<exists>msg. e = TrustRootUnavailable msg) \<or> (\<exists>credential. check_header x config credential = Inl e))"
| "refused x config _ = False"

text \<open>The states from which nothing but refusals can follow: the first \<open>n\<close> tasks are over.\<close>

definition dead :: "jwt_ext \<Rightarrow> nat \<Rightarrow> OidcAttestor \<Rightarrow> oidc_run \<Rightarrow> bool" where
  "dead x n a s \<longleftrightarrow> or_attestor s = a \<and> cache_expired (oa_cache a) (or_clock s) \<and> n \<le> length (or_tasks s)
     \<and> list_all (\<lambda>t. task_weight t = 0) (take n (or_tasks s)) \<and> list_all (refused x (oa_config a)) (drop n (or_tasks s))"

lemma task_step_done: "task_weight t = 0 \<Longrightarrow> task_step x net now now_secs i t a = (t, a, False)"
  by (cases t) auto

lemma task_step_refused:
  assumes "refused x (oa_config a) t" and "cache_expired (oa_cache a) now"
  obtains t' where "task_step x net now now_secs i t a = (t', a, False)" and "refused x (oa_config a) t'"
proof (cases t)
  case (Call credential)
  obtain msg where "assert_fresh (oa_cache a) now = Inl (TrustRootUnavailable msg)"
    using assert_fresh_expired [OF assms(2)] by blast
  with Call that show thesis
    by (cases "check_header x (oa_config a) credential") auto
next
  case (Answered r)
  with assms(1) that [of t] show thesis
    by simp
qed (use assms(1) in auto)

lemma dead_step:
  assumes "dead x n a s"
  shows "dead x n a (oidc_step x ev s)"
proof (cases ev)
  case (Tick d)
  with assms show ?thesis
    by (auto simp: dead_def cache_expired_def elapsed_def)
next
  case (Verify credential)
  with assms show ?thesis
    by (auto simp: dead_def)
next
  case (Advance i net now_secs)
  show ?thesis
  proof (cases "i < length (or_tasks s)")
    case True
    note d = assms [unfolded dead_def]
    show ?thesis
    proof (cases "i < n")
      case True
      with d have "task_weight (or_tasks s ! i) = 0"
        by (auto simp: list_all_length)
      with Advance \<open>i < length (or_tasks s)\<close> assms show ?thesis
        by (simp add: task_step_done)
    next
      case False
      with d \<open>i < length (or_tasks s)\<close> have "refused x (oa_config a) (or_tasks s ! i)"
        by (auto simp: list_all_length dest: spec [of _ "i - n"])
      then obtain t where "task_step x net (or_clock s) now_secs i (or_tasks s ! i) (or_attestor s) = (t, a, False)"
        "refused x (oa_config a) t"
        using d by (metis task_step_refused)
      with Advance False d \<open>i < length (or_tasks s)\<close> show ?thesis
        by (auto simp: dead_def drop_update_swap list_all_iff dest: set_update_subset_insert [THEN subsetD])
    qed
  next
    case False
    with Advance assms show ?thesis
      by simp
  qed
qed

text \<open>
  (C20) A key cache that has grown older than the configured maximum never recovers: once no task is
  under way, every later verification, however many and however long after, is refused, either for its
  header or because the keys are stale, and neither keys nor time of refresh ever change again, even when
  the source is there. The freshness check fails before it would start a refresh, and nothing else starts
  one.
\<close>

theorem stale_cache_never_recovers:
  assumes "oidc_reachable x config N s" and "all_done s" and "oc_max_staleness_secs config = Some m"
    and "or_clock s > jc_last_refresh_at (or_cache s) + from_secs m"
  shows "or_attestor (oidc_exec x evs s) = or_attestor s
    \<and> list_all (refused x config) (drop (length (or_tasks s)) (or_tasks (oidc_exec x evs s)))"
proof -
  note inv = oidc_reachable_inv [OF assms(1)]
  have "cc_max_staleness (jc_config (or_cache s)) = Some (from_secs m)" and config: "oa_config (or_attestor s) = config"
    using inv assms(3) by (auto simp: run_inv_def)
  with assms(2,4) have "dead x (length (or_tasks s)) (or_attestor s) s"
    by (auto simp: dead_def cache_expired_def elapsed_def all_done_def)
  then have "dead x (length (or_tasks s)) (or_attestor s) (oidc_exec x evs s)"
    by (induction evs arbitrary: s rule: rev_induct) (auto intro: dead_step)
  then show ?thesis
    by (simp add: dead_def config)
qed

theorem stale_cache_never_recovers_witness:
  "or_attestor (oidc_exec demo_jwt [Verify (as_bytes ''k1''), Advance 0 (demo_net ''k1'') 1000, Tick 5]
       (oidc_exec demo_jwt [Tick 120000000001] demo_start)) = demo_attestor
   \<and> list_all (refused demo_jwt demo_oidc)
       (or_tasks (oidc_exec demo_jwt [Verify (as_bytes ''k1''), Advance 0 (demo_net ''k1'') 1000, Tick 5]
         (oidc_exec demo_jwt [Tick 120000000001] demo_start)))"
  using stale_cache_never_recovers [OF demo_reachable [of "[Tick 120000000001]"], of 120
      "[Verify (as_bytes ''k1''), Advance 0 (demo_net ''k1'') 1000, Tick 5]"]
  by (simp add: all_done_def demo_oidc_def demo_attestor_def from_secs_def)

section \<open>A refetch that does not cover the waiting verification\<close>

text \<open>
  (C40) A verification that missed its key and waits for the guard takes the refresh of the one holding it
  for its own, although that fetch may have been answered before the verification began: when the keys
  fetched earlier lack the key id, the verification is rejected with an unknown key id and without asking
  the source, whatever the source would answer now.
\<close>

theorem older_refetch_taken_for_own:
  assumes "i < length (or_tasks s)" and "or_tasks s ! i = Waiting rq (jc_last_refresh_at (or_cache s))"
    and "j < length (or_tasks s)" and "or_tasks s ! j = Fetched other old" and "hm_get old (vr_kid rq) = None"
    and "jc_last_refresh_at (or_cache s) < or_clock s"
  shows "or_tasks (oidc_exec x [Advance j net now_secs, Advance j net now_secs,
      Advance i net now_secs, Advance i net now_secs, Advance i net now_secs] s) ! i
    = Answered (Inl (AttestorRejected ''kid not found in JWKS''))"
proof -
  from assms(2,4) have "i \<noteq> j" by auto
  with assms show ?thesis
    by (simp add: cache_parts conclude_def)
qed

definition demo_race :: "oidc_event list" where
  "demo_race = [Tick 61000000000, Verify (as_bytes ''k1''), Advance 0 (demo_net ''k1'') 1000,
     Advance 1 (demo_net ''k1'') 1000, Advance 1 (demo_net ''k1'') 1000,
     Verify (as_bytes ''k2''), Advance 2 (demo_net ''k1,k2'') 1000, Advance 2 (demo_net ''k1,k2'') 1000,
     Advance 2 (demo_net ''k1,k2'') 1000]"

lemma demo_last_refresh: "jc_last_refresh_at (oa_cache demo_attestor) = 0"
  by (simp add: demo_attestor_def)

lemma demo_race_state:
  "oidc_exec demo_jwt demo_race demo_start =
     \<lparr>or_clock = 61000000000, or_attestor = update_cache (lock_by 1) demo_attestor,
      or_tasks = [Looking \<lparr>vr_token = ''k1'', vr_header = \<lparr>hdr_alg = RS256, hdr_kid = Some ''k1'', hdr_typ = Some ''jwt''\<rparr>, vr_kid = ''k1''\<rparr>,
        Fetched None [(''k1'', Jwk (as_bytes ''k1''))],
        Waiting \<lparr>vr_token = ''k2'', vr_header = \<lparr>hdr_alg = RS256, hdr_kid = Some ''k2'', hdr_typ = Some ''jwt''\<rparr>, vr_kid = ''k2''\<rparr> 0,
        Spawned]\<rparr>"
  by (simp add: demo_run_simps demo_race_def fetch_via_jwks_url_def is_success_def JWKS_PAYLOAD_MAX_BYTES_def parse_jwks_body_def)

theorem older_refetch_taken_for_own_witness:
  "or_tasks (oidc_exec demo_jwt [Advance 1 (demo_net ''k1,k2'') 1000, Advance 1 (demo_net ''k1,k2'') 1000,
      Advance 2 (demo_net ''k1,k2'') 1000, Advance 2 (demo_net ''k1,k2'') 1000, Advance 2 (demo_net ''k1,k2'') 1000]
      (oidc_exec demo_jwt demo_race demo_start)) ! 2
    = Answered (Inl (AttestorRejected ''kid not found in JWKS''))"
proof -
  have state: "or_tasks (oidc_exec demo_jwt demo_race demo_start) ! 2
      = Waiting \<lparr>vr_token = ''k2'', vr_header = \<lparr>hdr_alg = RS256, hdr_kid = Some ''k2'', hdr_typ = Some ''jwt''\<rparr>, vr_kid = ''k2''\<rparr>
          (jc_last_refresh_at (or_cache (oidc_exec demo_jwt demo_race demo_start)))"
    "or_tasks (oidc_exec demo_jwt demo_race demo_start) ! 1 = Fetched None [(''k1'', Jwk (as_bytes ''k1''))]"
    "jc_last_refresh_at (or_cache (oidc_exec demo_jwt demo_race demo_start)) < or_clock (oidc_exec demo_jwt demo_race demo_start)"
    "2 < length (or_tasks (oidc_exec demo_jwt demo_race demo_start))"
    "1 < length (or_tasks (oidc_exec demo_jwt demo_race demo_start))"
    by (simp_all add: demo_race_state cache_parts demo_last_refresh)
  show ?thesis
    by (rule older_refetch_taken_for_own [OF state(4,1,5,2) _ state(3)]) simp
qed

section \<open>Projected claims\<close>

definition map_bytes :: "(string \<times> string) list \<Rightarrow> nat" where
  "map_bytes m = sum_list (map (\<lambda>(k, v). length k + length v) m)"

lemma map_bytes_simps [simp]:
  "map_bytes [] = 0" "map_bytes ((k, v) # m) = length k + length v + map_bytes m"
  "map_bytes (m @ n) = map_bytes m + map_bytes n"
  by (simp_all add: map_bytes_def)

lemma length_bt_insert: "length (bt_insert k v m) \<le> Suc (length m)"
  by (induction k v m rule: bt_insert.induct) auto

lemma map_bytes_insert: "map_bytes (bt_insert k v m) \<le> map_bytes m + (length k + length v)"
  by (induction k v m rule: bt_insert.induct) auto

lemma set_bt_insert: "set (bt_insert k v m) \<subseteq> insert (k, v) (set m)"
  by (induction k v m rule: bt_insert.induct) auto

definition claim_text :: "json \<Rightarrow> string \<Rightarrow> string option" where
  "claim_text payload k = Option.bind (value_get payload k) render_claim_value"

lemma project_loop_Cons:
  "project_loop payload (k # ks) out used =
     (if length out \<ge> PROJECT_MAX_ENTRIES then out
      else case claim_text payload k of
             None \<Rightarrow> project_loop payload ks out used
           | Some v \<Rightarrow> if used + (length k + length v) > PROJECT_MAX_BYTES then out
                       else project_loop payload ks (bt_insert k v out) (used + (length k + length v)))"
  by (simp add: claim_text_def Let_def split: option.split)

lemmas project_loop_step = project_loop.simps(1) project_loop_Cons

definition projection_ok :: "string set \<Rightarrow> json \<Rightarrow> (string, string) btree_map \<Rightarrow> nat \<Rightarrow> bool" where
  "projection_ok A payload out used \<longleftrightarrow>
     length out \<le> PROJECT_MAX_ENTRIES \<and> map_bytes out \<le> used \<and> used \<le> PROJECT_MAX_BYTES
     \<and> (\<forall>(k, v)\<in>set out. k \<in> A \<and> claim_text payload k = Some v)"

lemma projection_ok_insert:
  assumes "projection_ok A payload out used" and "length out < PROJECT_MAX_ENTRIES" and "k \<in> A"
    and "claim_text payload k = Some v" and "used + (length k + length v) \<le> PROJECT_MAX_BYTES"
  shows "projection_ok A payload (bt_insert k v out) (used + (length k + length v))"
  using assms set_bt_insert [of k v out] length_bt_insert [of k v out] map_bytes_insert [of k v out]
  by (auto simp: projection_ok_def)

lemma project_loop_ok:
  "projection_ok A payload out used \<Longrightarrow> set allowlist \<subseteq> A
   \<Longrightarrow> \<exists>u. projection_ok A payload (project_loop payload allowlist out used) u"
proof (induction allowlist arbitrary: out used)
  case (Cons k ks)
  then show ?case
    by (auto simp: project_loop_step simp del: project_loop.simps split: option.split
        intro!: Cons.IH projection_ok_insert)
qed auto

text \<open>
  The claims projected into the attested attributes stay within both caps: at most 64 entries, at most
  4096 bytes of names and values together, whatever the token carries; every one of them is
  allow-listed, with the text its value renders to.
\<close>

theorem projected_claims_capped:
  "length (project_allowlisted_claims payload allowlist) \<le> 64
    \<and> map_bytes (project_allowlisted_claims payload allowlist) \<le> 4096
    \<and> (\<forall>k v. bt_get (project_allowlisted_claims payload allowlist) k = Some v
         \<longrightarrow> k \<in> set allowlist \<and> Option.bind (value_get payload k) render_claim_value = Some v)"
proof -
  have "projection_ok (set allowlist) payload [] 0"
    by (simp add: projection_ok_def)
  from project_loop_ok [OF this subset_refl] obtain u where
    "projection_ok (set allowlist) payload (project_allowlisted_claims payload allowlist) u"
    by (auto simp: project_allowlisted_claims_def)
  then show ?thesis
    by (auto simp: projection_ok_def PROJECT_MAX_ENTRIES_def PROJECT_MAX_BYTES_def claim_text_def dest!: map_of_SomeD)
qed

theorem projected_claims_capped_witness:
  "length (project_allowlisted_claims demo_claims [''exp'', ''sub'']) \<le> 64
    \<and> map_bytes (project_allowlisted_claims demo_claims [''exp'', ''sub'']) \<le> 4096
    \<and> Option.bind (value_get demo_claims ''sub'') render_claim_value = Some ''alice''"
proof -
  have "bt_get (project_allowlisted_claims demo_claims [''exp'', ''sub'']) ''sub'' = Some ''alice''"
    by (simp add: project_allowlisted_claims_def demo_claims_def PROJECT_MAX_ENTRIES_def PROJECT_MAX_BYTES_def)
  with projected_claims_capped [of demo_claims "[''exp'', ''sub'']"] show ?thesis
    by blast
qed

text \<open>
  Below the caps nothing is lost: when the allow-listed claims of a token fit, the attributes are exactly
  their texts.
\<close>

lemma project_loop_complete:
  assumes "length out + length allowlist \<le> PROJECT_MAX_ENTRIES"
    and "used + map_bytes (List.map_filter (\<lambda>k. map_option (Pair k) (claim_text payload k)) allowlist) \<le> PROJECT_MAX_BYTES"
  shows "bt_get (project_loop payload allowlist out used) k =
    (if k \<in> set allowlist \<and> claim_text payload k \<noteq> None then claim_text payload k else bt_get out k)"
  using assms
proof (induction allowlist arbitrary: out used)
  case (Cons c cs)
  show ?case
  proof (cases "claim_text payload c")
    case None
    with Cons show ?thesis
      by (auto simp: project_loop_step map_filter_simps simp del: project_loop.simps)
  next
    case (Some v)
    have "length (bt_insert c v out) + length cs \<le> PROJECT_MAX_ENTRIES"
      using length_bt_insert [of c v out] Cons.prems(1) by simp
    with Some show ?thesis
      using Cons.prems Cons.IH [of "bt_insert c v out" "used + (length c + length v)"]
      by (auto simp: project_loop_step map_filter_simps simp del: project_loop.simps)
  qed
qed simp

theorem fitting_claims_all_projected:
  assumes "length allowlist \<le> 64"
    and "map_bytes (List.map_filter (\<lambda>k. map_option (Pair k) (claim_text payload k)) allowlist) \<le> 4096"
  shows "bt_get (project_allowlisted_claims payload allowlist) k =
    (if k \<in> set allowlist then Option.bind (value_get payload k) render_claim_value else None)"
  using project_loop_complete [of "[]" allowlist 0 payload k] assms
  by (auto simp: project_allowlisted_claims_def PROJECT_MAX_ENTRIES_def PROJECT_MAX_BYTES_def claim_text_def)

section \<open>Projected selectors\<close>

lemma bt_insert_last:
  assumes "sorted_wrt (<) (map fst (out @ (k, v) # rest))"
  shows "bt_insert k v out = out @ [(k, v)]"
  using assms by (induction out) (auto simp: neq_iff dest: order.asym)

definition fits :: "(string \<times> string) list \<Rightarrow> bool" where
  "fits m \<longleftrightarrow> length m \<le> MAX_SELECTOR_ENTRIES \<and> map_bytes m \<le> MAX_SELECTOR_BYTES"

lemma selector_loop_prefix:
  assumes "bt_wf (out @ rest)" and "fits out"
  shows "\<exists>n. selector_loop rest out (map_bytes out) = take n (out @ rest) \<and> length out \<le> n \<and> fits (take n (out @ rest))
    \<and> (n < length (out @ rest) \<longrightarrow> \<not> fits (take (Suc n) (out @ rest)))"
  using assms
proof (induction rest arbitrary: out)
  case Nil
  then show ?case
    by (intro exI [of _ "length out"]) simp
next
  case (Cons kv rest)
  obtain k v where kv: "kv = (k, v)" by (cases kv)
  show ?case
  proof (cases "fits (out @ [kv])")
    case True
    have ins: "bt_insert k v out = out @ [kv]"
      using Cons.prems(1) by (simp add: kv bt_wf_def bt_insert_last [of out k v rest])
    have step: "selector_loop (kv # rest) out (map_bytes out) = selector_loop rest (out @ [kv]) (map_bytes (out @ [kv]))"
      using True ins by (simp add: kv fits_def Let_def)
    have "bt_wf ((out @ [kv]) @ rest)"
      using Cons.prems(1) by simp
    from Cons.IH [OF this True] obtain n where
      "selector_loop rest (out @ [kv]) (map_bytes (out @ [kv])) = take n ((out @ [kv]) @ rest)" "length (out @ [kv]) \<le> n"
      "fits (take n ((out @ [kv]) @ rest))"
      "n < length ((out @ [kv]) @ rest) \<longrightarrow> \<not> fits (take (Suc n) ((out @ [kv]) @ rest))"
      by blast
    then show ?thesis
      unfolding step by (intro exI [of _ n]) (simp only: append_assoc append_Cons append_Nil, simp)
  next
    case False
    with Cons.prems(2) have "selector_loop (kv # rest) out (map_bytes out) = out"
      by (auto simp: kv fits_def Let_def)
    with False Cons.prems(2) show ?thesis
      by (intro exI [of _ "length out"]) (simp add: kv)
  qed
qed

text \<open>
  The selectors of a SPIFFE credential are cut to the longest initial part, in key order, that stays
  within 64 entries and 4096 bytes: the attributes are a prefix within both caps, and one more selector
  would break one of them.
\<close>

theorem selectors_longest_prefix:
  assumes "bt_wf m"
  shows "\<exists>n. project_selectors m = take n m \<and> n \<le> length m \<and> fits (take n m) \<and> (n < length m \<longrightarrow> \<not> fits (take (Suc n) m))"
proof -
  obtain n where n: "selector_loop m [] 0 = take n m" "fits (take n m)" "n < length m \<longrightarrow> \<not> fits (take (Suc n) m)"
    using selector_loop_prefix [of "[]" m] assms by (auto simp: fits_def)
  then show ?thesis
    by (intro exI [of _ "min n (length m)"]) (auto simp: project_selectors_def min_def)
qed

theorem selectors_longest_prefix_witness:
  "bt_wf [(''ns'', ''billing''), (''sa'', ''worker'')] \<and>
   (\<exists>n. project_selectors [(''ns'', ''billing''), (''sa'', ''worker'')] = take n [(''ns'', ''billing''), (''sa'', ''worker'')]
      \<and> fits (take n [(''ns'', ''billing''), (''sa'', ''worker'')]))"
proof -
  have "bt_wf [(''ns'', ''billing''), (''sa'', ''worker'')]"
    by (simp add: bt_wf_def less_list_code less_char_def)
  with selectors_longest_prefix [OF this] show ?thesis by blast
qed

section \<open>SPIFFE identities\<close>

text \<open>
  What the SPIFFE library documents of a token it accepts: it found a bundle for the trust domain of the
  identity with the look-up it was given, the token is signed by an authority of that bundle
  (\<open>sig_ok\<close>), carries one of the audiences (\<open>aud_ok\<close>) and has not expired.
\<close>

definition svid_sound :: "spiffe_ext \<Rightarrow> (JwtBundle \<Rightarrow> string \<Rightarrow> bool) \<Rightarrow> (string \<Rightarrow> string \<Rightarrow> bool) \<Rightarrow> bool" where
  "svid_sound x sig_ok aud_ok \<longleftrightarrow>
     (\<forall>now token find auds svid. sp_parse_and_validate x now token find auds = Inr svid \<longrightarrow>
        (\<exists>td bundle. find td = Inr (Some bundle) \<and> sig_ok bundle token) \<and> (\<exists>aud\<in>set auds. aud_ok token aud))"

lemma spiffe_verify_Inr:
  assumes "spiffe_verify x now now_unix a credential = Inr identity"
  obtains token svid extra where "from_utf8 credential = Some token" "bundle_assert_fresh (sa_cache a) now (sa_max_staleness a) = Inr ()"
    "sp_parse_and_validate x now_unix token (bundle_for_trust_domain (sa_cache a)) [sa_expected_audience a] = Inr svid"
    "decode_extra_claims x token = Inr extra" "ai_external_identity identity = sv_spiffe_id svid"
    "\<not> in_the_future now_unix (min (int (as_secs (sa_clock_skew_tolerance a))) (2 ^ 63 - 1)) (ec_nbf extra)"
    "\<not> in_the_future now_unix (min (int (as_secs (sa_clock_skew_tolerance a))) (2 ^ 63 - 1)) (ec_iat extra)"
    "ai_attributes identity = (case ec_selectors extra of Some s \<Rightarrow> project_selectors s | None \<Rightarrow> [])"
  using assms
  by (auto simp: spiffe_verify_def build_attested_identity_def rbind_eq_Inr Let_def split: if_splits)

text \<open>
  With a static trust bundle, an identity is attested only for a token that is signed by an
  authority of the very bundle loaded at start-up and made out to the configured audience, and only
  while that bundle is not older than the configured maximum.
\<close>

theorem static_bundle_attestation_sound:
  assumes "spiffe_verify x now now_unix a credential = Inr identity" and "svid_sound x sig_ok aud_ok"
    and "sa_cache a = StaticCache bundle loaded_at tag"
  shows "\<exists>token. from_utf8 credential = Some token \<and> sig_ok bundle token \<and> aud_ok token (sa_expected_audience a)
    \<and> (\<forall>window. sa_max_staleness a = Some window \<longrightarrow> now \<le> loaded_at + window)"
proof -
  obtain token svid where t: "from_utf8 credential = Some token"
    "bundle_assert_fresh (sa_cache a) now (sa_max_staleness a) = Inr ()"
    "sp_parse_and_validate x now_unix token (bundle_for_trust_domain (sa_cache a)) [sa_expected_audience a] = Inr svid"
    using spiffe_verify_Inr [OF assms(1)] by metis
  from t(3) assms(2) have "(\<exists>td b. bundle_for_trust_domain (sa_cache a) td = Inr (Some b) \<and> sig_ok b token)
      \<and> aud_ok token (sa_expected_audience a)"
    unfolding svid_sound_def by fastforce
  then have "sig_ok bundle token" "aud_ok token (sa_expected_audience a)"
    by (auto simp: bundle_for_trust_domain_def assms(3) split: if_splits)
  moreover have "now \<le> loaded_at + window" if "sa_max_staleness a = Some window" for window
    using t(2) that by (auto simp: bundle_assert_fresh_def assms(3) split: if_splits)
  ultimately show ?thesis
    using t(1) by blast
qed

definition demo_bundle :: JwtBundle where
  "demo_bundle = JwtBundle ''demo.org'' [1]"

definition demo_spiffe :: spiffe_ext where
  "demo_spiffe = \<lparr>sp_core = demo_core,
     sp_parse_and_validate = (\<lambda>now token find auds. case find ''demo.org'' of
        Inr (Some bundle) \<Rightarrow> if bundle = demo_bundle \<and> ''yutha-demo'' \<in> set auds then Inr \<lparr>sv_spiffe_id = ''spiffe://demo.org/w'', sv_expiry = 2000\<rparr>
                             else Inl SvidInvalidAudience
      | Inr None \<Rightarrow> Inl BundleNotFound
      | Inl e \<Rightarrow> Inl (BundleSourceError e)),
     sp_trust_domain = Inr, sp_from_jwt_authorities = (\<lambda>td bs. Inr (JwtBundle td bs)),
     sp_base64url = (\<lambda>s. Some (as_bytes s)), sp_json = (\<lambda>_. Some (V_Object [])), sp_json_to_vec = (\<lambda>_. Inr [1]),
     sp_static_bundle = (\<lambda>_. Inl ''none''), sp_format = (\<lambda>_. Inr ''t''), sp_read = (\<lambda>_. Inl ''none''),
     sp_build_source = (\<lambda>_ _. Inl ''none'')\<rparr>"

definition demo_spiffe_attestor :: SpiffeAttestor where
  "demo_spiffe_attestor = \<lparr>sa_expected_audience = ''yutha-demo'', sa_clock_skew_tolerance = 0, sa_max_staleness = Some 50,
     sa_cache = StaticCache demo_bundle 0 ''static-file''\<rparr>"

lemma demo_svid_sound: "svid_sound demo_spiffe (\<lambda>b t. b = demo_bundle) (\<lambda>t aud. aud = ''yutha-demo'')"
  by (auto simp: svid_sound_def demo_spiffe_def split: sum.splits option.splits if_splits)

lemma demo_spiffe_verify:
  "\<exists>identity. spiffe_verify demo_spiffe 40 1000 demo_spiffe_attestor (as_bytes ''h.p.s'') = Inr identity"
  by (simp add: spiffe_verify_def demo_spiffe_attestor_def demo_spiffe_def demo_core_def from_utf8_def as_bytes_def
      bundle_assert_fresh_def bundle_for_trust_domain_def demo_bundle_def decode_extra_claims_def nth_segment_def
      in_the_future_def build_attested_identity_def offset_datetime_to_timestamp_def timestamp_new_def Let_def
      char_of_def bit_Suc_0_iff)

theorem static_bundle_attestation_sound_witness:
  "\<exists>token. from_utf8 (as_bytes ''h.p.s'') = Some token \<and> sa_expected_audience demo_spiffe_attestor = ''yutha-demo''
    \<and> sa_max_staleness demo_spiffe_attestor = Some 50 \<and> (40 :: nat) \<le> 0 + 50"
proof -
  obtain identity where "spiffe_verify demo_spiffe 40 1000 demo_spiffe_attestor (as_bytes ''h.p.s'') = Inr identity"
    using demo_spiffe_verify by blast
  from static_bundle_attestation_sound [OF this demo_svid_sound, of demo_bundle 0 "''static-file''"]
  show ?thesis
    by (auto simp: demo_spiffe_attestor_def)
qed

section \<open>Start-up\<close>

lemma non_empty_Some [simp]: "non_empty s = Some t \<longleftrightarrow> s = Some t \<and> t \<noteq> []"
  by (auto simp: non_empty_def Option.bind_eq_Some_conv split: if_splits)

lemma oidc_connect_config: "oidc_connect x net now config = Inr a \<Longrightarrow> oa_config a = config \<and> oidc_validate config = Inr ()"
  by (auto simp: oidc_connect_def rbind_eq_Inr)

lemma oidc_validate_https:
  "oidc_validate config = Inr () \<Longrightarrow> \<not> oc_allow_insecure_http config \<Longrightarrow> starts_with ''https://'' (oc_expected_issuer config)"
  by (auto simp: oidc_validate_def split: if_splits)

text \<open>
  The server starts with the OIDC attestor only on a configuration that names a non-empty issuer and
  audience and at most one of the two key sources, allows neither HMAC algorithms nor \<open>none\<close> in any
  spelling, and has an HTTPS issuer unless plain HTTP was asked for; the attestor then expects exactly
  that issuer and audience.
\<close>

theorem oidc_startup_checked:
  assumes "attestor_build sx jx net now OidcArg spiffe opts = Inr built"
  shows "\<exists>a issuer audience. built = BuiltOidc a \<and> oo_issuer opts = Some issuer \<and> issuer \<noteq> []
    \<and> oo_audience opts = Some audience \<and> audience \<noteq> [] \<and> (oo_jwks_uri opts = None \<or> oo_jwks_file opts = None)
    \<and> \<not> list_ex disallowed_alg (oo_allowed_algs opts) \<and> (oo_allow_insecure_http opts \<or> starts_with ''https://'' issuer)
    \<and> oc_expected_issuer (oa_config a) = issuer \<and> oc_expected_audience (oa_config a) = audience"
proof -
  from assms obtain a issuer audience config where built: "built = BuiltOidc a" "oo_issuer opts = Some issuer" "issuer \<noteq> []"
    "oo_audience opts = Some audience" "audience \<noteq> []" "oo_jwks_uri opts = None \<or> oo_jwks_file opts = None"
    and conn: "oidc_connect jx net now config = Inr a" and config: "oc_expected_issuer config = issuer"
    "oc_expected_audience config = audience" "oc_allowed_algs config = oo_allowed_algs opts"
    "oc_allow_insecure_http config = oo_allow_insecure_http opts"
    by (auto simp: build_oidc_attestor_def rbind_eq_Inr split: option.splits)
  from oidc_connect_config [OF conn] have "oa_config a = config" and valid: "oidc_validate config = Inr ()"
    by simp_all
  with built config oidc_validate_https [OF valid] oidc_validate_algs [OF valid] show ?thesis
    by (intro exI [of _ a] exI [of _ issuer] exI [of _ audience]) (auto simp: check_algs_Inr)
qed

definition demo_oidc_opts :: OidcCliOpts where
  "demo_oidc_opts = \<lparr>oo_issuer = Some ''https://idp'', oo_audience = Some ''yutha-demo'', oo_jwks_uri = Some ''https://idp/keys'',
     oo_jwks_file = None, oo_project_claims = [], oo_allowed_algs = [''RS256''], oo_cache_ttl_secs = 60,
     oo_max_staleness_secs = Some 120, oo_clock_skew_secs = 60, oo_connect_timeout_secs = 10, oo_allow_insecure_http = False\<rparr>"

theorem oidc_startup_checked_witness:
  "\<exists>a issuer audience. BuiltOidc demo_attestor = BuiltOidc a \<and> oo_issuer demo_oidc_opts = Some issuer \<and> issuer \<noteq> []
    \<and> oo_audience demo_oidc_opts = Some audience \<and> audience \<noteq> []
    \<and> (oo_jwks_uri demo_oidc_opts = None \<or> oo_jwks_file demo_oidc_opts = None)
    \<and> \<not> list_ex disallowed_alg (oo_allowed_algs demo_oidc_opts)
    \<and> (oo_allow_insecure_http demo_oidc_opts \<or> starts_with ''https://'' issuer)
    \<and> oc_expected_issuer (oa_config a) = issuer \<and> oc_expected_audience (oa_config a) = audience"
proof -
  have "attestor_build demo_spiffe demo_jwt (demo_net ''k1'') 0 OidcArg (spiffe_opts_from_cli cli_defaults) demo_oidc_opts
      = Inr (BuiltOidc demo_attestor)"
    using demo_connect
    by (simp add: build_oidc_attestor_def demo_oidc_opts_def non_empty_def demo_oidc_def)
  then show ?thesis
    by (rule oidc_startup_checked)
qed

section \<open>Registration with an attested identity\<close>

lemma reachable_verify_vouched:
  assumes "oidc_reachable x config N s" and "net \<in> N" and "jc_refresh_dedup (or_cache s) = None"
    and "fst (oidc_verify x net (or_clock s) now_secs (or_attestor s) credential) = Inr identity"
  shows "vouched x config N credential identity"
proof -
  let ?n = "length (or_tasks s)" and ?s = "oidc_step x (Verify credential) s"
  let ?s' = "oidc_exec x (replicate 9 (Advance ?n net now_secs)) ?s"
  have "oidc_reachable x config N ?s"
    using assms(1) by (intro oidc_reachable.stepped) simp_all
  from oidc_exec_for [OF oidc_reachable_inv [OF this], of "replicate 9 (Advance ?n net now_secs)" ?n credential] assms(2)
  have "task_for x config N credential (or_tasks ?s' ! ?n)"
    by (simp add: list_all_iff)
  moreover have view: "task_view ?n ?s' = (Answered (Inr identity), fst (snd (oidc_verify x net (or_clock s) now_secs (or_attestor s) credential)))"
    using advances_drive [of ?n ?s x 9 net now_secs] drive_Call [OF assms(3), where x = x and net = net] assms(4)
    by (simp add: task_view_def)
  ultimately show ?thesis
    by (simp add: task_view_def)
qed

text \<open>
  An agent that registers under the OIDC attestor is on record with an identity of the configured
  issuer: in whatever state the attestor is when no refresh is under way, a registration that succeeds leaves a
  registration receipt whose evidence names the attestor and an identity made of that issuer and a
  non-empty subject.
\<close>

theorem oidc_registration_recorded:
  assumes "oidc_reachable x config N s" and "net \<in> N" and "jc_refresh_dedup (or_cache s) = None" and "decode_sound x sig_ok"
    and "rgd_attestor dp = oidc_attestor x net (or_clock s) now_secs (or_attestor s)"
    and "registry_register dp ck p credential rg = (Inr out, rg')"
  shows "\<exists>h r sub. ro_registration_receipt out = Some h \<and> h = content_address (rgd_receipt_ctx dp) r
    \<and> get_receipt (rg_receipts rg') h \<noteq> None \<and> r_action_kind r = ''agent.register''
    \<and> evidence_new ''attested_external_identity'' ''type.yutha.dev/v1/String''
        (as_bytes (''oidc:'' @ oc_expected_issuer config @ '':'' @ sub)) \<in> set (r_evidence r)
    \<and> evidence_new ''attestor_id'' ''type.yutha.dev/v1/String'' (as_bytes ''oidc'') \<in> set (r_evidence r) \<and> sub \<noteq> []"
  using assms(6)
proof (cases rule: registry_register_Inr)
  case (1 identity h r)
  note f = build_signed_receipt_fields [OF 1(8) [unfolded build_registration_receipt_def]]
  have "vouched x config N credential identity"
    using reachable_verify_vouched [OF assms(1-3)] 1(4) by (simp add: assms(5) oidc_attestor_def)
  from vouched_sound [OF this run_inv_valid [OF oidc_reachable_inv [OF assms(1)]] assms(4)] obtain sub where
    "ai_external_identity identity = ''oidc:'' @ oc_expected_issuer config @ '':'' @ sub" "sub \<noteq> []"
    by blast
  with 1(7,9,10) f show ?thesis
    by (intro exI [of _ h] exI [of _ r] exI [of _ sub])
      (auto simp: registration_evidence_def assms(5) oidc_attestor_def accepted_outcome_def)
qed

lemma demo_guard: "jc_refresh_dedup (oa_cache demo_attestor) = None"
  by (simp add: demo_attestor_def)

definition demo_oidc_registry :: reg_deps where
  "demo_oidc_registry = demo_registry_deps\<lparr>rgd_attestor := oidc_attestor demo_jwt (demo_net ''k1'') 0 1000 demo_attestor\<rparr>"

lemma build_signed_receipt_attestor [simp]:
  "build_signed_receipt (dp\<lparr>rgd_attestor := at\<rparr>) = build_signed_receipt dp"
  by (simp add: fun_eq_iff build_signed_receipt_def)

lemma registry_record_attestor [simp]: "registry_record (dp\<lparr>rgd_attestor := at\<rparr>) = registry_record dp"
  by (auto simp: fun_eq_iff registry_record_def registry_append_def split: sum.split)

lemma demo_oidc_verify: "fst (oidc_verify demo_jwt (demo_net ''k1'') 0 1000 demo_attestor (as_bytes ''k1'')) = Inr demo_attested"
  by (simp add: demo_run_simps oidc_verify_def lookup_def demo_attested_def)

lemma demo_oidc_register:
  "\<exists>out rg'. registry_register demo_oidc_registry demo_clock (demo_passport (AgentId 4)) (as_bytes ''k1'') demo_registry = (Inr out, rg')"
proof -
  let ?p = "demo_passport (AgentId 4)"
  let ?ps = "demo_passports\<lparr>ps_live := hm_insert (AgentId 4) ?p (ps_live demo_passports)\<rparr>"
  let ?build = "build_registration_receipt demo_oidc_registry demo_clock ?p demo_attested ''oidc''"
  have "\<exists>h rg'. registry_record demo_registry_deps ?build (demo_registry\<lparr>rg_passports := ?ps\<rparr>) = (Inr h, rg')"
    unfolding build_registration_receipt_def
    by (simp only: demo_oidc_registry_def build_signed_receipt_attestor)
      (rule demo_registry_record, simp_all add: registration_evidence_def demo_passports_def)
  moreover have "registry_register demo_oidc_registry demo_clock ?p (as_bytes ''k1'') demo_registry =
      with_receipt (accepted_outcome (AgentId 4)) (registry_record demo_oidc_registry ?build (demo_registry\<lparr>rg_passports := ?ps\<rparr>))"
    using demo_passport_signed [of "AgentId 4"] demo_oidc_verify
    by (simp add: registry_register_def store_register_def Let_def demo_register_facts demo_oidc_registry_def oidc_attestor_def)
  ultimately show ?thesis
    by (auto simp: with_receipt_def demo_oidc_registry_def)
qed

theorem oidc_registration_recorded_witness:
  "\<exists>out rg' h r sub. registry_register demo_oidc_registry demo_clock (demo_passport (AgentId 4)) (as_bytes ''k1'') demo_registry = (Inr out, rg')
    \<and> ro_registration_receipt out = Some h \<and> h = content_address (rgd_receipt_ctx demo_oidc_registry) r \<and> get_receipt (rg_receipts rg') h \<noteq> None
    \<and> evidence_new ''attested_external_identity'' ''type.yutha.dev/v1/String''
        (as_bytes (''oidc:'' @ oc_expected_issuer demo_oidc @ '':'' @ sub)) \<in> set (r_evidence r)"
proof -
  obtain out rg' where reg: "registry_register demo_oidc_registry demo_clock (demo_passport (AgentId 4)) (as_bytes ''k1'') demo_registry = (Inr out, rg')"
    using demo_oidc_register by blast
  have at: "rgd_attestor demo_oidc_registry = oidc_attestor demo_jwt (demo_net ''k1'') (or_clock demo_start) 1000 (or_attestor demo_start)"
    by (simp add: demo_oidc_registry_def)
  have start: "demo_net ''k1'' \<in> {demo_net ''k1'', demo_net ''k1,k2''}" "jc_refresh_dedup (or_cache demo_start) = None"
    "oidc_reachable demo_jwt demo_oidc {demo_net ''k1'', demo_net ''k1,k2''} demo_start"
    using demo_reachable [of "[]"] by (simp_all add: demo_guard)
  from oidc_registration_recorded [OF start(3,1,2) demo_decode_sound at reg] obtain h r sub where
    "ro_registration_receipt out = Some h" "h = content_address (rgd_receipt_ctx demo_oidc_registry) r"
    "get_receipt (rg_receipts rg') h \<noteq> None"
    "evidence_new ''attested_external_identity'' ''type.yutha.dev/v1/String''
        (as_bytes (''oidc:'' @ oc_expected_issuer demo_oidc @ '':'' @ sub)) \<in> set (r_evidence r)"
    by blast
  with reg show ?thesis
    by (intro exI [of _ out] exI [of _ rg'] exI [of _ h] exI [of _ r] exI [of _ sub]) simp
qed

end
