(* ===== verification/Spec2Isabelle.thy ===== *)
theory Spec2Isabelle
  imports Access_Properties Seal_Properties Receipt_Properties Loop_Properties Validation_Properties
    Mediation_Properties Subscription_Properties Receipt_Service Replay_Properties Attestor_Properties
begin

text \<open>
  \<^bold>\<open>Verification of the Yutha control plane.\<close> Yutha is a substrate for swarms of agents. Agents are
  identified by passports, act under capabilities, exchange envelopes, and everything the control
  plane decides or observes is recorded in a log of signed, content-addressed receipts, which are
  sealed in Merkle batches. A constitution (Cedar policies and an engine configuration) governs the
  agents, and an enforcement engine reacts to the stream of receipts.

  \<^bold>\<open>Parts and how they interact.\<close> The receipt log is at the bottom: every other part builds receipts,
  signs them as the control plane and appends them. The capability store, the registry and the
  transport each own a state and write to the log; the services of the control plane authenticate a
  request, call one of them and translate the result to a status. The enforcement engine sees every
  appended receipt through a bounded channel, its effects are receipts again, and the capability
  store asks it whether an agent is quarantined. A send passes authentication, the capability check and
  the evaluation of the active constitution before it reaches the transport, and two tasks per
  subscription carry envelopes from the inbox to the client.

  \<^bold>\<open>Theories, with the sources under \<open>src/crates\<close>.\<close>
  \<^item> \<open>Prelude\<close>: results, machine integers, byte encodings, dictionaries (\<open>HashMap\<close>, \<open>BTreeMap\<close>) and the
    contracts of wire codecs, shared by all theories.
  \<^item> \<open>Core_Types\<close> (\<open>yutha-core\<close>, \<open>yutha-crypto\<close>): hashes, identifiers, signatures, timestamps, versions.
    \<open>Decimal_F64\<close>: the decimal numbers of capability bounds as 64-bit floating-point values.
    \<open>Scores\<close> (\<open>yutha-cedar-plus\<close>): trimming, integers, durations, fixed-precision scores.
  \<^item> \<open>Receipt\<close>, \<open>Merkle\<close>, \<open>Sealing\<close>, \<open>Receipt_Store\<close> (\<open>yutha-receipt\<close>): receipts and their signatures,
    Merkle batches, the batch preimage and the local sealer, the in-memory log. \<open>Receipt_Properties\<close>
    and \<open>Seal_Properties\<close> show that the log admits only verified receipts, is append-only, answers
    queries exactly, that proofs of batches verify, seals are permanent and encodings are injective.
  \<^item> \<open>Capability\<close>, \<open>Capability_Store\<close> (\<open>yutha-capability\<close>): scopes, caveats, the store with issue,
    attenuate, revoke and check. \<open>Capability_Properties\<close> and \<open>Authority_Properties\<close> show when a check
    permits, that authority never grows along a chain, that revocation is final.
  \<^item> \<open>Passport\<close> (\<open>yutha-passport\<close>), \<open>Registry\<close> (\<open>yutha-registry\<close>, \<open>yutha-attestor\<close>), \<open>Auth\<close> and
    \<open>Control_Plane\<close> (\<open>yutha-control-plane\<close>: \<open>auth.rs\<close>, \<open>grpc/admission.rs\<close>, \<open>grpc/capability.rs\<close>,
    \<open>grpc/error.rs\<close>): passports and their store, registration, bearer tokens, the request handlers on
    one shared state. \<open>Service_Runs\<close> composes them to runs of requests; \<open>Service_Properties\<close> and
    \<open>Access_Properties\<close> show who is authenticated, that registration is sound, that revoked agents
    stay locked out and that decisions are on record.
  \<^item> \<open>Envelope\<close>, \<open>Observation\<close>, \<open>Transport\<close> (\<open>yutha-transport\<close>): envelopes, the receipts by which the
    control plane records an observation, replay protection and the in-memory transport.
    \<open>Transport_Runs\<close> and \<open>Transport_Properties\<close> show that replay protection implements a window over
    the history of accepted envelopes, that a send reaches exactly its addressees and is logged, and
    that inboxes are bounded queues.
  \<^item> \<open>Engine_Config\<close>, \<open>Enforcement\<close> (\<open>yutha-cedar-plus\<close>: \<open>engine_config.rs\<close>, \<open>enforcement.rs\<close>) and
    \<open>Enforcement_Loop\<close> (\<open>yutha-control-plane\<close>: \<open>receipt_publisher.rs\<close>, \<open>quarantine_adapter.rs\<close>, tasks of
    \<open>main.rs\<close>): the enforcement engine and its loop with the log. \<open>Enforcement_Properties\<close> and
    \<open>Loop_Properties\<close> show the range of reputations, when a rule detects, that escalation and the
    loop end, and what a recorded quarantine or eviction does to the agent's capabilities.
  \<^item> \<open>Validation\<close>, \<open>Layer_B\<close>, \<open>Constitution_Engine\<close> (\<open>yutha-cedar-plus\<close>: \<open>validate.rs\<close>, \<open>layer_b.rs\<close>,
    \<open>scoring.rs\<close>, \<open>procedure.rs\<close>, \<open>loader.rs\<close>, \<open>eval.rs\<close>, \<open>evaluator.rs\<close>): what the loader checks, the policies
    synthesised for scores and procedures, and the evaluator with its active and its shadow slot.
    \<open>Validation_Properties\<close> and \<open>Constitution_Properties\<close> show that the search for escalation cycles
    decides acyclicity, that procedure instances are well typed, that a shadow only observes, that the
    digest of the inputs is taken over a complete canonical form, and on what Layer B depends.
  \<^item> \<open>Envelope_Service\<close>, \<open>Constitution_Service\<close>, \<open>Receipt_Service\<close> (\<open>grpc/envelope.rs\<close>, \<open>grpc/constitution.rs\<close>,
    \<open>grpc/receipt.rs\<close>): sending as two steps between which other requests run, the constitution
    handlers, reading the log. \<open>Mediation_Properties\<close> shows that no \<open>Send\<close> request reaches an inbox but through
    every check, that evaluator and enforcement engine follow the same constitution, and what the
    checks leave out.
  \<^item> \<open>Subscription\<close> (\<open>MemoryTransport::subscribe\<close>, \<open>subscribe\<close> of \<open>grpc/envelope.rs\<close>, \<open>mark_revoked\<close>): the two
    forwarder tasks of a stream, clients, senders, new subscriptions and revocations as interleaved
    events. \<open>Subscription_Properties\<close> shows order and conservation of envelopes, that a single stream
    delivers everything, which notifications a forwarder obeys, and that one that misses a revocation
    goes on delivering.
  \<^item> \<open>Replay_Store\<close> (\<open>yutha-receipt\<close>: \<open>replay_store.rs\<close>), \<open>Replay\<close> (\<open>yutha-replay\<close>), \<open>Replay_Service\<close>
    (\<open>grpc/replay.rs\<close>): previews of a candidate constitution on an engine and a receipt store of their
    own. Stores and session objects are shared handles, so they are addresses into lists of allocated
    objects; a run is a task whose iterations are steps. \<open>Replay_Runs\<close> and \<open>Replay_Properties\<close> show
    that production and other sessions are left alone, that session receipts are marked, that the
    streaming run computes what \<open>run_window\<close> does and ends, and where a preview differs from
    production.
  \<^item> \<open>Oidc\<close> (\<open>yutha-attestor-oidc\<close>), \<open>Spiffe\<close> (\<open>yutha-attestor-spiffe\<close>), \<open>Attestor_Startup\<close> (\<open>AttestorArg::build\<close> of
    \<open>main.rs\<close>): the two attestors for external identities and their construction. \<open>Oidc_Runs\<close> interleaves
    verifications and refreshes of the key cache, whose mutex is part of the state.
    \<open>Attestor_Properties\<close> shows what an attested identity rests on, that at most one refetch is in
    flight, that along every fair schedule every verification is answered (and that an unanswered fetch
    blocks the others), the caps on projected claims, what a registration
    records, and two defects of the refresh.
  \<^item> \<open>Samples\<close>: concrete inputs at which the properties are applied.

  \<^bold>\<open>Interfaces.\<close> The locales \<open>dictionary\<close>, \<open>wire_format\<close> and \<open>codec\<close> (\<open>Prelude\<close>), the contracts of the
  receipt log and of the capability store, \<open>kept_but_registration\<close> and its extension \<open>kept_by_operations\<close> (\<open>Service_Runs\<close>: what every
  request, registrations apart or included, keeps), \<open>simulates\<close> (\<open>Transport_Runs\<close>: forward simulation of call sequences), \<open>agent_invariant\<close>
  (\<open>Enforcement_Properties\<close>: invariants of agent entries) and \<open>replay_sessions\<close> (\<open>Replay_Store\<close>: the
  \<open>ReplayStore\<close> trait) are each interpreted on the definitions of
  the model.

  \<^bold>\<open>Conventions.\<close> A Rust string is the list of its UTF-8 bytes; error messages keep their literal part
  only, without the interpolated values, except those of the attestors, which are complete. \<open>Result\<close> is a sum type with \<open>Inl\<close> for the error. A \<open>HashMap\<close>
  is an association list with distinct keys whose order stands for the unspecified iteration order;
  theorems about an iteration speak of its set of results. Asynchronous functions and locks are
  sequential: a run is a sequence of complete operations. Four of them are split where
  interleaving matters: a send between its two reads of the constitution slots, a subscription into the
  steps of its tasks between suspension points, a replay run into the iterations of its loop, an OIDC
  verification and a refresh of its keys at every lock and fetch; one poll of a \<open>select!\<close> is atomic. Elsewhere the awaits inside an operation are
  not suspension points of the model: an activation updates evaluator and engine in one step, and playing one
  receipt of a replay session is one step, although two runs of one session could interleave inside it.
  Clock readings and fresh identifiers are
  inputs. Unsigned integers are words of their width and wrap as in a release build; \<open>i64\<close> values are
  integers with the wrap-around written out; lengths and depths are natural numbers.

  \<^bold>\<open>Parameters.\<close> Third-party code is an argument of the definitions: SHA-256 and Ed25519, the RFC 3339
  parser and formatter, the protobuf encoders (\<open>prost\<close>), the hexadecimal decoder, the
  signers, token decoding (\<open>jsonwebtoken\<close>, \<open>jwks\<close>, \<open>spiffe\<close>), base64, the answers of HTTP servers and files, the display form of identifiers (\<open>uuid\<close>), the JSON encoder (\<open>serde_json\<close>), the YAML
  parser, the Cedar parser, validator and authorizer (\<open>cedar-policy\<close>) and the addition of durations to RFC 3339 texts (\<open>time\<close>). The theorems hold for all of them; where a property of one
  is needed it is a hypothesis, and the witness instantiates it.

  \<^bold>\<open>Termination.\<close> All functions are total. The chain walk of the capability store ends at the depth
  limit, the levels of a Merkle tree shrink, trimming shortens the text, and draining the receipt
  channel decreases a weight in which an enforcement receipt counts one and any other receipt one
  more than the number of enforcement rules. The depth-first search for escalation cycles has fuel one
  more than the number of procedures, and it is proved that the search never runs out of it. The
  liveness theorem on streams is about every schedule of the tasks of one stream and its client. A replay
  run ends after two steps more than the log has receipts. A verification takes at most nine steps of its
  own; the weight of the tasks, which counts the refresh a verification may spawn, decreases with every step that is
  not an idle poll. A fetch is answered by the step of its task; that it is answered at all is the fairness
  hypothesis of the liveness theorem, since the code limits the time to connect only.

  \<^bold>\<open>Not modelled.\<close> Network I/O, command lines and process start-up (\<open>yutha-ops\<close>, most of \<open>main.rs\<close>); the
  remote signers (network clients); the PostgreSQL store, blob
  stores and chain anchors (behaviour in SQL and remote services); the Cedar policy engine
  (third-party); conformance scenarios, simulator and diff, which drive the modelled
  components.
\<close>

end
